(* ===== verification/Prelude.thy ===== *)
theory Prelude
  imports Complex_Main
begin

text \<open>
  Shared vocabulary of the development: the types that stand for Python values that occur
  everywhere (identifiers, instants, floats, JSON documents), the list-backed tables that
  stand for the SQL tables, and the generic lemmas and the interface (a locale) the component
  theories use them through.
\<close>

section \<open>Names of types\<close>

text \<open>
  A UUID is a natural number: the code only compares UUIDs and draws fresh ones
  (\<open>uuid.uuid4\<close>).  A \<open>datetime\<close> is the number of microseconds since the epoch, the
  resolution Python keeps.  A float is a rational: every constant of the modelled code is
  a dyadic rational or is only compared, and rounding is not modelled.
\<close>

type_synonym uuid = nat
type_synonym datetime = int
type_synonym pyfloat = rat

definition seconds :: "int \<Rightarrow> datetime" where
  "seconds n = n * 1000000"

definition minutes :: "int \<Rightarrow> datetime" where
  "minutes n = seconds (60 * n)"

definition hours :: "int \<Rightarrow> datetime" where
  "hours n = minutes (60 * n)"

definition days :: "int \<Rightarrow> datetime" where
  "days n = hours (24 * n)"

named_theorems time_simps \<open>units of time as numbers of microseconds\<close>

lemma seconds_eq [time_simps]: "seconds n = n * 1000000"
  by (simp add: seconds_def)

lemma minutes_eq [time_simps]: "minutes n = n * 60000000"
  by (simp add: minutes_def seconds_def)

lemma hours_eq [time_simps]: "hours n = n * 3600000000"
  by (simp add: hours_def minutes_eq)

lemma days_eq [time_simps]: "days n = n * 86400000000"
  by (simp add: days_def hours_eq)

text \<open>JSON documents: the \<open>dict\<close> values the code stores in JSON columns and queues.\<close>

datatype json =
    JNull
  | JBool bool
  | JInt int
  | JFloat pyfloat
  | JStr string
  | JList "json list"
  | JObj "(string \<times> json) list"

text \<open>An optional value in a document: \<open>None\<close> is \<open>null\<close>.\<close>

definition json_opt :: "json option \<Rightarrow> json" where
  "json_opt j = (case j of None \<Rightarrow> JNull | Some v \<Rightarrow> v)"

text \<open>\<open>d.get(key)\<close> and \<open>d[key] = v\<close> on a document that is an object.\<close>

definition json_get :: "string \<Rightarrow> json \<Rightarrow> json option" where
  "json_get key j = (case j of JObj kvs \<Rightarrow> map_of kvs key | _ \<Rightarrow> None)"

fun assoc_set :: "'k \<Rightarrow> 'v \<Rightarrow> ('k \<times> 'v) list \<Rightarrow> ('k \<times> 'v) list" where
  "assoc_set k v [] = [(k, v)]"
| "assoc_set k v ((k', v') # kvs) = (if k' = k then (k, v) # kvs else (k', v') # assoc_set k v kvs)"

definition json_set :: "string \<Rightarrow> json \<Rightarrow> json \<Rightarrow> json" where
  "json_set key v j = (case j of JObj kvs \<Rightarrow> JObj (assoc_set key v kvs) | _ \<Rightarrow> j)"

lemma map_of_assoc_set: "map_of (assoc_set k v kvs) = (map_of kvs)(k \<mapsto> v)"
  by (induction kvs) (auto simp: fun_eq_iff)

lemma json_get_assoc_set [simp]:
  "json_get k (JObj (assoc_set k' v kvs)) = (if k = k' then Some v else json_get k (JObj kvs))"
  by (simp add: json_get_def map_of_assoc_set)

section \<open>Optional values\<close>

text \<open>Python's \<open>a or b\<close> on optional values that are never falsy when present.\<close>

definition or_else :: "'a option \<Rightarrow> 'a option \<Rightarrow> 'a option" where
  "or_else a b = (case a of Some x \<Rightarrow> Some x | None \<Rightarrow> b)"

lemma or_else_simps [simp]:
  "or_else (Some x) b = Some x" "or_else None b = b" "or_else a None = a"
  by (simp_all add: or_else_def split: option.splits)

text \<open>The assignment guarded by \<open>if value is not None\<close>, as a function of the old value.\<close>

definition set_if :: "'a option \<Rightarrow> 'a \<Rightarrow> 'a" where
  "set_if new old = (case new of Some v \<Rightarrow> v | None \<Rightarrow> old)"

lemma set_if_simps [simp]: "set_if None x = x" "set_if (Some v) x = v"
  by (simp_all add: set_if_def)

section \<open>Tables\<close>

text \<open>
  A table is the list of its rows in insertion order; \<open>key\<close> reads a row's primary key.
  \<open>tbl_get\<close> is \<open>db.get\<close>, \<open>tbl_update\<close> assigns attributes of the row with a given key,
  \<open>tbl_where\<close> does so for every row a query selects, \<open>tbl_delete\<close> is \<open>db.delete\<close>.
\<close>

definition tbl_get :: "('r \<Rightarrow> 'k) \<Rightarrow> 'r list \<Rightarrow> 'k \<Rightarrow> 'r option" where
  "tbl_get key rows k = find (\<lambda>r. key r = k) rows"

definition tbl_update :: "('r \<Rightarrow> 'k) \<Rightarrow> 'k \<Rightarrow> ('r \<Rightarrow> 'r) \<Rightarrow> 'r list \<Rightarrow> 'r list" where
  "tbl_update key k f rows = map (\<lambda>r. if key r = k then f r else r) rows"

definition tbl_where :: "('r \<Rightarrow> bool) \<Rightarrow> ('r \<Rightarrow> 'r) \<Rightarrow> 'r list \<Rightarrow> 'r list" where
  "tbl_where p f rows = map (\<lambda>r. if p r then f r else r) rows"

definition tbl_delete :: "('r \<Rightarrow> 'k) \<Rightarrow> 'k \<Rightarrow> 'r list \<Rightarrow> 'r list" where
  "tbl_delete key k rows = filter (\<lambda>r. key r \<noteq> k) rows"

text \<open>\<open>order_by(...).limit(1)\<close> descending: the first row with the largest measure.\<close>

fun first_max :: "('r \<Rightarrow> 'm::linorder) \<Rightarrow> 'r list \<Rightarrow> 'r option" where
  "first_max m [] = None"
| "first_max m (r # rs) =
     (case first_max m rs of None \<Rightarrow> Some r | Some r' \<Rightarrow> if m r' > m r then Some r' else Some r)"

named_theorems table_simps \<open>how the table operations act on lookups\<close>

lemma tbl_get_Nil [simp]: "tbl_get key [] k = None"
  by (simp add: tbl_get_def)

lemma tbl_get_Cons [simp]:
  "tbl_get key (r # rs) k = (if key r = k then Some r else tbl_get key rs k)"
  by (simp add: tbl_get_def)

lemma tbl_get_SomeD: "tbl_get key rows k = Some r \<Longrightarrow> key r = k \<and> r \<in> set rows"
  by (auto simp: tbl_get_def find_Some_iff)

lemma tbl_get_key: "tbl_get key rows k = Some r \<Longrightarrow> key r = k"
  by (blast dest: tbl_get_SomeD)

lemma tbl_get_in: "tbl_get key rows k = Some r \<Longrightarrow> r \<in> set rows"
  by (blast dest: tbl_get_SomeD)

lemma tbl_get_None_iff: "tbl_get key rows k = None \<longleftrightarrow> k \<notin> key ` set rows"
  by (auto simp: tbl_get_def find_None_iff image_iff)

lemma tbl_get_append [simp]:
  "tbl_get key (rs @ [r]) k =
     (case tbl_get key rs k of Some r' \<Rightarrow> Some r' | None \<Rightarrow> if key r = k then Some r else None)"
  by (induction rs) auto

lemma tbl_get_update [table_simps]:
  assumes "\<And>r. key (f r) = key r"
  shows "tbl_get key (tbl_update key k f rows) k' =
    (if k' = k then map_option f (tbl_get key rows k) else tbl_get key rows k')"
  using assms by (induction rows) (auto simp: tbl_update_def)

lemma tbl_update_Nil [simp]: "tbl_update key k f [] = []"
  by (simp add: tbl_update_def)

lemma tbl_update_Cons [simp]:
  "tbl_update key k f (r # rs) = (if key r = k then f r else r) # tbl_update key k f rs"
  by (simp add: tbl_update_def)

lemma length_tbl_update [simp]: "length (tbl_update key k f rows) = length rows"
  by (simp add: tbl_update_def)

lemma map_key_tbl_update:
  "(\<And>r. key (f r) = key r) \<Longrightarrow> map key (tbl_update key k f rows) = map key rows"
  by (induction rows) auto

lemma in_tbl_update:
  "r \<in> set (tbl_update key k f rows) \<longleftrightarrow>
     (\<exists>r0 \<in> set rows. r = (if key r0 = k then f r0 else r0))"
  by (simp only: tbl_update_def set_map image_iff)

lemma tbl_where_Nil [simp]: "tbl_where p f [] = []"
  by (simp add: tbl_where_def)

lemma tbl_where_Cons [simp]:
  "tbl_where p f (r # rs) = (if p r then f r else r) # tbl_where p f rs"
  by (simp add: tbl_where_def)

lemma length_tbl_where [simp]: "length (tbl_where p f rows) = length rows"
  by (simp add: tbl_where_def)

lemma tbl_get_where [table_simps]:
  assumes "\<And>r. key (f r) = key r"
  shows "tbl_get key (tbl_where p f rows) k =
    map_option (\<lambda>r. if p r then f r else r) (tbl_get key rows k)"
  using assms by (induction rows) auto

lemma in_tbl_where:
  "r \<in> set (tbl_where p f rows) \<longleftrightarrow> (\<exists>r0 \<in> set rows. r = (if p r0 then f r0 else r0))"
  by (simp only: tbl_where_def set_map image_iff)

lemma tbl_where_idem:
  "(\<And>r. p r \<Longrightarrow> \<not> p (f r)) \<Longrightarrow> tbl_where p f (tbl_where p f rows) = tbl_where p f rows"
  by (induction rows) auto

lemma filter_tbl_where_none:
  "(\<And>r. p r \<Longrightarrow> \<not> p (f r)) \<Longrightarrow> filter p (tbl_where p f rows) = []"
  by (induction rows) auto

lemma tbl_get_delete [table_simps]:
  "tbl_get key (tbl_delete key k rows) k' = (if k' = k then None else tbl_get key rows k')"
  by (induction rows) (auto simp: tbl_delete_def)

lemma first_max_in: "first_max m rs = Some r \<Longrightarrow> r \<in> set rs"
  by (induction rs arbitrary: r) (auto split: option.splits if_splits)

lemma first_max_None [simp]: "first_max m rs = None \<longleftrightarrow> rs = []"
  by (cases rs) (auto split: option.splits)

lemma first_max_ge: "first_max m rs = Some r \<Longrightarrow> x \<in> set rs \<Longrightarrow> m x \<le> m r"
proof (induction rs arbitrary: r)
  case (Cons a rs)
  then show ?case
  proof (cases "first_max m rs")
    case (Some b)
    with Cons show ?thesis by (force split: if_splits)
  qed (auto split: if_splits)
qed simp

section \<open>The table interface\<close>

text \<open>
  What a component relies on when it reads and writes rows of one table of the database:
  \<open>get\<close> is \<open>db.get\<close>, \<open>upd\<close> assigns attributes of the row with a key, \<open>add\<close> is \<open>db.add\<close>;
  \<open>stamp\<close> says what an assignment makes of a row (a table with an \<open>onupdate\<close> column also
  refreshes it).  The theory \<open>Store\<close> interprets it for the tables of the program.
\<close>

locale table =
  fixes get :: "'db \<Rightarrow> 'k \<Rightarrow> 'r option"
    and upd :: "'k \<Rightarrow> ('r \<Rightarrow> 'r) \<Rightarrow> 'db \<Rightarrow> 'db"
    and add :: "'r \<Rightarrow> 'db \<Rightarrow> 'db"
    and key :: "'r \<Rightarrow> 'k"
    and stamp :: "'db \<Rightarrow> ('r \<Rightarrow> 'r) \<Rightarrow> 'r \<Rightarrow> 'r"
  assumes get_key: "get db k = Some r \<Longrightarrow> key r = k"
    and get_upd: "(\<And>r. key (f r) = key r) \<Longrightarrow>
      get (upd k f db) k' = (if k' = k then map_option (stamp db f) (get db k) else get db k')"
    and get_add: "get (add r db) k =
      (case get db k of Some r' \<Rightarrow> Some r' | None \<Rightarrow> if key r = k then Some r else None)"
    and stamp_upd: "stamp (upd k f db) g = stamp db g"
begin

lemma get_upd_same:
  "(\<And>r. key (f r) = key r) \<Longrightarrow> get db k = Some r \<Longrightarrow>
     get (upd k f db) k = Some (stamp db f r)"
  by (simp add: get_upd)

lemma get_upd_other:
  "(\<And>r. key (f r) = key r) \<Longrightarrow> k' \<noteq> k \<Longrightarrow> get (upd k f db) k' = get db k'"
  by (simp add: get_upd)

lemma get_upd_None_iff:
  "(\<And>r. key (f r) = key r) \<Longrightarrow> get (upd k f db) k' = None \<longleftrightarrow> get db k' = None"
  by (simp add: get_upd)

lemma get_add_fresh: "get db (key r) = None \<Longrightarrow> get (add r db) (key r) = Some r"
  by (simp add: get_add)

lemma get_add_other: "k \<noteq> key r \<Longrightarrow> get (add r db) k = get db k"
  by (simp add: get_add split: option.splits)

lemma get_add_keeps: "get db k = Some r' \<Longrightarrow> get (add r db) k = Some r'"
  by (simp add: get_add)

text \<open>A loop that updates the rows of a list of keys touches those rows only, each once.\<close>

lemma get_fold_upd:
  assumes "\<And>r. key (f r) = key r" and "distinct ks"
  shows "get (fold (\<lambda>k. upd k f) ks db) k =
    (if k \<in> set ks then map_option (stamp db f) (get db k) else get db k)"
  using assms(2)
proof (induction ks arbitrary: db)
  case (Cons k' ks)
  then show ?case by (auto simp: get_upd [OF assms(1)] stamp_upd)
qed simp

end

end
