(* ===== verification/Py_Text.thy ===== *)
theory Py_Text
  imports Prelude
begin

text \<open>
  The operations of Python's \<open>str\<close> the program uses.  A string is the list of its code
  points; a \<open>char\<close> is a code point below 256 (Latin-1), which holds every character the
  modelled constants use except the em dash of a few log texts, written as a hyphen here.
  On that range the definitions below agree with CPython's \<open>str.lower\<close>, \<open>str.strip\<close>,
  \<open>str.isspace\<close>, \<open>str.split\<close>, \<open>in\<close>, slicing and the classes \<open>\s\<close> and \<open>\w\<close> of \<open>re\<close>.
\<close>

named_theorems text_simps \<open>algebra of the string operations\<close>

section \<open>Characters\<close>

definition ord_of :: "char \<Rightarrow> nat" where
  "ord_of c = of_char c"

definition py_space :: "char \<Rightarrow> bool" where
  "py_space c = (let n = ord_of c in
     9 \<le> n \<and> n \<le> 13 \<or> 28 \<le> n \<and> n \<le> 32 \<or> n = 133 \<or> n = 160)"

definition upper_code :: "nat \<Rightarrow> bool" where
  "upper_code n = (65 \<le> n \<and> n \<le> 90 \<or> 192 \<le> n \<and> n \<le> 222 \<and> n \<noteq> 215)"

definition lower_char :: "char \<Rightarrow> char" where
  "lower_char c = (if upper_code (ord_of c) then char_of (ord_of c + 32) else c)"

definition word_char :: "char \<Rightarrow> bool" where
  "word_char c = (let n = ord_of c in
     48 \<le> n \<and> n \<le> 57 \<or> 65 \<le> n \<and> n \<le> 90 \<or> n = 95 \<or> 97 \<le> n \<and> n \<le> 122 \<or>
     n = 170 \<or> n = 178 \<or> n = 179 \<or> n = 181 \<or> n = 185 \<or> n = 186 \<or> 188 \<le> n \<and> n \<le> 190 \<or>
     192 \<le> n \<and> n \<noteq> 215 \<and> n \<noteq> 247)"

lemma ord_of_less: "ord_of c < 256"
  by (simp add: ord_of_def)

lemma ord_of_eq_iff: "ord_of c = ord_of d \<longleftrightarrow> c = d"
  by (simp add: ord_of_def)

lemma ord_of_lower:
  "ord_of (lower_char c) = (if upper_code (ord_of c) then ord_of c + 32 else ord_of c)"
  by (auto simp: lower_char_def ord_of_def upper_code_def)

lemma lower_char_idem [simp]: "lower_char (lower_char c) = lower_char c"
proof -
  have "\<not> upper_code (ord_of (lower_char c))"
    by (auto simp: ord_of_lower upper_code_def)
  then show ?thesis by (simp add: lower_char_def [of "lower_char c"])
qed

lemma py_space_lower [simp]: "py_space (lower_char c) = py_space c"
  by (auto simp: py_space_def Let_def ord_of_lower upper_code_def)

section \<open>Strings\<close>

definition lower :: "string \<Rightarrow> string" where
  "lower s = map lower_char s"

definition lstrip :: "string \<Rightarrow> string" where
  "lstrip s = dropWhile py_space s"

definition rstrip_where :: "(char \<Rightarrow> bool) \<Rightarrow> string \<Rightarrow> string" where
  "rstrip_where p s = rev (dropWhile p (rev s))"

definition strip :: "string \<Rightarrow> string" where
  "strip s = rstrip_where py_space (lstrip s)"

definition starts_with :: "string \<Rightarrow> string \<Rightarrow> bool" where
  "starts_with p s = (take (length p) s = p)"

definition ends_with :: "string \<Rightarrow> string \<Rightarrow> bool" where
  "ends_with p s = starts_with (rev p) (rev s)"

fun contains :: "string \<Rightarrow> string \<Rightarrow> bool" where
  "contains p [] = (p = [])"
| "contains p (c # s) = (starts_with p (c # s) \<or> contains p s)"

text \<open>\<open>value or ""\<close> and the truth value of an optional string.\<close>

definition text_or_empty :: "string option \<Rightarrow> string" where
  "text_or_empty v = (case v of Some s \<Rightarrow> s | None \<Rightarrow> [])"

definition truthy :: "string option \<Rightarrow> bool" where
  "truthy v = (case v of Some s \<Rightarrow> s \<noteq> [] | None \<Rightarrow> False)"

text \<open>\<open>s or None\<close>: the empty string becomes \<open>None\<close>.\<close>

definition none_if_empty :: "string \<Rightarrow> string option" where
  "none_if_empty s = (if s = [] then None else Some s)"

text \<open>\<open>a or b\<close> on optional strings: a falsy \<open>a\<close> gives \<open>b\<close>.\<close>

definition text_or :: "string option \<Rightarrow> string option \<Rightarrow> string option" where
  "text_or a b = (if truthy a then a else b)"

text \<open>\<open>s.split()\<close>: the maximal runs of non-space characters.\<close>

fun split_words :: "string \<Rightarrow> string \<Rightarrow> string list" where
  "split_words acc [] = (if acc = [] then [] else [rev acc])"
| "split_words acc (c # s) =
     (if py_space c then (if acc = [] then split_words [] s else rev acc # split_words [] s)
      else split_words (c # acc) s)"

definition split :: "string \<Rightarrow> string list" where
  "split s = split_words [] s"

text \<open>\<open>s.split(c)\<close> on one character.\<close>

fun split_on :: "char \<Rightarrow> string \<Rightarrow> string list" where
  "split_on c [] = [[]]"
| "split_on c (d # s) =
     (if d = c then [] # split_on c s
      else (case split_on c s of [] \<Rightarrow> [[d]] | w # ws \<Rightarrow> (d # w) # ws))"

definition remove_char :: "char \<Rightarrow> string \<Rightarrow> string" where
  "remove_char c s = filter (\<lambda>d. d \<noteq> c) s"

text \<open>\<open>sep.join(parts)\<close>.\<close>

fun join :: "string \<Rightarrow> string list \<Rightarrow> string" where
  "join sep [] = []"
| "join sep [s] = s"
| "join sep (s # t # ss) = s @ sep @ join sep (t # ss)"

text \<open>\<open>str(n)\<close> for a natural number.\<close>

fun digit_rev :: "nat \<Rightarrow> string" where
  "digit_rev n = (if n < 10 then [char_of (48 + n)]
     else char_of (48 + n mod 10) # digit_rev (n div 10))"

declare digit_rev.simps [simp del]

definition nat_str :: "nat \<Rightarrow> string" where
  "nat_str n = rev (digit_rev n)"

definition int_str :: "int \<Rightarrow> string" where
  "int_str n = (if n < 0 then CHR ''-'' # nat_str (nat (- n)) else nat_str (nat n))"

text \<open>\<open>format(x, ".0f")\<close> (round half to even, keeping the sign of a zero) and \<open>".0%"\<close>.\<close>

definition round_half_even :: "pyfloat \<Rightarrow> int" where
  "round_half_even x =
     (let f = \<lfloor>x\<rfloor>; d = x - of_int f
      in if d < 1 / 2 then f else if 1 / 2 < d then f + 1 else if even f then f else f + 1)"

definition format_0f :: "pyfloat \<Rightarrow> string" where
  "format_0f x =
     (let n = round_half_even x in if n = 0 \<and> x < 0 then ''-0'' else int_str n)"

definition format_pct :: "pyfloat \<Rightarrow> string" where
  "format_pct x = format_0f (100 * x) @ ''%''"

text \<open>\<open>str(uuid)\<close>: 32 hexadecimal digits in groups of 8, 4, 4, 4 and 12.\<close>

definition hex_digit :: "nat \<Rightarrow> char" where
  "hex_digit n = (if n < 10 then char_of (48 + n) else char_of (87 + n))"

fun hex_rev :: "nat \<Rightarrow> string" where
  "hex_rev n = (if n < 16 then [hex_digit n] else hex_digit (n mod 16) # hex_rev (n div 16))"

declare hex_rev.simps [simp del]

definition uuid_hex :: "uuid \<Rightarrow> string" where
  "uuid_hex n = (let h = rev (hex_rev n) in replicate (32 - length h) (CHR ''0'') @ h)"

definition uuid_str :: "uuid \<Rightarrow> string" where
  "uuid_str n = (let h = uuid_hex n in
     take 8 h @ ''-'' @ take 4 (drop 8 h) @ ''-'' @ take 4 (drop 12 h) @ ''-''
     @ take 4 (drop 16 h) @ ''-'' @ drop 20 h)"

section \<open>Algebra\<close>

lemma truthy_simps [simp]: "truthy None = False" "truthy (Some s) = (s \<noteq> [])"
  by (simp_all add: truthy_def)

lemma truthy_none_if_empty [simp]: "truthy (none_if_empty s) = (s \<noteq> [])"
  by (simp add: none_if_empty_def)

lemma truthyE: "truthy v \<Longrightarrow> (\<And>s. v = Some s \<Longrightarrow> s \<noteq> [] \<Longrightarrow> P) \<Longrightarrow> P"
  by (cases v) auto

lemma none_if_empty_Some_iff [simp]: "none_if_empty s = Some t \<longleftrightarrow> s = t \<and> t \<noteq> []"
  by (auto simp: none_if_empty_def)

lemma text_or_empty_simps [simp]: "text_or_empty None = []" "text_or_empty (Some s) = s"
  by (simp_all add: text_or_empty_def)

lemma lower_idem [simp]: "lower (lower s) = lower s"
  by (simp add: lower_def)

lemma lower_Nil_iff [simp]: "lower s = [] \<longleftrightarrow> s = []"
  by (simp add: lower_def)

lemma lower_append: "lower (s @ t) = lower s @ lower t"
  by (simp add: lower_def)

lemma rstrip_where_snoc [simp]:
  "rstrip_where p (s @ [c]) = (if p c then rstrip_where p s else s @ [c])"
  by (simp add: rstrip_where_def)

lemma rstrip_where_Nil [simp]: "rstrip_where p [] = []"
  by (simp add: rstrip_where_def)

lemma rstrip_where_idem [simp]: "rstrip_where p (rstrip_where p s) = rstrip_where p s"
  by (induction s rule: rev_induct) auto

lemma rstrip_where_hd:
  "s \<noteq> [] \<Longrightarrow> \<not> p (hd s) \<Longrightarrow> rstrip_where p s \<noteq> [] \<and> hd (rstrip_where p s) = hd s"
proof (induction s rule: rev_induct)
  case (snoc c s)
  then show ?case
    using rstrip_where_snoc [of p "[]" c] by (cases "s = []") (auto simp del: rstrip_where_snoc simp: rstrip_where_snoc hd_append)
qed simp

lemma rstrip_where_map:
  "(\<And>c. p (f c) = p c) \<Longrightarrow> rstrip_where p (map f s) = map f (rstrip_where p s)"
  by (induction s rule: rev_induct) auto

lemma lstrip_idem [simp]: "lstrip (lstrip s) = lstrip s"
  by (simp add: lstrip_def dropWhile_idem)

lemma lstrip_Cons: "lstrip (c # s) = (if py_space c then lstrip s else c # s)"
  by (simp add: lstrip_def)

lemma lstrip_cases: "lstrip s = [] \<or> (lstrip s \<noteq> [] \<and> \<not> py_space (hd (lstrip s)))"
  using hd_dropWhile [of py_space s] by (auto simp: lstrip_def)

lemma lstrip_fixed: "s = [] \<or> \<not> py_space (hd s) \<Longrightarrow> lstrip s = s"
  by (cases s) (auto simp: lstrip_Cons lstrip_def)

lemma strip_idem [simp]: "strip (strip s) = strip s"
proof -
  have "lstrip (strip s) = strip s"
    using lstrip_cases [of s] rstrip_where_hd [of "lstrip s" py_space]
    by (auto simp: strip_def intro!: lstrip_fixed)
  then show ?thesis by (simp add: strip_def)
qed

lemma lstrip_lower: "lstrip (lower s) = lower (lstrip s)"
  by (induction s) (simp_all add: lstrip_def lower_def)

lemma strip_lower [text_simps]: "strip (lower s) = lower (strip s)"
  by (simp add: strip_def lstrip_lower) (simp add: lower_def rstrip_where_map)

lemma strip_Nil [simp]: "strip [] = []"
  by (simp add: strip_def lstrip_def)

lemma starts_with_Nil [simp]: "starts_with [] s"
  by (simp add: starts_with_def)

lemma starts_with_append [simp]: "starts_with p (p @ s)"
  by (simp add: starts_with_def)

lemma starts_with_Cons [simp]:
  "starts_with (c # p) (d # s) = (d = c \<and> starts_with p s)"
  "starts_with (c # p) [] = False"
  by (auto simp: starts_with_def)

lemma starts_with_iff: "starts_with p s \<longleftrightarrow> (\<exists>t. s = p @ t)"
  by (metis append_take_drop_id starts_with_append starts_with_def)

lemma contains_iff: "contains p s \<longleftrightarrow> (\<exists>a b. s = a @ p @ b)"
proof (induction s)
  case (Cons c s)
  show ?case
  proof
    assume "contains p (c # s)"
    then consider b where "c # s = p @ b" | a b where "s = a @ p @ b"
      using Cons by (auto simp: starts_with_iff)
    then show "\<exists>a b. c # s = a @ p @ b"
    proof cases
      case (1 b)
      then have "c # s = [] @ p @ b" by simp
      then show ?thesis by blast
    next
      case (2 a b)
      then have "c # s = (c # a) @ p @ b" by simp
      then show ?thesis by blast
    qed
  next
    assume "\<exists>a b. c # s = a @ p @ b"
    then obtain a b where ab: "c # s = a @ p @ b" by blast
    show "contains p (c # s)"
    proof (cases a)
      case Nil
      with ab have "starts_with p (c # s)" by (simp add: starts_with_iff)
      then show ?thesis by simp
    next
      case (Cons d a')
      with ab have "s = a' @ p @ b" by simp
      with \<open>contains p s = (\<exists>a b. s = a @ p @ b)\<close> show ?thesis by auto
    qed
  qed
qed simp

lemma contains_append [simp]: "contains p (a @ p @ b)"
  by (auto simp: contains_iff)

lemma remove_char_not_in [simp]: "c \<notin> set (remove_char c s)"
  by (simp add: remove_char_def)

lemma set_remove_char: "set (remove_char c s) = set s - {c}"
  by (auto simp: remove_char_def)

lemma split_words_no_space:
  "\<forall>c \<in> set acc. \<not> py_space c \<Longrightarrow> w \<in> set (split_words acc s) \<Longrightarrow>
     w \<noteq> [] \<and> (\<forall>c \<in> set w. \<not> py_space c)"
proof (induction s arbitrary: acc)
  case (Cons c s)
  show ?case
  proof (cases "py_space c")
    case True
    with Cons.prems have "w = rev acc \<and> acc \<noteq> [] \<or> w \<in> set (split_words [] s)"
      by (auto split: if_splits)
    with Cons.IH [of "[]"] Cons.prems(1) show ?thesis by auto
  next
    case False
    with Cons.IH [of "c # acc"] Cons.prems show ?thesis by simp
  qed
qed (auto split: if_splits)

lemma split_no_space: "w \<in> set (split s) \<Longrightarrow> w \<noteq> [] \<and> (\<forall>c \<in> set w. \<not> py_space c)"
  unfolding split_def by (rule split_words_no_space) auto

lemma strip_no_space: "\<forall>c \<in> set w. \<not> py_space c \<Longrightarrow> strip w = w"
proof -
  assume ns: "\<forall>c \<in> set w. \<not> py_space c"
  then have "lstrip w = w" by (cases w) (auto simp: lstrip_def)
  moreover have "rstrip_where py_space w = w"
    using ns by (cases w rule: rev_cases) auto
  ultimately show ?thesis by (simp add: strip_def)
qed

text \<open>Splitting what was joined with single spaces gives the words back.\<close>

lemma split_words_word:
  "\<forall>c \<in> set w. \<not> py_space c \<Longrightarrow> split_words acc (w @ s) = split_words (rev w @ acc) s"
  by (induction w arbitrary: acc) auto

lemma split_join:
  "\<forall>w \<in> set ws. w \<noteq> [] \<and> (\<forall>c \<in> set w. \<not> py_space c) \<Longrightarrow> split (join '' '' ws) = ws"
proof (induction ws rule: induct_list012)
  case 1
  show ?case by (simp add: split_def)
next
  case (2 w)
  then show ?case using split_words_word [of w "[]" "[]"] by (simp add: split_def)
next
  case (3 w v ws)
  have sp: "py_space (CHR '' '')" by (simp add: py_space_def ord_of_def Let_def)
  from 3 have "split (join '' '' (v # ws)) = v # ws" by simp
  with 3 sp show ?case
    by (simp add: split_def split_words_word)
qed

lemma nat_str_nonempty [simp]: "nat_str n \<noteq> []"
  by (simp add: nat_str_def) (subst digit_rev.simps, simp)

text \<open>Distinct UUIDs print differently.\<close>

definition hex_value :: "char \<Rightarrow> nat" where
  "hex_value c = (if ord_of c < 58 then ord_of c - 48 else ord_of c - 87)"

lemma hex_value_digit: "n < 16 \<Longrightarrow> hex_value (hex_digit n) = n"
  by (auto simp: hex_value_def hex_digit_def ord_of_def)

lemma foldr_hex_rev: "foldr (\<lambda>c a. 16 * a + hex_value c) (hex_rev n) 0 = n"
proof (induction n rule: hex_rev.induct)
  case (1 n)
  then show ?case by (cases "n < 16") (simp_all add: hex_rev.simps [of n] hex_value_digit)
qed

lemma foldl_hex_zeros:
  "foldl (\<lambda>a c. 16 * a + hex_value c) 0 (replicate k (CHR ''0'') @ h)
     = foldl (\<lambda>a c. 16 * a + hex_value c) 0 h"
  by (induction k) (simp_all add: hex_value_def ord_of_def)

lemma uuid_hex_value: "foldl (\<lambda>a c. 16 * a + hex_value c) 0 (uuid_hex n) = n"
  unfolding uuid_hex_def Let_def foldl_hex_zeros
  by (simp add: foldl_conv_foldr foldr_hex_rev)

lemma hex_digit_no_dash: "n < 16 \<Longrightarrow> hex_digit n \<noteq> CHR ''-''"
  by (auto simp: hex_digit_def simp flip: ord_of_eq_iff simp: ord_of_def)

lemma hex_rev_no_dash: "CHR ''-'' \<notin> set (hex_rev n)"
proof (induction n rule: hex_rev.induct)
  case (1 n)
  then show ?case
    using hex_digit_no_dash [of "n mod 16"] hex_digit_no_dash [of n]
    by (cases "n < 16") (auto simp: hex_rev.simps [of n])
qed

lemma uuid_hex_no_dash: "CHR ''-'' \<notin> set (uuid_hex n)"
  using hex_rev_no_dash [of n] by (auto simp: uuid_hex_def Let_def)

lemma remove_char_append: "remove_char c (s @ t) = remove_char c s @ remove_char c t"
  by (simp add: remove_char_def)

lemma remove_char_absent: "c \<notin> set s \<Longrightarrow> remove_char c s = s"
  by (induction s) (auto simp: remove_char_def)

lemma remove_dash_uuid: "remove_char (CHR ''-'') (uuid_str n) = uuid_hex n"
proof -
  have d: "remove_char (CHR ''-'') (CHR ''-'' # s) = remove_char (CHR ''-'') s" for s
    by (simp add: remove_char_def)
  have "remove_char (CHR ''-'') (take m (drop k (uuid_hex n))) = take m (drop k (uuid_hex n))" for m k
    using uuid_hex_no_dash [of n] by (meson in_set_dropD in_set_takeD remove_char_absent)
  moreover have "remove_char (CHR ''-'') (take m (uuid_hex n)) = take m (uuid_hex n)" for m
    using uuid_hex_no_dash [of n] by (meson in_set_takeD remove_char_absent)
  moreover have "remove_char (CHR ''-'') (drop m (uuid_hex n)) = drop m (uuid_hex n)" for m
    using uuid_hex_no_dash [of n] by (meson in_set_dropD remove_char_absent)
  ultimately have "remove_char (CHR ''-'') (uuid_str n) = take 8 (uuid_hex n)
      @ take 4 (drop 8 (uuid_hex n)) @ take 4 (drop 12 (uuid_hex n))
      @ take 4 (drop 16 (uuid_hex n)) @ drop 20 (uuid_hex n)"
    by (simp add: uuid_str_def Let_def remove_char_append d)
  also have "\<dots> = uuid_hex n"
  proof -
    have "take 4 (drop k xs) @ drop (k + 4) xs = drop k xs" for k and xs :: string
      by (metis add.commute append_take_drop_id drop_drop)
    from this [of 16 "uuid_hex n"] this [of 12 "uuid_hex n"] this [of 8 "uuid_hex n"]
    show ?thesis by simp
  qed
  finally show ?thesis .
qed

lemma uuid_str_inject [simp]: "uuid_str m = uuid_str n \<longleftrightarrow> m = n"
  by (metis remove_dash_uuid uuid_hex_value)

end
