(* ===== verification/Schema.thy ===== *)
theory Schema
  imports Py_Text
begin

text \<open>
  The data model (\<open>app/models\<close>): one \<open>datatype\<close> per \<open>StrEnum\<close> with the function that
  gives its wire value, and one \<open>record\<close> per ORM class with the columns of its table.  A
  nullable column is an \<open>option\<close>; relationships are not stored but computed from the foreign
  keys (theory \<open>Store\<close>).  A field is named after its column, prefixed by its class.
\<close>

section \<open>Leads\<close>

datatype LeadStatus = NEW | ENRICHED | SCORED | QUALIFIED | DRAFT_READY | APPROVED | CONTACTED
  | OPENED | REPLIED | MEETING | WON | LOST | SUPPRESSED

fun lead_status_value :: "LeadStatus \<Rightarrow> string" where
  "lead_status_value NEW = ''new''"
| "lead_status_value ENRICHED = ''enriched''"
| "lead_status_value SCORED = ''scored''"
| "lead_status_value QUALIFIED = ''qualified''"
| "lead_status_value DRAFT_READY = ''draft_ready''"
| "lead_status_value APPROVED = ''approved''"
| "lead_status_value CONTACTED = ''contacted''"
| "lead_status_value OPENED = ''opened''"
| "lead_status_value REPLIED = ''replied''"
| "lead_status_value MEETING = ''meeting''"
| "lead_status_value WON = ''won''"
| "lead_status_value LOST = ''lost''"
| "lead_status_value SUPPRESSED = ''suppressed''"

datatype LeadQuality = QHigh | QMedium | QLow | QUnknown

record lead =
  lead_id :: uuid
  lead_business_name :: string
  lead_industry :: "string option"
  lead_city :: "string option"
  lead_zone :: "string option"
  lead_website_url :: "string option"
  lead_instagram_url :: "string option"
  lead_email :: "string option"
  lead_phone :: "string option"
  lead_address :: "string option"
  lead_google_maps_url :: "string option"
  lead_rating :: "pyfloat option"
  lead_review_count :: "int option"
  lead_business_status :: "string option"
  lead_opening_hours :: "string option"
  lead_latitude :: "pyfloat option"
  lead_longitude :: "pyfloat option"
  lead_source_id :: "uuid option"
  lead_status :: LeadStatus
  lead_score :: "pyfloat option"
  lead_llm_summary :: "string option"
  lead_llm_quality :: "string option"
  lead_llm_quality_assessment :: "string option"
  lead_llm_suggested_angle :: "string option"
  lead_dedup_hash :: "string option"
  lead_created_at :: datetime
  lead_updated_at :: datetime
  lead_enriched_at :: "datetime option"
  lead_scored_at :: "datetime option"

text \<open>\<open>Lead(id=.., business_name=..)\<close>: every other column at its default.\<close>

definition blank_lead :: "uuid \<Rightarrow> string \<Rightarrow> datetime \<Rightarrow> lead" where
  "blank_lead k name t = \<lparr>lead_id = k, lead_business_name = name, lead_industry = None,
     lead_city = None, lead_zone = None, lead_website_url = None, lead_instagram_url = None,
     lead_email = None, lead_phone = None, lead_address = None, lead_google_maps_url = None,
     lead_rating = None, lead_review_count = None, lead_business_status = None,
     lead_opening_hours = None, lead_latitude = None, lead_longitude = None,
     lead_source_id = None, lead_status = NEW, lead_score = None, lead_llm_summary = None,
     lead_llm_quality = None, lead_llm_quality_assessment = None,
     lead_llm_suggested_angle = None, lead_dedup_hash = None, lead_created_at = t,
     lead_updated_at = t, lead_enriched_at = None, lead_scored_at = None\<rparr>"

text \<open>The derived property \<open>Lead.quality\<close>.\<close>

definition lead_quality :: "lead \<Rightarrow> LeadQuality" where
  "lead_quality l = (case lead_score l of
     None \<Rightarrow> QUnknown
   | Some s \<Rightarrow> if s \<ge> 60 then QHigh else if s \<ge> 30 then QMedium else QLow)"

datatype SignalType = NO_WEBSITE | INSTAGRAM_ONLY | OUTDATED_WEBSITE | NO_CUSTOM_DOMAIN
  | NO_VISIBLE_EMAIL | NO_SSL | WEAK_SEO | NO_MOBILE_FRIENDLY | SLOW_LOAD | WEBSITE_ERROR
  | HAS_WEBSITE | HAS_CUSTOM_DOMAIN

fun signal_value :: "SignalType \<Rightarrow> string" where
  "signal_value NO_WEBSITE = ''no_website''"
| "signal_value INSTAGRAM_ONLY = ''instagram_only''"
| "signal_value OUTDATED_WEBSITE = ''outdated_website''"
| "signal_value NO_CUSTOM_DOMAIN = ''no_custom_domain''"
| "signal_value NO_VISIBLE_EMAIL = ''no_visible_email''"
| "signal_value NO_SSL = ''no_ssl''"
| "signal_value WEAK_SEO = ''weak_seo''"
| "signal_value NO_MOBILE_FRIENDLY = ''no_mobile_friendly''"
| "signal_value SLOW_LOAD = ''slow_load''"
| "signal_value WEBSITE_ERROR = ''website_error''"
| "signal_value HAS_WEBSITE = ''has_website''"
| "signal_value HAS_CUSTOM_DOMAIN = ''has_custom_domain''"

record lead_signal =
  sig_id :: uuid
  sig_lead_id :: uuid
  sig_signal_type :: SignalType
  sig_detail :: "string option"
  sig_confidence :: "pyfloat option"
  sig_source :: "string option"
  sig_detected_at :: datetime

record lead_event =
  ev_id :: uuid
  ev_lead_id :: uuid
  ev_event_type :: string
  ev_old_status :: "string option"
  ev_new_status :: "string option"
  ev_payload_json :: "json option"
  ev_actor :: string
  ev_created_at :: datetime

record suppression_entry =
  supp_id :: uuid
  supp_email :: "string option"
  supp_domain :: "string option"
  supp_phone :: "string option"
  supp_reason :: "string option"
  supp_added_at :: datetime

record outcome_snapshot =
  snap_id :: uuid
  snap_lead_id :: uuid
  snap_outcome :: string
  snap_lead_score :: "pyfloat option"
  snap_lead_quality :: "string option"
  snap_industry :: "string option"
  snap_city :: "string option"
  snap_signals_json :: "SignalType list option"
  snap_pipeline_context_json :: "json option"
  snap_draft_channel :: "string option"
  snap_reviewer_verdict :: "string option"
  snap_corrections_count :: "int option"
  snap_created_at :: datetime

datatype ArtifactType = SCREENSHOT | DOSSIER_PDF | EXPORT | BRIEF_FILE

record artifact =
  art_id :: uuid
  art_lead_id :: uuid
  art_artifact_type :: ArtifactType
  art_file_path :: string
  art_file_size :: "int option"
  art_metadata_json :: "json option"
  art_created_at :: datetime

datatype SourceType = MANUAL | CRAWLER | IMPORT

record lead_source =
  src_id :: uuid
  src_name :: string
  src_source_type :: SourceType
  src_url :: "string option"
  src_description :: "string option"
  src_created_at :: datetime

section \<open>Outreach\<close>

datatype DraftStatus = PENDING_REVIEW | D_APPROVED | D_REJECTED | D_SENT

fun draft_status_value :: "DraftStatus \<Rightarrow> string" where
  "draft_status_value PENDING_REVIEW = ''pending_review''"
| "draft_status_value D_APPROVED = ''approved''"
| "draft_status_value D_REJECTED = ''rejected''"
| "draft_status_value D_SENT = ''sent''"

record outreach_draft =
  draft_id :: uuid
  draft_lead_id :: uuid
  draft_subject :: "string option"
  draft_body :: string
  draft_channel :: string
  draft_status :: DraftStatus
  draft_generation_metadata_json :: "json option"
  draft_generated_at :: datetime
  draft_reviewed_at :: "datetime option"
  draft_sent_at :: "datetime option"

datatype LogAction = L_GENERATED | L_REVIEWED | L_APPROVED | L_REJECTED | L_SENT | L_OPENED
  | L_REPLIED | L_MEETING | L_WON | L_LOST

record outreach_log =
  olog_id :: uuid
  olog_lead_id :: uuid
  olog_draft_id :: "uuid option"
  olog_action :: LogAction
  olog_actor :: string
  olog_detail :: "string option"
  olog_created_at :: datetime

datatype OutreachDeliveryStatus = DLV_SENDING | DLV_SENT | DLV_FAILED

record outreach_delivery =
  dlv_id :: uuid
  dlv_lead_id :: uuid
  dlv_draft_id :: uuid
  dlv_provider :: string
  dlv_provider_message_id :: "string option"
  dlv_recipient_email :: string
  dlv_subject_snapshot :: string
  dlv_status :: OutreachDeliveryStatus
  dlv_error :: "string option"
  dlv_sent_at :: "datetime option"
  dlv_created_at :: datetime
  dlv_updated_at :: datetime

datatype ConversationStatus = CV_DRAFT_READY | CV_SENT | CV_DELIVERED | CV_REPLIED | CV_MEETING
  | CV_CLOSED | CV_OPERATOR_TOOK_OVER

record outbound_conversation =
  convo_id :: uuid
  convo_lead_id :: uuid
  convo_draft_id :: "uuid option"
  convo_channel :: string
  convo_status :: ConversationStatus
  convo_messages_json :: "json list"
  convo_mode :: string
  convo_operator_took_over :: bool
  convo_provider_message_id :: "string option"
  convo_error :: "string option"
  convo_created_at :: datetime
  convo_updated_at :: datetime

section \<open>Pipelines and tasks\<close>

record pipeline_run =
  run_id :: uuid
  run_lead_id :: uuid
  run_correlation_id :: string
  run_root_task_id :: "string option"
  run_status :: string
  run_current_step :: "string option"
  run_result :: "json option"
  run_step_context_json :: "json option"
  run_error :: "string option"
  run_retry_count :: int
  run_created_at :: datetime
  run_updated_at :: datetime
  run_started_at :: "datetime option"
  run_finished_at :: "datetime option"

record task_run =
  task_id :: string
  task_name :: string
  task_queue :: "string option"
  task_lead_id :: "uuid option"
  task_pipeline_run_id :: "uuid option"
  task_correlation_id :: "string option"
  task_scope_key :: "string option"
  task_status :: string
  task_current_step :: "string option"
  task_progress_json :: "json option"
  task_result :: "json option"
  task_error :: "string option"
  task_created_at :: datetime
  task_updated_at :: datetime
  task_started_at :: "datetime option"
  task_finished_at :: "datetime option"
  task_stop_requested_at :: "datetime option"

record dead_letter_task =
  dlt_id :: uuid
  dlt_task_name :: string
  dlt_lead_id :: "uuid option"
  dlt_pipeline_run_id :: "uuid option"
  dlt_step :: "string option"
  dlt_error :: "string option"
  dlt_payload :: "json option"
  dlt_created_at :: datetime
  dlt_replayed_at :: "datetime option"

end
