(* ===== verification/Schema_Inbox.thy ===== *)
theory Schema_Inbox
  imports Schema
begin

text \<open>
  The data model of the inbox and of the reply assistant (\<open>app/models/inbound_mail.py\<close>,
  \<open>reply_assistant.py\<close>, \<open>reply_assistant_send.py\<close>) and the message the IMAP provider
  hands over (\<open>app/mail/inbound_provider.py\<close>).
\<close>

datatype InboundMailClassificationStatus = CL_PENDING | CL_CLASSIFYING | CL_CLASSIFIED | CL_FAILED

datatype InboundMailSyncStatus = SYNC_RUNNING | SYNC_COMPLETED | SYNC_FAILED

record email_thread =
  thread_id :: uuid
  thread_lead_id :: "uuid option"
  thread_draft_id :: "uuid option"
  thread_delivery_id :: "uuid option"
  thread_provider :: string
  thread_provider_mailbox :: string
  thread_external_thread_id :: "string option"
  thread_key :: string
  thread_matched_via :: string
  thread_match_confidence :: "pyfloat option"
  thread_last_message_at :: "datetime option"
  thread_created_at :: datetime
  thread_updated_at :: datetime

record inbound_message =
  msg_id :: uuid
  msg_dedupe_key :: string
  msg_thread_id :: "uuid option"
  msg_lead_id :: "uuid option"
  msg_draft_id :: "uuid option"
  msg_delivery_id :: "uuid option"
  msg_provider :: string
  msg_provider_mailbox :: string
  msg_provider_message_id :: "string option"
  msg_message_id :: "string option"
  msg_in_reply_to :: "string option"
  msg_references_raw :: "string option"
  msg_from_email :: "string option"
  msg_from_name :: "string option"
  msg_to_email :: "string option"
  msg_subject :: "string option"
  msg_body_text :: "string option"
  msg_body_snippet :: "string option"
  msg_received_at :: "datetime option"
  msg_raw_metadata_json :: "json option"
  msg_classification_status :: InboundMailClassificationStatus
  msg_classification_label :: "string option"
  msg_summary :: "string option"
  msg_confidence :: "pyfloat option"
  msg_next_action_suggestion :: "string option"
  msg_should_escalate_reviewer :: bool
  msg_classification_error :: "string option"
  msg_classification_role :: "string option"
  msg_classification_model :: "string option"
  msg_classified_at :: "datetime option"
  msg_created_at :: datetime
  msg_updated_at :: datetime

record inbound_sync_run =
  sync_id :: uuid
  sync_provider :: string
  sync_provider_mailbox :: string
  sync_status :: InboundMailSyncStatus
  sync_fetched_count :: int
  sync_new_count :: int
  sync_deduplicated_count :: int
  sync_matched_count :: int
  sync_unmatched_count :: int
  sync_error :: "string option"
  sync_started_at :: datetime
  sync_completed_at :: "datetime option"
  sync_created_at :: datetime
  sync_updated_at :: datetime

text \<open>\<open>InboundMailMessage\<close>: what the provider parsed out of one mail.\<close>

record inbound_mail_message =
  in_provider :: string
  in_provider_mailbox :: string
  in_provider_message_id :: "string option"
  in_message_id :: "string option"
  in_in_reply_to :: "string option"
  in_references_raw :: "string option"
  in_from_email :: "string option"
  in_from_name :: "string option"
  in_to_email :: "string option"
  in_subject :: "string option"
  in_body_text :: "string option"
  in_body_snippet :: "string option"
  in_received_at :: "datetime option"
  in_raw_metadata :: "json option"

section \<open>Reply assistant\<close>

datatype ReplyAssistantDraftStatus = RA_GENERATED

datatype ReplyAssistantReviewStatus = RV_PENDING | RV_REVIEWED | RV_FAILED

record reply_draft =
  rd_id :: uuid
  rd_inbound_message_id :: uuid
  rd_thread_id :: "uuid option"
  rd_lead_id :: "uuid option"
  rd_related_delivery_id :: "uuid option"
  rd_related_outbound_draft_id :: "uuid option"
  rd_status :: ReplyAssistantDraftStatus
  rd_subject :: string
  rd_body :: string
  rd_summary :: "string option"
  rd_suggested_tone :: "string option"
  rd_should_escalate_reviewer :: bool
  rd_generator_role :: string
  rd_generator_model :: string
  rd_edited_at :: "datetime option"
  rd_edited_by :: "string option"
  rd_created_at :: datetime
  rd_updated_at :: datetime

record reply_review =
  rv_id :: uuid
  rv_reply_assistant_draft_id :: uuid
  rv_inbound_message_id :: uuid
  rv_thread_id :: "uuid option"
  rv_lead_id :: "uuid option"
  rv_status :: ReplyAssistantReviewStatus
  rv_summary :: "string option"
  rv_feedback :: "string option"
  rv_suggested_edits :: "string list option"
  rv_recommended_action :: "string option"
  rv_should_use_as_is :: bool
  rv_should_edit :: bool
  rv_should_escalate :: bool
  rv_reviewer_role :: "string option"
  rv_reviewer_model :: "string option"
  rv_task_id :: "string option"
  rv_error :: "string option"
  rv_reviewed_at :: "datetime option"
  rv_created_at :: datetime
  rv_updated_at :: datetime

datatype ReplyAssistantSendStatus = RS_SENDING | RS_SENT | RS_FAILED

record reply_send =
  rs_id :: uuid
  rs_reply_assistant_draft_id :: uuid
  rs_inbound_message_id :: uuid
  rs_thread_id :: "uuid option"
  rs_lead_id :: "uuid option"
  rs_status :: ReplyAssistantSendStatus
  rs_provider :: string
  rs_provider_message_id :: "string option"
  rs_recipient_email :: string
  rs_from_email_snapshot :: "string option"
  rs_reply_to_snapshot :: "string option"
  rs_subject_snapshot :: string
  rs_body_snapshot :: string
  rs_in_reply_to :: "string option"
  rs_references_raw :: "string option"
  rs_error :: "string option"
  rs_sent_at :: "datetime option"
  rs_created_at :: datetime
  rs_updated_at :: datetime

end
