(* ===== verification/Schema_Ops.thy ===== *)
theory Schema_Ops
  imports Schema
begin

text \<open>
  The data model of operations: settings, notifications, territories, research reports,
  batch reviews, review corrections and the ledger of LLM calls.
\<close>

section \<open>Settings\<close>

text \<open>
  \<open>OperationalSettings\<close> (a singleton row).
\<close>

record operational_settings =
  ops_brand_name :: "string option"
  ops_signature_name :: "string option"
  ops_signature_role :: "string option"
  ops_signature_company :: "string option"
  ops_portfolio_url :: "string option"
  ops_website_url :: "string option"
  ops_calendar_url :: "string option"
  ops_signature_cta :: "string option"
  ops_signature_include_portfolio :: bool
  ops_signature_is_solo :: bool
  ops_default_outreach_tone :: string
  ops_default_reply_tone :: string
  ops_default_closing_line :: "string option"
  ops_mail_enabled :: "bool option"
  ops_mail_from_email :: "string option"
  ops_mail_from_name :: "string option"
  ops_mail_reply_to :: "string option"
  ops_mail_send_timeout_seconds :: "int option"
  ops_require_approved_drafts :: bool
  ops_mail_inbound_sync_enabled :: "bool option"
  ops_mail_inbound_mailbox :: "string option"
  ops_mail_inbound_sync_limit :: "int option"
  ops_mail_inbound_timeout_seconds :: "int option"
  ops_mail_inbound_search_criteria :: "string option"
  ops_auto_classify_inbound :: bool
  ops_reply_assistant_enabled :: bool
  ops_reviewer_enabled :: bool
  ops_reviewer_labels :: "string list"
  ops_reviewer_confidence_threshold :: pyfloat
  ops_prioritize_quote_replies :: bool
  ops_prioritize_meeting_replies :: bool
  ops_allow_reply_assistant_generation :: bool
  ops_use_reviewer_for_labels :: "string list"
  ops_updated_at :: datetime
  ops_notifications_enabled :: bool
  ops_notification_score_threshold :: int
  ops_whatsapp_alerts_enabled :: bool
  ops_whatsapp_min_severity :: string
  ops_whatsapp_categories :: "string list"
  ops_telegram_alerts_enabled :: bool
  ops_slack_alerts_enabled :: bool
  ops_slack_webhook_url :: "string option"
  ops_slack_min_severity :: string
  ops_whatsapp_outreach_enabled :: bool
  ops_telegram_agent_enabled :: bool
  ops_whatsapp_agent_enabled :: bool
  ops_runtime_mode :: string
  ops_auto_pipeline_enabled :: bool
  ops_auto_replenish_enabled :: bool
  ops_low_resource_mode :: "bool option"
  ops_daily_usd_budget :: "pyfloat option"
  ops_followup_days :: int
  ops_pricing_matrix :: "string option"
  ops_scoring_overrides :: "(string \<times> pyfloat) list option"

section \<open>Notifications\<close>

datatype NotificationCategory = BUSINESS | SYSTEM | SECURITY

datatype NotificationSeverity = SEV_INFO | SEV_WARNING | SEV_HIGH | SEV_CRITICAL

fun severity_value :: "NotificationSeverity \<Rightarrow> string" where
  "severity_value SEV_INFO = ''info''"
| "severity_value SEV_WARNING = ''warning''"
| "severity_value SEV_HIGH = ''high''"
| "severity_value SEV_CRITICAL = ''critical''"

text \<open>\<open>_SEV_ORDER\<close>: the severities are linearly ordered by their rank.\<close>

fun sev_order :: "NotificationSeverity \<Rightarrow> nat" where
  "sev_order SEV_INFO = 0"
| "sev_order SEV_WARNING = 1"
| "sev_order SEV_HIGH = 2"
| "sev_order SEV_CRITICAL = 3"

lemma sev_order_inject: "sev_order a = sev_order b \<longleftrightarrow> a = b"
  by (cases a; cases b) simp_all

instantiation NotificationSeverity :: linorder
begin

definition less_eq_NotificationSeverity :: "NotificationSeverity \<Rightarrow> NotificationSeverity \<Rightarrow> bool" where
  "a \<le> b \<longleftrightarrow> sev_order a \<le> sev_order b"

definition less_NotificationSeverity :: "NotificationSeverity \<Rightarrow> NotificationSeverity \<Rightarrow> bool" where
  "a < b \<longleftrightarrow> sev_order a < sev_order b"

instance
  by standard (auto simp: less_eq_NotificationSeverity_def less_NotificationSeverity_def
      simp flip: sev_order_inject)

end

datatype NotificationStatus = N_UNREAD | N_READ | N_ACKNOWLEDGED | N_RESOLVED

record notification =
  notif_id :: uuid
  notif_type :: string
  notif_category :: NotificationCategory
  notif_severity :: NotificationSeverity
  notif_title :: string
  notif_message :: string
  notif_source_kind :: "string option"
  notif_source_id :: "uuid option"
  notif_metadata :: "json option"
  notif_status :: NotificationStatus
  notif_read_at :: "datetime option"
  notif_acknowledged_at :: "datetime option"
  notif_resolved_at :: "datetime option"
  notif_channel_state :: "(string \<times> string) list option"
  notif_dedup_key :: "string option"
  notif_created_at :: datetime
  notif_updated_at :: datetime

section \<open>Territories, research, reviews, cost ledger\<close>

record territory =
  terr_id :: uuid
  terr_name :: string
  terr_description :: "string option"
  terr_color :: string
  terr_cities :: "string list"
  terr_is_active :: bool
  terr_country_code :: string
  terr_center_lat :: "pyfloat option"
  terr_center_lng :: "pyfloat option"
  terr_bbox :: "json option"
  terr_last_crawled_at :: "datetime option"
  terr_last_dup_ratio :: "pyfloat option"
  terr_crawl_count :: int
  terr_is_saturated :: bool
  terr_created_at :: datetime
  terr_updated_at :: datetime

datatype ResearchStatus = R_PENDING | R_RUNNING | R_COMPLETED | R_FAILED

datatype ConfidenceLevel = C_CONFIRMED | C_PROBABLE | C_UNKNOWN | C_MISMATCH

record research_report =
  rep_id :: uuid
  rep_lead_id :: uuid
  rep_status :: ResearchStatus
  rep_website_exists :: "bool option"
  rep_website_url_verified :: "string option"
  rep_website_confidence :: "ConfidenceLevel option"
  rep_instagram_exists :: "bool option"
  rep_instagram_url_verified :: "string option"
  rep_instagram_confidence :: "ConfidenceLevel option"
  rep_whatsapp_detected :: "bool option"
  rep_whatsapp_confidence :: "ConfidenceLevel option"
  rep_screenshots_json :: "json option"
  rep_detected_signals_json :: "json option"
  rep_html_metadata_json :: "json option"
  rep_business_description :: "string option"
  rep_researcher_model :: "string option"
  rep_research_duration_ms :: "int option"
  rep_error :: "string option"
  rep_created_at :: datetime
  rep_updated_at :: datetime

record batch_review =
  br_id :: uuid
  br_trigger_reason :: string
  br_batch_size :: int
  br_period_start :: "datetime option"
  br_period_end :: "datetime option"
  br_executor_draft :: "string option"
  br_reviewer_verdict :: "string option"
  br_reviewer_notes :: "string option"
  br_strategy_brief :: "string option"
  br_metrics_json :: "json option"
  br_status :: string
  br_created_at :: datetime
  br_updated_at :: datetime

datatype CorrectionCategory = TONE | CTA | PERSONALIZATION | LENGTH | ACCURACY | RELEVANCE
  | FORMAT | LANGUAGE

datatype CorrectionSeverity = CS_CRITICAL | CS_IMPORTANT | CS_SUGGESTION

record review_correction =
  corr_id :: uuid
  corr_lead_id :: uuid
  corr_pipeline_run_id :: "uuid option"
  corr_review_type :: string
  corr_category :: CorrectionCategory
  corr_severity :: CorrectionSeverity
  corr_issue :: string
  corr_suggestion :: "string option"
  corr_model :: "string option"
  corr_created_at :: datetime

text \<open>A proposal of a batch review (\<open>ImprovementProposal\<close>).\<close>

record improvement_proposal =
  prop_id :: uuid
  prop_batch_review_id :: uuid
  prop_category :: string
  prop_description :: string
  prop_impact :: string
  prop_confidence :: string
  prop_evidence_summary :: "string option"
  prop_status :: string
  prop_approved_by :: "string option"
  prop_applied_at :: "datetime option"
  prop_result_notes :: "string option"
  prop_created_at :: datetime

text \<open>What the research agent did for a lead (\<open>InvestigationThread\<close>).\<close>

record investigation_thread =
  it_id :: uuid
  it_lead_id :: uuid
  it_pipeline_run_id :: "uuid option"
  it_agent_model :: string
  it_tool_calls_json :: json
  it_pages_visited_json :: json
  it_findings_json :: json
  it_loops_used :: int
  it_duration_ms :: int
  it_error :: "string option"
  it_created_at :: datetime

record weekly_report =
  wr_id :: uuid
  wr_week_start :: datetime
  wr_week_end :: datetime
  wr_metrics_json :: json
  wr_recommendations_json :: json
  wr_synthesis_text :: "string option"
  wr_synthesis_model :: "string option"
  wr_created_at :: datetime

text \<open>The columns of \<open>LLMInvocation\<close> that the budget gate and the reports read.\<close>

record llm_invocation =
  inv_id :: uuid
  inv_role :: string
  inv_fallback_used :: bool
  inv_usd_cost_estimated :: "pyfloat option"
  inv_created_at :: datetime

section \<open>Commercial briefs\<close>

datatype BudgetTier = BT_LOW | BT_MEDIUM | BT_HIGH | BT_PREMIUM

datatype EstimatedScope = LANDING | INSTITUTIONAL_WEB | CATALOG | ECOMMERCE | REDESIGN
  | AUTOMATION | BRANDING_WEB

fun scope_value :: "EstimatedScope \<Rightarrow> string" where
  "scope_value LANDING = ''landing''"
| "scope_value INSTITUTIONAL_WEB = ''institutional_web''"
| "scope_value CATALOG = ''catalog''"
| "scope_value ECOMMERCE = ''ecommerce''"
| "scope_value REDESIGN = ''redesign''"
| "scope_value AUTOMATION = ''automation''"
| "scope_value BRANDING_WEB = ''branding_web''"

datatype ContactMethod = CM_WHATSAPP | CM_EMAIL | CM_CALL | CM_DEMO_FIRST | CM_MANUAL_REVIEW

fun contact_method_value :: "ContactMethod \<Rightarrow> string" where
  "contact_method_value CM_WHATSAPP = ''whatsapp''"
| "contact_method_value CM_EMAIL = ''email''"
| "contact_method_value CM_CALL = ''call''"
| "contact_method_value CM_DEMO_FIRST = ''demo_first''"
| "contact_method_value CM_MANUAL_REVIEW = ''manual_review''"

datatype CallDecision = CALL_YES | CALL_NO | CALL_MAYBE

fun call_decision_value :: "CallDecision \<Rightarrow> string" where
  "call_decision_value CALL_YES = ''yes''"
| "call_decision_value CALL_NO = ''no''"
| "call_decision_value CALL_MAYBE = ''maybe''"

datatype ContactPriority = CP_IMMEDIATE | CP_HIGH | CP_NORMAL | CP_LOW

datatype BriefStatus = BRIEF_PENDING | BRIEF_GENERATED | BRIEF_REVIEWED | BRIEF_FAILED

record commercial_brief =
  cb_id :: uuid
  cb_lead_id :: uuid
  cb_research_report_id :: "uuid option"
  cb_status :: BriefStatus
  cb_opportunity_score :: "pyfloat option"
  cb_budget_tier :: "BudgetTier option"
  cb_estimated_budget_min :: "pyfloat option"
  cb_estimated_budget_max :: "pyfloat option"
  cb_estimated_scope :: "EstimatedScope option"
  cb_recommended_contact_method :: "ContactMethod option"
  cb_should_call :: "CallDecision option"
  cb_call_reason :: "string option"
  cb_why_this_lead_matters :: "string option"
  cb_main_business_signals :: "string list option"
  cb_main_digital_gaps :: "string list option"
  cb_recommended_angle :: "string option"
  cb_demo_recommended :: "bool option"
  cb_contact_priority :: "ContactPriority option"
  cb_generator_model :: "string option"
  cb_reviewer_model :: "string option"
  cb_reviewed_at :: "datetime option"
  cb_error :: "string option"
  cb_is_fallback :: bool
  cb_created_at :: datetime
  cb_updated_at :: datetime

section \<open>Growth\<close>

record growth_decision_log =
  gd_id :: uuid
  gd_created_at :: datetime
  gd_decision_type :: string
  gd_reason :: string
  gd_action_data :: "json option"
  gd_confidence :: pyfloat
  gd_result :: "json option"
  gd_leads_generated_7d :: "int option"
  gd_conversions_7d :: "int option"

record territory_performance =
  tp_id :: uuid
  tp_territory_id :: uuid
  tp_period_start :: datetime
  tp_period_end :: datetime
  tp_leads_created :: int
  tp_leads_qualified :: int
  tp_leads_contacted :: int
  tp_leads_won :: int
  tp_leads_lost :: int
  tp_total_duplicates :: int
  tp_conversion_rate :: pyfloat
  tp_avg_score :: pyfloat
  tp_created_at :: datetime

section \<open>Chat\<close>

record conversation =
  conv_id :: uuid
  conv_channel :: string
  conv_channel_id :: "string option"
  conv_title :: "string option"
  conv_is_active :: bool
  conv_created_at :: datetime
  conv_updated_at :: datetime

record chat_message =
  cmsg_id :: uuid
  cmsg_conversation_id :: uuid
  cmsg_role :: string
  cmsg_content :: "string option"
  cmsg_attachments_json :: "json option"
  cmsg_model :: "string option"
  cmsg_created_at :: datetime

record tool_call_row =
  tc_id :: uuid
  tc_message_id :: uuid
  tc_tool_name :: string
  tc_arguments_json :: "json option"
  tc_result_json :: "json option"
  tc_error :: "string option"
  tc_status :: string
  tc_duration_ms :: "int option"
  tc_created_at :: datetime
  tc_completed_at :: "datetime option"

end
