(* ===== verification/Store.thy ===== *)
theory Store
  imports Schema_Inbox Schema_Ops
begin

text \<open>
  The world the services act on: the database (one field per table), the messages handed to
  the Celery broker, the supply of fresh UUIDs and the clock.  \<open>datetime.now(UTC)\<close> and the
  server's \<open>now()\<close> both read the clock, which stands still during one operation.
  \<open>alert_answer channel k\<close> is how the outside channel answers the alert for notification \<open>k\<close>:
  an exception with its text, or whether the message was delivered.

  A SQLAlchemy session is its view of this state: \<open>flush\<close> and \<open>refresh\<close> leave it as it is.
  Where a session may end without \<open>commit\<close> (or is rolled back), the operation is given the
  committed state as well, and \<open>rollback_to\<close> restores it; messages already handed to the
  broker, the clock and the UUID supply are not undone.
\<close>

text \<open>One message to the broker: \<open>task.delay(lead_id, pipeline_run_id=.., correlation_id=..)\<close>.\<close>

record celery_call =
  call_task :: string
  call_lead_id :: "uuid option"
  call_pipeline_run_id :: "uuid option"
  call_correlation_id :: "string option"

record store =
  leads :: "lead list"
  signals :: "lead_signal list"
  lead_events :: "lead_event list"
  suppressions :: "suppression_entry list"
  snapshots :: "outcome_snapshot list"
  drafts :: "outreach_draft list"
  ologs :: "outreach_log list"
  deliveries :: "outreach_delivery list"
  convos :: "outbound_conversation list"
  runs :: "pipeline_run list"
  tasks :: "task_run list"
  dead_letters :: "dead_letter_task list"
  threads :: "email_thread list"
  messages :: "inbound_message list"
  sync_runs :: "inbound_sync_run list"
  reply_drafts :: "reply_draft list"
  reply_reviews :: "reply_review list"
  reply_sends :: "reply_send list"
  ops :: "operational_settings option"
  notifs :: "notification list"
  territories :: "territory list"
  reports :: "research_report list"
  batch_reviews :: "batch_review list"
  corrections :: "review_correction list"
  invocations :: "llm_invocation list"
  briefs :: "commercial_brief list"
  growth_logs :: "growth_decision_log list"
  terr_perfs :: "territory_performance list"
  conversations :: "conversation list"
  chat_messages :: "chat_message list"
  tool_calls :: "tool_call_row list"
  artifacts :: "artifact list"
  lead_sources :: "lead_source list"
  proposals :: "improvement_proposal list"
  investigations :: "investigation_thread list"
  weekly_reports :: "weekly_report list"
  dispatched :: "celery_call list"
  next_uuid :: uuid
  now :: datetime
  alert_answer :: "string \<Rightarrow> uuid \<Rightarrow> string + bool"

text \<open>The flush of a row fails when a unique key is taken or a foreign key dangles.\<close>

datatype db_error = IntegrityError

text \<open>The empty world, for closed examples.\<close>

definition empty_store :: "datetime \<Rightarrow> store" where
  "empty_store t = \<lparr>leads = [], signals = [], lead_events = [], suppressions = [],
     snapshots = [], drafts = [], ologs = [], deliveries = [], convos = [], runs = [],
     tasks = [], dead_letters = [], threads = [], messages = [], sync_runs = [],
     reply_drafts = [], reply_reviews = [], reply_sends = [], ops = None, notifs = [],
     territories = [], reports = [], batch_reviews = [], corrections = [], invocations = [],
     briefs = [], growth_logs = [], terr_perfs = [], conversations = [], chat_messages = [],
     tool_calls = [], artifacts = [], lead_sources = [], proposals = [], investigations = [],
     weekly_reports = [],
     dispatched = [], next_uuid = 0, now = t, alert_answer = (\<lambda>channel k. Inr False)\<rparr>"

definition tick_uuid :: "store \<Rightarrow> store" where
  "tick_uuid s = s\<lparr>next_uuid := Suc (next_uuid s)\<rparr>"

definition rollback_to :: "store \<Rightarrow> store \<Rightarrow> store" where
  "rollback_to base s =
     base\<lparr>dispatched := dispatched s, next_uuid := next_uuid s, now := now s\<rparr>"

definition dispatch :: "celery_call \<Rightarrow> store \<Rightarrow> store" where
  "dispatch c s = s\<lparr>dispatched := dispatched s @ [c]\<rparr>"

section \<open>Row access\<close>

text \<open>
  An assignment to a row of a table with \<open>updated_at = onupdate(now())\<close> refreshes that column
  exactly when some attribute changed: SQLAlchemy issues no UPDATE otherwise.
\<close>

definition get_lead :: "store \<Rightarrow> uuid \<Rightarrow> lead option" where
  "get_lead s k = tbl_get lead_id (leads s) k"

definition stamp_lead :: "store \<Rightarrow> (lead \<Rightarrow> lead) \<Rightarrow> lead \<Rightarrow> lead" where
  "stamp_lead s f l = (if f l = l then l else (f l)\<lparr>lead_updated_at := now s\<rparr>)"

definition upd_lead :: "uuid \<Rightarrow> (lead \<Rightarrow> lead) \<Rightarrow> store \<Rightarrow> store" where
  "upd_lead k f s = s\<lparr>leads := tbl_update lead_id k (stamp_lead s f) (leads s)\<rparr>"

definition add_lead :: "lead \<Rightarrow> store \<Rightarrow> store" where
  "add_lead l s = s\<lparr>leads := leads s @ [l]\<rparr>"

definition signals_of :: "store \<Rightarrow> uuid \<Rightarrow> lead_signal list" where
  "signals_of s k = filter (\<lambda>g. sig_lead_id g = k) (signals s)"

definition get_draft :: "store \<Rightarrow> uuid \<Rightarrow> outreach_draft option" where
  "get_draft s k = tbl_get draft_id (drafts s) k"

definition upd_draft :: "uuid \<Rightarrow> (outreach_draft \<Rightarrow> outreach_draft) \<Rightarrow> store \<Rightarrow> store" where
  "upd_draft k f s = s\<lparr>drafts := tbl_update draft_id k f (drafts s)\<rparr>"

definition add_draft :: "outreach_draft \<Rightarrow> store \<Rightarrow> store" where
  "add_draft d s = s\<lparr>drafts := drafts s @ [d]\<rparr>"

definition get_run :: "store \<Rightarrow> uuid \<Rightarrow> pipeline_run option" where
  "get_run s k = tbl_get run_id (runs s) k"

definition stamp_run :: "store \<Rightarrow> (pipeline_run \<Rightarrow> pipeline_run) \<Rightarrow> pipeline_run \<Rightarrow> pipeline_run" where
  "stamp_run s f r = (if f r = r then r else (f r)\<lparr>run_updated_at := now s\<rparr>)"

definition upd_run :: "uuid \<Rightarrow> (pipeline_run \<Rightarrow> pipeline_run) \<Rightarrow> store \<Rightarrow> store" where
  "upd_run k f s = s\<lparr>runs := tbl_update run_id k (stamp_run s f) (runs s)\<rparr>"

definition add_run :: "pipeline_run \<Rightarrow> store \<Rightarrow> store" where
  "add_run r s = s\<lparr>runs := runs s @ [r]\<rparr>"

definition get_task :: "store \<Rightarrow> string \<Rightarrow> task_run option" where
  "get_task s k = tbl_get task_id (tasks s) k"

definition stamp_task :: "store \<Rightarrow> (task_run \<Rightarrow> task_run) \<Rightarrow> task_run \<Rightarrow> task_run" where
  "stamp_task s f t = (if f t = t then t else (f t)\<lparr>task_updated_at := now s\<rparr>)"

definition upd_task :: "string \<Rightarrow> (task_run \<Rightarrow> task_run) \<Rightarrow> store \<Rightarrow> store" where
  "upd_task k f s = s\<lparr>tasks := tbl_update task_id k (stamp_task s f) (tasks s)\<rparr>"

definition add_task :: "task_run \<Rightarrow> store \<Rightarrow> store" where
  "add_task t s = s\<lparr>tasks := tasks s @ [t]\<rparr>"

definition get_thread :: "store \<Rightarrow> uuid \<Rightarrow> email_thread option" where
  "get_thread s k = tbl_get thread_id (threads s) k"

definition stamp_thread :: "store \<Rightarrow> (email_thread \<Rightarrow> email_thread) \<Rightarrow> email_thread \<Rightarrow> email_thread" where
  "stamp_thread s f t = (if f t = t then t else (f t)\<lparr>thread_updated_at := now s\<rparr>)"

definition upd_thread :: "uuid \<Rightarrow> (email_thread \<Rightarrow> email_thread) \<Rightarrow> store \<Rightarrow> store" where
  "upd_thread k f s = s\<lparr>threads := tbl_update thread_id k (stamp_thread s f) (threads s)\<rparr>"

definition add_thread :: "email_thread \<Rightarrow> store \<Rightarrow> store" where
  "add_thread t s = s\<lparr>threads := threads s @ [t]\<rparr>"

definition get_delivery :: "store \<Rightarrow> uuid \<Rightarrow> outreach_delivery option" where
  "get_delivery s k = tbl_get dlv_id (deliveries s) k"

definition stamp_delivery ::
    "store \<Rightarrow> (outreach_delivery \<Rightarrow> outreach_delivery) \<Rightarrow> outreach_delivery \<Rightarrow> outreach_delivery" where
  "stamp_delivery s f d = (if f d = d then d else (f d)\<lparr>dlv_updated_at := now s\<rparr>)"

definition upd_delivery :: "uuid \<Rightarrow> (outreach_delivery \<Rightarrow> outreach_delivery) \<Rightarrow> store \<Rightarrow> store" where
  "upd_delivery k f s = s\<lparr>deliveries := tbl_update dlv_id k (stamp_delivery s f) (deliveries s)\<rparr>"

definition add_delivery :: "outreach_delivery \<Rightarrow> store \<Rightarrow> store" where
  "add_delivery d s = s\<lparr>deliveries := deliveries s @ [d]\<rparr>"

definition get_convo :: "store \<Rightarrow> uuid \<Rightarrow> outbound_conversation option" where
  "get_convo s k = tbl_get convo_id (convos s) k"

definition stamp_convo :: "store \<Rightarrow> (outbound_conversation \<Rightarrow> outbound_conversation) \<Rightarrow>
    outbound_conversation \<Rightarrow> outbound_conversation" where
  "stamp_convo s f c = (if f c = c then c else (f c)\<lparr>convo_updated_at := now s\<rparr>)"

definition upd_convo ::
    "uuid \<Rightarrow> (outbound_conversation \<Rightarrow> outbound_conversation) \<Rightarrow> store \<Rightarrow> store" where
  "upd_convo k f s = s\<lparr>convos := tbl_update convo_id k (stamp_convo s f) (convos s)\<rparr>"

definition add_convo :: "outbound_conversation \<Rightarrow> store \<Rightarrow> store" where
  "add_convo c s = s\<lparr>convos := convos s @ [c]\<rparr>"

definition get_reply_send :: "store \<Rightarrow> uuid \<Rightarrow> reply_send option" where
  "get_reply_send s k = tbl_get rs_id (reply_sends s) k"

definition stamp_reply_send :: "store \<Rightarrow> (reply_send \<Rightarrow> reply_send) \<Rightarrow> reply_send \<Rightarrow> reply_send" where
  "stamp_reply_send s f r = (if f r = r then r else (f r)\<lparr>rs_updated_at := now s\<rparr>)"

definition upd_reply_send :: "uuid \<Rightarrow> (reply_send \<Rightarrow> reply_send) \<Rightarrow> store \<Rightarrow> store" where
  "upd_reply_send k f s =
     s\<lparr>reply_sends := tbl_update rs_id k (stamp_reply_send s f) (reply_sends s)\<rparr>"

definition add_reply_send :: "reply_send \<Rightarrow> store \<Rightarrow> store" where
  "add_reply_send r s = s\<lparr>reply_sends := reply_sends s @ [r]\<rparr>"

section \<open>The tables satisfy the table interface\<close>

named_theorems row_defs \<open>row access, unfolded to the tables of the store\<close>

lemmas row_access_defs [row_defs] =
  get_lead_def upd_lead_def add_lead_def get_draft_def upd_draft_def add_draft_def
  get_run_def upd_run_def add_run_def get_task_def upd_task_def add_task_def
  get_thread_def upd_thread_def add_thread_def get_delivery_def upd_delivery_def
  add_delivery_def get_convo_def upd_convo_def add_convo_def
  get_reply_send_def upd_reply_send_def add_reply_send_def

text \<open>A stamp changes no column but \<open>updated_at\<close>.\<close>

lemma stamp_lead_fields [simp]:
  "lead_id (stamp_lead s f l) = lead_id (f l)"
  "lead_business_name (stamp_lead s f l) = lead_business_name (f l)"
  "lead_industry (stamp_lead s f l) = lead_industry (f l)"
  "lead_city (stamp_lead s f l) = lead_city (f l)"
  "lead_zone (stamp_lead s f l) = lead_zone (f l)"
  "lead_website_url (stamp_lead s f l) = lead_website_url (f l)"
  "lead_instagram_url (stamp_lead s f l) = lead_instagram_url (f l)"
  "lead_email (stamp_lead s f l) = lead_email (f l)"
  "lead_phone (stamp_lead s f l) = lead_phone (f l)"
  "lead_address (stamp_lead s f l) = lead_address (f l)"
  "lead_google_maps_url (stamp_lead s f l) = lead_google_maps_url (f l)"
  "lead_rating (stamp_lead s f l) = lead_rating (f l)"
  "lead_review_count (stamp_lead s f l) = lead_review_count (f l)"
  "lead_business_status (stamp_lead s f l) = lead_business_status (f l)"
  "lead_opening_hours (stamp_lead s f l) = lead_opening_hours (f l)"
  "lead_latitude (stamp_lead s f l) = lead_latitude (f l)"
  "lead_longitude (stamp_lead s f l) = lead_longitude (f l)"
  "lead_source_id (stamp_lead s f l) = lead_source_id (f l)"
  "lead_status (stamp_lead s f l) = lead_status (f l)"
  "lead_score (stamp_lead s f l) = lead_score (f l)"
  "lead_llm_summary (stamp_lead s f l) = lead_llm_summary (f l)"
  "lead_llm_quality (stamp_lead s f l) = lead_llm_quality (f l)"
  "lead_llm_quality_assessment (stamp_lead s f l) = lead_llm_quality_assessment (f l)"
  "lead_llm_suggested_angle (stamp_lead s f l) = lead_llm_suggested_angle (f l)"
  "lead_dedup_hash (stamp_lead s f l) = lead_dedup_hash (f l)"
  "lead_created_at (stamp_lead s f l) = lead_created_at (f l)"
  "lead_enriched_at (stamp_lead s f l) = lead_enriched_at (f l)"
  "lead_scored_at (stamp_lead s f l) = lead_scored_at (f l)"
  by (simp_all add: stamp_lead_def)

lemma stamp_run_fields [simp]:
  "run_id (stamp_run s f r) = run_id (f r)"
  "run_lead_id (stamp_run s f r) = run_lead_id (f r)"
  "run_correlation_id (stamp_run s f r) = run_correlation_id (f r)"
  "run_root_task_id (stamp_run s f r) = run_root_task_id (f r)"
  "run_status (stamp_run s f r) = run_status (f r)"
  "run_current_step (stamp_run s f r) = run_current_step (f r)"
  "run_result (stamp_run s f r) = run_result (f r)"
  "run_step_context_json (stamp_run s f r) = run_step_context_json (f r)"
  "run_error (stamp_run s f r) = run_error (f r)"
  "run_retry_count (stamp_run s f r) = run_retry_count (f r)"
  "run_created_at (stamp_run s f r) = run_created_at (f r)"
  "run_started_at (stamp_run s f r) = run_started_at (f r)"
  "run_finished_at (stamp_run s f r) = run_finished_at (f r)"
  by (simp_all add: stamp_run_def)

lemma stamp_task_fields [simp]:
  "task_id (stamp_task s f t) = task_id (f t)"
  "task_name (stamp_task s f t) = task_name (f t)"
  "task_queue (stamp_task s f t) = task_queue (f t)"
  "task_lead_id (stamp_task s f t) = task_lead_id (f t)"
  "task_pipeline_run_id (stamp_task s f t) = task_pipeline_run_id (f t)"
  "task_correlation_id (stamp_task s f t) = task_correlation_id (f t)"
  "task_scope_key (stamp_task s f t) = task_scope_key (f t)"
  "task_status (stamp_task s f t) = task_status (f t)"
  "task_current_step (stamp_task s f t) = task_current_step (f t)"
  "task_progress_json (stamp_task s f t) = task_progress_json (f t)"
  "task_result (stamp_task s f t) = task_result (f t)"
  "task_error (stamp_task s f t) = task_error (f t)"
  "task_created_at (stamp_task s f t) = task_created_at (f t)"
  "task_started_at (stamp_task s f t) = task_started_at (f t)"
  "task_finished_at (stamp_task s f t) = task_finished_at (f t)"
  "task_stop_requested_at (stamp_task s f t) = task_stop_requested_at (f t)"
  by (simp_all add: stamp_task_def)

lemma stamp_thread_fields [simp]:
  "thread_id (stamp_thread s f t) = thread_id (f t)"
  "thread_lead_id (stamp_thread s f t) = thread_lead_id (f t)"
  "thread_draft_id (stamp_thread s f t) = thread_draft_id (f t)"
  "thread_delivery_id (stamp_thread s f t) = thread_delivery_id (f t)"
  "thread_provider (stamp_thread s f t) = thread_provider (f t)"
  "thread_provider_mailbox (stamp_thread s f t) = thread_provider_mailbox (f t)"
  "thread_external_thread_id (stamp_thread s f t) = thread_external_thread_id (f t)"
  "thread_key (stamp_thread s f t) = thread_key (f t)"
  "thread_matched_via (stamp_thread s f t) = thread_matched_via (f t)"
  "thread_match_confidence (stamp_thread s f t) = thread_match_confidence (f t)"
  "thread_last_message_at (stamp_thread s f t) = thread_last_message_at (f t)"
  "thread_created_at (stamp_thread s f t) = thread_created_at (f t)"
  by (simp_all add: stamp_thread_def)

lemma stamp_delivery_fields [simp]:
  "dlv_id (stamp_delivery s f d) = dlv_id (f d)"
  "dlv_lead_id (stamp_delivery s f d) = dlv_lead_id (f d)"
  "dlv_draft_id (stamp_delivery s f d) = dlv_draft_id (f d)"
  "dlv_provider (stamp_delivery s f d) = dlv_provider (f d)"
  "dlv_provider_message_id (stamp_delivery s f d) = dlv_provider_message_id (f d)"
  "dlv_recipient_email (stamp_delivery s f d) = dlv_recipient_email (f d)"
  "dlv_subject_snapshot (stamp_delivery s f d) = dlv_subject_snapshot (f d)"
  "dlv_status (stamp_delivery s f d) = dlv_status (f d)"
  "dlv_error (stamp_delivery s f d) = dlv_error (f d)"
  "dlv_sent_at (stamp_delivery s f d) = dlv_sent_at (f d)"
  "dlv_created_at (stamp_delivery s f d) = dlv_created_at (f d)"
  by (simp_all add: stamp_delivery_def)

lemma stamp_convo_fields [simp]:
  "convo_id (stamp_convo s f c) = convo_id (f c)"
  "convo_lead_id (stamp_convo s f c) = convo_lead_id (f c)"
  "convo_draft_id (stamp_convo s f c) = convo_draft_id (f c)"
  "convo_channel (stamp_convo s f c) = convo_channel (f c)"
  "convo_status (stamp_convo s f c) = convo_status (f c)"
  "convo_messages_json (stamp_convo s f c) = convo_messages_json (f c)"
  "convo_mode (stamp_convo s f c) = convo_mode (f c)"
  "convo_operator_took_over (stamp_convo s f c) = convo_operator_took_over (f c)"
  "convo_provider_message_id (stamp_convo s f c) = convo_provider_message_id (f c)"
  "convo_error (stamp_convo s f c) = convo_error (f c)"
  "convo_created_at (stamp_convo s f c) = convo_created_at (f c)"
  by (simp_all add: stamp_convo_def)

lemma stamp_reply_send_fields [simp]:
  "rs_id (stamp_reply_send s f r) = rs_id (f r)"
  "rs_reply_assistant_draft_id (stamp_reply_send s f r) = rs_reply_assistant_draft_id (f r)"
  "rs_inbound_message_id (stamp_reply_send s f r) = rs_inbound_message_id (f r)"
  "rs_thread_id (stamp_reply_send s f r) = rs_thread_id (f r)"
  "rs_lead_id (stamp_reply_send s f r) = rs_lead_id (f r)"
  "rs_status (stamp_reply_send s f r) = rs_status (f r)"
  "rs_provider (stamp_reply_send s f r) = rs_provider (f r)"
  "rs_provider_message_id (stamp_reply_send s f r) = rs_provider_message_id (f r)"
  "rs_recipient_email (stamp_reply_send s f r) = rs_recipient_email (f r)"
  "rs_from_email_snapshot (stamp_reply_send s f r) = rs_from_email_snapshot (f r)"
  "rs_reply_to_snapshot (stamp_reply_send s f r) = rs_reply_to_snapshot (f r)"
  "rs_subject_snapshot (stamp_reply_send s f r) = rs_subject_snapshot (f r)"
  "rs_body_snapshot (stamp_reply_send s f r) = rs_body_snapshot (f r)"
  "rs_in_reply_to (stamp_reply_send s f r) = rs_in_reply_to (f r)"
  "rs_references_raw (stamp_reply_send s f r) = rs_references_raw (f r)"
  "rs_error (stamp_reply_send s f r) = rs_error (f r)"
  "rs_sent_at (stamp_reply_send s f r) = rs_sent_at (f r)"
  "rs_created_at (stamp_reply_send s f r) = rs_created_at (f r)"
  by (simp_all add: stamp_reply_send_def)

text \<open>Rows of one table are not touched by writes to another.\<close>

lemma row_frames [simp]:
  "get_draft (upd_lead k_lead f_lead s) = get_draft s" "get_draft (add_lead r_lead s) = get_draft s"
  "get_run (upd_lead k_lead f_lead s) = get_run s" "get_run (add_lead r_lead s) = get_run s"
  "get_task (upd_lead k_lead f_lead s) = get_task s" "get_task (add_lead r_lead s) = get_task s"
  "get_thread (upd_lead k_lead f_lead s) = get_thread s" "get_thread (add_lead r_lead s) = get_thread s"
  "get_delivery (upd_lead k_lead f_lead s) = get_delivery s" "get_delivery (add_lead r_lead s) = get_delivery s"
  "get_convo (upd_lead k_lead f_lead s) = get_convo s" "get_convo (add_lead r_lead s) = get_convo s"
  "get_reply_send (upd_lead k_lead f_lead s) = get_reply_send s" "get_reply_send (add_lead r_lead s) = get_reply_send s"
  "get_lead (upd_draft k_draft f_draft s) = get_lead s" "get_lead (add_draft r_draft s) = get_lead s"
  "get_run (upd_draft k_draft f_draft s) = get_run s" "get_run (add_draft r_draft s) = get_run s"
  "get_task (upd_draft k_draft f_draft s) = get_task s" "get_task (add_draft r_draft s) = get_task s"
  "get_thread (upd_draft k_draft f_draft s) = get_thread s" "get_thread (add_draft r_draft s) = get_thread s"
  "get_delivery (upd_draft k_draft f_draft s) = get_delivery s" "get_delivery (add_draft r_draft s) = get_delivery s"
  "get_convo (upd_draft k_draft f_draft s) = get_convo s" "get_convo (add_draft r_draft s) = get_convo s"
  "get_reply_send (upd_draft k_draft f_draft s) = get_reply_send s" "get_reply_send (add_draft r_draft s) = get_reply_send s"
  "get_lead (upd_run k_run f_run s) = get_lead s" "get_lead (add_run r_run s) = get_lead s"
  "get_draft (upd_run k_run f_run s) = get_draft s" "get_draft (add_run r_run s) = get_draft s"
  "get_task (upd_run k_run f_run s) = get_task s" "get_task (add_run r_run s) = get_task s"
  "get_thread (upd_run k_run f_run s) = get_thread s" "get_thread (add_run r_run s) = get_thread s"
  "get_delivery (upd_run k_run f_run s) = get_delivery s" "get_delivery (add_run r_run s) = get_delivery s"
  "get_convo (upd_run k_run f_run s) = get_convo s" "get_convo (add_run r_run s) = get_convo s"
  "get_reply_send (upd_run k_run f_run s) = get_reply_send s" "get_reply_send (add_run r_run s) = get_reply_send s"
  "get_lead (upd_task k_task f_task s) = get_lead s" "get_lead (add_task r_task s) = get_lead s"
  "get_draft (upd_task k_task f_task s) = get_draft s" "get_draft (add_task r_task s) = get_draft s"
  "get_run (upd_task k_task f_task s) = get_run s" "get_run (add_task r_task s) = get_run s"
  "get_thread (upd_task k_task f_task s) = get_thread s" "get_thread (add_task r_task s) = get_thread s"
  "get_delivery (upd_task k_task f_task s) = get_delivery s" "get_delivery (add_task r_task s) = get_delivery s"
  "get_convo (upd_task k_task f_task s) = get_convo s" "get_convo (add_task r_task s) = get_convo s"
  "get_reply_send (upd_task k_task f_task s) = get_reply_send s" "get_reply_send (add_task r_task s) = get_reply_send s"
  "get_lead (upd_thread k_thread f_thread s) = get_lead s" "get_lead (add_thread r_thread s) = get_lead s"
  "get_draft (upd_thread k_thread f_thread s) = get_draft s" "get_draft (add_thread r_thread s) = get_draft s"
  "get_run (upd_thread k_thread f_thread s) = get_run s" "get_run (add_thread r_thread s) = get_run s"
  "get_task (upd_thread k_thread f_thread s) = get_task s" "get_task (add_thread r_thread s) = get_task s"
  "get_delivery (upd_thread k_thread f_thread s) = get_delivery s" "get_delivery (add_thread r_thread s) = get_delivery s"
  "get_convo (upd_thread k_thread f_thread s) = get_convo s" "get_convo (add_thread r_thread s) = get_convo s"
  "get_reply_send (upd_thread k_thread f_thread s) = get_reply_send s" "get_reply_send (add_thread r_thread s) = get_reply_send s"
  "get_lead (upd_delivery k_delivery f_delivery s) = get_lead s" "get_lead (add_delivery r_delivery s) = get_lead s"
  "get_draft (upd_delivery k_delivery f_delivery s) = get_draft s" "get_draft (add_delivery r_delivery s) = get_draft s"
  "get_run (upd_delivery k_delivery f_delivery s) = get_run s" "get_run (add_delivery r_delivery s) = get_run s"
  "get_task (upd_delivery k_delivery f_delivery s) = get_task s" "get_task (add_delivery r_delivery s) = get_task s"
  "get_thread (upd_delivery k_delivery f_delivery s) = get_thread s" "get_thread (add_delivery r_delivery s) = get_thread s"
  "get_convo (upd_delivery k_delivery f_delivery s) = get_convo s" "get_convo (add_delivery r_delivery s) = get_convo s"
  "get_reply_send (upd_delivery k_delivery f_delivery s) = get_reply_send s" "get_reply_send (add_delivery r_delivery s) = get_reply_send s"
  "get_lead (upd_convo k_convo f_convo s) = get_lead s" "get_lead (add_convo r_convo s) = get_lead s"
  "get_draft (upd_convo k_convo f_convo s) = get_draft s" "get_draft (add_convo r_convo s) = get_draft s"
  "get_run (upd_convo k_convo f_convo s) = get_run s" "get_run (add_convo r_convo s) = get_run s"
  "get_task (upd_convo k_convo f_convo s) = get_task s" "get_task (add_convo r_convo s) = get_task s"
  "get_thread (upd_convo k_convo f_convo s) = get_thread s" "get_thread (add_convo r_convo s) = get_thread s"
  "get_delivery (upd_convo k_convo f_convo s) = get_delivery s" "get_delivery (add_convo r_convo s) = get_delivery s"
  "get_reply_send (upd_convo k_convo f_convo s) = get_reply_send s" "get_reply_send (add_convo r_convo s) = get_reply_send s"
  "get_lead (upd_reply_send k_reply_send f_reply_send s) = get_lead s" "get_lead (add_reply_send r_reply_send s) = get_lead s"
  "get_draft (upd_reply_send k_reply_send f_reply_send s) = get_draft s" "get_draft (add_reply_send r_reply_send s) = get_draft s"
  "get_run (upd_reply_send k_reply_send f_reply_send s) = get_run s" "get_run (add_reply_send r_reply_send s) = get_run s"
  "get_task (upd_reply_send k_reply_send f_reply_send s) = get_task s" "get_task (add_reply_send r_reply_send s) = get_task s"
  "get_thread (upd_reply_send k_reply_send f_reply_send s) = get_thread s" "get_thread (add_reply_send r_reply_send s) = get_thread s"
  "get_delivery (upd_reply_send k_reply_send f_reply_send s) = get_delivery s" "get_delivery (add_reply_send r_reply_send s) = get_delivery s"
  "get_convo (upd_reply_send k_reply_send f_reply_send s) = get_convo s" "get_convo (add_reply_send r_reply_send s) = get_convo s"
  by (simp_all add: row_access_defs fun_eq_iff)

lemma clock_frames [simp]:
  "now (upd_lead k_lead f_lead s) = now s" "now (add_lead r_lead s) = now s"
  "dispatched (upd_lead k_lead f_lead s) = dispatched s" "dispatched (add_lead r_lead s) = dispatched s"
  "now (upd_draft k_draft f_draft s) = now s" "now (add_draft r_draft s) = now s"
  "dispatched (upd_draft k_draft f_draft s) = dispatched s" "dispatched (add_draft r_draft s) = dispatched s"
  "now (upd_run k_run f_run s) = now s" "now (add_run r_run s) = now s"
  "dispatched (upd_run k_run f_run s) = dispatched s" "dispatched (add_run r_run s) = dispatched s"
  "now (upd_task k_task f_task s) = now s" "now (add_task r_task s) = now s"
  "dispatched (upd_task k_task f_task s) = dispatched s" "dispatched (add_task r_task s) = dispatched s"
  "now (upd_thread k_thread f_thread s) = now s" "now (add_thread r_thread s) = now s"
  "dispatched (upd_thread k_thread f_thread s) = dispatched s" "dispatched (add_thread r_thread s) = dispatched s"
  "now (upd_delivery k_delivery f_delivery s) = now s" "now (add_delivery r_delivery s) = now s"
  "dispatched (upd_delivery k_delivery f_delivery s) = dispatched s" "dispatched (add_delivery r_delivery s) = dispatched s"
  "now (upd_convo k_convo f_convo s) = now s" "now (add_convo r_convo s) = now s"
  "dispatched (upd_convo k_convo f_convo s) = dispatched s" "dispatched (add_convo r_convo s) = dispatched s"
  "now (upd_reply_send k_reply_send f_reply_send s) = now s" "now (add_reply_send r_reply_send s) = now s"
  "dispatched (upd_reply_send k_reply_send f_reply_send s) = dispatched s" "dispatched (add_reply_send r_reply_send s) = dispatched s"
  by (simp_all add: row_access_defs)

interpretation lead_tbl: table get_lead upd_lead add_lead lead_id stamp_lead
  by unfold_locales
    (auto dest: tbl_get_key simp: get_lead_def upd_lead_def add_lead_def table_simps
      stamp_lead_def [abs_def])

interpretation draft_tbl: table get_draft upd_draft add_draft draft_id "\<lambda>s f. f"
  by unfold_locales (auto dest: tbl_get_key simp: get_draft_def upd_draft_def add_draft_def table_simps)

interpretation run_tbl: table get_run upd_run add_run run_id stamp_run
  by unfold_locales
    (auto dest: tbl_get_key simp: get_run_def upd_run_def add_run_def table_simps
      stamp_run_def [abs_def])

interpretation task_tbl: table get_task upd_task add_task task_id stamp_task
  by unfold_locales
    (auto dest: tbl_get_key simp: get_task_def upd_task_def add_task_def table_simps
      stamp_task_def [abs_def])

interpretation thread_tbl: table get_thread upd_thread add_thread thread_id stamp_thread
  by unfold_locales
    (auto dest: tbl_get_key simp: get_thread_def upd_thread_def add_thread_def table_simps
      stamp_thread_def [abs_def])

interpretation delivery_tbl: table get_delivery upd_delivery add_delivery dlv_id stamp_delivery
  by unfold_locales
    (auto dest: tbl_get_key simp: get_delivery_def upd_delivery_def add_delivery_def table_simps
      stamp_delivery_def [abs_def])

interpretation convo_tbl: table get_convo upd_convo add_convo convo_id stamp_convo
  by unfold_locales
    (auto dest: tbl_get_key simp: get_convo_def upd_convo_def add_convo_def table_simps
      stamp_convo_def [abs_def])

interpretation reply_send_tbl: table get_reply_send upd_reply_send add_reply_send rs_id stamp_reply_send
  by unfold_locales
    (auto dest: tbl_get_key simp: get_reply_send_def upd_reply_send_def add_reply_send_def table_simps
      stamp_reply_send_def [abs_def])

end
