(* ===== verification/Settings.thy ===== *)
theory Settings
  imports Store
begin

text \<open>
  The operational settings (\<open>app/services/settings/operational_settings_service.py\<close>): a
  singleton row made on first use, partial updates over a fixed list of fields, the runtime
  mode presets, and the values that fall back to the environment.
\<close>

section \<open>The singleton row\<close>

definition default_settings :: "datetime \<Rightarrow> operational_settings" where
  "default_settings t = \<lparr>ops_brand_name = None, ops_signature_name = None, ops_signature_role = None,
     ops_signature_company = None, ops_portfolio_url = None, ops_website_url = None,
     ops_calendar_url = None, ops_signature_cta = None, ops_signature_include_portfolio =
     True, ops_signature_is_solo = False, ops_default_outreach_tone = ''profesional'',
     ops_default_reply_tone = ''profesional'', ops_default_closing_line = None,
     ops_mail_enabled = None, ops_mail_from_email = None, ops_mail_from_name = None,
     ops_mail_reply_to = None, ops_mail_send_timeout_seconds = None,
     ops_require_approved_drafts = True, ops_mail_inbound_sync_enabled = None,
     ops_mail_inbound_mailbox = None, ops_mail_inbound_sync_limit = None,
     ops_mail_inbound_timeout_seconds = None, ops_mail_inbound_search_criteria = None,
     ops_auto_classify_inbound = True, ops_reply_assistant_enabled = True,
     ops_reviewer_enabled = False, ops_reviewer_labels = [],
     ops_reviewer_confidence_threshold = 7 / 10, ops_prioritize_quote_replies = True,
     ops_prioritize_meeting_replies = True, ops_allow_reply_assistant_generation = True,
     ops_use_reviewer_for_labels = [], ops_updated_at = t, ops_notifications_enabled = True,
     ops_notification_score_threshold = 50, ops_whatsapp_alerts_enabled = False,
     ops_whatsapp_min_severity = ''high'', ops_whatsapp_categories = [''business'',
     ''security''], ops_telegram_alerts_enabled = False, ops_slack_alerts_enabled = False,
     ops_slack_webhook_url = None, ops_slack_min_severity = ''high'',
     ops_whatsapp_outreach_enabled = False, ops_telegram_agent_enabled = False,
     ops_whatsapp_agent_enabled = False, ops_runtime_mode = ''safe'',
     ops_auto_pipeline_enabled = False, ops_auto_replenish_enabled = True,
     ops_low_resource_mode = None, ops_daily_usd_budget = None, ops_followup_days = 3,
     ops_pricing_matrix = None, ops_scoring_overrides = None\<rparr>"

definition get_or_create :: "store \<Rightarrow> operational_settings \<times> store" where
  "get_or_create s = (case ops s of
     Some row \<Rightarrow> (row, s)
   | None \<Rightarrow> let row = default_settings (now s) in (row, s\<lparr>ops := Some row\<rparr>))"

text \<open>
  \<open>get_cached_settings\<close>: the session remembers the row object, which is the object the
  identity map holds, so it reads as the row does.
\<close>

definition get_cached_settings :: "store \<Rightarrow> operational_settings \<times> store" where
  "get_cached_settings s = get_or_create s"

section \<open>Updates\<close>

text \<open>
  A value of the \<open>updates\<close> dict, by the type of its column, and \<open>setattr(row, key, value)\<close>.
  The request schema has checked the types, so a value only meets a column of its type.
\<close>

datatype setting_value = VB bool | VOB "bool option" | VS string | VOS "string option" | VI int
  | VOI "int option" | VF pyfloat | VOF "pyfloat option" | VL "string list"
  | VD "(string \<times> pyfloat) list option"

type_synonym setter = "setting_value \<Rightarrow> operational_settings \<Rightarrow> operational_settings"

definition on_B :: "(bool \<Rightarrow> operational_settings \<Rightarrow> operational_settings) \<Rightarrow> setter" where
  "on_B f v r = (case v of VB x \<Rightarrow> f x r | _ \<Rightarrow> r)"

definition on_OB :: "(bool option \<Rightarrow> operational_settings \<Rightarrow> operational_settings) \<Rightarrow> setter" where
  "on_OB f v r = (case v of VOB x \<Rightarrow> f x r | _ \<Rightarrow> r)"

definition on_S :: "(string \<Rightarrow> operational_settings \<Rightarrow> operational_settings) \<Rightarrow> setter" where
  "on_S f v r = (case v of VS x \<Rightarrow> f x r | _ \<Rightarrow> r)"

definition on_OS :: "(string option \<Rightarrow> operational_settings \<Rightarrow> operational_settings) \<Rightarrow> setter" where
  "on_OS f v r = (case v of VOS x \<Rightarrow> f x r | _ \<Rightarrow> r)"

definition on_I :: "(int \<Rightarrow> operational_settings \<Rightarrow> operational_settings) \<Rightarrow> setter" where
  "on_I f v r = (case v of VI x \<Rightarrow> f x r | _ \<Rightarrow> r)"

definition on_OI :: "(int option \<Rightarrow> operational_settings \<Rightarrow> operational_settings) \<Rightarrow> setter" where
  "on_OI f v r = (case v of VOI x \<Rightarrow> f x r | _ \<Rightarrow> r)"

definition on_F :: "(pyfloat \<Rightarrow> operational_settings \<Rightarrow> operational_settings) \<Rightarrow> setter" where
  "on_F f v r = (case v of VF x \<Rightarrow> f x r | _ \<Rightarrow> r)"

definition on_OF :: "(pyfloat option \<Rightarrow> operational_settings \<Rightarrow> operational_settings) \<Rightarrow> setter" where
  "on_OF f v r = (case v of VOF x \<Rightarrow> f x r | _ \<Rightarrow> r)"

definition on_L :: "(string list \<Rightarrow> operational_settings \<Rightarrow> operational_settings) \<Rightarrow> setter" where
  "on_L f v r = (case v of VL x \<Rightarrow> f x r | _ \<Rightarrow> r)"

definition on_D :: "((string \<times> pyfloat) list option \<Rightarrow> operational_settings \<Rightarrow> operational_settings) \<Rightarrow> setter" where
  "on_D f v r = (case v of VD x \<Rightarrow> f x r | _ \<Rightarrow> r)"

definition column_setters :: "(string \<times> setter) list" where
  "column_setters =
    [(''brand_name'', on_OS (\<lambda>x r. r\<lparr>ops_brand_name := x\<rparr>)),
     (''signature_name'', on_OS (\<lambda>x r. r\<lparr>ops_signature_name := x\<rparr>)),
     (''signature_role'', on_OS (\<lambda>x r. r\<lparr>ops_signature_role := x\<rparr>)),
     (''signature_company'', on_OS (\<lambda>x r. r\<lparr>ops_signature_company := x\<rparr>)),
     (''portfolio_url'', on_OS (\<lambda>x r. r\<lparr>ops_portfolio_url := x\<rparr>)),
     (''website_url'', on_OS (\<lambda>x r. r\<lparr>ops_website_url := x\<rparr>)),
     (''calendar_url'', on_OS (\<lambda>x r. r\<lparr>ops_calendar_url := x\<rparr>)),
     (''signature_cta'', on_OS (\<lambda>x r. r\<lparr>ops_signature_cta := x\<rparr>)),
     (''signature_include_portfolio'', on_B (\<lambda>x r. r\<lparr>ops_signature_include_portfolio := x\<rparr>)),
     (''signature_is_solo'', on_B (\<lambda>x r. r\<lparr>ops_signature_is_solo := x\<rparr>)),
     (''default_outreach_tone'', on_S (\<lambda>x r. r\<lparr>ops_default_outreach_tone := x\<rparr>)),
     (''default_reply_tone'', on_S (\<lambda>x r. r\<lparr>ops_default_reply_tone := x\<rparr>)),
     (''default_closing_line'', on_OS (\<lambda>x r. r\<lparr>ops_default_closing_line := x\<rparr>)),
     (''mail_enabled'', on_OB (\<lambda>x r. r\<lparr>ops_mail_enabled := x\<rparr>)),
     (''mail_from_email'', on_OS (\<lambda>x r. r\<lparr>ops_mail_from_email := x\<rparr>)),
     (''mail_from_name'', on_OS (\<lambda>x r. r\<lparr>ops_mail_from_name := x\<rparr>)),
     (''mail_reply_to'', on_OS (\<lambda>x r. r\<lparr>ops_mail_reply_to := x\<rparr>)),
     (''mail_send_timeout_seconds'', on_OI (\<lambda>x r. r\<lparr>ops_mail_send_timeout_seconds := x\<rparr>)),
     (''require_approved_drafts'', on_B (\<lambda>x r. r\<lparr>ops_require_approved_drafts := x\<rparr>)),
     (''mail_inbound_sync_enabled'', on_OB (\<lambda>x r. r\<lparr>ops_mail_inbound_sync_enabled := x\<rparr>)),
     (''mail_inbound_mailbox'', on_OS (\<lambda>x r. r\<lparr>ops_mail_inbound_mailbox := x\<rparr>)),
     (''mail_inbound_sync_limit'', on_OI (\<lambda>x r. r\<lparr>ops_mail_inbound_sync_limit := x\<rparr>)),
     (''mail_inbound_timeout_seconds'', on_OI (\<lambda>x r. r\<lparr>ops_mail_inbound_timeout_seconds := x\<rparr>)),
     (''mail_inbound_search_criteria'', on_OS (\<lambda>x r. r\<lparr>ops_mail_inbound_search_criteria := x\<rparr>)),
     (''auto_classify_inbound'', on_B (\<lambda>x r. r\<lparr>ops_auto_classify_inbound := x\<rparr>)),
     (''reply_assistant_enabled'', on_B (\<lambda>x r. r\<lparr>ops_reply_assistant_enabled := x\<rparr>)),
     (''reviewer_enabled'', on_B (\<lambda>x r. r\<lparr>ops_reviewer_enabled := x\<rparr>)),
     (''reviewer_labels'', on_L (\<lambda>x r. r\<lparr>ops_reviewer_labels := x\<rparr>)),
     (''reviewer_confidence_threshold'', on_F (\<lambda>x r. r\<lparr>ops_reviewer_confidence_threshold := x\<rparr>)),
     (''prioritize_quote_replies'', on_B (\<lambda>x r. r\<lparr>ops_prioritize_quote_replies := x\<rparr>)),
     (''prioritize_meeting_replies'', on_B (\<lambda>x r. r\<lparr>ops_prioritize_meeting_replies := x\<rparr>)),
     (''allow_reply_assistant_generation'', on_B (\<lambda>x r. r\<lparr>ops_allow_reply_assistant_generation := x\<rparr>)),
     (''use_reviewer_for_labels'', on_L (\<lambda>x r. r\<lparr>ops_use_reviewer_for_labels := x\<rparr>)),
     (''notifications_enabled'', on_B (\<lambda>x r. r\<lparr>ops_notifications_enabled := x\<rparr>)),
     (''notification_score_threshold'', on_I (\<lambda>x r. r\<lparr>ops_notification_score_threshold := x\<rparr>)),
     (''whatsapp_alerts_enabled'', on_B (\<lambda>x r. r\<lparr>ops_whatsapp_alerts_enabled := x\<rparr>)),
     (''whatsapp_min_severity'', on_S (\<lambda>x r. r\<lparr>ops_whatsapp_min_severity := x\<rparr>)),
     (''whatsapp_categories'', on_L (\<lambda>x r. r\<lparr>ops_whatsapp_categories := x\<rparr>)),
     (''telegram_alerts_enabled'', on_B (\<lambda>x r. r\<lparr>ops_telegram_alerts_enabled := x\<rparr>)),
     (''slack_alerts_enabled'', on_B (\<lambda>x r. r\<lparr>ops_slack_alerts_enabled := x\<rparr>)),
     (''slack_webhook_url'', on_OS (\<lambda>x r. r\<lparr>ops_slack_webhook_url := x\<rparr>)),
     (''slack_min_severity'', on_S (\<lambda>x r. r\<lparr>ops_slack_min_severity := x\<rparr>)),
     (''whatsapp_outreach_enabled'', on_B (\<lambda>x r. r\<lparr>ops_whatsapp_outreach_enabled := x\<rparr>)),
     (''telegram_agent_enabled'', on_B (\<lambda>x r. r\<lparr>ops_telegram_agent_enabled := x\<rparr>)),
     (''whatsapp_agent_enabled'', on_B (\<lambda>x r. r\<lparr>ops_whatsapp_agent_enabled := x\<rparr>)),
     (''runtime_mode'', on_S (\<lambda>x r. r\<lparr>ops_runtime_mode := x\<rparr>)),
     (''auto_pipeline_enabled'', on_B (\<lambda>x r. r\<lparr>ops_auto_pipeline_enabled := x\<rparr>)),
     (''auto_replenish_enabled'', on_B (\<lambda>x r. r\<lparr>ops_auto_replenish_enabled := x\<rparr>)),
     (''low_resource_mode'', on_OB (\<lambda>x r. r\<lparr>ops_low_resource_mode := x\<rparr>)),
     (''daily_usd_budget'', on_OF (\<lambda>x r. r\<lparr>ops_daily_usd_budget := x\<rparr>)),
     (''followup_days'', on_I (\<lambda>x r. r\<lparr>ops_followup_days := x\<rparr>)),
     (''pricing_matrix'', on_OS (\<lambda>x r. r\<lparr>ops_pricing_matrix := x\<rparr>)),
     (''scoring_overrides'', on_D (\<lambda>x r. r\<lparr>ops_scoring_overrides := x\<rparr>))]"

definition set_attribute :: "string \<Rightarrow> setter" where
  "set_attribute key v row = (case map_of column_setters key of Some f \<Rightarrow> f v row | None \<Rightarrow> row)"

definition allowed_settings_fields :: "string list" where
  "allowed_settings_fields =
    [''brand_name'', ''signature_name'', ''signature_role'', ''signature_company'',
     ''portfolio_url'', ''website_url'', ''calendar_url'', ''signature_cta'',
     ''signature_include_portfolio'', ''signature_is_solo'', ''default_outreach_tone'',
     ''default_reply_tone'', ''default_closing_line'', ''mail_enabled'', ''mail_from_email'',
     ''mail_from_name'', ''mail_reply_to'', ''mail_send_timeout_seconds'',
     ''require_approved_drafts'', ''mail_inbound_sync_enabled'', ''mail_inbound_mailbox'',
     ''mail_inbound_sync_limit'', ''mail_inbound_timeout_seconds'',
     ''mail_inbound_search_criteria'', ''auto_classify_inbound'',
     ''reply_assistant_enabled'', ''reviewer_enabled'', ''reviewer_labels'',
     ''reviewer_confidence_threshold'', ''prioritize_quote_replies'',
     ''prioritize_meeting_replies'', ''allow_reply_assistant_generation'',
     ''use_reviewer_for_labels'', ''notifications_enabled'',
     ''notification_score_threshold'', ''whatsapp_alerts_enabled'',
     ''whatsapp_min_severity'', ''whatsapp_categories'', ''telegram_alerts_enabled'',
     ''whatsapp_outreach_enabled'', ''telegram_agent_enabled'', ''whatsapp_agent_enabled'',
     ''runtime_mode'', ''pricing_matrix'', ''low_resource_mode'', ''auto_pipeline_enabled'']"

definition allowed_assign ::
    "string \<times> setting_value \<Rightarrow> operational_settings \<Rightarrow> operational_settings" where
  "allowed_assign u row =
     (if fst u \<in> set allowed_settings_fields then set_attribute (fst u) (snd u) row else row)"

definition update_operational_settings ::
    "(string \<times> setting_value) list \<Rightarrow> store \<Rightarrow> operational_settings \<times> store" where
  "update_operational_settings updates s =
     (let (row0, s1) = get_or_create s;
          row1 = fold allowed_assign updates row0;
          row = row1\<lparr>ops_updated_at := now s\<rparr>
      in (row, s1\<lparr>ops := Some row\<rparr>))"

text \<open>\<open>_RUNTIME_MODE_PRESETS\<close>.\<close>

definition runtime_mode_presets :: "(string \<times> (string \<times> setting_value) list) list" where
  "runtime_mode_presets =
    [(''safe'',
       [(''require_approved_drafts'', VB True), (''auto_classify_inbound'', VB False),
        (''reply_assistant_enabled'', VB False), (''reviewer_enabled'', VB False),
        (''whatsapp_outreach_enabled'', VB False), (''auto_pipeline_enabled'', VB False)]),
     (''assisted'',
       [(''require_approved_drafts'', VB True), (''auto_classify_inbound'', VB True),
        (''reply_assistant_enabled'', VB True), (''reviewer_enabled'', VB True),
        (''whatsapp_outreach_enabled'', VB False), (''auto_pipeline_enabled'', VB False)]),
     (''auto'',
       [(''require_approved_drafts'', VB False), (''auto_classify_inbound'', VB True),
        (''reply_assistant_enabled'', VB True), (''reviewer_enabled'', VB True),
        (''whatsapp_outreach_enabled'', VB True), (''auto_pipeline_enabled'', VB True)])]"

text \<open>An unknown mode raises \<open>ValueError\<close>, here \<open>Inl\<close> with its text.\<close>

definition apply_runtime_mode ::
    "string \<Rightarrow> store \<Rightarrow> string + operational_settings \<times> store" where
  "apply_runtime_mode mode s = (case map_of runtime_mode_presets mode of
     None \<Rightarrow> Inl (''Invalid runtime mode: '' @ mode @ ''. Must be one of: safe, assisted, auto'')
   | Some preset \<Rightarrow> Inr (update_operational_settings (preset @ [(''runtime_mode'', VS mode)]) s))"

section \<open>Values that fall back to the environment\<close>

text \<open>The mail part of \<open>app.core.config.settings\<close>, read from the environment at start.\<close>

record mail_env =
  env_MAIL_ENABLED :: bool
  env_MAIL_FROM_EMAIL :: "string option"
  env_MAIL_FROM_NAME :: string
  env_MAIL_REPLY_TO :: "string option"
  env_MAIL_SEND_TIMEOUT :: int
  env_MAIL_INBOUND_ENABLED :: bool
  env_MAIL_IMAP_MAILBOX :: string
  env_MAIL_IMAP_SEARCH_CRITERIA :: string
  env_MAIL_INBOUND_SYNC_LIMIT :: int
  env_MAIL_INBOUND_TIMEOUT :: int
  env_MAIL_USE_REVIEWER_FOR_LABELS :: string

definition mail_use_reviewer_for_labels :: "mail_env \<Rightarrow> string list" where
  "mail_use_reviewer_for_labels env =
     map strip (filter (\<lambda>label. strip label \<noteq> [])
       (split_on (CHR '','') (env_MAIL_USE_REVIEWER_FOR_LABELS env)))"

text \<open>\<open>_eff(db_val, env_val)\<close> for a required and for an optional value.\<close>

definition eff :: "'a option \<Rightarrow> 'a \<Rightarrow> 'a" where
  "eff db_val env_val = (case db_val of Some v \<Rightarrow> v | None \<Rightarrow> env_val)"

definition eff_opt :: "'a option \<Rightarrow> 'a option \<Rightarrow> 'a option" where
  "eff_opt db_val env_val = or_else db_val env_val"

record mail_outbound =
  mo_enabled :: bool
  mo_from_email :: "string option"
  mo_from_name :: string
  mo_reply_to :: "string option"
  mo_send_timeout_seconds :: int
  mo_require_approved_drafts :: bool

definition get_effective_mail_outbound :: "mail_env \<Rightarrow> operational_settings \<Rightarrow> mail_outbound" where
  "get_effective_mail_outbound env row =
     \<lparr>mo_enabled = eff (ops_mail_enabled row) (env_MAIL_ENABLED env),
      mo_from_email = eff_opt (ops_mail_from_email row) (env_MAIL_FROM_EMAIL env),
      mo_from_name = eff (ops_mail_from_name row) (env_MAIL_FROM_NAME env),
      mo_reply_to = eff_opt (ops_mail_reply_to row) (env_MAIL_REPLY_TO env),
      mo_send_timeout_seconds = eff (ops_mail_send_timeout_seconds row) (env_MAIL_SEND_TIMEOUT env),
      mo_require_approved_drafts = ops_require_approved_drafts row\<rparr>"

record mail_inbound =
  mi_sync_enabled :: bool
  mi_mailbox :: string
  mi_sync_limit :: int
  mi_timeout_seconds :: int
  mi_search_criteria :: string
  mi_auto_classify_inbound :: bool
  mi_use_reviewer_for_labels :: "string list"

definition get_effective_mail_inbound :: "mail_env \<Rightarrow> operational_settings \<Rightarrow> mail_inbound" where
  "get_effective_mail_inbound env row =
     \<lparr>mi_sync_enabled = eff (ops_mail_inbound_sync_enabled row) (env_MAIL_INBOUND_ENABLED env),
      mi_mailbox = eff (ops_mail_inbound_mailbox row) (env_MAIL_IMAP_MAILBOX env),
      mi_sync_limit = eff (ops_mail_inbound_sync_limit row) (env_MAIL_INBOUND_SYNC_LIMIT env),
      mi_timeout_seconds = eff (ops_mail_inbound_timeout_seconds row) (env_MAIL_INBOUND_TIMEOUT env),
      mi_search_criteria =
        eff (ops_mail_inbound_search_criteria row) (env_MAIL_IMAP_SEARCH_CRITERIA env),
      mi_auto_classify_inbound = ops_auto_classify_inbound row,
      mi_use_reviewer_for_labels =
        (if ops_use_reviewer_for_labels row \<noteq> [] then ops_use_reviewer_for_labels row
         else mail_use_reviewer_for_labels env)\<rparr>"

section \<open>Lemmas\<close>

lemma get_or_create_row [simp]: "ops (snd (get_or_create s)) = Some (fst (get_or_create s))"
  by (simp add: get_or_create_def Let_def split: option.splits)

lemma get_or_create_again: "get_or_create (snd (get_or_create s)) = get_or_create s"
  by (simp add: get_or_create_def Let_def split: option.splits)

lemma get_or_create_frame: "snd (get_or_create s) = s\<lparr>ops := Some (fst (get_or_create s))\<rparr>"
  by (simp add: get_or_create_def Let_def split: option.splits)

text \<open>The columns that are not in the list of allowed fields, as the row holds them.\<close>

definition protected_columns :: "operational_settings \<Rightarrow>
    bool \<times> string option \<times> string \<times> bool \<times> pyfloat option \<times> int
    \<times> (string \<times> pyfloat) list option" where
  "protected_columns r = (ops_slack_alerts_enabled r, ops_slack_webhook_url r,
     ops_slack_min_severity r, ops_auto_replenish_enabled r, ops_daily_usd_budget r,
     ops_followup_days r, ops_scoring_overrides r)"

text \<open>A setter that leaves the protected columns alone; the setters of the allowed fields do.\<close>

definition keeps_protected :: "setter \<Rightarrow> bool" where
  "keeps_protected f \<longleftrightarrow> (\<forall>v r. protected_columns (f v r) = protected_columns r)"

lemma keeps_protectedI:
  "(\<And>x r. protected_columns (f x r) = protected_columns r) \<Longrightarrow> keeps_protected (on_B f)"
  "(\<And>x r. protected_columns (g x r) = protected_columns r) \<Longrightarrow> keeps_protected (on_OB g)"
  "(\<And>x r. protected_columns (h x r) = protected_columns r) \<Longrightarrow> keeps_protected (on_S h)"
  "(\<And>x r. protected_columns (i x r) = protected_columns r) \<Longrightarrow> keeps_protected (on_OS i)"
  "(\<And>x r. protected_columns (j x r) = protected_columns r) \<Longrightarrow> keeps_protected (on_I j)"
  "(\<And>x r. protected_columns (k x r) = protected_columns r) \<Longrightarrow> keeps_protected (on_OI k)"
  "(\<And>x r. protected_columns (l x r) = protected_columns r) \<Longrightarrow> keeps_protected (on_F l)"
  "(\<And>x r. protected_columns (m x r) = protected_columns r) \<Longrightarrow> keeps_protected (on_L m)"
  by (simp_all add: keeps_protected_def on_B_def on_OB_def on_S_def on_OS_def on_I_def on_OI_def
      on_F_def on_L_def split: setting_value.splits)

definition protected_fields :: "string list" where
  "protected_fields = [''slack_alerts_enabled'', ''slack_webhook_url'', ''slack_min_severity'',
     ''auto_replenish_enabled'', ''daily_usd_budget'', ''followup_days'', ''scoring_overrides'']"

lemma protected_not_allowed: "list_all (\<lambda>f. f \<notin> set allowed_settings_fields) protected_fields"
  by (simp add: protected_fields_def allowed_settings_fields_def)

lemma column_setters_protected:
  "list_all (\<lambda>c. fst c \<in> set protected_fields \<or> keeps_protected (snd c)) column_setters"
  unfolding column_setters_def
  by (simp add: protected_fields_def keeps_protectedI protected_columns_def)

lemma allowed_assign_protected: "protected_columns (allowed_assign u r) = protected_columns r"
proof (cases "map_of column_setters (fst u)")
  case (Some f)
  then have "(fst u, f) \<in> set column_setters" by (rule map_of_SomeD)
  with column_setters_protected have "fst u \<in> set protected_fields \<or> keeps_protected f"
    by (force simp: list_all_iff)
  with protected_not_allowed have "fst u \<notin> set allowed_settings_fields \<or> keeps_protected f"
    by (auto simp: list_all_iff)
  with Some show ?thesis by (auto simp: allowed_assign_def set_attribute_def keeps_protected_def)
qed (simp add: allowed_assign_def set_attribute_def)

lemma fold_protected: "protected_columns (fold allowed_assign us r) = protected_columns r"
  by (induction us arbitrary: r) (simp_all add: allowed_assign_protected)

lemma update_settings_row:
  "update_operational_settings us s =
     (let row = (fold allowed_assign us (fst (get_or_create s)))\<lparr>ops_updated_at := now s\<rparr>
      in (row, s\<lparr>ops := Some row\<rparr>))"
  by (simp add: update_operational_settings_def get_or_create_frame [of s] Let_def split_beta)

text \<open>
  An update of the settings writes the settings row only and stamps it, whatever keys it is
  given: the columns that are not in the list of allowed fields keep their value.  Among them
  are the daily budget of the kill switch, the follow-up delay and everything about Slack.
\<close>

theorem settings_update_scope:
  "snd (update_operational_settings us s)
     = s\<lparr>ops := Some (fst (update_operational_settings us s))\<rparr>
   \<and> protected_columns (fst (update_operational_settings us s))
       = protected_columns (fst (get_or_create s))
   \<and> ops_updated_at (fst (update_operational_settings us s)) = now s"
proof -
  have "protected_columns (r\<lparr>ops_updated_at := t\<rparr>) = protected_columns r" for r t
    by (simp add: protected_columns_def)
  then show ?thesis by (simp add: update_settings_row Let_def fold_protected)
qed

text \<open>What a runtime mode stands for: the six switches and the mode's own name.\<close>

definition mode_columns :: "operational_settings \<Rightarrow> bool \<times> bool \<times> bool \<times> bool \<times> bool \<times> bool \<times> string" where
  "mode_columns r = (ops_require_approved_drafts r, ops_auto_classify_inbound r,
     ops_reply_assistant_enabled r, ops_reviewer_enabled r, ops_whatsapp_outreach_enabled r,
     ops_auto_pipeline_enabled r, ops_runtime_mode r)"

definition mode_meaning :: "string \<Rightarrow> (bool \<times> bool \<times> bool \<times> bool \<times> bool \<times> bool \<times> string) option" where
  "mode_meaning mode =
     (if mode = ''safe'' then Some (True, False, False, False, False, False, ''safe'')
      else if mode = ''assisted'' then Some (True, True, True, True, False, False, ''assisted'')
      else if mode = ''auto'' then Some (False, True, True, True, True, True, ''auto'')
      else None)"

lemma mode_presets_keys:
  "map_of runtime_mode_presets mode = None \<longleftrightarrow> mode_meaning mode = None"
  by (simp add: runtime_mode_presets_def mode_meaning_def)

lemma preset_setters:
  "map_of column_setters ''require_approved_drafts'' = Some (on_B (\<lambda>x r. r\<lparr>ops_require_approved_drafts := x\<rparr>))"
  "map_of column_setters ''auto_classify_inbound'' = Some (on_B (\<lambda>x r. r\<lparr>ops_auto_classify_inbound := x\<rparr>))"
  "map_of column_setters ''reply_assistant_enabled'' = Some (on_B (\<lambda>x r. r\<lparr>ops_reply_assistant_enabled := x\<rparr>))"
  "map_of column_setters ''reviewer_enabled'' = Some (on_B (\<lambda>x r. r\<lparr>ops_reviewer_enabled := x\<rparr>))"
  "map_of column_setters ''whatsapp_outreach_enabled'' = Some (on_B (\<lambda>x r. r\<lparr>ops_whatsapp_outreach_enabled := x\<rparr>))"
  "map_of column_setters ''auto_pipeline_enabled'' = Some (on_B (\<lambda>x r. r\<lparr>ops_auto_pipeline_enabled := x\<rparr>))"
  "map_of column_setters ''runtime_mode'' = Some (on_S (\<lambda>x r. r\<lparr>ops_runtime_mode := x\<rparr>))"
  by (simp_all add: column_setters_def)

lemma preset_allowed:
  "{''require_approved_drafts'', ''auto_classify_inbound'', ''reply_assistant_enabled'',
    ''reviewer_enabled'', ''whatsapp_outreach_enabled'', ''auto_pipeline_enabled'',
    ''runtime_mode''} \<subseteq> set allowed_settings_fields"
  by (simp add: allowed_settings_fields_def)

lemma preset_assign:
  "allowed_assign (''require_approved_drafts'', VB b) r = r\<lparr>ops_require_approved_drafts := b\<rparr>"
  "allowed_assign (''auto_classify_inbound'', VB b) r = r\<lparr>ops_auto_classify_inbound := b\<rparr>"
  "allowed_assign (''reply_assistant_enabled'', VB b) r = r\<lparr>ops_reply_assistant_enabled := b\<rparr>"
  "allowed_assign (''reviewer_enabled'', VB b) r = r\<lparr>ops_reviewer_enabled := b\<rparr>"
  "allowed_assign (''whatsapp_outreach_enabled'', VB b) r = r\<lparr>ops_whatsapp_outreach_enabled := b\<rparr>"
  "allowed_assign (''auto_pipeline_enabled'', VB b) r = r\<lparr>ops_auto_pipeline_enabled := b\<rparr>"
  "allowed_assign (''runtime_mode'', VS t) r = r\<lparr>ops_runtime_mode := t\<rparr>"
  using preset_allowed
  by (simp_all add: allowed_assign_def set_attribute_def preset_setters on_B_def on_S_def)

text \<open>
  Applying a runtime mode sets all six switches of the mode and its name at once, whatever the
  row said before; an unknown mode is refused with an error.  Nothing of an earlier mode is
  left over: in \<open>safe\<close> no automation is on and drafts need approval.
\<close>

theorem runtime_mode_complete:
  "case apply_runtime_mode mode s of
     Inl e \<Rightarrow> mode_meaning mode = None
   | Inr (row, s') \<Rightarrow> mode_meaning mode = Some (mode_columns row) \<and> ops s' = Some row"
proof (cases "map_of runtime_mode_presets mode")
  case None
  then show ?thesis by (simp add: apply_runtime_mode_def flip: mode_presets_keys)
next
  case (Some preset)
  then consider "mode = ''safe''" | "mode = ''assisted''" | "mode = ''auto''"
    by (auto simp: runtime_mode_presets_def split: if_splits)
  then show ?thesis
    by cases (simp_all add: apply_runtime_mode_def runtime_mode_presets_def update_settings_row
      Let_def preset_assign mode_columns_def mode_meaning_def)
qed

end
