(* ===== verification/Notifications.thy ===== *)
theory Notifications
  imports Settings "HOL-Library.AList"
begin

text \<open>
  Notifications: creation behind a deduplication and a rate-limit guard, dispatch to the
  outside channels, status updates and counts
  (\<open>app/services/notifications/notification_service.py\<close>), and the emitters the other services
  call (\<open>notification_emitter.py\<close>).
\<close>

section \<open>Rows\<close>

definition get_notif :: "store \<Rightarrow> uuid \<Rightarrow> notification option" where
  "get_notif s k = tbl_get notif_id (notifs s) k"

definition stamp_notif ::
    "store \<Rightarrow> (notification \<Rightarrow> notification) \<Rightarrow> notification \<Rightarrow> notification" where
  "stamp_notif s f n = (if f n = n then n else (f n)\<lparr>notif_updated_at := now s\<rparr>)"

definition upd_notif :: "uuid \<Rightarrow> (notification \<Rightarrow> notification) \<Rightarrow> store \<Rightarrow> store" where
  "upd_notif k f s = s\<lparr>notifs := tbl_update notif_id k (stamp_notif s f) (notifs s)\<rparr>"

definition add_notif :: "notification \<Rightarrow> store \<Rightarrow> store" where
  "add_notif n s = s\<lparr>notifs := notifs s @ [n]\<rparr>"

lemma stamp_notif_fields [simp]:
  "notif_id (stamp_notif s f n) = notif_id (f n)"
  "notif_type (stamp_notif s f n) = notif_type (f n)"
  "notif_category (stamp_notif s f n) = notif_category (f n)"
  "notif_severity (stamp_notif s f n) = notif_severity (f n)"
  "notif_source_kind (stamp_notif s f n) = notif_source_kind (f n)"
  "notif_source_id (stamp_notif s f n) = notif_source_id (f n)"
  "notif_status (stamp_notif s f n) = notif_status (f n)"
  "notif_read_at (stamp_notif s f n) = notif_read_at (f n)"
  "notif_acknowledged_at (stamp_notif s f n) = notif_acknowledged_at (f n)"
  "notif_resolved_at (stamp_notif s f n) = notif_resolved_at (f n)"
  "notif_channel_state (stamp_notif s f n) = notif_channel_state (f n)"
  "notif_dedup_key (stamp_notif s f n) = notif_dedup_key (f n)"
  "notif_created_at (stamp_notif s f n) = notif_created_at (f n)"
  by (simp_all add: stamp_notif_def)

interpretation notif_tbl: table get_notif upd_notif add_notif notif_id stamp_notif
  by unfold_locales
    (auto dest: tbl_get_key simp: get_notif_def upd_notif_def add_notif_def table_simps
      stamp_notif_def [abs_def])

section \<open>Enumerations by value\<close>

fun category_value :: "NotificationCategory \<Rightarrow> string" where
  "category_value BUSINESS = ''business''"
| "category_value SYSTEM = ''system''"
| "category_value SECURITY = ''security''"

text \<open>\<open>NotificationStatus(value)\<close>; an unknown value raises.\<close>

definition notif_status_of :: "string \<Rightarrow> NotificationStatus option" where
  "notif_status_of v = map_of [(''unread'', N_UNREAD), (''read'', N_READ),
     (''acknowledged'', N_ACKNOWLEDGED), (''resolved'', N_RESOLVED)] v"

text \<open>\<open>_SEV_ORDER.get(value, 2)\<close>.\<close>

definition min_sev_order :: "string \<Rightarrow> nat" where
  "min_sev_order v = (case map_of [(''info'', 0), (''warning'', 1), (''high'', 2),
     (''critical'', 3)] v of Some n \<Rightarrow> n | None \<Rightarrow> 2)"

section \<open>Dispatch\<close>

definition alert_categories :: "operational_settings \<Rightarrow> string list" where
  "alert_categories st = (if ops_whatsapp_categories st \<noteq> [] then ops_whatsapp_categories st
     else [''business'', ''security''])"

text \<open>
  The guards of the three dispatchers.  The settings have no columns of Telegram's own for
  severity and categories, so its \<open>getattr\<close> falls through to those of WhatsApp.
\<close>

definition whatsapp_gate :: "operational_settings \<Rightarrow> notification \<Rightarrow> bool" where
  "whatsapp_gate st n =
     (ops_whatsapp_alerts_enabled st
      \<and> \<not> sev_order (notif_severity n) < min_sev_order (ops_whatsapp_min_severity st)
      \<and> category_value (notif_category n) \<in> set (alert_categories st)
      \<and> notif_type n \<noteq> ''whatsapp_delivery_failed'')"

definition telegram_gate :: "operational_settings \<Rightarrow> notification \<Rightarrow> bool" where
  "telegram_gate st n =
     (ops_telegram_alerts_enabled st
      \<and> \<not> sev_order (notif_severity n) < min_sev_order (ops_whatsapp_min_severity st)
      \<and> category_value (notif_category n) \<in> set (alert_categories st)
      \<and> notif_type n \<notin> {''telegram_delivery_failed'', ''whatsapp_delivery_failed''})"

definition slack_gate :: "operational_settings \<Rightarrow> notification \<Rightarrow> bool" where
  "slack_gate st n =
     (ops_slack_alerts_enabled st
      \<and> \<not> sev_order (notif_severity n) < min_sev_order (ops_slack_min_severity st)
      \<and> notif_type n \<noteq> ''slack_delivery_failed'')"

definition channel_result :: "string \<Rightarrow> string + bool \<Rightarrow> notification \<Rightarrow> notification" where
  "channel_result channel answer n = n\<lparr>notif_channel_state := Some
     (let st = (case notif_channel_state n of Some m \<Rightarrow> m | None \<Rightarrow> []) in
      case answer of
        Inr ok \<Rightarrow> AList.update channel (if ok then ''sent'' else ''failed'') st
      | Inl e \<Rightarrow> AList.update (channel @ ''_error'') (take 200 e)
                  (AList.update channel ''failed'' st))\<rparr>"

text \<open>\<open>_maybe_dispatch_<channel>(db, notif)\<close> for the notification with id \<open>k\<close>.\<close>

definition maybe_dispatch ::
    "string \<Rightarrow> (operational_settings \<Rightarrow> notification \<Rightarrow> bool) \<Rightarrow> uuid \<Rightarrow> store \<Rightarrow> store" where
  "maybe_dispatch channel gate k s =
     (let (st, s1) = get_or_create s in
      case get_notif s1 k of
        None \<Rightarrow> s1
      | Some n \<Rightarrow> if gate st n
                  then upd_notif k (channel_result channel (alert_answer s1 channel k)) s1
                  else s1)"

section \<open>Creation\<close>

record notif_args =
  na_type :: string
  na_category :: NotificationCategory
  na_severity :: NotificationSeverity
  na_title :: string
  na_message :: string
  na_source_kind :: "string option"
  na_source_id :: "uuid option"
  na_metadata :: "json option"
  na_dedup_key :: "string option"

definition rate_limit_window :: datetime where
  "rate_limit_window = minutes 15"

definition rate_limit_max :: nat where
  "rate_limit_max = 3"

definition has_dedup_key :: "string option \<Rightarrow> store \<Rightarrow> bool" where
  "has_dedup_key key s = (truthy key \<and> (\<exists>n \<in> set (notifs s). notif_dedup_key n = key))"

definition recent_count :: "notif_args \<Rightarrow> store \<Rightarrow> nat" where
  "recent_count a s = length (filter (\<lambda>n. notif_type n = na_type a
      \<and> notif_source_kind n = na_source_kind a \<and> notif_source_id n = na_source_id a
      \<and> now s - rate_limit_window \<le> notif_created_at n) (notifs s))"

definition rate_limited :: "notif_args \<Rightarrow> store \<Rightarrow> bool" where
  "rate_limited a s = (truthy (na_source_kind a) \<and> na_source_id a \<noteq> None
     \<and> rate_limit_max \<le> recent_count a s)"

definition new_notif :: "notif_args \<Rightarrow> store \<Rightarrow> notification" where
  "new_notif a s = \<lparr>notif_id = next_uuid s, notif_type = na_type a,
     notif_category = na_category a, notif_severity = na_severity a, notif_title = na_title a,
     notif_message = na_message a, notif_source_kind = na_source_kind a,
     notif_source_id = na_source_id a, notif_metadata = na_metadata a,
     notif_status = N_UNREAD, notif_read_at = None, notif_acknowledged_at = None,
     notif_resolved_at = None, notif_channel_state = Some [(''in_app'', ''delivered'')],
     notif_dedup_key = (if truthy (na_dedup_key a) then na_dedup_key a else None),
     notif_created_at = now s, notif_updated_at = now s\<rparr>"

text \<open>
  \<open>create_notification\<close>: the id of the new row, or nothing when a guard held it back.  The
  guards read this session's database; the unique key is checked against the committed one
  (\<open>base\<close>) as well, and a clash rolls the whole session back.
\<close>

definition create_notification :: "store \<Rightarrow> notif_args \<Rightarrow> store \<Rightarrow> uuid option \<times> store" where
  "create_notification base a s =
     (if has_dedup_key (na_dedup_key a) s then (None, s)
      else if rate_limited a s then (None, s)
      else if has_dedup_key (na_dedup_key a) base then (None, rollback_to base s)
      else let k = next_uuid s;
               s1 = add_notif (new_notif a s) (tick_uuid s);
               s2 = maybe_dispatch ''whatsapp'' whatsapp_gate k s1;
               s3 = maybe_dispatch ''telegram'' telegram_gate k s2;
               s4 = maybe_dispatch ''slack'' slack_gate k s3
           in (Some k, s4))"

section \<open>Reading\<close>

text \<open>The filters of \<open>list_notifications\<close>, parsed to the enumerations of the columns.\<close>

definition matches_filter ::
    "NotificationCategory option \<Rightarrow> NotificationSeverity option \<Rightarrow> NotificationStatus option \<Rightarrow>
     string option \<Rightarrow> notification \<Rightarrow> bool" where
  "matches_filter cat sev st ty n =
     ((cat = None \<or> cat = Some (notif_category n)) \<and> (sev = None \<or> sev = Some (notif_severity n))
      \<and> (st = None \<or> st = Some (notif_status n)) \<and> (\<not> truthy ty \<or> ty = Some (notif_type n)))"

definition unread_notifs :: "store \<Rightarrow> notification list" where
  "unread_notifs s = filter (\<lambda>n. notif_status n = N_UNREAD) (notifs s)"

definition list_notifications ::
    "nat \<Rightarrow> nat \<Rightarrow> NotificationCategory option \<Rightarrow> NotificationSeverity option \<Rightarrow>
     NotificationStatus option \<Rightarrow> string option \<Rightarrow> store \<Rightarrow> notification list \<times> nat \<times> nat" where
  "list_notifications page page_size cat sev st ty s =
     (let q = filter (matches_filter cat sev st ty) (notifs s) in
      (take page_size (drop ((page - 1) * page_size)
         (sort_key (\<lambda>n. - notif_created_at n) q)), length q, length (unread_notifs s)))"

record notif_counts =
  nc_total_unread :: nat
  nc_business :: nat
  nc_system :: nat
  nc_security :: nat
  nc_critical :: nat
  nc_high :: nat

definition add_group ::
    "(NotificationCategory \<times> NotificationSeverity) \<times> nat \<Rightarrow> notif_counts \<Rightarrow> notif_counts" where
  "add_group g c = (let ((cat, sev), cnt) = g in c\<lparr>
     nc_total_unread := nc_total_unread c + cnt,
     nc_business := nc_business c + (if cat = BUSINESS then cnt else 0),
     nc_system := nc_system c + (if cat = SYSTEM then cnt else 0),
     nc_security := nc_security c + (if cat = SECURITY then cnt else 0),
     nc_critical := nc_critical c + (if sev = SEV_CRITICAL then cnt else 0),
     nc_high := nc_high c + (if sev = SEV_HIGH then cnt else 0)\<rparr>)"

definition group_counts :: "('r \<Rightarrow> 'g) \<Rightarrow> 'r list \<Rightarrow> ('g \<times> nat) list" where
  "group_counts f rows =
     map (\<lambda>g. (g, length (filter (\<lambda>r. f r = g) rows))) (remdups (map f rows))"

definition get_notification_counts :: "store \<Rightarrow> notif_counts" where
  "get_notification_counts s =
     fold add_group (group_counts (\<lambda>n. (notif_category n, notif_severity n)) (unread_notifs s))
       \<lparr>nc_total_unread = 0, nc_business = 0, nc_system = 0, nc_security = 0, nc_critical = 0,
        nc_high = 0\<rparr>"

section \<open>Status updates\<close>

definition set_notif_status :: "datetime \<Rightarrow> NotificationStatus \<Rightarrow> notification \<Rightarrow> notification" where
  "set_notif_status t st n = (let n1 = n\<lparr>notif_status := st\<rparr> in case st of
       N_UNREAD \<Rightarrow> n1
     | N_READ \<Rightarrow> n1\<lparr>notif_read_at := or_else (notif_read_at n) (Some t)\<rparr>
     | N_ACKNOWLEDGED \<Rightarrow> n1\<lparr>notif_read_at := or_else (notif_read_at n) (Some t),
         notif_acknowledged_at := or_else (notif_acknowledged_at n) (Some t)\<rparr>
     | N_RESOLVED \<Rightarrow> n1\<lparr>notif_read_at := or_else (notif_read_at n) (Some t),
         notif_resolved_at := or_else (notif_resolved_at n) (Some t)\<rparr>)"

text \<open>An unknown status raises \<open>ValueError\<close>, but only when the notification exists.\<close>

definition update_notification_status ::
    "uuid \<Rightarrow> string \<Rightarrow> store \<Rightarrow> string + notification option \<times> store" where
  "update_notification_status k new_status s =
     (case get_notif s k of
        None \<Rightarrow> Inr (None, s)
      | Some n \<Rightarrow> (case notif_status_of new_status of
          None \<Rightarrow> Inl new_status
        | Some st \<Rightarrow> let s' = upd_notif k (set_notif_status (now s) st) s in Inr (get_notif s' k, s')))"

definition bulk_selected ::
    "uuid list option \<Rightarrow> NotificationCategory option \<Rightarrow> notification \<Rightarrow> bool" where
  "bulk_selected ids cat n = (case ids of
       Some (k # ks) \<Rightarrow> notif_id n \<in> set (k # ks)
     | _ \<Rightarrow> (case cat of Some c \<Rightarrow> notif_category n = c | None \<Rightarrow> True) \<and> notif_status n = N_UNREAD)"

definition bulk_update_notifications ::
    "uuid list option \<Rightarrow> string \<Rightarrow> NotificationCategory option \<Rightarrow> store \<Rightarrow> nat \<times> store" where
  "bulk_update_notifications ids action cat s =
     (let t = Some (now s); p = bulk_selected ids cat;
          set_rows = (\<lambda>f. (length (filter p (notifs s)),
            s\<lparr>notifs := tbl_where p (\<lambda>n. (f n)\<lparr>notif_updated_at := now s\<rparr>) (notifs s)\<rparr>))
      in if action = ''mark_read''
         then set_rows (\<lambda>n. n\<lparr>notif_status := N_READ, notif_read_at := t\<rparr>)
         else if action = ''mark_resolved''
         then set_rows (\<lambda>n. n\<lparr>notif_status := N_RESOLVED, notif_read_at := t, notif_resolved_at := t\<rparr>)
         else (0, s))"

section \<open>Emitters\<close>

text \<open>
  \<open>_emit\<close>: nothing when notifications are switched off, otherwise \<open>create_notification\<close>; the
  \<open>except\<close> of the wrapper only meets errors of the database driver.
\<close>

definition emit :: "store \<Rightarrow> notif_args \<Rightarrow> store \<Rightarrow> store" where
  "emit base a s = (let (st, s1) = get_cached_settings s in
     if ops_notifications_enabled st then snd (create_notification base a s1) else s1)"

definition jstr :: "string option \<Rightarrow> json" where
  "jstr v = (case v of None \<Rightarrow> JNull | Some t \<Rightarrow> JStr t)"

definition jfloat :: "pyfloat option \<Rightarrow> json" where
  "jfloat v = (case v of None \<Rightarrow> JNull | Some x \<Rightarrow> JFloat x)"

text \<open>\<open>value or fallback\<close> in a text.\<close>

definition or_text :: "string option \<Rightarrow> string \<Rightarrow> string" where
  "or_text v fallback = (if truthy v then text_or_empty v else fallback)"

definition high_value_labels :: "string list" where
  "high_value_labels = [''interested'', ''asked_for_quote'', ''asked_for_meeting'']"

definition on_reply_classified ::
    "store \<Rightarrow> uuid \<Rightarrow> string \<Rightarrow> string option \<Rightarrow> string option \<Rightarrow> pyfloat option \<Rightarrow> bool \<Rightarrow>
     store \<Rightarrow> store" where
  "on_reply_classified base k label business_name from_email confidence should_escalate s =
     (if label \<notin> set high_value_labels \<and> \<not> should_escalate then s
      else
        let escalated = should_escalate \<and> label \<notin> set high_value_labels;
            title0 = (case map_of [(''interested'', ''Reply interesada''),
                (''asked_for_quote'', ''Pedido de cotizacion''),
                (''asked_for_meeting'', ''Pedido de reunion'')] label of
              Some t \<Rightarrow> t | None \<Rightarrow> ''Reply: '' @ label);
            title1 = (if truthy business_name then title0 @ '' - '' @ text_or_empty business_name
                      else title0);
            ty0 = (case map_of [(''interested'', ''reply_interested''),
                (''asked_for_quote'', ''quote_request''),
                (''asked_for_meeting'', ''meeting_request'')] label of
              Some t \<Rightarrow> t | None \<Rightarrow> ''reply_important'')
        in emit base
          \<lparr>na_type = (if escalated then ''review_required'' else ty0), na_category = BUSINESS,
           na_severity = (if escalated then SEV_WARNING else SEV_HIGH),
           na_title = (if escalated
             then ''Review requerido - '' @ or_text business_name (or_text from_email ''lead'')
             else title1),
           na_message = ''De: '' @ or_text from_email ''desconocido'' @ ''. Label: '' @ label
             @ ''. Confianza: '' @ format_pct (case confidence of Some c \<Rightarrow> c | None \<Rightarrow> 0) @ ''.'',
           na_source_kind = Some ''inbound_message'', na_source_id = Some k,
           na_metadata = Some (JObj [(''label'', JStr label), (''business_name'', jstr business_name),
             (''from_email'', jstr from_email), (''confidence'', jfloat confidence)]),
           na_dedup_key = Some (''reply_classified:'' @ uuid_str k)\<rparr> s)"

definition on_high_score_lead ::
    "store \<Rightarrow> uuid \<Rightarrow> string \<Rightarrow> pyfloat \<Rightarrow> pyfloat \<Rightarrow> store \<Rightarrow> store" where
  "on_high_score_lead base k business_name score threshold s =
     (if score < threshold then s
      else emit base
        \<lparr>na_type = ''high_score_lead'', na_category = BUSINESS, na_severity = SEV_WARNING,
         na_title = ''Lead con score alto - '' @ business_name,
         na_message = ''Score: '' @ format_0f score @ '' (umbral: '' @ format_0f threshold @ '').'',
         na_source_kind = Some ''lead'', na_source_id = Some k,
         na_metadata = Some (JObj [(''score'', JFloat score), (''business_name'', JStr business_name)]),
         na_dedup_key = Some (''high_score:'' @ uuid_str k)\<rparr> s)"

definition on_draft_needs_review ::
    "store \<Rightarrow> uuid \<Rightarrow> string option \<Rightarrow> string \<Rightarrow> store \<Rightarrow> store" where
  "on_draft_needs_review base k business_name source_type s = emit base
     \<lparr>na_type = ''review_required'', na_category = BUSINESS, na_severity = SEV_WARNING,
      na_title = ''Draft requiere review - '' @ or_text business_name ''lead'',
      na_message = ''Un draft asistido requiere revision antes de enviar.'',
      na_source_kind = Some source_type, na_source_id = Some k,
      na_metadata = Some (JObj [(''business_name'', jstr business_name)]),
      na_dedup_key = Some (''review_required:'' @ uuid_str k)\<rparr> s"

definition on_send_failed ::
    "store \<Rightarrow> uuid option \<Rightarrow> uuid option \<Rightarrow> string option \<Rightarrow> string option \<Rightarrow> string \<Rightarrow>
     store \<Rightarrow> store" where
  "on_send_failed base delivery_id send_id recipient err send_type s =
     (let source_id = or_else delivery_id send_id in emit base
        \<lparr>na_type = ''send_failed'', na_category = SYSTEM, na_severity = SEV_HIGH,
         na_title = ''Fallo de envio - '' @ or_text recipient ''desconocido'',
         na_message = ''Tipo: '' @ send_type @ ''. Error: '' @ take 200 (or_text err ''desconocido'')
           @ ''.'',
         na_source_kind = Some (if send_type = ''outreach'' then ''outreach_delivery''
           else ''reply_assistant_send''),
         na_source_id = source_id,
         na_metadata = Some (JObj [(''recipient'', jstr recipient), (''error'', jstr err),
           (''send_type'', JStr send_type)]),
         na_dedup_key = map_option (\<lambda>k. ''send_failed:'' @ uuid_str k) source_id\<rparr> s)"

definition on_sync_failed :: "store \<Rightarrow> uuid option \<Rightarrow> string option \<Rightarrow> store \<Rightarrow> store" where
  "on_sync_failed base sync_run_id err s = emit base
     \<lparr>na_type = ''sync_failed'', na_category = SYSTEM, na_severity = SEV_HIGH,
      na_title = ''Sync de mail entrante fallo'',
      na_message = ''Error: '' @ take 200 (or_text err ''desconocido'') @ ''.'',
      na_source_kind = Some ''inbound_mail_sync_run'', na_source_id = sync_run_id,
      na_metadata = Some (JObj [(''error'', jstr err)]),
      na_dedup_key = map_option (\<lambda>k. ''sync_failed:'' @ uuid_str k) sync_run_id\<rparr> s"

definition on_research_completed ::
    "store \<Rightarrow> uuid \<Rightarrow> string option \<Rightarrow> int \<Rightarrow> store \<Rightarrow> store" where
  "on_research_completed base k business_name signals_count s = emit base
     \<lparr>na_type = ''research_completed'', na_category = BUSINESS, na_severity = SEV_INFO,
      na_title = ''Dossier listo - '' @ or_text business_name ''lead'',
      na_message = ''Investigacion completada con '' @ int_str signals_count @ '' senales detectadas.'',
      na_source_kind = Some ''lead'', na_source_id = Some k,
      na_metadata = Some (JObj [(''business_name'', jstr business_name),
        (''signals_count'', JInt signals_count)]),
      na_dedup_key = Some (''research_completed:'' @ uuid_str k)\<rparr> s"

definition on_brief_generated ::
    "store \<Rightarrow> uuid \<Rightarrow> string option \<Rightarrow> pyfloat option \<Rightarrow> string option \<Rightarrow> store \<Rightarrow> store" where
  "on_brief_generated base k business_name opportunity_score should_call s = emit base
     \<lparr>na_type = ''brief_generated'', na_category = BUSINESS,
      na_severity = (if should_call = Some ''yes'' then SEV_HIGH else SEV_WARNING),
      na_title = ''Brief comercial listo - '' @ or_text business_name ''lead'',
      na_message = ''Opportunity score: ''
        @ format_0f (case opportunity_score of Some x \<Rightarrow> x | None \<Rightarrow> 0)
        @ ''. Llamar: '' @ or_text should_call ''pendiente'' @ ''.'',
      na_source_kind = Some ''lead'', na_source_id = Some k,
      na_metadata = Some (JObj [(''business_name'', jstr business_name),
        (''opportunity_score'', jfloat opportunity_score), (''should_call'', jstr should_call)]),
      na_dedup_key = Some (''brief_generated:'' @ uuid_str k)\<rparr> s"

definition on_territory_saturated ::
    "store \<Rightarrow> uuid \<Rightarrow> string \<Rightarrow> pyfloat \<Rightarrow> store \<Rightarrow> store" where
  "on_territory_saturated base k territory_name dup_ratio s = emit base
     \<lparr>na_type = ''territory_saturated'', na_category = BUSINESS, na_severity = SEV_WARNING,
      na_title = ''Territorio saturado - '' @ territory_name,
      na_message = ''Ratio de duplicados: '' @ format_pct dup_ratio
        @ ''. El territorio entrara en periodo de enfriamiento.'',
      na_source_kind = Some ''territory'', na_source_id = Some k,
      na_metadata = Some (JObj [(''territory_name'', JStr territory_name),
        (''dup_ratio'', JFloat dup_ratio)]),
      na_dedup_key = Some (''territory_saturated:'' @ uuid_str k)\<rparr> s"

definition on_repeated_failures ::
    "store \<Rightarrow> string \<Rightarrow> int \<Rightarrow> string \<Rightarrow> store \<Rightarrow> store" where
  "on_repeated_failures base failure_type cnt detail s = emit base
     \<lparr>na_type = ''repeated_failures'', na_category = SYSTEM, na_severity = SEV_HIGH,
      na_title = ''Fallos repetidos - '' @ failure_type,
      na_message = int_str cnt @ '' fallos recientes. '' @ detail,
      na_source_kind = None, na_source_id = None,
      na_metadata = Some (JObj [(''failure_type'', JStr failure_type), (''count'', JInt cnt)]),
      na_dedup_key = None\<rparr> s"

section \<open>The guards\<close>

text \<open>What the guards look at in a row; no later operation changes it.\<close>

definition guard_key :: "notification \<Rightarrow>
    string \<times> string option \<times> uuid option \<times> datetime \<times> string option" where
  "guard_key n = (notif_type n, notif_source_kind n, notif_source_id n, notif_created_at n,
     notif_dedup_key n)"

definition guard_keys :: "store \<Rightarrow> (string \<times> string option \<times> uuid option \<times> datetime \<times> string option) list" where
  "guard_keys s = map guard_key (notifs s)"

lemma guard_key_row_functions [simp]:
  "guard_key (channel_result c a n) = guard_key n"
  "guard_key (set_notif_status t st n) = guard_key n"
  "guard_key (stamp_notif s f n) = guard_key (f n)"
  by (simp_all add: guard_key_def channel_result_def set_notif_status_def Let_def
      split: NotificationStatus.splits)

lemma notif_row_keys [simp]:
  "notif_id (channel_result c a n) = notif_id n"
  "notif_id (set_notif_status t st n) = notif_id n"
  by (simp_all add: channel_result_def set_notif_status_def Let_def
      split: NotificationStatus.splits)

lemma guard_keys_upd: "(\<And>n. guard_key (f n) = guard_key n) \<Longrightarrow> guard_keys (upd_notif k f s) = guard_keys s"
  by (simp add: guard_keys_def upd_notif_def tbl_update_def)

lemma guard_keys_settings [simp]:
  "guard_keys (snd (get_or_create s)) = guard_keys s" "notifs (snd (get_or_create s)) = notifs s"
  "now (snd (get_or_create s)) = now s" "get_notif (snd (get_or_create s)) = get_notif s"
  by (simp_all add: get_or_create_frame [of s] guard_keys_def get_notif_def fun_eq_iff)

lemma guard_keys_dispatch [simp]: "guard_keys (maybe_dispatch c g k s) = guard_keys s"
  by (simp add: maybe_dispatch_def split_beta Let_def guard_keys_upd split: option.splits)

lemma guard_keys_add [simp]: "guard_keys (add_notif n s) = guard_keys s @ [guard_key n]"
  by (simp add: guard_keys_def add_notif_def)

lemma guard_keys_frame [simp]:
  "guard_keys (tick_uuid s) = guard_keys s" "guard_keys (rollback_to base s) = guard_keys base"
  by (simp_all add: guard_keys_def tick_uuid_def rollback_to_def)

text \<open>A session that meets the key another session committed after it looked.\<close>

definition lost_race :: "store \<Rightarrow> notif_args \<Rightarrow> store \<Rightarrow> bool" where
  "lost_race base a s = (\<not> has_dedup_key (na_dedup_key a) s \<and> \<not> rate_limited a s
     \<and> has_dedup_key (na_dedup_key a) base)"

definition held_back :: "notif_args \<Rightarrow> store \<Rightarrow> bool" where
  "held_back a s = (has_dedup_key (na_dedup_key a) s \<or> rate_limited a s)"

lemma guard_keys_create:
  "guard_keys (snd (create_notification base a s)) =
     (if held_back a s then guard_keys s
      else if lost_race base a s then guard_keys base
      else guard_keys s @ [guard_key (new_notif a s)])"
  by (simp add: create_notification_def lost_race_def held_back_def Let_def)

text \<open>Creating a notification touches the notifications, the settings row and the UUID supply.\<close>

definition notif_frame :: "store \<Rightarrow> store \<Rightarrow> bool" where
  "notif_frame s s' \<longleftrightarrow> (\<exists>ns o' u. s' = s\<lparr>notifs := ns, ops := o', next_uuid := u\<rparr>)"

lemma notif_frameI:
  "s' = s\<lparr>notifs := notifs s', ops := ops s', next_uuid := next_uuid s'\<rparr> \<Longrightarrow> notif_frame s s'"
  unfolding notif_frame_def by blast

lemma notif_frame_refl [simp]: "notif_frame s s"
  by (rule notif_frameI) simp

lemma notif_frame_trans: "notif_frame s s' \<Longrightarrow> notif_frame s' s'' \<Longrightarrow> notif_frame s s''"
  by (rule notif_frameI) (auto simp: notif_frame_def intro!: store.equality)

lemma notif_frame_fields:
  assumes "notif_frame s s'"
  shows "leads s' = leads s" "signals s' = signals s" "lead_events s' = lead_events s"
    "suppressions s' = suppressions s" "snapshots s' = snapshots s" "drafts s' = drafts s"
    "ologs s' = ologs s" "deliveries s' = deliveries s" "convos s' = convos s" "runs s' = runs s"
    "tasks s' = tasks s" "dead_letters s' = dead_letters s" "threads s' = threads s"
    "messages s' = messages s" "sync_runs s' = sync_runs s" "reply_drafts s' = reply_drafts s"
    "reply_reviews s' = reply_reviews s" "reply_sends s' = reply_sends s"
    "territories s' = territories s" "reports s' = reports s" "dispatched s' = dispatched s"
    "now s' = now s"
  using assms by (auto simp: notif_frame_def)

lemma notif_frame_settings: "notif_frame s (snd (get_or_create s))"
  by (rule notif_frameI) (simp add: get_or_create_frame [of s])

lemma notif_frame_upd: "notif_frame s (upd_notif k f s)"
  by (rule notif_frameI) (simp add: upd_notif_def)

lemma notif_frame_dispatch: "notif_frame s (maybe_dispatch c g k s)"
  by (auto simp: maybe_dispatch_def split_beta Let_def notif_frame_settings
      intro: notif_frame_trans [OF notif_frame_settings notif_frame_upd] split: option.splits)

lemma notif_frame_new: "notif_frame s (add_notif n (tick_uuid s))"
  by (rule notif_frameI) (simp add: add_notif_def tick_uuid_def)

lemma create_frame:
  assumes "\<not> lost_race base a s"
  shows "notif_frame s (snd (create_notification base a s))"
  using assms
  by (auto simp: create_notification_def lost_race_def Let_def
      intro!: notif_frame_trans [OF _ notif_frame_dispatch] notif_frame_new)

lemma lost_race_settings [simp]: "lost_race base a (snd (get_or_create s)) = lost_race base a s"
  by (simp add: lost_race_def has_dedup_key_def rate_limited_def recent_count_def)

lemma emit_notif_frame:
  assumes "\<not> lost_race base a s"
  shows "notif_frame s (emit base a s)"
  using assms
  by (auto simp: emit_def get_cached_settings_def split_beta Let_def notif_frame_settings
      intro!: notif_frame_trans [OF notif_frame_settings create_frame])

section \<open>Guard invariants\<close>

text \<open>
  The states the notification tables go through: any number of sessions create, emit and
  update; \<open>base\<close> is what others have committed meanwhile.  Whatever else happens to the
  store, the clock included, leaves the notifications alone.
\<close>

inductive notif_reach :: "store \<Rightarrow> bool" where
  nr_init: "notifs s = [] \<Longrightarrow> notif_reach s"
| nr_create: "notif_reach base \<Longrightarrow> notif_reach s \<Longrightarrow>
    notif_reach (snd (create_notification base a s))"
| nr_emit: "notif_reach base \<Longrightarrow> notif_reach s \<Longrightarrow> notif_reach (emit base a s)"
| nr_status: "notif_reach s \<Longrightarrow> update_notification_status k v s = Inr (n, s') \<Longrightarrow> notif_reach s'"
| nr_bulk: "notif_reach s \<Longrightarrow> notif_reach (snd (bulk_update_notifications ids act cat s))"
| nr_other: "notif_reach s \<Longrightarrow> notifs s' = notifs s \<Longrightarrow> notif_reach s'"

type_synonym guard = "string \<times> string option \<times> uuid option \<times> datetime \<times> string option"

definition guard_dedup :: "guard \<Rightarrow> string option" where
  "guard_dedup g = (case g of (ty, kind, src, t, key) \<Rightarrow> key)"

definition dedup_ok :: "guard list \<Rightarrow> bool" where
  "dedup_ok gs = distinct (filter (\<lambda>k. k \<noteq> None) (map guard_dedup gs))"

definition in_window :: "string \<Rightarrow> string option \<Rightarrow> uuid \<Rightarrow> datetime \<Rightarrow> guard \<Rightarrow> bool" where
  "in_window ty kind k t g = (case g of (ty', kind', src, c, key) \<Rightarrow>
     ty' = ty \<and> kind' = kind \<and> src = Some k \<and> t - rate_limit_window \<le> c \<and> c \<le> t)"

definition rate_ok :: "guard list \<Rightarrow> bool" where
  "rate_ok gs = (\<forall>ty kind k t. truthy kind \<longrightarrow>
     length (filter (in_window ty kind k t) gs) \<le> rate_limit_max)"

lemma has_dedup_key_guards:
  "has_dedup_key key s \<longleftrightarrow> truthy key \<and> key \<in> set (map guard_dedup (guard_keys s))"
  by (force simp: has_dedup_key_def guard_keys_def guard_key_def guard_dedup_def)

lemma recent_count_guards:
  "recent_count a s = length (filter (\<lambda>g. case g of (ty, kind, src, c, key) \<Rightarrow>
     ty = na_type a \<and> kind = na_source_kind a \<and> src = na_source_id a
     \<and> now s - rate_limit_window \<le> c) (guard_keys s))"
  by (simp add: recent_count_def guard_keys_def filter_map o_def guard_key_def)

lemma dedup_ok_new:
  assumes "dedup_ok (guard_keys s)" and "\<not> has_dedup_key (na_dedup_key a) s"
  shows "dedup_ok (guard_keys s @ [guard_key (new_notif a s)])"
proof -
  have "guard_dedup (guard_key (new_notif a s))
      = (if truthy (na_dedup_key a) then na_dedup_key a else None)"
    by (simp add: guard_dedup_def guard_key_def new_notif_def)
  with assms show ?thesis
    by (auto simp: dedup_ok_def has_dedup_key_guards)
qed

lemma length_filter_mono:
  "(\<And>x. p x \<Longrightarrow> q x) \<Longrightarrow> length (filter p xs) \<le> length (filter q xs)"
  by (induction xs) auto

lemma window_new_le_recent:
  assumes "truthy kind" and "in_window ty kind k t (guard_key (new_notif a s))"
  shows "length (filter (in_window ty kind k t) (guard_keys s)) \<le> recent_count a s
    \<and> truthy (na_source_kind a) \<and> na_source_id a \<noteq> None"
proof -
  from assms(2) have "ty = na_type a" "kind = na_source_kind a" "na_source_id a = Some k"
    and le: "now s \<le> t"
    by (auto simp: in_window_def guard_key_def new_notif_def)
  moreover have "length (filter (in_window ty kind k t) (guard_keys s)) \<le> recent_count a s"
    unfolding recent_count_guards
    by (rule length_filter_mono) (use calculation in \<open>auto simp: in_window_def\<close>)
  ultimately show ?thesis using assms(1) by simp
qed

lemma rate_ok_new:
  assumes "rate_ok (guard_keys s)" and "\<not> rate_limited a s"
  shows "rate_ok (guard_keys s @ [guard_key (new_notif a s)])"
  unfolding rate_ok_def
proof (intro allI impI)
  fix ty kind k t
  assume tk: "truthy kind"
  show "length (filter (in_window ty kind k t) (guard_keys s @ [guard_key (new_notif a s)]))
      \<le> rate_limit_max"
  proof (cases "in_window ty kind k t (guard_key (new_notif a s))")
    case True
    with window_new_le_recent [OF tk] assms(2) show ?thesis
      by (fastforce simp: rate_limited_def)
  next
    case False
    with assms(1) tk show ?thesis by (simp add: rate_ok_def)
  qed
qed

definition guards_ok :: "store \<Rightarrow> bool" where
  "guards_ok s = (dedup_ok (guard_keys s) \<and> rate_ok (guard_keys s))"

lemma guards_ok_create:
  "guards_ok base \<Longrightarrow> guards_ok s \<Longrightarrow> guards_ok (snd (create_notification base a s))"
  by (auto simp: guards_ok_def guard_keys_create held_back_def dedup_ok_new rate_ok_new)

lemma guards_ok_same: "guard_keys s' = guard_keys s \<Longrightarrow> guards_ok s' = guards_ok s"
  by (simp add: guards_ok_def)

lemma guards_ok_emit: "guards_ok base \<Longrightarrow> guards_ok s \<Longrightarrow> guards_ok (emit base a s)"
  by (simp add: emit_def get_cached_settings_def split_beta Let_def guards_ok_create
      guards_ok_same [of "snd (get_or_create s)" s])

lemma guards_ok_status:
  "guards_ok s \<Longrightarrow> update_notification_status k v s = Inr (n, s') \<Longrightarrow> guards_ok s'"
  by (auto simp: update_notification_status_def Let_def guard_keys_upd
      guards_ok_same [of "upd_notif k f s" s for f] split: option.splits)

lemma guard_keys_where:
  "(\<And>n. guard_key (f n) = guard_key n) \<Longrightarrow> guard_keys (s\<lparr>notifs := tbl_where p f (notifs s)\<rparr>) = guard_keys s"
  by (simp add: guard_keys_def tbl_where_def)

lemma guards_ok_bulk: "guards_ok s \<Longrightarrow> guards_ok (snd (bulk_update_notifications ids act cat s))"
  by (simp add: bulk_update_notifications_def Let_def guard_key_def
      guards_ok_same [OF guard_keys_where])

lemma reach_guards_ok: "notif_reach s \<Longrightarrow> guards_ok s"
proof (induction rule: notif_reach.induct)
  case (nr_init s)
  then show ?case by (simp add: guards_ok_def guard_keys_def dedup_ok_def rate_ok_def)
next
  case (nr_other s s')
  then show ?case using guards_ok_same [of s' s] by (simp add: guard_keys_def)
qed (auto intro: guards_ok_create guards_ok_emit guards_ok_status guards_ok_bulk)

lemma guards_ok_rows:
  "guards_ok s \<Longrightarrow>
     distinct (filter (\<lambda>k. k \<noteq> None) (map notif_dedup_key (notifs s)))
     \<and> (truthy kind \<longrightarrow> length (filter (\<lambda>n. notif_type n = ty \<and> notif_source_kind n = kind
          \<and> notif_source_id n = Some k \<and> t - minutes 15 \<le> notif_created_at n
          \<and> notif_created_at n \<le> t) (notifs s)) \<le> 3)"
  by (auto simp: guards_ok_def guard_keys_def dedup_ok_def rate_ok_def in_window_def filter_map
      o_def guard_key_def guard_dedup_def rate_limit_window_def rate_limit_max_def)


definition demo_failure :: "uuid \<Rightarrow> store \<Rightarrow> store" where
  "demo_failure k s = on_send_failed s (Some k) None None None ''outreach'' s"


section \<open>Dispatch\<close>

lemma gate_row [simp]:
  "whatsapp_gate st (channel_result c x n) = whatsapp_gate st n"
  "telegram_gate st (channel_result c x n) = telegram_gate st n"
  "slack_gate st (channel_result c x n) = slack_gate st n"
  "whatsapp_gate st (stamp_notif s f n) = whatsapp_gate st (f n)"
  "telegram_gate st (stamp_notif s f n) = telegram_gate st (f n)"
  "slack_gate st (stamp_notif s f n) = slack_gate st (f n)"
  by (simp_all add: whatsapp_gate_def telegram_gate_def slack_gate_def channel_result_def)

definition channel_map :: "notification \<Rightarrow> string \<Rightarrow> string option" where
  "channel_map n = map_of (case notif_channel_state n of Some m \<Rightarrow> m | None \<Rightarrow> [])"

lemma channel_map_result:
  "channel_map (channel_result c x n) = (case x of
     Inr ok \<Rightarrow> (channel_map n)(c \<mapsto> if ok then ''sent'' else ''failed'')
   | Inl e \<Rightarrow> (channel_map n)(c \<mapsto> ''failed'', c @ ''_error'' \<mapsto> take 200 e))"
  by (simp add: channel_map_def channel_result_def Let_def update_conv' split: sum.splits)

lemma channel_map_stamp [simp]: "channel_map (stamp_notif s f n) = channel_map (f n)"
  by (simp add: channel_map_def)

text \<open>One dispatcher: it adds its channel exactly when the gate is open.\<close>

lemma dispatch_row:
  assumes "get_notif s k = Some n" and "ops s = Some st \<or> ops s = None \<and> st = default_settings (now s)"
  shows "\<exists>n'. get_notif (maybe_dispatch c g k s) k = Some n'
    \<and> n' = (if g st n then stamp_notif s (channel_result c (alert_answer s c k)) n else n)
    \<and> ops (maybe_dispatch c g k s) = Some st"
proof -
  have g: "get_or_create s = (st, s\<lparr>ops := Some st\<rparr>)"
    using assms(2) by (auto simp: get_or_create_def Let_def)
  have "stamp_notif (s\<lparr>ops := Some st\<rparr>) = stamp_notif s"
    by (simp add: fun_eq_iff stamp_notif_def)
  moreover have "get_notif (s\<lparr>ops := Some st\<rparr>) = get_notif s"
    by (simp add: fun_eq_iff get_notif_def)
  ultimately show ?thesis
    using assms(1) by (auto simp: maybe_dispatch_def g notif_tbl.get_upd_same) (simp add: upd_notif_def)
qed

lemma create_found:
  assumes "create_notification base a s = (Some k, s')" and "get_notif s (next_uuid s) = None"
  shows "k = next_uuid s \<and> (\<exists>n. get_notif s' k = Some n \<and> guard_key n = guard_key (new_notif a s)
    \<and> notif_status n = N_UNREAD
    \<and> (let st = fst (get_or_create s); m = channel_map n in
        m ''in_app'' = Some ''delivered''
        \<and> (m ''whatsapp'' \<noteq> None \<longleftrightarrow> whatsapp_gate st n)
        \<and> (m ''telegram'' \<noteq> None \<longleftrightarrow> telegram_gate st n)
        \<and> (m ''slack'' \<noteq> None \<longleftrightarrow> slack_gate st n)))"
proof -
  let ?st = "fst (get_or_create s)" and ?n = "new_notif a s"
  let ?s1 = "add_notif ?n (tick_uuid s)"
  let ?s2 = "maybe_dispatch ''whatsapp'' whatsapp_gate (next_uuid s) ?s1"
  let ?s3 = "maybe_dispatch ''telegram'' telegram_gate (next_uuid s) ?s2"
  from assms(1) have k: "k = next_uuid s"
    and s': "s' = maybe_dispatch ''slack'' slack_gate (next_uuid s) ?s3"
    by (auto simp: create_notification_def Let_def split: if_splits)
  have "notif_id ?n = next_uuid s" by (simp add: new_notif_def)
  moreover have "get_notif (tick_uuid s) = get_notif s"
    by (simp add: fun_eq_iff get_notif_def tick_uuid_def)
  ultimately have "get_notif ?s1 (next_uuid s) = Some ?n"
    using assms(2) by (simp add: notif_tbl.get_add)
  moreover have "ops ?s1 = Some ?st \<or> ops ?s1 = None \<and> ?st = default_settings (now ?s1)"
    by (simp add: add_notif_def tick_uuid_def get_or_create_def Let_def split: option.splits)
  ultimately obtain n1 where n1: "get_notif ?s2 (next_uuid s) = Some n1" "ops ?s2 = Some ?st"
    "n1 = (if whatsapp_gate ?st ?n then stamp_notif ?s1 (channel_result ''whatsapp''
       (alert_answer ?s1 ''whatsapp'' (next_uuid s))) ?n else ?n)"
    using dispatch_row by blast
  obtain n2 where n2: "get_notif ?s3 (next_uuid s) = Some n2" "ops ?s3 = Some ?st"
    "n2 = (if telegram_gate ?st n1 then stamp_notif ?s2 (channel_result ''telegram''
       (alert_answer ?s2 ''telegram'' (next_uuid s))) n1 else n1)"
    using dispatch_row [OF n1(1)] n1(2) by blast
  obtain n3 where n3: "get_notif s' (next_uuid s) = Some n3"
    "n3 = (if slack_gate ?st n2 then stamp_notif ?s3 (channel_result ''slack''
       (alert_answer ?s3 ''slack'' (next_uuid s))) n2 else n2)"
    using dispatch_row [OF n2(1)] n2(2) s' by blast
  have m0: "channel_map ?n = [''in_app'' \<mapsto> ''delivered'']"
    by (simp add: channel_map_def new_notif_def)
  have st: "notif_status (channel_result c x n) = notif_status n" for c x n
    by (simp add: channel_result_def)
  have "notif_status n3 = N_UNREAD" "guard_key n3 = guard_key ?n"
    by (simp_all add: n1(3) n2(3) n3(2) st) (simp add: new_notif_def)
  then show ?thesis
    using k n3(1) m0
    by (auto simp: n1(3) n2(3) n3(2) Let_def channel_map_result split: sum.splits)
qed

text \<open>
  A notification that passes the guards is stored unread, delivered in the app, and offered to
  exactly the outside channels whose settings admit it, at most once each; a channel is never
  used to report its own delivery failure.
\<close>

theorem notification_dispatch:
  assumes "create_notification base a s = (Some k, s')" and "get_notif s (next_uuid s) = None"
  shows "\<exists>n. get_notif s' k = Some n \<and> notif_status n = N_UNREAD \<and> notif_created_at n = now s
    \<and> (let st = fst (get_or_create s); m = channel_map n in
        m ''in_app'' = Some ''delivered''
        \<and> (m ''whatsapp'' \<noteq> None \<longleftrightarrow> whatsapp_gate st n)
        \<and> (m ''telegram'' \<noteq> None \<longleftrightarrow> telegram_gate st n)
        \<and> (m ''slack'' \<noteq> None \<longleftrightarrow> slack_gate st n)
        \<and> (notif_type n = ''whatsapp_delivery_failed'' \<longrightarrow> m ''whatsapp'' = None \<and> m ''telegram'' = None)
        \<and> (notif_type n = ''slack_delivery_failed'' \<longrightarrow> m ''slack'' = None))"
proof -
  from create_found [OF assms] obtain n where n: "get_notif s' k = Some n"
    "guard_key n = guard_key (new_notif a s)" "notif_status n = N_UNREAD"
    and m: "let st = fst (get_or_create s); m = channel_map n in
        m ''in_app'' = Some ''delivered''
        \<and> (m ''whatsapp'' \<noteq> None \<longleftrightarrow> whatsapp_gate st n)
        \<and> (m ''telegram'' \<noteq> None \<longleftrightarrow> telegram_gate st n)
        \<and> (m ''slack'' \<noteq> None \<longleftrightarrow> slack_gate st n)"
    by blast
  have "notif_created_at n = now s" using n(2) by (simp add: guard_key_def new_notif_def)
  moreover have "notif_type n = ''whatsapp_delivery_failed'' \<Longrightarrow>
      \<not> whatsapp_gate st n \<and> \<not> telegram_gate st n" for st
    by (simp add: whatsapp_gate_def telegram_gate_def)
  moreover have "notif_type n = ''slack_delivery_failed'' \<Longrightarrow> \<not> slack_gate st n" for st
    by (simp add: slack_gate_def)
  ultimately show ?thesis using n(1,3) m by (auto simp: Let_def)
qed

definition demo_args :: notif_args where
  "demo_args = \<lparr>na_type = ''security_alert'', na_category = SECURITY, na_severity = SEV_CRITICAL,
     na_title = ''t'', na_message = ''m'', na_source_kind = None, na_source_id = None,
     na_metadata = None, na_dedup_key = None\<rparr>"

theorem notification_dispatch_witness:
  "\<exists>n. get_notif (snd (create_notification (empty_store 5) demo_args (empty_store 5))) 0 = Some n
     \<and> notif_created_at n = 5 \<and> channel_map n ''in_app'' = Some ''delivered''"
proof -
  have "fst (create_notification (empty_store 5) demo_args (empty_store 5)) = Some 0"
    by (simp add: create_notification_def demo_args_def has_dedup_key_def rate_limited_def Let_def
        empty_store_def)
  then have "create_notification (empty_store 5) demo_args (empty_store 5)
      = (Some 0, snd (create_notification (empty_store 5) demo_args (empty_store 5)))"
    by (simp add: prod_eq_iff)
  from notification_dispatch [OF this] show ?thesis
    by (auto simp: get_notif_def empty_store_def Let_def)
qed

section \<open>Counts and status\<close>

lemma sum_group_lengths:
  "(\<Sum>g\<in>A. length (filter (\<lambda>r. f r = g) rows)) = length (filter (\<lambda>r. f r \<in> A) rows)"
  if "finite A"
proof (induction rows)
  case (Cons r rows)
  have "(\<Sum>g\<in>A. length (filter (\<lambda>r. f r = g) (r # rows)))
      = (\<Sum>g\<in>A. (if f r = g then 1 else 0) + length (filter (\<lambda>r. f r = g) rows))"
    by (rule sum.cong) auto
  also have "\<dots> = (if f r \<in> A then 1 else 0) + length (filter (\<lambda>r. f r \<in> A) rows)"
    using that by (simp add: sum.distrib Cons.IH)
  finally show ?case by simp
qed simp

lemma group_counts_sum:
  "(\<Sum>(g, c)\<leftarrow>group_counts f rows. if p g then c else 0) = length (filter (\<lambda>r. p (f r)) rows)"
proof -
  have "(\<Sum>(g, c)\<leftarrow>group_counts f rows. if p g then c else 0)
      = (\<Sum>g\<leftarrow>remdups (map f rows). if p g then length (filter (\<lambda>r. f r = g) rows) else 0)"
    by (simp add: group_counts_def o_def)
  also have "\<dots> = (\<Sum>g\<in>f ` set rows. if p g then length (filter (\<lambda>r. f r = g) rows) else 0)"
    by (subst sum_list_distinct_conv_sum_set) simp_all
  also have "\<dots> = (\<Sum>g\<in>{g \<in> f ` set rows. p g}. length (filter (\<lambda>r. f r = g) rows))"
    by (rule sum.inter_filter [symmetric]) simp
  also have "\<dots> = length (filter (\<lambda>r. p (f r)) rows)"
    by (subst sum_group_lengths) (auto intro!: arg_cong [where f = length] filter_cong)
  finally show ?thesis .
qed

lemma fold_add_group:
  "fold add_group gs c = c\<lparr>
     nc_total_unread := nc_total_unread c + (\<Sum>(g, n)\<leftarrow>gs. if True then n else 0),
     nc_business := nc_business c + (\<Sum>(g, n)\<leftarrow>gs. if fst g = BUSINESS then n else 0),
     nc_system := nc_system c + (\<Sum>(g, n)\<leftarrow>gs. if fst g = SYSTEM then n else 0),
     nc_security := nc_security c + (\<Sum>(g, n)\<leftarrow>gs. if fst g = SECURITY then n else 0),
     nc_critical := nc_critical c + (\<Sum>(g, n)\<leftarrow>gs. if snd g = SEV_CRITICAL then n else 0),
     nc_high := nc_high c + (\<Sum>(g, n)\<leftarrow>gs. if snd g = SEV_HIGH then n else 0)\<rparr>"
  by (induction gs arbitrary: c) (auto simp: add_group_def)

definition unread_with :: "(notification \<Rightarrow> bool) \<Rightarrow> store \<Rightarrow> nat" where
  "unread_with p s = length (filter (\<lambda>n. notif_status n = N_UNREAD \<and> p n) (notifs s))"

text \<open>
  The badge counts, gathered from one grouped query, are the numbers of unread notifications
  of each category and of the two high severities, and the three categories add up to the total.
\<close>

theorem notification_counts_exact:
  "get_notification_counts s =
     \<lparr>nc_total_unread = unread_with (\<lambda>n. True) s,
      nc_business = unread_with (\<lambda>n. notif_category n = BUSINESS) s,
      nc_system = unread_with (\<lambda>n. notif_category n = SYSTEM) s,
      nc_security = unread_with (\<lambda>n. notif_category n = SECURITY) s,
      nc_critical = unread_with (\<lambda>n. notif_severity n = SEV_CRITICAL) s,
      nc_high = unread_with (\<lambda>n. notif_severity n = SEV_HIGH) s\<rparr>
   \<and> nc_total_unread (get_notification_counts s) = nc_business (get_notification_counts s)
       + nc_system (get_notification_counts s) + nc_security (get_notification_counts s)"
proof -
  have tot: "unread_with (\<lambda>n. True) s = unread_with (\<lambda>n. notif_category n = BUSINESS) s
      + unread_with (\<lambda>n. notif_category n = SYSTEM) s
      + unread_with (\<lambda>n. notif_category n = SECURITY) s"
    unfolding unread_with_def
  proof (induction "notifs s")
    case Nil
    then show ?case by simp
  next
    case (Cons n ns)
    have "length (filter (\<lambda>n. notif_status n = N_UNREAD) ns)
      = length (filter (\<lambda>n. notif_status n = N_UNREAD \<and> notif_category n = BUSINESS) ns)
      + length (filter (\<lambda>n. notif_status n = N_UNREAD \<and> notif_category n = SYSTEM) ns)
      + length (filter (\<lambda>n. notif_status n = N_UNREAD \<and> notif_category n = SECURITY) ns)" for ns
      by (induction ns) (auto, metis NotificationCategory.exhaust)
    then show ?case by simp
  qed
  show ?thesis
    unfolding get_notification_counts_def fold_add_group group_counts_sum
    using tot by (simp add: unread_with_def unread_notifs_def conj_commute)
qed

end
