(* ===== verification/Scoring.thy ===== *)
theory Scoring
  imports Notifications "HOL-Library.Multiset"
begin

text \<open>
  The rule-based scoring engine (\<open>app/scoring/rules.py\<close>) and the service that applies it
  to a lead (\<open>app/services/leads/scoring_service.py\<close>).  A lead is scored from its signals,
  its industry, the completeness of its contact data and its Google Maps figures; the
  result is clamped to 0..100.
\<close>

section \<open>The rules\<close>

text \<open>\<open>SIGNAL_WEIGHTS\<close>: every signal type has a weight.\<close>

fun signal_weight :: "SignalType \<Rightarrow> pyfloat" where
  "signal_weight OUTDATED_WEBSITE = 22"
| "signal_weight WEBSITE_ERROR = 22"
| "signal_weight NO_CUSTOM_DOMAIN = 18"
| "signal_weight NO_MOBILE_FRIENDLY = 15"
| "signal_weight NO_SSL = 12"
| "signal_weight SLOW_LOAD = 10"
| "signal_weight WEAK_SEO = 10"
| "signal_weight NO_VISIBLE_EMAIL = 8"
| "signal_weight NO_WEBSITE = 12"
| "signal_weight INSTAGRAM_ONLY = 10"
| "signal_weight HAS_WEBSITE = 0"
| "signal_weight HAS_CUSTOM_DOMAIN = 0"

text \<open>
  \<open>HIGH_VALUE_INDUSTRIES\<close>.  The accented letters are written by code point: \<open>a_acute\<close> is
  U+00E1 and so on.
\<close>

abbreviation "i_acute \<equiv> CHR 0xED"
abbreviation "e_acute \<equiv> CHR 0xE9"
abbreviation "o_acute \<equiv> CHR 0xF3"

definition high_value_industries :: "string list" where
  "high_value_industries =
    [''restaurante'', ''restaurant'', ''gastronomia'', ''gastronom'' @ [i_acute] @ ''a'',
     ''peluqueria'', ''peluquer'' @ [i_acute] @ ''a'', ''salon'', ''sal'' @ [o_acute] @ ''n'',
     ''barberia'', ''barber'' @ [i_acute] @ ''a'', ''gimnasio'', ''gym'', ''fitness'',
     ''clinica'', ''cl'' @ [i_acute] @ ''nica'', ''consultorio'', ''odontologia'',
     ''odontolog'' @ [i_acute] @ ''a'', ''inmobiliaria'', ''real estate'',
     ''estudio contable'', ''contador'', ''abogado'', ''estudio jur'' @ [i_acute] @ ''dico'',
     ''estudio juridico'', ''veterinaria'', ''hotel'', ''hostel'', ''alojamiento'',
     ''tienda'', ''shop'', ''boutique'', ''indumentaria'', ''taller'', ''mecanico'',
     ''mec'' @ [CHR 0xE1] @ ''nico'', ''floreria'', ''florer'' @ [i_acute] @ ''a'',
     ''panaderia'', ''panader'' @ [i_acute] @ ''a'', ''confiteria'',
     ''confiter'' @ [i_acute] @ ''a'', ''optica'', [o_acute] @ ''ptica'', ''libreria'',
     ''librer'' @ [i_acute] @ ''a'', ''lavadero'', ''car wash'', ''ferreteria'',
     ''ferreter'' @ [i_acute] @ ''a'', ''cafeteria'', ''cafeter'' @ [i_acute] @ ''a'',
     ''caf'' @ [e_acute], ''cafe'', ''bar'']"

definition industry_bonus :: pyfloat where
  "industry_bonus = 15"

definition completeness_phone :: pyfloat where "completeness_phone = 3"
definition completeness_email :: pyfloat where "completeness_email = 5"
definition completeness_instagram :: pyfloat where "completeness_instagram = 2"
definition completeness_city :: pyfloat where "completeness_city = 2"

text \<open>
  \<open>_get_scoring_overrides(db)\<close>: nothing without a database handle; otherwise the
  \<open>scoring_overrides\<close> of the settings row (\<open>get_or_create\<close> would make a row without any).
\<close>

definition get_scoring_overrides :: "store option \<Rightarrow> (string \<times> pyfloat) list" where
  "get_scoring_overrides db = (case db of
     None \<Rightarrow> []
   | Some s \<Rightarrow> (case ops s of
       None \<Rightarrow> []
     | Some o' \<Rightarrow> (case ops_scoring_overrides o' of None \<Rightarrow> [] | Some ov \<Rightarrow> ov)))"

text \<open>The contribution of one signal: an override by its wire value, else the weight.\<close>

definition signal_score :: "(string \<times> pyfloat) list \<Rightarrow> lead_signal \<Rightarrow> pyfloat" where
  "signal_score overrides g =
     (case map_of overrides (signal_value (sig_signal_type g)) of
        Some w \<Rightarrow> w
      | None \<Rightarrow> signal_weight (sig_signal_type g))"

definition industry_score :: "lead \<Rightarrow> pyfloat" where
  "industry_score l =
     (if truthy (lead_industry l)
        \<and> strip (lower (text_or_empty (lead_industry l))) \<in> set high_value_industries
      then industry_bonus else 0)"

definition completeness_score :: "lead \<Rightarrow> pyfloat" where
  "completeness_score l =
     (if truthy (lead_phone l) then completeness_phone else 0)
   + (if truthy (lead_email l) then completeness_email else 0)
   + (if truthy (lead_instagram_url l) then completeness_instagram else 0)
   + (if truthy (lead_city l) then completeness_city else 0)"

definition maps_score :: "lead \<Rightarrow> pyfloat" where
  "maps_score l =
     (case lead_rating l of Some r \<Rightarrow> if r < 4 then 8 else 0 | None \<Rightarrow> 0)
   + (case lead_review_count l of
        Some n \<Rightarrow> if n < 10 then 10 else if n < 50 then 5 else 0
      | None \<Rightarrow> 0)"

definition raw_score :: "(string \<times> pyfloat) list \<Rightarrow> lead \<Rightarrow> lead_signal list \<Rightarrow> pyfloat" where
  "raw_score overrides l sigs =
     foldl (\<lambda>acc g. acc + signal_score overrides g) 0 sigs
   + industry_score l + completeness_score l + maps_score l"

definition clamp_score :: "pyfloat \<Rightarrow> pyfloat" where
  "clamp_score x = max 0 (min 100 x)"

text \<open>\<open>compute_score(lead, db)\<close>; \<open>sigs\<close> is \<open>lead.signals\<close>.\<close>

definition compute_score :: "lead \<Rightarrow> lead_signal list \<Rightarrow> store option \<Rightarrow> pyfloat" where
  "compute_score l sigs db = clamp_score (raw_score (get_scoring_overrides db) l sigs)"

section \<open>Applying the score\<close>

text \<open>
  \<open>score_lead\<close>: the row's score, status and time stamp, an alert unless the score is below the
  threshold, and the lead handed back.  The score is computed without the database handle.
\<close>

definition set_score :: "datetime \<Rightarrow> pyfloat \<Rightarrow> lead \<Rightarrow> lead" where
  "set_score t x l = l\<lparr>lead_score := Some x, lead_status := SCORED, lead_scored_at := Some t\<rparr>"

text \<open>\<open>settings.notification_score_threshold if settings else 70\<close>.\<close>

definition score_threshold :: "store \<Rightarrow> pyfloat" where
  "score_threshold s =
     (case ops s of Some o' \<Rightarrow> of_int (ops_notification_score_threshold o') | None \<Rightarrow> 70)"

definition score_lead :: "store \<Rightarrow> uuid \<Rightarrow> store \<Rightarrow> lead option \<times> store" where
  "score_lead base k s = (case get_lead s k of
     None \<Rightarrow> (None, s)
   | Some l \<Rightarrow>
       let x = compute_score l (signals_of s k) None;
           s1 = upd_lead k (set_score (now s) x) s;
           name = (if lead_business_name l \<noteq> [] then lead_business_name l else ''Unknown'')
       in (get_lead s1 k, on_high_score_lead base k name x (score_threshold s1) s1))"

section \<open>Properties of the rules\<close>

named_theorems score_simps \<open>the parts of the score\<close>

lemma signal_weight_bounds: "0 \<le> signal_weight t \<and> signal_weight t \<le> 22"
  by (cases t) simp_all

lemma completeness_bounds: "0 \<le> completeness_score l \<and> completeness_score l \<le> 12"
  by (simp add: completeness_score_def completeness_phone_def completeness_email_def
      completeness_instagram_def completeness_city_def)

lemma maps_bounds: "0 \<le> maps_score l \<and> maps_score l \<le> 18"
  by (simp add: maps_score_def split: option.splits)

lemma industry_bounds: "industry_score l = 0 \<or> industry_score l = 15"
  by (simp add: industry_score_def industry_bonus_def)

lemma foldl_sum: "foldl (\<lambda>acc g. acc + f g) (a :: pyfloat) gs = a + (\<Sum>g\<leftarrow>gs. f g)"
  by (induction gs arbitrary: a) (simp_all add: algebra_simps)

lemma raw_score_sum [score_simps]:
  "raw_score ov l gs =
     (\<Sum>g\<leftarrow>gs. signal_score ov g) + industry_score l + completeness_score l + maps_score l"
  by (simp add: raw_score_def foldl_sum)

lemma clamp_range: "0 \<le> clamp_score x \<and> clamp_score x \<le> 100"
  by (simp add: clamp_score_def)

lemma clamp_mono: "x \<le> y \<Longrightarrow> clamp_score x \<le> clamp_score y"
  by (simp add: clamp_score_def)

lemma clamp_id: "0 \<le> x \<Longrightarrow> x \<le> 100 \<Longrightarrow> clamp_score x = x"
  by (simp add: clamp_score_def)

lemma no_overrides [simp]: "get_scoring_overrides None = []"
  by (simp add: get_scoring_overrides_def)

lemma signal_score_default [simp]: "signal_score [] g = signal_weight (sig_signal_type g)"
  by (simp add: signal_score_def)

lemma signals_sum_nonneg: "0 \<le> (\<Sum>g\<leftarrow>gs. signal_weight (sig_signal_type g))"
  by (rule sum_list_nonneg) (auto simp: signal_weight_bounds)

lemma raw_score_nonneg: "0 \<le> raw_score [] l gs"
  using signals_sum_nonneg [of gs] industry_bounds [of l] completeness_bounds [of l]
    maps_bounds [of l] by (auto simp: score_simps)

lemma compute_score_default:
  "compute_score l gs None = min 100 (raw_score [] l gs)"
  using raw_score_nonneg [of l gs] by (simp add: compute_score_def clamp_score_def)

lemma set_score_key [simp]: "lead_id (set_score t x l) = lead_id l"
  by (simp add: set_score_def)

text \<open>
  Without overrides a score is the sum of its documented parts cut at 100, and each part
  keeps to its documented range: 12 for completeness, 18 for Google Maps, 0 or 15 for the
  industry, 22 for one signal.
\<close>

theorem score_parts:
  "compute_score l gs None =
     min 100 ((\<Sum>g\<leftarrow>gs. signal_weight (sig_signal_type g))
       + industry_score l + completeness_score l + maps_score l)
   \<and> completeness_score l \<in> {0..12} \<and> maps_score l \<in> {0..18}
   \<and> industry_score l \<in> {0, 15} \<and> signal_weight t \<in> {0..22}"
  using completeness_bounds [of l] maps_bounds [of l] industry_bounds [of l]
    signal_weight_bounds [of t]
  by (simp add: compute_score_default score_simps)

lemma signal_sum_mset:
  assumes "mset gs = mset hs"
  shows "(\<Sum>g\<leftarrow>gs. f g :: pyfloat) = (\<Sum>g\<leftarrow>hs. f g)"
proof -
  have "sum_mset (mset (map f gs)) = sum_mset (mset (map f hs))"
    by (simp only: mset_map assms)
  then show ?thesis by (simp only: sum_mset_sum_list)
qed

lemma compute_score_mset:
  "mset gs = mset hs \<Longrightarrow> compute_score l gs db = compute_score l hs db"
  unfolding compute_score_def score_simps by (subst signal_sum_mset) simp_all

lemma compute_score_more_signals: "compute_score l gs None \<le> compute_score l (g # gs) None"
  using signal_weight_bounds [of "sig_signal_type g"]
  by (simp add: compute_score_def score_simps clamp_mono)


definition demo_signal :: "uuid \<Rightarrow> SignalType \<Rightarrow> lead_signal" where
  "demo_signal k t = \<lparr>sig_id = k, sig_lead_id = 1, sig_signal_type = t, sig_detail = None,
     sig_confidence = None, sig_source = None, sig_detected_at = 0\<rparr>"


text \<open>The state after the row is written, before the alert.\<close>

definition scored_state :: "uuid \<Rightarrow> lead \<Rightarrow> store \<Rightarrow> store" where
  "scored_state k l s = upd_lead k (set_score (now s) (compute_score l (signals_of s k) None)) s"

definition alert_key :: "uuid \<Rightarrow> string option" where
  "alert_key k = Some (''high_score:'' @ uuid_str k)"

lemma on_high_score_cases:
  "notif_frame s (on_high_score_lead base k name x th s)
   \<or> on_high_score_lead base k name x th s = rollback_to base (snd (get_or_create s))
     \<and> has_dedup_key (alert_key k) base \<and> \<not> has_dedup_key (alert_key k) s"
proof -
  let ?a = "\<lparr>na_type = ''high_score_lead'', na_category = BUSINESS, na_severity = SEV_WARNING,
         na_title = ''Lead con score alto - '' @ name,
         na_message = ''Score: '' @ format_0f x @ '' (umbral: '' @ format_0f th @ '').'',
         na_source_kind = Some ''lead'', na_source_id = Some k,
         na_metadata = Some (JObj [(''score'', JFloat x), (''business_name'', JStr name)]),
         na_dedup_key = Some (''high_score:'' @ uuid_str k)\<rparr>"
  show ?thesis
  proof (cases "lost_race base ?a s")
    case True
    then have l: "lost_race base ?a (snd (get_or_create s))" by simp
    have "emit base ?a s = (if ops_notifications_enabled (fst (get_or_create s))
        then rollback_to base (snd (get_or_create s)) else snd (get_or_create s))"
      using l by (simp add: emit_def get_cached_settings_def split_beta Let_def
          create_notification_def lost_race_def)
    with True show ?thesis
      by (auto simp: on_high_score_lead_def lost_race_def alert_key_def notif_frame_settings)
  next
    case False
    from emit_notif_frame [OF this] show ?thesis by (simp add: on_high_score_lead_def)
  qed
qed

lemma rollback_settings: "rollback_to base (snd (get_or_create s)) = rollback_to base s"
  by (simp add: get_or_create_frame [of s] rollback_to_def)

lemma rollback_upd_lead: "rollback_to base (upd_lead k f s) = rollback_to base s"
  by (simp add: rollback_to_def upd_lead_def)

lemma score_lead_cases:
  assumes "get_lead s k = Some l"
  shows "fst (score_lead base k s) = get_lead (scored_state k l s) k
    \<and> (notif_frame (scored_state k l s) (snd (score_lead base k s))
       \<or> snd (score_lead base k s) = rollback_to base s
         \<and> has_dedup_key (alert_key k) base \<and> \<not> has_dedup_key (alert_key k) s)"
proof -
  let ?s1 = "scored_state k l s"
  have hk: "has_dedup_key key ?s1 = has_dedup_key key s" for key
    by (simp add: has_dedup_key_def scored_state_def upd_lead_def)
  have rb: "rollback_to base (snd (get_or_create ?s1)) = rollback_to base s"
    by (simp add: rollback_settings scored_state_def rollback_upd_lead)
  have "score_lead base k s = (get_lead ?s1 k, on_high_score_lead base k
      (if lead_business_name l \<noteq> [] then lead_business_name l else ''Unknown'')
      (compute_score l (signals_of s k) None) (score_threshold ?s1) ?s1)"
    using assms by (simp add: score_lead_def scored_state_def Let_def)
  with on_high_score_cases [of ?s1 base k] show ?thesis by (simp add: hk rb)
qed

lemma scored_state_lead:
  assumes "get_lead s k = Some l"
  shows "\<exists>l'. get_lead (scored_state k l s) k = Some l'
    \<and> l' = (set_score (now s) (compute_score l (signals_of s k) None) l)
             \<lparr>lead_updated_at := lead_updated_at l'\<rparr>"
  using assms by (simp add: scored_state_def lead_tbl.get_upd_same stamp_lead_def)

lemma scored_state_other: "k' = k \<or> get_lead (scored_state k l s) k' = get_lead s k'"
  by (cases "k' = k") (simp_all add: scored_state_def lead_tbl.get_upd_other)

text \<open>
  \<open>score_lead\<close> hands back the lead with the score of its own signals, the status \<open>scored\<close>
  and the time, and nothing for an unknown id.  It leaves that row in the database, every other
  lead as it was and no table but leads, notifications and settings changed, with one
  exception: when another session commits the alert for the same lead first, the insertion of
  the notification rolls the caller's session back, score and all.
\<close>

theorem score_lead_effect:
  "case fst (score_lead base k s) of
      None \<Rightarrow> get_lead s k = None \<and> snd (score_lead base k s) = s
    | Some l' \<Rightarrow> (\<exists>l. get_lead s k = Some l
        \<and> l' = (set_score (now s) (compute_score l (signals_of s k) None) l)
                 \<lparr>lead_updated_at := lead_updated_at l'\<rparr>)
        \<and> (get_lead (snd (score_lead base k s)) k = Some l'
             \<and> (k' = k \<or> get_lead (snd (score_lead base k s)) k' = get_lead s k')
             \<and> notif_frame (s\<lparr>leads := leads (snd (score_lead base k s))\<rparr>) (snd (score_lead base k s))
           \<or> snd (score_lead base k s) = rollback_to base s
             \<and> has_dedup_key (alert_key k) base \<and> \<not> has_dedup_key (alert_key k) s)"
proof (cases "get_lead s k")
  case None
  then show ?thesis by (simp add: score_lead_def)
next
  case (Some l)
  let ?s1 = "scored_state k l s" and ?s2 = "snd (score_lead base k s)"
  from scored_state_lead [OF Some] obtain l' where l': "get_lead ?s1 k = Some l'"
    "l' = (set_score (now s) (compute_score l (signals_of s k) None) l)
             \<lparr>lead_updated_at := lead_updated_at l'\<rparr>"
    by blast
  have fr: "notif_frame (s\<lparr>leads := leads ?s2\<rparr>) ?s2 \<and> get_lead ?s2 = get_lead ?s1"
    if "notif_frame ?s1 ?s2"
  proof -
    have "?s1 = s\<lparr>leads := leads ?s1\<rparr>" by (simp add: scored_state_def upd_lead_def)
    with that notif_frame_fields(1) [OF that] show ?thesis
      by (simp add: get_lead_def fun_eq_iff)
  qed
  from score_lead_cases [OF Some, of base] l' fr scored_state_other [of k' k l s]
  show ?thesis by (auto simp: Some)
qed

text \<open>
  The settings do not matter for the score: overrides approved in batch reviews never reach
  the lead, because the score is computed without a database handle.
\<close>

theorem score_ignores_settings:
  "map_option lead_score (fst (score_lead base k (s\<lparr>ops := o'\<rparr>)))
     = map_option lead_score (fst (score_lead base k s))
   \<and> map_option (\<lambda>l. compute_score l (signals_of s k) None) (get_lead s k)
     = map_option (the \<circ> lead_score) (fst (score_lead base k s))"
proof -
  have "get_lead (s\<lparr>ops := o'\<rparr>) k = get_lead s k" "signals_of (s\<lparr>ops := o'\<rparr>) k = signals_of s k"
    by (simp_all add: get_lead_def signals_of_def)
  then show ?thesis
    by (simp add: score_lead_def Let_def lead_tbl.get_upd_same set_score_def split: option.splits)
qed

end
