(* ===== verification/Janitor.thy ===== *)
theory Janitor
  imports Notifications
begin

text \<open>
  The periodic janitor (\<open>app/workers/janitor/\<close>): it fails tasks and pipeline runs without
  progress, tries to resume the runs, fails stuck batch reviews and research reports, reports
  zombie leads and an idle pipeline, and clears old saturation flags.  The step chain it
  resumes by (\<open>app/workflows/step_chain.py\<close>) is shared with the resume endpoint
  (\<open>app/api/v1/pipelines.py\<close>).

  The session does not flush before its queries (\<open>autoflush=False\<close>), so the queries of a
  sweep see the rows as they were when it began (\<open>db\<close>), while the assignments act on the
  session's objects (\<open>s\<close>).
\<close>

section \<open>The step chain\<close>

definition pipeline_step_chain :: "(string \<times> string option) list" where
  "pipeline_step_chain =
    [(''pipeline_dispatch'', Some ''task_enrich_lead''),
     (''enrichment'', Some ''task_score_lead''),
     (''scoring'', Some ''task_analyze_lead''),
     (''analysis'', Some ''task_analyze_lead''),
     (''research'', Some ''task_generate_brief''),
     (''scout'', Some ''task_generate_brief''),
     (''brief_generation'', Some ''task_review_brief''),
     (''brief_review'', Some ''task_generate_draft''),
     (''draft_generation'', None)]"

text \<open>\<open>PIPELINE_STEP_CHAIN.get(current_step or "pipeline_dispatch")\<close>.\<close>

definition next_task_name :: "string option \<Rightarrow> string option" where
  "next_task_name current_step =
     (case map_of pipeline_step_chain (or_text current_step ''pipeline_dispatch'') of
        Some t \<Rightarrow> t | None \<Rightarrow> None)"

text \<open>The names \<open>app/workers/tasks.py\<close> defines: the module holds its docstring only.\<close>

definition tasks_module_names :: "string list" where
  "tasks_module_names = []"

section \<open>Stale runs\<close>

definition stale_threshold :: datetime where "stale_threshold = minutes 10"
definition pipeline_stale_threshold :: datetime where "pipeline_stale_threshold = minutes 15"
definition orphan_threshold :: datetime where "orphan_threshold = minutes 30"

definition active_statuses :: "string list" where
  "active_statuses = [''running'', ''queued'', ''retrying'', ''stopping'']"

definition max_pipeline_retries :: int where
  "max_pipeline_retries = 2"

definition retryable_patterns :: "string list" where
  "retryable_patterns = [''timeout'', ''timed out'', ''rate limit'', ''ratelimit'', ''429'', ''503'',
     ''502'', ''connection reset'', ''connection refused'', ''temporary'', ''overloaded'',
     ''llm error'', ''openai'', ''anthropic'', ''stale: no progress'', ''orphaned'']"

definition is_retryable_error :: "string option \<Rightarrow> bool" where
  "is_retryable_error err =
     (\<not> truthy err \<or> (\<exists>p \<in> set retryable_patterns. contains p (lower (text_or_empty err))))"

text \<open>The task to resume a run with, when all the conditions for it hold.\<close>

definition resume_task :: "string list \<Rightarrow> pipeline_run \<Rightarrow> string option" where
  "resume_task names r =
     (if max_pipeline_retries \<le> run_retry_count r then None
      else if \<not> is_retryable_error (run_error r) then None
      else (case next_task_name (run_current_step r) of
        None \<Rightarrow> None
      | Some t \<Rightarrow> if t \<in> set names then Some t else None))"

definition requeue_run :: "pipeline_run \<Rightarrow> pipeline_run" where
  "requeue_run r = r\<lparr>run_retry_count := run_retry_count r + 1, run_status := ''running'',
     run_finished_at := None, run_error := None\<rparr>"

definition resume_call :: "string \<Rightarrow> pipeline_run \<Rightarrow> celery_call" where
  "resume_call t r = \<lparr>call_task = t, call_lead_id = Some (run_lead_id r),
     call_pipeline_run_id = Some (run_id r), call_correlation_id = Some (run_correlation_id r)\<rparr>"

text \<open>\<open>_auto_resume_pipeline\<close>, for the run with the given id as the session holds it.\<close>

definition auto_resume_pipeline :: "string list \<Rightarrow> uuid \<Rightarrow> store \<Rightarrow> bool \<times> store" where
  "auto_resume_pipeline names k s = (case get_run s k of
     None \<Rightarrow> (False, s)
   | Some r \<Rightarrow> (case resume_task names r of
       None \<Rightarrow> (False, s)
     | Some t \<Rightarrow> (True, dispatch (resume_call t r) (upd_run k requeue_run s))))"

definition fail_run :: "string \<Rightarrow> datetime \<Rightarrow> pipeline_run \<Rightarrow> pipeline_run" where
  "fail_run err t r = r\<lparr>run_status := ''failed'', run_error := Some err, run_finished_at := Some t\<rparr>"

definition stale_run :: "datetime \<Rightarrow> pipeline_run \<Rightarrow> bool" where
  "stale_run t r = (run_status r \<in> set active_statuses \<and> run_updated_at r < t - pipeline_stale_threshold)"

definition stale_run_error :: string where
  "stale_run_error = ''Stale: no progress for >15 min - marked failed by janitor''"

definition sweep_stale_run :: "string list \<Rightarrow> uuid \<Rightarrow> nat \<times> store \<Rightarrow> nat \<times> store" where
  "sweep_stale_run names k acc =
     (let s1 = upd_run k (fail_run stale_run_error (now (snd acc))) (snd acc);
          (ok, s2) = auto_resume_pipeline names k s1
      in (if ok then Suc (fst acc) else fst acc, s2))"

definition sweep_stale_runs :: "string list \<Rightarrow> store \<Rightarrow> store \<Rightarrow> nat \<times> nat \<times> store" where
  "sweep_stale_runs names db s =
     (let stale = filter (stale_run (now s)) (runs db)
      in (length stale, fold (\<lambda>r. sweep_stale_run names (run_id r)) stale (0, s)))"

section \<open>Orphans\<close>

definition orphan_run :: "datetime \<Rightarrow> pipeline_run \<Rightarrow> bool" where
  "orphan_run t r = (run_status r = ''running'' \<and> run_updated_at r < t - orphan_threshold)"

definition orphan_error :: string where
  "orphan_error = ''orphaned - no activity for 30 minutes''"

definition sweep_orphan_pipelines :: "store \<Rightarrow> store \<Rightarrow> nat \<times> store" where
  "sweep_orphan_pipelines db s =
     (let orphans = filter (orphan_run (now s)) (runs db)
      in (length orphans,
          fold (\<lambda>r. upd_run (run_id r) (fail_run orphan_error (now s))) orphans s))"

definition fresh_orphan :: "datetime \<Rightarrow> pipeline_run \<Rightarrow> bool" where
  "fresh_orphan t r = (run_status r = ''failed''
     \<and> (case run_error r of None \<Rightarrow> False | Some e \<Rightarrow> contains ''orphaned'' e)
     \<and> run_retry_count r < max_pipeline_retries
     \<and> (case run_finished_at r of None \<Rightarrow> False | Some f \<Rightarrow> t - seconds 5 \<le> f))"

definition resume_one :: "string list \<Rightarrow> uuid \<Rightarrow> nat \<times> store \<Rightarrow> nat \<times> store" where
  "resume_one names k acc = (let (ok, s) = auto_resume_pipeline names k (snd acc)
     in (if ok then Suc (fst acc) else fst acc, s))"

definition resume_orphans :: "string list \<Rightarrow> store \<Rightarrow> store \<Rightarrow> nat \<times> store" where
  "resume_orphans names db s =
     fold (\<lambda>r. resume_one names (run_id r)) (filter (fresh_orphan (now s)) (runs db)) (0, s)"

section \<open>Stale tasks, stuck reviews and reports\<close>

definition stale_task :: "datetime \<Rightarrow> task_run \<Rightarrow> bool" where
  "stale_task t r = (task_status r \<in> set active_statuses \<and> task_updated_at r < t - stale_threshold)"

definition fail_task :: "datetime \<Rightarrow> task_run \<Rightarrow> task_run" where
  "fail_task t r = r\<lparr>task_status := ''failed'',
     task_error := Some ''Stale: no progress for >10 min - marked failed by janitor'',
     task_finished_at := Some t\<rparr>"

definition sweep_stale_task_rows :: "store \<Rightarrow> nat \<times> store" where
  "sweep_stale_task_rows s =
     (length (filter (stale_task (now s)) (tasks s)),
      s\<lparr>tasks := tbl_where (stale_task (now s)) (stamp_task s (fail_task (now s))) (tasks s)\<rparr>)"

definition stuck_batch_review :: "datetime \<Rightarrow> batch_review \<Rightarrow> bool" where
  "stuck_batch_review t b =
     (br_status b \<in> {''generating'', ''reviewing''} \<and> br_updated_at b < t - minutes 10)"

definition sweep_stuck_batch_reviews :: "store \<Rightarrow> nat \<times> store" where
  "sweep_stuck_batch_reviews s =
     (length (filter (stuck_batch_review (now s)) (batch_reviews s)),
      s\<lparr>batch_reviews := tbl_where (stuck_batch_review (now s))
         (\<lambda>b. b\<lparr>br_status := ''failed'',
            br_reviewer_notes := Some (''Stuck in '' @ [CHR 0x27] @ br_status b @ [CHR 0x27]
              @ '' for >10 min - marked failed by janitor''),
            br_updated_at := now s\<rparr>) (batch_reviews s)\<rparr>)"

definition stuck_report :: "datetime \<Rightarrow> research_report \<Rightarrow> bool" where
  "stuck_report t r = (rep_status r = R_RUNNING \<and> rep_updated_at r < t - minutes 10)"

definition sweep_stuck_research_reports :: "store \<Rightarrow> nat \<times> store" where
  "sweep_stuck_research_reports s =
     (length (filter (stuck_report (now s)) (reports s)),
      s\<lparr>reports := tbl_where (stuck_report (now s))
         (\<lambda>r. r\<lparr>rep_status := R_FAILED,
            rep_error := Some (''Stuck in '' @ [CHR 0x27] @ ''running'' @ [CHR 0x27]
              @ '' for >10 min - marked failed by janitor''),
            rep_updated_at := now s\<rparr>) (reports s)\<rparr>)"

section \<open>Zombie leads, territories, idle pipeline\<close>

record zombie_result =
  zr_enriched_stale :: nat
  zr_scored_stale :: nat
  zr_draft_stale :: nat

definition stuck_lead :: "LeadStatus \<Rightarrow> datetime \<Rightarrow> lead \<Rightarrow> bool" where
  "stuck_lead st cutoff l = (lead_status l = st \<and> lead_updated_at l < cutoff)"

text \<open>The join yields a lead once per stuck draft.\<close>

definition stuck_draft_rows :: "store \<Rightarrow> (lead \<times> outreach_draft) list" where
  "stuck_draft_rows s = filter (\<lambda>(l, d). draft_lead_id d = lead_id l \<and> lead_status l = DRAFT_READY
       \<and> draft_status d = PENDING_REVIEW \<and> draft_generated_at d < now s - hours 48)
     (List.product (leads s) (drafts s))"

definition sweep_zombie_leads :: "store \<Rightarrow> store \<Rightarrow> zombie_result \<times> store" where
  "sweep_zombie_leads base s =
     (let enriched = length (filter (stuck_lead ENRICHED (now s - hours 1)) (leads s));
          scored = length (filter (stuck_lead SCORED (now s - hours 24)) (leads s));
          s1 = (if scored > 0
                then on_repeated_failures base ''zombie_scored_leads'' (int scored)
                  (nat_str scored @ '' leads stuck in '' @ [CHR 0x27] @ ''scored'' @ [CHR 0x27]
                   @ '' for >24h without advancing to qualified.'') s
                else s);
          draft_n = length (stuck_draft_rows s1);
          s2 = (if draft_n > 0
                then on_repeated_failures base ''zombie_draft_leads'' (int draft_n)
                  (nat_str draft_n @ '' leads in '' @ [CHR 0x27] @ ''draft_ready'' @ [CHR 0x27]
                   @ '' with drafts pending review for >48h.'') s1
                else s1)
      in (\<lparr>zr_enriched_stale = enriched, zr_scored_stale = scored, zr_draft_stale = draft_n\<rparr>, s2))"

definition unsaturate_threshold_days :: int where
  "unsaturate_threshold_days = 60"

definition idle_territory :: "datetime \<Rightarrow> territory \<Rightarrow> bool" where
  "idle_territory t x = (terr_is_saturated x
     \<and> (case terr_last_crawled_at x of None \<Rightarrow> False | Some c \<Rightarrow> c < t - days unsaturate_threshold_days))"

definition sweep_unsaturate_old_territories :: "store \<Rightarrow> nat \<times> store" where
  "sweep_unsaturate_old_territories s =
     (length (filter (idle_territory (now s)) (territories s)),
      s\<lparr>territories := tbl_where (idle_territory (now s))
         (\<lambda>x. x\<lparr>terr_is_saturated := False, terr_last_dup_ratio := None,
            terr_updated_at := now s\<rparr>) (territories s)\<rparr>)"

definition check_pipeline_inactive :: "store \<Rightarrow> store \<Rightarrow> store" where
  "check_pipeline_inactive base s =
     (let recent_runs = length (filter (\<lambda>r. run_status r = ''succeeded''
            \<and> (case run_finished_at r of None \<Rightarrow> False | Some f \<Rightarrow> now s - minutes 60 \<le> f)) (runs s));
          pending = length (filter (\<lambda>l. lead_status l = NEW) (leads s))
      in if recent_runs = 0 \<and> pending > 0
         then emit base \<lparr>na_type = ''pipeline_inactive'', na_category = SYSTEM,
           na_severity = SEV_WARNING, na_title = ''Pipeline inactivo'',
           na_message = ''No hay pipeline runs en la ultima hora pero hay '' @ nat_str pending
             @ '' leads pendientes.'',
           na_source_kind = None, na_source_id = None, na_metadata = None,
           na_dedup_key = Some ''pipeline_inactive''\<rparr> s
         else s)"

section \<open>The sweep\<close>

record sweep_result =
  sw_tasks_failed :: nat
  sw_pipelines_failed :: nat
  sw_pipelines_resumed :: nat
  sw_orphans_failed :: nat
  sw_batch_reviews_failed :: nat
  sw_research_reports_failed :: nat
  sw_zombie_leads :: zombie_result
  sw_territories_unsaturated :: nat

text \<open>Everything up to the commit, in one session that began in \<open>s\<close>.\<close>

definition sweep_session :: "string list \<Rightarrow> store \<Rightarrow> store \<Rightarrow> sweep_result \<times> store" where
  "sweep_session names base s =
     (let (task_n, s1) = sweep_stale_task_rows s;
          (pipeline_n, resumed, s2) = sweep_stale_runs names s s1;
          (orphan_n, s3) = sweep_orphan_pipelines s s2;
          (orphan_resumed, s4) = resume_orphans names s s3;
          (batch_n, s5) = sweep_stuck_batch_reviews s4;
          (report_n, s6) = sweep_stuck_research_reports s5;
          (zombies, s7) = sweep_zombie_leads base s6;
          (unsaturated, s8) = sweep_unsaturate_old_territories s7;
          s9 = check_pipeline_inactive base s8
      in (\<lparr>sw_tasks_failed = task_n, sw_pipelines_failed = pipeline_n,
           sw_pipelines_resumed = resumed + orphan_resumed, sw_orphans_failed = orphan_n,
           sw_batch_reviews_failed = batch_n, sw_research_reports_failed = report_n,
           sw_zombie_leads = zombies, sw_territories_unsaturated = unsaturated\<rparr>, s9))"

text \<open>The counters that make the sweep commit; zombies and the idle pipeline do not.\<close>

definition sweep_commits :: "sweep_result \<Rightarrow> bool" where
  "sweep_commits r = (sw_tasks_failed r > 0 \<or> sw_pipelines_failed r > 0 \<or> sw_orphans_failed r > 0
     \<or> sw_batch_reviews_failed r > 0 \<or> sw_research_reports_failed r > 0
     \<or> sw_territories_unsaturated r > 0)"

text \<open>
  \<open>sweep_stale_tasks\<close>: the result and the committed database.  What is not committed when the
  session closes is rolled back, the alert about many stale tasks included, which comes after
  the commit.
\<close>

definition sweep_stale_tasks :: "string list \<Rightarrow> store \<Rightarrow> store \<Rightarrow> sweep_result \<times> store" where
  "sweep_stale_tasks names base s =
     (let (res, s1) = sweep_session names base s;
          committed = (if sweep_commits res then s1 else rollback_to base s1);
          total = sw_tasks_failed res + sw_pipelines_failed res + sw_orphans_failed res;
          s2 = (if sw_tasks_failed res > 3
                then on_repeated_failures committed ''pipeline_health'' (int total)
                  (''Janitor sweep: '' @ nat_str (sw_tasks_failed res) @ '' stale tasks, ''
                   @ nat_str (sw_pipelines_failed res) @ '' stale pipelines, ''
                   @ nat_str (sw_orphans_failed res) @ '' orphaned pipelines marked failed.'') s1
                else s1)
      in (res, rollback_to committed s2))"

section \<open>The resume endpoint\<close>

datatype http_error = Http nat string

text \<open>\<open>resume_pipeline_run\<close>: an HTTP error, or the name of the task that was dispatched.\<close>

definition resume_pipeline_run ::
    "string list \<Rightarrow> uuid \<Rightarrow> store \<Rightarrow> http_error + string \<times> store" where
  "resume_pipeline_run names k s = (case get_run s k of
     None \<Rightarrow> Inl (Http 404 ''Pipeline run not found'')
   | Some r \<Rightarrow>
       if run_finished_at r \<noteq> None
       then Inl (Http 400 (''Pipeline already finished with status: '' @ run_status r))
       else if run_status r \<notin> {''running'', ''failed''}
       then Inl (Http 400 (''Cannot resume pipeline in status: '' @ run_status r))
       else (case next_task_name (run_current_step r) of
         None \<Rightarrow> Inl (Http 400 (''No next step after: '' @ or_text (run_current_step r) ''pipeline_dispatch''))
       | Some t \<Rightarrow>
           if t \<notin> set names then Inl (Http 500 (''Task function not found: '' @ t))
           else Inr (t, dispatch (resume_call t r)
                  (upd_run k (\<lambda>r. r\<lparr>run_status := ''running''\<rparr>) s))))"

section \<open>Resuming\<close>

lemma requeue_key [simp]: "run_id (requeue_run r) = run_id r" "run_id (fail_run e t r) = run_id r"
  by (simp_all add: requeue_run_def fail_run_def)

lemma dispatch_frame_rows [simp]:
  "get_run (dispatch c s) = get_run s" "runs (dispatch c s) = runs s"
  "tasks (dispatch c s) = tasks s" "now (dispatch c s) = now s" "notifs (dispatch c s) = notifs s"
  "dispatched (dispatch c s) = dispatched s @ [c]"
  by (simp_all add: dispatch_def get_run_def fun_eq_iff)

lemma upd_run_frame [simp]:
  "tasks (upd_run k f s) = tasks s" "notifs (upd_run k f s) = notifs s"
  by (simp_all add: upd_run_def)

text \<open>
  A run is resumed only with budget left (at most two times in its life), after a failure that
  looks transient and where its step has a successor; then exactly one message goes out, for
  that run and its lead, and the budget shrinks by one.  Otherwise nothing happens at all.
\<close>

theorem auto_resume_effect:
  "case auto_resume_pipeline names k s of (ok, s') \<Rightarrow>
     if ok then (\<exists>r t r'. get_run s k = Some r \<and> run_retry_count r < 2
         \<and> is_retryable_error (run_error r) \<and> next_task_name (run_current_step r) = Some t
         \<and> t \<in> set names \<and> dispatched s' = dispatched s @ [resume_call t r]
         \<and> get_run s' k = Some r' \<and> run_retry_count r' = run_retry_count r + 1
         \<and> run_status r' = ''running'' \<and> run_finished_at r' = None)
     else s' = s"
proof (cases "get_run s k")
  case None
  then show ?thesis by (simp add: auto_resume_pipeline_def)
next
  case (Some r)
  show ?thesis
  proof (cases "resume_task names r")
    case None
    with Some show ?thesis by (simp add: auto_resume_pipeline_def)
  next
    case (Some t)
    then have "run_retry_count r < 2" "is_retryable_error (run_error r)"
      "next_task_name (run_current_step r) = Some t \<and> t \<in> set names"
      by (simp_all add: resume_task_def max_pipeline_retries_def split: if_split_asm option.split_asm)
    moreover have "get_run (upd_run k requeue_run s) k = Some (stamp_run s requeue_run r)"
      using \<open>get_run s k = Some r\<close> by (simp add: run_tbl.get_upd_same)
    moreover have "auto_resume_pipeline names k s
        = (True, dispatch (resume_call t r) (upd_run k requeue_run s))"
      using Some \<open>get_run s k = Some r\<close> by (simp add: auto_resume_pipeline_def)
    moreover have "run_retry_count (stamp_run s requeue_run r) = run_retry_count r + 1"
      "run_status (stamp_run s requeue_run r) = ''running''"
      "run_finished_at (stamp_run s requeue_run r) = None"
      by (simp_all add: requeue_run_def)
    ultimately show ?thesis using \<open>get_run s k = Some r\<close> by simp
  qed
qed

lemma resume_task_none [simp]: "resume_task [] r = None"
  by (simp add: resume_task_def split: option.splits)

lemma auto_resume_none [simp]: "auto_resume_pipeline [] k s = (False, s)"
  by (simp add: auto_resume_pipeline_def split: option.splits)

section \<open>Frames of the sweeps\<close>

lemma sweep_stale_run_none:
  "sweep_stale_run [] k (n, s) = (n, upd_run k (fail_run stale_run_error (now s)) s)"
  by (simp add: sweep_stale_run_def Let_def)

text \<open>A loop that fails the runs of a list: what is left of the runs.\<close>

definition fails_runs :: "uuid set \<Rightarrow> store \<Rightarrow> store \<Rightarrow> bool" where
  "fails_runs ks s s' \<longleftrightarrow> (\<forall>r \<in> set (runs s'). run_status r = ''failed'' \<or>
     r \<in> set (runs s) \<and> run_id r \<notin> ks)"

lemma fails_upd: "fails_runs {k} s (upd_run k (fail_run e t) s)"
  unfolding fails_runs_def
proof
  fix r
  assume "r \<in> set (runs (upd_run k (fail_run e t) s))"
  then obtain r0 where r0: "r0 \<in> set (runs s)"
    "r = (if run_id r0 = k then stamp_run s (fail_run e t) r0 else r0)"
    unfolding upd_run_def by (auto simp: in_tbl_update)
  have "run_status (stamp_run s (fail_run e t) r0) = ''failed''"
    by (simp add: fail_run_def)
  with r0 show "run_status r = ''failed'' \<or> r \<in> set (runs s) \<and> run_id r \<notin> {k}"
    by (cases "run_id r0 = k") simp_all
qed

lemma fails_trans: "fails_runs A s s' \<Longrightarrow> fails_runs B s' s'' \<Longrightarrow> fails_runs (A \<union> B) s s''"
  unfolding fails_runs_def by blast

lemma fails_empty: "runs s' = runs s \<Longrightarrow> fails_runs {} s s'"
  by (simp add: fails_runs_def)

lemma fold_stale_none:
  "fst (fold (\<lambda>r. sweep_stale_run [] (run_id r)) rs (n, s)) = n
   \<and> fails_runs (run_id ` set rs) s (snd (fold (\<lambda>r. sweep_stale_run [] (run_id r)) rs (n, s)))
   \<and> tasks (snd (fold (\<lambda>r. sweep_stale_run [] (run_id r)) rs (n, s))) = tasks s
   \<and> dispatched (snd (fold (\<lambda>r. sweep_stale_run [] (run_id r)) rs (n, s))) = dispatched s
   \<and> now (snd (fold (\<lambda>r. sweep_stale_run [] (run_id r)) rs (n, s))) = now s
   \<and> notifs (snd (fold (\<lambda>r. sweep_stale_run [] (run_id r)) rs (n, s))) = notifs s"
proof (induction rs arbitrary: s)
  case (Cons r rs)
  from fails_trans [OF fails_upd] Cons [of "upd_run (run_id r) (fail_run stale_run_error (now s)) s"]
  show ?case by (auto simp: sweep_stale_run_none)
qed (simp add: fails_empty)

lemma fold_orphans:
  "fails_runs (run_id ` set rs) s (fold (\<lambda>r. upd_run (run_id r) (fail_run e t)) rs s)
   \<and> tasks (fold (\<lambda>r. upd_run (run_id r) (fail_run e t)) rs s) = tasks s
   \<and> dispatched (fold (\<lambda>r. upd_run (run_id r) (fail_run e t)) rs s) = dispatched s
   \<and> now (fold (\<lambda>r. upd_run (run_id r) (fail_run e t)) rs s) = now s
   \<and> notifs (fold (\<lambda>r. upd_run (run_id r) (fail_run e t)) rs s) = notifs s"
proof (induction rs arbitrary: s)
  case (Cons r rs)
  from fails_trans [OF fails_upd] Cons [of "upd_run (run_id r) (fail_run e t) s"]
  show ?case by auto
qed (simp add: fails_empty)

lemma resume_orphans_none: "resume_orphans [] db s = (0, s)"
proof -
  have "fold (\<lambda>r. resume_one [] (run_id r)) rs (0, s) = (0, s)" for rs :: "pipeline_run list"
    by (induction rs) (simp_all add: resume_one_def)
  then show ?thesis by (simp add: resume_orphans_def)
qed

lemma repeated_failures_frame:
  "notif_frame s (on_repeated_failures base ty n d s)
   \<and> (has_dedup_key key s \<longrightarrow> has_dedup_key key (on_repeated_failures base ty n d s))"
proof
  show "notif_frame s (on_repeated_failures base ty n d s)"
    unfolding on_repeated_failures_def
    by (rule emit_notif_frame) (simp add: lost_race_def has_dedup_key_def)
  let ?a = "\<lparr>na_type = ''repeated_failures'', na_category = SYSTEM, na_severity = SEV_HIGH,
      na_title = ''Fallos repetidos - '' @ ty, na_message = int_str n @ '' fallos recientes. '' @ d,
      na_source_kind = None, na_source_id = None,
      na_metadata = Some (JObj [(''failure_type'', JStr ty), (''count'', JInt n)]),
      na_dedup_key = None\<rparr>"
  have "\<not> lost_race base ?a s'" for s' by (simp add: lost_race_def has_dedup_key_def)
  then have "set (guard_keys s') \<subseteq> set (guard_keys (snd (create_notification base ?a s')))" for s'
    unfolding guard_keys_create by auto
  from this [of "snd (get_or_create s)"]
  have "set (guard_keys s) \<subseteq> set (guard_keys (on_repeated_failures base ty n d s))"
    by (simp add: on_repeated_failures_def emit_def get_cached_settings_def split_beta Let_def)
  then show "has_dedup_key key s \<longrightarrow> has_dedup_key key (on_repeated_failures base ty n d s)"
    unfolding has_dedup_key_guards set_map by blast
qed

definition keeps_notifs :: "string option \<Rightarrow> store \<Rightarrow> store \<Rightarrow> bool" where
  "keeps_notifs key s s' \<longleftrightarrow> notif_frame s s' \<and> (has_dedup_key key s \<longrightarrow> has_dedup_key key s')"

lemma keeps_notifs_refl [simp]: "keeps_notifs key s s"
  by (simp add: keeps_notifs_def)

lemma keeps_notifs_alert:
  "keeps_notifs key s s' \<Longrightarrow>
     keeps_notifs key s (if c then on_repeated_failures base ty n d s' else s')"
  using repeated_failures_frame [of s' base ty n d key] notif_frame_trans [of s s']
  by (auto simp: keeps_notifs_def)

lemma zombies_frame:
  "notif_frame s (snd (sweep_zombie_leads base s))
   \<and> (has_dedup_key key s \<longrightarrow> has_dedup_key key (snd (sweep_zombie_leads base s)))"
  unfolding sweep_zombie_leads_def Let_def snd_conv keeps_notifs_def [symmetric]
  by (intro keeps_notifs_alert keeps_notifs_refl)

lemma inactive_frame:
  assumes "has_dedup_key (Some ''pipeline_inactive'') base \<Longrightarrow> has_dedup_key (Some ''pipeline_inactive'') s"
  shows "notif_frame s (check_pipeline_inactive base s)"
  using assms by (auto simp: check_pipeline_inactive_def Let_def lost_race_def intro!: emit_notif_frame)

lemma dispatched_rollback [simp]: "dispatched (rollback_to base s) = dispatched s"
  by (simp add: rollback_to_def)

lemma dispatched_maybe [simp]: "dispatched (maybe_dispatch c g k s) = dispatched s"
  by (rule notif_frame_fields(21) [OF notif_frame_dispatch])

lemma dispatched_emit [simp]: "dispatched (emit base a s) = dispatched s"
proof -
  have "dispatched (snd (get_or_create s)) = dispatched s"
    by (rule notif_frame_fields(21) [OF notif_frame_settings])
  then show ?thesis
    by (simp add: emit_def get_cached_settings_def split_beta Let_def create_notification_def)
      (simp add: add_notif_def tick_uuid_def)
qed

text \<open>The session of a sweep without task functions to resume with, part by part.\<close>

lemma sweep_none_parts:
  assumes "sweep_session [] base s = (res, s')"
  shows "sw_pipelines_resumed res = 0 \<and> dispatched s' = dispatched s
    \<and> (\<exists>s4 s8. fails_runs (run_id ` set (filter (stale_run (now s)) (runs s))) s s4
         \<and> tasks s4 = tbl_where (stale_task (now s)) (stamp_task s (fail_task (now s))) (tasks s)
         \<and> (has_dedup_key key s \<longrightarrow> has_dedup_key key s8)
         \<and> runs s8 = runs s4 \<and> tasks s8 = tasks s4 \<and> now s8 = now s
         \<and> s' = check_pipeline_inactive base s8)
    \<and> sw_tasks_failed res = length (filter (stale_task (now s)) (tasks s))
    \<and> sw_pipelines_failed res = length (filter (stale_run (now s)) (runs s))"
proof -
  let ?s1 = "snd (sweep_stale_task_rows s)"
  let ?stale = "filter (stale_run (now s)) (runs s)"
  let ?f2 = "fold (\<lambda>r. sweep_stale_run [] (run_id r)) ?stale (0, ?s1)"
  let ?s2 = "snd ?f2"
  let ?s3 = "snd (sweep_orphan_pipelines s ?s2)"
  let ?s5 = "snd (sweep_stuck_batch_reviews ?s3)"
  let ?s6 = "snd (sweep_stuck_research_reports ?s5)"
  let ?s7 = "snd (sweep_zombie_leads base ?s6)"
  let ?s8 = "snd (sweep_unsaturate_old_territories ?s7)"
  have s1: "runs ?s1 = runs s" "now ?s1 = now s" "dispatched ?s1 = dispatched s" "notifs ?s1 = notifs s"
    "tasks ?s1 = tbl_where (stale_task (now s)) (stamp_task s (fail_task (now s))) (tasks s)"
    by (simp_all add: sweep_stale_task_rows_def)
  note f2 = fold_stale_none [of ?stale 0 ?s1]
  have s3: "fails_runs (run_id ` set (filter (orphan_run (now s)) (runs s))) ?s2 ?s3
      \<and> tasks ?s3 = tasks ?s2 \<and> dispatched ?s3 = dispatched ?s2 \<and> now ?s3 = now ?s2
      \<and> notifs ?s3 = notifs ?s2"
    using f2 s1 fold_orphans [of "filter (orphan_run (now s)) (runs s)" ?s2 orphan_error "now s"]
    by (simp add: sweep_orphan_pipelines_def Let_def)
  have "fails_runs (run_id ` set ?stale) ?s1 ?s3"
  proof -
    from f2 have "fails_runs (run_id ` set ?stale) ?s1 ?s2" by blast
    from fails_trans [OF this conjunct1 [OF s3]]
    show ?thesis unfolding fails_runs_def by blast
  qed
  then have r4: "fails_runs (run_id ` set ?stale) s ?s3" using s1(1) by (simp add: fails_runs_def)
  have s6: "runs ?s6 = runs ?s3" "tasks ?s6 = tasks ?s3" "now ?s6 = now ?s3"
    "dispatched ?s6 = dispatched ?s3" "notifs ?s6 = notifs ?s3"
    by (simp_all add: sweep_stuck_batch_reviews_def sweep_stuck_research_reports_def)
  note z = zombies_frame [of ?s6 base key]
  note zf = notif_frame_fields [OF conjunct1 [OF z]]
  have s8: "runs ?s8 = runs ?s3" "tasks ?s8 = tasks ?s3" "now ?s8 = now s"
    "dispatched ?s8 = dispatched s" "has_dedup_key key s \<longrightarrow> has_dedup_key key ?s8"
    using s1 f2 s3 s6 zf z
    by (auto simp: sweep_unsaturate_old_territories_def has_dedup_key_def)
  have res: "res = \<lparr>sw_tasks_failed = length (filter (stale_task (now s)) (tasks s)),
      sw_pipelines_failed = length ?stale, sw_pipelines_resumed = 0,
      sw_orphans_failed = fst (sweep_orphan_pipelines s ?s2),
      sw_batch_reviews_failed = fst (sweep_stuck_batch_reviews ?s3),
      sw_research_reports_failed = fst (sweep_stuck_research_reports ?s5),
      sw_zombie_leads = fst (sweep_zombie_leads base ?s6),
      sw_territories_unsaturated = fst (sweep_unsaturate_old_territories ?s7)\<rparr>"
    and s': "s' = check_pipeline_inactive base ?s8"
    using assms f2 s1(2)
    by (auto simp: sweep_session_def Let_def split_beta sweep_stale_runs_def resume_orphans_none
        sweep_stale_task_rows_def)
  have "dispatched s' = dispatched ?s8"
    unfolding s' by (simp add: check_pipeline_inactive_def Let_def)
  moreover have "tasks ?s3 = tbl_where (stale_task (now s)) (stamp_task s (fail_task (now s))) (tasks s)"
    using s3 f2 s1(5) by metis
  ultimately have "fails_runs (run_id ` set ?stale) s ?s3
      \<and> tasks ?s3 = tbl_where (stale_task (now s)) (stamp_task s (fail_task (now s))) (tasks s)
      \<and> (has_dedup_key key s \<longrightarrow> has_dedup_key key ?s8)
      \<and> runs ?s8 = runs ?s3 \<and> tasks ?s8 = tasks ?s3 \<and> now ?s8 = now s
      \<and> s' = check_pipeline_inactive base ?s8"
    using s8 r4 s' by metis
  moreover have "sw_pipelines_resumed res = 0" "sw_pipelines_failed res = length ?stale"
    "sw_tasks_failed res = length (filter (stale_task (now s)) (tasks s))"
    by (simp_all add: res)
  moreover have "dispatched s' = dispatched s"
    using \<open>dispatched s' = dispatched ?s8\<close> s8(4) by (rule trans)
  ultimately show ?thesis by blast
qed


section \<open>What a sweep leaves behind\<close>

lemma sweep_session_none:
  assumes "sweep_session [] s s = (res, s1)"
  shows "(\<forall>t \<in> set (tasks s1). \<not> stale_task (now s) t)
    \<and> (\<forall>r \<in> set (runs s1). \<not> stale_run (now s) r)
    \<and> dispatched s1 = dispatched s \<and> sw_pipelines_resumed res = 0
    \<and> (\<not> sweep_commits res \<longrightarrow> (\<forall>t \<in> set (tasks s). \<not> stale_task (now s) t)
         \<and> (\<forall>r \<in> set (runs s). \<not> stale_run (now s) r))"
proof -
  from sweep_none_parts [OF assms, of "Some ''pipeline_inactive''"] obtain s4 s8 where
    r4: "fails_runs (run_id ` set (filter (stale_run (now s)) (runs s))) s s4"
    and t4: "tasks s4 = tbl_where (stale_task (now s)) (stamp_task s (fail_task (now s))) (tasks s)"
    and k: "has_dedup_key (Some ''pipeline_inactive'') s \<longrightarrow>
      has_dedup_key (Some ''pipeline_inactive'') s8"
    and e: "runs s8 = runs s4" "tasks s8 = tasks s4" "s1 = check_pipeline_inactive s s8"
    and n: "sw_pipelines_resumed res = 0" "dispatched s1 = dispatched s"
      "sw_tasks_failed res = length (filter (stale_task (now s)) (tasks s))"
      "sw_pipelines_failed res = length (filter (stale_run (now s)) (runs s))"
    by metis
  from k have "notif_frame s8 s1" unfolding e(3) by (intro inactive_frame) simp
  then have rt: "runs s1 = runs s4" "tasks s1 = tasks s4"
    using notif_frame_fields(10,11) [of s8 s1] e(1,2) by simp_all
  have "\<not> stale_task (now s) (stamp_task s (fail_task (now s)) t)" for t
    by (simp add: stale_task_def fail_task_def active_statuses_def)
  then have "\<forall>t \<in> set (tasks s1). \<not> stale_task (now s) t"
    unfolding rt t4 tbl_where_def by auto
  moreover have "\<forall>r \<in> set (runs s1). \<not> stale_run (now s) r"
  proof
    fix r assume "r \<in> set (runs s1)"
    with r4 have "run_status r = ''failed'' \<or> r \<in> set (runs s) \<and> \<not> stale_run (now s) r"
      unfolding rt fails_runs_def by auto
    then show "\<not> stale_run (now s) r" by (auto simp: stale_run_def active_statuses_def)
  qed
  moreover have "\<not> sweep_commits res \<Longrightarrow> filter (stale_task (now s)) (tasks s) = []
      \<and> filter (stale_run (now s)) (runs s) = []"
    using n(3,4) by (simp add: sweep_commits_def)
  ultimately show ?thesis using n(1,2) by (auto simp: filter_empty_conv)
qed

lemma rollback_tables [simp]:
  "tasks (rollback_to base s) = tasks base" "runs (rollback_to base s) = runs base"
  by (simp_all add: rollback_to_def)

text \<open>
  C6: After a sweep with no other session committing meanwhile, the committed database holds no
  active task without progress for more than 10 minutes and no active run without progress for
  more than 15: each has been failed, none has been resumed and no message has been sent.
\<close>

theorem sweep_leaves_no_stale:
  "case sweep_stale_tasks tasks_module_names s s of (res, s') \<Rightarrow>
     (\<forall>t \<in> set (tasks s'). task_status t \<in> {''running'', ''queued'', ''retrying'', ''stopping''} \<longrightarrow>
        now s - minutes 10 \<le> task_updated_at t)
     \<and> (\<forall>r \<in> set (runs s'). run_status r \<in> {''running'', ''queued'', ''retrying'', ''stopping''} \<longrightarrow>
        now s - minutes 15 \<le> run_updated_at r)
     \<and> sw_pipelines_resumed res = 0 \<and> dispatched s' = dispatched s"
proof -
  obtain res s1 where ses: "sweep_session [] s s = (res, s1)" by fastforce
  obtain s' where sw: "sweep_stale_tasks tasks_module_names s s = (res, s')"
    by (simp add: sweep_stale_tasks_def tasks_module_names_def ses Let_def)
  have d: "dispatched (on_repeated_failures b ty n dt s1) = dispatched s1" for b ty n dt
    by (simp add: on_repeated_failures_def)
  have "tasks s' = (if sweep_commits res then tasks s1 else tasks s)
      \<and> runs s' = (if sweep_commits res then runs s1 else runs s) \<and> dispatched s' = dispatched s1"
    using sw by (auto simp: sweep_stale_tasks_def tasks_module_names_def ses Let_def d)
  with sweep_session_none [OF ses]
  have "(\<forall>t \<in> set (tasks s'). \<not> stale_task (now s) t) \<and> (\<forall>r \<in> set (runs s'). \<not> stale_run (now s) r)
      \<and> sw_pipelines_resumed res = 0 \<and> dispatched s' = dispatched s"
    by auto
  then show ?thesis
    unfolding sw by (force simp: stale_task_def stale_run_def active_statuses_def
        stale_threshold_def pipeline_stale_threshold_def)
qed

definition demo_run :: "datetime \<Rightarrow> pipeline_run" where
  "demo_run t = \<lparr>run_id = 3, run_lead_id = 1, run_correlation_id = ''c'', run_root_task_id = None,
     run_status = ''running'', run_current_step = Some ''scoring'', run_result = None,
     run_step_context_json = None, run_error = None, run_retry_count = 0, run_created_at = t,
     run_updated_at = t, run_started_at = Some t, run_finished_at = None\<rparr>"

theorem sweep_leaves_no_stale_witness:
  "let s = (empty_store (minutes 20))\<lparr>runs := [demo_run 0]\<rparr> in
   stale_run (now s) (demo_run 0)
   \<and> (\<forall>r \<in> set (runs (snd (sweep_stale_tasks tasks_module_names s s))).
        run_status r \<in> {''running'', ''queued'', ''retrying'', ''stopping''} \<longrightarrow>
        minutes 5 \<le> run_updated_at r)"
  using sweep_leaves_no_stale [of "(empty_store (minutes 20))\<lparr>runs := [demo_run 0]\<rparr>"]
  by (auto simp: Let_def stale_run_def demo_run_def active_statuses_def empty_store_def
      pipeline_stale_threshold_def time_simps split: prod.splits)

text \<open>
  With the module \<open>app.workers.tasks\<close> as it is, an empty shim, nothing can be resumed: the
  janitor's attempt always leaves the run failed, and the resume endpoint answers every request
  with an error, a 500 whenever the run is unfinished and its step has a successor.
\<close>

theorem resume_never_happens:
  "auto_resume_pipeline tasks_module_names k s = (False, s)
   \<and> (case resume_pipeline_run tasks_module_names k s of
        Inr r \<Rightarrow> False
      | Inl (Http code msg) \<Rightarrow> code \<in> {404, 400, 500}
          \<and> (code = 500 \<longleftrightarrow> (case get_run s k of None \<Rightarrow> False
               | Some r \<Rightarrow> run_finished_at r = None \<and> run_status r \<in> {''running'', ''failed''}
                   \<and> next_task_name (run_current_step r) \<noteq> None)))"
  by (simp add: tasks_module_names_def resume_pipeline_run_def split: option.splits)

section \<open>Orphans against resumed runs\<close>

lemma sweep_stale_run_other:
  "k' \<noteq> k \<Longrightarrow> get_run (snd (sweep_stale_run names k acc)) k' = get_run (snd acc) k'"
  by (simp add: sweep_stale_run_def auto_resume_pipeline_def run_tbl.get_upd_other Let_def
      split: option.splits)

lemma sweep_stale_run_None:
  "get_run (snd (sweep_stale_run names k acc)) k' = None \<longleftrightarrow> get_run (snd acc) k' = None"
  by (simp add: sweep_stale_run_def auto_resume_pipeline_def run_tbl.get_upd_None_iff Let_def
      split: option.split)

lemma sweep_stale_run_grows:
  "set (dispatched (snd acc)) \<subseteq> set (dispatched (snd (sweep_stale_run names k acc)))
   \<and> now (snd (sweep_stale_run names k acc)) = now (snd acc)"
  by (auto simp: sweep_stale_run_def auto_resume_pipeline_def Let_def split: option.splits)

lemma fold_stale_other:
  "k \<notin> run_id ` set rs \<Longrightarrow>
     get_run (snd (fold (\<lambda>r. sweep_stale_run names (run_id r)) rs acc)) k = get_run (snd acc) k"
  by (induction rs arbitrary: acc) (auto simp: sweep_stale_run_other)

lemma fold_stale_grows:
  "set (dispatched (snd acc)) \<subseteq> set (dispatched (snd (fold (\<lambda>r. sweep_stale_run names (run_id r)) rs acc)))
   \<and> now (snd (fold (\<lambda>r. sweep_stale_run names (run_id r)) rs acc)) = now (snd acc)"
proof (induction rs arbitrary: acc)
  case (Cons r rs)
  note step = sweep_stale_run_grows [of acc names "run_id r"]
  note rest = Cons [of "sweep_stale_run names (run_id r) acc"]
  show ?case
    unfolding fold_Cons o_apply
    using order_trans [OF conjunct1 [OF step] conjunct1 [OF rest]]
      trans [OF conjunct2 [OF rest] conjunct2 [OF step]]
    by (rule conjI)
qed simp

lemma sweep_stale_run_resumes:
  assumes "get_run (snd acc) k = Some r"
    and "resume_task names (stamp_run (snd acc) (fail_run stale_run_error (now (snd acc))) r) = Some t"
  shows "resume_call t r \<in> set (dispatched (snd (sweep_stale_run names k acc)))"
proof -
  let ?r = "stamp_run (snd acc) (fail_run stale_run_error (now (snd acc))) r"
  have "get_run (upd_run k (fail_run stale_run_error (now (snd acc))) (snd acc)) k = Some ?r"
    using assms(1) by (simp add: run_tbl.get_upd_same)
  moreover have "resume_call t ?r = resume_call t r"
    by (simp add: resume_call_def fail_run_def)
  ultimately show ?thesis
    using assms(2) by (simp add: sweep_stale_run_def auto_resume_pipeline_def Let_def)
qed

lemma tbl_get_distinct:
  "distinct (map key rows) \<Longrightarrow> r \<in> set rows \<Longrightarrow> tbl_get key rows (key r) = Some r"
  by (induction rows) (auto simp: image_iff)

text \<open>The run a resume is decided on: failed as stale, but otherwise as it was.\<close>

lemma resume_task_stale:
  "resume_task names (stamp_run s (fail_run stale_run_error c) r) =
     (if run_retry_count r < 2 then
        (case next_task_name (run_current_step r) of
           Some t \<Rightarrow> if t \<in> set names then Some t else None | None \<Rightarrow> None)
      else None)"
proof -
  have "contains ''stale: no progress'' (lower stale_run_error)"
    unfolding stale_run_error_def by code_simp
  then have "is_retryable_error (Some stale_run_error)"
    by (simp add: is_retryable_error_def retryable_patterns_def stale_run_error_def)
  then show ?thesis
    by (simp add: resume_task_def fail_run_def max_pipeline_retries_def)
qed

lemma orphan_is_stale: "orphan_run t r \<Longrightarrow> stale_run t r"
  by (simp add: orphan_run_def stale_run_def active_statuses_def orphan_threshold_def
      pipeline_stale_threshold_def time_simps)

text \<open>
  A run without progress for more than half an hour is lost even where it could be resumed:
  one sweep hands the task that continues it to the broker and then, because the orphan query
  does not see the unflushed resume, marks the same run failed again.
\<close>

theorem orphan_sweep_undoes_resume:
  assumes "r \<in> set (runs s)" and "distinct (map run_id (runs s))"
    and "run_status r = ''running''" and "run_updated_at r < now s - minutes 30"
    and "run_retry_count r < 2" and "next_task_name (run_current_step r) = Some t"
    and "t \<in> set names"
  shows "let s2 = snd (snd (sweep_stale_runs names s s)); s3 = snd (sweep_orphan_pipelines s s2) in
    resume_call t r \<in> set (dispatched s3)
    \<and> map_option run_status (get_run s3 (run_id r)) = Some ''failed''"
proof -
  have orph: "orphan_run (now s) r" using assms(3,4) by (simp add: orphan_run_def orphan_threshold_def)
  let ?stale = "filter (stale_run (now s)) (runs s)"
  have "r \<in> set ?stale" using assms(1) orphan_is_stale [OF orph] by simp
  then obtain xs ys where split: "?stale = xs @ r # ys" by (meson split_list)
  have "distinct (map run_id ?stale)" using assms(2) by (simp add: distinct_map inj_on_def)
  then have nin: "run_id r \<notin> run_id ` set xs" "run_id r \<notin> run_id ` set ys" by (auto simp: split)
  let ?f = "\<lambda>r. sweep_stale_run names (run_id r)"
  let ?a = "fold ?f xs (0, s)" and ?b = "fold ?f (r # ys) (fold ?f xs (0, s))"
  have "get_run s (run_id r) = Some r"
    using assms(1,2) by (simp add: get_run_def tbl_get_distinct)
  then have ga: "get_run (snd ?a) (run_id r) = Some r" "now (snd ?a) = now s"
    using fold_stale_other [OF nin(1), of names "(0, s)"] fold_stale_grows [of "(0, s)" names xs] by auto
  have "resume_call t r \<in> set (dispatched (snd (?f r ?a)))"
    using ga assms(5-7) by (intro sweep_stale_run_resumes) (simp_all add: resume_task_stale)
  then have d: "resume_call t r \<in> set (dispatched (snd ?b))"
    using fold_stale_grows [of "?f r ?a" names ys] by auto
  have s2: "snd (snd (sweep_stale_runs names s s)) = snd ?b"
    by (simp add: sweep_stale_runs_def Let_def split)
  have nb: "now (snd ?b) = now s"
    using fold_stale_grows [of "(0, s)" names "xs @ r # ys"] by simp
  have "get_run (snd ?b) (run_id r) \<noteq> None"
    using fold_stale_other [OF nin(2), of names "?f r ?a"] ga(1)
      sweep_stale_run_None [of names "run_id r" ?a "run_id r"] by simp
  then obtain rb where rb: "get_run (snd ?b) (run_id r) = Some rb" by blast
  let ?orph = "filter (orphan_run (now s)) (runs s)"
  have s3: "snd (sweep_orphan_pipelines s (snd ?b))
      = fold (\<lambda>k. upd_run k (fail_run orphan_error (now s))) (map run_id ?orph) (snd ?b)"
    unfolding sweep_orphan_pipelines_def Let_def nb snd_conv by (simp add: fold_map o_def)
  have "distinct (map run_id ?orph)" using assms(2) by (simp add: distinct_map inj_on_def)
  moreover have "run_id r \<in> set (map run_id ?orph)" using assms(1) orph by auto
  ultimately have "get_run (snd (sweep_orphan_pipelines s (snd ?b))) (run_id r)
      = Some (stamp_run (snd ?b) (fail_run orphan_error (now s)) rb)"
    unfolding s3 using rb
    by (simp only: run_tbl.get_fold_upd [OF requeue_key(2)] if_True option.map)
  moreover have "dispatched (snd (sweep_orphan_pipelines s (snd ?b))) = dispatched (snd ?b)"
    using fold_orphans [of ?orph "snd ?b" orphan_error "now s"]
    unfolding sweep_orphan_pipelines_def Let_def nb snd_conv by blast
  ultimately show ?thesis
    using d unfolding s2 Let_def by (simp add: fail_run_def)
qed

theorem orphan_sweep_undoes_resume_witness:
  "let s = (empty_store (minutes 40))\<lparr>runs := [demo_run 0]\<rparr>;
       s3 = snd (sweep_orphan_pipelines s (snd (snd (sweep_stale_runs [''task_analyze_lead''] s s))))
   in resume_call ''task_analyze_lead'' (demo_run 0) \<in> set (dispatched s3)"
proof -
  have "next_task_name (run_current_step (demo_run 0)) = Some ''task_analyze_lead''"
    by (simp add: next_task_name_def demo_run_def or_text_def pipeline_step_chain_def)
  then have n: "next_task_name (run_current_step (demo_run 0)) = Some ''task_analyze_lead''" .
  let ?s = "(empty_store (minutes 40))\<lparr>runs := [demo_run 0]\<rparr>"
  have "demo_run 0 \<in> set (runs ?s)" "distinct (map run_id (runs ?s))"
    "run_status (demo_run 0) = ''running''" "run_updated_at (demo_run 0) < now ?s - minutes 30"
    "run_retry_count (demo_run 0) < 2" "''task_analyze_lead'' \<in> set [''task_analyze_lead'']"
    by (simp_all add: empty_store_def time_simps) (simp_all add: demo_run_def)
  from orphan_sweep_undoes_resume [OF this(1-5) n this(6)] show ?thesis
    unfolding Let_def by blast
qed

end
