(* ===== verification/Lead_Events.thy ===== *)
theory Lead_Events
  imports Store
begin

text \<open>
  The audit log of a lead's journey (\<open>app/services/leads/event_service.py\<close>): rows are only
  ever appended.
\<close>

definition emit_lead_event ::
    "uuid \<Rightarrow> string \<Rightarrow> string option \<Rightarrow> string option \<Rightarrow> json option \<Rightarrow> string \<Rightarrow> store \<Rightarrow> store" where
  "emit_lead_event k event_type old_status new_status payload actor s =
     tick_uuid (s\<lparr>lead_events := lead_events s @
       [\<lparr>ev_id = next_uuid s, ev_lead_id = k, ev_event_type = event_type,
         ev_old_status = old_status, ev_new_status = new_status, ev_payload_json = payload,
         ev_actor = actor, ev_created_at = now s\<rparr>]\<rparr>)"

text \<open>The rest of the store is untouched.\<close>

lemma emit_frame [simp]:
  "leads (emit_lead_event k t a b p w s) = leads s"
  "tasks (emit_lead_event k t a b p w s) = tasks s"
  "runs (emit_lead_event k t a b p w s) = runs s"
  "ologs (emit_lead_event k t a b p w s) = ologs s"
  "snapshots (emit_lead_event k t a b p w s) = snapshots s"
  "signals (emit_lead_event k t a b p w s) = signals s"
  "dispatched (emit_lead_event k t a b p w s) = dispatched s"
  "now (emit_lead_event k t a b p w s) = now s"
  by (simp_all add: emit_lead_event_def tick_uuid_def)

lemma emit_get [simp]:
  "get_lead (emit_lead_event k t a b p w s) = get_lead s"
  "get_task (emit_lead_event k t a b p w s) = get_task s"
  "get_run (emit_lead_event k t a b p w s) = get_run s"
  by (simp_all add: get_lead_def get_task_def get_run_def fun_eq_iff)

text \<open>The log is append-only: the earlier rows stay in front, in their order.\<close>

lemma emit_appends:
  "\<exists>e. lead_events (emit_lead_event k t a b p w s) = lead_events s @ [e]
     \<and> ev_lead_id e = k \<and> ev_event_type e = t \<and> ev_old_status e = a \<and> ev_new_status e = b
     \<and> ev_created_at e = now s"
  by (simp add: emit_lead_event_def tick_uuid_def)

end
