(* ===== verification/Task_Tracking.thy ===== *)
theory Task_Tracking
  imports Lead_Events
begin

text \<open>
  The bookkeeping of Celery tasks and pipeline runs
  (\<open>app/services/pipeline/task_tracking_service.py\<close>): a \<open>TaskRun\<close> row per task and a
  \<open>PipelineRun\<close> row per lead and pipeline, moved through their statuses by the workers, the
  API and the janitor.
\<close>

section \<open>Statuses\<close>

definition task_progress_statuses :: "string list" where
  "task_progress_statuses =
     [''running'', ''retrying'', ''stopping'', ''stopped'', ''succeeded'', ''failed'']"

definition active_task_run_statuses :: "string list" where
  "active_task_run_statuses = [''queued'', ''running'', ''retrying'', ''stopping'']"

section \<open>Pipeline runs\<close>

text \<open>\<open>create_pipeline_run\<close>: a falsy correlation id is replaced by a fresh one.\<close>

definition create_pipeline_run ::
    "uuid \<Rightarrow> string \<Rightarrow> string option \<Rightarrow> store \<Rightarrow> uuid \<times> store" where
  "create_pipeline_run k current_step correlation s =
     (let cid = (if truthy correlation then text_or_empty correlation
                 else uuid_str (next_uuid s));
          s1 = (if truthy correlation then s else tick_uuid s);
          rid = next_uuid s1
      in (rid, add_run \<lparr>run_id = rid, run_lead_id = k, run_correlation_id = cid,
            run_root_task_id = None, run_status = ''queued'', run_current_step = Some current_step,
            run_result = None, run_step_context_json = None, run_error = None,
            run_retry_count = 0, run_created_at = now s, run_updated_at = now s,
            run_started_at = None, run_finished_at = None\<rparr> (tick_uuid s1)))"

definition attach_pipeline_root_task :: "uuid \<Rightarrow> string \<Rightarrow> store \<Rightarrow> store" where
  "attach_pipeline_root_task rid root_task s =
     upd_run rid (\<lambda>r. r\<lparr>run_root_task_id := Some root_task\<rparr>) s"

text \<open>The keyword arguments of \<open>update_pipeline_run\<close>; \<open>no_run_update\<close> has the defaults.\<close>

record run_update =
  ru_status :: "string option"
  ru_current_step :: "string option"
  ru_result :: "json option"
  ru_error :: "string option"
  ru_clear_error :: bool
  ru_started :: bool
  ru_finished :: bool

definition no_run_update :: run_update where
  "no_run_update = \<lparr>ru_status = None, ru_current_step = None, ru_result = None,
     ru_error = None, ru_clear_error = False, ru_started = False, ru_finished = False\<rparr>"

definition apply_run_update :: "datetime \<Rightarrow> run_update \<Rightarrow> pipeline_run \<Rightarrow> pipeline_run" where
  "apply_run_update t u r = r\<lparr>
     run_status := set_if (ru_status u) (run_status r),
     run_current_step := or_else (ru_current_step u) (run_current_step r),
     run_result := or_else (ru_result u) (run_result r),
     run_error := (case ru_error u of Some e \<Rightarrow> Some e
                   | None \<Rightarrow> if ru_clear_error u then None else run_error r),
     run_started_at := (if ru_started u then or_else (run_started_at r) (Some t)
                        else run_started_at r),
     run_finished_at := (if ru_finished u then Some t else run_finished_at r)\<rparr>"

definition update_pipeline_run :: "uuid \<Rightarrow> run_update \<Rightarrow> store \<Rightarrow> store" where
  "update_pipeline_run rid u s = upd_run rid (apply_run_update (now s) u) s"

text \<open>\<open>if pipeline_run_id: update_pipeline_run(...)\<close>.\<close>

definition update_run_if :: "uuid option \<Rightarrow> run_update \<Rightarrow> store \<Rightarrow> store" where
  "update_run_if rid u s = (case rid of None \<Rightarrow> s | Some r \<Rightarrow> update_pipeline_run r u s)"

section \<open>Queueing\<close>

text \<open>The keyword arguments \<open>queue_task_run\<close> and \<open>mark_task_running\<close> share.\<close>

record task_meta =
  tm_task_name :: string
  tm_queue :: "string option"
  tm_lead_id :: "uuid option"
  tm_pipeline_run_id :: "uuid option"
  tm_correlation_id :: "string option"
  tm_scope_key :: "string option"
  tm_current_step :: "string option"

definition new_task_run :: "string \<Rightarrow> string \<Rightarrow> datetime \<Rightarrow> task_run" where
  "new_task_run tid name t = \<lparr>task_id = tid, task_name = name, task_queue = None,
     task_lead_id = None, task_pipeline_run_id = None, task_correlation_id = None,
     task_scope_key = None, task_status = ''queued'', task_current_step = None,
     task_progress_json = None, task_result = None, task_error = None, task_created_at = t,
     task_updated_at = t, task_started_at = None, task_finished_at = None,
     task_stop_requested_at = None\<rparr>"

definition apply_metadata :: "task_meta \<Rightarrow> bool \<Rightarrow> task_run \<Rightarrow> task_run" where
  "apply_metadata m preserve_progress t =
     (let t1 = t\<lparr>task_name := tm_task_name m, task_queue := tm_queue m,
                 task_lead_id := tm_lead_id m, task_pipeline_run_id := tm_pipeline_run_id m,
                 task_correlation_id := tm_correlation_id m, task_scope_key := tm_scope_key m\<rparr>
      in if preserve_progress \<and> task_status t1 \<in> set task_progress_statuses
         then t1\<lparr>task_current_step := text_or (task_current_step t1) (tm_current_step m)\<rparr>
         else t1\<lparr>task_status := ''queued'', task_current_step := tm_current_step m,
                 task_error := None\<rparr>)"

text \<open>The foreign keys \<open>task_runs.lead_id\<close> and \<open>task_runs.pipeline_run_id\<close>.\<close>

definition task_fk_ok :: "store \<Rightarrow> task_meta \<Rightarrow> bool" where
  "task_fk_ok s m =
     ((case tm_lead_id m of None \<Rightarrow> True | Some k \<Rightarrow> get_lead s k \<noteq> None)
      \<and> (case tm_pipeline_run_id m of None \<Rightarrow> True | Some k \<Rightarrow> get_run s k \<noteq> None))"

text \<open>
  \<open>queue_task_run\<close>.  \<open>base\<close> is the committed database, which another session may have
  extended since this session read it: if it already holds the task, the flush of a new row
  fails, the session is rolled back, the row reloaded and its progress kept.
\<close>

definition requeue_after_rollback :: "store \<Rightarrow> string \<Rightarrow> task_meta \<Rightarrow> store \<Rightarrow> db_error + store" where
  "requeue_after_rollback base tid m s =
     (let s' = rollback_to base s in
      case get_task s' tid of
        None \<Rightarrow> Inl IntegrityError
      | Some _ \<Rightarrow> if task_fk_ok s' m then Inr (upd_task tid (apply_metadata m True) s')
                  else Inl IntegrityError)"

definition queue_task_run :: "store \<Rightarrow> string \<Rightarrow> task_meta \<Rightarrow> store \<Rightarrow> db_error + store" where
  "queue_task_run base tid m s =
     (case get_task s tid of
        Some _ \<Rightarrow>
          if task_fk_ok s m then Inr (upd_task tid (apply_metadata m True) s)
          else requeue_after_rollback base tid m s
      | None \<Rightarrow>
          if get_task base tid = None \<and> task_fk_ok s m
          then Inr (add_task (apply_metadata m False
                     (new_task_run tid (tm_task_name m) (now s))) s)
          else requeue_after_rollback base tid m s)"

section \<open>Moving a task through its statuses\<close>

definition set_running :: "datetime \<Rightarrow> task_run \<Rightarrow> task_run" where
  "set_running t r = r\<lparr>task_status := ''running'',
     task_started_at := or_else (task_started_at r) (Some t)\<rparr>"

definition mark_task_running :: "store \<Rightarrow> string \<Rightarrow> task_meta \<Rightarrow> store \<Rightarrow> db_error + store" where
  "mark_task_running base tid m s =
     (case queue_task_run base tid m s of
        Inl e \<Rightarrow> Inl e
      | Inr s1 \<Rightarrow>
          let s2 = upd_task tid (set_running (now s1)) s1 in
          Inr (update_run_if (tm_pipeline_run_id m)
                 (no_run_update\<lparr>ru_status := Some ''running'',
                    ru_current_step := tm_current_step m, ru_started := True,
                    ru_clear_error := True\<rparr>) s2))"

definition set_succeeded ::
    "datetime \<Rightarrow> json option \<Rightarrow> string option \<Rightarrow> task_run \<Rightarrow> task_run" where
  "set_succeeded t result step r = r\<lparr>task_status := ''succeeded'',
     task_current_step := text_or step (task_current_step r), task_result := result,
     task_error := None, task_finished_at := Some t\<rparr>"

definition mark_task_succeeded ::
    "string \<Rightarrow> json option \<Rightarrow> string option \<Rightarrow> uuid option \<Rightarrow> string option \<Rightarrow> store \<Rightarrow> store" where
  "mark_task_succeeded tid result step rid pipeline_status s =
     (case get_task s tid of
        None \<Rightarrow> s
      | Some t \<Rightarrow>
          let s1 = upd_task tid (set_succeeded (now s) result step) s;
              s2 = (case task_lead_id t of
                      Some k \<Rightarrow> if truthy step
                        then emit_lead_event k (''pipeline_step_'' @ text_or_empty step) None None
                          (Some (JObj [(''task_id'', JStr tid), (''result'', json_opt result)]))
                          ''pipeline'' s1
                        else s1
                    | None \<Rightarrow> s1)
          in update_run_if rid
               (no_run_update\<lparr>
                  ru_status := Some (if truthy pipeline_status then text_or_empty pipeline_status
                                     else ''running''),
                  ru_current_step := step,
                  ru_result := (if pipeline_status = Some ''succeeded'' then result else None),
                  ru_clear_error := True,
                  ru_finished := (pipeline_status = Some ''succeeded'')\<rparr>) s2)"

definition set_retrying :: "string \<Rightarrow> string option \<Rightarrow> task_run \<Rightarrow> task_run" where
  "set_retrying err step r = r\<lparr>task_status := ''retrying'',
     task_current_step := text_or step (task_current_step r), task_error := Some err\<rparr>"

definition mark_task_retrying ::
    "string \<Rightarrow> string \<Rightarrow> string option \<Rightarrow> uuid option \<Rightarrow> store \<Rightarrow> store" where
  "mark_task_retrying tid err step rid s =
     (case get_task s tid of
        None \<Rightarrow> s
      | Some _ \<Rightarrow>
          update_run_if rid
            (no_run_update\<lparr>ru_status := Some ''running'', ru_current_step := step,
               ru_error := Some (''Retry scheduled: '' @ err)\<rparr>)
            (upd_task tid (set_retrying err step) s))"

definition set_failed :: "datetime \<Rightarrow> string \<Rightarrow> string option \<Rightarrow> task_run \<Rightarrow> task_run" where
  "set_failed t err step r = r\<lparr>task_status := ''failed'',
     task_current_step := text_or step (task_current_step r), task_error := Some err,
     task_finished_at := Some t\<rparr>"

definition mark_task_failed ::
    "string \<Rightarrow> string \<Rightarrow> string option \<Rightarrow> uuid option \<Rightarrow> store \<Rightarrow> store" where
  "mark_task_failed tid err step rid s =
     (case get_task s tid of
        None \<Rightarrow> s
      | Some _ \<Rightarrow>
          update_run_if rid
            (no_run_update\<lparr>ru_status := Some ''failed'', ru_current_step := step,
               ru_error := Some err, ru_finished := True\<rparr>)
            (upd_task tid (set_failed (now s) err step) s))"

text \<open>\<open>TrackedTaskStepHandle\<close>: the three ways a step reports its end.\<close>

record step_handle =
  sh_task_id :: string
  sh_current_step :: string
  sh_pipeline_run_id :: "uuid option"

definition handle_step :: "step_handle \<Rightarrow> string option \<Rightarrow> string option" where
  "handle_step h step = text_or step (Some (sh_current_step h))"

definition handle_succeed ::
    "step_handle \<Rightarrow> json option \<Rightarrow> string option \<Rightarrow> string option \<Rightarrow> store \<Rightarrow> store" where
  "handle_succeed h result step pipeline_status s =
     mark_task_succeeded (sh_task_id h) result (handle_step h step) (sh_pipeline_run_id h)
       pipeline_status s"

definition handle_fail :: "step_handle \<Rightarrow> string \<Rightarrow> string option \<Rightarrow> store \<Rightarrow> store" where
  "handle_fail h err step s =
     mark_task_failed (sh_task_id h) err (handle_step h step) (sh_pipeline_run_id h) s"

definition handle_retry :: "step_handle \<Rightarrow> string \<Rightarrow> string option \<Rightarrow> store \<Rightarrow> store" where
  "handle_retry h err step s =
     mark_task_retrying (sh_task_id h) err (handle_step h step) (sh_pipeline_run_id h) s"

section \<open>Free updates, stop requests, queries\<close>

record task_update =
  tu_status :: "string option"
  tu_current_step :: "string option"
  tu_progress_json :: "json option"
  tu_result :: "json option"
  tu_error :: "string option"
  tu_clear_error :: bool
  tu_started :: bool
  tu_finished :: bool
  tu_stop_requested :: "bool option"

definition no_task_update :: task_update where
  "no_task_update = \<lparr>tu_status = None, tu_current_step = None, tu_progress_json = None,
     tu_result = None, tu_error = None, tu_clear_error = False, tu_started = False,
     tu_finished = False, tu_stop_requested = None\<rparr>"

definition apply_task_update :: "datetime \<Rightarrow> task_update \<Rightarrow> task_run \<Rightarrow> task_run" where
  "apply_task_update t u r = r\<lparr>
     task_status := set_if (tu_status u) (task_status r),
     task_current_step := or_else (tu_current_step u) (task_current_step r),
     task_progress_json := or_else (tu_progress_json u) (task_progress_json r),
     task_result := or_else (tu_result u) (task_result r),
     task_error := (case tu_error u of Some e \<Rightarrow> Some e
                    | None \<Rightarrow> if tu_clear_error u then None else task_error r),
     task_started_at := (if tu_started u then or_else (task_started_at r) (Some t)
                         else task_started_at r),
     task_finished_at := (if tu_finished u then Some t else task_finished_at r),
     task_stop_requested_at := (case tu_stop_requested u of
         Some True \<Rightarrow> or_else (task_stop_requested_at r) (Some t)
       | Some False \<Rightarrow> None
       | None \<Rightarrow> task_stop_requested_at r)\<rparr>"

definition update_task_run :: "string \<Rightarrow> task_update \<Rightarrow> store \<Rightarrow> store" where
  "update_task_run tid u s = upd_task tid (apply_task_update (now s) u) s"

definition is_task_stop_requested :: "store \<Rightarrow> string \<Rightarrow> bool" where
  "is_task_stop_requested s tid =
     (case get_task s tid of None \<Rightarrow> False | Some t \<Rightarrow> task_stop_requested_at t \<noteq> None)"

text \<open>
  \<open>get_scoped_task_run\<close>: the newest task of a name and scope (the database breaks ties of
  \<open>created_at\<close> as it likes, the model takes the first row).
\<close>

definition get_scoped_task_run :: "store \<Rightarrow> string \<Rightarrow> string \<Rightarrow> bool \<Rightarrow> task_run option" where
  "get_scoped_task_run s name scope active_only =
     first_max task_created_at
       (filter (\<lambda>t. task_name t = name \<and> task_scope_key t = Some scope
                  \<and> (active_only \<longrightarrow> task_status t \<in> set active_task_run_statuses)) (tasks s))"

definition set_stopping :: "datetime \<Rightarrow> task_run \<Rightarrow> task_run" where
  "set_stopping t r = r\<lparr>task_status := ''stopping'',
     task_stop_requested_at := or_else (task_stop_requested_at r) (Some t)\<rparr>"

definition request_task_stop :: "string \<Rightarrow> string \<Rightarrow> store \<Rightarrow> string option \<times> store" where
  "request_task_stop name scope s =
     (case get_scoped_task_run s name scope True of
        None \<Rightarrow> (None, s)
      | Some t \<Rightarrow> (Some (task_id t), upd_task (task_id t) (set_stopping (now s)) s))"

definition list_task_runs ::
    "string option \<Rightarrow> uuid option \<Rightarrow> uuid option \<Rightarrow> string option \<Rightarrow> nat \<Rightarrow> store \<Rightarrow> task_run list" where
  "list_task_runs status k rid scope limit s =
     take limit (sort_key (\<lambda>t. - task_updated_at t)
       (filter (\<lambda>t. (\<not> truthy status \<or> Some (task_status t) = status)
                  \<and> (k = None \<or> task_lead_id t = k)
                  \<and> (rid = None \<or> task_pipeline_run_id t = rid)
                  \<and> (\<not> truthy scope \<or> task_scope_key t = scope)) (tasks s)))"

definition list_pipeline_runs ::
    "uuid option \<Rightarrow> string option \<Rightarrow> nat \<Rightarrow> store \<Rightarrow> pipeline_run list" where
  "list_pipeline_runs k status limit s =
     take limit (sort_key (\<lambda>r. - run_updated_at r)
       (filter (\<lambda>r. (k = None \<or> Some (run_lead_id r) = k)
                  \<and> (\<not> truthy status \<or> Some (run_status r) = status)) (runs s)))"


section \<open>Lemmas on the row functions\<close>

lemma row_functions_key [simp]:
  "task_id (apply_metadata m b t) = task_id t"
  "task_id (set_running c t) = task_id t"
  "task_id (set_succeeded c j st t) = task_id t"
  "task_id (set_retrying e st t) = task_id t"
  "task_id (set_failed c e st t) = task_id t"
  "task_id (set_stopping c t) = task_id t"
  "task_id (apply_task_update c u t) = task_id t"
  "run_id (apply_run_update c ru r) = run_id r"
  by (simp_all add: apply_metadata_def set_running_def set_succeeded_def set_retrying_def
      set_failed_def set_stopping_def apply_task_update_def apply_run_update_def Let_def)

lemma update_run_if_frames [simp]:
  "get_task (update_run_if rid u s) = get_task s" "get_lead (update_run_if rid u s) = get_lead s"
  "tasks (update_run_if rid u s) = tasks s" "leads (update_run_if rid u s) = leads s"
  "now (update_run_if rid u s) = now s" "dispatched (update_run_if rid u s) = dispatched s"
  by (simp_all add: update_run_if_def update_pipeline_run_def upd_run_def get_task_def
      get_lead_def fun_eq_iff split: option.splits)

lemma rollback_rows [simp]:
  "get_task (rollback_to base s) = get_task base" "get_run (rollback_to base s) = get_run base"
  "get_lead (rollback_to base s) = get_lead base" "now (rollback_to base s) = now s"
  by (simp_all add: rollback_to_def get_task_def get_run_def get_lead_def fun_eq_iff)

lemma task_fk_ok_rollback [simp]: "task_fk_ok (rollback_to base s) m = task_fk_ok base m"
  by (simp add: task_fk_ok_def split: option.splits)

section \<open>Queueing keeps the most advanced state\<close>

text \<open>The row of the task that \<open>queue_task_run\<close> ends up working on, if there is one.\<close>

definition seen_task :: "store \<Rightarrow> string \<Rightarrow> task_meta \<Rightarrow> store \<Rightarrow> task_run option" where
  "seen_task base tid m s =
     (if get_task s tid \<noteq> None \<and> task_fk_ok s m then get_task s tid else get_task base tid)"

text \<open>What progress a row carries: everything the workers report.\<close>

definition progress_of :: "task_run \<Rightarrow> string \<times> json option \<times> json option \<times> string option
    \<times> datetime option \<times> datetime option \<times> datetime option" where
  "progress_of t = (task_status t, task_progress_json t, task_result t, task_error t,
     task_started_at t, task_finished_at t, task_stop_requested_at t)"

definition queued_over :: "task_meta \<Rightarrow> task_run option \<Rightarrow> task_run \<Rightarrow> bool" where
  "queued_over m seen t' =
     (task_name t' = tm_task_name m \<and> task_scope_key t' = tm_scope_key m
      \<and> task_lead_id t' = tm_lead_id m \<and> task_pipeline_run_id t' = tm_pipeline_run_id m
      \<and> (case seen of
           Some t \<Rightarrow> if task_status t \<in> set task_progress_statuses
                    then progress_of t' = progress_of t
                      \<and> task_current_step t' = text_or (task_current_step t) (tm_current_step m)
                    else task_status t' = ''queued'' \<and> task_error t' = None
         | None \<Rightarrow> task_status t' = ''queued'' \<and> task_error t' = None))"

lemma queued_over_existing: "queued_over m (Some t) (stamp_task s (apply_metadata m True) t)"
  by (simp add: queued_over_def progress_of_def) (simp add: apply_metadata_def Let_def)

lemma queued_over_new:
  "queued_over m None (apply_metadata m False (new_task_run tid (tm_task_name m) c))"
  by (simp add: queued_over_def apply_metadata_def Let_def)

lemma requeue_cases:
  "case requeue_after_rollback base tid m s of
     Inl e \<Rightarrow> get_task base tid = None \<or> \<not> task_fk_ok base m
   | Inr s' \<Rightarrow> (\<exists>t t'. get_task base tid = Some t \<and> get_task s' tid = Some t'
       \<and> queued_over m (Some t) t')"
  by (auto simp: requeue_after_rollback_def Let_def task_tbl.get_upd_same queued_over_existing
      split: option.splits)

lemma queue_cases:
  "case queue_task_run base tid m s of
     Inl e \<Rightarrow> (get_task s tid = None \<or> \<not> task_fk_ok s m)
            \<and> (get_task base tid = None \<or> \<not> task_fk_ok base m)
            \<and> \<not> (get_task base tid = None \<and> task_fk_ok s m)
   | Inr s' \<Rightarrow> (\<exists>t'. get_task s' tid = Some t' \<and> queued_over m (seen_task base tid m s) t')"
proof (cases "get_task s tid")
  case (Some t)
  then show ?thesis
    using requeue_cases [of base tid m s]
    by (auto simp: queue_task_run_def seen_task_def task_tbl.get_upd_same queued_over_existing
        split: sum.splits)
next
  case None
  have "task_id (apply_metadata m False (new_task_run tid (tm_task_name m) (now s))) = tid"
    by (simp add: new_task_run_def)
  with None have "get_task (add_task (apply_metadata m False
      (new_task_run tid (tm_task_name m) (now s))) s) tid
    = Some (apply_metadata m False (new_task_run tid (tm_task_name m) (now s)))"
    by (simp add: task_tbl.get_add)
  with None show ?thesis
    using requeue_cases [of base tid m s]
    by (auto simp: queue_task_run_def seen_task_def queued_over_new split: sum.splits)
qed

text \<open>
  C1: Queueing a task is safe against a worker that was faster.  The row that results carries the
  caller's metadata; a task that already reported progress, in this session or committed by
  another one meanwhile, keeps its status, result, error and time stamps, and any other task
  is (re)queued without an error.  It fails only when the task is new and a foreign key
  dangles, or still dangles after the roll-back.
\<close>

theorem queue_keeps_progress:
  "case queue_task_run base tid m s of
     Inl e \<Rightarrow> \<not> (get_task s tid \<noteq> None \<and> task_fk_ok s m)
            \<and> \<not> (get_task base tid \<noteq> None \<and> task_fk_ok base m)
            \<and> \<not> (get_task base tid = None \<and> task_fk_ok s m)
   | Inr s' \<Rightarrow> (\<exists>t'. get_task s' tid = Some t' \<and> queued_over m (seen_task base tid m s) t')"
  using queue_cases [where base = base and tid = tid and m = m and s = s] by (simp split: sum.splits)

section \<open>The life of a task\<close>

text \<open>
  One step of the tracking machine: a session that begins now (\<open>base\<close> is what it sees)
  performs one operation of the service, or time passes.  The pipeline statuses handed to
  \<open>mark_task_succeeded\<close> are the ones its callers use.
\<close>

inductive tracking_step :: "store \<Rightarrow> store \<Rightarrow> bool" where
  ts_queue: "queue_task_run s tid m s = Inr s' \<Longrightarrow> tracking_step s s'"
| ts_running: "mark_task_running s tid m s = Inr s' \<Longrightarrow> tracking_step s s'"
| ts_succeeded: "ps \<in> {None, Some ''succeeded'', Some ''skipped'', Some ''running''} \<Longrightarrow>
    tracking_step s (mark_task_succeeded tid j st rid ps s)"
| ts_retrying: "tracking_step s (mark_task_retrying tid e st rid s)"
| ts_failed: "tracking_step s (mark_task_failed tid e st rid s)"
| ts_stop: "tracking_step s (snd (request_task_stop name scope s))"
| ts_time: "now s \<le> c \<Longrightarrow> tracking_step s (s\<lparr>now := c\<rparr>)"

inductive_cases tracking_stepE: "tracking_step s s'"

text \<open>What no operation takes back once a task row has it.\<close>

definition task_le :: "task_run \<Rightarrow> task_run \<Rightarrow> bool" where
  "task_le t t' = (task_id t' = task_id t \<and> task_created_at t' = task_created_at t
     \<and> (task_started_at t = None \<or> task_started_at t' = task_started_at t)
     \<and> (task_stop_requested_at t = None \<or> task_stop_requested_at t' = task_stop_requested_at t))"

lemma task_le_refl [simp]: "task_le t t"
  by (simp add: task_le_def)

lemma task_le_trans: "task_le t u \<Longrightarrow> task_le u v \<Longrightarrow> task_le t v"
  by (auto simp: task_le_def)

lemma task_le_rows:
  "task_le t (apply_metadata m b t)" "task_le t (set_running c t)"
  "task_le t (set_succeeded c j st t)" "task_le t (set_retrying e st t)"
  "task_le t (set_failed c e st t)" "task_le t (set_stopping c t)"
  by (auto simp: task_le_def apply_metadata_def set_running_def set_succeeded_def
      set_retrying_def set_failed_def set_stopping_def Let_def or_else_def split: option.splits)

lemma task_le_stamp [simp]: "task_le t (stamp_task s f t) = task_le t (f t)"
  by (simp add: task_le_def)

definition keeps_tasks :: "store \<Rightarrow> store \<Rightarrow> bool" where
  "keeps_tasks s s' =
     (\<forall>k t. get_task s k = Some t \<longrightarrow> (\<exists>t'. get_task s' k = Some t' \<and> task_le t t'))"

lemma keeps_refl [simp]: "keeps_tasks s s"
  by (auto simp: keeps_tasks_def)

lemma keeps_trans: "keeps_tasks s s' \<Longrightarrow> keeps_tasks s' s'' \<Longrightarrow> keeps_tasks s s''"
  unfolding keeps_tasks_def by (meson task_le_trans)

lemma keeps_same: "get_task s' = get_task s \<Longrightarrow> keeps_tasks s s'"
  by (auto simp: keeps_tasks_def)

lemma keeps_upd:
  assumes "\<And>t. task_le t (f t)"
  shows "keeps_tasks s (upd_task k f s)"
proof -
  have "task_id (f t) = task_id t" for t using assms by (simp add: task_le_def)
  then show ?thesis by (auto simp: keeps_tasks_def task_tbl.get_upd assms)
qed

lemma keeps_add: "keeps_tasks s (add_task t s)"
  by (auto simp: keeps_tasks_def task_tbl.get_add_keeps)

lemma keeps_run_if: "keeps_tasks s s' \<Longrightarrow> keeps_tasks s (update_run_if rid u s')"
  by (simp add: keeps_tasks_def)

lemma keeps_rollback: "keeps_tasks s (rollback_to s s)"
  by (simp add: keeps_same)

lemma keeps_queue: "queue_task_run s tid m s = Inr s' \<Longrightarrow> keeps_tasks s s'"
  by (auto simp: queue_task_run_def requeue_after_rollback_def Let_def task_le_rows
      intro: keeps_upd keeps_add keeps_trans [OF keeps_rollback] split: option.splits if_splits)

lemma keeps_running: "mark_task_running s tid m s = Inr s' \<Longrightarrow> keeps_tasks s s'"
  by (auto simp: mark_task_running_def Let_def task_le_rows
      intro!: keeps_run_if intro: keeps_trans [OF keeps_queue keeps_upd] split: sum.splits)

lemma keeps_succeeded: "keeps_tasks s (mark_task_succeeded tid j st rid ps s)"
proof -
  have "keeps_tasks s (upd_task tid (set_succeeded (now s) j st) s)"
    by (simp add: keeps_upd task_le_rows)
  then show ?thesis
    by (simp add: mark_task_succeeded_def Let_def keeps_run_if split: option.splits)
      (simp add: keeps_tasks_def)
qed

lemma keeps_marks:
  "keeps_tasks s (mark_task_retrying tid e st rid s)"
  "keeps_tasks s (mark_task_failed tid e st rid s)"
  "keeps_tasks s (snd (request_task_stop name scope s))"
  by (auto simp: mark_task_retrying_def mark_task_failed_def request_task_stop_def task_le_rows
      intro!: keeps_run_if keeps_upd split: option.splits)

lemma tracking_step_keeps: "tracking_step s s' \<Longrightarrow> keeps_tasks s s'"
  by (induction rule: tracking_step.induct)
    (auto simp: keeps_queue keeps_running keeps_succeeded keeps_marks
      intro: keeps_same simp: get_task_def fun_eq_iff)

lemma tracking_steps_keep: "tracking_step\<^sup>*\<^sup>* s s' \<Longrightarrow> keeps_tasks s s'"
  by (induction rule: rtranclp_induct) (auto intro: keeps_trans tracking_step_keeps)


definition demo_task_store :: store where
  "demo_task_store = add_task (new_task_run ''t1'' ''task_score_lead'' 5) (empty_store 9)"


end
