(* ===== verification/Dead_Letters.thy ===== *)
theory Dead_Letters
  imports Task_Tracking Notifications
begin

text \<open>
  What happens when a worker task raises: \<open>_track_failure\<close> (\<open>app/workers/_helpers.py\<close>) records
  a retry or, when the retries are used up, the failure and a dead letter; the hourly drain
  (\<open>app/workers/janitor/dlq.py\<close>) replays dead letters.
\<close>

section \<open>Recording a failure\<close>

text \<open>The arguments of \<open>_track_failure\<close>, with the request's retry counters.\<close>

record failure =
  fl_task_name :: string
  fl_task_id :: string
  fl_lead_id :: "uuid option"
  fl_pipeline_run_id :: "uuid option"
  fl_correlation_id :: "string option"
  fl_current_step :: string
  fl_queue :: string
  fl_error :: string
  fl_retries :: int
  fl_max_retries :: int

definition failure_meta :: "failure \<Rightarrow> task_meta" where
  "failure_meta f = \<lparr>tm_task_name = fl_task_name f, tm_queue = Some (fl_queue f),
     tm_lead_id = fl_lead_id f, tm_pipeline_run_id = fl_pipeline_run_id f,
     tm_correlation_id = fl_correlation_id f, tm_scope_key = None,
     tm_current_step = Some (fl_current_step f)\<rparr>"

definition new_dead_letter :: "failure \<Rightarrow> store \<Rightarrow> dead_letter_task" where
  "new_dead_letter f s = \<lparr>dlt_id = next_uuid s, dlt_task_name = fl_task_name f,
     dlt_lead_id = fl_lead_id f, dlt_pipeline_run_id = fl_pipeline_run_id f,
     dlt_step = Some (fl_current_step f),
     dlt_error = (if fl_error f \<noteq> [] then Some (take 2000 (fl_error f)) else None),
     dlt_payload = Some (JObj [(''task_id'', JStr (fl_task_id f)),
       (''correlation_id'', jstr (fl_correlation_id f)), (''queue'', JStr (fl_queue f)),
       (''max_retries'', JInt (fl_max_retries f))]),
     dlt_created_at = now s, dlt_replayed_at = None\<rparr>"

definition add_dead_letter :: "dead_letter_task \<Rightarrow> store \<Rightarrow> store" where
  "add_dead_letter d s = s\<lparr>dead_letters := dead_letters s @ [d]\<rparr>"

definition track_failure :: "store \<Rightarrow> failure \<Rightarrow> store \<Rightarrow> db_error + store" where
  "track_failure base f s =
     (case mark_task_running base (fl_task_id f) (failure_meta f) s of
        Inl e \<Rightarrow> Inl e
      | Inr s1 \<Rightarrow> Inr (
          if fl_max_retries f \<le> fl_retries f
          then
            let s2 = mark_task_failed (fl_task_id f) (fl_error f) (Some (fl_current_step f))
                       (fl_pipeline_run_id f) s1;
                s3 = on_repeated_failures base (fl_task_name f) (fl_max_retries f + 1)
                       (''Task exhausted all retries. Step: '' @ fl_current_step f
                        @ ''. Error: '' @ take 200 (fl_error f)) s2
            in add_dead_letter (new_dead_letter f s3) (tick_uuid s3)
          else mark_task_retrying (fl_task_id f) (fl_error f) (Some (fl_current_step f))
                 (fl_pipeline_run_id f) s1))"

text \<open>The task names the workers hand to \<open>_track_failure\<close>.\<close>

definition tracked_task_names :: "string list" where
  "tracked_task_names =
    [''task_enrich_lead'', ''task_score_lead'', ''task_analyze_lead'', ''task_generate_draft'',
     ''task_full_pipeline'', ''task_research_lead'', ''task_review_lead'', ''task_review_draft'',
     ''task_review_inbound_message'', ''task_review_reply_assistant_draft'']"

section \<open>The drain\<close>

definition replayable_pipeline_tasks :: "string list" where
  "replayable_pipeline_tasks =
    [''app.workers.tasks.task_enrich_lead'', ''app.workers.tasks.task_score_lead'',
     ''app.workers.tasks.task_analyze_lead'', ''app.workers.tasks.task_research_lead'',
     ''app.workers.tasks.task_generate_draft'', ''app.workers.brief_tasks.task_generate_brief'',
     ''app.workers.brief_tasks.task_review_brief'']"

definition dlq_replay_window_hours :: int where "dlq_replay_window_hours = 24"
definition dlq_replay_batch_limit :: nat where "dlq_replay_batch_limit = 10"

definition dlq_pending :: "store \<Rightarrow> dead_letter_task \<Rightarrow> bool" where
  "dlq_pending s d = (dlt_replayed_at d = None
     \<and> now s - hours dlq_replay_window_hours \<le> dlt_created_at d)"

text \<open>The query has no order; the rows come as they were inserted.\<close>

definition dlq_batch :: "store \<Rightarrow> dead_letter_task list" where
  "dlq_batch s = take dlq_replay_batch_limit (filter (dlq_pending s) (dead_letters s))"

text \<open>\<open>payload.get("correlation_id")\<close>.\<close>

definition payload_correlation :: "json option \<Rightarrow> string option" where
  "payload_correlation p = (case p of
     Some (JObj kvs) \<Rightarrow> (case map_of kvs ''correlation_id'' of Some (JStr c) \<Rightarrow> Some c | _ \<Rightarrow> None)
   | _ \<Rightarrow> None)"

definition replay_call :: "dead_letter_task \<Rightarrow> celery_call" where
  "replay_call d = \<lparr>call_task = dlt_task_name d, call_lead_id = dlt_lead_id d,
     call_pipeline_run_id = dlt_pipeline_run_id d,
     call_correlation_id = payload_correlation (dlt_payload d)\<rparr>"

definition replayable :: "dead_letter_task \<Rightarrow> bool" where
  "replayable d = (dlt_task_name d \<in> set replayable_pipeline_tasks \<and> dlt_lead_id d \<noteq> None)"

record dlq_result =
  dq_replayed :: nat
  dq_skipped_unknown :: nat
  dq_failed_dispatch :: nat
  dq_inspected :: nat

definition mark_replayed :: "uuid \<Rightarrow> store \<Rightarrow> store" where
  "mark_replayed k s = s\<lparr>dead_letters :=
     tbl_update dlt_id k (\<lambda>d. d\<lparr>dlt_replayed_at := Some (now s)\<rparr>) (dead_letters s)\<rparr>"

text \<open>One turn of the loop; \<open>broker k\<close> says whether \<open>send_task\<close> for entry \<open>k\<close> goes through.\<close>

definition drain_one ::
    "(uuid \<Rightarrow> bool) \<Rightarrow> dead_letter_task \<Rightarrow> dlq_result \<times> store \<Rightarrow> dlq_result \<times> store" where
  "drain_one broker d acc =
     (let (res, s) = acc; s1 = mark_replayed (dlt_id d) s in
      if dlt_task_name d \<notin> set replayable_pipeline_tasks
      then (res\<lparr>dq_skipped_unknown := Suc (dq_skipped_unknown res)\<rparr>, s1)
      else if dlt_lead_id d = None
      then (res\<lparr>dq_skipped_unknown := Suc (dq_skipped_unknown res)\<rparr>, s1)
      else if broker (dlt_id d)
      then (res\<lparr>dq_replayed := Suc (dq_replayed res)\<rparr>, dispatch (replay_call d) s1)
      else (res\<lparr>dq_failed_dispatch := Suc (dq_failed_dispatch res)\<rparr>, s1))"

definition drain_dead_letter_queue :: "(uuid \<Rightarrow> bool) \<Rightarrow> store \<Rightarrow> dlq_result \<times> store" where
  "drain_dead_letter_queue broker s =
     (let entries = dlq_batch s;
          (res, s') = fold (drain_one broker) entries
            (\<lparr>dq_replayed = 0, dq_skipped_unknown = 0, dq_failed_dispatch = 0, dq_inspected = 0\<rparr>, s)
      in (res\<lparr>dq_inspected := length entries\<rparr>, s'))"

section \<open>Properties of recording\<close>

lemma repeated_failures_tables:
  "tasks (on_repeated_failures base ty n d s) = tasks s
   \<and> runs (on_repeated_failures base ty n d s) = runs s
   \<and> dead_letters (on_repeated_failures base ty n d s) = dead_letters s
   \<and> now (on_repeated_failures base ty n d s) = now s"
proof -
  have "notif_frame s (on_repeated_failures base ty n d s)"
    unfolding on_repeated_failures_def
    by (rule emit_notif_frame) (simp add: lost_race_def has_dedup_key_def)
  then show ?thesis by (simp add: notif_frame_fields)
qed

lemma running_result:
  assumes "mark_task_running base tid m s = Inr s'"
  shows "(\<exists>t. get_task s' tid = Some t \<and> task_status t = ''running'')
    \<and> (dead_letters s' = dead_letters s \<or> dead_letters s' = dead_letters base) \<and> now s' = now s"
proof -
  obtain s1 where q: "queue_task_run base tid m s = Inr s1"
    using assms by (auto simp: mark_task_running_def split: sum.splits)
  have "\<exists>t. get_task s1 tid = Some t"
    using queue_cases [where base = base and tid = tid and m = m and s = s] by (auto simp: q)
  then obtain t where "get_task s1 tid = Some t" by blast
  then have "get_task (upd_task tid (set_running (now s1)) s1) tid
      = Some (stamp_task s1 (set_running (now s1)) t)"
    by (simp add: task_tbl.get_upd_same)
  moreover have "dead_letters (update_run_if rid u x) = dead_letters x" for rid u x
    by (simp add: update_run_if_def update_pipeline_run_def upd_run_def split: option.splits)
  moreover have "(dead_letters s1 = dead_letters s \<or> dead_letters s1 = dead_letters base) \<and> now s1 = now s"
    using q by (auto simp: queue_task_run_def requeue_after_rollback_def Let_def upd_task_def
        add_task_def rollback_to_def split: option.splits if_splits)
  ultimately show ?thesis
    using assms q
    by (auto simp: mark_task_running_def Let_def) (simp_all add: set_running_def upd_task_def)
qed


lemma failed_result:
  assumes "get_task s tid = Some t"
  shows "\<exists>t'. get_task (mark_task_failed tid e (Some st) rid s) tid = Some t'
      \<and> task_status t' = ''failed'' \<and> task_error t' = Some e \<and> task_finished_at t' = Some (now s)"
    "\<exists>t'. get_task (mark_task_retrying tid e (Some st) rid s) tid = Some t'
      \<and> task_status t' = ''retrying'' \<and> task_error t' = Some e"
  using assms
  by (simp_all add: mark_task_failed_def mark_task_retrying_def task_tbl.get_upd_same set_failed_def
      set_retrying_def)

lemma dead_letters_run [simp]: "dead_letters (update_run_if rid u s) = dead_letters s"
  by (simp add: update_run_if_def update_pipeline_run_def upd_run_def split: option.splits)

lemma dead_letters_marks [simp]:
  "dead_letters (mark_task_failed tid e st rid s) = dead_letters s"
  "dead_letters (mark_task_retrying tid e st rid s) = dead_letters s"
  by (simp_all add: mark_task_failed_def mark_task_retrying_def upd_task_def split: option.splits)

lemma get_task_tables: "tasks s' = tasks s \<Longrightarrow> get_task s' = get_task s"
  by (simp add: get_task_def fun_eq_iff)

text \<open>
  C9: A failure that is recorded is recorded completely.  While retries are left the task is
  \<open>retrying\<close> and no dead letter is written; when they are used up the task is \<open>failed\<close> with the
  error and a finishing time, and one dead letter keeps its name, lead, run, step and error.  In
  both cases the error is on the task's row.
\<close>

theorem failure_recorded:
  "case track_failure base f s of
     Inl e \<Rightarrow> mark_task_running base (fl_task_id f) (failure_meta f) s = Inl e
   | Inr s' \<Rightarrow> (\<exists>t ds. get_task s' (fl_task_id f) = Some t \<and> task_error t = Some (fl_error f)
       \<and> ds \<in> {dead_letters s, dead_letters base}
       \<and> (if fl_max_retries f \<le> fl_retries f
          then task_status t = ''failed'' \<and> task_finished_at t = Some (now s)
            \<and> (\<exists>d. dead_letters s' = ds @ [d] \<and> dlt_task_name d = fl_task_name f
                 \<and> dlt_lead_id d = fl_lead_id f \<and> dlt_pipeline_run_id d = fl_pipeline_run_id f
                 \<and> dlt_step d = Some (fl_current_step f) \<and> dlt_replayed_at d = None)
          else task_status t = ''retrying'' \<and> dead_letters s' = ds))"
proof (cases "mark_task_running base (fl_task_id f) (failure_meta f) s")
  case (Inl e)
  then show ?thesis by (simp add: track_failure_def)
next
  case (Inr s1)
  note run = running_result [OF Inr]
  then obtain t1 where t1: "get_task s1 (fl_task_id f) = Some t1" by blast
  show ?thesis
  proof (cases "fl_max_retries f \<le> fl_retries f")
    case False
    with t1 run failed_result(2) [OF t1, of "fl_error f" "fl_current_step f" "fl_pipeline_run_id f"]
    show ?thesis by (simp add: track_failure_def Inr) metis
  next
    case True
    let ?s2 = "mark_task_failed (fl_task_id f) (fl_error f) (Some (fl_current_step f))
                 (fl_pipeline_run_id f) s1"
    let ?d = "''Task exhausted all retries. Step: '' @ fl_current_step f
                        @ ''. Error: '' @ take 200 (fl_error f)"
    let ?s3 = "on_repeated_failures base (fl_task_name f) (fl_max_retries f + 1) ?d ?s2"
    let ?s4 = "add_dead_letter (new_dead_letter f ?s3) (tick_uuid ?s3)"
    have tf: "track_failure base f s = Inr ?s4"
      using True by (simp add: track_failure_def Inr Let_def)
    note rf = repeated_failures_tables [of base "fl_task_name f" "fl_max_retries f + 1" ?d ?s2]
    have "get_task ?s4 = get_task ?s2"
      using rf by (intro get_task_tables) (simp add: add_dead_letter_def tick_uuid_def)
    moreover have "dead_letters ?s4 = dead_letters s1 @ [new_dead_letter f ?s3]"
      using rf by (simp add: add_dead_letter_def tick_uuid_def)
    ultimately show ?thesis
      using True run failed_result(1) [OF t1, of "fl_error f" "fl_current_step f" "fl_pipeline_run_id f"]
      unfolding tf by (auto simp: new_dead_letter_def)
  qed
qed

section \<open>Properties of the drain\<close>

definition mark_ids :: "datetime \<Rightarrow> uuid set \<Rightarrow> dead_letter_task list \<Rightarrow> dead_letter_task list" where
  "mark_ids t ks ds = map (\<lambda>d. if dlt_id d \<in> ks then d\<lparr>dlt_replayed_at := Some t\<rparr> else d) ds"

lemma mark_ids_insert:
  "tbl_update dlt_id k (\<lambda>d. d\<lparr>dlt_replayed_at := Some t\<rparr>) (mark_ids t ks ds) = mark_ids t (insert k ks) ds"
  by (simp add: mark_ids_def tbl_update_def)

definition sent :: "(uuid \<Rightarrow> bool) \<Rightarrow> dead_letter_task list \<Rightarrow> dead_letter_task list" where
  "sent broker ds = filter (\<lambda>d. replayable d \<and> broker (dlt_id d)) ds"

definition dlq_total :: "dlq_result \<Rightarrow> nat" where
  "dlq_total r = dq_replayed r + dq_skipped_unknown r + dq_failed_dispatch r"

lemma drain_one_effect:
  assumes "drain_one broker d (res, s) = (res', s')"
  shows "dead_letters s' = tbl_update dlt_id (dlt_id d) (\<lambda>d. d\<lparr>dlt_replayed_at := Some (now s)\<rparr>) (dead_letters s)
    \<and> dispatched s' = dispatched s @ map replay_call (sent broker [d]) \<and> now s' = now s
    \<and> dlq_total res' = Suc (dlq_total res)
    \<and> dq_replayed res' = dq_replayed res + length (sent broker [d])"
  using assms
  by (auto simp: drain_one_def Let_def mark_replayed_def dispatch_def sent_def replayable_def
      dlq_total_def split: if_splits)

lemma drain_fold:
  assumes "fold (drain_one broker) es (res, s) = (res', s')"
    and "dead_letters s = mark_ids (now s) ks ds"
  shows "dead_letters s' = mark_ids (now s) (ks \<union> dlt_id ` set es) ds
    \<and> dispatched s' = dispatched s @ map replay_call (sent broker es) \<and> now s' = now s
    \<and> dlq_total res' = dlq_total res + length es
    \<and> dq_replayed res' = dq_replayed res + length (sent broker es)"
  using assms
proof (induction es arbitrary: res s ks)
  case (Cons e es)
  obtain r1 s1 where one: "drain_one broker e (res, s) = (r1, s1)" by fastforce
  note eff = drain_one_effect [OF one]
  have "dead_letters s1 = mark_ids (now s1) (insert (dlt_id e) ks) ds"
    using eff Cons.prems(2) by (simp add: mark_ids_insert)
  from Cons.IH [OF _ this, of r1] Cons.prems(1) one eff
  show ?case by (auto simp: sent_def insert_commute)
qed (simp add: sent_def)

lemma drain_effect:
  assumes "drain_dead_letter_queue broker s = (res, s')"
  shows "dead_letters s' = mark_ids (now s) (dlt_id ` set (dlq_batch s)) (dead_letters s)
    \<and> dispatched s' = dispatched s @ map replay_call (sent broker (dlq_batch s)) \<and> now s' = now s
    \<and> dlq_total res = length (dlq_batch s) \<and> dq_inspected res = length (dlq_batch s)
    \<and> dq_replayed res = length (sent broker (dlq_batch s))"
proof -
  let ?z = "\<lparr>dq_replayed = 0, dq_skipped_unknown = 0, dq_failed_dispatch = 0, dq_inspected = 0\<rparr>"
  obtain r1 s1 where f: "fold (drain_one broker) (dlq_batch s) (?z, s) = (r1, s1)" by fastforce
  have "dead_letters s = mark_ids (now s) {} (dead_letters s)" by (simp add: mark_ids_def)
  from drain_fold [OF f this] f assms show ?thesis
    by (auto simp: drain_dead_letter_queue_def Let_def dlq_total_def)
qed

lemma mark_ids_unmarked:
  "e \<in> set (mark_ids t ks ds) \<Longrightarrow> dlt_replayed_at e = None \<Longrightarrow> dlt_id e \<notin> ks"
proof -
  assume "e \<in> set (mark_ids t ks ds)" and n: "dlt_replayed_at e = None"
  then obtain d where "e = (if dlt_id d \<in> ks then d\<lparr>dlt_replayed_at := Some t\<rparr> else d)"
    unfolding mark_ids_def set_map image_iff by blast
  with n show ?thesis by (cases "dlt_id d \<in> ks") simp_all
qed

lemma drain_not_again:
  assumes "drain_dead_letter_queue broker s = (res, s')"
  shows "dlt_id ` set (dlq_batch s) \<inter> dlt_id ` set (dlq_batch s') = {}"
proof -
  have "dlt_id e \<notin> dlt_id ` set (dlq_batch s)" if "e \<in> set (dlq_batch s')" for e
  proof -
    have e: "e \<in> set (dead_letters s')" "dlt_replayed_at e = None"
      using that by (auto simp: dlq_batch_def dlq_pending_def dest: in_set_takeD)
    from e(1) have "e \<in> set (mark_ids (now s) (dlt_id ` set (dlq_batch s)) (dead_letters s))"
      by (simp only: conjunct1 [OF drain_effect [OF assms]])
    then show ?thesis using e(2) by (rule mark_ids_unmarked)
  qed
  then show ?thesis unfolding disjoint_iff by (metis imageE)
qed


lemma tracked_not_replayable: "set tracked_task_names \<inter> set replayable_pipeline_tasks = {}"
  by (simp add: tracked_task_names_def replayable_pipeline_tasks_def)

text \<open>
  The drain cannot replay anything the workers leave behind: they record short task names and
  the drain knows dotted ones only.  Over dead letters of the workers it sends no message, counts
  every entry as unknown and marks it, so that it is lost for good.
\<close>

theorem dlq_replays_nothing:
  assumes "\<forall>d \<in> set (dead_letters s). dlt_task_name d \<in> set tracked_task_names"
    and "drain_dead_letter_queue broker s = (res, s')"
  shows "dq_replayed res = 0 \<and> dq_skipped_unknown res = dq_inspected res
    \<and> dispatched s' = dispatched s \<and> dlt_id ` set (dlq_batch s) \<inter> dlt_id ` set (dlq_batch s') = {}"
proof -
  let ?z = "\<lparr>dq_replayed = 0, dq_skipped_unknown = 0, dq_failed_dispatch = 0, dq_inspected = 0\<rparr>"
  have batch: "\<forall>d \<in> set (dlq_batch s). dlt_task_name d \<notin> set replayable_pipeline_tasks"
    using assms(1) tracked_not_replayable by (auto simp: dlq_batch_def dest!: in_set_takeD)
  have "sent broker (dlq_batch s) = []"
    using batch by (auto simp: sent_def replayable_def filter_empty_conv)
  moreover have "dq_failed_dispatch (fst (fold (drain_one broker) es (r, x))) = dq_failed_dispatch r"
    if "\<forall>d \<in> set es. dlt_task_name d \<notin> set replayable_pipeline_tasks" for es r x
    using that by (induction es arbitrary: r x) (simp_all add: drain_one_def Let_def)
  from this [OF batch, of ?z s] have "dq_failed_dispatch res = 0"
    using assms(2) by (auto simp: drain_dead_letter_queue_def Let_def split: prod.splits)
  ultimately show ?thesis
    using drain_effect [OF assms(2)] drain_not_again [OF assms(2)] by (simp add: dlq_total_def)
qed

definition demo_failure_record :: failure where
  "demo_failure_record = \<lparr>fl_task_name = ''task_score_lead'', fl_task_id = ''t1'', fl_lead_id = None,
     fl_pipeline_run_id = None, fl_correlation_id = None, fl_current_step = ''scoring'',
     fl_queue = ''default'', fl_error = ''boom'', fl_retries = 3, fl_max_retries = 3\<rparr>"

definition demo_dlq_store :: store where
  "demo_dlq_store = add_dead_letter (new_dead_letter demo_failure_record (empty_store 0)) (empty_store 0)"

theorem dlq_replays_nothing_witness:
  "dlq_batch demo_dlq_store \<noteq> []
   \<and> dq_replayed (fst (drain_dead_letter_queue (\<lambda>k. True) demo_dlq_store)) = 0"
proof
  show "dlq_batch demo_dlq_store \<noteq> []"
    by (simp add: demo_dlq_store_def add_dead_letter_def new_dead_letter_def demo_failure_record_def
        empty_store_def dlq_batch_def dlq_pending_def dlq_replay_batch_limit_def
        dlq_replay_window_hours_def time_simps)
  have "\<forall>d \<in> set (dead_letters demo_dlq_store). dlt_task_name d \<in> set tracked_task_names"
    by (simp add: demo_dlq_store_def add_dead_letter_def new_dead_letter_def demo_failure_record_def
        empty_store_def tracked_task_names_def)
  from dlq_replays_nothing [OF this, of "\<lambda>k. True"]
  show "dq_replayed (fst (drain_dead_letter_queue (\<lambda>k. True) demo_dlq_store)) = 0"
    by (metis prod.collapse)
qed

end
