(* ===== verification/Leads.thy ===== *)
theory Leads
  imports Lead_Events "HOL-Library.Multiset"
begin

text \<open>
  The life of a lead outside the pipeline: creation with deduplication and the suppression
  check, paged lists, edits and status changes
  (\<open>app/services/leads/lead_service.py\<close>), the snapshot frozen when a lead is won or lost
  (\<open>app/services/pipeline/outcome_tracking_service.py\<close>) and the suppression list
  (\<open>app/services/suppression/suppression_service.py\<close>).
\<close>

section \<open>Deduplication\<close>

definition dedup_parts :: "string \<Rightarrow> string option \<Rightarrow> string option \<Rightarrow> string list" where
  "dedup_parts business_name city website_url =
     [lower (strip business_name),
      lower (strip (text_or_empty city)),
      rstrip_where (\<lambda>c. c = CHR ''/'') (lower (strip (text_or_empty website_url)))]"

text \<open>\<open>_compute_dedup_hash\<close>; \<open>digest\<close> is the hexadecimal SHA-256 of a text.\<close>

definition compute_dedup_hash ::
    "(string \<Rightarrow> string) \<Rightarrow> string \<Rightarrow> string option \<Rightarrow> string option \<Rightarrow> string" where
  "compute_dedup_hash digest business_name city website_url =
     digest (join ''|'' (dedup_parts business_name city website_url))"

section \<open>Suppression\<close>

definition is_suppressed :: "store \<Rightarrow> string option \<Rightarrow> string option \<Rightarrow> bool" where
  "is_suppressed s email domain =
     (\<exists>e \<in> set (suppressions s).
        truthy email \<and> supp_email e = map_option lower email
      \<or> truthy domain \<and> supp_domain e = map_option lower domain)"

record suppression_create =
  sc_email :: "string option"
  sc_domain :: "string option"
  sc_phone :: "string option"
  sc_reason :: "string option"

text \<open>\<open>data.email.lower() if data.email else None\<close>.\<close>

definition lower_or_none :: "string option \<Rightarrow> string option" where
  "lower_or_none v = (if truthy v then map_option lower v else None)"

definition new_suppression :: "suppression_create \<Rightarrow> store \<Rightarrow> suppression_entry" where
  "new_suppression d s = \<lparr>supp_id = next_uuid s, supp_email = lower_or_none (sc_email d),
     supp_domain = lower_or_none (sc_domain d), supp_phone = sc_phone d,
     supp_reason = sc_reason d, supp_added_at = now s\<rparr>"

text \<open>The unique columns of the list: e-mail, domain and phone, where they are set.\<close>

definition suppression_clash :: "suppression_entry \<Rightarrow> store \<Rightarrow> bool" where
  "suppression_clash n s = (\<exists>e \<in> set (suppressions s).
      supp_email n \<noteq> None \<and> supp_email e = supp_email n
    \<or> supp_domain n \<noteq> None \<and> supp_domain e = supp_domain n
    \<or> supp_phone n \<noteq> None \<and> supp_phone e = supp_phone n)"

definition suppress_matching :: "string \<Rightarrow> store \<Rightarrow> store" where
  "suppress_matching email s = s\<lparr>leads :=
     tbl_where (\<lambda>l. lead_email l = Some (lower email) \<and> lead_status l \<noteq> SUPPRESSED)
       (stamp_lead s (\<lambda>l. l\<lparr>lead_status := SUPPRESSED\<rparr>)) (leads s)\<rparr>"

definition add_to_suppression_list ::
    "suppression_create \<Rightarrow> store \<Rightarrow> db_error + suppression_entry \<times> store" where
  "add_to_suppression_list d s =
     (let n = new_suppression d s;
          s1 = tick_uuid (s\<lparr>suppressions := suppressions s @ [n]\<rparr>);
          s2 = (if truthy (sc_email d) then suppress_matching (text_or_empty (sc_email d)) s1 else s1)
      in if suppression_clash n s then Inl IntegrityError else Inr (n, s2))"

definition list_suppression :: "nat \<Rightarrow> nat \<Rightarrow> store \<Rightarrow> suppression_entry list" where
  "list_suppression page page_size s =
     take page_size (drop ((page - 1) * page_size)
       (sort_key (\<lambda>e. - supp_added_at e) (suppressions s)))"

definition remove_from_suppression :: "uuid \<Rightarrow> store \<Rightarrow> bool \<times> store" where
  "remove_from_suppression k s = (case tbl_get supp_id (suppressions s) k of
     None \<Rightarrow> (False, s)
   | Some e \<Rightarrow> (True, s\<lparr>suppressions := tbl_delete supp_id k (suppressions s)\<rparr>))"

section \<open>Creating leads\<close>

text \<open>\<open>LeadCreate\<close>, already validated; a field that is not set is \<open>None\<close>.\<close>

record lead_create =
  lc_business_name :: string
  lc_industry :: "string option"
  lc_city :: "string option"
  lc_zone :: "string option"
  lc_website_url :: "string option"
  lc_instagram_url :: "string option"
  lc_email :: "string option"
  lc_phone :: "string option"
  lc_source_id :: "uuid option"
  lc_address :: "string option"
  lc_google_maps_url :: "string option"
  lc_rating :: "pyfloat option"
  lc_review_count :: "int option"
  lc_business_status :: "string option"
  lc_opening_hours :: "string option"
  lc_latitude :: "pyfloat option"
  lc_longitude :: "pyfloat option"

definition new_lead :: "lead_create \<Rightarrow> string \<Rightarrow> store \<Rightarrow> lead" where
  "new_lead d h s = (blank_lead (next_uuid s) (lc_business_name d) (now s))
     \<lparr>lead_industry := lc_industry d, lead_city := lc_city d, lead_zone := lc_zone d,
      lead_website_url := lc_website_url d, lead_instagram_url := lc_instagram_url d,
      lead_email := lc_email d, lead_phone := lc_phone d, lead_source_id := lc_source_id d,
      lead_address := lc_address d, lead_google_maps_url := lc_google_maps_url d,
      lead_rating := lc_rating d, lead_review_count := lc_review_count d,
      lead_business_status := lc_business_status d, lead_opening_hours := lc_opening_hours d,
      lead_latitude := lc_latitude d, lead_longitude := lc_longitude d,
      lead_dedup_hash := Some h, lead_status := NEW\<rparr>"

text \<open>
  \<open>create_lead\<close>: \<open>ValueError\<close> for a suppressed e-mail, the existing lead for a known
  fingerprint, a new row otherwise.
\<close>

definition create_lead :: "(string \<Rightarrow> string) \<Rightarrow> lead_create \<Rightarrow> store \<Rightarrow> string + lead \<times> store" where
  "create_lead digest d s =
     (if truthy (lc_email d) \<and> is_suppressed s (lc_email d) None
      then Inl (''Email '' @ text_or_empty (lc_email d) @ '' is in the suppression list'')
      else
        let h = compute_dedup_hash digest (lc_business_name d) (lc_city d) (lc_website_url d) in
        case find (\<lambda>l. lead_dedup_hash l = Some h) (leads s) of
          Some l \<Rightarrow> Inr (l, s)
        | None \<Rightarrow> let l = new_lead d h s in Inr (l, add_lead l (tick_uuid s)))"

section \<open>Lists\<close>

text \<open>\<open>order_by(score.desc().nulls_last(), created_at.desc())\<close>.\<close>

definition lead_order :: "lead list \<Rightarrow> lead list" where
  "lead_order ls =
     (let by_age = sort_key (\<lambda>l. - lead_created_at l) ls;
          scored = filter (\<lambda>l. lead_score l \<noteq> None) by_age;
          unscored = filter (\<lambda>l. lead_score l = None) by_age
      in sort_key (\<lambda>l. - (case lead_score l of Some x \<Rightarrow> x | None \<Rightarrow> 0)) scored @ unscored)"

definition lead_filter :: "LeadStatus option \<Rightarrow> pyfloat option \<Rightarrow> lead \<Rightarrow> bool" where
  "lead_filter status min_score l =
     ((status = None \<or> status = Some (lead_status l))
      \<and> (case min_score of None \<Rightarrow> True
         | Some m \<Rightarrow> (case lead_score l of None \<Rightarrow> False | Some x \<Rightarrow> m \<le> x)))"

definition list_leads ::
    "nat \<Rightarrow> nat \<Rightarrow> LeadStatus option \<Rightarrow> pyfloat option \<Rightarrow> store \<Rightarrow> lead list \<times> nat" where
  "list_leads page page_size status min_score s =
     (let rows = filter (lead_filter status min_score) (leads s)
      in (take page_size (drop ((page - 1) * page_size) (lead_order rows)), length rows))"

definition query_leads_for_export ::
    "LeadStatus option \<Rightarrow> string option \<Rightarrow> store \<Rightarrow> lead list" where
  "query_leads_for_export status quality s =
     sort_key (\<lambda>l. - lead_created_at l)
       (filter (\<lambda>l. (status = None \<or> status = Some (lead_status l))
                  \<and> (\<not> truthy quality \<or> lead_llm_quality l = quality)) (leads s))"

section \<open>Edits\<close>

text \<open>\<open>LeadUpdate\<close>: a field is \<open>None\<close> when unset and \<open>Some v\<close> when the request gives \<open>v\<close>.\<close>

record lead_update =
  lu_business_name :: "string option option"
  lu_industry :: "string option option"
  lu_city :: "string option option"
  lu_zone :: "string option option"
  lu_website_url :: "string option option"
  lu_instagram_url :: "string option option"
  lu_email :: "string option option"
  lu_phone :: "string option option"

definition apply_lead_update :: "lead_update \<Rightarrow> lead \<Rightarrow> lead" where
  "apply_lead_update u l = l\<lparr>
     lead_business_name := set_if (Option.bind (lu_business_name u) (\<lambda>v. v)) (lead_business_name l),
     lead_industry := set_if (lu_industry u) (lead_industry l),
     lead_city := set_if (lu_city u) (lead_city l),
     lead_zone := set_if (lu_zone u) (lead_zone l),
     lead_website_url := set_if (lu_website_url u) (lead_website_url l),
     lead_instagram_url := set_if (lu_instagram_url u) (lead_instagram_url l),
     lead_email := set_if (lu_email u) (lead_email l),
     lead_phone := set_if (lu_phone u) (lead_phone l)\<rparr>"

text \<open>The name column is not nullable, so assigning \<open>None\<close> to it fails at the flush.\<close>

definition update_lead :: "uuid \<Rightarrow> lead_update \<Rightarrow> store \<Rightarrow> db_error + lead option \<times> store" where
  "update_lead k u s = (case get_lead s k of
     None \<Rightarrow> Inr (None, s)
   | Some l \<Rightarrow> if lu_business_name u = Some None then Inl IntegrityError
              else let s' = upd_lead k (apply_lead_update u) s in Inr (get_lead s' k, s'))"

section \<open>Outcome snapshots\<close>

text \<open>
  \<open>capture_outcome_snapshot\<close>.  The draft lookup sorts by \<open>OutreachDraft.created_at\<close>, an
  attribute the class does not have; the \<open>AttributeError\<close> is caught, so the channel of the
  snapshot is always \<open>None\<close>.
\<close>

definition new_snapshot :: "uuid \<Rightarrow> string \<Rightarrow> lead \<Rightarrow> store \<Rightarrow> outcome_snapshot" where
  "new_snapshot k outcome l s =
     (let latest_run = first_max run_created_at (filter (\<lambda>r. run_lead_id r = k) (runs s)) in
      \<lparr>snap_id = next_uuid s, snap_lead_id = k, snap_outcome = outcome,
       snap_lead_score = lead_score l, snap_lead_quality = lead_llm_quality l,
       snap_industry = lead_industry l, snap_city = lead_city l,
       snap_signals_json = Some (map sig_signal_type (signals_of s k)),
       snap_pipeline_context_json = Option.bind latest_run run_step_context_json,
       snap_draft_channel = None, snap_reviewer_verdict = None,
       snap_corrections_count =
         Some (int (length (filter (\<lambda>c. corr_lead_id c = k) (corrections s)))),
       snap_created_at = now s\<rparr>)"

definition capture_outcome_snapshot ::
    "uuid \<Rightarrow> string \<Rightarrow> store \<Rightarrow> outcome_snapshot option \<times> store" where
  "capture_outcome_snapshot k outcome s =
     (if outcome \<notin> {''won'', ''lost''} then (None, s)
      else (case find (\<lambda>n. snap_lead_id n = k) (snapshots s) of
        Some n \<Rightarrow> (Some n, s)
      | None \<Rightarrow> (case get_lead s k of
          None \<Rightarrow> (None, s)
        | Some l \<Rightarrow> let n = new_snapshot k outcome l s in
            (Some n, tick_uuid (s\<lparr>snapshots := snapshots s @ [n]\<rparr>)))))"

section \<open>Status changes\<close>

fun status_log_action :: "LeadStatus \<Rightarrow> LogAction option" where
  "status_log_action APPROVED = Some L_APPROVED"
| "status_log_action CONTACTED = Some L_SENT"
| "status_log_action OPENED = Some L_OPENED"
| "status_log_action REPLIED = Some L_REPLIED"
| "status_log_action MEETING = Some L_MEETING"
| "status_log_action WON = Some L_WON"
| "status_log_action LOST = Some L_LOST"
| "status_log_action _ = None"

definition add_log ::
    "uuid \<Rightarrow> uuid option \<Rightarrow> LogAction \<Rightarrow> string \<Rightarrow> string option \<Rightarrow> store \<Rightarrow> store" where
  "add_log k draft action actor detail s = tick_uuid (s\<lparr>ologs := ologs s @
     [\<lparr>olog_id = next_uuid s, olog_lead_id = k, olog_draft_id = draft, olog_action = action,
       olog_actor = actor, olog_detail = detail, olog_created_at = now s\<rparr>]\<rparr>)"

definition update_lead_status :: "uuid \<Rightarrow> LeadStatus \<Rightarrow> store \<Rightarrow> lead option \<times> store" where
  "update_lead_status k status s = (case get_lead s k of
     None \<Rightarrow> (None, s)
   | Some l \<Rightarrow>
       let previous = lead_status l;
           s1 = upd_lead k (\<lambda>l. l\<lparr>lead_status := status\<rparr>) s;
           s2 = (if previous \<noteq> status
                 then emit_lead_event k ''status_changed'' (Some (lead_status_value previous))
                        (Some (lead_status_value status)) None ''user'' s1
                 else s1);
           s3 = (case status_log_action status of
                   Some a \<Rightarrow> if previous \<noteq> status
                     then add_log k None a ''user''
                       (Some (''Lead status updated from '' @ lead_status_value previous
                              @ '' to '' @ lead_status_value status)) s2
                     else s2
                 | None \<Rightarrow> s2);
           s4 = (if status \<in> {WON, LOST}
                 then snd (capture_outcome_snapshot k (lead_status_value status) s3) else s3)
       in (get_lead s4 k, s4))"

section \<open>Fingerprints\<close>

lemma append_pipe_eq:
  "c \<notin> set a \<Longrightarrow> c \<notin> set a' \<Longrightarrow> a @ c # b = a' @ c # b' \<longleftrightarrow> a = a' \<and> b = b'"
proof (induction a arbitrary: a')
  case Nil
  then show ?case by (cases a') auto
next
  case (Cons x a)
  then show ?case by (cases a') auto
qed

lemma set_rstrip_where: "set (rstrip_where p s) \<subseteq> set s"
  by (auto simp: rstrip_where_def dest: set_dropWhileD)

lemma set_strip: "set (strip s) \<subseteq> set s"
  using set_rstrip_where [of py_space "lstrip s"]
  by (auto simp: strip_def lstrip_def dest: set_dropWhileD)

lemma lower_no_pipe: "CHR ''|'' \<notin> set s \<Longrightarrow> CHR ''|'' \<notin> set (lower s)"
proof -
  have "lower_char c = CHR ''|'' \<Longrightarrow> c = CHR ''|''" for c
  proof -
    assume "lower_char c = CHR ''|''"
    then have "ord_of (lower_char c) = 124" by (simp add: ord_of_def)
    then have "ord_of c = 124" by (auto simp: ord_of_lower upper_code_def split: if_splits)
    then have "ord_of c = ord_of (CHR ''|'')" by (simp add: ord_of_def)
    then show ?thesis by (simp only: ord_of_eq_iff)
  qed
  moreover assume "CHR ''|'' \<notin> set s"
  ultimately show ?thesis by (fastforce simp: lower_def)
qed

definition no_pipe :: "string option \<Rightarrow> bool" where
  "no_pipe v = (CHR ''|'' \<notin> set (text_or_empty v))"

lemma dedup_parts_no_pipe:
  assumes "no_pipe (Some n)" "no_pipe c" "no_pipe w"
  shows "p \<in> set (dedup_parts n c w) \<Longrightarrow> CHR ''|'' \<notin> set p"
  using assms set_strip [of n] set_strip [of "text_or_empty c"] set_strip [of "text_or_empty w"]
    set_rstrip_where [of "\<lambda>c. c = CHR ''/''" "lower (strip (text_or_empty w))"]
    lower_no_pipe [of "strip n"] lower_no_pipe [of "strip (text_or_empty c)"]
    lower_no_pipe [of "strip (text_or_empty w)"]
  by (auto simp: dedup_parts_def no_pipe_def)

lemma join_parts_eq:
  assumes "no_pipe (Some n)" "no_pipe c" "no_pipe w" "no_pipe (Some n')" "no_pipe c'" "no_pipe w'"
  shows "join ''|'' (dedup_parts n c w) = join ''|'' (dedup_parts n' c' w')
    \<longleftrightarrow> dedup_parts n c w = dedup_parts n' c' w'"
  using dedup_parts_no_pipe [OF assms(1-3)] dedup_parts_no_pipe [OF assms(4-6)]
  by (auto simp: dedup_parts_def append_pipe_eq)



section \<open>Creation\<close>

lemma create_lead_cases:
  assumes "create_lead digest d s = Inr (l, s')"
  shows "(find (\<lambda>l. lead_dedup_hash l = Some (compute_dedup_hash digest (lc_business_name d)
            (lc_city d) (lc_website_url d))) (leads s) = Some l \<and> s' = s)
    \<or> (find (\<lambda>l. lead_dedup_hash l = Some (compute_dedup_hash digest (lc_business_name d)
            (lc_city d) (lc_website_url d))) (leads s) = None
       \<and> l = new_lead d (compute_dedup_hash digest (lc_business_name d) (lc_city d) (lc_website_url d)) s
       \<and> s' = add_lead l (tick_uuid s))"
  using assms by (auto simp: create_lead_def Let_def split: if_splits option.splits)

lemma leads_add: "leads (add_lead l (tick_uuid s)) = leads s @ [l]"
  by (simp add: add_lead_def tick_uuid_def)

lemma suppressed_add: "is_suppressed (add_lead l (tick_uuid s)) e d = is_suppressed s e d"
  by (simp add: is_suppressed_def add_lead_def tick_uuid_def)

lemma new_lead_hash [simp]: "lead_dedup_hash (new_lead d h s) = Some h"
  by (simp add: new_lead_def)

lemma find_append: "find p (xs @ ys) = (case find p xs of None \<Rightarrow> find p ys | Some x \<Rightarrow> Some x)"
  by (induction xs) auto

definition hashes :: "store \<Rightarrow> string option list" where
  "hashes s = filter (\<lambda>h. h \<noteq> None) (map lead_dedup_hash (leads s))"

lemma create_lead_hashes:
  assumes "create_lead digest d s = Inr (l, s')" and "distinct (hashes s)"
  shows "distinct (hashes s')"
  using create_lead_cases [OF assms(1)] assms(2)
  by (auto simp: hashes_def leads_add find_None_iff) metis

lemma create_lead_again:
  assumes "create_lead digest d s = Inr (l, s')"
  shows "create_lead digest d s' = Inr (l, s')"
proof -
  from assms have ns: "\<not> (truthy (lc_email d) \<and> is_suppressed s (lc_email d) None)"
    by (auto simp: create_lead_def)
  from create_lead_cases [OF assms] show ?thesis
  proof
    assume "find (\<lambda>l. lead_dedup_hash l = Some (compute_dedup_hash digest (lc_business_name d)
            (lc_city d) (lc_website_url d))) (leads s) = Some l \<and> s' = s"
    with assms show ?thesis by simp
  qed (use ns in \<open>auto simp: create_lead_def leads_add suppressed_add find_append Let_def\<close>)
qed

text \<open>
  C7: Creating a lead is idempotent and safe: it is refused for a suppressed address only; else the
  lead handed back carries the fingerprint of the data and is in the database, asking again for
  the same data gives the same lead and changes nothing, no lead that was there is touched,
  and fingerprints stay unique.
\<close>

theorem create_lead_idempotent:
  "case create_lead digest d s of
     Inl e \<Rightarrow> truthy (lc_email d) \<and> is_suppressed s (lc_email d) None
   | Inr (l, s') \<Rightarrow>
       lead_dedup_hash l = Some (compute_dedup_hash digest (lc_business_name d) (lc_city d)
         (lc_website_url d))
       \<and> l \<in> set (leads s') \<and> take (length (leads s)) (leads s') = leads s
       \<and> create_lead digest d s' = Inr (l, s')
       \<and> (distinct (hashes s) \<longrightarrow> distinct (hashes s'))"
proof (cases "create_lead digest d s")
  case (Inl e)
  then show ?thesis by (auto simp: create_lead_def Let_def split: if_splits option.splits)
next
  case (Inr r)
  obtain l s' where r: "r = (l, s')" by (cases r)
  with Inr have c: "create_lead digest d s = Inr (l, s')" by simp
  from create_lead_cases [OF c] create_lead_again [OF c] create_lead_hashes [OF c]
  show ?thesis
    unfolding Inr r
    by (auto simp: leads_add find_Some_iff)
qed

definition demo_create :: "string \<Rightarrow> string option \<Rightarrow> lead_create" where
  "demo_create name email = \<lparr>lc_business_name = name, lc_industry = None, lc_city = None,
     lc_zone = None, lc_website_url = None, lc_instagram_url = None, lc_email = email,
     lc_phone = None, lc_source_id = None, lc_address = None, lc_google_maps_url = None,
     lc_rating = None, lc_review_count = None, lc_business_status = None,
     lc_opening_hours = None, lc_latitude = None, lc_longitude = None\<rparr>"

theorem create_lead_idempotent_witness:
  "\<exists>l s'. create_lead id (demo_create ''Bar'' None) (empty_store 0) = Inr (l, s')
     \<and> distinct (hashes s') \<and> leads s' = [l]"
proof -
  have "\<exists>l s'. create_lead id (demo_create ''Bar'' None) (empty_store 0) = Inr (l, s') \<and> leads s' = [l]"
    by (simp add: create_lead_def demo_create_def empty_store_def add_lead_def tick_uuid_def Let_def)
  then obtain l s' where r: "create_lead id (demo_create ''Bar'' None) (empty_store 0) = Inr (l, s')"
    "leads s' = [l]" by blast
  moreover have "distinct (hashes (empty_store 0))" by (simp add: hashes_def empty_store_def)
  ultimately show ?thesis
    using create_lead_idempotent [where digest = id and d = "demo_create ''Bar'' None"
        and s = "empty_store 0"] by auto
qed


section \<open>Status changes\<close>

lemma capture_frame:
  "leads (snd (capture_outcome_snapshot k o' s)) = leads s"
  "lead_events (snd (capture_outcome_snapshot k o' s)) = lead_events s"
  "ologs (snd (capture_outcome_snapshot k o' s)) = ologs s"
  "suppressions (snd (capture_outcome_snapshot k o' s)) = suppressions s"
  by (simp_all add: capture_outcome_snapshot_def Let_def tick_uuid_def split: option.splits)

lemma add_log_frame [simp]:
  "leads (add_log k d a w t s) = leads s" "snapshots (add_log k d a w t s) = snapshots s"
  "lead_events (add_log k d a w t s) = lead_events s"
  "suppressions (add_log k d a w t s) = suppressions s"
  by (simp_all add: add_log_def tick_uuid_def)

lemma emit_event_suppressions [simp]: "suppressions (emit_lead_event k t a b p w s) = suppressions s"
  by (simp add: emit_lead_event_def tick_uuid_def)

lemma upd_lead_frame [simp]:
  "lead_events (upd_lead k f s) = lead_events s" "ologs (upd_lead k f s) = ologs s"
  "snapshots (upd_lead k f s) = snapshots s" "suppressions (upd_lead k f s) = suppressions s"
  by (simp_all add: upd_lead_def)

lemma capture_snapshots:
  "(\<exists>n. snapshots (snd (capture_outcome_snapshot k o' s)) = snapshots s @ [n] \<and> snap_lead_id n = k
      \<and> snap_outcome n = o' \<and> find (\<lambda>n. snap_lead_id n = k) (snapshots s) = None)
   \<or> snapshots (snd (capture_outcome_snapshot k o' s)) = snapshots s"
  by (auto simp: capture_outcome_snapshot_def Let_def tick_uuid_def new_snapshot_def
      split: option.splits)

lemma capture_present:
  assumes "o' \<in> {''won'', ''lost''}" and "get_lead s k = Some l"
  shows "k \<in> snap_lead_id ` set (snapshots (snd (capture_outcome_snapshot k o' s)))"
proof (cases "find (\<lambda>n. snap_lead_id n = k) (snapshots s)")
  case None
  with assms show ?thesis
    by (auto simp: capture_outcome_snapshot_def Let_def tick_uuid_def new_snapshot_def)
next
  case (Some n)
  then have "n \<in> set (snapshots s) \<and> snap_lead_id n = k" by (auto simp: find_Some_iff)
  with Some assms show ?thesis by (auto simp: capture_outcome_snapshot_def)
qed

text \<open>The state of \<open>update_lead_status\<close> before the snapshot.\<close>

definition status_written :: "uuid \<Rightarrow> LeadStatus \<Rightarrow> LeadStatus \<Rightarrow> store \<Rightarrow> store" where
  "status_written k previous status s =
     (let s1 = upd_lead k (\<lambda>l. l\<lparr>lead_status := status\<rparr>) s;
          s2 = (if previous \<noteq> status
                then emit_lead_event k ''status_changed'' (Some (lead_status_value previous))
                       (Some (lead_status_value status)) None ''user'' s1 else s1)
      in case status_log_action status of
           Some a \<Rightarrow> if previous \<noteq> status
             then add_log k None a ''user''
               (Some (''Lead status updated from '' @ lead_status_value previous
                      @ '' to '' @ lead_status_value status)) s2
             else s2
         | None \<Rightarrow> s2)"

lemma update_lead_status_eq:
  "get_lead s k = Some l \<Longrightarrow> update_lead_status k status s =
     (let s3 = status_written k (lead_status l) status s;
          s4 = (if status \<in> {WON, LOST}
                then snd (capture_outcome_snapshot k (lead_status_value status) s3) else s3)
      in (get_lead s4 k, s4))"
  by (simp add: update_lead_status_def status_written_def Let_def)

lemma status_written_leads:
  "leads (status_written k p st s) = leads (upd_lead k (\<lambda>l. l\<lparr>lead_status := st\<rparr>) s)"
  "snapshots (status_written k p st s) = snapshots s"
  "suppressions (status_written k p st s) = suppressions s"
  by (simp_all add: status_written_def Let_def split: option.splits)

lemma status_written_get:
  "get_lead (status_written k p st s) = get_lead (upd_lead k (\<lambda>l. l\<lparr>lead_status := st\<rparr>) s)"
  by (simp add: get_lead_def [abs_def] status_written_leads)

lemma status_written_audit:
  "if p = st then lead_events (status_written k p st s) = lead_events s
        \<and> ologs (status_written k p st s) = ologs s
   else (\<exists>e. lead_events (status_written k p st s) = lead_events s @ [e] \<and> ev_lead_id e = k
        \<and> ev_event_type e = ''status_changed'' \<and> ev_old_status e = Some (lead_status_value p)
        \<and> ev_new_status e = Some (lead_status_value st))
     \<and> map olog_action (ologs (status_written k p st s)) = map olog_action (ologs s)
         @ (case status_log_action st of None \<Rightarrow> [] | Some a \<Rightarrow> [a])"
  by (simp add: status_written_def Let_def emit_lead_event_def tick_uuid_def add_log_def
      split: option.splits)

lemma lead_status_value_outcome:
  "lead_status_value st \<in> {''won'', ''lost''} \<longleftrightarrow> st \<in> {WON, LOST}"
  by (cases st) simp_all

lemma capture_get: "get_lead (snd (capture_outcome_snapshot k o' s)) = get_lead s"
  by (simp add: get_lead_def [abs_def] capture_frame)

lemma update_status_state:
  assumes "get_lead s k = Some l"
  shows "get_lead (snd (update_lead_status k status s))
      = get_lead (upd_lead k (\<lambda>l. l\<lparr>lead_status := status\<rparr>) s)"
    "lead_events (snd (update_lead_status k status s))
      = lead_events (status_written k (lead_status l) status s)"
    "ologs (snd (update_lead_status k status s)) = ologs (status_written k (lead_status l) status s)"
    "suppressions (snd (update_lead_status k status s)) = suppressions s"
    "leads (snd (update_lead_status k status s))
      = leads (upd_lead k (\<lambda>l. l\<lparr>lead_status := status\<rparr>) s)"
  using assms by (auto simp: update_lead_status_eq Let_def capture_frame capture_get
      status_written_get status_written_leads)

lemma update_status_snapshots:
  assumes "get_lead s k = Some l"
  shows "distinct (map snap_lead_id (snapshots s)) \<Longrightarrow>
      distinct (map snap_lead_id (snapshots (snd (update_lead_status k status s))))"
    and "status \<in> {WON, LOST} \<Longrightarrow>
      k \<in> snap_lead_id ` set (snapshots (snd (update_lead_status k status s)))"
proof -
  let ?s3 = "status_written k (lead_status l) status s"
  let ?c = "capture_outcome_snapshot k (lead_status_value status) ?s3"
  have e: "snapshots (snd (update_lead_status k status s))
      = (if status \<in> {WON, LOST} then snapshots (snd ?c) else snapshots s)"
    using assms by (simp add: update_lead_status_eq Let_def status_written_leads)
  {
    assume d: "distinct (map snap_lead_id (snapshots s))"
    have "snapshots (snd ?c) = snapshots s \<or> (\<exists>n. snapshots (snd ?c) = snapshots s @ [n]
        \<and> snap_lead_id n \<notin> snap_lead_id ` set (snapshots s))"
      using capture_snapshots [of k "lead_status_value status" ?s3]
      by (fastforce simp: status_written_leads find_None_iff)
    with d show "distinct (map snap_lead_id (snapshots (snd (update_lead_status k status s))))"
      unfolding e by (elim disjE exE conjE) simp_all
  next
    assume st: "status \<in> {WON, LOST}"
    have "get_lead ?s3 k = Some (stamp_lead s (\<lambda>l. l\<lparr>lead_status := status\<rparr>) l)"
      using assms by (simp add: status_written_get lead_tbl.get_upd_same)
    from capture_present [OF _ this, of "lead_status_value status"] st
    show "k \<in> snap_lead_id ` set (snapshots (snd (update_lead_status k status s)))"
      unfolding e using lead_status_value_outcome [of status] by auto
  }
qed

text \<open>
  C8: A status change is audited exactly once: setting a new status writes one \<open>status_changed\<close>
  event with the old and the new status and the log entry that belongs to the status, setting
  the same status again writes neither; a lead that is won or lost has a snapshot afterwards,
  there is never more than one per lead, and no other lead changes.
\<close>

theorem status_change_audited:
  "case get_lead s k of
     None \<Rightarrow> update_lead_status k status s = (None, s)
   | Some l \<Rightarrow> (let s' = snd (update_lead_status k status s) in
       map_option lead_status (get_lead s' k) = Some status
       \<and> fst (update_lead_status k status s) = get_lead s' k
       \<and> (if lead_status l = status
          then lead_events s' = lead_events s \<and> ologs s' = ologs s
          else (\<exists>e. lead_events s' = lead_events s @ [e] \<and> ev_lead_id e = k
                 \<and> ev_event_type e = ''status_changed''
                 \<and> ev_old_status e = Some (lead_status_value (lead_status l))
                 \<and> ev_new_status e = Some (lead_status_value status))
            \<and> map olog_action (ologs s') = map olog_action (ologs s)
                @ (case status_log_action status of None \<Rightarrow> [] | Some a \<Rightarrow> [a]))
       \<and> (status \<in> {WON, LOST} \<longrightarrow> k \<in> snap_lead_id ` set (snapshots s'))
       \<and> (distinct (map snap_lead_id (snapshots s)) \<longrightarrow> distinct (map snap_lead_id (snapshots s')))
       \<and> (k' = k \<or> get_lead s' k' = get_lead s k'))"
proof (cases "get_lead s k")
  case None
  then show ?thesis by (simp add: update_lead_status_def)
next
  case (Some l)
  have "fst (update_lead_status k status s) = get_lead (snd (update_lead_status k status s)) k"
    using Some by (simp add: update_lead_status_eq Let_def)
  moreover have "get_lead (upd_lead k (\<lambda>l. l\<lparr>lead_status := status\<rparr>) s) k
      = Some (stamp_lead s (\<lambda>l. l\<lparr>lead_status := status\<rparr>) l)"
    using Some by (simp add: lead_tbl.get_upd_same)
  moreover have "k' = k \<or> get_lead (upd_lead k (\<lambda>l. l\<lparr>lead_status := status\<rparr>) s) k' = get_lead s k'"
    by (cases "k' = k") (simp_all add: lead_tbl.get_upd_other)
  moreover have "status \<in> {WON, LOST} \<longrightarrow>
      k \<in> snap_lead_id ` set (snapshots (snd (update_lead_status k status s)))"
    using update_status_snapshots(2) [OF Some] by blast
  ultimately show ?thesis
    using status_written_audit [of "lead_status l" status k s]
      update_status_snapshots(1) [OF Some, of status]
    unfolding Some Let_def option.case update_status_state [OF Some] by (simp del: insert_iff)
qed

definition demo_lead_store :: store where
  "demo_lead_store = add_lead (blank_lead 1 ''Bar'' 0) (empty_store 0)"

theorem status_change_audited_witness:
  "1 \<in> snap_lead_id ` set (snapshots (snd (update_lead_status 1 WON demo_lead_store)))
   \<and> distinct (map snap_lead_id (snapshots (snd (update_lead_status 1 WON demo_lead_store))))"
proof -
  have g: "get_lead demo_lead_store 1 = Some (blank_lead 1 ''Bar'' 0)"
    and n: "snapshots demo_lead_store = []"
    by (simp_all add: demo_lead_store_def get_lead_def add_lead_def empty_store_def blank_lead_def)
  from status_change_audited [where s = demo_lead_store and k = 1 and status = WON, unfolded g option.case Let_def] n
  show ?thesis by (metis distinct.simps(1) insertI1 list.simps(8))
qed

section \<open>Suppression\<close>

definition suppressed_row :: "store \<Rightarrow> string \<Rightarrow> lead \<Rightarrow> lead" where
  "suppressed_row s e l = (if lead_email l = Some (lower e) \<and> lead_status l \<noteq> SUPPRESSED
     then l\<lparr>lead_status := SUPPRESSED, lead_updated_at := now s\<rparr> else l)"

lemma suppressed_row_stamp:
  "(if lead_email l = Some (lower e) \<and> lead_status l \<noteq> SUPPRESSED
    then stamp_lead s (\<lambda>l. l\<lparr>lead_status := SUPPRESSED\<rparr>) l else l) = suppressed_row s e l"
proof -
  have "l\<lparr>lead_status := SUPPRESSED\<rparr> \<noteq> l" if "lead_status l \<noteq> SUPPRESSED"
    using that by (metis lead.select_convs(19) lead.surjective lead.update_convs(19))
  then show ?thesis by (simp add: suppressed_row_def stamp_lead_def)
qed

lemma suppress_matching_leads: "leads (suppress_matching e s) = map (suppressed_row s e) (leads s)"
  by (simp add: suppress_matching_def tbl_where_def suppressed_row_stamp)

lemma suppress_matching_other [simp]: "suppressions (suppress_matching e s) = suppressions s"
  by (simp add: suppress_matching_def)

lemma add_to_suppression_state:
  assumes "add_to_suppression_list d s = Inr (n, s')"
  shows "n = new_suppression d s" "suppressions s' = suppressions s @ [n]"
    "leads s' = (if truthy (sc_email d)
       then map (suppressed_row s (text_or_empty (sc_email d))) (leads s) else leads s)"
    "\<not> suppression_clash n s"
proof -
  let ?s1 = "tick_uuid (s\<lparr>suppressions := suppressions s @ [new_suppression d s]\<rparr>)"
  have now: "suppressed_row ?s1 = suppressed_row s"
    by (simp add: fun_eq_iff suppressed_row_def tick_uuid_def)
  from assms show n: "n = new_suppression d s" and "\<not> suppression_clash n s"
    by (auto simp: add_to_suppression_list_def Let_def split: if_splits)
  from assms have "s' = (if truthy (sc_email d)
      then suppress_matching (text_or_empty (sc_email d)) ?s1 else ?s1)"
    by (auto simp: add_to_suppression_list_def Let_def split: if_splits)
  then show "suppressions s' = suppressions s @ [n]" "leads s' = (if truthy (sc_email d)
       then map (suppressed_row s (text_or_empty (sc_email d))) (leads s) else leads s)"
    by (simp_all add: n suppress_matching_leads now) (simp_all add: tick_uuid_def)
qed

lemma create_lead_refused:
  assumes "truthy e" and "map_option lower e \<in> supp_email ` set (suppressions s)"
    and "map_option lower (lc_email d) = map_option lower e"
  shows "\<exists>m. create_lead digest d s = Inl m"
proof -
  from assms(1) obtain t where "e = Some t" "lower t \<noteq> []" by (cases e) auto
  with assms(3) have "truthy (lc_email d)" by (cases "lc_email d") (auto simp: lower_def)
  with assms show ?thesis by (auto simp: create_lead_def is_suppressed_def)
qed

text \<open>
  C23: Once an address is on the suppression list, in whatever case it was entered, every lead
  stored with its lower-case form is suppressed, no lead can be created with it in any case,
  and all other leads stay as they were; in particular a lead stored with capitals in its
  address is not suppressed.
\<close>

theorem suppression_blocks:
  assumes "add_to_suppression_list d s = Inr (n, s')" and "sc_email d = Some e" and "e \<noteq> []"
  shows "(\<forall>l \<in> set (leads s'). lead_email l = Some (lower e) \<longrightarrow> lead_status l = SUPPRESSED)
    \<and> (map_option lower (lc_email c) = Some (lower e) \<longrightarrow> (\<exists>m. create_lead digest c s' = Inl m))
    \<and> leads s' = map (suppressed_row s e) (leads s)
    \<and> (lower e \<noteq> e \<longrightarrow> (\<forall>l \<in> set (leads s). lead_email l = Some e \<longrightarrow> l \<in> set (leads s')))"
proof -
  note st = add_to_suppression_state [OF assms(1)]
  have ls: "leads s' = map (suppressed_row s e) (leads s)"
    using st(3) assms(2,3) by simp
  have "supp_email n = Some (lower e)"
    using assms(2,3) by (simp add: st(1) new_suppression_def lower_or_none_def)
  then have "map_option lower (lc_email c) = Some (lower e) \<Longrightarrow> \<exists>m. create_lead digest c s' = Inl m"
    using create_lead_refused [of "Some e" s' c digest] assms(3) by (auto simp: st(2))
  with ls show ?thesis by (force simp: suppressed_row_def split: if_splits)
qed

theorem suppression_blocks_witness:
  "\<exists>s' m. suppressions s' \<noteq> [] \<and> create_lead id (demo_create ''Bar'' (Some ''ana@x.com'')) s' = Inl m"
proof -
  let ?d = "\<lparr>sc_email = Some ''Ana@X.com'', sc_domain = None, sc_phone = None, sc_reason = None\<rparr>"
  obtain n s' where r: "add_to_suppression_list ?d (empty_store 0) = Inr (n, s')"
    by (simp add: add_to_suppression_list_def suppression_clash_def empty_store_def Let_def)
  have "lower ''ana@x.com'' = lower ''Ana@X.com''" by code_simp
  then have "\<exists>m. create_lead id (demo_create ''Bar'' (Some ''ana@x.com'')) s' = Inl m"
    using suppression_blocks [OF r, of "''Ana@X.com''" "demo_create ''Bar'' (Some ''ana@x.com'')" id]
    by (simp add: demo_create_def)
  moreover have "suppressions s' \<noteq> []" using add_to_suppression_state(2) [OF r] by simp
  ultimately show ?thesis by blast
qed

section \<open>Pages\<close>

lemma pages_take:
  "concat (map (\<lambda>p. take n (drop ((p - 1) * n) xs)) [1..<Suc k]) = take (k * n) xs"
proof (induction k)
  case (Suc k)
  have "take (Suc k * n) xs = take (k * n) xs @ take n (drop (k * n) xs)"
    by (simp add: add.commute [of n] take_add)
  with Suc show ?case by simp
qed simp

definition lex_before :: "('a \<Rightarrow> 'm::linorder) \<Rightarrow> ('a \<Rightarrow> 'n::linorder) \<Rightarrow> 'a \<Rightarrow> 'a \<Rightarrow> bool" where
  "lex_before f g a b = (f a < f b \<or> f a = f b \<and> g a \<le> g b)"

lemma insort_lex:
  "sorted_wrt (lex_before f g) ys \<Longrightarrow> \<forall>y \<in> set ys. g x \<le> g y \<Longrightarrow>
     sorted_wrt (lex_before f g) (insort_key f x ys)"
  by (induction ys) (auto simp: lex_before_def set_insort_key)

text \<open>Sorting by a second key keeps the order of the first one among equals.\<close>

lemma sort_key_lex: "sorted (map g xs) \<Longrightarrow> sorted_wrt (lex_before f g) (sort_key f xs)"
  by (induction xs) (auto simp: insort_lex)

definition lead_before :: "lead \<Rightarrow> lead \<Rightarrow> bool" where
  "lead_before a b = (case (lead_score a, lead_score b) of
     (Some x, Some y) \<Rightarrow> y < x \<or> y = x \<and> lead_created_at b \<le> lead_created_at a
   | (Some x, None) \<Rightarrow> True
   | (None, Some y) \<Rightarrow> False
   | (None, None) \<Rightarrow> lead_created_at b \<le> lead_created_at a)"

lemma sorted_filter_key: "sorted (map g xs) \<Longrightarrow> sorted (map g (filter p xs))"
  by (induction xs) auto

lemma lead_order_sorted: "sorted_wrt lead_before (lead_order ls)"
proof -
  let ?age = "\<lambda>l. - lead_created_at l"
  let ?score = "\<lambda>l. - (case lead_score l of Some x \<Rightarrow> x | None \<Rightarrow> 0)"
  let ?by = "sort_key ?age ls"
  let ?scored = "sort_key ?score (filter (\<lambda>l. lead_score l \<noteq> None) ?by)"
  let ?un = "filter (\<lambda>l. lead_score l = None) ?by"
  have "sorted_wrt (lex_before ?score ?age) ?scored"
    by (rule sort_key_lex) (rule sorted_filter_key, simp)
  then have "sorted_wrt lead_before ?scored"
    by (rule sorted_wrt_mono_rel [rotated])
      (auto simp: lex_before_def lead_before_def split: option.splits)
  moreover have "sorted (map ?age ?un)" by (rule sorted_filter_key) simp
  then have "sorted_wrt (\<lambda>a b. ?age a \<le> ?age b) ?un" by (simp only: sorted_map)
  then have "sorted_wrt lead_before ?un"
    by (rule sorted_wrt_mono_rel [rotated]) (simp add: lead_before_def)
  ultimately show ?thesis
    by (auto simp: lead_order_def Let_def sorted_wrt_append lead_before_def split: option.splits)
qed

lemma lead_order_mset: "mset (lead_order ls) = mset ls"
proof -
  have "mset (filter p ys) + mset (filter (\<lambda>x. \<not> p x) ys) = mset ys" for p and ys :: "lead list"
    by (induction ys) auto
  from this [of "\<lambda>l. lead_score l \<noteq> None" "sort_key (\<lambda>l. - lead_created_at l) ls"]
  show ?thesis by (simp add: lead_order_def Let_def)
qed

text \<open>
  Paging loses and repeats nothing: the pages of a list, put together, are the matching leads,
  each once, best score first, the newer one first among equals and the unscored ones last; the
  total that comes with every page is their number.
\<close>

theorem lead_pages_exact:
  "concat (map (\<lambda>p. fst (list_leads p n status min_score s)) [1..<Suc k])
     = take (k * n) (lead_order (filter (lead_filter status min_score) (leads s)))
   \<and> snd (list_leads p n status min_score s) = length (filter (lead_filter status min_score) (leads s))
   \<and> mset (lead_order (filter (lead_filter status min_score) (leads s)))
       = mset (filter (lead_filter status min_score) (leads s))
   \<and> sorted_wrt lead_before (lead_order (filter (lead_filter status min_score) (leads s)))"
  using pages_take [of n "lead_order (filter (lead_filter status min_score) (leads s))" k]
  by (simp add: list_leads_def Let_def lead_order_mset lead_order_sorted)

end
