(* ===== verification/Outreach.thy ===== *)
theory Outreach
  imports Leads
begin

text \<open>
  Outreach drafts: generation, review, edits, lists, and sending a WhatsApp draft
  (\<open>app/services/outreach/outreach_service.py\<close>).  The text of a draft comes from a language
  model; the writers below are parameters that either raise or give the text together with
  the metadata of the call.
\<close>

section \<open>Writing drafts\<close>

type_synonym email_writer = "lead \<Rightarrow> string \<Rightarrow> string + (string \<times> string) \<times> json option"
type_synonym whatsapp_writer = "lead \<Rightarrow> string + string \<times> json option"

text \<open>Truth of \<open>metadata and metadata.get(key)\<close>.\<close>

definition meta_flag :: "string \<Rightarrow> json option \<Rightarrow> bool" where
  "meta_flag key m = (case m of
     Some (JObj kvs) \<Rightarrow> map_of kvs key = Some (JBool True)
   | _ \<Rightarrow> False)"

definition new_draft ::
    "uuid \<Rightarrow> string \<Rightarrow> string option \<Rightarrow> string \<Rightarrow> json option \<Rightarrow> store \<Rightarrow> outreach_draft" where
  "new_draft k channel subject body m s = \<lparr>draft_id = next_uuid s, draft_lead_id = k,
     draft_subject = subject, draft_body = body, draft_channel = channel,
     draft_status = PENDING_REVIEW, draft_generation_metadata_json = m,
     draft_generated_at = now s, draft_reviewed_at = None, draft_sent_at = None\<rparr>"

text \<open>The new row and its \<open>GENERATED\<close> log entry.\<close>

definition draft_written :: "outreach_draft \<Rightarrow> json option \<Rightarrow> store \<Rightarrow> store" where
  "draft_written d m s = add_log (draft_lead_id d) (Some (draft_id d)) L_GENERATED ''system''
     (if meta_flag ''degraded'' m then Some ''ai_degraded=true; ai_fallback_used=true'' else None)
     (add_draft d (tick_uuid s))"

text \<open>
  \<open>generate_outreach_draft\<close>: \<open>None\<close> without a lead, without an address and for a suppressed
  address; an exception of the writer leaves the function.  With \<open>commit=True\<close> the resulting
  state is committed.
\<close>

definition generate_outreach_draft ::
    "email_writer \<Rightarrow> uuid \<Rightarrow> string \<Rightarrow> store \<Rightarrow> string + outreach_draft option \<times> store" where
  "generate_outreach_draft write k context_text s = (case get_lead s k of
     None \<Rightarrow> Inr (None, s)
   | Some l \<Rightarrow>
       if \<not> truthy (lead_email l) then Inr (None, s)
       else if is_suppressed s (lead_email l) None then Inr (None, s)
       else (case write l context_text of
         Inl e \<Rightarrow> Inl e
       | Inr ((subject, body), m) \<Rightarrow>
           let d = new_draft k ''email'' (Some subject) body m s;
               s1 = upd_lead k (\<lambda>l. l\<lparr>lead_status := DRAFT_READY\<rparr>) (draft_written d m s)
           in Inr (Some d, s1)))"

definition generate_whatsapp_draft ::
    "whatsapp_writer \<Rightarrow> uuid \<Rightarrow> store \<Rightarrow> string + outreach_draft option \<times> store" where
  "generate_whatsapp_draft write k s = (case get_lead s k of
     None \<Rightarrow> Inr (None, s)
   | Some l \<Rightarrow>
       if \<not> truthy (lead_phone l) then Inr (None, s)
       else (case write l of
         Inl e \<Rightarrow> Inl e
       | Inr (body, m) \<Rightarrow>
           let d = new_draft k ''whatsapp'' None body m s in Inr (Some d, draft_written d m s)))"

section \<open>Editing and reviewing\<close>

record draft_change =
  dc_subject :: "string option"
  dc_body :: "string option"
  dc_status :: "DraftStatus option"
  dc_feedback :: "string option"
  dc_actor :: string

fun draft_log_action :: "DraftStatus \<Rightarrow> LogAction option" where
  "draft_log_action D_APPROVED = Some L_APPROVED"
| "draft_log_action D_REJECTED = Some L_REJECTED"
| "draft_log_action D_SENT = Some L_SENT"
| "draft_log_action PENDING_REVIEW = None"

fun draft_lead_status :: "DraftStatus \<Rightarrow> LeadStatus option" where
  "draft_lead_status D_APPROVED = Some APPROVED"
| "draft_lead_status D_SENT = Some CONTACTED"
| "draft_lead_status _ = None"

definition set_draft_text :: "draft_change \<Rightarrow> outreach_draft \<Rightarrow> outreach_draft" where
  "set_draft_text c d = d\<lparr>draft_subject := or_else (dc_subject c) (draft_subject d),
     draft_body := set_if (dc_body c) (draft_body d)\<rparr>"

definition set_draft_status :: "DraftStatus \<Rightarrow> datetime \<Rightarrow> outreach_draft \<Rightarrow> outreach_draft" where
  "set_draft_status st t d = d\<lparr>draft_status := st,
     draft_reviewed_at := (if st \<in> {D_APPROVED, D_REJECTED} then Some t else draft_reviewed_at d),
     draft_sent_at := (if st = D_SENT then Some t else draft_sent_at d)\<rparr>"

definition draft_status_written ::
    "outreach_draft \<Rightarrow> DraftStatus \<Rightarrow> draft_change \<Rightarrow> store \<Rightarrow> store" where
  "draft_status_written d st c s =
     (let s1 = upd_draft (draft_id d) (set_draft_status st (now s)) s;
          s2 = (case draft_log_action st of
             None \<Rightarrow> s1
           | Some a \<Rightarrow> add_log (draft_lead_id d) (Some (draft_id d)) a (dc_actor c) (dc_feedback c) s1)
      in case draft_lead_status st of
           None \<Rightarrow> s2
         | Some ls \<Rightarrow> upd_lead (draft_lead_id d) (\<lambda>l. l\<lparr>lead_status := ls\<rparr>) s2)"

definition update_draft :: "uuid \<Rightarrow> draft_change \<Rightarrow> store \<Rightarrow> outreach_draft option \<times> store" where
  "update_draft k c s = (case get_draft s k of
     None \<Rightarrow> (None, s)
   | Some d \<Rightarrow>
       let s1 = upd_draft k (set_draft_text c) s;
           s2 = (case dc_status c of
              None \<Rightarrow> s1
            | Some st \<Rightarrow> if st = draft_status d then s1 else draft_status_written d st c s1)
       in (get_draft s2 k, s2))"

definition status_change :: "DraftStatus \<Rightarrow> string option \<Rightarrow> string \<Rightarrow> draft_change" where
  "status_change st feedback actor = \<lparr>dc_subject = None, dc_body = None, dc_status = Some st,
     dc_feedback = feedback, dc_actor = actor\<rparr>"

definition review_draft ::
    "uuid \<Rightarrow> bool \<Rightarrow> string option \<Rightarrow> store \<Rightarrow> outreach_draft option \<times> store" where
  "review_draft k approved feedback s =
     update_draft k (status_change (if approved then D_APPROVED else D_REJECTED) feedback ''user'') s"

section \<open>Lists\<close>

definition list_drafts ::
    "DraftStatus option \<Rightarrow> uuid option \<Rightarrow> nat \<Rightarrow> nat \<Rightarrow> store \<Rightarrow> outreach_draft list" where
  "list_drafts status lead page page_size s =
     take page_size (drop ((page - 1) * page_size)
       (sort_key (\<lambda>d. - draft_generated_at d)
         (filter (\<lambda>d. (status = None \<or> status = Some (draft_status d))
                    \<and> (lead = None \<or> lead = Some (draft_lead_id d))) (drafts s))))"

text \<open>Each log entry with the name of its lead, if there is one (an outer join).\<close>

definition list_logs ::
    "uuid option \<Rightarrow> uuid option \<Rightarrow> nat \<Rightarrow> store \<Rightarrow> (outreach_log \<times> string option) list" where
  "list_logs lead draft limit s =
     map (\<lambda>g. (g, map_option lead_business_name (get_lead s (olog_lead_id g))))
       (take limit (sort_key (\<lambda>g. - olog_created_at g)
         (filter (\<lambda>g. (lead = None \<or> lead = Some (olog_lead_id g))
                    \<and> (draft = None \<or> draft = olog_draft_id g)) (ologs s))))"

section \<open>Deliveries\<close>

text \<open>
  The partial unique index of the table: at most one delivery of a draft is \<open>sending\<close> or
  \<open>sent\<close>.
\<close>

definition active_or_sent :: "outreach_delivery \<Rightarrow> bool" where
  "active_or_sent d = (dlv_status d \<in> {DLV_SENDING, DLV_SENT})"

definition delivery_clash :: "outreach_delivery \<Rightarrow> store \<Rightarrow> bool" where
  "delivery_clash n s = (active_or_sent n \<and>
     (\<exists>d \<in> set (deliveries s). dlv_draft_id d = dlv_draft_id n \<and> active_or_sent d))"

section \<open>Sending a WhatsApp draft\<close>

datatype wa_error = ValueErr string | KapsoErr string | DeliveryIntegrity

definition new_wa_delivery ::
    "outreach_draft \<Rightarrow> lead \<Rightarrow> string option \<Rightarrow> store \<Rightarrow> outreach_delivery" where
  "new_wa_delivery d l message_id s = \<lparr>dlv_id = next_uuid s, dlv_lead_id = lead_id l,
     dlv_draft_id = draft_id d, dlv_provider = ''kapso'', dlv_provider_message_id = message_id,
     dlv_recipient_email = text_or_empty (lead_phone l),
     dlv_subject_snapshot = take 500 (draft_body d), dlv_status = DLV_SENDING,
     dlv_error = None, dlv_sent_at = None, dlv_created_at = now s, dlv_updated_at = now s\<rparr>"

definition settled_statuses :: "LeadStatus set" where
  "settled_statuses = {CONTACTED, OPENED, REPLIED, MEETING, WON, LOST}"

text \<open>
  \<open>kapso phone text\<close> is the answer of the messaging service: an exception or the id of the
  message.  The message is out before the rows are flushed; after an exception of the flush
  the session can only be rolled back.
\<close>

definition send_whatsapp_draft ::
    "(string \<Rightarrow> string \<Rightarrow> string + string option) \<Rightarrow> uuid \<Rightarrow> store \<Rightarrow>
     wa_error + outreach_delivery \<times> store" where
  "send_whatsapp_draft kapso k s = (case get_draft s k of
     None \<Rightarrow> Inl (ValueErr ''Draft not found'')
   | Some d \<Rightarrow>
       if draft_channel d \<noteq> ''whatsapp'' then Inl (ValueErr ''Draft is not a WhatsApp draft'')
       else if draft_status d \<noteq> D_APPROVED
       then Inl (ValueErr (''Draft status is '' @ draft_status_value (draft_status d)
         @ '', expected approved''))
       else (case get_lead s (draft_lead_id d) of
         None \<Rightarrow> Inl (ValueErr ''Lead has no phone number'')
       | Some l \<Rightarrow>
           if \<not> truthy (lead_phone l) then Inl (ValueErr ''Lead has no phone number'')
           else (case kapso (text_or_empty (lead_phone l)) (draft_body d) of
             Inl e \<Rightarrow> Inl (KapsoErr e)
           | Inr message_id \<Rightarrow>
               let n = new_wa_delivery d l message_id s;
                   s1 = add_delivery n (tick_uuid s);
                   s2 = upd_draft k (\<lambda>d. d\<lparr>draft_status := D_SENT, draft_sent_at := Some (now s)\<rparr>) s1;
                   s3 = add_log (lead_id l) (Some k) L_SENT ''system'' None s2;
                   s4 = (if lead_status l \<in> settled_statuses then s3
                         else upd_lead (lead_id l) (\<lambda>l. l\<lparr>lead_status := CONTACTED\<rparr>) s3)
               in if delivery_clash n s then Inl DeliveryIntegrity else Inr (n, s4))))"

section \<open>What the operations leave alone\<close>

lemma delivery_frames [simp]:
  "deliveries (upd_draft k f s) = deliveries s" "deliveries (upd_lead k g s) = deliveries s"
  "deliveries (add_draft d s) = deliveries s" "deliveries (add_log l o' a w t s) = deliveries s"
  "deliveries (tick_uuid s) = deliveries s" "deliveries (rollback_to b s) = deliveries b"
  "deliveries (upd_convo k h s) = deliveries s" "deliveries (add_convo c s) = deliveries s"
  "deliveries (add_delivery n s) = deliveries s @ [n]"
  by (simp_all add: add_delivery_def upd_draft_def upd_lead_def add_draft_def add_log_def tick_uuid_def
      rollback_to_def upd_convo_def add_convo_def)

lemma draft_frames [simp]:
  "drafts (upd_delivery k e s) = drafts s" "drafts (upd_lead k g s) = drafts s"
  "drafts (add_delivery n s) = drafts s" "drafts (add_log l o' a w t s) = drafts s"
  "drafts (tick_uuid s) = drafts s" "drafts (rollback_to b s) = drafts b"
  "drafts (add_draft d s) = drafts s @ [d]"
  by (simp_all add: upd_delivery_def upd_lead_def add_delivery_def add_log_def tick_uuid_def
      rollback_to_def add_draft_def)

lemma lead_frames [simp]:
  "leads (upd_delivery k e s) = leads s" "leads (upd_draft k f s) = leads s"
  "leads (add_delivery n s) = leads s" "leads (tick_uuid s) = leads s"
  "leads (rollback_to b s) = leads b" "leads (add_draft d s) = leads s"
  by (simp_all add: upd_delivery_def upd_draft_def add_delivery_def tick_uuid_def
      rollback_to_def add_draft_def)

lemma log_frames [simp]:
  "ologs (upd_delivery k e s) = ologs s" "ologs (upd_draft k f s) = ologs s"
  "ologs (upd_lead k g s) = ologs s" "ologs (add_delivery n s) = ologs s"
  "ologs (tick_uuid s) = ologs s" "ologs (rollback_to b s) = ologs b"
  "ologs (add_draft d s) = ologs s"
  "ologs (add_log l o' a w t s) = ologs s @ [\<lparr>olog_id = next_uuid s, olog_lead_id = l,
     olog_draft_id = o', olog_action = a, olog_actor = w, olog_detail = t, olog_created_at = now s\<rparr>]"
  by (simp_all add: upd_delivery_def upd_draft_def upd_lead_def add_delivery_def tick_uuid_def
      rollback_to_def add_draft_def add_log_def)

lemma clock_and_supply [simp]:
  "now (tick_uuid s) = now s" "now (add_log l o' a w t s) = now s"
  "next_uuid (upd_draft k f s) = next_uuid s" "next_uuid (upd_lead k g s) = next_uuid s"
  "next_uuid (upd_delivery k e s) = next_uuid s" "next_uuid (add_delivery n s) = next_uuid s"
  "next_uuid (add_draft d s) = next_uuid s"
  "next_uuid (tick_uuid s) = Suc (next_uuid s)" "next_uuid (rollback_to b s) = next_uuid s"
  "next_uuid (add_log l o' a w t s) = Suc (next_uuid s)" "now (rollback_to b s) = now s"
  by (simp_all add: upd_draft_def upd_lead_def upd_delivery_def add_delivery_def add_draft_def
      tick_uuid_def rollback_to_def add_log_def)

text \<open>So lookups that only depend on a table follow the table.\<close>

lemma lookup_frames [simp]:
  "get_draft (add_log l o' a w t s) = get_draft s" "get_lead (add_log l o' a w t s) = get_lead s"
  "get_draft (tick_uuid s) = get_draft s" "get_lead (tick_uuid s) = get_lead s"
  "get_delivery (add_log l o' a w t s) = get_delivery s" "get_delivery (tick_uuid s) = get_delivery s"
  "get_draft (rollback_to b s) = get_draft b" "get_delivery (rollback_to b s) = get_delivery b"
  by (simp_all add: get_draft_def get_lead_def get_delivery_def fun_eq_iff)

lemma draft_change_id [simp]:
  "draft_id (set_draft_text c d) = draft_id d" "draft_id (set_draft_status st t d) = draft_id d"
  "draft_lead_id (set_draft_text c d) = draft_lead_id d"
  "draft_lead_id (set_draft_status st t d) = draft_lead_id d"
  "draft_status (set_draft_text c d) = draft_status d"
  "draft_status (set_draft_status st t d) = st"
  by (simp_all add: set_draft_text_def set_draft_status_def)

section \<open>Reviews\<close>

lemma draft_status_written_frame [simp]:
  "deliveries (draft_status_written d st c s) = deliveries s"
  by (simp add: draft_status_written_def Let_def split: option.splits)

lemma stamp_lead_now: "now s = now s' \<Longrightarrow> stamp_lead s = stamp_lead s'"
  by (simp add: stamp_lead_def fun_eq_iff)

lemma stamp_lead_frames [simp]:
  "stamp_lead (add_log l o' a w t s) = stamp_lead s" "stamp_lead (tick_uuid s) = stamp_lead s"
  "stamp_lead (upd_draft k f s) = stamp_lead s" "stamp_lead (upd_delivery k e s) = stamp_lead s"
  "stamp_lead (add_delivery n s) = stamp_lead s" "stamp_lead (add_draft d s) = stamp_lead s"
  by (rule stamp_lead_now; simp)+

lemma get_lead_status_upd [simp]:
  "get_lead (upd_lead k (\<lambda>l. l\<lparr>lead_status := st\<rparr>) s) k' =
     (if k' = k then map_option (stamp_lead s (\<lambda>l. l\<lparr>lead_status := st\<rparr>)) (get_lead s k)
      else get_lead s k')"
  by (simp add: lead_tbl.get_upd)

lemma draft_status_written_draft:
  "get_draft (draft_status_written d st c s) k = get_draft (upd_draft (draft_id d) (set_draft_status st (now s)) s) k"
  by (cases st) (simp_all add: draft_status_written_def Let_def)

lemma draft_status_written_logs:
  "map olog_action (ologs (draft_status_written d st c s)) = map olog_action (ologs s)
     @ (case draft_log_action st of None \<Rightarrow> [] | Some a \<Rightarrow> [a])"
  by (cases st) (simp_all add: draft_status_written_def Let_def)

lemma draft_status_written_lead:
  "get_lead (draft_status_written d st c s) k = (case draft_lead_status st of
      None \<Rightarrow> get_lead s k
    | Some ls \<Rightarrow> get_lead (upd_lead (draft_lead_id d) (\<lambda>l. l\<lparr>lead_status := ls\<rparr>) s) k)"
  by (cases st) (simp_all add: draft_status_written_def Let_def)

lemma update_draft_frame [simp]: "deliveries (snd (update_draft k c s)) = deliveries s"
  by (simp add: update_draft_def Let_def split: option.splits)

definition status_of_change :: "outreach_draft \<Rightarrow> draft_change \<Rightarrow> DraftStatus option" where
  "status_of_change d c = (case dc_status c of
     None \<Rightarrow> None | Some st \<Rightarrow> if st = draft_status d then None else Some st)"

lemma update_draft_eq:
  assumes "get_draft s k = Some d"
  shows "update_draft k c s = (let s1 = upd_draft k (set_draft_text c) s;
      s2 = (case status_of_change d c of None \<Rightarrow> s1 | Some st \<Rightarrow> draft_status_written d st c s1)
    in (get_draft s2 k, s2))"
  using assms by (simp add: update_draft_def status_of_change_def Let_def split: option.splits)

lemma get_draft_change [simp]:
  "get_draft (upd_draft k (set_draft_text c) s) k' =
     (if k' = k then map_option (set_draft_text c) (get_draft s k) else get_draft s k')"
  "get_draft (upd_draft k (set_draft_status st t) s) k' =
     (if k' = k then map_option (set_draft_status st t) (get_draft s k) else get_draft s k')"
  by (simp_all add: draft_tbl.get_upd)

lemma update_draft_draft:
  assumes "get_draft s k = Some d"
  shows "get_draft (snd (update_draft k c s)) k = Some (case status_of_change d c of
      None \<Rightarrow> set_draft_text c d | Some st \<Rightarrow> set_draft_status st (now s) (set_draft_text c d))"
proof -
  have "draft_id d = k" using draft_tbl.get_key [OF assms] .
  with assms show ?thesis
    by (simp add: update_draft_eq [OF assms] Let_def draft_status_written_draft split: option.split)
qed

lemma update_draft_logs:
  assumes "get_draft s k = Some d"
  shows "map olog_action (ologs (snd (update_draft k c s))) = map olog_action (ologs s)
    @ (case Option.bind (status_of_change d c) draft_log_action of None \<Rightarrow> [] | Some a \<Rightarrow> [a])"
  by (simp add: update_draft_eq [OF assms] Let_def draft_status_written_logs split: option.split)

lemma update_draft_lead:
  assumes "get_draft s k = Some d"
  shows "get_lead (snd (update_draft k c s)) k' =
    (case Option.bind (status_of_change d c) draft_lead_status of
       None \<Rightarrow> get_lead s k'
     | Some ls \<Rightarrow> get_lead (upd_lead (draft_lead_id d) (\<lambda>l. l\<lparr>lead_status := ls\<rparr>) s) k')"
  by (simp add: update_draft_eq [OF assms] Let_def draft_status_written_lead split: option.split)

text \<open>
  A review or an edit of a draft is audited exactly: the texts are replaced where given; a
  change of status, and only that, sets the review or sending time and writes the one log
  entry of the new status; approving makes the lead approved and sending makes it contacted,
  whatever the lead was before, suppressed or won included; no other lead and no delivery
  changes.
\<close>

theorem draft_change_audited:
  "case get_draft s k of
     None \<Rightarrow> update_draft k c s = (None, s)
   | Some d \<Rightarrow> (let s' = snd (update_draft k c s); st' = status_of_change d c in
       fst (update_draft k c s) = get_draft s' k
       \<and> get_draft s' k = Some (case st' of
           None \<Rightarrow> set_draft_text c d | Some st \<Rightarrow> set_draft_status st (now s) (set_draft_text c d))
       \<and> map olog_action (ologs s') = map olog_action (ologs s)
           @ (case Option.bind st' draft_log_action of None \<Rightarrow> [] | Some a \<Rightarrow> [a])
       \<and> map_option lead_status (get_lead s' (draft_lead_id d)) =
           map_option (\<lambda>l. case Option.bind st' draft_lead_status of
             None \<Rightarrow> lead_status l | Some ls \<Rightarrow> ls) (get_lead s (draft_lead_id d))
       \<and> (k' = draft_lead_id d \<or> get_lead s' k' = get_lead s k')
       \<and> deliveries s' = deliveries s)"
proof (cases "get_draft s k")
  case None
  then show ?thesis by (simp add: update_draft_def)
next
  case (Some d)
  have "fst (update_draft k c s) = get_draft (snd (update_draft k c s)) k"
    by (simp add: update_draft_eq [OF Some] Let_def)
  moreover have "map_option lead_status (get_lead (snd (update_draft k c s)) (draft_lead_id d)) =
      map_option (\<lambda>l. case Option.bind (status_of_change d c) draft_lead_status of
        None \<Rightarrow> lead_status l | Some ls \<Rightarrow> ls) (get_lead s (draft_lead_id d))"
    by (cases "get_lead s (draft_lead_id d)")
      (simp_all add: update_draft_lead [OF Some] split: option.split)
  moreover have "k' = draft_lead_id d \<or> get_lead (snd (update_draft k c s)) k' = get_lead s k'"
    by (simp add: update_draft_lead [OF Some] split: option.split)
  ultimately show ?thesis
    by (simp add: Some Let_def update_draft_draft [OF Some] update_draft_logs [OF Some])
qed

section \<open>Generation\<close>

lemma draft_written_state [simp]:
  "drafts (draft_written d m s) = drafts s @ [d]" "leads (draft_written d m s) = leads s"
  "deliveries (draft_written d m s) = deliveries s"
  "map olog_action (ologs (draft_written d m s)) = map olog_action (ologs s) @ [L_GENERATED]"
  by (simp_all add: draft_written_def)

text \<open>
  Generating a draft never sends anything: it adds one row waiting for review and its log
  entry, and only for a lead that has an address and is not suppressed; in every other case
  nothing changes.  For WhatsApp the suppression list is not consulted: a lead with a phone
  number gets a draft whatever the list holds.
\<close>

theorem drafts_start_unreviewed:
  "(case generate_outreach_draft write k ctx s of
      Inl e \<Rightarrow> \<exists>l. get_lead s k = Some l \<and> write l ctx = Inl e
    | Inr (None, s') \<Rightarrow> s' = s \<and> (\<nexists>l. get_lead s k = Some l \<and> truthy (lead_email l)
        \<and> \<not> is_suppressed s (lead_email l) None)
    | Inr (Some d, s') \<Rightarrow> drafts s' = drafts s @ [d] \<and> draft_status d = PENDING_REVIEW
        \<and> draft_lead_id d = k \<and> deliveries s' = deliveries s
        \<and> map olog_action (ologs s') = map olog_action (ologs s) @ [L_GENERATED]
        \<and> (\<exists>l. get_lead s k = Some l \<and> truthy (lead_email l)
            \<and> \<not> is_suppressed s (lead_email l) None)
        \<and> map_option lead_status (get_lead s' k) = Some DRAFT_READY)
   \<and> (case generate_whatsapp_draft wa k s of
      Inl e \<Rightarrow> \<exists>l. get_lead s k = Some l \<and> wa l = Inl e
    | Inr (None, s') \<Rightarrow> s' = s \<and> (\<nexists>l. get_lead s k = Some l \<and> truthy (lead_phone l))
    | Inr (Some d, s') \<Rightarrow> drafts s' = drafts s @ [d] \<and> draft_status d = PENDING_REVIEW
        \<and> leads s' = leads s \<and> deliveries s' = deliveries s)"
proof -
  have lead: "get_lead (draft_written d m s) = get_lead s" for d m
    by (simp add: get_lead_def fun_eq_iff)
  show ?thesis
    by (auto simp: generate_outreach_draft_def generate_whatsapp_draft_def Let_def new_draft_def lead
        split: option.split sum.split prod.split)
qed

section \<open>WhatsApp\<close>

lemma get_draft_sent [simp]:
  "get_draft (upd_draft k (\<lambda>d. d\<lparr>draft_status := D_SENT, draft_sent_at := t\<rparr>) s) k' =
     (if k' = k then map_option (\<lambda>d. d\<lparr>draft_status := D_SENT, draft_sent_at := t\<rparr>) (get_draft s k)
      else get_draft s k')"
  by (simp add: draft_tbl.get_upd)

lemma get_draft_lookup_frames [simp]:
  "get_draft (upd_lead k f s) = get_draft s" "get_draft (add_delivery n s) = get_draft s"
  by simp_all

lemma new_wa_delivery_fields [simp]:
  "dlv_status (new_wa_delivery d l m s) = DLV_SENDING" "dlv_sent_at (new_wa_delivery d l m s) = None"
  "dlv_draft_id (new_wa_delivery d l m s) = draft_id d"
  by (simp_all add: new_wa_delivery_def)

definition wa_ready :: "store \<Rightarrow> uuid \<Rightarrow> outreach_draft \<Rightarrow> lead \<Rightarrow> bool" where
  "wa_ready s k d l \<longleftrightarrow> get_draft s k = Some d \<and> draft_channel d = ''whatsapp''
     \<and> draft_status d = D_APPROVED \<and> get_lead s (draft_lead_id d) = Some l
     \<and> truthy (lead_phone l)"

lemma send_whatsapp_unready:
  assumes "\<nexists>d l. wa_ready s k d l"
  shows "\<exists>m. send_whatsapp_draft kapso k s = Inl (ValueErr m)"
  using assms
  by (auto simp: send_whatsapp_draft_def wa_ready_def split: option.splits)

lemma send_whatsapp_ready:
  assumes "wa_ready s k d l"
  shows "send_whatsapp_draft kapso k s = (case kapso (text_or_empty (lead_phone l)) (draft_body d) of
      Inl e \<Rightarrow> Inl (KapsoErr e)
    | Inr m \<Rightarrow> let n = new_wa_delivery d l m s;
        s3 = add_log (lead_id l) (Some k) L_SENT ''system'' None
          (upd_draft k (\<lambda>d. d\<lparr>draft_status := D_SENT, draft_sent_at := Some (now s)\<rparr>)
            (add_delivery n (tick_uuid s)))
      in if delivery_clash n s then Inl DeliveryIntegrity
         else Inr (n, if lead_status l \<in> settled_statuses then s3
           else upd_lead (lead_id l) (\<lambda>l. l\<lparr>lead_status := CONTACTED\<rparr>) s3))"
  using assms by (simp add: send_whatsapp_draft_def wa_ready_def Let_def split: sum.split)

lemma send_whatsapp_adds:
  assumes "send_whatsapp_draft kapso k s = Inr (n, s')"
  shows "deliveries s' = deliveries s @ [n]" "\<not> delivery_clash n s" "dlv_status n = DLV_SENDING"
proof -
  obtain d l where r: "wa_ready s k d l"
    using send_whatsapp_unready [of s k kapso] assms by force
  from assms have "deliveries s' = deliveries s @ [n] \<and> \<not> delivery_clash n s
      \<and> dlv_status n = DLV_SENDING"
    unfolding send_whatsapp_ready [OF r] by (auto simp: Let_def split: sum.splits if_splits)
  then show "deliveries s' = deliveries s @ [n]" "\<not> delivery_clash n s" "dlv_status n = DLV_SENDING"
    by simp_all
qed

text \<open>
  A WhatsApp draft is sent only when it is approved and its lead has a number.  When the
  service took the message, either the draft is sent and one delivery is added, which keeps
  the status \<open>sending\<close> and has no sending time; or the draft has an active delivery already:
  then the call fails although the message is out, and as nothing records it the next call
  sends the message again.
\<close>

theorem whatsapp_send_effect:
  "case send_whatsapp_draft kapso k s of
     Inr (n, s') \<Rightarrow> (\<exists>d l m. wa_ready s k d l
       \<and> kapso (text_or_empty (lead_phone l)) (draft_body d) = Inr m
       \<and> n = new_wa_delivery d l m s \<and> \<not> delivery_clash n s
       \<and> deliveries s' = deliveries s @ [n] \<and> dlv_status n = DLV_SENDING \<and> dlv_sent_at n = None
       \<and> map_option draft_status (get_draft s' k) = Some D_SENT)
   | Inl (ValueErr e) \<Rightarrow> (\<nexists>d l. wa_ready s k d l)
   | Inl (KapsoErr e) \<Rightarrow> (\<exists>d l. wa_ready s k d l
       \<and> kapso (text_or_empty (lead_phone l)) (draft_body d) = Inl e)
   | Inl DeliveryIntegrity \<Rightarrow> (\<exists>d l m. wa_ready s k d l
       \<and> kapso (text_or_empty (lead_phone l)) (draft_body d) = Inr m
       \<and> delivery_clash (new_wa_delivery d l m s) s
       \<and> send_whatsapp_draft kapso k (rollback_to s (tick_uuid s)) = Inl DeliveryIntegrity)"
proof (cases "\<exists>d l. wa_ready s k d l")
  case False
  then show ?thesis using send_whatsapp_unready [of s k kapso] by auto
next
  case True
  then obtain d l where r: "wa_ready s k d l" by blast
  have u: "\<And>d' l'. wa_ready s k d' l' \<longleftrightarrow> d' = d \<and> l' = l"
    using r by (auto simp: wa_ready_def)
  have r': "wa_ready (rollback_to s (tick_uuid s)) k d l"
    using r by (simp add: wa_ready_def get_lead_def)
  have clash: "delivery_clash (new_wa_delivery d l m (rollback_to s (tick_uuid s))) (rollback_to s (tick_uuid s))
      = delivery_clash (new_wa_delivery d l m s) s" for m
    by (simp add: delivery_clash_def new_wa_delivery_def active_or_sent_def)
  have g: "get_draft s k = Some d" using r by (simp add: wa_ready_def)
  show ?thesis
    by (auto simp: send_whatsapp_ready [OF r] send_whatsapp_ready [OF r'] u Let_def clash g
        split: sum.split)
qed

end
