(* ===== verification/Mail_Config.thy ===== *)
theory Mail_Config
  imports Settings
begin

text \<open>
  The outgoing mail configuration: the credentials row and its encrypted passwords
  (\<open>app/services/outreach/mail_credentials_service.py\<close>, \<open>app/core/crypto.py\<close>), the request
  (\<open>app/mail/provider.py\<close>), the checks and the error texts of the SMTP provider
  (\<open>app/mail/smtp_provider.py\<close>).
\<close>

section \<open>Credentials\<close>

record mail_credentials =
  mc_smtp_host :: "string option"
  mc_smtp_port :: int
  mc_smtp_username :: "string option"
  mc_smtp_password :: "string option"
  mc_smtp_ssl :: bool
  mc_smtp_starttls :: bool
  mc_imap_host :: "string option"
  mc_imap_port :: int
  mc_imap_username :: "string option"
  mc_imap_password :: "string option"
  mc_imap_ssl :: bool
  mc_smtp_last_test_at :: "datetime option"
  mc_smtp_last_test_ok :: "bool option"
  mc_smtp_last_test_error :: "string option"
  mc_imap_last_test_at :: "datetime option"
  mc_imap_last_test_ok :: "bool option"
  mc_imap_last_test_error :: "string option"
  mc_updated_at :: datetime

definition default_credentials :: "datetime \<Rightarrow> mail_credentials" where
  "default_credentials t = \<lparr>mc_smtp_host = None, mc_smtp_port = 587, mc_smtp_username = None,
     mc_smtp_password = None, mc_smtp_ssl = False, mc_smtp_starttls = True, mc_imap_host = None,
     mc_imap_port = 993, mc_imap_username = None, mc_imap_password = None, mc_imap_ssl = True,
     mc_smtp_last_test_at = None, mc_smtp_last_test_ok = None, mc_smtp_last_test_error = None,
     mc_imap_last_test_at = None, mc_imap_last_test_ok = None, mc_imap_last_test_error = None,
     mc_updated_at = t\<rparr>"

text \<open>
  The cipher (Fernet) is a parameter: \<open>crypt_encrypt\<close> with the current key,
  \<open>crypt_decrypt\<close> and \<open>crypt_decrypt_legacy\<close> with the two key derivations, \<open>None\<close> for
  \<open>InvalidToken\<close>.
\<close>

record cipher =
  crypt_encrypt :: "string \<Rightarrow> string"
  crypt_decrypt :: "string \<Rightarrow> string option"
  crypt_decrypt_legacy :: "string \<Rightarrow> string option"

definition is_encrypted :: "string \<Rightarrow> bool" where
  "is_encrypted v = starts_with ''gAAAAA'' v"

definition encrypt_if_needed :: "cipher \<Rightarrow> string option \<Rightarrow> string option" where
  "encrypt_if_needed c v = (case v of
     None \<Rightarrow> None
   | Some t \<Rightarrow> if t = [] \<or> is_encrypted t then Some t else Some (crypt_encrypt c t))"

definition decrypt_safe :: "cipher \<Rightarrow> string option \<Rightarrow> string option" where
  "decrypt_safe c v = (case v of
     None \<Rightarrow> None
   | Some t \<Rightarrow> if t = [] \<or> \<not> is_encrypted t then Some t
              else or_else (crypt_decrypt c t) (crypt_decrypt_legacy c t))"

text \<open>
  \<open>MailCredentialsUpdate\<close>: \<open>None\<close> for a field that the request does not set.  The columns of
  ports and switches are not nullable.
\<close>

record credentials_update =
  cu_smtp_host :: "string option option"
  cu_smtp_port :: "int option"
  cu_smtp_username :: "string option option"
  cu_smtp_password :: "string option option"
  cu_smtp_ssl :: "bool option"
  cu_smtp_starttls :: "bool option"
  cu_imap_host :: "string option option"
  cu_imap_port :: "int option"
  cu_imap_username :: "string option option"
  cu_imap_password :: "string option option"
  cu_imap_ssl :: "bool option"

text \<open>The columns in \<open>_STRIP_FIELDS\<close> are stripped, those in \<open>_PASSWORD_FIELDS\<close> encrypted.\<close>

definition update_credentials ::
    "cipher \<Rightarrow> datetime \<Rightarrow> credentials_update \<Rightarrow> mail_credentials \<Rightarrow> mail_credentials" where
  "update_credentials c t u r =
     (let stripped = map_option (map_option strip); secret = map_option (encrypt_if_needed c) in
      r\<lparr>mc_smtp_host := set_if (stripped (cu_smtp_host u)) (mc_smtp_host r),
        mc_smtp_port := set_if (cu_smtp_port u) (mc_smtp_port r),
        mc_smtp_username := set_if (stripped (cu_smtp_username u)) (mc_smtp_username r),
        mc_smtp_password := set_if (secret (cu_smtp_password u)) (mc_smtp_password r),
        mc_smtp_ssl := set_if (cu_smtp_ssl u) (mc_smtp_ssl r),
        mc_smtp_starttls := set_if (cu_smtp_starttls u) (mc_smtp_starttls r),
        mc_imap_host := set_if (stripped (cu_imap_host u)) (mc_imap_host r),
        mc_imap_port := set_if (cu_imap_port u) (mc_imap_port r),
        mc_imap_username := set_if (stripped (cu_imap_username u)) (mc_imap_username r),
        mc_imap_password := set_if (secret (cu_imap_password u)) (mc_imap_password r),
        mc_imap_ssl := set_if (cu_imap_ssl u) (mc_imap_ssl r),
        mc_updated_at := t\<rparr>)"

section \<open>Effective configuration\<close>

text \<open>The SMTP part of the environment.\<close>

record smtp_env =
  env_MAIL_PROVIDER :: string
  env_MAIL_SMTP_HOST :: "string option"
  env_MAIL_SMTP_PORT :: int
  env_MAIL_SMTP_USERNAME :: "string option"
  env_MAIL_SMTP_PASSWORD :: "string option"
  env_MAIL_SMTP_STARTTLS :: bool
  env_MAIL_SMTP_SSL :: bool

record effective_smtp =
  es_host :: string
  es_port :: int
  es_username :: "string option"
  es_password :: "string option"
  es_ssl :: bool
  es_starttls :: bool

definition get_effective_smtp :: "smtp_env \<Rightarrow> cipher \<Rightarrow> mail_credentials \<Rightarrow> effective_smtp" where
  "get_effective_smtp env c r = (let db_host = truthy (mc_smtp_host r) in
     \<lparr>es_host = strip (text_or_empty (text_or (mc_smtp_host r) (env_MAIL_SMTP_HOST env))),
      es_port = (if db_host then mc_smtp_port r else env_MAIL_SMTP_PORT env),
      es_username = text_or (mc_smtp_username r) (env_MAIL_SMTP_USERNAME env),
      es_password = text_or (decrypt_safe c (mc_smtp_password r)) (env_MAIL_SMTP_PASSWORD env),
      es_ssl = (if db_host then mc_smtp_ssl r else env_MAIL_SMTP_SSL env),
      es_starttls = (if db_host then mc_smtp_starttls r else env_MAIL_SMTP_STARTTLS env)\<rparr>)"

record outbound_config =
  oc_provider :: string
  oc_enabled :: bool
  oc_from_email :: "string option"
  oc_from_name :: string
  oc_reply_to :: "string option"
  oc_timeout_seconds :: int
  oc_smtp_host :: "string option"
  oc_smtp_port :: int
  oc_smtp_username :: "string option"
  oc_smtp_password :: "string option"
  oc_smtp_ssl :: bool
  oc_smtp_starttls :: bool

text \<open>\<open>((value or "").strip() or None)\<close>.\<close>

definition stripped_or_none :: "string option \<Rightarrow> string option" where
  "stripped_or_none v = none_if_empty (strip (text_or_empty v))"

section \<open>Messages and the SMTP provider\<close>

record mail_request =
  mr_recipient_email :: string
  mr_subject :: string
  mr_body :: string
  mr_from_email :: string
  mr_from_name :: string
  mr_reply_to :: "string option"
  mr_timeout_seconds :: int
  mr_smtp_host :: "string option"
  mr_smtp_port :: int
  mr_smtp_username :: "string option"
  mr_smtp_password :: "string option"
  mr_smtp_ssl :: bool
  mr_smtp_starttls :: bool
  mr_in_reply_to :: "string option"
  mr_references_raw :: "string option"

text \<open>
  The answer of the mail server to a message: accepted, with the \<open>Message-ID\<close> header it was
  sent with; an \<open>OSError\<close> or \<open>SMTPException\<close> with its text; or another exception (for instance
  the time limit of the worker).
\<close>

datatype smtp_answer = Accepted string | Refused string | Interrupted string

datatype mail_reply = MailSent string "string option" datetime | MailProviderErr string
  | OtherExc string

definition sanitize_smtp_error :: "string \<Rightarrow> string" where
  "sanitize_smtp_error m = (let low = lower m in
     if contains ''authentication'' low
     then ''Error de autenticaci'' @ [CHR 0xF3] @ ''n SMTP. Verific'' @ [CHR 0xE1] @ '' las credenciales.''
     else if contains ''name or service not known'' low \<or> contains ''getaddrinfo'' low
     then ''No se pudo resolver el servidor SMTP. Verific'' @ [CHR 0xE1] @ '' el host.''
     else if contains ''connection refused'' low
     then ''Conexi'' @ [CHR 0xF3] @ ''n SMTP rechazada. Verific'' @ [CHR 0xE1] @ '' el host y puerto.''
     else if contains ''timed out'' low
     then ''Tiempo de espera agotado en la conexi'' @ [CHR 0xF3] @ ''n SMTP.''
     else if contains ''ssl'' low \<or> contains ''certificate'' low
     then ''Error SSL/TLS en la conexi'' @ [CHR 0xF3] @ ''n SMTP.''
     else if length m > 200
     then ''Error SMTP. Revis'' @ [CHR 0xE1] @ '' la configuraci'' @ [CHR 0xF3] @ ''n de env'' @ [CHR 0xED] @ ''o.''
     else m)"

text \<open>\<open>message_id.strip("<>")\<close>.\<close>

definition strip_brackets :: "string \<Rightarrow> string" where
  "strip_brackets s = (let br = (\<lambda>c. c = CHR ''<'' \<or> c = CHR ''>'') in
     rstrip_where br (dropWhile br s))"

definition wrap_message_id :: "string \<Rightarrow> string" where
  "wrap_message_id m = (let cleaned = strip m in
     if starts_with ''<'' cleaned \<and> ends_with ''>'' cleaned then cleaned
     else ''<'' @ cleaned @ ''>'')"

definition normalize_references :: "string \<Rightarrow> string" where
  "normalize_references raw =
     join '' '' (map wrap_message_id (filter (\<lambda>p. strip p \<noteq> []) (map strip (split raw))))"

text \<open>\<open>SMTPMailProvider.send_email\<close>; \<open>server\<close> is the dialogue with the mail server.\<close>

definition send_email :: "(mail_request \<Rightarrow> smtp_answer) \<Rightarrow> datetime \<Rightarrow> mail_request \<Rightarrow> mail_reply" where
  "send_email server t r =
     (if strip (text_or_empty (mr_smtp_host r)) = []
      then MailProviderErr ''MAIL_SMTP_HOST is not configured.''
      else if mr_from_email r = [] then MailProviderErr ''MAIL_FROM_EMAIL is not configured.''
      else if mr_smtp_ssl r \<and> mr_smtp_starttls r
      then MailProviderErr ''MAIL_SMTP_SSL and MAIL_SMTP_STARTTLS cannot both be enabled.''
      else if truthy (mr_smtp_username r) \<noteq> truthy (mr_smtp_password r)
      then MailProviderErr
        ''MAIL_SMTP_USERNAME and MAIL_SMTP_PASSWORD must both be set for SMTP auth.''
      else (case server r of
        Accepted message_id \<Rightarrow> MailSent ''smtp'' (Some (strip_brackets message_id)) t
      | Refused text \<Rightarrow> MailProviderErr (sanitize_smtp_error text)
      | Interrupted text \<Rightarrow> OtherExc text))"

section \<open>Lemmas\<close>

lemma is_encrypted_Nil [simp]: "\<not> is_encrypted []"
  by (simp add: is_encrypted_def starts_with_def)

text \<open>A stored password is read back when the cipher inverts itself and the text is no token.\<close>

lemma decrypt_encrypt:
  assumes "\<And>t. is_encrypted (crypt_encrypt c t)"
    and "\<And>t. crypt_decrypt c (crypt_encrypt c t) = Some t"
    and "\<not> is_encrypted p"
  shows "decrypt_safe c (encrypt_if_needed c (Some p)) = Some p"
proof -
  have "crypt_encrypt c p \<noteq> []" using assms(1) [of p] by auto
  with assms show ?thesis by (simp add: decrypt_safe_def encrypt_if_needed_def)
qed

lemma wrap_message_id_idem:
  assumes "\<forall>c \<in> set m. \<not> py_space c"
  shows "wrap_message_id (wrap_message_id m) = wrap_message_id m"
proof -
  have "\<not> py_space (CHR ''<'')" "\<not> py_space (CHR ''>'')" by code_simp+
  with assms have "strip m = m" "strip (''<'' @ m @ ''>'') = ''<'' @ m @ ''>''"
    by (simp_all add: strip_no_space)
  then show ?thesis
    by (auto simp: wrap_message_id_def Let_def ends_with_def starts_with_def)
qed

end
