(* ===== verification/Mail_Service.thy ===== *)
theory Mail_Service
  imports Outreach Notifications Mail_Config
begin

text \<open>
  Sending an approved draft by e-mail (\<open>app/services/outreach/mail_service.py\<close>) and the HTTP
  endpoints around drafts (\<open>app/api/v1/outreach.py\<close>), whose session ends without a commit.
\<close>

section \<open>Configuration\<close>

text \<open>What the service reads from outside the store: environment, credentials row, mail server.\<close>

record mail_setup =
  ms_env :: mail_env
  ms_smtp_env :: smtp_env
  ms_cipher :: cipher
  ms_credentials :: mail_credentials
  ms_server :: "mail_request \<Rightarrow> smtp_answer"

datatype mail_error = MailDisabledError string | MailConfigurationError string
  | DraftNotApprovedError string | DraftRecipientMissingError string
  | DraftAlreadySentError string | DraftSendRateLimitError string | OtherError string

fun mail_error_text :: "mail_error \<Rightarrow> string" where
  "mail_error_text (MailDisabledError m) = m"
| "mail_error_text (MailConfigurationError m) = m"
| "mail_error_text (DraftNotApprovedError m) = m"
| "mail_error_text (DraftRecipientMissingError m) = m"
| "mail_error_text (DraftAlreadySentError m) = m"
| "mail_error_text (DraftSendRateLimitError m) = m"
| "mail_error_text (OtherError m) = m"

definition get_effective_outbound_mail_config ::
    "mail_setup \<Rightarrow> store \<Rightarrow> outbound_config \<times> store" where
  "get_effective_outbound_mail_config w s =
     (let (row, s1) = get_or_create s;
          out = get_effective_mail_outbound (ms_env w) row;
          smtp = get_effective_smtp (ms_smtp_env w) (ms_cipher w) (ms_credentials w)
      in (\<lparr>oc_provider = lower (env_MAIL_PROVIDER (ms_smtp_env w)), oc_enabled = mo_enabled out,
           oc_from_email = stripped_or_none (mo_from_email out),
           oc_from_name = strip (if mo_from_name out \<noteq> [] then mo_from_name out
             else env_MAIL_FROM_NAME (ms_env w)),
           oc_reply_to = stripped_or_none (mo_reply_to out),
           oc_timeout_seconds = mo_send_timeout_seconds out,
           oc_smtp_host = none_if_empty (strip (es_host smtp)), oc_smtp_port = es_port smtp,
           oc_smtp_username = stripped_or_none (es_username smtp),
           oc_smtp_password = es_password smtp, oc_smtp_ssl = es_ssl smtp,
           oc_smtp_starttls = es_starttls smtp\<rparr>, s1))"

definition missing_requirements :: "outbound_config \<Rightarrow> string list" where
  "missing_requirements c =
     (if truthy (oc_from_email c) then [] else [''from_email''])
     @ (if truthy (oc_smtp_host c) then [] else [''smtp_host''])
     @ (if truthy (oc_smtp_username c) = truthy (oc_smtp_password c) then []
        else [''smtp_credentials_pair''])
     @ (if oc_smtp_ssl c \<and> oc_smtp_starttls c then [''smtp_ssl_starttls_conflict''] else [])"

definition ensure_outbound_mail_ready ::
    "mail_setup \<Rightarrow> store \<Rightarrow> (mail_error + outbound_config) \<times> store" where
  "ensure_outbound_mail_ready w s =
     (let (c, s1) = get_effective_outbound_mail_config w s in
      (if \<not> oc_enabled c then Inl (MailDisabledError (''Mail sending is disabled. Set MAIL_ENABLED=true or enable the DB override''
         @ '' to allow delivery.''))
       else if missing_requirements c \<noteq> []
       then Inl (MailConfigurationError (''Mail configuration is incomplete: ''
         @ join '', '' (missing_requirements c) @ ''.''))
       else Inr c, s1))"

definition build_mail_send_request ::
    "outbound_config \<Rightarrow> string \<Rightarrow> string \<Rightarrow> string \<Rightarrow> string option \<Rightarrow> string option \<Rightarrow> mail_request" where
  "build_mail_send_request c recipient subject body in_reply_to references_raw =
     \<lparr>mr_recipient_email = recipient, mr_subject = subject, mr_body = body,
      mr_from_email = text_or_empty (oc_from_email c), mr_from_name = oc_from_name c,
      mr_reply_to = oc_reply_to c, mr_timeout_seconds = oc_timeout_seconds c,
      mr_smtp_host = oc_smtp_host c, mr_smtp_port = oc_smtp_port c,
      mr_smtp_username = oc_smtp_username c, mr_smtp_password = oc_smtp_password c,
      mr_smtp_ssl = oc_smtp_ssl c, mr_smtp_starttls = oc_smtp_starttls c,
      mr_in_reply_to = in_reply_to, mr_references_raw = references_raw\<rparr>"

text \<open>\<open>send_mail\<close> with \<open>get_mail_provider\<close>, which knows one provider.\<close>

definition send_mail :: "mail_setup \<Rightarrow> datetime \<Rightarrow> mail_request \<Rightarrow> mail_reply" where
  "send_mail w t r = (let selected = lower (env_MAIL_PROVIDER (ms_smtp_env w)) in
     if selected \<noteq> ''smtp''
     then MailProviderErr (''Unsupported MAIL_PROVIDER '' @ [CHR 0x27] @ selected @ [CHR 0x27] @ ''.'')
     else send_email (ms_server w) t r)"

section \<open>Sending a draft\<close>

definition list_deliveries :: "uuid \<Rightarrow> store \<Rightarrow> outreach_delivery list" where
  "list_deliveries k s =
     sort_key (\<lambda>d. - dlv_created_at d) (filter (\<lambda>d. dlv_draft_id d = k) (deliveries s))"

definition failed_deliveries :: "uuid \<Rightarrow> store \<Rightarrow> outreach_delivery list" where
  "failed_deliveries k s =
     filter (\<lambda>d. dlv_draft_id d = k \<and> dlv_status d = DLV_FAILED) (deliveries s)"

definition send_cooldown :: datetime where
  "send_cooldown = minutes 5"

text \<open>At most three failed attempts per draft, five minutes apart.\<close>

definition send_rate_limit :: "uuid \<Rightarrow> store \<Rightarrow> mail_error option" where
  "send_rate_limit k s =
     (if length (failed_deliveries k s) \<ge> 3
      then Some (DraftSendRateLimitError (''Demasiados intentos fallidos (3). Revis'' @ [CHR 0xE1]
        @ '' la configuraci'' @ [CHR 0xF3] @ ''n de mail.''))
      else (case first_max dlv_created_at (failed_deliveries k s) of
        None \<Rightarrow> None
      | Some d \<Rightarrow> let elapsed = now s - dlv_created_at d in
          if elapsed < send_cooldown
          then Some (DraftSendRateLimitError (''Cooldown activo. Reintent'' @ [CHR 0xE1] @ '' en ''
            @ int_str ((send_cooldown - elapsed) div 1000000) @ ''s.''))
          else None))"

text \<open>
  Everything \<open>send_draft\<close> checks before it writes: an error, or \<open>None\<close> for an unknown draft,
  or the draft with the address of its lead.
\<close>

definition send_checks ::
    "uuid \<Rightarrow> store \<Rightarrow> mail_error + (outreach_draft \<times> string) option" where
  "send_checks k s = (case get_draft s k of
     None \<Rightarrow> Inr None
   | Some d \<Rightarrow>
       if draft_status d = D_SENT then Inl (DraftAlreadySentError ''Draft has already been sent.'')
       else if draft_status d \<noteq> D_APPROVED
       then Inl (DraftNotApprovedError ''Draft must be approved before sending.'')
       else (case send_rate_limit k s of
         Some e \<Rightarrow> Inl e
       | None \<Rightarrow>
           let recipient = (case get_lead s (draft_lead_id d) of
             None \<Rightarrow> [] | Some l \<Rightarrow> strip (text_or_empty (lead_email l)))
           in if recipient = []
              then Inl (DraftRecipientMissingError ''Lead does not have a recipient email.'')
              else Inr (Some (d, recipient))))"

definition new_mail_delivery ::
    "outbound_config \<Rightarrow> outreach_draft \<Rightarrow> string \<Rightarrow> store \<Rightarrow> outreach_delivery" where
  "new_mail_delivery c d recipient s = \<lparr>dlv_id = next_uuid s, dlv_lead_id = draft_lead_id d,
     dlv_draft_id = draft_id d, dlv_provider = oc_provider c, dlv_provider_message_id = None,
     dlv_recipient_email = recipient, dlv_subject_snapshot = text_or_empty (draft_subject d),
     dlv_status = DLV_SENDING, dlv_error = None, dlv_sent_at = None, dlv_created_at = now s,
     dlv_updated_at = now s\<rparr>"

text \<open>
  The commit of the new row fails on the unique index, as this session or another one that
  committed sees it, and on a draft without a subject (\<open>subject_snapshot\<close> is not nullable).
\<close>

definition delivery_refused :: "outreach_draft \<Rightarrow> outreach_delivery \<Rightarrow> store \<Rightarrow> store \<Rightarrow> bool" where
  "delivery_refused d n base s =
     (draft_subject d = None \<or> delivery_clash n s \<or> delivery_clash n base)"

definition refused_error :: "uuid \<Rightarrow> store \<Rightarrow> mail_error" where
  "refused_error k s = (case get_draft s k of
     None \<Rightarrow> OtherError ''Could not refresh instance''
   | Some d \<Rightarrow> if draft_status d = D_SENT
       then DraftAlreadySentError ''Draft has already been sent.''
       else DraftAlreadySentError ''Draft send is already in progress.'')"

definition delivery_sent ::
    "string \<Rightarrow> string option \<Rightarrow> datetime \<Rightarrow> outreach_delivery \<Rightarrow> outreach_delivery" where
  "delivery_sent provider message_id t d = d\<lparr>dlv_status := DLV_SENT, dlv_provider := provider,
     dlv_provider_message_id := message_id, dlv_sent_at := Some t, dlv_error := None\<rparr>"

definition delivery_failed :: "string \<Rightarrow> outreach_delivery \<Rightarrow> outreach_delivery" where
  "delivery_failed e d = d\<lparr>dlv_status := DLV_FAILED, dlv_error := Some e\<rparr>"

text \<open>
  The second half, from the state in which the delivery \<open>n\<close> has just been committed.  The
  result, then what is committed, then what the session sees.
\<close>

definition deliver ::
    "mail_setup \<Rightarrow> outbound_config \<Rightarrow> outreach_draft \<Rightarrow> outreach_delivery \<Rightarrow> store \<Rightarrow>
     (mail_error + outreach_delivery option) \<times> store \<times> store" where
  "deliver w c d n s =
     (case send_mail w (now s) (build_mail_send_request c (dlv_recipient_email n)
         (text_or_empty (draft_subject d)) (draft_body d) None None) of
        OtherExc e \<Rightarrow> (Inl (OtherError e), s, s)
      | MailProviderErr e \<Rightarrow>
          let s1 = upd_delivery (dlv_id n) (delivery_failed e) s;
              s2 = on_send_failed s1 (Some (dlv_id n)) None (Some (dlv_recipient_email n)) (Some e)
                ''outreach'' s1
          in (Inr (get_delivery s1 (dlv_id n)), s1, s2)
      | MailSent provider message_id t \<Rightarrow>
          let s1 = upd_delivery (dlv_id n) (delivery_sent provider message_id t) s;
              s2 = snd (update_draft (draft_id d) (status_change D_SENT None ''system'') s1)
          in (Inr (get_delivery s1 (dlv_id n)), s, s2))"

definition send_draft ::
    "mail_setup \<Rightarrow> uuid \<Rightarrow> store \<Rightarrow> store \<Rightarrow>
     (mail_error + outreach_delivery option) \<times> store \<times> store" where
  "send_draft w k base s =
     (let (ready, s1) = ensure_outbound_mail_ready w s in
      case ready of
        Inl e \<Rightarrow> (Inl e, base, s1)
      | Inr c \<Rightarrow> (case send_checks k s1 of
          Inl e \<Rightarrow> (Inl e, base, s1)
        | Inr None \<Rightarrow> (Inr None, base, s1)
        | Inr (Some (d, recipient)) \<Rightarrow>
            let n = new_mail_delivery c d recipient s1 in
            if delivery_refused d n base s1
            then let s2 = rollback_to base (tick_uuid s1) in (Inl (refused_error k s2), base, s2)
            else deliver w c d n (add_delivery n (tick_uuid s1))))"

section \<open>The endpoints\<close>

text \<open>
  \<open>get_db\<close> closes the session when the request ends, which rolls back what was not committed:
  the committed state after a request.
\<close>

definition request_end :: "store \<Rightarrow> store \<Rightarrow> store" where
  "request_end base s = rollback_to base s"

definition http_status_of :: "mail_error \<Rightarrow> int" where
  "http_status_of e = (case e of
     MailDisabledError m \<Rightarrow> 503
   | DraftSendRateLimitError m \<Rightarrow> 429
   | DraftNotApprovedError m \<Rightarrow> 409
   | DraftAlreadySentError m \<Rightarrow> 409
   | DraftRecipientMissingError m \<Rightarrow> 400
   | MailConfigurationError m \<Rightarrow> 500
   | OtherError m \<Rightarrow> 500)"

definition send_draft_by_id ::
    "mail_setup \<Rightarrow> uuid \<Rightarrow> store \<Rightarrow> (int + outreach_delivery) \<times> store" where
  "send_draft_by_id w k s = (case send_draft w k s s of
     (res, base, s') \<Rightarrow>
       (case res of Inl e \<Rightarrow> Inl (http_status_of e)
        | Inr None \<Rightarrow> Inl 404
        | Inr (Some d) \<Rightarrow> Inr d, request_end base s'))"

definition review_endpoint ::
    "uuid \<Rightarrow> bool \<Rightarrow> string option \<Rightarrow> store \<Rightarrow> (int + outreach_draft) \<times> store" where
  "review_endpoint k approved feedback s = (case review_draft k approved feedback s of
     (res, s') \<Rightarrow> (case res of None \<Rightarrow> Inl 404 | Some d \<Rightarrow> Inr d, request_end s s'))"

definition patch_draft ::
    "uuid \<Rightarrow> draft_change \<Rightarrow> store \<Rightarrow> (int + outreach_draft) \<times> store" where
  "patch_draft k c s = (case update_draft k (c\<lparr>dc_actor := ''user''\<rparr>) s of
     (res, s') \<Rightarrow> (case res of None \<Rightarrow> Inl 404 | Some d \<Rightarrow> Inr d, request_end s s'))"

section \<open>How a send unfolds\<close>

lemma settings_row_frame [simp]:
  "deliveries (snd (get_or_create s)) = deliveries s" "drafts (snd (get_or_create s)) = drafts s"
  "leads (snd (get_or_create s)) = leads s" "ologs (snd (get_or_create s)) = ologs s"
  "next_uuid (snd (get_or_create s)) = next_uuid s"
  by (simp_all add: get_or_create_frame [of s])

lemma lookup_settings_row [simp]:
  "get_draft (snd (get_or_create s)) = get_draft s" "get_lead (snd (get_or_create s)) = get_lead s"
  by (simp_all add: get_draft_def get_lead_def fun_eq_iff)

lemma ensure_ready_state [simp]: "snd (ensure_outbound_mail_ready w s) = snd (get_or_create s)"
  by (simp add: ensure_outbound_mail_ready_def get_effective_outbound_mail_config_def split_beta Let_def)

lemma send_rate_limit_settings [simp]:
  "send_rate_limit k (snd (get_or_create s)) = send_rate_limit k s"
  by (simp add: send_rate_limit_def failed_deliveries_def split: option.split)

lemma send_checks_settings [simp]: "send_checks k (snd (get_or_create s)) = send_checks k s"
  by (simp add: send_checks_def split: option.split)

definition claimed :: "mail_setup \<Rightarrow> uuid \<Rightarrow> store \<Rightarrow> store \<Rightarrow> outbound_config \<Rightarrow>
    outreach_draft \<Rightarrow> outreach_delivery \<Rightarrow> bool" where
  "claimed w k base s c d n \<longleftrightarrow> (\<exists>r. fst (ensure_outbound_mail_ready w s) = Inr c
     \<and> send_checks k s = Inr (Some (d, r)) \<and> n = new_mail_delivery c d r (snd (get_or_create s))
     \<and> \<not> delivery_refused d n base (snd (get_or_create s)))"

lemma send_draft_claimed:
  assumes "claimed w k base s c d n"
  shows "send_draft w k base s = deliver w c d n (add_delivery n (tick_uuid (snd (get_or_create s))))"
  using assms by (auto simp: send_draft_def claimed_def split_beta Let_def)

lemma send_draft_unclaimed:
  assumes "\<nexists>c d n. claimed w k base s c d n"
  shows "(\<exists>e. fst (send_draft w k base s) = Inl e) \<or> fst (send_draft w k base s) = Inr None"
    and "fst (snd (send_draft w k base s)) = base"
    and "deliveries (snd (snd (send_draft w k base s))) \<in> {deliveries s, deliveries base}"
  using assms by (auto simp: send_draft_def claimed_def split_beta Let_def split: sum.split option.split)

lemma send_checks_Some:
  assumes "send_checks k s = Inr (Some (d, r))"
  shows "get_draft s k = Some d" "draft_id d = k" "draft_status d = D_APPROVED"
    "send_rate_limit k s = None" "r \<noteq> []"
    "\<exists>l. get_lead s (draft_lead_id d) = Some l \<and> r = strip (text_or_empty (lead_email l))"
  using assms draft_tbl.get_key [of s k d]
  by (auto simp: send_checks_def Let_def split: option.splits if_splits)

lemma no_lost_race_self [simp]: "\<not> lost_race s a s"
  by (auto simp: lost_race_def)

lemma on_send_failed_frame: "notif_frame s (on_send_failed s a b r e t s)"
  by (simp add: on_send_failed_def Let_def emit_notif_frame)

lemma delivery_change_id [simp]:
  "dlv_id (delivery_failed e n) = dlv_id n" "dlv_id (delivery_sent p m t n) = dlv_id n"
  "dlv_draft_id (delivery_failed e n) = dlv_draft_id n"
  "dlv_draft_id (delivery_sent p m t n) = dlv_draft_id n"
  "dlv_status (delivery_failed e n) = DLV_FAILED" "dlv_status (delivery_sent p m t n) = DLV_SENT"
  by (simp_all add: delivery_failed_def delivery_sent_def)

lemma new_mail_delivery_fields [simp]:
  "dlv_id (new_mail_delivery c d r s) = next_uuid s"
  "dlv_draft_id (new_mail_delivery c d r s) = draft_id d"
  "dlv_status (new_mail_delivery c d r s) = DLV_SENDING"
  "dlv_recipient_email (new_mail_delivery c d r s) = r"
  by (simp_all add: new_mail_delivery_def)

text \<open>The mail handed to the server by \<open>deliver\<close>, and its answer.\<close>

definition handed_over ::
    "mail_setup \<Rightarrow> outbound_config \<Rightarrow> outreach_draft \<Rightarrow> outreach_delivery \<Rightarrow> datetime \<Rightarrow> mail_reply" where
  "handed_over w c d n t = send_mail w t (build_mail_send_request c (dlv_recipient_email n)
     (text_or_empty (draft_subject d)) (draft_body d) None None)"

lemma deliver_deliveries:
  "case handed_over w c d n (now s) of
     MailSent p m t \<Rightarrow> fst (snd (deliver w c d n s)) = s
       \<and> deliveries (snd (snd (deliver w c d n s)))
           = tbl_update dlv_id (dlv_id n) (stamp_delivery s (delivery_sent p m t)) (deliveries s)
   | MailProviderErr e \<Rightarrow>
       deliveries (fst (snd (deliver w c d n s)))
           = tbl_update dlv_id (dlv_id n) (stamp_delivery s (delivery_failed e)) (deliveries s)
       \<and> deliveries (snd (snd (deliver w c d n s)))
           = tbl_update dlv_id (dlv_id n) (stamp_delivery s (delivery_failed e)) (deliveries s)
   | OtherExc e \<Rightarrow> deliver w c d n s = (Inl (OtherError e), s, s)"
  using notif_frame_fields(8) [OF on_send_failed_frame]
  by (simp add: handed_over_def deliver_def Let_def upd_delivery_def split: mail_reply.split)

section \<open>A setup for closed examples\<close>

definition demo_mail :: "smtp_answer \<Rightarrow> mail_setup" where
  "demo_mail a = \<lparr>
     ms_env = \<lparr>env_MAIL_ENABLED = True, env_MAIL_FROM_EMAIL = Some ''me@x.com'',
       env_MAIL_FROM_NAME = ''Me'', env_MAIL_REPLY_TO = None, env_MAIL_SEND_TIMEOUT = 30,
       env_MAIL_INBOUND_ENABLED = False, env_MAIL_IMAP_MAILBOX = ''INBOX'',
       env_MAIL_IMAP_SEARCH_CRITERIA = ''ALL'', env_MAIL_INBOUND_SYNC_LIMIT = 25,
       env_MAIL_INBOUND_TIMEOUT = 30, env_MAIL_USE_REVIEWER_FOR_LABELS = ''''\<rparr>,
     ms_smtp_env = \<lparr>env_MAIL_PROVIDER = ''smtp'', env_MAIL_SMTP_HOST = Some ''mail.x.com'',
       env_MAIL_SMTP_PORT = 587, env_MAIL_SMTP_USERNAME = None, env_MAIL_SMTP_PASSWORD = None,
       env_MAIL_SMTP_STARTTLS = True, env_MAIL_SMTP_SSL = False\<rparr>,
     ms_cipher = \<lparr>crypt_encrypt = id, crypt_decrypt = Some, crypt_decrypt_legacy = Some\<rparr>,
     ms_credentials = default_credentials 0, ms_server = (\<lambda>r. a)\<rparr>"

end
