(* ===== verification/Mail_Safety.thy ===== *)
theory Mail_Safety
  imports Mail_Service
begin

text \<open>
  What sending guarantees: over any interleaving of sessions, crashes and roll-backs the mail
  server accepts at most one e-mail per draft, and what a single send does to the database.
\<close>

section \<open>The protocol of claims\<close>

text \<open>
  A session claims a draft by committing a \<open>sending\<close> row, hands the mail over, and settles the
  row.  The lists: the deliveries, the claims in flight (draft and row), and the drafts whose
  mail the server accepted.
\<close>

type_synonym flight = "uuid \<times> uuid"

definition flights_ok :: "outreach_delivery list \<Rightarrow> flight list \<Rightarrow> uuid list \<Rightarrow> bool" where
  "flights_ok rows fs acc \<longleftrightarrow> distinct (map snd fs) \<and> (\<forall>(k, i) \<in> set fs. k \<notin> set acc
     \<and> (\<exists>n \<in> set rows. dlv_id n = i \<and> dlv_draft_id n = k \<and> dlv_status n = DLV_SENDING))"

definition accepted_ok :: "outreach_delivery list \<Rightarrow> uuid list \<Rightarrow> bool" where
  "accepted_ok rows acc \<longleftrightarrow> distinct acc
     \<and> (\<forall>k \<in> set acc. \<exists>n \<in> set rows. dlv_draft_id n = k \<and> active_or_sent n)"

definition index_ok :: "outreach_delivery list \<Rightarrow> bool" where
  "index_ok rows \<longleftrightarrow> distinct (map dlv_id rows)
     \<and> distinct (map dlv_draft_id (filter active_or_sent rows))"

definition claims_ok :: "outreach_delivery list \<Rightarrow> flight list \<Rightarrow> uuid list \<Rightarrow> bool" where
  "claims_ok rows fs acc \<longleftrightarrow> index_ok rows \<and> flights_ok rows fs acc \<and> accepted_ok rows acc"

lemma active_sending: "dlv_status n = DLV_SENDING \<Longrightarrow> active_or_sent n"
  by (simp add: active_or_sent_def)

lemma index_unique:
  assumes "index_ok rows" "a \<in> set rows" "b \<in> set rows" "active_or_sent a" "active_or_sent b"
    "dlv_draft_id a = dlv_draft_id b"
  shows "a = b"
  using assms by (auto simp: index_ok_def distinct_map inj_on_def)

lemma index_id_unique:
  "index_ok rows \<Longrightarrow> a \<in> set rows \<Longrightarrow> b \<in> set rows \<Longrightarrow> dlv_id a = dlv_id b \<Longrightarrow> a = b"
  by (auto simp: index_ok_def distinct_map inj_on_def)

lemma claims_ok_add:
  assumes "claims_ok rows fs acc" and "dlv_id n \<notin> dlv_id ` set rows"
    and "\<not> (\<exists>d \<in> set rows. dlv_draft_id d = dlv_draft_id n \<and> active_or_sent d)"
    and "dlv_status n = DLV_SENDING"
  shows "claims_ok (rows @ [n]) fs acc"
    and "claims_ok (rows @ [n]) ((dlv_draft_id n, dlv_id n) # fs) acc"
proof -
  have i: "index_ok (rows @ [n])"
    using assms by (auto simp: claims_ok_def index_ok_def)
  have a: "accepted_ok (rows @ [n]) acc"
    using assms(1) by (auto simp: claims_ok_def accepted_ok_def)
  have f: "flights_ok (rows @ [n]) fs acc"
    using assms(1) by (fastforce simp: claims_ok_def flights_ok_def)
  have "dlv_draft_id n \<notin> set acc"
    using assms(1,3) by (auto simp: claims_ok_def accepted_ok_def)
  moreover have "dlv_id n \<notin> snd ` set fs"
    using assms(1,2) by (force simp: claims_ok_def flights_ok_def)
  ultimately have "flights_ok (rows @ [n]) ((dlv_draft_id n, dlv_id n) # fs) acc"
    using f assms(4) by (auto simp: flights_ok_def)
  with i a f show "claims_ok (rows @ [n]) fs acc"
    "claims_ok (rows @ [n]) ((dlv_draft_id n, dlv_id n) # fs) acc"
    by (auto simp: claims_ok_def)
qed

text \<open>Settling a claim: its row changes by \<open>f\<close>, which never makes a row active again.\<close>

definition settles :: "(outreach_delivery \<Rightarrow> outreach_delivery) \<Rightarrow> bool \<Rightarrow> bool" where
  "settles f accepted \<longleftrightarrow> (\<forall>n. dlv_id (f n) = dlv_id n \<and> dlv_draft_id (f n) = dlv_draft_id n
     \<and> (active_or_sent (f n) \<longrightarrow> active_or_sent n)
     \<and> (accepted \<longrightarrow> active_or_sent n \<longrightarrow> active_or_sent (f n)))"

lemma settlesD:
  assumes "settles f accepted"
  shows "dlv_id (f n) = dlv_id n" "dlv_draft_id (f n) = dlv_draft_id n"
    "active_or_sent (f n) \<Longrightarrow> active_or_sent n"
    "accepted \<Longrightarrow> active_or_sent n \<Longrightarrow> active_or_sent (f n)"
  using assms unfolding settles_def by blast+

lemma distinct_filter_map:
  assumes "\<And>x. h (g x) = h x" and "\<And>x. p (g x) \<Longrightarrow> p x" and "distinct (map h (filter p xs))"
  shows "distinct (map h (filter p (map g xs)))"
  using assms(3)
proof (induction xs)
  case (Cons x xs)
  have "h x \<notin> h ` set (filter p (map g xs))" if "p x"
    using Cons.prems that assms(1,2) by (force simp: image_iff)
  with Cons show ?case using assms(1) [of x] assms(2) [of x] by (simp split: if_splits)
qed simp

lemma index_ok_settle:
  assumes "index_ok rows" and "settles f accepted"
  shows "index_ok (tbl_update dlv_id i f rows)"
proof -
  have keep: "dlv_id (f n) = dlv_id n" "dlv_draft_id (f n) = dlv_draft_id n"
    "active_or_sent (f n) \<Longrightarrow> active_or_sent n" for n
    by (fact settlesD [OF assms(2)])+
  have "map dlv_id (tbl_update dlv_id i f rows) = map dlv_id rows"
    by (simp add: keep map_key_tbl_update)
  moreover have "distinct (map dlv_draft_id (filter active_or_sent (tbl_update dlv_id i f rows)))"
    unfolding tbl_update_def
  proof (rule distinct_filter_map)
    show "distinct (map dlv_draft_id (filter active_or_sent rows))"
      using assms(1) by (simp add: index_ok_def)
  qed (auto simp: keep split: if_splits dest: keep(3))
  ultimately show ?thesis using assms(1) by (simp add: index_ok_def)
qed

lemma accepted_okI:
  "distinct acc \<Longrightarrow> (\<And>k. k \<in> set acc \<Longrightarrow> \<exists>n \<in> set rows. dlv_draft_id n = k \<and> active_or_sent n) \<Longrightarrow>
     accepted_ok rows acc"
  by (simp add: accepted_ok_def)

lemma accepted_ok_Cons:
  "accepted_ok rows acc \<Longrightarrow> k \<notin> set acc \<Longrightarrow>
     \<exists>n \<in> set rows. dlv_draft_id n = k \<and> active_or_sent n \<Longrightarrow> accepted_ok rows (k # acc)"
  by (simp add: accepted_ok_def)

lemma claims_ok_settle:
  assumes ok: "claims_ok rows fs acc" and g: "(k, i) \<in> set fs" and f: "settles f accepted"
  shows "claims_ok (tbl_update dlv_id i f rows) (remove1 (k, i) fs)
    (if accepted then k # acc else acc)"
proof -
  let ?rows = "tbl_update dlv_id i f rows"
  have ind: "index_ok rows" and fo: "flights_ok rows fs acc" and ao: "accepted_ok rows acc"
    using ok by (simp_all add: claims_ok_def)
  obtain n where n: "n \<in> set rows" "dlv_id n = i" "dlv_draft_id n = k" "active_or_sent n"
    and k: "k \<notin> set acc"
    using fo g by (fastforce simp: flights_ok_def active_sending)
  have stay: "m \<in> set ?rows" if "m \<in> set rows" "dlv_id m \<noteq> i" for m
    using that by (auto simp: in_tbl_update intro: bexI [of _ m])
  have fn: "f n \<in> set ?rows" using n by (auto simp: in_tbl_update intro!: bexI [of _ n])
  have "\<exists>m \<in> set ?rows. dlv_draft_id m = k' \<and> active_or_sent m" if "k' \<in> set acc" for k'
  proof -
    from ao that have "\<exists>m \<in> set rows. dlv_draft_id m = k' \<and> active_or_sent m"
      by (simp add: accepted_ok_def)
    then obtain m where m: "m \<in> set rows" "dlv_draft_id m = k'" "active_or_sent m" by blast
    then have "dlv_id m \<noteq> i"
      using index_id_unique [OF ind m(1) n(1)] n k that by auto
    with m stay show ?thesis by blast
  qed
  note old = this
  have "dlv_draft_id (f n) = k" "accepted \<Longrightarrow> active_or_sent (f n)"
    using settlesD(2,4) [OF f, of n] n by simp_all
  with fn have here: "accepted \<Longrightarrow> \<exists>m \<in> set ?rows. dlv_draft_id m = k \<and> active_or_sent m"
    by blast
  have "distinct acc" using ao by (simp add: accepted_ok_def)
  have acc: "accepted_ok ?rows (if accepted then k # acc else acc)"
  proof (cases accepted)
    case True
    have "accepted_ok ?rows acc" by (rule accepted_okI [OF \<open>distinct acc\<close> old])
    from accepted_ok_Cons [OF this k] True here show ?thesis by simp
  next
    case False
    then show ?thesis using accepted_okI [OF \<open>distinct acc\<close> old] by simp
  qed
  have dm: "distinct (map snd fs)" using fo by (simp add: flights_ok_def)
  then have dis: "distinct (map snd (remove1 (k, i) fs))" "distinct fs"
    by (auto simp: distinct_map intro: inj_on_subset)
  have other: "k' \<noteq> k \<and> i' \<noteq> i \<and> k' \<notin> set acc \<and>
      (\<exists>m \<in> set ?rows. dlv_id m = i' \<and> dlv_draft_id m = k' \<and> dlv_status m = DLV_SENDING)"
    if "(k', i') \<in> set (remove1 (k, i) fs)" for k' i'
  proof -
    from that dis(2) have in': "(k', i') \<in> set fs" "(k', i') \<noteq> (k, i)" by auto
    then obtain m where m: "m \<in> set rows" "dlv_id m = i'" "dlv_draft_id m = k'"
      "dlv_status m = DLV_SENDING" "k' \<notin> set acc"
      using fo by (fastforce simp: flights_ok_def)
    have i': "i' \<noteq> i"
      using fo in' g by (force simp: flights_ok_def distinct_map inj_on_def)
    have "k' \<noteq> k"
      using index_unique [OF ind m(1) n(1) active_sending [OF m(4)] n(4)] m n i' by auto
    with m i' stay show ?thesis by blast
  qed
  then have "flights_ok ?rows (remove1 (k, i) fs) (if accepted then k # acc else acc)"
    using dis by (auto simp: flights_ok_def)
  with acc index_ok_settle [OF ind f] show ?thesis by (simp add: claims_ok_def)
qed

section \<open>The reachable states\<close>

text \<open>
  \<open>mail_reach s fs acc\<close>: the committed database \<open>s\<close>, the claims in flight and the drafts whose
  mail the server accepted.  A claim is made by a session whose view \<open>v\<close> of the database may be
  stale, with a fresh row id; settling a claim hands the mail over and leaves the database as
  it was (a crash), with what \<open>send_draft\<close> committed (the caller rolls back) or with all of it
  (the caller commits); a WhatsApp send adds a row of its own; anything else leaves the
  deliveries alone.
\<close>

inductive mail_reach :: "store \<Rightarrow> flight list \<Rightarrow> uuid list \<Rightarrow> bool" where
  mr_start: "deliveries s = [] \<Longrightarrow> mail_reach s [] []"
| mr_claim: "mail_reach s fs acc \<Longrightarrow> claimed w k s v c d n \<Longrightarrow>
    dlv_id n \<notin> dlv_id ` set (deliveries s) \<Longrightarrow>
    mail_reach (add_delivery n s) ((draft_id d, dlv_id n) # fs) acc"
| mr_accept: "mail_reach s fs acc \<Longrightarrow> (draft_id d, dlv_id n) \<in> set fs \<Longrightarrow>
    handed_over w c d n (now s) = MailSent p m t \<Longrightarrow>
    s' \<in> {s, fst (snd (deliver w c d n s)), snd (snd (deliver w c d n s))} \<Longrightarrow>
    mail_reach s' (remove1 (draft_id d, dlv_id n) fs) (draft_id d # acc)"
| mr_refuse: "mail_reach s fs acc \<Longrightarrow> (draft_id d, dlv_id n) \<in> set fs \<Longrightarrow>
    handed_over w c d n (now s) = MailProviderErr e \<or> handed_over w c d n (now s) = OtherExc e \<Longrightarrow>
    s' \<in> {s, fst (snd (deliver w c d n s)), snd (snd (deliver w c d n s))} \<Longrightarrow>
    mail_reach s' (remove1 (draft_id d, dlv_id n) fs) acc"
| mr_whatsapp: "mail_reach s fs acc \<Longrightarrow> send_whatsapp_draft kapso k s = Inr (n, s') \<Longrightarrow>
    dlv_id n \<notin> dlv_id ` set (deliveries s) \<Longrightarrow> mail_reach s' fs acc"
| mr_other: "mail_reach s fs acc \<Longrightarrow> deliveries s' = deliveries s \<Longrightarrow> mail_reach s' fs acc"

definition when_sending ::
    "(outreach_delivery \<Rightarrow> outreach_delivery) \<Rightarrow> outreach_delivery \<Rightarrow> outreach_delivery" where
  "when_sending f r = (if dlv_status r = DLV_SENDING then f r else r)"

lemma update_when_sending:
  assumes "claims_ok rows fs acc" and "(k, i) \<in> set fs"
  shows "tbl_update dlv_id i f rows = tbl_update dlv_id i (when_sending f) rows"
proof -
  obtain n where n: "n \<in> set rows" "dlv_id n = i" "dlv_status n = DLV_SENDING"
    using assms by (fastforce simp: claims_ok_def flights_ok_def)
  have "r = n" if "r \<in> set rows" "dlv_id r = i" for r
    using index_id_unique that n assms(1) unfolding claims_ok_def by metis
  with n(3) show ?thesis by (auto simp: tbl_update_def when_sending_def)
qed

lemma settles_outcomes:
  "settles (when_sending (stamp_delivery s (delivery_sent p m t))) True"
  "settles (when_sending (stamp_delivery s (delivery_failed e))) False"
  "settles id accepted"
  by (auto simp: settles_def when_sending_def active_or_sent_def)

lemma tbl_update_id [simp]: "tbl_update key k id rows = rows"
  by (induction rows) simp_all

lemma claims_ok_deliver:
  assumes ok: "claims_ok (deliveries s) fs acc" and g: "(draft_id d, dlv_id n) \<in> set fs"
    and s': "s' \<in> {s, fst (snd (deliver w c d n s)), snd (snd (deliver w c d n s))}"
  shows "claims_ok (deliveries s') (remove1 (draft_id d, dlv_id n) fs)
    (case handed_over w c d n (now s) of MailSent p m t \<Rightarrow> draft_id d # acc | _ \<Rightarrow> acc)"
proof -
  have crash: "claims_ok (deliveries s) (remove1 (draft_id d, dlv_id n) fs)
      (if accepted then draft_id d # acc else acc)" for accepted
    using claims_ok_settle [OF ok g settles_outcomes(3)] by simp
  show ?thesis
  proof (cases "handed_over w c d n (now s)")
    case (MailSent p m t)
    have "claims_ok (tbl_update dlv_id (dlv_id n) (stamp_delivery s (delivery_sent p m t))
        (deliveries s)) (remove1 (draft_id d, dlv_id n) fs) (draft_id d # acc)"
      using claims_ok_settle [OF ok g settles_outcomes(1)]
      by (simp only: update_when_sending [OF ok g, where f = "stamp_delivery _ _"] if_True)
    with MailSent s' crash [of True] deliver_deliveries [of w c d n s] show ?thesis by auto
  next
    case (MailProviderErr e)
    have "claims_ok (tbl_update dlv_id (dlv_id n) (stamp_delivery s (delivery_failed e))
        (deliveries s)) (remove1 (draft_id d, dlv_id n) fs) acc"
      using claims_ok_settle [OF ok g settles_outcomes(2)]
      by (simp only: update_when_sending [OF ok g, where f = "stamp_delivery _ _"] if_False)
    with MailProviderErr s' crash [of False] deliver_deliveries [of w c d n s] show ?thesis by auto
  next
    case (OtherExc e)
    with s' crash [of False] deliver_deliveries [of w c d n s] show ?thesis by auto
  qed
qed

lemma claimed_not_clash:
  assumes "claimed w k base v c d n"
  shows "dlv_draft_id n = draft_id d" "dlv_status n = DLV_SENDING"
    "\<not> (\<exists>m \<in> set (deliveries base). dlv_draft_id m = dlv_draft_id n \<and> active_or_sent m)"
proof -
  from assms show d: "dlv_draft_id n = draft_id d" and s: "dlv_status n = DLV_SENDING"
    by (auto simp: claimed_def)
  from assms have "\<not> delivery_clash n base" by (auto simp: claimed_def delivery_refused_def)
  with s show "\<not> (\<exists>m \<in> set (deliveries base). dlv_draft_id m = dlv_draft_id n \<and> active_or_sent m)"
    by (auto simp: delivery_clash_def active_or_sent_def)
qed

lemma mail_reach_claims: "mail_reach s fs acc \<Longrightarrow> claims_ok (deliveries s) fs acc"
proof (induction rule: mail_reach.induct)
  case (mr_start s)
  then show ?case by (simp add: claims_ok_def index_ok_def flights_ok_def accepted_ok_def)
next
  case (mr_claim s fs acc w k v c d n)
  from claims_ok_add(2) [OF mr_claim.IH mr_claim.hyps(3) claimed_not_clash(3,2) [OF mr_claim.hyps(2)]]
  show ?case by (simp add: claimed_not_clash(1) [OF mr_claim.hyps(2)])
next
  case (mr_accept s fs acc d n w c p m t s')
  from claims_ok_deliver [OF mr_accept.IH mr_accept.hyps(2,4)] mr_accept.hyps(3) show ?case by simp
next
  case (mr_refuse s fs acc d n w c e s')
  from claims_ok_deliver [OF mr_refuse.IH mr_refuse.hyps(2,4)] mr_refuse.hyps(3) show ?case by auto
next
  case (mr_whatsapp s fs acc kapso k n s')
  note wa = send_whatsapp_adds [OF mr_whatsapp.hyps(2)]
  have "\<not> (\<exists>d \<in> set (deliveries s). dlv_draft_id d = dlv_draft_id n \<and> active_or_sent d)"
    using wa(2,3) by (auto simp: delivery_clash_def active_or_sent_def)
  from claims_ok_add(1) [OF mr_whatsapp.IH mr_whatsapp.hyps(3) this wa(3)] show ?case
    by (simp add: wa(1))
qed simp

lemma count_list_distinct: "distinct xs \<Longrightarrow> count_list xs k \<le> 1"
  by (induction xs) (auto simp: count_list_0_iff)


section \<open>One send\<close>

lemma rate_limit_None:
  assumes "send_rate_limit k s = None"
  shows "length (failed_deliveries k s) < 3"
    "n \<in> set (failed_deliveries k s) \<Longrightarrow> now s - dlv_created_at n \<ge> send_cooldown"
proof -
  from assms show "length (failed_deliveries k s) < 3"
    by (simp add: send_rate_limit_def split: if_splits)
  assume n: "n \<in> set (failed_deliveries k s)"
  then obtain m where m: "first_max dlv_created_at (failed_deliveries k s) = Some m"
    by (cases "first_max dlv_created_at (failed_deliveries k s)") auto
  with assms have "now s - dlv_created_at m \<ge> send_cooldown"
    by (simp add: send_rate_limit_def Let_def split: if_splits)
  with first_max_ge [OF m n] show "now s - dlv_created_at n \<ge> send_cooldown" by simp
qed

lemma claimed_checks:
  assumes "claimed w k base s c d n"
  shows "get_draft s k = Some d" "draft_id d = k" "draft_status d = D_APPROVED"
    "length (failed_deliveries k s) < 3"
    "\<forall>n \<in> set (failed_deliveries k s). now s - dlv_created_at n \<ge> send_cooldown"
    "oc_enabled c" "missing_requirements c = []" "dlv_recipient_email n \<noteq> []"
    "dlv_id n = next_uuid s"
proof -
  from assms obtain r where c: "fst (ensure_outbound_mail_ready w s) = Inr c"
    and r: "send_checks k s = Inr (Some (d, r))"
    and n: "n = new_mail_delivery c d r (snd (get_or_create s))"
    by (auto simp: claimed_def)
  note sc = send_checks_Some [OF r]
  from sc show "get_draft s k = Some d" "draft_id d = k" "draft_status d = D_APPROVED" by simp_all
  from rate_limit_None [OF sc(4)] show "length (failed_deliveries k s) < 3"
    "\<forall>n \<in> set (failed_deliveries k s). now s - dlv_created_at n \<ge> send_cooldown" by auto
  from c show "oc_enabled c" "missing_requirements c = []"
    by (auto simp: ensure_outbound_mail_ready_def split_beta Let_def split: if_splits)
  from n sc(5) show "dlv_recipient_email n \<noteq> []" "dlv_id n = next_uuid s" by simp_all
qed

lemma active_blocks_claim:
  assumes "\<exists>m \<in> set (deliveries base). dlv_draft_id m = k \<and> active_or_sent m"
  shows "\<not> claimed w k base s c d n"
  using assms claimed_not_clash [of w k base s c d n] claimed_checks(2) [of w k base s c d n] by metis

lemma delivery_row_update:
  assumes "i \<notin> dlv_id ` set rows" and "dlv_id n = i"
  shows "tbl_update dlv_id i f (rows @ [n]) = rows @ [f n]"
proof -
  have "tbl_update dlv_id i f rows = rows"
    using assms(1) by (induction rows) auto
  then show ?thesis using assms(2) by (simp add: tbl_update_def)
qed

lemma deliver_result:
  assumes fresh: "dlv_id n \<notin> dlv_id ` set rows" and rows: "deliveries s = rows @ [n]"
  shows "case handed_over w c d n (now s) of
     MailSent p m t \<Rightarrow> fst (deliver w c d n s) = Inr (Some (stamp_delivery s (delivery_sent p m t) n))
       \<and> deliveries (snd (snd (deliver w c d n s))) = rows @ [stamp_delivery s (delivery_sent p m t) n]
       \<and> fst (snd (deliver w c d n s)) = s
       \<and> get_draft (snd (snd (deliver w c d n s))) = get_draft (snd (update_draft (draft_id d)
           (status_change D_SENT None ''system'') (upd_delivery (dlv_id n) (delivery_sent p m t) s)))
       \<and> get_lead (snd (snd (deliver w c d n s))) = get_lead (snd (update_draft (draft_id d)
           (status_change D_SENT None ''system'') (upd_delivery (dlv_id n) (delivery_sent p m t) s)))
   | MailProviderErr e \<Rightarrow> fst (deliver w c d n s) = Inr (Some (stamp_delivery s (delivery_failed e) n))
       \<and> deliveries (snd (snd (deliver w c d n s))) = rows @ [stamp_delivery s (delivery_failed e) n]
       \<and> get_draft (snd (snd (deliver w c d n s))) = get_draft s
       \<and> get_lead (snd (snd (deliver w c d n s))) = get_lead s
   | OtherExc e \<Rightarrow> deliver w c d n s = (Inl (OtherError e), s, s)"
proof -
  have "get_delivery s (dlv_id n) = Some n"
    using fresh tbl_get_None_iff [of dlv_id rows "dlv_id n"] by (simp add: get_delivery_def rows)
  then have g: "(\<And>m. dlv_id (f m) = dlv_id m) \<Longrightarrow>
      get_delivery (upd_delivery (dlv_id n) f s) (dlv_id n) = Some (stamp_delivery s f n)" for f
    by (simp add: delivery_tbl.get_upd_same)
  have u: "deliveries (upd_delivery (dlv_id n) f s) = rows @ [stamp_delivery s f n]" for f
    by (simp add: upd_delivery_def rows delivery_row_update [OF fresh refl])
  have fr: "drafts (on_send_failed x a b r e t x) = drafts x" "leads (on_send_failed x a b r e t x) = leads x"
    "deliveries (on_send_failed x a b r e t x) = deliveries x" for x a b r e t
    using notif_frame_fields [OF on_send_failed_frame [of x a b r e t]] by simp_all
  have "drafts (upd_delivery i f s) = drafts s" "leads (upd_delivery i f s) = leads s" for i f
    by simp_all
  then show ?thesis
    by (auto simp: handed_over_def deliver_def Let_def g u fr
        get_draft_def get_lead_def fun_eq_iff split: mail_reply.split)
qed

lemma claimed_state:
  fixes s :: store
  defines "s1 \<equiv> snd (get_or_create s)"
  shows "deliveries (add_delivery n (tick_uuid s1)) = deliveries s @ [n]"
    "get_draft (add_delivery n (tick_uuid s1)) = get_draft s"
    "get_lead (add_delivery n (tick_uuid s1)) = get_lead s"
    "drafts (add_delivery n (tick_uuid s1)) = drafts s"
    "leads (add_delivery n (tick_uuid s1)) = leads s"
  by (simp_all add: s1_def)

text \<open>What a send leaves in the session that made it.\<close>

definition send_outcome ::
    "store \<Rightarrow> uuid \<Rightarrow> outreach_draft \<Rightarrow> outreach_delivery \<Rightarrow> store \<Rightarrow> bool" where
  "send_outcome s k d n s' \<longleftrightarrow> deliveries s' = deliveries s @ [n] \<and> dlv_draft_id n = k
     \<and> (dlv_status n = DLV_SENT
          \<and> map_option draft_status (get_draft s' k) = Some D_SENT
          \<and> map_option lead_status (get_lead s' (draft_lead_id d))
              = map_option (\<lambda>l. CONTACTED) (get_lead s (draft_lead_id d))
        \<or> dlv_status n = DLV_FAILED \<and> get_draft s' = get_draft s \<and> get_lead s' = get_lead s)"

lemma send_draft_returned:
  assumes fresh: "next_uuid s \<notin> dlv_id ` set (deliveries s)"
    and r: "send_draft w k base s = (Inr (Some n), b, s')"
  obtains c d n0 where "claimed w k base s c d n0" "send_outcome s k d n s'"
    "dlv_status n = DLV_SENT \<Longrightarrow> deliveries b = deliveries s @ [n0]
       \<and> get_draft b = get_draft s \<and> leads b = leads s"
proof -
  obtain c d n0 where cl: "claimed w k base s c d n0"
    using send_draft_unclaimed(1) [of w k base s] r by force
  let ?x = "add_delivery n0 (tick_uuid (snd (get_or_create s)))"
  note ch = claimed_checks [OF cl]
  have del: "deliver w c d n0 ?x = (Inr (Some n), b, s')"
    using r by (simp add: send_draft_claimed [OF cl])
  have fr: "dlv_id n0 \<notin> dlv_id ` set (deliveries s)" using fresh ch(9) by simp
  note res = deliver_result [where s = ?x, OF fr claimed_state(1), where w = w and c = c and d = d,
      unfolded del fst_conv snd_conv]
  note n0 = claimed_not_clash [OF cl]
  show thesis
  proof (cases "handed_over w c d n0 (now ?x)")
    case (MailSent p m t)
    let ?y = "upd_delivery (dlv_id n0) (delivery_sent p m t) ?x"
    let ?chg = "status_change D_SENT None ''system''"
    have y: "get_draft ?y k = Some d" "get_lead ?y = get_lead s"
      using ch(1) by (simp_all add: claimed_state(2,3))
    have soc: "status_of_change d ?chg = Some D_SENT"
      using ch(3) by (simp add: status_of_change_def status_change_def)
    have gd: "get_draft s' = get_draft (snd (update_draft k ?chg ?y))"
      and gl: "get_lead s' = get_lead (snd (update_draft k ?chg ?y))"
      and rows: "deliveries s' = deliveries s @ [n]" and b: "b = ?x"
      and n: "n = stamp_delivery ?x (delivery_sent p m t) n0"
      using res MailSent ch(2) by simp_all
    have "map_option draft_status (get_draft s' k) = Some D_SENT"
      by (simp add: gd update_draft_draft [OF y(1)] soc)
    moreover have "map_option lead_status (get_lead s' (draft_lead_id d))
        = map_option (\<lambda>l. CONTACTED) (get_lead s (draft_lead_id d))"
      by (cases "get_lead s (draft_lead_id d)") (simp_all add: gl update_draft_lead [OF y(1)] soc y(2))
    ultimately have "send_outcome s k d n s'"
      using rows n n0(1) ch(2) by (simp add: send_outcome_def)
    with that [OF cl] show thesis by (simp add: b claimed_state)
  next
    case (MailProviderErr e)
    then have "send_outcome s k d n s'" and "dlv_status n = DLV_FAILED"
      using res n0(1) ch(2) by (auto simp: send_outcome_def claimed_state)
    with that [OF cl] show thesis by simp
  next
    case (OtherExc e)
    with res show thesis by simp
  qed
qed


section \<open>The endpoints forget\<close>

text \<open>
  The send endpoint forgets what it did: when it answers that the mail was sent, the request
  ends without a commit, and the database still has the draft approved, the leads as before
  and the new delivery as \<open>sending\<close>, so that any later attempt to send the draft fails although
  the mail went out.
\<close>

theorem send_endpoint_forgets:
  assumes "next_uuid s \<notin> dlv_id ` set (deliveries s)"
    and "send_draft_by_id w k s = (Inr n, s')" and "dlv_status n = DLV_SENT"
  shows "map_option draft_status (get_draft s' k) = Some D_APPROVED \<and> leads s' = leads s
    \<and> (\<exists>m. deliveries s' = deliveries s @ [m] \<and> dlv_draft_id m = k \<and> dlv_status m = DLV_SENDING)
    \<and> (\<exists>e. fst (send_draft_by_id w' k s') = Inl e)"
proof -
  obtain b v where r: "send_draft w k s s = (Inr (Some n), b, v)" and s': "s' = rollback_to b v"
    using assms(2) by (auto simp: send_draft_by_id_def request_end_def split: sum.splits option.splits prod.splits)
  obtain c d n0 where cl: "claimed w k s s c d n0"
    and st: "deliveries b = deliveries s @ [n0] \<and> get_draft b = get_draft s \<and> leads b = leads s"
    by (rule send_draft_returned [OF assms(1) r]) (use assms(3) in blast)
  note ch = claimed_checks [OF cl] and n0 = claimed_not_clash [OF cl]
  have "map_option draft_status (get_draft s' k) = Some D_APPROVED" "leads s' = leads s"
    "deliveries s' = deliveries s @ [n0]" "dlv_draft_id n0 = k" "dlv_status n0 = DLV_SENDING"
    using st ch(1,2,3) n0 by (simp_all add: s')
  moreover have "\<nexists>c d n. claimed w' k s' s' c d n"
    using active_blocks_claim [of s' k w' s'] calculation by (auto simp: active_or_sent_def)
  then have "\<exists>e. fst (send_draft_by_id w' k s') = Inl e"
    using send_draft_unclaimed(1) [of w' k s' s']
    by (auto simp: send_draft_by_id_def split: prod.split)
  ultimately show ?thesis by blast
qed

definition same_outreach :: "store \<Rightarrow> store \<Rightarrow> bool" where
  "same_outreach s s' \<longleftrightarrow> drafts s' = drafts s \<and> leads s' = leads s \<and> ologs s' = ologs s
     \<and> deliveries s' = deliveries s"

text \<open>
  Reviews and edits through the HTTP interface are lost: the endpoint answers with the
  draft in its new state, but the request ends without a commit and drafts, leads, log and
  deliveries are as before.
\<close>

theorem review_endpoint_forgets:
  "(case get_draft s k of
      None \<Rightarrow> fst (review_endpoint k approved feedback s) = Inl 404
    | Some d \<Rightarrow> (\<exists>d'. fst (review_endpoint k approved feedback s) = Inr d'
        \<and> draft_status d' = (if approved then D_APPROVED else D_REJECTED)))
   \<and> same_outreach s (snd (review_endpoint k approved feedback s))
   \<and> same_outreach s (snd (patch_draft k c s))"
proof (cases "get_draft s k")
  case None
  then show ?thesis
    by (simp add: review_endpoint_def review_draft_def patch_draft_def request_end_def
        update_draft_def same_outreach_def)
next
  case (Some d)
  let ?st = "if approved then D_APPROVED else D_REJECTED"
  let ?c = "status_change ?st feedback ''user''"
  obtain d' where d': "get_draft (snd (update_draft k ?c s)) k = Some d'" "draft_status d' = ?st"
    by (auto simp: update_draft_draft [OF Some] status_of_change_def status_change_def)
  have "fst (update_draft k ?c s) = Some d'"
    using d'(1) by (simp add: update_draft_eq [OF Some] Let_def)
  then have "fst (review_endpoint k approved feedback s) = Inr d'"
    by (simp add: review_endpoint_def review_draft_def split_beta)
  with d'(2) Some show ?thesis
    by (simp add: review_endpoint_def patch_draft_def request_end_def split_beta same_outreach_def)
qed

section \<open>Witnesses\<close>

definition demo_mail_store :: store where
  "demo_mail_store = add_draft \<lparr>draft_id = 5, draft_lead_id = 1, draft_subject = Some ''Hola'',
       draft_body = ''Hola'', draft_channel = ''email'', draft_status = D_APPROVED,
       draft_generation_metadata_json = None, draft_generated_at = 0, draft_reviewed_at = None,
       draft_sent_at = None\<rparr>
     (add_lead ((blank_lead 1 ''Bar'' 0)\<lparr>lead_email := Some ''ana@x.com''\<rparr>)
       ((empty_store 0)\<lparr>next_uuid := 9\<rparr>))"

lemma demo_send:
  "case send_draft (demo_mail (Accepted ''<a@b>'')) 5 demo_mail_store demo_mail_store of
     (Inr (Some n), b, s') \<Rightarrow> dlv_status n = DLV_SENT | _ \<Rightarrow> False"
  by code_simp

lemma demo_sent:
  obtains n b s' where "send_draft (demo_mail (Accepted ''<a@b>'')) 5 demo_mail_store demo_mail_store
      = (Inr (Some n), b, s')" "dlv_status n = DLV_SENT"
  using demo_send by (auto split: prod.splits sum.splits option.splits)

lemma demo_mail_store_fresh: "deliveries demo_mail_store = []"
  by (simp add: demo_mail_store_def add_draft_def add_lead_def empty_store_def)


theorem send_endpoint_forgets_witness:
  "\<exists>n s'. send_draft_by_id (demo_mail (Accepted ''<a@b>'')) 5 demo_mail_store = (Inr n, s')
     \<and> dlv_status n = DLV_SENT \<and> map dlv_status (deliveries s') = [DLV_SENDING]"
proof -
  obtain n b v where r: "send_draft (demo_mail (Accepted ''<a@b>'')) 5 demo_mail_store demo_mail_store
      = (Inr (Some n), b, v)" and n: "dlv_status n = DLV_SENT"
    by (rule demo_sent)
  then have e: "send_draft_by_id (demo_mail (Accepted ''<a@b>'')) 5 demo_mail_store
      = (Inr n, rollback_to b v)"
    by (simp add: send_draft_by_id_def request_end_def)
  from send_endpoint_forgets [OF _ e n, of undefined] have "map dlv_status (deliveries (rollback_to b v)) = [DLV_SENDING]"
    by (auto simp: demo_mail_store_fresh)
  with e n show ?thesis by (intro exI conjI)
qed


end
