(* ===== verification/Auto_Send.thy ===== *)
theory Auto_Send
  imports Mail_Safety
begin

text \<open>
  Automatic outreach: the choice of a WhatsApp template
  (\<open>app/services/outreach/template_selection.py\<close>), sending an approved draft and tracking it
  as a conversation (\<open>auto_send_service.py\<close>), the draft workflow of the pipeline
  (\<open>app/workflows/outreach_draft_generation.py\<close>) and the follow-up scan
  (\<open>followup_service.py\<close>, \<open>app/workers/followup_tasks.py\<close>).  An instant inside a JSON document
  is kept as the number it stands for.
\<close>

section \<open>Templates\<close>

record template_choice =
  tpl_name :: string
  tpl_language :: string
  tpl_param_names :: "string list"

definition templates :: "(string \<times> template_choice) list" where
  "templates =
     [(''apertura_instagram'', \<lparr>tpl_name = ''apertura_instagram'', tpl_language = ''es_AR'',
        tpl_param_names = [''contact_name'', ''sender_name'']\<rparr>),
      (''apertura_sin_web'', \<lparr>tpl_name = ''apertura_sin_web'', tpl_language = ''es_AR'',
        tpl_param_names = [''contact_name'', ''business_name'']\<rparr>),
      (''apertura_web_vieja'', \<lparr>tpl_name = ''apertura_web_vieja'', tpl_language = ''es_AR'',
        tpl_param_names = [''contact_name'', ''business_name'']\<rparr>),
      (''apertura_general'', \<lparr>tpl_name = ''apertura_general'', tpl_language = ''es_AR'',
        tpl_param_names = [''contact_name'', ''sender_name'']\<rparr>),
      (''seguimiento'', \<lparr>tpl_name = ''seguimiento'', tpl_language = ''es_AR'',
        tpl_param_names = [''contact_name'', ''business_name'']\<rparr>)]"

definition template_named :: "string \<Rightarrow> template_choice" where
  "template_named n = (case map_of templates n of
     Some t \<Rightarrow> t | None \<Rightarrow> \<lparr>tpl_name = n, tpl_language = [], tpl_param_names = []\<rparr>)"

definition instagram_signals :: "string list" where
  "instagram_signals = [''instagram_only'']"

definition no_website_signals :: "string list" where
  "no_website_signals = [''no_website'']"

definition outdated_signals :: "string list" where
  "outdated_signals = [''outdated_website'', ''no_ssl'', ''no_mobile_friendly'']"

definition select_template :: "string list \<Rightarrow> template_choice" where
  "select_template sigs =
     (if \<exists>g \<in> set sigs. g \<in> set instagram_signals then template_named ''apertura_instagram''
      else if \<exists>g \<in> set sigs. g \<in> set no_website_signals then template_named ''apertura_sin_web''
      else if \<exists>g \<in> set sigs. g \<in> set outdated_signals then template_named ''apertura_web_vieja''
      else template_named ''apertura_general'')"

definition build_template_parameters ::
    "template_choice \<Rightarrow> string \<Rightarrow> string \<Rightarrow> string \<Rightarrow> json list" where
  "build_template_parameters t contact business sender =
     (let value_map = [(''contact_name'', if contact \<noteq> [] then contact else business),
            (''business_name'', business), (''sender_name'', sender)];
          params = map (\<lambda>p. JObj [(''type'', JStr ''text''),
            (''text'', JStr (case map_of value_map p of Some v \<Rightarrow> v | None \<Rightarrow> business))])
            (tpl_param_names t)
      in if params = [] then []
         else [JObj [(''type'', JStr ''body''), (''parameters'', JList params)]])"

section \<open>Sending an approved draft\<close>

text \<open>The messaging service: phone, template, language, parameters; an exception or a message id.\<close>

type_synonym template_sender = "string \<Rightarrow> string \<Rightarrow> string \<Rightarrow> json list \<Rightarrow> string + string option"

definition new_convo :: "outreach_draft \<Rightarrow> string \<Rightarrow> store \<Rightarrow> outbound_conversation" where
  "new_convo d channel s = \<lparr>convo_id = next_uuid s, convo_lead_id = draft_lead_id d,
     convo_draft_id = Some (draft_id d), convo_channel = channel, convo_status = CV_DRAFT_READY,
     convo_messages_json = [], convo_mode = ''outreach'', convo_operator_took_over = False,
     convo_provider_message_id = None, convo_error = None, convo_created_at = now s,
     convo_updated_at = now s\<rparr>"

definition close_convo :: "string \<Rightarrow> outbound_conversation \<Rightarrow> outbound_conversation" where
  "close_convo e c = c\<lparr>convo_status := CV_CLOSED, convo_error := Some (take 500 e)\<rparr>"

text \<open>
  The object the caller gets: the row, or the object in memory when its row was rolled back.
\<close>

definition convo_object ::
    "(outbound_conversation \<Rightarrow> outbound_conversation) \<Rightarrow> outbound_conversation \<Rightarrow> store \<Rightarrow>
     outbound_conversation" where
  "convo_object f c s = (case get_convo s (convo_id c) of Some c' \<Rightarrow> c' | None \<Rightarrow> f c)"

definition template_sent ::
    "template_choice \<Rightarrow> string \<Rightarrow> string option \<Rightarrow> datetime \<Rightarrow> outbound_conversation \<Rightarrow>
     outbound_conversation" where
  "template_sent t body message_id tm c = c\<lparr>convo_status := CV_SENT,
     convo_provider_message_id := message_id,
     convo_messages_json :=
       [JObj [(''role'', JStr ''mote''), (''type'', JStr ''template''),
          (''template_name'', JStr (tpl_name t)), (''timestamp'', JInt tm),
          (''provider_message_id'', jstr message_id)],
        JObj [(''role'', JStr ''system''), (''type'', JStr ''queued_draft''),
          (''content'', JStr body),
          (''note'', JStr (''Draft personalizado pendiente - se env'' @ [CHR 0xED]
             @ ''a cuando el cliente responde'')),
          (''timestamp'', JInt tm)]]\<rparr>"

text \<open>
  \<open>_send_whatsapp\<close>.  The notification it means to emit, \<open>on_outreach_sent\<close>, does not exist in
  the emitter module; the \<open>ImportError\<close> is swallowed.
\<close>

definition send_whatsapp ::
    "template_sender \<Rightarrow> outreach_draft \<Rightarrow> lead \<Rightarrow> store \<Rightarrow> outbound_conversation option \<times> store" where
  "send_whatsapp kapso d l s =
     (if \<not> truthy (lead_phone l) then (None, s)
      else
        let c = new_convo d ''whatsapp'' s;
            s1 = add_convo c (tick_uuid s);
            t = select_template (map (\<lambda>g. signal_value (sig_signal_type g)) (signals_of s (lead_id l)));
            params = build_template_parameters t (lead_business_name l) (lead_business_name l) ''Scouter''
        in case kapso (text_or_empty (lead_phone l)) (tpl_name t) (tpl_language t) params of
             Inl e \<Rightarrow> let s2 = upd_convo (convo_id c) (close_convo e) s1 in
               (Some (convo_object (close_convo e) c s2), s2)
           | Inr message_id \<Rightarrow>
               let f = template_sent t (draft_body d) message_id (now s);
                   s2 = upd_draft (draft_id d)
                     (\<lambda>d. d\<lparr>draft_status := D_SENT, draft_sent_at := Some (now s)\<rparr>)
                     (upd_convo (convo_id c) f s1)
               in (Some (convo_object f c s2), s2))"

definition email_sent :: "outreach_draft \<Rightarrow> datetime \<Rightarrow> outbound_conversation \<Rightarrow> outbound_conversation" where
  "email_sent d tm c = c\<lparr>convo_status := CV_SENT, convo_messages_json :=
     [JObj [(''role'', JStr ''mote''),
        (''content'', JStr (''Subject: '' @ (case draft_subject d of None \<Rightarrow> ''None'' | Some t \<Rightarrow> t)
           @ [CHR 10, CHR 10] @ draft_body d)),
        (''timestamp'', JInt tm)]]\<rparr>"

text \<open>\<open>_send_email\<close>: any delivery that \<open>send_draft\<close> returns, failed or not, counts as sent.\<close>

definition send_email_draft ::
    "mail_setup \<Rightarrow> outreach_draft \<Rightarrow> lead \<Rightarrow> store \<Rightarrow> store \<Rightarrow>
     outbound_conversation option \<times> store \<times> store" where
  "send_email_draft w d l base s =
     (if \<not> truthy (lead_email l) then (None, base, s)
      else
        let c = new_convo d ''email'' s;
            (res, b, s1) = send_draft w (draft_id d) base (add_convo c (tick_uuid s));
            f = (case res of Inl e \<Rightarrow> close_convo (mail_error_text e) | Inr n \<Rightarrow> email_sent d (now s));
            s2 = upd_convo (convo_id c) f s1
        in (Some (convo_object f c s2), b, s2))"

definition convo_for_draft :: "store \<Rightarrow> uuid \<Rightarrow> outbound_conversation option" where
  "convo_for_draft s k = find (\<lambda>c. convo_draft_id c = Some k) (convos s)"

definition auto_send_draft ::
    "template_sender \<Rightarrow> mail_setup \<Rightarrow> uuid \<Rightarrow> store \<Rightarrow> store \<Rightarrow>
     outbound_conversation option \<times> store \<times> store" where
  "auto_send_draft kapso w k base s = (case get_draft s k of
     None \<Rightarrow> (None, base, s)
   | Some d \<Rightarrow>
       if draft_status d \<noteq> D_APPROVED then (None, base, s)
       else (case get_lead s (draft_lead_id d) of
         None \<Rightarrow> (None, base, s)
       | Some l \<Rightarrow> (case convo_for_draft s k of
           Some c \<Rightarrow> (Some c, base, s)
         | None \<Rightarrow>
             if draft_channel d = ''whatsapp''
             then (let (c, s') = send_whatsapp kapso d l s in (c, base, s'))
             else send_email_draft w d l base s)))"

definition operator_takeover :: "uuid \<Rightarrow> store \<Rightarrow> outbound_conversation option \<times> store" where
  "operator_takeover k s = (case get_convo s k of
     None \<Rightarrow> (None, s)
   | Some c \<Rightarrow>
       let s' = upd_convo k (\<lambda>c. c\<lparr>convo_operator_took_over := True,
             convo_status := CV_OPERATOR_TOOK_OVER\<rparr>) s
       in (get_convo s' k, s'))"

section \<open>The draft workflow\<close>

record draft_result =
  dr_status :: string
  dr_lead_id :: uuid
  dr_draft_id :: "uuid option"
  dr_reason :: "string option"
  dr_whatsapp_draft_id :: "uuid option"
  dr_ai_fallback_used :: bool
  dr_ai_degraded :: bool

definition draft_result_of :: "string \<Rightarrow> uuid \<Rightarrow> draft_result" where
  "draft_result_of st k = \<lparr>dr_status = st, dr_lead_id = k, dr_draft_id = None, dr_reason = None,
     dr_whatsapp_draft_id = None, dr_ai_fallback_used = False, dr_ai_degraded = False\<rparr>"

definition should_generate_outreach_email_draft :: "lead \<Rightarrow> bool" where
  "should_generate_outreach_email_draft l =
     (lead_llm_quality l = Some ''high'' \<and> truthy (lead_email l))"

text \<open>\<open>repr\<close> of an optional text without quotes in it.\<close>

definition py_repr :: "string option \<Rightarrow> string" where
  "py_repr v = (case v of None \<Rightarrow> ''None'' | Some t \<Rightarrow> [CHR 0x27] @ t @ [CHR 0x27])"

definition open_drafts :: "store \<Rightarrow> uuid \<Rightarrow> outreach_draft list" where
  "open_drafts s k =
     filter (\<lambda>d. draft_lead_id d = k \<and> draft_status d \<in> {PENDING_REVIEW, D_APPROVED}) (drafts s)"

definition contact_method_of :: "store \<Rightarrow> uuid \<Rightarrow> ContactMethod option" where
  "contact_method_of s k =
     Option.bind (find (\<lambda>b. cb_lead_id b = k) (briefs s)) cb_recommended_contact_method"

text \<open>A WhatsApp draft whose failure is swallowed; its id if one was written.\<close>

definition try_whatsapp_draft :: "whatsapp_writer \<Rightarrow> uuid \<Rightarrow> store \<Rightarrow> uuid option \<times> store" where
  "try_whatsapp_draft wa k s = (case generate_whatsapp_draft wa k s of
     Inl e \<Rightarrow> (None, s)
   | Inr (d, s') \<Rightarrow> (map_option draft_id d, s'))"

definition mark_qualified :: "uuid \<Rightarrow> store \<Rightarrow> store" where
  "mark_qualified k s = upd_lead k (\<lambda>l. l\<lparr>lead_status := QUALIFIED\<rparr>) s"

text \<open>
  \<open>run_outreach_draft_generation_workflow\<close>: the result or the exception that leaves it (more
  than one open draft makes \<open>scalar_one_or_none\<close> raise), what is committed, and the session.
\<close>

definition run_outreach_draft_generation_workflow ::
    "email_writer \<Rightarrow> whatsapp_writer \<Rightarrow> uuid \<Rightarrow> string \<Rightarrow> store \<Rightarrow> store \<Rightarrow>
     (string + draft_result) \<times> store \<times> store" where
  "run_outreach_draft_generation_workflow em wa k ctx base s = (case get_lead s k of
     None \<Rightarrow> (Inr (draft_result_of ''not_found'' k), base, s)
   | Some l \<Rightarrow> (case open_drafts s k of
       [d] \<Rightarrow> (Inr ((draft_result_of ''skipped'' k)\<lparr>dr_reason := Some ''draft_already_exists'',
                 dr_draft_id := Some (draft_id d)\<rparr>), base, s)
     | _ # _ # _ \<Rightarrow> (Inl ''MultipleResultsFound'', base, s)
     | [] \<Rightarrow>
         let (st, s1) = get_cached_settings s;
             wa_on = ops_whatsapp_outreach_enabled st;
             mth = contact_method_of s1 k
         in if mth \<in> {Some CM_CALL, Some CM_MANUAL_REVIEW}
            then (let s2 = mark_qualified k s1 in
              (Inr ((draft_result_of ''skipped'' k)\<lparr>dr_reason := Some (''contact_method=''
                 @ contact_method_value (the mth) @ '', skipping auto-draft'')\<rparr>), s2, s2))
            else
              let (wa_id, s2) = (if mth = Some CM_WHATSAPP \<and> truthy (lead_phone l) \<and> wa_on
                     then try_whatsapp_draft wa k s1 else (None, s1))
              in if \<not> should_generate_outreach_email_draft l
                 then (let s3 = mark_qualified k s2 in
                   (Inr ((draft_result_of ''skipped'' k)\<lparr>dr_reason := Some (''quality=''
                      @ py_repr (lead_llm_quality l) @ '', draft only for high''),
                      dr_whatsapp_draft_id := wa_id\<rparr>), s3, s3))
                 else (case generate_outreach_draft em k ctx s2 of
                   Inl e \<Rightarrow> (Inl e, base, s2)
                 | Inr (None, s3) \<Rightarrow>
                     (Inr ((draft_result_of ''failed'' k)\<lparr>dr_reason := Some ''draft_generation_failed''\<rparr>),
                      base, rollback_to base s3)
                 | Inr (Some d, s3) \<Rightarrow>
                     let (wa_id', s4) = (if wa_on \<and> truthy (lead_phone l) \<and> wa_id = None
                            then try_whatsapp_draft wa k s3 else (wa_id, s3));
                         m = draft_generation_metadata_json d
                     in (Inr ((draft_result_of ''ok'' k)\<lparr>dr_draft_id := Some (draft_id d),
                           dr_whatsapp_draft_id := wa_id',
                           dr_ai_fallback_used := meta_flag ''fallback_used'' m,
                           dr_ai_degraded := meta_flag ''degraded'' m\<rparr>), s4, s4))))"

text \<open>
  \<open>run_outreach_draft_automation\<close>; the exceptions of both ways of sending are swallowed.
\<close>

definition run_outreach_draft_automation ::
    "template_sender \<Rightarrow> mail_setup \<Rightarrow> uuid \<Rightarrow> store \<Rightarrow> store \<Rightarrow> store \<times> store" where
  "run_outreach_draft_automation kapso w k base s = (case get_draft s k of
     None \<Rightarrow> (base, s)
   | Some d \<Rightarrow>
       let (st, s1) = get_cached_settings s in
       if ops_require_approved_drafts st \<or> draft_status d \<noteq> PENDING_REVIEW then (base, s1)
       else
         let s2 = upd_draft k (set_draft_status D_APPROVED (now s)) s1;
             (convo, b, s3) = auto_send_draft kapso w k s2 s2
         in if convo \<noteq> None then (b, s3)
            else if ops_mail_enabled st \<noteq> Some True then (b, s3)
            else snd (send_draft w k b s3))"

definition run_draft_generation_step ::
    "email_writer \<Rightarrow> whatsapp_writer \<Rightarrow> template_sender \<Rightarrow> mail_setup \<Rightarrow> uuid \<Rightarrow> bool \<Rightarrow> string \<Rightarrow>
     store \<Rightarrow> store \<Rightarrow> (string + draft_result) \<times> store \<times> store" where
  "run_draft_generation_step em wa kapso w k automate ctx base s =
     (let (res, b, s1) = run_outreach_draft_generation_workflow em wa k ctx base s in
      case res of
        Inr r \<Rightarrow> if automate \<and> dr_status r = ''ok'' \<and> dr_draft_id r \<noteq> None
          then (res, run_outreach_draft_automation kapso w (the (dr_draft_id r)) b s1)
          else (res, b, s1)
      | Inl e \<Rightarrow> (res, b, s1))"

section \<open>Follow-ups\<close>

definition find_leads_needing_followup :: "int \<Rightarrow> store \<Rightarrow> lead list" where
  "find_leads_needing_followup n s =
     (if n \<le> 0 then []
      else filter (\<lambda>l. lead_status l = CONTACTED \<and> lead_updated_at l < now s - days n
             \<and> \<not> (\<exists>m \<in> set (messages s). msg_lead_id m = Some (lead_id l))) (leads s))"

definition followup_notice :: "int \<Rightarrow> lead \<Rightarrow> notif_args" where
  "followup_notice n l = \<lparr>na_type = ''followup_needed'', na_category = BUSINESS,
     na_severity = SEV_WARNING, na_title = ''Follow-up pendiente - '' @ lead_business_name l,
     na_message = ''Lead contactado hace '' @ int_str n @ ''+ d'' @ [CHR 0xED] @ ''as sin respuesta. Consider''
       @ [CHR 0xE1] @ '' un follow-up manual o reclasificar.'',
     na_source_kind = Some ''lead'', na_source_id = Some (lead_id l),
     na_metadata = Some (JObj [(''business_name'', JStr (lead_business_name l)),
       (''city'', jstr (lead_city l)), (''followup_days'', JInt n)]),
     na_dedup_key = Some (''followup_needed:'' @ uuid_str (lead_id l))\<rparr>"

text \<open>
  \<open>task_check_followup\<close>: the session of the task and the committed state it started from; the
  count of flagged leads and what the task commits.
\<close>

definition task_check_followup :: "store \<Rightarrow> (nat \<times> int) \<times> store" where
  "task_check_followup s =
     (let n = (case ops s of None \<Rightarrow> 3 | Some r \<Rightarrow> ops_followup_days r);
          ls = find_leads_needing_followup n s
      in ((length ls, n), fold (\<lambda>l. emit s (followup_notice n l)) ls s))"

section \<open>Conversations\<close>

lemma convo_frames [simp]:
  "convos (upd_draft k f s) = convos s" "convos (upd_lead k g s) = convos s"
  "convos (upd_delivery k e s) = convos s" "convos (add_delivery n s) = convos s"
  "convos (add_log l o' a x t s) = convos s" "convos (tick_uuid s) = convos s"
  "convos (snd (get_or_create s)) = convos s" "convos (add_convo c s) = convos s @ [c]"
  by (simp_all add: upd_draft_def upd_lead_def upd_delivery_def add_delivery_def add_log_def
      tick_uuid_def add_convo_def get_or_create_frame [of s])

lemma convo_draft_frame [simp]: "convos (snd (update_draft k c s)) = convos s"
  by (simp add: update_draft_def draft_status_written_def Let_def split: option.split)

lemma drafts_leads_convo [simp]:
  "drafts (upd_convo k h s) = drafts s" "drafts (add_convo c s) = drafts s"
  "leads (upd_convo k h s) = leads s" "leads (add_convo c s) = leads s"
  "next_uuid (add_convo c s) = next_uuid s"
  by (simp_all add: upd_convo_def add_convo_def)

lemma lookups_convo [simp]:
  "get_draft (upd_convo k h s) = get_draft s" "get_draft (add_convo c s) = get_draft s"
  "get_lead (upd_convo k h s) = get_lead s" "get_lead (add_convo c s) = get_lead s"
  by (simp_all add: get_draft_def get_lead_def fun_eq_iff)

lemma deliver_convos: "convos (snd (snd (deliver w c d n s))) = convos s"
  using notif_frame_fields(9) [OF on_send_failed_frame]
  by (simp add: deliver_def Let_def split: mail_reply.split)

lemma send_draft_convos:
  assumes "fst (send_draft w k base s) = Inr (Some n)"
  shows "convos (snd (snd (send_draft w k base s))) = convos s"
proof -
  obtain c d n0 where "claimed w k base s c d n0"
    using send_draft_unclaimed(1) [of w k base s] assms by force
  from send_draft_claimed [OF this] show ?thesis by (simp add: deliver_convos)
qed

text \<open>A draft that has a conversation is never sent again.\<close>

lemma auto_send_again:
  assumes "convo_for_draft s k \<noteq> None"
  shows "snd (auto_send_draft kapso w k base s) = (base, s)"
  using assms by (auto simp: auto_send_draft_def split: option.split)

lemma truthy_strip: "strip (text_or_empty v) \<noteq> [] \<Longrightarrow> truthy v"
  by (cases v) auto

lemma email_sent_fields [simp]:
  "convo_id (email_sent d t c) = convo_id c" "convo_draft_id (email_sent d t c) = convo_draft_id c"
  "convo_status (email_sent d t c) = CV_SENT"
  by (simp_all add: email_sent_def)

lemma convo_update_last:
  assumes "convo_id c \<notin> convo_id ` set cs"
  shows "tbl_update convo_id (convo_id c) f (cs @ [c]) = cs @ [f c]"
proof -
  have "tbl_update convo_id (convo_id c) f cs = cs" using assms by (induction cs) auto
  then show ?thesis by (simp add: tbl_update_def)
qed

text \<open>
  A refused e-mail is hidden for good: when the mail server refuses an automatically sent
  draft, its conversation is recorded as sent although the draft is still only approved, and
  from then on no automatic attempt sends the draft, whatever server and configuration.
\<close>

theorem auto_send_hides_failure:
  assumes "get_draft s k = Some d" "draft_channel d \<noteq> ''whatsapp''" "convo_for_draft s k = None"
    and "next_uuid s \<notin> convo_id ` set (convos s)"
    and "Suc (next_uuid s) \<notin> dlv_id ` set (deliveries s)"
    and "send_draft w k base (add_convo (new_convo d ''email'' s) (tick_uuid s)) = (Inr (Some n), b, v)"
    and "dlv_status n = DLV_FAILED"
  shows "\<exists>c s'. auto_send_draft kapso w k base s = (Some c, b, s') \<and> convo_status c = CV_SENT
    \<and> map_option draft_status (get_draft s' k) = Some D_APPROVED
    \<and> snd (auto_send_draft kapso' w' k s' s') = (s', s')"
proof -
  let ?c = "new_convo d ''email'' s"
  let ?s1 = "add_convo ?c (tick_uuid s)"
  let ?s2 = "upd_convo (convo_id ?c) (email_sent d (now s)) v"
  have id: "draft_id d = k" using draft_tbl.get_key [OF assms(1)] .
  obtain d' c0 n0 where cl: "claimed w k base ?s1 c0 d' n0" and o: "send_outcome ?s1 k d' n v"
    by (rule send_draft_returned [OF _ assms(6)]) (use assms(5) in auto)
  have d': "d' = d" and ap: "draft_status d = D_APPROVED"
    using claimed_checks(1,3) [OF cl] assms(1) by auto
  obtain r where "send_checks k ?s1 = Inr (Some (d', r))" using cl by (auto simp: claimed_def)
  from send_checks_Some(5,6) [OF this] obtain l where l: "get_lead s (draft_lead_id d) = Some l"
    and e: "truthy (lead_email l)" using truthy_strip by (auto simp: d')
  have cv: "convos v = convos s @ [?c]"
    using send_draft_convos [of w k base ?s1 n] assms(6) by simp
  have fr: "convo_id ?c \<notin> convo_id ` set (convos s)" using assms(4) by (simp add: new_convo_def)
  have c2: "convos ?s2 = convos s @ [stamp_convo v (email_sent d (now s)) ?c]"
    by (simp add: upd_convo_def cv convo_update_last [OF fr])
  have g: "get_convo ?s2 (convo_id ?c) = Some (stamp_convo v (email_sent d (now s)) ?c)"
    using fr tbl_get_None_iff [of convo_id "convos s" "convo_id ?c"]
    by (simp add: get_convo_def c2)
  have "auto_send_draft kapso w k base s
      = (Some (stamp_convo v (email_sent d (now s)) ?c), b, ?s2)"
    using assms(1-3) ap l e
    by (simp add: auto_send_draft_def send_email_draft_def id assms(6) Let_def convo_object_def g)
  moreover have "map_option draft_status (get_draft ?s2 k) = Some D_APPROVED"
    using o assms(1,7) ap by (auto simp: send_outcome_def)
  moreover have "convo_draft_id (stamp_convo v (email_sent d (now s)) ?c) = Some k"
    by (simp add: new_convo_def id)
  then have "convo_for_draft ?s2 k \<noteq> None"
    unfolding convo_for_draft_def c2 by (auto simp: find_None_iff)
  then have "snd (auto_send_draft kapso' w' k ?s2 ?s2) = (?s2, ?s2)" by (rule auto_send_again)
  ultimately show ?thesis by (intro exI [of _ "stamp_convo v (email_sent d (now s)) ?c"] exI [of _ ?s2]) simp
qed

section \<open>The fall-back\<close>

lemma auto_send_None:
  assumes "auto_send_draft kapso w k base s = (None, b, s')"
  shows "b = base \<and> s' = s \<and> (\<forall>d l. get_draft s k = Some d \<longrightarrow> draft_status d = D_APPROVED \<longrightarrow>
     get_lead s (draft_lead_id d) = Some l \<longrightarrow>
     (if draft_channel d = ''whatsapp'' then \<not> truthy (lead_phone l) else \<not> truthy (lead_email l)))"
  using assms
  by (auto simp: auto_send_draft_def send_whatsapp_def send_email_draft_def Let_def
      split: option.splits if_splits sum.splits prod.splits)

text \<open>
  The fall-back of the automation to a plain e-mail never sends anything: whenever the
  automatic send of a draft gives up, \<open>send_draft\<close> refuses the same draft too (it is not
  approved, the lead is gone or has no address, or it is a WhatsApp draft, which has no
  subject), and no delivery is recorded.
\<close>

theorem mail_fallback_dead:
  assumes "auto_send_draft kapso w k base s = (None, b, s')"
    and "\<forall>d \<in> set (drafts s). draft_channel d = ''whatsapp'' \<longrightarrow> draft_subject d = None"
  shows "(\<exists>e. fst (send_draft w' k b s') = Inl e \<or> fst (send_draft w' k b s') = Inr None)
    \<and> deliveries (snd (snd (send_draft w' k b s'))) \<in> {deliveries s, deliveries base}"
proof -
  note none = auto_send_None [OF assms(1)]
  have "\<not> claimed w' k b s' c d n" for c d n
  proof
    assume cl: "claimed w' k b s' c d n"
    from cl none have cl: "claimed w' k base s c d n" by simp
    then obtain r where r: "send_checks k s = Inr (Some (d, r))" and su: "draft_subject d \<noteq> None"
      by (auto simp: claimed_def delivery_refused_def)
    note sc = send_checks_Some [OF r]
    from sc(1) have "d \<in> set (drafts s)" by (simp add: get_draft_def tbl_get_in)
    with assms(2) su have ch: "draft_channel d \<noteq> ''whatsapp''" by auto
    from sc(5,6) obtain l where "get_lead s (draft_lead_id d) = Some l" "truthy (lead_email l)"
      using truthy_strip by auto
    with none sc(1,3) ch show False by auto
  qed
  then have "\<nexists>c d n. claimed w' k b s' c d n" by blast
  from send_draft_unclaimed(1,3) [OF this] none show ?thesis by auto
qed

definition demo_no_email :: store where
  "demo_no_email = add_lead (blank_lead 1 ''Bar'' 0) (empty_store 0)"

theorem mail_fallback_dead_witness:
  "auto_send_draft (\<lambda>p t g ps. Inl ''off'') (demo_mail (Accepted ''<a@b>'')) 5 demo_no_email demo_no_email
     = (None, demo_no_email, demo_no_email)
   \<and> (\<exists>e. fst (send_draft (demo_mail (Accepted ''<a@b>'')) 5 demo_no_email demo_no_email) = Inl e
       \<or> fst (send_draft (demo_mail (Accepted ''<a@b>'')) 5 demo_no_email demo_no_email) = Inr None)"
proof -
  have d: "drafts demo_no_email = []" by (simp add: demo_no_email_def add_lead_def empty_store_def)
  then have "auto_send_draft (\<lambda>p t g ps. Inl ''off'') (demo_mail (Accepted ''<a@b>'')) 5 demo_no_email demo_no_email
      = (None, demo_no_email, demo_no_email)"
    by (simp add: auto_send_draft_def get_draft_def)
  with mail_fallback_dead [OF this] d show ?thesis by simp
qed

section \<open>Running the workflow twice\<close>

lemma get_lead_written [simp]:
  "get_lead (draft_written d m s) = get_lead s" "get_lead (rollback_to b s) = get_lead b"
  by (simp_all add: get_lead_def fun_eq_iff)

lemma generate_outreach_Some:
  assumes "generate_outreach_draft em k ctx s = Inr (Some d, s')"
  shows "drafts s' = drafts s @ [d]" "draft_lead_id d = k" "draft_status d = PENDING_REVIEW"
    "get_lead s' k \<noteq> None"
  using assms by (auto simp: generate_outreach_draft_def Let_def new_draft_def
      split: option.splits if_splits sum.splits)

lemma try_whatsapp_cases:
  assumes "try_whatsapp_draft wa k s = (i, s')"
  shows "leads s' = leads s"
    "(i = None \<and> drafts s' = drafts s) \<or> (\<exists>d. i = Some (draft_id d) \<and> drafts s' = drafts s @ [d]
       \<and> draft_lead_id d = k \<and> draft_status d = PENDING_REVIEW)"
  using assms by (auto simp: try_whatsapp_draft_def generate_whatsapp_draft_def Let_def new_draft_def
      split: option.splits if_splits sum.splits)

lemma open_drafts_settings [simp]: "open_drafts (snd (get_or_create s)) k = open_drafts s k"
  by (simp add: open_drafts_def)

lemma open_drafts_append:
  "drafts s' = drafts s @ ds \<Longrightarrow> open_drafts s' k = open_drafts s k
     @ filter (\<lambda>d. draft_lead_id d = k \<and> draft_status d \<in> {PENDING_REVIEW, D_APPROVED}) ds"
  by (simp add: open_drafts_def)

lemma workflow_again:
  assumes "get_lead s k \<noteq> None" and "open_drafts s k = d # ds"
  shows "run_outreach_draft_generation_workflow em wa k ctx s s =
    (if ds = [] then Inr ((draft_result_of ''skipped'' k)\<lparr>dr_reason := Some ''draft_already_exists'',
       dr_draft_id := Some (draft_id d)\<rparr>) else Inl ''MultipleResultsFound'', s, s)"
  using assms by (auto simp: run_outreach_draft_generation_workflow_def split: list.split)

lemma workflow_ok_drafts:
  assumes "run_outreach_draft_generation_workflow em wa k ctx base s = (Inr r, b, s')"
    and "dr_status r = ''ok''"
  shows "\<exists>d1 d2. get_lead s' k \<noteq> None \<and> b = s' \<and> dr_lead_id r = k
    \<and> (dr_whatsapp_draft_id r = None \<and> open_drafts s' k = [d1] \<and> dr_draft_id r = Some (draft_id d1)
       \<or> dr_whatsapp_draft_id r \<noteq> None \<and> open_drafts s' k = [d1, d2])"
proof -
  let ?s1 = "snd (get_or_create s)"
  let ?st = "fst (get_or_create s)"
  let ?wa_on = "ops_whatsapp_outreach_enabled ?st"
  from assms obtain l where l: "get_lead s k = Some l" and none: "open_drafts s k = []"
    by (auto simp: run_outreach_draft_generation_workflow_def draft_result_of_def
        split: option.splits list.splits)
  let ?t = "if contact_method_of ?s1 k = Some CM_WHATSAPP \<and> truthy (lead_phone l) \<and> ?wa_on
      then try_whatsapp_draft wa k ?s1 else (None, ?s1)"
  obtain i s2 where t: "?t = (i, s2)" by (cases ?t)
  have d2: "(i = None \<and> drafts s2 = drafts s) \<or> (\<exists>d. i = Some (draft_id d)
      \<and> drafts s2 = drafts s @ [d] \<and> draft_lead_id d = k \<and> draft_status d = PENDING_REVIEW)"
    using t try_whatsapp_cases(2) [of wa k ?s1 i s2] by (auto split: if_splits)
  obtain d s3 where g: "generate_outreach_draft em k ctx s2 = Inr (Some d, s3)"
    using assms l none t
    by (auto simp: run_outreach_draft_generation_workflow_def get_cached_settings_def split_beta
        Let_def draft_result_of_def split: if_splits sum.splits option.splits)
  note gd = generate_outreach_Some [OF g]
  let ?u = "if ?wa_on \<and> truthy (lead_phone l) \<and> i = None then try_whatsapp_draft wa k s3 else (i, s3)"
  obtain j s4 where u: "?u = (j, s4)" by (cases ?u)
  have r: "r = (draft_result_of ''ok'' k)\<lparr>dr_draft_id := Some (draft_id d), dr_whatsapp_draft_id := j,
        dr_ai_fallback_used := meta_flag ''fallback_used'' (draft_generation_metadata_json d),
        dr_ai_degraded := meta_flag ''degraded'' (draft_generation_metadata_json d)\<rparr>"
      "b = s4" "s' = s4"
    using assms l none t g u
    by (auto simp: run_outreach_draft_generation_workflow_def get_cached_settings_def split_beta
        Let_def draft_result_of_def split: if_splits)
  have d4: "i \<noteq> None \<and> j = i \<and> drafts s4 = drafts s3 \<or> i = None \<and> j = None \<and> drafts s4 = drafts s3
      \<or> (\<exists>d'. i = None \<and> j = Some (draft_id d') \<and> drafts s4 = drafts s3 @ [d']
         \<and> draft_lead_id d' = k \<and> draft_status d' = PENDING_REVIEW)" and l4: "leads s4 = leads s3"
    using u try_whatsapp_cases [of wa k s3 j s4] by (auto split: if_splits)
  have "get_lead s4 k \<noteq> None" using gd(4) l4 by (simp add: get_lead_def)
  moreover have "j = None \<and> open_drafts s4 k = [d] \<or> (\<exists>d1 d2. j \<noteq> None \<and> open_drafts s4 k = [d1, d2])"
    using d2 d4 gd none by (auto simp: open_drafts_def)
  ultimately show ?thesis using r by (auto simp: draft_result_of_def)
qed

text \<open>
  After the workflow wrote drafts for a lead, running it again writes nothing: when it
  wrote one draft the second run reports the same draft and is skipped; when it wrote an
  e-mail and a WhatsApp draft the second run raises, because the query for the one open draft
  finds two.
\<close>

theorem draft_workflow_rerun:
  assumes "run_outreach_draft_generation_workflow em wa k ctx base s = (Inr r, b, s')"
    and "dr_status r = ''ok''"
  shows "run_outreach_draft_generation_workflow em' wa' k ctx' s' s' =
    (if dr_whatsapp_draft_id r = None
     then Inr ((draft_result_of ''skipped'' k)\<lparr>dr_reason := Some ''draft_already_exists'',
       dr_draft_id := dr_draft_id r\<rparr>)
     else Inl ''MultipleResultsFound'', s', s')"
  using workflow_ok_drafts [OF assms] by (auto simp: workflow_again)

definition demo_hot :: store where
  "demo_hot = add_lead ((blank_lead 1 ''Bar'' 0)\<lparr>lead_email := Some ''ana@x.com'',
       lead_phone := Some ''549'', lead_llm_quality := Some ''high''\<rparr>)
     ((empty_store 0)\<lparr>next_uuid := 9,
        ops := Some ((default_settings 0)\<lparr>ops_whatsapp_outreach_enabled := True\<rparr>)\<rparr>)"

definition demo_email_writer :: email_writer where
  "demo_email_writer l ctx = Inr ((''Hola'', ''Hola''), None)"

definition demo_wa_writer :: whatsapp_writer where
  "demo_wa_writer l = Inr (''Hola'', None)"

lemma demo_hot_run:
  "case run_outreach_draft_generation_workflow demo_email_writer demo_wa_writer 1 [] demo_hot demo_hot of
     (Inr r, b, s') \<Rightarrow> dr_status r = ''ok'' \<and> dr_whatsapp_draft_id r \<noteq> None | _ \<Rightarrow> False"
  by code_simp

theorem draft_workflow_rerun_witness:
  "\<exists>r b s'. run_outreach_draft_generation_workflow demo_email_writer demo_wa_writer 1 [] demo_hot demo_hot
       = (Inr r, b, s')
     \<and> fst (run_outreach_draft_generation_workflow demo_email_writer demo_wa_writer 1 [] s' s')
       = Inl ''MultipleResultsFound''"
proof -
  obtain r b s' where run: "run_outreach_draft_generation_workflow demo_email_writer demo_wa_writer
      1 [] demo_hot demo_hot = (Inr r, b, s')"
    and ok: "dr_status r = ''ok''" "dr_whatsapp_draft_id r \<noteq> None"
    using demo_hot_run by (auto split: prod.splits sum.splits)
  from draft_workflow_rerun [OF run ok(1)] run ok(2) show ?thesis by auto
qed

lemma demo_refused_send:
  "case send_draft (demo_mail (Refused ''down'')) 5 demo_mail_store
      (add_convo (new_convo (hd (drafts demo_mail_store)) ''email'' demo_mail_store)
        (tick_uuid demo_mail_store)) of
     (Inr (Some n), b, v) \<Rightarrow> dlv_status n = DLV_FAILED | _ \<Rightarrow> False"
  by code_simp

theorem auto_send_hides_failure_witness:
  "\<exists>c b s'. auto_send_draft (\<lambda>p t g ps. Inl ''off'') (demo_mail (Refused ''down'')) 5
      demo_mail_store demo_mail_store = (Some c, b, s') \<and> convo_status c = CV_SENT"
proof -
  let ?d = "hd (drafts demo_mail_store)"
  have s: "get_draft demo_mail_store 5 = Some ?d" "draft_channel ?d \<noteq> ''whatsapp''"
    "convo_for_draft demo_mail_store 5 = None" "convos demo_mail_store = []"
    by (simp_all add: demo_mail_store_def get_draft_def add_draft_def add_lead_def empty_store_def
        convo_for_draft_def)
  obtain n b v where r: "send_draft (demo_mail (Refused ''down'')) 5 demo_mail_store
      (add_convo (new_convo ?d ''email'' demo_mail_store) (tick_uuid demo_mail_store))
      = (Inr (Some n), b, v)" and n: "dlv_status n = DLV_FAILED"
    using demo_refused_send by (auto split: prod.splits sum.splits option.splits)
  from auto_send_hides_failure [OF s(1-3) _ _ r n] show ?thesis
    by (fastforce simp: s(4) demo_mail_store_fresh)
qed

end
