(* ===== verification/Closer.thy ===== *)
theory Closer
  imports Auto_Send
begin

text \<open>
  Conversations with clients: detecting the intent of a message and generating the answer
  (\<open>app/services/outreach/closer_service.py\<close>), and sending the answer
  (\<open>send_closer_reply\<close> in \<open>app/services/dashboard/ai_office_service.py\<close>).  The language model
  is a parameter; of the prompt only the part that reads the conversation is modelled, with
  the filter for prompt injections as a parameter.
\<close>

section \<open>Intents\<close>

definition intent_keywords :: "(string \<times> string list) list" where
  "intent_keywords =
     [(''pricing'', [''precio'', ''cuanto'', ''cu'' @ [CHR 0xE1] @ ''nto'', ''cuesta'', ''presupuesto'',
         ''valor'', ''tarifa'', ''cost'']),
      (''meeting'', [''reuni'' @ [CHR 0xF3] @ ''n'', ''reunir'', ''call'', ''llamada'', ''zoom'', ''meet'',
         ''agendar'', ''agenda'']),
      (''interest'', [''interesa'', ''contame'', ''m'' @ [CHR 0xE1] @ ''s info'', ''me copa'', ''dale'',
         ''s'' @ [CHR 0xED], ''quiero'']),
      (''portfolio'', [''ejemplo'', ''portfolio'', ''trabajos'', ''muestra'', ''referencia'']),
      (''objection'', [''caro'', ''no puedo'', ''no me interesa'', ''ya tengo'', ''no necesito'',
         ''despues'']),
      (''question'', [''como'', ''c'' @ [CHR 0xF3] @ ''mo'', ''qu'' @ [CHR 0xE9], ''que'', ''cuando'',
         ''cu'' @ [CHR 0xE1] @ ''ndo'', ''donde'', ''d'' @ [CHR 0xF3] @ ''nde''])]"

definition detect_intent :: "string \<Rightarrow> string" where
  "detect_intent message =
     (case find (\<lambda>(intent, keywords). \<exists>kw \<in> set keywords. contains kw (lower message)) intent_keywords of
        Some (intent, keywords) \<Rightarrow> intent
      | None \<Rightarrow> ''general'')"

section \<open>Answers\<close>

text \<open>\<open>d[key]\<close> and \<open>d.get(key)\<close> on a JSON object, and a value inside a formatted string.\<close>

definition json_text :: "json \<Rightarrow> string" where
  "json_text j = (case j of JStr t \<Rightarrow> t | _ \<Rightarrow> ''None'')"

definition history_line :: "(string \<Rightarrow> string) \<Rightarrow> json \<Rightarrow> string + string" where
  "history_line sanitize m =
     (case json_get ''role'' m of
        None \<Rightarrow> Inl ''role''
      | Some role \<Rightarrow> (case json_get ''content'' m of
          None \<Rightarrow> Inl ''content''
        | Some content \<Rightarrow>
            if role = JStr ''mote'' then Inr (''  Mote: '' @ json_text content)
            else Inr (''  Client: <client_message>'' @ sanitize (json_text content)
                   @ ''</client_message>'')))"

text \<open>The loop over the messages ends with the first \<open>KeyError\<close>.\<close>

fun history_lines :: "(string \<Rightarrow> string) \<Rightarrow> json list \<Rightarrow> string + string list" where
  "history_lines sanitize [] = Inr []"
| "history_lines sanitize (m # ms) = (case history_line sanitize m of
     Inl e \<Rightarrow> Inl e
   | Inr t \<Rightarrow> (case history_lines sanitize ms of Inl e \<Rightarrow> Inl e | Inr ts \<Rightarrow> Inr (t # ts)))"

definition last_ten :: "'a list \<Rightarrow> 'a list" where
  "last_ten ms = drop (length ms - 10) ms"

record closer_result =
  cr_response :: "string option"
  cr_intent :: string
  cr_error :: "string option"
  cr_model :: "string option"
  cr_should_escalate :: "bool option"

text \<open>The model sees the lead, the history and the intent: an exception, or a text and its name.\<close>

type_synonym closer_llm = "lead \<Rightarrow> string list \<Rightarrow> string \<Rightarrow> string + string option \<times> string"

definition client_entry :: "string \<Rightarrow> datetime \<Rightarrow> string \<Rightarrow> json" where
  "client_entry text tm intent = JObj [(''role'', JStr ''client''), (''content'', JStr text),
     (''timestamp'', JInt tm), (''intent'', JStr intent)]"

definition mote_entry :: "string \<Rightarrow> datetime \<Rightarrow> string \<Rightarrow> json" where
  "mote_entry text tm intent = JObj [(''role'', JStr ''mote''), (''content'', JStr text),
     (''timestamp'', JInt tm), (''intent'', JStr intent)]"

definition intent_status :: "string \<Rightarrow> ConversationStatus" where
  "intent_status intent = (if intent = ''meeting'' then CV_MEETING else CV_REPLIED)"

text \<open>
  \<open>generate_closer_response\<close>: a \<open>KeyError\<close> of the context leaves the function; otherwise the
  answer and the state, which is committed when there is an answer.
\<close>

definition generate_closer_response ::
    "(string \<Rightarrow> string) \<Rightarrow> closer_llm \<Rightarrow> uuid \<Rightarrow> string \<Rightarrow> store \<Rightarrow>
     string + closer_result \<times> store" where
  "generate_closer_response sanitize llm k text s = (case get_convo s k of
     None \<Rightarrow> Inr (\<lparr>cr_response = None, cr_intent = ''unknown'',
       cr_error = Some ''Conversation not found'', cr_model = None, cr_should_escalate = None\<rparr>, s)
   | Some c \<Rightarrow>
       if convo_operator_took_over c
       then Inr (\<lparr>cr_response = None, cr_intent = ''takeover'',
         cr_error = Some ''Operator took over this conversation'', cr_model = None,
         cr_should_escalate = None\<rparr>, s)
       else (case get_lead s (convo_lead_id c) of
         None \<Rightarrow> Inr (\<lparr>cr_response = None, cr_intent = ''unknown'',
           cr_error = Some ''Lead not found'', cr_model = None, cr_should_escalate = None\<rparr>, s)
       | Some l \<Rightarrow>
           let intent = detect_intent text;
               ms = convo_messages_json c @ [client_entry text (now s) intent]
           in (case history_lines sanitize (last_ten ms) of
               Inl e \<Rightarrow> Inl e
             | Inr hist \<Rightarrow> (case llm l hist intent of
                 Inl e \<Rightarrow> Inr (\<lparr>cr_response = None, cr_intent = intent, cr_error = Some e,
                   cr_model = None, cr_should_escalate = Some True\<rparr>, s)
               | Inr (answer, model) \<Rightarrow>
                   let t = text_or_empty answer in
                   Inr (\<lparr>cr_response = Some t, cr_intent = intent, cr_error = None,
                     cr_model = Some model,
                     cr_should_escalate = Some (intent = ''objection'' \<or> t = [])\<rparr>,
                     upd_convo k (\<lambda>c. c\<lparr>convo_messages_json := ms @ [mote_entry t (now s) intent],
                       convo_status := intent_status intent\<rparr>) s)))))"

datatype send_reply_error = ReplyValueError string | ReplyKeyError string

text \<open>
  \<open>send_closer_reply\<close>: whether the provider took the message; it changes nothing.
\<close>

definition send_closer_reply ::
    "(string \<Rightarrow> string \<Rightarrow> string + bool) \<Rightarrow> uuid \<Rightarrow> store \<Rightarrow> send_reply_error + bool" where
  "send_closer_reply send k s = (case get_convo s k of
     None \<Rightarrow> Inl (ReplyValueError ''Conversation not found'')
   | Some c \<Rightarrow>
       if convo_operator_took_over c
       then Inl (ReplyValueError ''Operator took over - Mote cannot send'')
       else (let mote = filter (\<lambda>m. json_get ''role'' m = Some (JStr ''mote'')) (convo_messages_json c) in
         if mote = [] then Inl (ReplyValueError ''No Mote response to send'')
         else (case json_get ''content'' (last mote) of
           None \<Rightarrow> Inl (ReplyKeyError ''content'')
         | Some content \<Rightarrow> (case get_lead s (convo_lead_id c) of
             None \<Rightarrow> Inl (ReplyValueError ''Lead has no phone number'')
           | Some l \<Rightarrow>
               if \<not> truthy (lead_phone l) then Inl (ReplyValueError ''Lead has no phone number'')
               else (case send (text_or_empty (lead_phone l)) (json_text content) of
                 Inl e \<Rightarrow> Inr False | Inr ok \<Rightarrow> Inr ok)))))"

section \<open>What is shown\<close>

lemma contains_trans:
  assumes "contains p q" and "contains q t"
  shows "contains p t"
proof -
  obtain a b c d where "q = a @ p @ b" "t = c @ q @ d" using assms by (auto simp: contains_iff)
  then have "t = (c @ a) @ p @ (b @ d)" by simp
  then show ?thesis unfolding contains_iff by blast
qed

text \<open>
  A client who writes that he is not interested is taken for an interested one: the
  keyword \<open>interesa\<close> of an earlier entry hides \<open>no me interesa\<close>, so such a message is never
  detected as an objection, and its answer is never marked for escalation unless it is empty.
\<close>

theorem refusal_taken_for_interest:
  assumes "contains ''no me interesa'' (lower message)"
  shows "detect_intent message \<in> {''pricing'', ''meeting'', ''interest''}
    \<and> (case generate_closer_response sanitize llm k message s of
         Inr (r, s') \<Rightarrow> cr_should_escalate r = Some True \<longrightarrow> cr_response r \<in> {None, Some []}
       | Inl e \<Rightarrow> True)"
proof -
  have "contains ''interesa'' ''no me interesa''" by code_simp
  from contains_trans [OF this assms] have i: "contains ''interesa'' (lower message)" .
  have d: "detect_intent message \<in> {''pricing'', ''meeting'', ''interest''}"
    by (simp add: detect_intent_def intent_keywords_def i)
  then have "detect_intent message \<noteq> ''objection''" by auto
  then have "case generate_closer_response sanitize llm k message s of
         Inr (r, s') \<Rightarrow> cr_should_escalate r = Some True \<longrightarrow> cr_response r \<in> {None, Some []}
       | Inl e \<Rightarrow> True"
    by (auto simp: generate_closer_response_def Let_def split: option.split sum.split)
  with d show ?thesis by blast
qed

theorem refusal_taken_for_interest_witness:
  "detect_intent ''Gracias, no me interesa'' \<in> {''pricing'', ''meeting'', ''interest''}"
proof -
  have "contains ''no me interesa'' (lower ''Gracias, no me interesa'')" by code_simp
  from refusal_taken_for_interest [OF this] show ?thesis by blast
qed

lemma template_convo_stuck:
  assumes "get_convo s k = Some c" "\<not> convo_operator_took_over c" "get_lead s (convo_lead_id c) \<noteq> None"
    and "convo_messages_json c = convo_messages_json (template_sent t body m tm c0)"
  shows "generate_closer_response sanitize llm k text s = Inl ''content''
    \<and> send_closer_reply send k s = Inl (ReplyKeyError ''content'')"
  using assms
  by (auto simp: generate_closer_response_def send_closer_reply_def template_sent_def Let_def
      last_ten_def history_line_def json_get_def)

text \<open>
  A WhatsApp conversation opened by the automatic send can never be continued: its first
  entry is a template message without a text, so generating an answer to whatever the client
  writes and sending an answer both end in a \<open>KeyError\<close>.
\<close>

theorem whatsapp_conversation_dead:
  assumes "auto_send_draft kapso w k base s = (Some c, b, s')"
    and "get_draft s k = Some d" "draft_channel d = ''whatsapp''"
    and "convo_for_draft s k = None" "convo_status c = CV_SENT"
    and "next_uuid s \<notin> convo_id ` set (convos s)"
  shows "generate_closer_response sanitize llm (convo_id c) text s' = Inl ''content''
    \<and> send_closer_reply send (convo_id c) s' = Inl (ReplyKeyError ''content'')"
proof -
  let ?c = "new_convo d ''whatsapp'' s"
  obtain l where l: "get_lead s (draft_lead_id d) = Some l"
    and sw: "send_whatsapp kapso d l s = (Some c, s')"
    using assms(1-4) by (auto simp: auto_send_draft_def split: option.splits if_splits prod.splits)
  have fr: "convo_id ?c \<notin> convo_id ` set (convos s)" using assms(6) by (simp add: new_convo_def)
  have got: "get_convo (upd_convo (convo_id ?c) f s1) (convo_id ?c) = Some (stamp_convo s1 f ?c)"
    if "convos s1 = convos s @ [?c]" "\<And>c. convo_id (f c) = convo_id c" for f s1
    using that fr tbl_get_None_iff [of convo_id "convos s" "convo_id ?c"]
    by (simp add: get_convo_def upd_convo_def convo_update_last [OF fr])
  define t where "t = select_template (map (\<lambda>g. signal_value (sig_signal_type g)) (signals_of s (lead_id l)))"
  let ?s1 = "add_convo ?c (tick_uuid s)"
  define ans where "ans = kapso (text_or_empty (lead_phone l)) (tpl_name t) (tpl_language t)
    (build_template_parameters t (lead_business_name l) (lead_business_name l) ''Scouter'')"
  have ph: "truthy (lead_phone l)" using sw by (auto simp: send_whatsapp_def split: if_splits)
  have rows: "convos ?s1 = convos s @ [?c]" by simp
  have closed: "get_convo (upd_convo (convo_id ?c) (close_convo e) ?s1) (convo_id ?c)
      = Some (stamp_convo ?s1 (close_convo e) ?c)" for e
    by (rule got [OF rows]) (simp add: close_convo_def)
  have sent: "get_convo (upd_convo (convo_id ?c) (template_sent t body m tm) ?s1) (convo_id ?c)
      = Some (stamp_convo ?s1 (template_sent t body m tm) ?c)" for body m tm
    by (rule got [OF rows]) (simp add: template_sent_def)
  have "\<exists>m. ans = Inr m"
  proof (cases ans)
    case (Inl e)
    then have "c = stamp_convo ?s1 (close_convo e) ?c"
      using sw ph closed [of e]
      by (simp add: send_whatsapp_def Let_def t_def [symmetric] ans_def [symmetric] convo_object_def)
    with assms(5) show ?thesis by (simp add: close_convo_def)
  qed simp
  then obtain m where m: "ans = Inr m" by blast
  let ?f = "template_sent t (draft_body d) m (now s)"
  have s': "s' = upd_draft (draft_id d) (\<lambda>d. d\<lparr>draft_status := D_SENT, draft_sent_at := Some (now s)\<rparr>)
      (upd_convo (convo_id ?c) ?f ?s1)"
    using sw ph m by (simp add: send_whatsapp_def Let_def t_def [symmetric] ans_def [symmetric])
  have g': "get_convo s' (convo_id ?c) = Some (stamp_convo ?s1 ?f ?c)"
    using sent [of "draft_body d" m "now s"] by (simp add: s' get_convo_def)
  have c: "c = stamp_convo ?s1 ?f ?c"
    using sw ph m g' s'
    by (simp add: send_whatsapp_def Let_def t_def [symmetric] ans_def [symmetric] convo_object_def)
  have g: "get_convo s' (convo_id ?c) = Some c" and ld: "leads s' = leads s"
    by (simp add: g' c) (simp add: s')
  have id: "convo_id c = convo_id ?c" "convo_lead_id c = draft_lead_id d"
    "\<not> convo_operator_took_over c"
    "convo_messages_json c = convo_messages_json (template_sent t (draft_body d) m (now s) ?c)"
    by (simp_all add: c template_sent_def) (simp_all add: new_convo_def)
  have "get_lead s' (convo_lead_id c) \<noteq> None" using l ld id(2) by (simp add: get_lead_def)
  from template_convo_stuck [OF g id(3) this id(4)] show ?thesis by (simp add: id(1))
qed

definition demo_wa_store :: store where
  "demo_wa_store = add_draft \<lparr>draft_id = 6, draft_lead_id = 1, draft_subject = None,
       draft_body = ''Hola'', draft_channel = ''whatsapp'', draft_status = D_APPROVED,
       draft_generation_metadata_json = None, draft_generated_at = 0, draft_reviewed_at = None,
       draft_sent_at = None\<rparr>
     (add_lead ((blank_lead 1 ''Bar'' 0)\<lparr>lead_phone := Some ''549''\<rparr>)
       ((empty_store 0)\<lparr>next_uuid := 9\<rparr>))"

lemma demo_wa_sent:
  "case auto_send_draft (\<lambda>p t g ps. Inr None) (demo_mail (Accepted ''<a@b>'')) 6 demo_wa_store demo_wa_store of
     (Some c, b, s') \<Rightarrow> convo_status c = CV_SENT | _ \<Rightarrow> False"
  by code_simp

theorem whatsapp_conversation_dead_witness:
  "\<exists>c b s'. auto_send_draft (\<lambda>p t g ps. Inr None) (demo_mail (Accepted ''<a@b>'')) 6
      demo_wa_store demo_wa_store = (Some c, b, s')
    \<and> generate_closer_response id (\<lambda>l h i. Inr (None, ''m'')) (convo_id c) ''Hola'' s' = Inl ''content''"
proof -
  obtain c b s' where r: "auto_send_draft (\<lambda>p t g ps. Inr None) (demo_mail (Accepted ''<a@b>'')) 6
      demo_wa_store demo_wa_store = (Some c, b, s')" and st: "convo_status c = CV_SENT"
    using demo_wa_sent by (auto split: prod.splits option.splits)
  have s: "get_draft demo_wa_store 6 = Some (hd (drafts demo_wa_store))"
    "draft_channel (hd (drafts demo_wa_store)) = ''whatsapp''"
    "convo_for_draft demo_wa_store 6 = None" "convos demo_wa_store = []"
    by (simp_all add: demo_wa_store_def get_draft_def add_draft_def add_lead_def empty_store_def
        convo_for_draft_def)
  from whatsapp_conversation_dead [OF r s(1-3) st] r show ?thesis by (fastforce simp: s(4))
qed

end
