(* ===== verification/Calendar.thy ===== *)
theory Calendar
  imports Py_Text
begin

text \<open>
  The parts of Python's \<open>datetime\<close> that depend on the calendar: the proleptic Gregorian date of
  an instant in UTC, \<open>isoformat\<close> and the \<open>strftime\<close> formats the program uses.
\<close>

definition day_of :: "datetime \<Rightarrow> int" where
  "day_of t = t div days 1"

definition time_of_day :: "datetime \<Rightarrow> int" where
  "time_of_day t = t mod days 1"

text \<open>
  Year, month and day of a day number (day 0 is 1 January 1970), by the usual computation with
  years that start in March and eras of 400 years.
\<close>

definition civil_of_day :: "int \<Rightarrow> int \<times> int \<times> int" where
  "civil_of_day z =
     (let n = z + 719468;
          era = n div 146097;
          doe = n mod 146097;
          yoe = (doe - doe div 1460 + doe div 36524 - doe div 146096) div 365;
          doy = doe - (365 * yoe + yoe div 4 - yoe div 100);
          mp = (5 * doy + 2) div 153;
          m = (if mp < 10 then mp + 3 else mp - 9)
      in (yoe + era * 400 + (if m \<le> 2 then 1 else 0), m, doy - (153 * mp + 2) div 5 + 1))"

definition day_of_civil :: "int \<times> int \<times> int \<Rightarrow> int" where
  "day_of_civil c = (case c of (year, m, d) \<Rightarrow>
     let y = (if m \<le> 2 then year - 1 else year);
         era = y div 400;
         yoe = y mod 400;
         doy = (153 * (if m > 2 then m - 3 else m + 9) + 2) div 5 + d - 1;
         doe = yoe * 365 + yoe div 4 - yoe div 100 + doy
     in era * 146097 + doe - 719468)"

text \<open>\<open>weekday()\<close>: Monday is 0.\<close>

definition weekday :: "datetime \<Rightarrow> int" where
  "weekday t = (day_of t + 3) mod 7"

text \<open>A number padded with zeros to a width.\<close>

definition padded :: "nat \<Rightarrow> int \<Rightarrow> string" where
  "padded w n = (let d = int_str n in replicate (w - length d) (CHR ''0'') @ d)"

definition date_str :: "datetime \<Rightarrow> string" where
  "date_str t = (case civil_of_day (day_of t) of (y, m, d) \<Rightarrow>
     padded 4 y @ ''-'' @ padded 2 m @ ''-'' @ padded 2 d)"

definition month_str :: "datetime \<Rightarrow> string" where
  "month_str t = (case civil_of_day (day_of t) of (y, m, d) \<Rightarrow> padded 4 y @ ''-'' @ padded 2 m)"

definition isoformat :: "datetime \<Rightarrow> string" where
  "isoformat t =
     (let u = time_of_day t; sec = u div 1000000; frac = u mod 1000000
      in date_str t @ ''T'' @ padded 2 (sec div 3600) @ '':'' @ padded 2 (sec div 60 mod 60)
         @ '':'' @ padded 2 (sec mod 60)
         @ (if frac = 0 then [] else CHR ''.'' # padded 6 frac) @ ''+00:00'')"

end
