(* ===== verification/Inbox_Text.thy ===== *)
theory Inbox_Text
  imports Schema_Inbox Calendar
begin

text \<open>
  The normal forms of message ids, addresses and subjects (\<open>app/services/inbox/mail_helpers.py\<close>)
  and the key that recognises a mail already stored (\<open>message_dedup.py\<close>).
\<close>

section \<open>Normal forms\<close>

definition normalize_message_id :: "string option \<Rightarrow> string option" where
  "normalize_message_id v =
     (if \<not> truthy v then None
      else let n = strip (text_or_empty v);
               n = (if starts_with ''<'' n \<and> ends_with ''>'' n then butlast (tl n) else n)
           in none_if_empty (strip n))"

definition normalize_email :: "string option \<Rightarrow> string option" where
  "normalize_email v =
     (if \<not> truthy v then None else none_if_empty (lower (strip (text_or_empty v))))"

text \<open>\<open>BRACKETED_TAG_RE.sub("", s)\<close> with \<open>\[\w+\]\<close>: \<open>tag_rest\<close> is what follows a tag after its
  opening bracket.\<close>

definition tag_rest :: "string \<Rightarrow> string option" where
  "tag_rest s = (let r = dropWhile word_char s in
     if takeWhile word_char s \<noteq> [] \<and> starts_with '']'' r then Some (tl r) else None)"

lemma tag_rest_shorter: "tag_rest s = Some r \<Longrightarrow> length r \<le> length s"
  by (auto simp: tag_rest_def Let_def split: if_splits)
    (metis diff_le_self le_trans length_dropWhile_le)

function remove_tags :: "string \<Rightarrow> string" where
  "remove_tags [] = []"
| "remove_tags (c # s) =
     (case (if c = CHR ''['' then tag_rest s else None) of
        Some r \<Rightarrow> remove_tags r | None \<Rightarrow> c # remove_tags s)"
  by pat_completeness auto
termination
  by (relation "measure length") (auto split: if_splits dest: tag_rest_shorter)

text \<open>\<open>SUBJECT_PREFIX_RE\<close>: \<open>^(?:(?:re|fw|fwd)\s*:\s*)+\<close> without regard to case.  \<open>prefix_rest\<close>
  is what follows one prefix.\<close>

definition subject_prefixes :: "string list" where
  "subject_prefixes = [''re'', ''fw'', ''fwd'']"

definition after_prefix :: "string \<Rightarrow> string \<Rightarrow> string option" where
  "after_prefix s p =
     (let r = lstrip (drop (length p) s)
      in if starts_with p (lower s) \<and> starts_with '':'' r then Some (lstrip (tl r)) else None)"

definition prefix_rest :: "string \<Rightarrow> string option" where
  "prefix_rest s =
     (case filter (\<lambda>r. r \<noteq> None) (map (after_prefix s) subject_prefixes) of
        [] \<Rightarrow> None | r # rs \<Rightarrow> r)"

lemma length_lstrip: "length (lstrip s) \<le> length s"
  by (simp add: lstrip_def length_dropWhile_le)

lemma after_prefix_shorter: "after_prefix s p = Some r \<Longrightarrow> length r < length s"
proof -
  assume a: "after_prefix s p = Some r"
  let ?r = "lstrip (drop (length p) s)"
  from a have ne: "?r \<noteq> []" and r: "r = lstrip (tl ?r)"
    by (auto simp: after_prefix_def Let_def split: if_splits)
  from r have "length r \<le> length (tl ?r)" by (simp only: length_lstrip)
  also have "\<dots> < length ?r" using ne by (cases ?r) simp_all
  also have "\<dots> \<le> length (drop (length p) s)" by (rule length_lstrip)
  also have "\<dots> \<le> length s" by simp
  finally show ?thesis .
qed

lemma prefix_restE:
  assumes "prefix_rest s = Some r"
  obtains p where "p \<in> set subject_prefixes" and "after_prefix s p = Some r"
  using assms by (auto simp: prefix_rest_def subject_prefixes_def split: if_splits list.splits)

lemma prefix_rest_shorter: "prefix_rest s = Some r \<Longrightarrow> length r < length s"
  by (erule prefix_restE) (rule after_prefix_shorter)

function strip_prefixes :: "string \<Rightarrow> string" where
  "strip_prefixes s = (case prefix_rest s of Some r \<Rightarrow> strip_prefixes r | None \<Rightarrow> s)"
  by pat_completeness auto
termination by (relation "measure length") (auto dest: prefix_rest_shorter)

declare strip_prefixes.simps [simp del]

text \<open>\<open>re.sub(r"\s+", " ", s)\<close>.\<close>

fun collapse_from :: "bool \<Rightarrow> string \<Rightarrow> string" where
  "collapse_from b [] = []"
| "collapse_from b (c # s) =
     (if py_space c then (if b then [] else '' '') @ collapse_from True s
      else c # collapse_from False s)"

definition collapse_spaces :: "string \<Rightarrow> string" where
  "collapse_spaces s = collapse_from False s"

definition normalize_subject :: "string option \<Rightarrow> string option" where
  "normalize_subject v =
     (if \<not> truthy v then None
      else none_if_empty
        (lower (strip (collapse_spaces (strip_prefixes (remove_tags (strip (text_or_empty v))))))))"

text \<open>\<open>MESSAGE_ID_RE.findall\<close> with \<open><([^>]+)>\<close>.\<close>

function find_ids :: "string \<Rightarrow> string list" where
  "find_ids [] = []"
| "find_ids (c # s) =
     (let w = takeWhile (\<lambda>d. d \<noteq> CHR ''>'') s; r = dropWhile (\<lambda>d. d \<noteq> CHR ''>'') s
      in if c = CHR ''<'' \<and> w \<noteq> [] \<and> r \<noteq> [] then w # find_ids (tl r) else find_ids s)"
  by pat_completeness auto
termination
proof (relation "measure length", goal_cases)
  case (2 c s w r)
  then have "length (tl r) \<le> length r" and "length r \<le> length s"
    by (auto simp: length_dropWhile_le)
  then show ?case by simp
qed auto

definition extract_reference_ids :: "string option \<Rightarrow> string list" where
  "extract_reference_ids v =
     (if \<not> truthy v then []
      else let matches = map strip (find_ids (text_or_empty v));
               tokens = (if matches \<noteq> [] then matches else split (text_or_empty v))
           in List.map_filter (\<lambda>t. normalize_message_id (Some t)) tokens)"

section \<open>The key of a mail\<close>

definition build_dedupe_key :: "(string \<Rightarrow> string) \<Rightarrow> inbound_mail_message \<Rightarrow> string" where
  "build_dedupe_key sha256 m =
     (let place = lower (in_provider m) @ '':'' @ lower (in_provider_mailbox m)
      in if truthy (in_provider_message_id m)
         then place @ '':provider:'' @ text_or_empty (in_provider_message_id m)
         else (case normalize_message_id (in_message_id m) of
           Some i \<Rightarrow> place @ '':message:'' @ i
         | None \<Rightarrow> place @ '':fallback:'' @ sha256 (join ''|''
             [lower (in_provider m), lower (in_provider_mailbox m),
              text_or_empty (normalize_email (in_from_email m)),
              text_or_empty (normalize_subject (in_subject m)),
              (case in_received_at m of Some t \<Rightarrow> isoformat t | None \<Rightarrow> []),
              take 160 (text_or_empty (text_or (in_body_snippet m) (in_body_text m)))])))"

section \<open>Answers have the subject of what they answer\<close>

lemma rstrip_where_Cons:
  "rstrip_where p (c # s) = (if rstrip_where p s = [] \<and> p c then [] else c # rstrip_where p s)"
proof -
  have "dropWhile p (rev s @ [c]) = (if dropWhile p (rev s) = [] \<and> p c then []
      else dropWhile p (rev s) @ [c])"
    by (induction "rev s") (auto simp: dropWhile_append dropWhile_eq_Nil_conv)
  then show ?thesis by (simp add: rstrip_where_def)
qed

lemma lstrip_rstrip: "lstrip (rstrip_where py_space s) = rstrip_where py_space (lstrip s)"
proof (induction s)
  case (Cons c s)
  show ?case
  proof (cases "py_space c")
    case True
    with Cons show ?thesis
      by (cases "rstrip_where py_space s = []")
        (simp_all add: rstrip_where_Cons lstrip_Cons)
  next
    case False
    then show ?thesis by (simp add: rstrip_where_Cons lstrip_Cons)
  qed
qed (simp add: lstrip_def)

lemma remove_tags_none: "CHR ''['' \<notin> set s \<Longrightarrow> remove_tags s = s"
  by (induction s) auto

lemma set_rstrip: "set (rstrip_where p s) \<subseteq> set s"
  by (auto simp: rstrip_where_def dest: set_dropWhileD)

lemma set_lstrip: "set (lstrip s) \<subseteq> set s"
  by (auto simp: lstrip_def dest: set_dropWhileD)

lemma prefix_of_reply:
  "strip_prefixes (''Re:'' @ s) = strip_prefixes (lstrip s)"
proof -
  have c: "lower ''Re:'' = ''re:''" "\<not> py_space (CHR '':'')" by code_simp+
  have "prefix_rest (''Re:'' @ s) = Some (lstrip s)"
    using c by (simp add: prefix_rest_def subject_prefixes_def after_prefix_def lstrip_Cons lower_append
        lower_def Let_def)
  then show ?thesis by (subst strip_prefixes.simps) simp
qed

lemma strip_reply:
  "strip (''Re: '' @ s) = (if rstrip_where py_space s = [] then ''Re:''
     else ''Re: '' @ rstrip_where py_space s)"
proof -
  have "\<not> py_space (CHR ''R'')" "\<not> py_space (CHR ''e'')" "\<not> py_space (CHR '':'')" "py_space (CHR '' '')"
    by code_simp+
  then show ?thesis by (simp add: strip_def lstrip_Cons rstrip_where_Cons)
qed

text \<open>
  C21: An answer has the normal form of the subject it answers: putting \<open>Re:\<close> in front of a subject
  without square brackets does not change it.  With a tag in front, as mail gateways put it, it
  does: the prefix behind the tag survives, because of the space between them.
\<close>

theorem reply_keeps_subject:
  assumes "CHR ''['' \<notin> set s"
  shows "normalize_subject (Some (''Re: '' @ s)) = normalize_subject (Some s)
    \<and> normalize_subject (Some ''[EXTERNAL] Re: Hola'') = Some ''re: hola''"
proof
  let ?r = "rstrip_where py_space s"
  have e: "lower (strip (collapse_spaces (strip_prefixes []))) = []"
    by code_simp
  have nb: "CHR ''['' \<notin> set (strip s)" "CHR ''['' \<notin> set ?r"
    using assms set_rstrip [of py_space s] set_rstrip [of py_space "lstrip s"] set_lstrip [of s]
    by (auto simp: strip_def)
  have "strip_prefixes (remove_tags (strip (''Re: '' @ s))) = strip_prefixes (strip s)"
  proof (cases "?r = []")
    case True
    then have "strip s = []" using lstrip_rstrip [of s] by (simp add: strip_def lstrip_def)
    with True show ?thesis
      unfolding strip_reply using prefix_of_reply [of "[]"] by (simp add: remove_tags_none lstrip_def)
  next
    case False
    have "lstrip (CHR '' '' # ?r) = strip s"
    proof -
      have "py_space (CHR '' '')" by code_simp
      then show ?thesis by (simp add: lstrip_Cons lstrip_rstrip strip_def)
    qed
    with False nb show ?thesis
      unfolding strip_reply using prefix_of_reply [of "CHR '' '' # ?r"] by (simp add: remove_tags_none)
  qed
  moreover have "remove_tags (strip s) = strip s" by (rule remove_tags_none [OF nb(1)])
  ultimately show "normalize_subject (Some (''Re: '' @ s)) = normalize_subject (Some s)"
    using e by (simp add: normalize_subject_def none_if_empty_def)
next
  show "normalize_subject (Some ''[EXTERNAL] Re: Hola'') = Some ''re: hola''" by code_simp
qed

theorem reply_keeps_subject_witness:
  "normalize_subject (Some ''Re: Re: Hola'') = normalize_subject (Some ''Re: Hola'')"
  using reply_keeps_subject [of "''Re: Hola''"] by simp

end
