(* ===== verification/Inbox_Matching.thy ===== *)
theory Inbox_Matching
  imports Inbox_Text Store
begin

text \<open>
  Matching an inbound mail with what was sent before, and finding its thread
  (\<open>app/services/inbox/thread_matcher.py\<close>).
\<close>

section \<open>Looking for the mail that was answered\<close>

text \<open>
  \<open>order_by(a.desc(), b.desc())\<close> where \<open>a\<close> may be null: PostgreSQL puts nulls first.
\<close>

definition null_first :: "datetime option \<Rightarrow> int" where
  "null_first t = (case t of None \<Rightarrow> 0 | Some _ \<Rightarrow> 1)"

definition newest_first ::
    "('r \<Rightarrow> datetime option) \<Rightarrow> ('r \<Rightarrow> datetime) \<Rightarrow> 'r list \<Rightarrow> 'r list" where
  "newest_first a b rows =
     sort_key (\<lambda>r. null_first (a r))
       (sort_key (\<lambda>r. - (case a r of None \<Rightarrow> 0 | Some t \<Rightarrow> t)) (sort_key (\<lambda>r. - b r) rows))"

primrec first_some :: "('a \<Rightarrow> 'b option) \<Rightarrow> 'a list \<Rightarrow> 'b option" where
  "first_some f [] = None"
| "first_some f (x # xs) = (case f x of Some y \<Rightarrow> Some y | None \<Rightarrow> first_some f xs)"

text \<open>
  A dictionary built from rows by a key keeps the last row of each key; the candidates are then
  tried in order.
\<close>

definition by_message_id :: "('r \<Rightarrow> string option) \<Rightarrow> 'r list \<Rightarrow> string \<Rightarrow> 'r option" where
  "by_message_id pmid rows candidate =
     find (\<lambda>r. normalize_message_id (pmid r) = Some candidate) (rev rows)"

definition find_delivery_by_message_ids ::
    "store \<Rightarrow> string list \<Rightarrow> outreach_delivery option" where
  "find_delivery_by_message_ids s message_ids =
     (let ids = filter (\<lambda>i. i \<noteq> []) message_ids;
          rows = newest_first dlv_sent_at dlv_created_at
            (filter (\<lambda>d. dlv_provider_message_id d \<in> Some ` set ids) (deliveries s))
      in first_some (by_message_id dlv_provider_message_id rows) ids)"

definition find_reply_send_by_message_ids :: "store \<Rightarrow> string list \<Rightarrow> reply_send option" where
  "find_reply_send_by_message_ids s message_ids =
     (let ids = filter (\<lambda>i. i \<noteq> []) message_ids;
          rows = newest_first rs_sent_at rs_created_at
            (filter (\<lambda>r. rs_provider_message_id r \<in> Some ` set ids \<and> rs_status r = RS_SENT)
              (reply_sends s))
      in first_some (by_message_id rs_provider_message_id rows) ids)"

definition subject_window :: datetime where
  "subject_window = days 30"

definition find_delivery_by_subject_fallback ::
    "store \<Rightarrow> inbound_mail_message \<Rightarrow> outreach_delivery option" where
  "find_delivery_by_subject_fallback s m =
     (case (normalize_email (in_from_email m), normalize_subject (in_subject m)) of
        (Some from_email, Some subject) \<Rightarrow>
          if prefix_rest (strip (text_or_empty (in_subject m))) = None then None
          else find (\<lambda>d. normalize_subject (Some (dlv_subject_snapshot d)) = Some subject)
            (take 10 (newest_first dlv_sent_at dlv_created_at
              (filter (\<lambda>d. dlv_recipient_email d = from_email \<and> dlv_status d = DLV_SENT
                   \<and> (case dlv_sent_at d of None \<Rightarrow> False | Some t \<Rightarrow> now s - subject_window \<le> t))
                (deliveries s))))
      | _ \<Rightarrow> None)"

section \<open>The match\<close>

record delivery_match =
  dm_delivery :: "outreach_delivery option"
  dm_matched_via :: string
  dm_confidence :: pyfloat
  dm_reply_send :: "reply_send option"

definition match_lead_id :: "delivery_match \<Rightarrow> uuid option" where
  "match_lead_id m = (case dm_delivery m of Some d \<Rightarrow> Some (dlv_lead_id d)
     | None \<Rightarrow> (case dm_reply_send m of Some r \<Rightarrow> rs_lead_id r | None \<Rightarrow> None))"

definition match_draft_id :: "delivery_match \<Rightarrow> uuid option" where
  "match_draft_id m = map_option dlv_draft_id (dm_delivery m)"

definition match_delivery_id :: "delivery_match \<Rightarrow> uuid option" where
  "match_delivery_id m = map_option dlv_id (dm_delivery m)"

definition match_thread_id :: "delivery_match \<Rightarrow> uuid option" where
  "match_thread_id m = (case dm_reply_send m of Some r \<Rightarrow> rs_thread_id r | None \<Rightarrow> None)"

text \<open>One round of \<open>match_delivery\<close>: a delivery, or else a reply, with one of these ids.\<close>

definition match_by_ids ::
    "store \<Rightarrow> string list \<Rightarrow> string \<Rightarrow> pyfloat \<Rightarrow> delivery_match option" where
  "match_by_ids s ids via confidence =
     (case find_delivery_by_message_ids s ids of
        Some d \<Rightarrow> Some \<lparr>dm_delivery = Some d, dm_matched_via = via, dm_confidence = confidence,
          dm_reply_send = None\<rparr>
      | None \<Rightarrow> (case find_reply_send_by_message_ids s ids of
          Some r \<Rightarrow> Some \<lparr>dm_delivery = None, dm_matched_via = via, dm_confidence = confidence,
            dm_reply_send = Some r\<rparr>
        | None \<Rightarrow> None))"

definition unmatched :: delivery_match where
  "unmatched = \<lparr>dm_delivery = None, dm_matched_via = ''unmatched'', dm_confidence = 0,
     dm_reply_send = None\<rparr>"

definition match_delivery :: "store \<Rightarrow> inbound_mail_message \<Rightarrow> delivery_match" where
  "match_delivery s m =
     (case match_by_ids s (case normalize_message_id (in_in_reply_to m) of None \<Rightarrow> [] | Some i \<Rightarrow> [i])
        ''message_id'' 1 of
        Some r \<Rightarrow> r
      | None \<Rightarrow> (case match_by_ids s (extract_reference_ids (in_references_raw m))
            ''references'' (9 / 10) of
          Some r \<Rightarrow> r
        | None \<Rightarrow> (case find_delivery_by_subject_fallback s m of
            Some d \<Rightarrow> \<lparr>dm_delivery = Some d, dm_matched_via = ''subject_fallback'',
              dm_confidence = 3 / 10, dm_reply_send = None\<rparr>
          | None \<Rightarrow> unmatched)))"

section \<open>The thread\<close>

definition resolve_external_thread_id :: "inbound_mail_message \<Rightarrow> string option" where
  "resolve_external_thread_id m =
     text_or (normalize_message_id (in_in_reply_to m))
       (text_or (case extract_reference_ids (in_references_raw m) of [] \<Rightarrow> None | i # is \<Rightarrow> Some i)
         (text_or (normalize_message_id (in_message_id m)) (in_provider_message_id m)))"

definition build_thread_key ::
    "(string \<Rightarrow> string) \<Rightarrow> inbound_mail_message \<Rightarrow> delivery_match \<Rightarrow> string option \<Rightarrow> string" where
  "build_thread_key sha256 m match external =
     (case match_delivery_id match of
        Some k \<Rightarrow> ''delivery:'' @ uuid_str k
      | None \<Rightarrow>
          if truthy external then ''message:'' @ text_or_empty external
          else (case (normalize_email (in_from_email m), normalize_subject (in_subject m)) of
              (Some from_email, Some subject) \<Rightarrow> ''subject:'' @ from_email @ '':'' @ subject @ '':''
                @ (case in_received_at m of Some t \<Rightarrow> month_str t | None \<Rightarrow> ''unknown'')
            | _ \<Rightarrow> ''unmatched:'' @ build_dedupe_key sha256 m))"

definition later :: "datetime option \<Rightarrow> datetime option \<Rightarrow> datetime option" where
  "later received known = (case received of None \<Rightarrow> known
     | Some t \<Rightarrow> (case known of None \<Rightarrow> Some t | Some u \<Rightarrow> if u < t then Some t else Some u))"

definition merge_thread_match ::
    "inbound_mail_message \<Rightarrow> delivery_match \<Rightarrow> string option \<Rightarrow> email_thread \<Rightarrow> email_thread" where
  "merge_thread_match m match external t =
     (let t1 = t\<lparr>thread_external_thread_id :=
                  (if truthy external \<and> \<not> truthy (thread_external_thread_id t) then external
                   else thread_external_thread_id t),
                 thread_last_message_at := later (in_received_at m) (thread_last_message_at t)\<rparr>;
          better = (case thread_match_confidence t of None \<Rightarrow> True | Some c \<Rightarrow> c \<le> dm_confidence match)
      in if dm_delivery match \<noteq> None \<and> better
         then t1\<lparr>thread_lead_id := match_lead_id match, thread_draft_id := match_draft_id match,
                 thread_delivery_id := match_delivery_id match,
                 thread_matched_via := dm_matched_via match,
                 thread_match_confidence := Some (dm_confidence match)\<rparr>
         else if dm_reply_send match \<noteq> None \<and> better
         then t1\<lparr>thread_lead_id := match_lead_id match,
                 thread_matched_via := dm_matched_via match,
                 thread_match_confidence := Some (dm_confidence match)\<rparr>
         else t1)"

definition same_thread_place :: "string \<Rightarrow> string \<Rightarrow> string \<Rightarrow> email_thread \<Rightarrow> bool" where
  "same_thread_place provider mailbox key t = (thread_provider t = provider
     \<and> thread_provider_mailbox t = mailbox \<and> thread_key t = key)"

definition new_thread ::
    "inbound_mail_message \<Rightarrow> delivery_match \<Rightarrow> string option \<Rightarrow> string \<Rightarrow> store \<Rightarrow> email_thread" where
  "new_thread m match external key s = \<lparr>thread_id = next_uuid s,
     thread_lead_id = match_lead_id match, thread_draft_id = match_draft_id match,
     thread_delivery_id = match_delivery_id match, thread_provider = in_provider m,
     thread_provider_mailbox = in_provider_mailbox m, thread_external_thread_id = external,
     thread_key = key, thread_matched_via = dm_matched_via match,
     thread_match_confidence = Some (dm_confidence match),
     thread_last_message_at = in_received_at m, thread_created_at = now s,
     thread_updated_at = now s\<rparr>"

text \<open>
  The thread of a mail, by its id.  The flush of a new thread fails when another session has
  committed one for the same place meanwhile.
\<close>

definition resolve_thread ::
    "(string \<Rightarrow> string) \<Rightarrow> inbound_mail_message \<Rightarrow> delivery_match \<Rightarrow> store \<Rightarrow> store \<Rightarrow>
     db_error + uuid \<times> store" where
  "resolve_thread sha256 m match base s =
     (let external = resolve_external_thread_id m;
          merge = (\<lambda>k. (k, upd_thread k (merge_thread_match m match external) s))
      in case (case match_thread_id match of None \<Rightarrow> None | Some k \<Rightarrow> get_thread s k) of
           Some t \<Rightarrow> Inr (merge (thread_id t))
         | None \<Rightarrow>
             let key = build_thread_key sha256 m match external;
                 here = same_thread_place (in_provider m) (in_provider_mailbox m) key
             in (case find here (threads s) of
                   Some t \<Rightarrow> Inr (merge (thread_id t))
                 | None \<Rightarrow>
                     if \<exists>t \<in> set (threads base). here t then Inl IntegrityError
                     else Inr (next_uuid s, add_thread (new_thread m match external key s) (tick_uuid s))))"

definition build_reply_log_detail :: "inbound_mail_message \<Rightarrow> string" where
  "build_reply_log_detail m =
     (let sender = (case normalize_email (in_from_email m) of
             None \<Rightarrow> ''contacto desconocido'' | Some e \<Rightarrow> e);
          snippet = text_or (in_body_snippet m) (text_or (in_subject m) (Some ''Respuesta recibida''))
      in ''Reply recibida de '' @ sender @ '' - '' @ text_or_empty snippet)"

section \<open>What a match rests on\<close>

lemma set_newest_first [simp]: "set (newest_first a b rows) = set rows"
  by (simp add: newest_first_def)

lemma first_some_SomeD: "first_some f xs = Some y \<Longrightarrow> \<exists>x \<in> set xs. f x = Some y"
  by (induction xs) (auto split: option.splits)

lemma first_some_None: "first_some f xs = None \<longleftrightarrow> (\<forall>x \<in> set xs. f x = None)"
  by (induction xs) (auto split: option.splits)

lemma find_SomeD: "find p xs = Some x \<Longrightarrow> x \<in> set xs \<and> p x"
  by (induction xs) (auto split: if_splits)

lemma by_message_id_SomeD:
  "by_message_id pmid rows i = Some r \<Longrightarrow> r \<in> set rows \<and> normalize_message_id (pmid r) = Some i"
  by (auto simp: by_message_id_def dest: find_SomeD)

lemma by_message_id_None:
  "by_message_id pmid rows i = None \<longleftrightarrow> (\<forall>r \<in> set rows. normalize_message_id (pmid r) \<noteq> Some i)"
  by (auto simp: by_message_id_def find_None_iff)

text \<open>A row is known under an id when it is stored with that id, in its normal form.\<close>

definition known_as :: "string option \<Rightarrow> string list \<Rightarrow> bool" where
  "known_as pmid ids \<longleftrightarrow> (\<exists>i \<in> set ids. i \<noteq> [] \<and> pmid = Some i \<and> normalize_message_id (Some i) = Some i)"

text \<open>A look-up that finds nothing: no selected row is known under one of the ids.\<close>

lemma first_some_by_id_None:
  assumes "first_some (by_message_id pmid rows) (filter (\<lambda>i. i \<noteq> []) ids) = None"
    and "known_as (pmid r) ids"
    and "\<And>i. pmid r = Some i \<Longrightarrow> i \<in> set ids \<Longrightarrow> i \<noteq> [] \<Longrightarrow> r \<in> set rows"
  shows False
proof -
  from assms(2) obtain i where i: "i \<in> set ids" "i \<noteq> []" "pmid r = Some i"
      "normalize_message_id (Some i) = Some i"
    by (auto simp: known_as_def)
  with assms(1) have "by_message_id pmid rows i = None" by (simp add: first_some_None)
  then have "\<forall>r \<in> set rows. normalize_message_id (pmid r) \<noteq> Some i"
    by (simp add: by_message_id_None)
  with assms(3) i have "normalize_message_id (pmid r) \<noteq> Some i" by blast
  with i show False by simp
qed

lemma find_delivery_Some:
  assumes "find_delivery_by_message_ids s ids = Some d"
  shows "d \<in> set (deliveries s)" and "dlv_provider_message_id d \<in> Some ` set ids"
  using assms
  by (auto simp: find_delivery_by_message_ids_def Let_def dest!: first_some_SomeD by_message_id_SomeD)

lemma find_delivery_None:
  assumes "find_delivery_by_message_ids s ids = None" and "d \<in> set (deliveries s)"
  shows "\<not> known_as (dlv_provider_message_id d) ids"
  using assms
  by (auto simp: find_delivery_by_message_ids_def Let_def elim!: first_some_by_id_None)

lemma find_reply_Some:
  assumes "find_reply_send_by_message_ids s ids = Some r"
  shows "r \<in> set (reply_sends s)" and "rs_provider_message_id r \<in> Some ` set ids"
    and "rs_status r = RS_SENT"
  using assms
  by (auto simp: find_reply_send_by_message_ids_def Let_def dest!: first_some_SomeD by_message_id_SomeD)

lemma find_reply_None:
  assumes "find_reply_send_by_message_ids s ids = None" and "r \<in> set (reply_sends s)"
    and "rs_status r = RS_SENT"
  shows "\<not> known_as (rs_provider_message_id r) ids"
  using assms
  by (auto simp: find_reply_send_by_message_ids_def Let_def elim!: first_some_by_id_None)

text \<open>No mail that was sent is known under one of the ids.\<close>

definition unknown_ids :: "store \<Rightarrow> string list \<Rightarrow> bool" where
  "unknown_ids s ids \<longleftrightarrow> (\<forall>d \<in> set (deliveries s). \<not> known_as (dlv_provider_message_id d) ids)
     \<and> (\<forall>r \<in> set (reply_sends s). rs_status r = RS_SENT \<longrightarrow> \<not> known_as (rs_provider_message_id r) ids)"

text \<open>The mail a match names was sent with one of the ids.\<close>

definition names_sent_mail :: "store \<Rightarrow> string list \<Rightarrow> delivery_match \<Rightarrow> bool" where
  "names_sent_mail s ids r \<longleftrightarrow>
     (case dm_delivery r of
        Some d \<Rightarrow> d \<in> set (deliveries s) \<and> dlv_provider_message_id d \<in> Some ` set ids
      | None \<Rightarrow> (case dm_reply_send r of None \<Rightarrow> False
          | Some x \<Rightarrow> x \<in> set (reply_sends s) \<and> rs_status x = RS_SENT
              \<and> rs_provider_message_id x \<in> Some ` set ids))"

lemma match_by_ids_Some:
  assumes "match_by_ids s ids via c = Some r"
  shows "names_sent_mail s ids r \<and> dm_matched_via r = via \<and> dm_confidence r = c"
  using assms find_delivery_Some [of s ids] find_reply_Some [of s ids]
  by (auto simp: match_by_ids_def names_sent_mail_def split: option.splits)

lemma match_by_ids_None: "match_by_ids s ids via c = None \<Longrightarrow> unknown_ids s ids"
  using find_delivery_None [of s ids] find_reply_None [of s ids]
  by (auto simp: match_by_ids_def unknown_ids_def split: option.splits)

definition direct_ids :: "inbound_mail_message \<Rightarrow> string list" where
  "direct_ids m = (case normalize_message_id (in_in_reply_to m) of None \<Rightarrow> [] | Some i \<Rightarrow> [i])"

definition reference_ids :: "inbound_mail_message \<Rightarrow> string list" where
  "reference_ids m = extract_reference_ids (in_references_raw m)"

lemma subject_fallback_Some:
  assumes "find_delivery_by_subject_fallback s m = Some d"
  shows "d \<in> set (deliveries s)" and "dlv_status d = DLV_SENT"
    and "normalize_email (in_from_email m) = Some (dlv_recipient_email d)"
    and "normalize_subject (in_subject m) = normalize_subject (Some (dlv_subject_snapshot d))"
    and "\<exists>t. dlv_sent_at d = Some t \<and> now s - days 30 \<le> t"
proof -
  obtain e sub where es: "normalize_email (in_from_email m) = Some e"
      "normalize_subject (in_subject m) = Some sub"
    using assms by (auto simp: find_delivery_by_subject_fallback_def split: option.splits)
  let ?p = "\<lambda>d. dlv_recipient_email d = e \<and> dlv_status d = DLV_SENT
     \<and> (case dlv_sent_at d of None \<Rightarrow> False | Some t \<Rightarrow> now s - subject_window \<le> t)"
  have f: "find (\<lambda>d. normalize_subject (Some (dlv_subject_snapshot d)) = Some sub)
      (take 10 (newest_first dlv_sent_at dlv_created_at (filter ?p (deliveries s)))) = Some d"
    using assms es by (simp add: find_delivery_by_subject_fallback_def split: if_splits)
  then have n: "normalize_subject (Some (dlv_subject_snapshot d)) = Some sub"
    and "d \<in> set (take 10 (newest_first dlv_sent_at dlv_created_at (filter ?p (deliveries s))))"
    by (auto dest: find_SomeD)
  then have "d \<in> set (deliveries s) \<and> ?p d" by (auto dest: in_set_takeD)
  with es n show "d \<in> set (deliveries s)" "dlv_status d = DLV_SENT"
    "normalize_email (in_from_email m) = Some (dlv_recipient_email d)"
    "normalize_subject (in_subject m) = normalize_subject (Some (dlv_subject_snapshot d))"
    "\<exists>t. dlv_sent_at d = Some t \<and> now s - days 30 \<le> t"
    by (auto simp: subject_window_def split: option.splits)
qed

text \<open>
  A match is what it says: with confidence 1 it names a mail sent with the id that is
  answered; with 0.9 no such mail exists and it names one sent with a referenced id; with 0.3 no
  id of the mail is known, and it names a mail sent to this sender in the last 30 days with the
  same subject; with 0 nothing of that is known.
\<close>

theorem match_explained:
  "let r = match_delivery s m in
     (dm_matched_via r, dm_confidence r) = (''message_id'', 1) \<and> names_sent_mail s (direct_ids m) r
   \<or> (dm_matched_via r, dm_confidence r) = (''references'', 9 / 10)
       \<and> names_sent_mail s (reference_ids m) r \<and> unknown_ids s (direct_ids m)
   \<or> (dm_matched_via r, dm_confidence r) = (''subject_fallback'', 3 / 10)
       \<and> unknown_ids s (direct_ids m) \<and> unknown_ids s (reference_ids m)
       \<and> (\<exists>d t. dm_delivery r = Some d \<and> d \<in> set (deliveries s) \<and> dlv_status d = DLV_SENT
           \<and> normalize_email (in_from_email m) = Some (dlv_recipient_email d)
           \<and> normalize_subject (in_subject m) = normalize_subject (Some (dlv_subject_snapshot d))
           \<and> dlv_sent_at d = Some t \<and> now s - days 30 \<le> t)
   \<or> r = unmatched \<and> unknown_ids s (direct_ids m) \<and> unknown_ids s (reference_ids m)"
proof (cases "match_by_ids s (direct_ids m) ''message_id'' 1")
  case (Some r)
  then have "match_delivery s m = r" by (simp add: match_delivery_def direct_ids_def)
  with match_by_ids_Some [OF Some] show ?thesis by simp
next
  case None
  note u1 = match_by_ids_None [OF None]
  show ?thesis
  proof (cases "match_by_ids s (reference_ids m) ''references'' (9 / 10)")
    case (Some r)
    with None have "match_delivery s m = r"
      by (simp add: match_delivery_def direct_ids_def reference_ids_def)
    with match_by_ids_Some [OF Some] u1 show ?thesis by simp
  next
    case None2: None
    note u2 = match_by_ids_None [OF None2]
    from None None2 have eq: "match_delivery s m = (case find_delivery_by_subject_fallback s m of
        Some d \<Rightarrow> \<lparr>dm_delivery = Some d, dm_matched_via = ''subject_fallback'',
          dm_confidence = 3 / 10, dm_reply_send = None\<rparr> | None \<Rightarrow> unmatched)"
      by (simp add: match_delivery_def direct_ids_def reference_ids_def)
    show ?thesis
    proof (cases "find_delivery_by_subject_fallback s m")
      case (Some d)
      with subject_fallback_Some [OF Some] eq u1 u2 show ?thesis by simp
    qed (use eq u1 u2 in simp)
  qed
qed

section \<open>A thread keeps its best match\<close>

definition later_or_same :: "datetime option \<Rightarrow> datetime option \<Rightarrow> bool" where
  "later_or_same a b = (case a of None \<Rightarrow> True | Some t \<Rightarrow> (case b of None \<Rightarrow> False | Some u \<Rightarrow> t \<le> u))"

definition confidence_le :: "pyfloat option \<Rightarrow> pyfloat option \<Rightarrow> bool" where
  "confidence_le a b = (case a of None \<Rightarrow> True | Some x \<Rightarrow> (case b of None \<Rightarrow> False | Some y \<Rightarrow> x \<le> y))"

lemma later_or_same_later [simp]: "later_or_same known (later received known)"
  by (auto simp: later_or_same_def later_def split: option.splits)

text \<open>What a better-informed thread keeps of an earlier one.\<close>

definition thread_grows :: "email_thread \<Rightarrow> email_thread \<Rightarrow> bool" where
  "thread_grows t t' \<longleftrightarrow> thread_id t' = thread_id t \<and> thread_key t' = thread_key t
     \<and> thread_provider t' = thread_provider t \<and> thread_provider_mailbox t' = thread_provider_mailbox t
     \<and> later_or_same (thread_last_message_at t) (thread_last_message_at t')
     \<and> confidence_le (thread_match_confidence t) (thread_match_confidence t')
     \<and> (truthy (thread_external_thread_id t) \<longrightarrow> thread_external_thread_id t' = thread_external_thread_id t)
     \<and> (thread_lead_id t' \<noteq> thread_lead_id t \<longrightarrow> thread_match_confidence t' \<noteq> None)"

lemma merge_grows: "thread_grows t (merge_thread_match m match ext t)"
  by (auto simp: thread_grows_def merge_thread_match_def Let_def confidence_le_def split: option.splits)

lemma stamp_thread_grows: "thread_grows t (f t) \<Longrightarrow> thread_grows t (stamp_thread s f t)"
  by (auto simp: thread_grows_def stamp_thread_def)

end
