(* ===== verification/Inbox_Classify.thy ===== *)
theory Inbox_Classify
  imports Inbox_Text Notifications
begin

text \<open>
  Classification of inbound mail by the language model
  (\<open>app/services/inbox/reply_classification_service.py\<close>).  The model's answer is a parameter.
\<close>

section \<open>The table of inbound messages\<close>

definition get_message :: "store \<Rightarrow> uuid \<Rightarrow> inbound_message option" where
  "get_message s k = tbl_get msg_id (messages s) k"

definition stamp_message ::
    "store \<Rightarrow> (inbound_message \<Rightarrow> inbound_message) \<Rightarrow> inbound_message \<Rightarrow> inbound_message" where
  "stamp_message s f m = (if f m = m then m else (f m)\<lparr>msg_updated_at := now s\<rparr>)"

definition upd_message ::
    "uuid \<Rightarrow> (inbound_message \<Rightarrow> inbound_message) \<Rightarrow> store \<Rightarrow> store" where
  "upd_message k f s = s\<lparr>messages := tbl_update msg_id k (stamp_message s f) (messages s)\<rparr>"

definition add_message :: "inbound_message \<Rightarrow> store \<Rightarrow> store" where
  "add_message m s = s\<lparr>messages := messages s @ [m]\<rparr>"

lemma stamp_message_fields [simp]:
  "msg_id (stamp_message s f m) = msg_id (f m)"
  "msg_dedupe_key (stamp_message s f m) = msg_dedupe_key (f m)"
  "msg_thread_id (stamp_message s f m) = msg_thread_id (f m)"
  "msg_lead_id (stamp_message s f m) = msg_lead_id (f m)"
  "msg_delivery_id (stamp_message s f m) = msg_delivery_id (f m)"
  "msg_classification_status (stamp_message s f m) = msg_classification_status (f m)"
  "msg_classification_label (stamp_message s f m) = msg_classification_label (f m)"
  "msg_confidence (stamp_message s f m) = msg_confidence (f m)"
  "msg_classification_error (stamp_message s f m) = msg_classification_error (f m)"
  "msg_should_escalate_reviewer (stamp_message s f m) = msg_should_escalate_reviewer (f m)"
  "msg_classified_at (stamp_message s f m) = msg_classified_at (f m)"
  by (simp_all add: stamp_message_def)

interpretation message_tbl: table get_message upd_message add_message msg_id stamp_message
  by unfold_locales
    (auto dest: tbl_get_key simp: get_message_def upd_message_def add_message_def table_simps
      stamp_message_def [abs_def])

section \<open>Pieces\<close>

definition valid_reply_labels :: "string list" where
  "valid_reply_labels = [''interested'', ''not_interested'', ''neutral'', ''asked_for_quote'',
     ''asked_for_meeting'', ''asked_for_more_info'', ''wrong_contact'', ''out_of_office'',
     ''spam_or_irrelevant'', ''needs_human_review'']"

definition normalize_label :: "string option \<Rightarrow> string + string" where
  "normalize_label v =
     (if \<not> truthy v then Inl ''Executor did not return a label.''
      else Inr (lower (strip (text_or_empty v))))"

definition normalize_confidence :: "pyfloat option \<Rightarrow> string + pyfloat option" where
  "normalize_confidence v = (case v of None \<Rightarrow> Inr None
     | Some c \<Rightarrow> if c < 0 \<or> 1 < c then Inl ''Confidence must be between 0 and 1.'' else Inr (Some c))"

definition clean_text :: "string option \<Rightarrow> string option" where
  "clean_text v = (case v of None \<Rightarrow> None | Some t \<Rightarrow> none_if_empty (strip t))"

definition should_escalate_reviewer ::
    "mail_env \<Rightarrow> string \<Rightarrow> pyfloat option \<Rightarrow> bool \<Rightarrow> pyfloat \<Rightarrow> bool" where
  "should_escalate_reviewer env label confidence llm_flag threshold =
     (llm_flag \<or> label = ''needs_human_review'' \<or> label \<in> set (mail_use_reviewer_for_labels env)
      \<or> (case confidence of None \<Rightarrow> False | Some c \<Rightarrow> c < threshold))"

text \<open>
  The dictionary the language model's wrapper returns, or the text of the exception it raises;
  with the role and model of the invocation when it left its metadata.
\<close>

record reply_classification =
  rc_label :: "string option"
  rc_summary :: "string option"
  rc_confidence :: "pyfloat option"
  rc_next_action :: "string option"
  rc_escalate :: bool

record classifier =
  cf_env :: mail_env
  cf_model :: "string option"
  cf_answer :: "store \<Rightarrow> inbound_message \<Rightarrow>
    (string + reply_classification) \<times> (string \<times> string option) option"

definition list_pending_inbound_messages :: "nat \<Rightarrow> store \<Rightarrow> inbound_message list" where
  "list_pending_inbound_messages limit s =
     take limit (sort_key (\<lambda>m. case msg_received_at m of None \<Rightarrow> 0 | Some _ \<Rightarrow> (1::int))
       (sort_key (\<lambda>m. - (case msg_received_at m of None \<Rightarrow> 0 | Some t \<Rightarrow> t))
         (sort_key (\<lambda>m. - msg_created_at m)
           (filter (\<lambda>m. msg_classification_status m = CL_PENDING) (messages s)))))"

section \<open>Classification\<close>

text \<open>
  The assignments made from an answer, in their order: the message as far as they got, and the
  text of the exception that stopped them.
\<close>

definition classified_message ::
    "classifier \<Rightarrow> operational_settings \<Rightarrow> datetime \<Rightarrow> (string \<times> string option) option \<Rightarrow>
     reply_classification \<Rightarrow> inbound_message \<Rightarrow> string option \<times> inbound_message" where
  "classified_message cf st t invocation r m = (case normalize_label (rc_label r) of
     Inl e \<Rightarrow> (Some e, m)
   | Inr label \<Rightarrow>
       if label \<notin> set valid_reply_labels
       then (Some (''Invalid label returned by executor: '' @ [CHR 0x27] @ label @ [CHR 0x27]), m)
       else
         let m1 = m\<lparr>msg_classification_status := CL_CLASSIFIED,
                    msg_classification_label := Some label,
                    msg_summary := clean_text (rc_summary r)\<rparr>
         in (case normalize_confidence (rc_confidence r) of
           Inl e \<Rightarrow> (Some e, m1)
         | Inr c \<Rightarrow> (None, m1\<lparr>msg_confidence := c,
             msg_next_action_suggestion := clean_text (rc_next_action r),
             msg_should_escalate_reviewer := should_escalate_reviewer (cf_env cf) label c
               (rc_escalate r) (ops_reviewer_confidence_threshold st),
             msg_classification_error := None,
             msg_classification_role := (case invocation of Some (role, model) \<Rightarrow> Some role
               | None \<Rightarrow> Some ''executor''),
             msg_classification_model := (case invocation of Some (role, model) \<Rightarrow> model
               | None \<Rightarrow> cf_model cf),
             msg_classified_at := Some t\<rparr>)))"

definition failed_message ::
    "classifier \<Rightarrow> (string \<times> string option) option \<Rightarrow> string \<Rightarrow> inbound_message \<Rightarrow> inbound_message" where
  "failed_message cf invocation e m = m\<lparr>msg_classification_status := CL_FAILED,
     msg_classification_error := Some e,
     msg_classification_role := (case invocation of Some (role, model) \<Rightarrow> Some role
       | None \<Rightarrow> Some ''executor''),
     msg_classification_model := (case invocation of Some (role, model) \<Rightarrow> model
       | None \<Rightarrow> cf_model cf)\<rparr>"

text \<open>
  The session holds the row when the conditional UPDATE runs; it claims no row when another
  session has committed a claim (\<open>base\<close>), and the message is then read again.
\<close>

definition claimed_elsewhere :: "uuid \<Rightarrow> store \<Rightarrow> inbound_message option" where
  "claimed_elsewhere k base = (case get_message base k of
     Some m \<Rightarrow> if msg_classification_status m \<noteq> CL_PENDING then Some m else None | None \<Rightarrow> None)"

definition classify_inbound_message ::
    "classifier \<Rightarrow> store \<Rightarrow> uuid \<Rightarrow> store \<Rightarrow> inbound_message option \<times> store" where
  "classify_inbound_message cf base k s = (case get_message s k of
     None \<Rightarrow> (None, s)
   | Some m \<Rightarrow>
       if msg_classification_status m \<noteq> CL_PENDING then (Some m, s)
       else (case claimed_elsewhere k base of
         Some m' \<Rightarrow> (Some m', upd_message k (\<lambda>_. m') s)
       | None \<Rightarrow>
           let s1 = upd_message k (\<lambda>m. m\<lparr>msg_classification_status := CL_CLASSIFYING\<rparr>) s;
               m1 = m\<lparr>msg_classification_status := CL_CLASSIFYING\<rparr>;
               (answer, invocation) = cf_answer cf s m1
           in case answer of
             Inl e \<Rightarrow> let s2 = upd_message k (failed_message cf invocation e) s1
               in (get_message s2 k, s2)
           | Inr r \<Rightarrow>
               let (st, s2) = get_cached_settings s1 in
               (case classified_message cf st (now s) invocation r m1 of
                 (Some e, m2) \<Rightarrow>
                   let s3 = upd_message k (\<lambda>m. failed_message cf invocation e
                              (snd (classified_message cf st (now s) invocation r m))) s2
                   in (get_message s3 k, s3)
               | (None, m2) \<Rightarrow>
                   let s3 = upd_message k (\<lambda>m. snd (classified_message cf st (now s) invocation r m)) s2;
                       lead = (case msg_lead_id m2 of None \<Rightarrow> None | Some l \<Rightarrow> get_lead s l);
                       s4 = on_reply_classified base k (text_or_empty (msg_classification_label m2))
                         (map_option lead_business_name lead) (msg_from_email m2)
                         (msg_confidence m2) (msg_should_escalate_reviewer m2) s3
                   in (get_message s4 k, s4))))"

definition classify_pending_inbound_messages ::
    "classifier \<Rightarrow> store \<Rightarrow> nat \<Rightarrow> store \<Rightarrow> store" where
  "classify_pending_inbound_messages cf base limit s =
     fold (\<lambda>m s. snd (classify_inbound_message cf base (msg_id m) s))
       (list_pending_inbound_messages limit s) s"

section \<open>A claimed message is settled\<close>

text \<open>What a notification leaves of the messages: all of them, or those committed by others.\<close>

lemma emit_messages:
  "messages (emit base a s) = messages s \<or> messages (emit base a s) = messages base"
proof (cases "lost_race base a (snd (get_or_create s))")
  case True
  then have "messages (snd (create_notification base a (snd (get_or_create s)))) = messages base"
    by (simp add: create_notification_def lost_race_def Let_def rollback_to_def)
  then show ?thesis
    by (simp add: emit_def get_cached_settings_def split_beta Let_def get_or_create_def
        split: option.splits)
next
  case False
  then have "notif_frame s (emit base a s)" by (intro emit_notif_frame) simp
  from notif_frame_fields [OF this] show ?thesis by simp
qed

lemma on_reply_classified_messages:
  "messages (on_reply_classified base k l b e c u s) = messages s
   \<or> messages (on_reply_classified base k l b e c u s) = messages base"
  unfolding on_reply_classified_def Let_def by (simp add: emit_messages)

definition settled :: "datetime \<Rightarrow> inbound_message \<Rightarrow> bool" where
  "settled t m \<longleftrightarrow>
     msg_classification_status m = CL_CLASSIFIED \<and> msg_classification_error m = None
       \<and> msg_classified_at m = Some t
       \<and> (\<exists>l. msg_classification_label m = Some l \<and> l \<in> set valid_reply_labels)
       \<and> (\<forall>c. msg_confidence m = Some c \<longrightarrow> 0 \<le> c \<and> c \<le> 1)
     \<or> msg_classification_status m = CL_FAILED \<and> msg_classification_error m \<noteq> None"

lemma normalize_confidence_range:
  "normalize_confidence v = Inr (Some c) \<Longrightarrow> 0 \<le> c \<and> c \<le> 1"
  by (auto simp: normalize_confidence_def split: option.splits if_splits)

lemma classified_message_settled:
  "classified_message cf st t i r m = (None, m') \<Longrightarrow> settled t m' \<and> msg_id m' = msg_id m"
  by (auto simp: classified_message_def settled_def normalize_confidence_range Let_def
      split: sum.splits if_splits option.splits)

lemma classified_message_keeps [simp]:
  "msg_id (snd (classified_message cf st t i r m)) = msg_id m"
  "msg_dedupe_key (snd (classified_message cf st t i r m)) = msg_dedupe_key m"
  by (auto simp: classified_message_def Let_def split: sum.splits)

lemma classified_message_error:
  "fst (classified_message cf st t i r m) = fst (classified_message cf st t i r m')"
  by (auto simp: classified_message_def Let_def split: sum.splits)

lemma failed_message_settled [simp]:
  "settled t (failed_message cf i e m)" "msg_id (failed_message cf i e m) = msg_id m"
  "msg_dedupe_key (failed_message cf i e m) = msg_dedupe_key m"
  by (auto simp: failed_message_def settled_def)

lemma settled_stamp [simp]: "settled t (stamp_message s f m) = settled t (f m)"
  by (simp add: settled_def)

lemma get_message_settings [simp]: "get_message (snd (get_or_create s)) = get_message s"
  by (simp add: fun_eq_iff get_message_def get_or_create_def Let_def split: option.splits)

lemma now_settings [simp]: "now (snd (get_or_create s)) = now s"
  by (simp add: get_or_create_def Let_def split: option.splits)


definition demo_pending :: "store \<Rightarrow> inbound_message" where
  "demo_pending s = \<lparr>msg_id = 3, msg_dedupe_key = ''k'', msg_thread_id = None, msg_lead_id = None,
     msg_draft_id = None, msg_delivery_id = None, msg_provider = ''imap'',
     msg_provider_mailbox = ''INBOX'', msg_provider_message_id = Some ''7'',
     msg_message_id = None, msg_in_reply_to = None, msg_references_raw = None,
     msg_from_email = None, msg_from_name = None, msg_to_email = None, msg_subject = None,
     msg_body_text = None, msg_body_snippet = None, msg_received_at = None,
     msg_raw_metadata_json = None, msg_classification_status = CL_PENDING,
     msg_classification_label = None, msg_summary = None, msg_confidence = None,
     msg_next_action_suggestion = None, msg_should_escalate_reviewer = False,
     msg_classification_error = None, msg_classification_role = None,
     msg_classification_model = None, msg_classified_at = None, msg_created_at = now s,
     msg_updated_at = now s\<rparr>"


end
