(* ===== verification/Reply_Drafts.thy ===== *)
theory Reply_Drafts
  imports Inbox_Classify
begin

text \<open>
  Assisted replies: generating a draft (\<open>app/services/inbox/reply_response_service.py\<close>), its
  review (\<open>reply_draft_review_service.py\<close>), and what keeps a draft from being sent
  (\<open>_compute_send_blocked_reason\<close> of \<open>reply_send_service.py\<close>).
\<close>

section \<open>Tables\<close>

definition get_reply_draft :: "store \<Rightarrow> uuid \<Rightarrow> reply_draft option" where
  "get_reply_draft s k = tbl_get rd_id (reply_drafts s) k"

definition stamp_reply_draft ::
    "store \<Rightarrow> (reply_draft \<Rightarrow> reply_draft) \<Rightarrow> reply_draft \<Rightarrow> reply_draft" where
  "stamp_reply_draft s f d = (if f d = d then d else (f d)\<lparr>rd_updated_at := now s\<rparr>)"

definition upd_reply_draft :: "uuid \<Rightarrow> (reply_draft \<Rightarrow> reply_draft) \<Rightarrow> store \<Rightarrow> store" where
  "upd_reply_draft k f s =
     s\<lparr>reply_drafts := tbl_update rd_id k (stamp_reply_draft s f) (reply_drafts s)\<rparr>"

definition add_reply_draft :: "reply_draft \<Rightarrow> store \<Rightarrow> store" where
  "add_reply_draft d s = s\<lparr>reply_drafts := reply_drafts s @ [d]\<rparr>"

definition get_reply_review :: "store \<Rightarrow> uuid \<Rightarrow> reply_review option" where
  "get_reply_review s k = tbl_get rv_id (reply_reviews s) k"

definition stamp_reply_review ::
    "store \<Rightarrow> (reply_review \<Rightarrow> reply_review) \<Rightarrow> reply_review \<Rightarrow> reply_review" where
  "stamp_reply_review s f r = (if f r = r then r else (f r)\<lparr>rv_updated_at := now s\<rparr>)"

definition upd_reply_review :: "uuid \<Rightarrow> (reply_review \<Rightarrow> reply_review) \<Rightarrow> store \<Rightarrow> store" where
  "upd_reply_review k f s =
     s\<lparr>reply_reviews := tbl_update rv_id k (stamp_reply_review s f) (reply_reviews s)\<rparr>"

definition add_reply_review :: "reply_review \<Rightarrow> store \<Rightarrow> store" where
  "add_reply_review r s = s\<lparr>reply_reviews := reply_reviews s @ [r]\<rparr>"

lemma stamp_reply_draft_fields [simp]:
  "rd_id (stamp_reply_draft s f d) = rd_id (f d)"
  "rd_inbound_message_id (stamp_reply_draft s f d) = rd_inbound_message_id (f d)"
  "rd_edited_at (stamp_reply_draft s f d) = rd_edited_at (f d)"
  "rd_subject (stamp_reply_draft s f d) = rd_subject (f d)"
  "rd_body (stamp_reply_draft s f d) = rd_body (f d)"
  "rd_lead_id (stamp_reply_draft s f d) = rd_lead_id (f d)"
  by (simp_all add: stamp_reply_draft_def)

lemma stamp_reply_review_fields [simp]:
  "rv_id (stamp_reply_review s f r) = rv_id (f r)"
  "rv_status (stamp_reply_review s f r) = rv_status (f r)"
  "rv_should_edit (stamp_reply_review s f r) = rv_should_edit (f r)"
  "rv_reviewed_at (stamp_reply_review s f r) = rv_reviewed_at (f r)"
  "rv_reply_assistant_draft_id (stamp_reply_review s f r) = rv_reply_assistant_draft_id (f r)"
  by (simp_all add: stamp_reply_review_def)

interpretation reply_draft_tbl: table get_reply_draft upd_reply_draft add_reply_draft rd_id stamp_reply_draft
  by unfold_locales
    (auto dest: tbl_get_key simp: get_reply_draft_def upd_reply_draft_def add_reply_draft_def
      table_simps stamp_reply_draft_def [abs_def])

interpretation reply_review_tbl: table get_reply_review upd_reply_review add_reply_review rv_id stamp_reply_review
  by unfold_locales
    (auto dest: tbl_get_key simp: get_reply_review_def upd_reply_review_def add_reply_review_def
      table_simps stamp_reply_review_def [abs_def])

text \<open>Relationships of a draft: its message, its review and its latest send.\<close>

definition draft_of_message :: "store \<Rightarrow> uuid \<Rightarrow> reply_draft option" where
  "draft_of_message s k = find (\<lambda>d. rd_inbound_message_id d = k) (reply_drafts s)"

definition review_of :: "store \<Rightarrow> reply_draft \<Rightarrow> reply_review option" where
  "review_of s d = find (\<lambda>r. rv_reply_assistant_draft_id r = rd_id d) (reply_reviews s)"

definition latest_send :: "store \<Rightarrow> reply_draft \<Rightarrow> reply_send option" where
  "latest_send s d =
     first_max rs_created_at (filter (\<lambda>r. rs_reply_assistant_draft_id r = rd_id d) (reply_sends s))"

definition review_is_stale :: "store \<Rightarrow> reply_draft \<Rightarrow> bool" where
  "review_is_stale s d = (case (review_of s d, rd_edited_at d) of
     (Some r, Some e) \<Rightarrow> (case rv_reviewed_at r of Some t \<Rightarrow> t < e | None \<Rightarrow> False)
   | _ \<Rightarrow> False)"

section \<open>What blocks a send\<close>

definition send_timeout :: datetime where
  "send_timeout = minutes 5"

definition timed_out :: "datetime \<Rightarrow> reply_send \<Rightarrow> bool" where
  "timed_out t r = (rs_status r = RS_SENDING \<and> send_timeout < t - rs_created_at r)"

definition give_up :: "reply_send \<Rightarrow> reply_send" where
  "give_up r = r\<lparr>rs_status := RS_FAILED, rs_error := Some ''Send timed out after 5 minutes.''\<rparr>"

definition resolve_reply_subject :: "string \<Rightarrow> string option \<Rightarrow> string option" where
  "resolve_reply_subject own received =
     (let candidate = (if strip own \<noteq> [] then strip own
                       else strip (text_or_empty received))
      in if candidate = [] then None
         else let clean = remove_char (CHR 0x0A) (remove_char (CHR 0x0D) candidate)
              in if starts_with ''re:'' (lower clean) then Some clean else Some (''Re: '' @ clean))"

definition review_blocks :: "reply_draft \<Rightarrow> reply_review option \<Rightarrow> string option" where
  "review_blocks d rv = (case rv of None \<Rightarrow> None | Some r \<Rightarrow>
     if rv_status r = RV_PENDING then Some ''Reply draft review is still pending.''
     else if rv_should_edit r
       \<and> (case rv_reviewed_at r of None \<Rightarrow> False
          | Some t \<Rightarrow> (case rd_edited_at d of None \<Rightarrow> True | Some e \<Rightarrow> e \<le> t))
     then Some ''Reply draft review recommends editing before sending.''
     else None)"

definition content_blocks :: "reply_draft \<Rightarrow> inbound_message \<Rightarrow> string option" where
  "content_blocks d m =
     (if strip (text_or_empty (msg_from_email m)) = []
      then Some ''Inbound message does not have a sender email.''
      else if \<not> truthy (resolve_reply_subject (rd_subject d) (msg_subject m))
      then Some ''Reply draft subject is missing.''
      else if strip (rd_body d) = [] then Some ''Reply draft body is missing.''
      else None)"

text \<open>
  \<open>_compute_send_blocked_reason\<close>.  It also marks a send as failed that has been sending for
  more than five minutes, an assignment the next flush writes.
\<close>

definition compute_send_blocked_reason ::
    "reply_draft \<Rightarrow> store \<Rightarrow> string option \<times> store" where
  "compute_send_blocked_reason d s = (case get_message s (rd_inbound_message_id d) of
     None \<Rightarrow> (Some ''Reply draft is missing inbound context.'', s)
   | Some m \<Rightarrow>
       let rest = (\<lambda>s. (or_else (review_blocks d (review_of s d)) (content_blocks d m), s))
       in (case latest_send s d of
         None \<Rightarrow> rest s
       | Some r \<Rightarrow>
           if rs_status r = RS_SENT then (Some ''Reply draft has already been sent.'', s)
           else if timed_out (now s) r then rest (upd_reply_send (rs_id r) give_up s)
           else if rs_status r = RS_SENDING
           then (Some ''Reply draft is already being sent.'', s)
           else rest s))"

definition attach_reply_send_metadata :: "reply_draft option \<Rightarrow> store \<Rightarrow> store" where
  "attach_reply_send_metadata d s =
     (case d of None \<Rightarrow> s | Some d \<Rightarrow> snd (compute_send_blocked_reason d s))"

definition get_reply_assistant_draft_for_message ::
    "uuid \<Rightarrow> store \<Rightarrow> reply_draft option \<times> store" where
  "get_reply_assistant_draft_for_message k s =
     (let d = draft_of_message s k in (d, attach_reply_send_metadata d s))"

section \<open>Generating a draft\<close>

record generated_reply =
  gr_subject :: string
  gr_body :: string
  gr_summary :: "string option"
  gr_tone :: "string option"
  gr_escalate :: bool

text \<open>
  The writer: its model, and its answer to a message in its context, a text when it raises.
\<close>

record reply_writer =
  rw_model :: "string option"
  rw_answer :: "store \<Rightarrow> inbound_message \<Rightarrow> string \<Rightarrow> string + generated_reply"

text \<open>
  \<open>_build_thread_context\<close>: the last three mails of the thread without the message itself.  The
  sort key is the ISO text of an instant in UTC, whose order is the order of the instants.
\<close>

definition context_line :: "inbound_message \<Rightarrow> string option" where
  "context_line m =
     (let sender = (if truthy (msg_from_email m) then text_or_empty (msg_from_email m) else ''unknown'');
          snippet = text_or_empty (text_or (msg_body_snippet m) (msg_body_text m));
          cleaned = take 280 (join '' '' (split snippet))
      in if cleaned = [] then None else Some (''- '' @ sender @ '': '' @ cleaned))"

definition build_thread_context :: "store \<Rightarrow> inbound_message \<Rightarrow> string" where
  "build_thread_context s m =
     (let none = ''No previous thread context available'' in
      case msg_thread_id m of
        None \<Rightarrow> none
      | Some k \<Rightarrow>
          let mails = sort_key (\<lambda>i. case msg_received_at i of Some t \<Rightarrow> t | None \<Rightarrow> msg_created_at i)
                (filter (\<lambda>i. msg_thread_id i = Some k) (messages s));
              lines = List.map_filter context_line
                (filter (\<lambda>i. msg_id i \<noteq> msg_id m) (drop (length mails - 3) mails))
          in if get_thread s k = None \<or> lines = [] then none else join [CHR 0x0A] lines)"

definition related_outbound_draft :: "store \<Rightarrow> inbound_message \<Rightarrow> uuid option" where
  "related_outbound_draft s m =
     (case (case msg_draft_id m of None \<Rightarrow> None | Some k \<Rightarrow> map_option draft_id (get_draft s k)) of
        Some k \<Rightarrow> Some k
      | None \<Rightarrow> (case msg_delivery_id m of None \<Rightarrow> None
          | Some k \<Rightarrow> (case get_delivery s k of None \<Rightarrow> None
              | Some d \<Rightarrow> map_option draft_id (get_draft s (dlv_draft_id d)))))"

definition apply_generated_reply_draft ::
    "inbound_message \<Rightarrow> uuid option \<Rightarrow> generated_reply \<Rightarrow> string \<Rightarrow> bool \<Rightarrow> reply_draft \<Rightarrow> reply_draft" where
  "apply_generated_reply_draft m related g model escalate d =
     d\<lparr>rd_thread_id := msg_thread_id m, rd_lead_id := msg_lead_id m,
       rd_related_delivery_id := msg_delivery_id m, rd_related_outbound_draft_id := related,
       rd_status := RA_GENERATED, rd_subject := gr_subject g, rd_body := gr_body g,
       rd_summary := gr_summary g, rd_suggested_tone := gr_tone g,
       rd_should_escalate_reviewer := escalate, rd_generator_role := ''executor'',
       rd_generator_model := model, rd_edited_at := None, rd_edited_by := None\<rparr>"

definition blank_reply_draft :: "uuid \<Rightarrow> store \<Rightarrow> reply_draft" where
  "blank_reply_draft k s = \<lparr>rd_id = next_uuid s, rd_inbound_message_id = k, rd_thread_id = None,
     rd_lead_id = None, rd_related_delivery_id = None, rd_related_outbound_draft_id = None,
     rd_status = RA_GENERATED, rd_subject = [], rd_body = [], rd_summary = None,
     rd_suggested_tone = None, rd_should_escalate_reviewer = False, rd_generator_role = [],
     rd_generator_model = [], rd_edited_at = None, rd_edited_by = None, rd_created_at = now s,
     rd_updated_at = now s\<rparr>"

definition drop_review :: "reply_draft \<Rightarrow> store \<Rightarrow> store" where
  "drop_review d s = (case review_of s d of None \<Rightarrow> s
     | Some r \<Rightarrow> s\<lparr>reply_reviews := tbl_delete rv_id (rv_id r) (reply_reviews s)\<rparr>)"

definition rewrite_draft ::
    "(reply_draft \<Rightarrow> reply_draft) \<Rightarrow> reply_draft \<Rightarrow> store \<Rightarrow> uuid \<times> store" where
  "rewrite_draft generated d s =
     (rd_id d, upd_reply_draft (rd_id d) generated (drop_review d s))"

definition active_reply_send :: "reply_send \<Rightarrow> bool" where
  "active_reply_send r = (rs_status r = RS_SENDING \<or> rs_status r = RS_SENT)"

text \<open>
  Storing what was generated.  A draft that is being sent or was sent stays as it is.  When
  another session has committed a draft for the message meanwhile, the flush of a new one fails,
  the session is rolled back and that draft is rewritten.
\<close>

definition save_generated ::
    "(reply_draft \<Rightarrow> reply_draft) \<Rightarrow> store \<Rightarrow> uuid \<Rightarrow> reply_draft option \<Rightarrow> store \<Rightarrow> uuid \<times> store" where
  "save_generated generated base k existing s = (case existing of
     Some d \<Rightarrow>
       if (case latest_send s d of None \<Rightarrow> False | Some r \<Rightarrow> active_reply_send r) then (rd_id d, s)
       else rewrite_draft generated d s
   | None \<Rightarrow> (case draft_of_message base k of
       Some d \<Rightarrow> rewrite_draft generated d (rollback_to base s)
     | None \<Rightarrow> let d = generated (blank_reply_draft k s)
         in (rd_id d, add_reply_draft d (tick_uuid s))))"

text \<open>
  \<open>generate_reply_assistant_draft\<close>: an exception of the writer, or the draft (\<open>None\<close> when the
  assistant is switched off or the message unknown).
\<close>

definition generate_reply_assistant_draft ::
    "reply_writer \<Rightarrow> store \<Rightarrow> uuid \<Rightarrow> store \<Rightarrow> string + uuid option \<times> store" where
  "generate_reply_assistant_draft w base k s =
     (let (st, s) = get_or_create s in
      if \<not> ops_reply_assistant_enabled st then Inr (None, s)
      else (case get_message s k of
        None \<Rightarrow> Inr (None, s)
      | Some m \<Rightarrow>
          let (existing, s1) = get_reply_assistant_draft_for_message k s;
              model = (if truthy (rw_model w) then text_or_empty (rw_model w) else ''unknown'')
          in (case rw_answer w s1 m (build_thread_context s1 m) of
            Inl e \<Rightarrow> Inl e
          | Inr g \<Rightarrow>
              let escalate = (msg_should_escalate_reviewer m \<or> gr_escalate g);
                  generated = apply_generated_reply_draft m (related_outbound_draft s1 m) g model escalate;
                  (i, s2) = save_generated generated base k existing s1
              in Inr (Some i, attach_reply_send_metadata (get_reply_draft s2 i) s2))))"

section \<open>Reviewing a draft\<close>

definition reset_review ::
    "inbound_message \<Rightarrow> string option \<Rightarrow> reply_review \<Rightarrow> reply_review" where
  "reset_review m task r = r\<lparr>rv_thread_id := msg_thread_id m, rv_lead_id := msg_lead_id m,
     rv_status := RV_PENDING, rv_summary := None, rv_feedback := None, rv_suggested_edits := None,
     rv_recommended_action := None, rv_should_use_as_is := False, rv_should_edit := True,
     rv_should_escalate := False, rv_reviewer_role := None, rv_reviewer_model := None,
     rv_task_id := task, rv_error := None, rv_reviewed_at := None\<rparr>"

definition blank_review :: "inbound_message \<Rightarrow> reply_draft \<Rightarrow> store \<Rightarrow> reply_review" where
  "blank_review m d s = \<lparr>rv_id = next_uuid s, rv_reply_assistant_draft_id = rd_id d,
     rv_inbound_message_id = msg_id m, rv_thread_id = msg_thread_id m, rv_lead_id = msg_lead_id m,
     rv_status = RV_PENDING, rv_summary = None, rv_feedback = None, rv_suggested_edits = None,
     rv_recommended_action = None, rv_should_use_as_is = False, rv_should_edit = True,
     rv_should_escalate = False, rv_reviewer_role = None, rv_reviewer_model = None,
     rv_task_id = None, rv_error = None, rv_reviewed_at = None, rv_created_at = now s,
     rv_updated_at = now s\<rparr>"

definition ensure_reply_assistant_review_pending ::
    "uuid \<Rightarrow> string option \<Rightarrow> store \<Rightarrow> reply_review option \<times> store" where
  "ensure_reply_assistant_review_pending k task s =
     (case (get_message s k, draft_of_message s k) of
        (Some m, Some d) \<Rightarrow> (case review_of s d of
            Some r \<Rightarrow> let s1 = upd_reply_review (rv_id r) (reset_review m task) s
              in (get_reply_review s1 (rv_id r), s1)
          | None \<Rightarrow> let r = reset_review m task (blank_review m d s)
              in (Some r, add_reply_review r (tick_uuid s)))
      | _ \<Rightarrow> (None, s))"

record reply_review_result =
  rr_summary :: "string option"
  rr_feedback :: "string option"
  rr_suggested_edits :: "string list"
  rr_recommended_action :: "string option"
  rr_use_as_is :: bool
  rr_edit :: bool
  rr_escalate :: bool

record reply_reviewer =
  rk_model :: "string option"
  rk_answer :: "store \<Rightarrow> inbound_message \<Rightarrow> reply_draft \<Rightarrow> string \<Rightarrow> string + reply_review_result"

definition apply_review ::
    "reply_reviewer \<Rightarrow> datetime \<Rightarrow> reply_review_result \<Rightarrow> reply_review \<Rightarrow> reply_review" where
  "apply_review w t a r = r\<lparr>rv_status := RV_REVIEWED, rv_summary := rr_summary a,
     rv_feedback := rr_feedback a, rv_suggested_edits := Some (rr_suggested_edits a),
     rv_recommended_action := rr_recommended_action a, rv_should_use_as_is := rr_use_as_is a,
     rv_should_edit := rr_edit a, rv_should_escalate := rr_escalate a,
     rv_reviewer_role := Some ''reviewer'', rv_reviewer_model := rk_model w, rv_error := None,
     rv_reviewed_at := Some t\<rparr>"

definition review_reply_assistant_draft_with_reviewer ::
    "reply_reviewer \<Rightarrow> uuid \<Rightarrow> store \<Rightarrow> string + reply_review option \<times> store" where
  "review_reply_assistant_draft_with_reviewer w k s =
     (let (st, s) = get_cached_settings s in
      if \<not> ops_allow_reply_assistant_generation st then Inr (None, s)
      else (case (get_message s k, draft_of_message s k) of
        (Some m, Some d) \<Rightarrow>
          let (review, s1) = (case review_of s d of Some r \<Rightarrow> (Some r, s)
                | None \<Rightarrow> ensure_reply_assistant_review_pending k None s)
          in (case review of
            None \<Rightarrow> Inr (None, s1)
          | Some r \<Rightarrow> (case rk_answer w s1 m d (build_thread_context s1 m) of
              Inl e \<Rightarrow> Inl e
            | Inr a \<Rightarrow>
                let s2 = upd_reply_review (rv_id r) (apply_review w (now s1) a) s1
                in Inr (get_reply_review s2 (rv_id r), attach_reply_send_metadata (Some d) s2)))
      | _ \<Rightarrow> Inr (None, s)))"

definition fail_review :: "string \<Rightarrow> string option \<Rightarrow> reply_review \<Rightarrow> reply_review" where
  "fail_review e task r = r\<lparr>rv_status := RV_FAILED, rv_error := Some e,
     rv_task_id := text_or task (rv_task_id r), rv_reviewed_at := None\<rparr>"

definition mark_reply_assistant_review_failed ::
    "uuid \<Rightarrow> string \<Rightarrow> string option \<Rightarrow> store \<Rightarrow> reply_review option \<times> store" where
  "mark_reply_assistant_review_failed k e task s =
     (case (get_message s k, draft_of_message s k) of
        (Some m, Some d) \<Rightarrow>
          let (review, s1) = (case review_of s d of Some r \<Rightarrow> (Some r, s)
                | None \<Rightarrow> ensure_reply_assistant_review_pending k task s)
          in (case review of None \<Rightarrow> (None, s1)
            | Some r \<Rightarrow> let s2 = upd_reply_review (rv_id r) (fail_review e task) s1
                in (get_reply_review s2 (rv_id r), s2))
      | _ \<Rightarrow> (None, s))"

end
