(* ===== verification/Inbox_Sync.thy ===== *)
theory Inbox_Sync
  imports Inbox_Matching Reply_Drafts Leads
begin

text \<open>
  Fetching inbound mail (\<open>app/services/inbox/inbound_mail_service.py\<close>,
  \<open>classification_dispatch.py\<close>), the endpoint of \<open>app/api/v1/mail.py\<close> and the periodic task of
  \<open>app/workers/inbox_tasks.py\<close>.
\<close>

section \<open>Sync runs\<close>

definition get_sync :: "store \<Rightarrow> uuid \<Rightarrow> inbound_sync_run option" where
  "get_sync s k = tbl_get sync_id (sync_runs s) k"

definition stamp_sync ::
    "store \<Rightarrow> (inbound_sync_run \<Rightarrow> inbound_sync_run) \<Rightarrow> inbound_sync_run \<Rightarrow> inbound_sync_run" where
  "stamp_sync s f r = (if f r = r then r else (f r)\<lparr>sync_updated_at := now s\<rparr>)"

definition upd_sync ::
    "uuid \<Rightarrow> (inbound_sync_run \<Rightarrow> inbound_sync_run) \<Rightarrow> store \<Rightarrow> store" where
  "upd_sync k f s = s\<lparr>sync_runs := tbl_update sync_id k (stamp_sync s f) (sync_runs s)\<rparr>"

definition add_sync :: "inbound_sync_run \<Rightarrow> store \<Rightarrow> store" where
  "add_sync r s = s\<lparr>sync_runs := sync_runs s @ [r]\<rparr>"

lemma stamp_sync_fields [simp]:
  "sync_id (stamp_sync s f r) = sync_id (f r)"
  "sync_status (stamp_sync s f r) = sync_status (f r)"
  "sync_fetched_count (stamp_sync s f r) = sync_fetched_count (f r)"
  "sync_new_count (stamp_sync s f r) = sync_new_count (f r)"
  "sync_deduplicated_count (stamp_sync s f r) = sync_deduplicated_count (f r)"
  "sync_matched_count (stamp_sync s f r) = sync_matched_count (f r)"
  "sync_unmatched_count (stamp_sync s f r) = sync_unmatched_count (f r)"
  "sync_error (stamp_sync s f r) = sync_error (f r)"
  "sync_completed_at (stamp_sync s f r) = sync_completed_at (f r)"
  by (simp_all add: stamp_sync_def)

interpretation sync_tbl: table get_sync upd_sync add_sync sync_id stamp_sync
  by unfold_locales
    (auto dest: tbl_get_key simp: get_sync_def upd_sync_def add_sync_def table_simps
      stamp_sync_def [abs_def])

section \<open>What the service is given\<close>

text \<open>
  The environment, the digest, the mail provider (its error or the mails of a fetch with a
  limit), whether the database accepts a commit, and the two uses of the language model.
\<close>

record inbound_setup =
  ib_provider :: string
  ib_env :: mail_env
  ib_sha256 :: "string \<Rightarrow> string"
  ib_list_messages :: "int \<Rightarrow> string + inbound_mail_message list"
  ib_commit :: "store \<Rightarrow> bool"
  ib_classifier :: classifier
  ib_writer :: reply_writer

section \<open>Queries\<close>

definition list_inbound_messages ::
    "uuid option \<Rightarrow> uuid option \<Rightarrow> InboundMailClassificationStatus option \<Rightarrow> nat \<Rightarrow> store \<Rightarrow>
     inbound_message list" where
  "list_inbound_messages lead thread status limit s =
     take limit (newest_first msg_received_at msg_created_at
       (filter (\<lambda>m. (lead = None \<or> msg_lead_id m = lead) \<and> (thread = None \<or> msg_thread_id m = thread)
          \<and> (status = None \<or> status = Some (msg_classification_status m))) (messages s)))"

definition list_email_threads :: "uuid option \<Rightarrow> nat \<Rightarrow> store \<Rightarrow> email_thread list" where
  "list_email_threads lead limit s =
     take limit (newest_first thread_last_message_at thread_updated_at
       (filter (\<lambda>t. lead = None \<or> thread_lead_id t = lead) (threads s)))"

definition get_inbound_sync_status :: "store \<Rightarrow> inbound_sync_run option" where
  "get_inbound_sync_status s = first_max sync_started_at (sync_runs s)"

section \<open>Storing one mail\<close>

definition new_inbound_message ::
    "string \<Rightarrow> inbound_mail_message \<Rightarrow> delivery_match \<Rightarrow> uuid \<Rightarrow> store \<Rightarrow> inbound_message" where
  "new_inbound_message key p match thread s = \<lparr>msg_id = next_uuid s, msg_dedupe_key = key,
     msg_thread_id = Some thread, msg_lead_id = match_lead_id match,
     msg_draft_id = match_draft_id match, msg_delivery_id = match_delivery_id match,
     msg_provider = in_provider p, msg_provider_mailbox = in_provider_mailbox p,
     msg_provider_message_id = in_provider_message_id p,
     msg_message_id = normalize_message_id (in_message_id p),
     msg_in_reply_to = normalize_message_id (in_in_reply_to p),
     msg_references_raw = in_references_raw p, msg_from_email = normalize_email (in_from_email p),
     msg_from_name = in_from_name p, msg_to_email = in_to_email p, msg_subject = in_subject p,
     msg_body_text = in_body_text p, msg_body_snippet = in_body_snippet p,
     msg_received_at = in_received_at p, msg_raw_metadata_json = in_raw_metadata p,
     msg_classification_status = CL_PENDING, msg_classification_label = None, msg_summary = None,
     msg_confidence = None, msg_next_action_suggestion = None,
     msg_should_escalate_reviewer = False, msg_classification_error = None,
     msg_classification_role = None, msg_classification_model = None, msg_classified_at = None,
     msg_created_at = now s, msg_updated_at = now s\<rparr>"

datatype persisted = Deduplicated | Matched | Unmatched

definition touch_thread :: "inbound_mail_message \<Rightarrow> uuid \<Rightarrow> store \<Rightarrow> store" where
  "touch_thread p k s = upd_thread k
     (\<lambda>t. t\<lparr>thread_last_message_at := later (in_received_at p) (thread_last_message_at t)\<rparr>) s"

text \<open>The log entry and the step of the lead from contacted to replied, for a matched delivery.\<close>

definition log_reply :: "inbound_mail_message \<Rightarrow> delivery_match \<Rightarrow> store \<Rightarrow> store" where
  "log_reply p match s = (case dm_delivery match of
     None \<Rightarrow> s
   | Some d \<Rightarrow> add_log (dlv_lead_id d) (Some (dlv_draft_id d)) L_REPLIED ''system''
       (Some (build_reply_log_detail p)) s)"

definition advance_lead :: "delivery_match \<Rightarrow> store \<Rightarrow> store" where
  "advance_lead match s = (case dm_delivery match of
     None \<Rightarrow> s
   | Some d \<Rightarrow> upd_lead (dlv_lead_id d)
       (\<lambda>l. if lead_status l = CONTACTED then l\<lparr>lead_status := REPLIED\<rparr> else l) s)"

definition stored_key :: "string \<Rightarrow> store \<Rightarrow> bool" where
  "stored_key key s = (\<exists>m \<in> set (messages s). msg_dedupe_key m = key)"

text \<open>
  \<open>_persist_inbound_message\<close>: an \<open>IntegrityError\<close> of a flush, which nothing catches, or the new
  message with the committed store and the store the session sees.  The flush of the message
  fails when another session has committed the key after this one looked for it.
\<close>

definition persist_inbound_message ::
    "inbound_setup \<Rightarrow> inbound_mail_message \<Rightarrow> store \<Rightarrow> store \<Rightarrow>
     db_error + (uuid option \<times> persisted) \<times> store \<times> store" where
  "persist_inbound_message w p base s =
     (let key = build_dedupe_key (ib_sha256 w) p in
      if stored_key key s then Inr ((None, Deduplicated), base, s)
      else let match = match_delivery s p in
        (case resolve_thread (ib_sha256 w) p match base s of
          Inl e \<Rightarrow> Inl e
        | Inr (thread, s1) \<Rightarrow>
            if stored_key key base then Inl IntegrityError
            else
              let n = new_inbound_message key p match thread s1;
                  s2 = touch_thread p thread (add_message n (tick_uuid s1));
                  s3 = advance_lead match (log_reply p match s2)
              in if ib_commit w s3
                 then Inr ((Some (msg_id n),
                        if dm_delivery match \<noteq> None \<or> dm_reply_send match \<noteq> None then Matched
                        else Unmatched), s3, s3)
                 else Inr ((None, Deduplicated), base, rollback_to base s3)))"

section \<open>Classification on arrival\<close>

definition auto_reply_draft_labels :: "string list" where
  "auto_reply_draft_labels = [''interested'', ''asked_for_quote'', ''asked_for_meeting'', ''positive'']"

definition dispatch_classification ::
    "inbound_setup \<Rightarrow> store \<Rightarrow> uuid \<Rightarrow> store \<Rightarrow> store" where
  "dispatch_classification w base k s =
     (let (st, s) = get_cached_settings s in
      if \<not> ops_auto_classify_inbound st then s
      else (case classify_inbound_message (ib_classifier w) base k s of
        (None, s1) \<Rightarrow> s1
      | (Some m, s1) \<Rightarrow>
          if ops_auto_pipeline_enabled st
            \<and> msg_classification_label m \<in> Some ` set auto_reply_draft_labels
          then (case generate_reply_assistant_draft (ib_writer w) base k s1 of
            Inl e \<Rightarrow> s1 | Inr (d, s2) \<Rightarrow> s2)
          else s1))"

section \<open>The sync\<close>

datatype sync_failure = InboundMailDisabled string | InboundMailProvider string
  | SyncDatabase db_error | NotInSession

definition new_sync_run :: "inbound_setup \<Rightarrow> store \<Rightarrow> inbound_sync_run" where
  "new_sync_run w s = \<lparr>sync_id = next_uuid s, sync_provider = ''imap'',
     sync_provider_mailbox = env_MAIL_IMAP_MAILBOX (ib_env w), sync_status = SYNC_RUNNING,
     sync_fetched_count = 0, sync_new_count = 0, sync_deduplicated_count = 0,
     sync_matched_count = 0, sync_unmatched_count = 0, sync_error = None,
     sync_started_at = now s, sync_completed_at = None, sync_created_at = now s,
     sync_updated_at = now s\<rparr>"

definition count_mail :: "persisted \<Rightarrow> inbound_sync_run \<Rightarrow> inbound_sync_run" where
  "count_mail res r = (case res of
     Deduplicated \<Rightarrow> r\<lparr>sync_deduplicated_count := sync_deduplicated_count r + 1\<rparr>
   | Matched \<Rightarrow> r\<lparr>sync_new_count := sync_new_count r + 1,
                 sync_matched_count := sync_matched_count r + 1\<rparr>
   | Unmatched \<Rightarrow> r\<lparr>sync_new_count := sync_new_count r + 1,
                   sync_unmatched_count := sync_unmatched_count r + 1\<rparr>)"

text \<open>The loop over the mails: an error that ends it, the committed store, the session's store.\<close>

fun sync_loop ::
    "inbound_setup \<Rightarrow> uuid \<Rightarrow> inbound_mail_message list \<Rightarrow> store \<Rightarrow> store \<Rightarrow>
     db_error option \<times> store \<times> store" where
  "sync_loop w k [] base s = (None, base, s)"
| "sync_loop w k (p # ps) base s = (case persist_inbound_message w p base s of
     Inl e \<Rightarrow> (Some e, base, s)
   | Inr ((i, res), base', s1) \<Rightarrow>
       let s2 = upd_sync k (count_mail res) s1;
           s3 = (case i of None \<Rightarrow> s2 | Some m \<Rightarrow> dispatch_classification w base' m s2)
       in sync_loop w k ps base' s3)"

definition finish_sync :: "datetime \<Rightarrow> inbound_sync_run \<Rightarrow> inbound_sync_run" where
  "finish_sync t r = r\<lparr>sync_status := SYNC_COMPLETED, sync_error := None,
     sync_completed_at := Some t\<rparr>"

definition fail_sync :: "datetime \<Rightarrow> string \<Rightarrow> inbound_sync_run \<Rightarrow> inbound_sync_run" where
  "fail_sync t e r = r\<lparr>sync_status := SYNC_FAILED, sync_error := Some e,
     sync_completed_at := Some t\<rparr>"

definition sync_inbound_messages ::
    "inbound_setup \<Rightarrow> int option \<Rightarrow> store \<Rightarrow> store \<Rightarrow> (sync_failure + uuid) \<times> store \<times> store" where
  "sync_inbound_messages w limit base s =
     (if \<not> env_MAIL_INBOUND_ENABLED (ib_env w)
      then (Inl (InboundMailDisabled (''Inbound mail sync is disabled. ''
        @ ''Set MAIL_INBOUND_ENABLED=true to allow sync.'')), base, s)
      else if lower (ib_provider w) \<noteq> ''imap''
      then (Inl (InboundMailProvider (''Unsupported MAIL_INBOUND_PROVIDER '' @ [CHR 0x27]
        @ ib_provider w @ [CHR 0x27] @ ''.'')), base, s)
      else
        let k = next_uuid s;
            s1 = add_sync (new_sync_run w s) (tick_uuid s);
            sync_limit = (case limit of Some n \<Rightarrow> if n \<noteq> 0 then n
                else env_MAIL_INBOUND_SYNC_LIMIT (ib_env w)
              | None \<Rightarrow> env_MAIL_INBOUND_SYNC_LIMIT (ib_env w))
        in (case ib_list_messages w sync_limit of
          Inl e \<Rightarrow>
            let s2 = upd_sync k (fail_sync (now s) e) s1
            in (Inl (InboundMailProvider e), base, on_sync_failed base (Some k) (Some e) s2)
        | Inr ps \<Rightarrow>
            (case sync_loop w k ps base
                (upd_sync k (\<lambda>r. r\<lparr>sync_fetched_count := int (length ps)\<rparr>) s1) of
              (Some e, base', s') \<Rightarrow> (Inl (SyncDatabase e), base', s')
            | (None, base', s') \<Rightarrow>
                if get_sync s' k = None then (Inl NotInSession, base', s')
                else (Inr k, base', upd_sync k (finish_sync (now s')) s'))))"

text \<open>
  The endpoint commits after a sync that returned; the periodic task only closes its session.
  Both start from the committed store and give it back as they leave it.
\<close>

definition sync_inbound_mail ::
    "inbound_setup \<Rightarrow> int option \<Rightarrow> store \<Rightarrow> (sync_failure + uuid) \<times> store" where
  "sync_inbound_mail w limit s = (case sync_inbound_messages w limit s s of
     (Inr k, base, s') \<Rightarrow> (Inr k, s')
   | (Inl e, base, s') \<Rightarrow> (Inl e, rollback_to base s'))"

datatype sync_task_result = SyncSkipped | SyncOk uuid int | SyncRetry sync_failure

definition task_sync_inbound_mail ::
    "inbound_setup \<Rightarrow> store \<Rightarrow> sync_task_result \<times> store" where
  "task_sync_inbound_mail w s =
     (if \<not> env_MAIL_INBOUND_ENABLED (ib_env w) then (SyncSkipped, s)
      else (case sync_inbound_messages w None s s of
        (Inr k, base, s') \<Rightarrow>
          (SyncOk k (case get_sync s' k of Some r \<Rightarrow> sync_new_count r | None \<Rightarrow> 0),
           rollback_to base s')
      | (Inl e, base, s') \<Rightarrow> (SyncRetry e, rollback_to base s')))"

section \<open>What classification leaves alone\<close>

definition keys :: "store \<Rightarrow> string list" where
  "keys s = map msg_dedupe_key (messages s)"

definition mail_frame :: "store \<Rightarrow> store \<Rightarrow> bool" where
  "mail_frame s s' \<longleftrightarrow> threads s' = threads s \<and> sync_runs s' = sync_runs s \<and> leads s' = leads s
     \<and> keys s' = keys s"

lemma mail_frame_refl [simp]: "mail_frame s s"
  by (simp add: mail_frame_def)

lemma mail_frame_trans: "mail_frame s s' \<Longrightarrow> mail_frame s' s'' \<Longrightarrow> mail_frame s s''"
  by (simp add: mail_frame_def)

lemma stored_key_iff: "stored_key key s \<longleftrightarrow> key \<in> set (keys s)"
  by (auto simp: stored_key_def keys_def)

lemma settings_fields [simp]:
  "threads (snd (get_or_create s)) = threads s" "sync_runs (snd (get_or_create s)) = sync_runs s"
  "leads (snd (get_or_create s)) = leads s" "messages (snd (get_or_create s)) = messages s"
  "reply_drafts (snd (get_or_create s)) = reply_drafts s" "notifs (snd (get_or_create s)) = notifs s"
  by (simp_all add: get_or_create_def Let_def split: option.splits)

lemma mail_frame_settings: "mail_frame s (snd (get_or_create s))"
  by (simp add: mail_frame_def keys_def)

lemma mail_frame_notif: "notif_frame s s' \<Longrightarrow> mail_frame s s'"
  by (simp add: mail_frame_def keys_def notif_frame_fields)

lemma mail_frame_message:
  assumes "\<And>m. msg_id m = k \<Longrightarrow> m \<in> set (messages s) \<Longrightarrow> msg_dedupe_key (f m) = msg_dedupe_key m"
  shows "mail_frame s (upd_message k f s)"
proof -
  have "map msg_dedupe_key (tbl_update msg_id k (stamp_message s f) ms) = map msg_dedupe_key ms"
    if "set ms \<subseteq> set (messages s)" for ms
    using that by (induction ms) (auto simp: assms)
  then show ?thesis by (simp add: mail_frame_def upd_message_def keys_def)
qed

lemma compute_blocked_frame:
  "mail_frame s (snd (compute_send_blocked_reason d s))"
  "reply_drafts (snd (compute_send_blocked_reason d s)) = reply_drafts s"
  "messages (snd (compute_send_blocked_reason d s)) = messages s"
  by (auto simp: compute_send_blocked_reason_def mail_frame_def keys_def upd_reply_send_def Let_def
      split: option.splits)

lemma attach_frame:
  "mail_frame s (attach_reply_send_metadata d s)"
  "reply_drafts (attach_reply_send_metadata d s) = reply_drafts s"
  "messages (attach_reply_send_metadata d s) = messages s"
  by (auto simp: attach_reply_send_metadata_def compute_blocked_frame split: option.splits)

lemma rewrite_draft_frame: "mail_frame s (snd (rewrite_draft g d s))"
  by (auto simp: rewrite_draft_def mail_frame_def keys_def upd_reply_draft_def drop_review_def
      split: option.splits)

lemma add_reply_draft_frame: "mail_frame s (add_reply_draft d (tick_uuid s))"
  by (simp add: mail_frame_def keys_def add_reply_draft_def tick_uuid_def)

text \<open>A session that sees the drafts the others have committed is not rolled back.\<close>

lemma save_generated_frame:
  assumes "existing = None \<longrightarrow> draft_of_message base k = None"
  shows "mail_frame s (snd (save_generated g base k existing s))"
  using assms
  by (auto simp: save_generated_def Let_def rewrite_draft_frame add_reply_draft_frame split: option.splits)

lemma generate_frame:
  assumes "reply_drafts s = reply_drafts base"
    and "generate_reply_assistant_draft w base k s = Inr (d, s')"
  shows "mail_frame s s'"
proof -
  let ?s = "snd (get_or_create s)"
  let ?s1 = "attach_reply_send_metadata (draft_of_message ?s k) ?s"
  have f: "mail_frame s ?s1" by (rule mail_frame_trans [OF mail_frame_settings attach_frame(1)])
  have b: "draft_of_message base k = draft_of_message ?s k"
    using assms(1) by (simp add: draft_of_message_def)
  have sv: "mail_frame s (attach_reply_send_metadata x
      (snd (save_generated g base k (draft_of_message ?s k) ?s1)))" for x g
    by (rule mail_frame_trans [OF mail_frame_trans [OF f save_generated_frame] attach_frame(1)])
      (simp add: b)
  show ?thesis
  proof (cases "\<not> ops_reply_assistant_enabled (fst (get_or_create s)) \<or> get_message ?s k = None")
    case True
    with assms(2) mail_frame_settings [of s] show ?thesis
      by (auto simp: generate_reply_assistant_draft_def split_beta Let_def split: if_splits)
  next
    case False
    then obtain m where m: "get_message ?s k = Some m" by auto
    from assms(2) False m have
      "\<exists>x g. s' = attach_reply_send_metadata x (snd (save_generated g base k (draft_of_message ?s k) ?s1))"
      by (auto simp: generate_reply_assistant_draft_def split_beta Let_def
          get_reply_assistant_draft_for_message_def split: sum.splits)
    with sv show ?thesis by auto
  qed
qed

lemma on_reply_classified_frame:
  assumes "notifs s = notifs base"
  shows "notif_frame s (on_reply_classified base k l b e c u s)"
proof -
  have "has_dedup_key x s = has_dedup_key x base" for x
    using assms by (simp add: has_dedup_key_def)
  then have "\<not> lost_race base a s" for a unfolding lost_race_def by blast
  then have "notif_frame s (emit base a s)" for a by (rule emit_notif_frame)
  then show ?thesis unfolding on_reply_classified_def Let_def by simp
qed

text \<open>Classifying a message in a session that sees what the others have committed.\<close>

lemma classify_frame:
  assumes "notifs s = notifs base" and "messages s = messages base"
    and "classify_inbound_message cf base k s = (r, s')"
  shows "mail_frame s s' \<and> reply_drafts s' = reply_drafts s"
proof (cases "get_message s k")
  case (Some m)
  show ?thesis
  proof (cases "msg_classification_status m = CL_PENDING")
    case True
    from Some have mem: "m \<in> set (messages s)" and mk: "msg_id m = k"
      by (auto simp: get_message_def dest: tbl_get_SomeD)
    have b: "claimed_elsewhere k base = None"
      using Some True assms(2) by (simp add: claimed_elsewhere_def get_message_def)
    let ?cl = "\<lambda>m. m\<lparr>msg_classification_status := CL_CLASSIFYING\<rparr>"
    let ?s1 = "upd_message k ?cl s"
    let ?s2 = "snd (get_or_create ?s1)"
    have f1: "mail_frame s ?s1" by (rule mail_frame_message) simp
    have f2: "mail_frame s ?s2" by (rule mail_frame_trans [OF f1 mail_frame_settings])
    have g2: "notifs ?s2 = notifs base" "reply_drafts ?s2 = reply_drafts s"
      using assms(1) by (simp_all add: upd_message_def)
    obtain a i where ai: "cf_answer cf s (?cl m) = (a, i)" by fastforce
    have upd: "mail_frame s (upd_message k f x) \<and> reply_drafts (upd_message k f x) = reply_drafts s
        \<and> notifs (upd_message k f x) = notifs base"
      if "mail_frame s x" "reply_drafts x = reply_drafts s" "notifs x = notifs base"
        "\<And>m. msg_dedupe_key (f m) = msg_dedupe_key m" for f x
      using mail_frame_trans [OF that(1) mail_frame_message] that by (simp add: upd_message_def)
    note u1 = upd [OF f1, of "failed_message cf i e" for e]
    show ?thesis
    proof (cases a)
      case (Inl e)
      with assms(3) Some True b ai u1 [of e] assms(1) show ?thesis
        by (auto simp: classify_inbound_message_def Let_def upd_message_def)
    next
      case (Inr rc)
      let ?c = "classified_message cf (fst (get_or_create ?s1)) (now s) i rc"
      let ?s3 = "upd_message k (\<lambda>m. snd (?c m)) ?s2"
      have u3: "mail_frame s ?s3 \<and> reply_drafts ?s3 = reply_drafts s \<and> notifs ?s3 = notifs base"
        by (rule upd [OF f2 g2(2,1)]) simp
      show ?thesis
      proof (cases "fst (?c (?cl m))")
        case (Some e)
        have "s' = upd_message k (\<lambda>m. failed_message cf i e (snd (?c m))) ?s2"
          using assms(3) \<open>get_message s k = Some m\<close> True b ai Inr Some
          by (auto simp: classify_inbound_message_def Let_def split_beta prod.case_eq_if get_cached_settings_def)
        with upd [OF f2 g2(2,1), of "\<lambda>m. failed_message cf i e (snd (?c m))"] show ?thesis by simp
      next
        case None
        obtain l y z c u where "s' = on_reply_classified base k l y z c u ?s3"
          using assms(3) Some True b ai Inr None
          by (auto simp: classify_inbound_message_def Let_def split_beta prod.case_eq_if get_cached_settings_def)
        with on_reply_classified_frame [of ?s3 base k l y z c u] u3
        have nf: "notif_frame ?s3 s'" by simp
        from mail_frame_trans [OF _ mail_frame_notif [OF nf]] u3 notif_frame_fields [OF nf]
        show ?thesis by simp
      qed
    qed
  qed (use assms(3) Some in \<open>simp add: classify_inbound_message_def\<close>)
qed (use assms(3) in \<open>simp add: classify_inbound_message_def\<close>)

lemma dispatch_frame:
  assumes "notifs s = notifs base" and "messages s = messages base"
    and "reply_drafts s = reply_drafts base"
  shows "mail_frame s (dispatch_classification w base k s)"
proof -
  let ?s = "snd (get_or_create s)"
  obtain r s1 where c: "classify_inbound_message (ib_classifier w) base k ?s = (r, s1)" by fastforce
  from classify_frame [OF _ _ c] assms
  have f: "mail_frame ?s s1" and d: "reply_drafts s1 = reply_drafts base" by simp_all
  have fs: "mail_frame s s1" by (rule mail_frame_trans [OF mail_frame_settings f])
  have g: "mail_frame s s2" if "generate_reply_assistant_draft (ib_writer w) base k s1 = Inr (x, s2)" for x s2
    by (rule mail_frame_trans [OF fs generate_frame [OF d that]])
  show ?thesis
    using fs mail_frame_settings [of s] c
    by (auto simp: dispatch_classification_def get_cached_settings_def split_beta Let_def g
        split: option.splits sum.splits prod.splits)
qed

section \<open>Every mail once\<close>

lemma inbox_frames [simp]:
  "threads (upd_lead k f s) = threads s" "messages (upd_lead k f s) = messages s"
  "sync_runs (upd_lead k f s) = sync_runs s"
  "messages (upd_thread k g s) = messages s" "sync_runs (upd_thread k g s) = sync_runs s"
  "leads (upd_thread k g s) = leads s"
  "threads (upd_sync k h s) = threads s" "messages (upd_sync k h s) = messages s"
  "notifs (upd_sync k h s) = notifs s" "reply_drafts (upd_sync k h s) = reply_drafts s"
  "messages (add_log a b c d e s) = messages s" "sync_runs (add_log a b c d e s) = sync_runs s"
  "messages (tick_uuid s) = messages s" "sync_runs (tick_uuid s) = sync_runs s"
  "leads (tick_uuid s) = leads s" "threads (tick_uuid s) = threads s"
  "messages (add_thread t s) = messages s" "sync_runs (add_thread t s) = sync_runs s"
  "leads (add_thread t s) = leads s"
  "messages (add_sync r s) = messages s" "threads (add_sync r s) = threads s"
  "messages (add_message m s) = messages s @ [m]" "sync_runs (add_message m s) = sync_runs s"
  by (simp_all add: upd_lead_def upd_thread_def upd_sync_def add_log_def tick_uuid_def add_thread_def
      add_sync_def add_message_def)

lemma advance_log_frame [simp]:
  "messages (advance_lead m (log_reply p m s)) = messages s"
  "sync_runs (advance_lead m (log_reply p m s)) = sync_runs s"
  by (simp_all add: advance_lead_def log_reply_def split: option.splits)

lemma resolve_thread_Inr:
  assumes "threads s = threads base"
  shows "\<exists>k s1. resolve_thread h p m base s = Inr (k, s1) \<and> keys s1 = keys s
    \<and> sync_runs s1 = sync_runs s \<and> leads s1 = leads s"
proof -
  have "find q (threads s) = None \<Longrightarrow> \<not> (\<exists>t \<in> set (threads base). q t)" for q
    using assms by (auto simp: find_None_iff)
  then show ?thesis
    by (auto simp: resolve_thread_def Let_def keys_def split: option.splits)
qed

text \<open>Without other sessions a mail is stored exactly when its key is new.\<close>

lemma persist_alone:
  assumes "threads s = threads base" and "keys s = keys base" and "\<And>x. ib_commit w x"
  shows "if build_dedupe_key (ib_sha256 w) p \<in> set (keys s)
    then persist_inbound_message w p base s = Inr ((None, Deduplicated), base, s)
    else \<exists>i res s'. persist_inbound_message w p base s = Inr ((Some i, res), s', s')
      \<and> res \<noteq> Deduplicated \<and> keys s' = keys s @ [build_dedupe_key (ib_sha256 w) p]
      \<and> sync_runs s' = sync_runs s"
proof (cases "build_dedupe_key (ib_sha256 w) p \<in> set (keys s)")
  case True
  then show ?thesis by (simp add: persist_inbound_message_def stored_key_iff)
next
  case False
  obtain k s1 where r: "resolve_thread (ib_sha256 w) p (match_delivery s p) base s = Inr (k, s1)"
    and s1: "keys s1 = keys s" "sync_runs s1 = sync_runs s"
    using resolve_thread_Inr [OF assms(1)] by blast
  have "keys (touch_thread p k (add_message n (tick_uuid s1))) = keys s1 @ [msg_dedupe_key n]"
    "sync_runs (touch_thread p k (add_message n (tick_uuid s1))) = sync_runs s1" for n
    by (simp_all add: touch_thread_def keys_def)
  with r s1 False assms show ?thesis
    by (simp add: persist_inbound_message_def stored_key_iff Let_def new_inbound_message_def)
      (simp add: keys_def new_inbound_message_def)
qed

definition add_key :: "string \<Rightarrow> string list \<Rightarrow> string list" where
  "add_key x ks = (if x \<in> set ks then ks else ks @ [x])"

lemma add_key_known: "x \<in> set ks \<Longrightarrow> add_key x ks = ks"
  and add_key_new: "x \<notin> set ks \<Longrightarrow> add_key x ks = ks @ [x]"
  by (simp_all add: add_key_def)

text \<open>What a number of mails adds to the counters of a run.\<close>

definition counted :: "int \<Rightarrow> int \<Rightarrow> inbound_sync_run \<Rightarrow> inbound_sync_run \<Rightarrow> bool" where
  "counted mails stored r r' \<longleftrightarrow>
     sync_new_count r' = sync_new_count r + stored
     \<and> sync_new_count r' + sync_deduplicated_count r'
       = sync_new_count r + sync_deduplicated_count r + mails
     \<and> sync_matched_count r' + sync_unmatched_count r'
       = sync_matched_count r + sync_unmatched_count r + stored
     \<and> sync_fetched_count r' = sync_fetched_count r \<and> sync_status r' = sync_status r
     \<and> sync_completed_at r' = sync_completed_at r"

lemma counted_refl: "counted 0 0 r r"
  by (simp add: counted_def)

lemma counted_trans: "counted m n r r' \<Longrightarrow> counted m' n' r' r'' \<Longrightarrow> counted (m + m') (n + n') r r''"
  by (simp add: counted_def)

lemma counted_one: "counted 1 (if res = Deduplicated then 0 else 1) r (stamp_sync s (count_mail res) r)"
  by (cases res) (simp_all add: counted_def count_mail_def)

lemma count_mail_id [simp]: "sync_id (count_mail res r) = sync_id r"
  by (cases res) (simp_all add: count_mail_def)

lemma sync_loop_alone:
  assumes "threads s = threads base" and "keys s = keys base" and "\<And>x. ib_commit w x"
    and "get_sync s k = Some r"
  shows "\<exists>base' s' r'. sync_loop w k ps base s = (None, base', s') \<and> keys s' = keys base'
    \<and> keys s' = fold (\<lambda>p. add_key (build_dedupe_key (ib_sha256 w) p)) ps (keys s)
    \<and> get_sync s' k = Some r'
    \<and> counted (int (length ps)) (int (length (keys s')) - int (length (keys s))) r r'"
  using assms(1,2,4)
proof (induction ps arbitrary: base s r)
  case Nil
  then show ?case by (simp add: counted_refl)
next
  case (Cons p ps)
  let ?key = "build_dedupe_key (ib_sha256 w) p"
  note alone = persist_alone [OF Cons.prems(1,2) assms(3), of p]
  show ?case
  proof (cases "?key \<in> set (keys s)")
    case True
    let ?s = "upd_sync k (count_mail Deduplicated) s"
    let ?r = "stamp_sync s (count_mail Deduplicated) r"
    have g: "get_sync ?s k = Some ?r" by (simp add: sync_tbl.get_upd Cons.prems(3))
    have step: "sync_loop w k (p # ps) base s = sync_loop w k ps base ?s"
      using alone True by simp
    have kk: "threads ?s = threads base" "keys ?s = keys base" "keys ?s = keys s"
      using Cons.prems(1,2) by (simp_all add: keys_def)
    from Cons.IH [OF kk(1,2) g] obtain b s' r' where
      ih: "sync_loop w k ps base ?s = (None, b, s')" "keys s' = keys b"
        "keys s' = fold (\<lambda>p. add_key (build_dedupe_key (ib_sha256 w) p)) ps (keys ?s)"
        "get_sync s' k = Some r'" "counted (int (length ps)) (int (length (keys s')) - int (length (keys ?s))) ?r r'"
      by blast
    from counted_trans [OF counted_one [of Deduplicated r s] ih(5)] ih(1-4) step True kk(3)
    show ?thesis by (auto simp: add_key_known)
  next
    case False
    with alone obtain i res s1 where st: "persist_inbound_message w p base s = Inr ((Some i, res), s1, s1)"
      and res: "res \<noteq> Deduplicated" and k1: "keys s1 = keys s @ [?key]" and y1: "sync_runs s1 = sync_runs s"
      by auto
    let ?s2 = "upd_sync k (count_mail res) s1"
    let ?s3 = "dispatch_classification w s1 i ?s2"
    let ?r = "stamp_sync s1 (count_mail res) r"
    have "mail_frame ?s2 ?s3" by (rule dispatch_frame) simp_all
    then have f: "threads ?s3 = threads s1" "keys ?s3 = keys s1" "sync_runs ?s3 = sync_runs ?s2"
      by (simp_all add: mail_frame_def keys_def)
    have "get_sync s1 k = Some r" using Cons.prems(3) y1 by (simp add: get_sync_def)
    then have "get_sync ?s2 k = Some ?r" by (simp add: sync_tbl.get_upd)
    then have g: "get_sync ?s3 k = Some ?r" using f(3) by (simp add: get_sync_def)
    have step: "sync_loop w k (p # ps) base s = sync_loop w k ps s1 ?s3" by (simp add: st)
    from Cons.IH [OF f(1,2) g] obtain b s' r' where
      ih: "sync_loop w k ps s1 ?s3 = (None, b, s')" "keys s' = keys b"
        "keys s' = fold (\<lambda>p. add_key (build_dedupe_key (ib_sha256 w) p)) ps (keys ?s3)"
        "get_sync s' k = Some r'" "counted (int (length ps)) (int (length (keys s')) - int (length (keys ?s3))) ?r r'"
      by blast
    from counted_trans [OF counted_one [of res r s1] ih(5)] ih step False f(2) k1 res
    show ?thesis by (auto simp: add_key_new)
  qed
qed

lemma set_fold_add_key: "set (fold (\<lambda>p. add_key (g p)) ps ks) = set ks \<union> g ` set ps"
  by (induction ps arbitrary: ks) (auto simp: add_key_def)

lemma distinct_fold_add_key: "distinct ks \<Longrightarrow> distinct (fold (\<lambda>p. add_key (g p)) ps ks)"
  by (induction ps arbitrary: ks) (auto simp: add_key_def)

text \<open>
  C16: A sync of the endpoint with no other session at work stores every fetched mail exactly
  once, whatever was stored before and however often a mail is in the fetch: keys stay unique,
  the keys afterwards are those before and those of the fetch, and the counters of the run add
  up: each mail is new or a duplicate, each new one matched or unmatched, and as many messages
  were added as the run counts new.
\<close>

theorem sync_stores_each_once:
  assumes "env_MAIL_INBOUND_ENABLED (ib_env w)" and "lower (ib_provider w) = ''imap''"
    and "\<And>x. ib_commit w x" and "\<And>n. ib_list_messages w n = Inr ps"
    and "next_uuid s \<notin> sync_id ` set (sync_runs s)"
    and "distinct (map msg_dedupe_key (messages s))"
    and "sync_inbound_mail w limit s = (res, s')"
  shows "res = Inr (next_uuid s) \<and> distinct (map msg_dedupe_key (messages s'))
    \<and> msg_dedupe_key ` set (messages s')
      = msg_dedupe_key ` set (messages s) \<union> build_dedupe_key (ib_sha256 w) ` set ps
    \<and> (\<exists>r. get_sync s' (next_uuid s) = Some r \<and> sync_status r = SYNC_COMPLETED
        \<and> sync_fetched_count r = int (length ps)
        \<and> sync_new_count r + sync_deduplicated_count r = int (length ps)
        \<and> sync_matched_count r + sync_unmatched_count r = sync_new_count r
        \<and> int (length (messages s')) = int (length (messages s)) + sync_new_count r)"
proof -
  let ?k = "next_uuid s"
  let ?n = "new_sync_run w s"
  let ?fetched = "\<lambda>r. r\<lparr>sync_fetched_count := int (length ps)\<rparr>"
  let ?s = "upd_sync ?k ?fetched (add_sync ?n (tick_uuid s))"
  have "get_sync s ?k = None" using assms(5) by (simp add: get_sync_def tbl_get_None_iff)
  then have "get_sync (add_sync ?n (tick_uuid s)) ?k = Some ?n"
    by (simp add: get_sync_def add_sync_def tick_uuid_def new_sync_run_def)
  then have g: "get_sync ?s ?k = Some (stamp_sync (add_sync ?n (tick_uuid s)) ?fetched ?n)"
    by (simp add: sync_tbl.get_upd)
  have fr: "threads ?s = threads s" "keys ?s = keys s"
    by (simp_all add: keys_def)
  from sync_loop_alone [OF fr(1,2) assms(3) g, of ps] fr(2) obtain b x r where
    l: "sync_loop w ?k ps s ?s = (None, b, x)" "keys x = fold (\<lambda>p. add_key (build_dedupe_key (ib_sha256 w) p)) ps (keys s)"
      "get_sync x ?k = Some r"
      "counted (int (length ps)) (int (length (keys x)) - int (length (keys s)))
         (stamp_sync (add_sync ?n (tick_uuid s)) ?fetched ?n) r"
    by auto
  have s': "res = Inr ?k" "s' = upd_sync ?k (finish_sync (now x)) x"
    using assms(1,2,4,7) l(1,3)
    by (simp_all add: sync_inbound_mail_def sync_inbound_messages_def Let_def)
  have g': "get_sync s' ?k = Some (stamp_sync x (finish_sync (now x)) r)"
    by (simp add: s'(2) sync_tbl.get_upd finish_sync_def l(3))
  have k': "map msg_dedupe_key (messages s') = keys x" by (simp add: s'(2) keys_def)
  have len: "length (messages s') = length (keys x)" "length (messages s) = length (keys s)"
    using arg_cong [OF k', of length] by (simp_all add: keys_def)
  have sets: "msg_dedupe_key ` set (messages s') = set (keys x)"
    "msg_dedupe_key ` set (messages s) = set (keys s)"
    using arg_cong [OF k', of set] by (simp_all add: keys_def)
  have d: "distinct (map msg_dedupe_key (messages s'))"
    unfolding k' l(2) by (rule distinct_fold_add_key) (simp add: keys_def assms(6))
  have u: "msg_dedupe_key ` set (messages s')
      = msg_dedupe_key ` set (messages s) \<union> build_dedupe_key (ib_sha256 w) ` set ps"
    unfolding sets l(2) set_fold_add_key by (rule refl)
  from l(4) g' len show ?thesis
    using s'(1) d u by (simp add: counted_def new_sync_run_def finish_sync_def)
qed

section \<open>What is lost\<close>

definition still_running :: "uuid \<Rightarrow> store \<Rightarrow> bool" where
  "still_running k s \<longleftrightarrow>
     (\<forall>r. get_sync s k = Some r \<longrightarrow> sync_status r = SYNC_RUNNING \<and> sync_completed_at r = None)"

lemma still_running_same: "sync_runs s' = sync_runs s \<Longrightarrow> still_running k s' = still_running k s"
  by (simp add: still_running_def get_sync_def)

lemma still_running_count:
  "still_running k s \<Longrightarrow> still_running k (upd_sync k (count_mail res) s)"
  by (cases res) (auto simp: still_running_def sync_tbl.get_upd count_mail_def)

lemma sync_loop_running:
  assumes "threads s = threads base" and "keys s = keys base" and "\<And>x. ib_commit w x"
    and "still_running k s" and "still_running k base"
    and "sync_loop w k ps base s = (e, base', s')"
  shows "still_running k base'"
  using assms(1,2,4,5,6)
proof (induction ps arbitrary: base s)
  case Nil
  then show ?case by simp
next
  case (Cons p ps)
  note alone = persist_alone [OF Cons.prems(1,2) assms(3), of p]
  show ?case
  proof (cases "build_dedupe_key (ib_sha256 w) p \<in> set (keys s)")
    case True
    let ?s = "upd_sync k (count_mail Deduplicated) s"
    have "sync_loop w k ps base ?s = (e, base', s')" using Cons.prems(5) alone True by simp
    moreover have "threads ?s = threads base" "keys ?s = keys base"
      using Cons.prems(1,2) by (simp_all add: keys_def)
    ultimately show ?thesis
      using Cons.IH still_running_count Cons.prems(3,4) by blast
  next
    case False
    with alone obtain i res s1 where st: "persist_inbound_message w p base s = Inr ((Some i, res), s1, s1)"
      and y1: "sync_runs s1 = sync_runs s" by auto
    let ?s2 = "upd_sync k (count_mail res) s1"
    let ?s3 = "dispatch_classification w s1 i ?s2"
    have "mail_frame ?s2 ?s3" by (rule dispatch_frame) simp_all
    then have f: "threads ?s3 = threads s1" "keys ?s3 = keys s1" "sync_runs ?s3 = sync_runs ?s2"
      by (simp_all add: mail_frame_def keys_def)
    have r1: "still_running k s1" using Cons.prems(3) still_running_same [OF y1] by simp
    have r3: "still_running k ?s3"
      using still_running_same [OF f(3)] still_running_count [OF r1] by simp
    have "sync_loop w k ps s1 ?s3 = (e, base', s')" using Cons.prems(5) by (simp add: st)
    from Cons.IH [OF f(1,2) r3 r1 this] show ?thesis .
  qed
qed

text \<open>
  The outcome of a sync is lost.  When the mail server refuses, the failed run and its
  notification are rolled back with the request, so no trace of the failure remains; and the
  periodic task never commits the end of a run, which stays running for ever in the database even
  when the task reports success.
\<close>

theorem sync_outcome_lost:
  assumes "env_MAIL_INBOUND_ENABLED (ib_env w)" and "lower (ib_provider w) = ''imap''"
    and "\<And>x. ib_commit w x" and "next_uuid s \<notin> sync_id ` set (sync_runs s)"
  shows "((\<forall>n. ib_list_messages w n = Inl e) \<longrightarrow>
      fst (sync_inbound_mail w limit s) = Inl (InboundMailProvider e)
      \<and> sync_runs (snd (sync_inbound_mail w limit s)) = sync_runs s
      \<and> notifs (snd (sync_inbound_mail w limit s)) = notifs s)
    \<and> (fst (task_sync_inbound_mail w s) = SyncOk k n \<longrightarrow>
      still_running k (snd (task_sync_inbound_mail w s)))"
proof (intro conjI impI)
  assume "\<forall>n. ib_list_messages w n = Inl e"
  with assms(1,2) have *: "sync_inbound_mail w limit s = (Inl (InboundMailProvider e), rollback_to s
      (on_sync_failed s (Some (next_uuid s)) (Some e)
        (upd_sync (next_uuid s) (fail_sync (now s) e) (add_sync (new_sync_run w s) (tick_uuid s)))))"
    by (simp add: sync_inbound_mail_def sync_inbound_messages_def Let_def)
  show "fst (sync_inbound_mail w limit s) = Inl (InboundMailProvider e)"
    "sync_runs (snd (sync_inbound_mail w limit s)) = sync_runs s"
    "notifs (snd (sync_inbound_mail w limit s)) = notifs s"
    unfolding * by (simp_all add: rollback_to_def)
next
  assume ok: "fst (task_sync_inbound_mail w s) = SyncOk k n"
  let ?k = "next_uuid s"
  define x where "x = (\<lambda>m. upd_sync ?k (\<lambda>r. r\<lparr>sync_fetched_count := m\<rparr>) (add_sync (new_sync_run w s) (tick_uuid s)))"
  obtain base s' where m: "sync_inbound_messages w None s s = (Inr k, base, s')"
    and t: "snd (task_sync_inbound_mail w s) = rollback_to base s'"
    using ok assms(1) by (auto simp: task_sync_inbound_mail_def split: prod.splits sum.splits)
  let ?answer = "ib_list_messages w (env_MAIL_INBOUND_SYNC_LIMIT (ib_env w))"
  from m assms(1,2) obtain ps where ps: "?answer = Inr ps"
    by (cases ?answer) (simp_all add: sync_inbound_messages_def Let_def)
  obtain e b y where l': "sync_loop w ?k ps s (x (int (length ps))) = (e, b, y)" by (rule prod_cases3)
  with m assms(1,2) ps have "e = None \<and> b = base \<and> k = ?k"
    by (cases e; cases "get_sync y ?k") (simp_all add: sync_inbound_messages_def Let_def x_def)
  with l' have l: "sync_loop w ?k ps s (x (int (length ps))) = (None, base, y)" and k: "k = ?k"
    by simp_all
  have none: "get_sync s ?k = None" using assms(4) by (simp add: get_sync_def tbl_get_None_iff)
  then have "get_sync (add_sync (new_sync_run w s) (tick_uuid s)) ?k = Some (new_sync_run w s)"
    by (simp add: get_sync_def add_sync_def tick_uuid_def new_sync_run_def)
  then have r: "still_running ?k (x m)" for m
    by (simp add: x_def still_running_def sync_tbl.get_upd new_sync_run_def)
  have "still_running ?k base"
    by (rule sync_loop_running [OF _ _ assms(3) r _ l])
      (simp_all add: x_def keys_def still_running_def none)
  then show "still_running k (snd (task_sync_inbound_mail w s))"
    using t k by (simp add: still_running_def get_sync_def rollback_to_def)
qed

section \<open>An example\<close>

definition demo_inbound_mail :: inbound_mail_message where
  "demo_inbound_mail = \<lparr>in_provider = ''imap'', in_provider_mailbox = ''INBOX'',
     in_provider_message_id = Some ''7'', in_message_id = Some ''<a@b>'', in_in_reply_to = None,
     in_references_raw = None, in_from_email = Some ''ana@x.com'', in_from_name = None,
     in_to_email = None, in_subject = Some ''Hola'', in_body_text = None, in_body_snippet = None,
     in_received_at = Some 5, in_raw_metadata = None\<rparr>"

definition demo_inbound_env :: mail_env where
  "demo_inbound_env = \<lparr>env_MAIL_ENABLED = True, env_MAIL_FROM_EMAIL = None, env_MAIL_FROM_NAME = [],
     env_MAIL_REPLY_TO = None, env_MAIL_SEND_TIMEOUT = 30, env_MAIL_INBOUND_ENABLED = True,
     env_MAIL_IMAP_MAILBOX = ''INBOX'', env_MAIL_IMAP_SEARCH_CRITERIA = ''ALL'',
     env_MAIL_INBOUND_SYNC_LIMIT = 25, env_MAIL_INBOUND_TIMEOUT = 30,
     env_MAIL_USE_REVIEWER_FOR_LABELS = []\<rparr>"

definition demo_inbound :: "(string + inbound_mail_message list) \<Rightarrow> inbound_setup" where
  "demo_inbound answer = \<lparr>ib_provider = ''imap'', ib_env = demo_inbound_env, ib_sha256 = (\<lambda>t. t),
     ib_list_messages = (\<lambda>n. answer), ib_commit = (\<lambda>s. True),
     ib_classifier = \<lparr>cf_env = demo_inbound_env, cf_model = None,
       cf_answer = (\<lambda>s m. (Inl ''no model'', None))\<rparr>,
     ib_writer = \<lparr>rw_model = None, rw_answer = (\<lambda>s m c. Inl ''no model'')\<rparr>\<rparr>"

lemma demo_inbound_setup [simp]:
  "env_MAIL_INBOUND_ENABLED (ib_env (demo_inbound a))" "lower (ib_provider (demo_inbound a)) = ''imap''"
  "ib_commit (demo_inbound a) x" "ib_list_messages (demo_inbound a) n = a"
  by (simp_all add: demo_inbound_def demo_inbound_env_def) code_simp

theorem sync_stores_each_once_witness:
  "let r = sync_inbound_mail (demo_inbound (Inr [demo_inbound_mail, demo_inbound_mail])) None (empty_store 0)
   in fst r = Inr 0 \<and> distinct (map msg_dedupe_key (messages (snd r)))
     \<and> msg_dedupe_key ` set (messages (snd r))
       = {build_dedupe_key (ib_sha256 (demo_inbound (Inr []))) demo_inbound_mail}"
proof -
  let ?w = "demo_inbound (Inr [demo_inbound_mail, demo_inbound_mail])"
  have w: "ib_sha256 ?w = ib_sha256 (demo_inbound (Inr []))" by (simp add: demo_inbound_def)
  from sync_stores_each_once [of ?w "[demo_inbound_mail, demo_inbound_mail]" "empty_store 0" None
      "fst (sync_inbound_mail ?w None (empty_store 0))" "snd (sync_inbound_mail ?w None (empty_store 0))"]
  show ?thesis by (simp add: empty_store_def w)
qed

theorem sync_outcome_lost_witness:
  "fst (sync_inbound_mail (demo_inbound (Inl ''refused'')) None (empty_store 0))
     = Inl (InboundMailProvider ''refused'')
   \<and> sync_runs (snd (sync_inbound_mail (demo_inbound (Inl ''refused'')) None (empty_store 0))) = []"
  using sync_outcome_lost [of "demo_inbound (Inl ''refused'')" "empty_store 0" "''refused''" None]
  by (simp add: empty_store_def)

end
