(* ===== verification/Reply_Send.thy ===== *)
theory Reply_Send
  imports Reply_Drafts Mail_Service Task_Tracking
begin

text \<open>
  Sending an assisted reply (\<open>app/services/inbox/reply_send_service.py\<close>) and the endpoints of
  \<open>app/api/v1/replies.py\<close>.
\<close>

section \<open>Pieces\<close>

definition require_recipient_email :: "inbound_message \<Rightarrow> mail_error + string" where
  "require_recipient_email m =
     (let r = lower (strip (text_or_empty (msg_from_email m)))
      in if r = [] then Inl (DraftRecipientMissingError ''Inbound message does not have a sender email.'')
         else Inr r)"

text \<open>
  \<open>_build_references_raw\<close>: the ids already referenced and the id of the message itself, each
  once.
\<close>

definition add_token :: "string option \<Rightarrow> string list \<Rightarrow> string list" where
  "add_token i tokens = (case normalize_message_id i of
     None \<Rightarrow> tokens | Some t \<Rightarrow> if t \<in> set tokens then tokens else tokens @ [t])"

definition reference_tokens :: "string option \<Rightarrow> string option \<Rightarrow> string list" where
  "reference_tokens existing i =
     add_token i (fold (\<lambda>c. add_token (Some c)) (split (text_or_empty existing)) [])"

definition build_references_raw :: "string option \<Rightarrow> string option \<Rightarrow> string option" where
  "build_references_raw existing i = (case reference_tokens existing i of
     [] \<Rightarrow> None | t # ts \<Rightarrow> Some (join '' '' (t # ts)))"

datatype reply_error = ReplyDraftNotFound string | ReplyDraftValidation string
  | ReplyDraftAlreadySent string | ReplyDraftAlreadySending string | ReplyMail mail_error
  | ReplyIntegrity

definition update_reply_assistant_draft ::
    "uuid \<Rightarrow> string option \<Rightarrow> string option \<Rightarrow> string option \<Rightarrow> store \<Rightarrow>
     reply_error + uuid \<times> store" where
  "update_reply_assistant_draft k subject body edited_by s =
     (case get_reply_assistant_draft_for_message k s of
        (None, s1) \<Rightarrow> Inl (ReplyDraftNotFound ''Reply assistant draft not found.'')
      | (Some d, s1) \<Rightarrow>
          let did_edit = (subject \<noteq> None \<or> body \<noteq> None);
              who = (let e = strip (if truthy edited_by then text_or_empty edited_by else ''user'')
                     in if e = [] then ''user'' else e);
              f = (\<lambda>d. d\<lparr>rd_subject := set_if subject (rd_subject d),
                       rd_body := set_if body (rd_body d),
                       rd_edited_at := Some (now s), rd_edited_by := Some who\<rparr>);
              s2 = (if did_edit then upd_reply_draft (rd_id d) f s1 else s1)
          in Inr (rd_id d, attach_reply_send_metadata (get_reply_draft s2 (rd_id d)) s2))"

record reply_send_status =
  st_draft_id :: uuid
  st_inbound_message_id :: uuid
  st_review_is_stale :: bool
  st_send_blocked_reason :: "string option"
  st_latest_send :: "reply_send option"
  st_sent :: bool

definition get_reply_send_status :: "uuid \<Rightarrow> store \<Rightarrow> reply_error + reply_send_status" where
  "get_reply_send_status k s = (case draft_of_message s k of
     None \<Rightarrow> Inl (ReplyDraftNotFound ''Reply assistant draft not found.'')
   | Some d \<Rightarrow>
       let (reason, s1) = compute_send_blocked_reason d s; latest = latest_send s1 d
       in Inr \<lparr>st_draft_id = rd_id d, st_inbound_message_id = rd_inbound_message_id d,
            st_review_is_stale = review_is_stale s1 d, st_send_blocked_reason = reason,
            st_latest_send = latest,
            st_sent = (case latest of None \<Rightarrow> False | Some r \<Rightarrow> rs_status r = RS_SENT)\<rparr>)"

section \<open>Sending\<close>

definition new_reply_send ::
    "outbound_config \<Rightarrow> reply_draft \<Rightarrow> inbound_message \<Rightarrow> string \<Rightarrow> string \<Rightarrow> string \<Rightarrow> store \<Rightarrow> reply_send" where
  "new_reply_send c d m recipient subject body s = \<lparr>rs_id = next_uuid s,
     rs_reply_assistant_draft_id = rd_id d, rs_inbound_message_id = rd_inbound_message_id d,
     rs_thread_id = rd_thread_id d, rs_lead_id = rd_lead_id d, rs_status = RS_SENDING,
     rs_provider = oc_provider c, rs_provider_message_id = None, rs_recipient_email = recipient,
     rs_from_email_snapshot = oc_from_email c, rs_reply_to_snapshot = oc_reply_to c,
     rs_subject_snapshot = subject, rs_body_snapshot = body,
     rs_in_reply_to = normalize_message_id (msg_message_id m),
     rs_references_raw = build_references_raw (msg_references_raw m) (msg_message_id m),
     rs_error = None, rs_sent_at = None, rs_created_at = now s, rs_updated_at = now s\<rparr>"

text \<open>The unique index on active sends of a draft, over the rows of a store.\<close>

definition reply_clash :: "reply_send \<Rightarrow> store \<Rightarrow> bool" where
  "reply_clash n s = (\<exists>r \<in> set (reply_sends s).
     rs_reply_assistant_draft_id r = rs_reply_assistant_draft_id n \<and> active_reply_send r)"

definition reply_request :: "outbound_config \<Rightarrow> reply_send \<Rightarrow> mail_request" where
  "reply_request c n = build_mail_send_request c (rs_recipient_email n) (rs_subject_snapshot n)
     (rs_body_snapshot n) (rs_in_reply_to n) (rs_references_raw n)"

text \<open>
  What \<open>send_reply_assistant_draft\<close> checks first: an error, or the draft, its message and the
  texts to send.  The checks may mark a send that timed out as failed.
\<close>

definition latest_send_error :: "store \<Rightarrow> reply_draft \<Rightarrow> string option \<Rightarrow> reply_error option" where
  "latest_send_error s d reason = (case latest_send s d of
     None \<Rightarrow> None
   | Some r \<Rightarrow>
       if rs_status r = RS_SENT
       then Some (ReplyDraftAlreadySent (or_text reason ''Reply draft has already been sent.''))
       else if rs_status r = RS_SENDING \<and> \<not> timed_out (now s) r
       then Some (ReplyDraftAlreadySending (or_text reason ''Reply draft is already being sent.''))
       else None)"

definition reply_checks ::
    "uuid \<Rightarrow> store \<Rightarrow> (reply_error + reply_draft \<times> inbound_message) \<times> store" where
  "reply_checks k s = (case draft_of_message s k of
     None \<Rightarrow> (Inl (ReplyDraftNotFound ''Reply assistant draft not found.''), s)
   | Some d \<Rightarrow>
       let (reason, s1) = compute_send_blocked_reason d s
       in (case latest_send_error s1 d reason of
         Some e \<Rightarrow> (Inl e, s1)
       | None \<Rightarrow> (case reason of
           Some r \<Rightarrow> (Inl (ReplyDraftValidation r), s1)
         | None \<Rightarrow> (case get_message s1 (rd_inbound_message_id d) of
             None \<Rightarrow> (Inl (ReplyMail (DraftRecipientMissingError
                 ''Inbound message does not have a sender email.'')), s1)
           | Some m \<Rightarrow> (Inr (d, m), s1)))))"

definition reply_texts :: "reply_draft \<Rightarrow> inbound_message \<Rightarrow> reply_error + string \<times> string \<times> string" where
  "reply_texts d m = (case require_recipient_email m of
     Inl e \<Rightarrow> Inl (ReplyMail e)
   | Inr recipient \<Rightarrow>
       if \<not> truthy (resolve_reply_subject (rd_subject d) (msg_subject m))
       then Inl (ReplyDraftValidation ''Reply draft subject is missing.'')
       else if strip (rd_body d) = []
       then Inl (ReplyDraftValidation ''Reply draft body is missing.'')
       else Inr (recipient, text_or_empty (resolve_reply_subject (rd_subject d) (msg_subject m)),
         strip (rd_body d)))"

text \<open>What the answer of the mail server makes of the claimed row.\<close>

definition reply_sent :: "string \<Rightarrow> string option \<Rightarrow> datetime \<Rightarrow> reply_send \<Rightarrow> reply_send" where
  "reply_sent provider message_id t r = r\<lparr>rs_status := RS_SENT, rs_provider := provider,
     rs_provider_message_id := message_id, rs_sent_at := Some t, rs_error := None\<rparr>"

definition reply_failed :: "string \<Rightarrow> reply_send \<Rightarrow> reply_send" where
  "reply_failed e r = r\<lparr>rs_status := RS_FAILED, rs_error := Some e\<rparr>"

definition settle_reply ::
    "mail_setup \<Rightarrow> outbound_config \<Rightarrow> store \<Rightarrow> reply_draft \<Rightarrow> reply_send \<Rightarrow> store \<Rightarrow>
     (reply_error + reply_send) \<times> store" where
  "settle_reply w c base d n s = (case send_mail w (now s) (reply_request c n) of
     OtherExc e \<Rightarrow> (Inl (ReplyMail (OtherError e)), s)
   | MailProviderErr e \<Rightarrow>
       let s1 = upd_reply_send (rs_id n) (reply_failed e) s
       in (Inr (reply_failed e n), on_send_failed base None (Some (rs_id n))
             (Some (rs_recipient_email n)) (Some e) ''reply_assistant'' s1)
   | MailSent provider message_id t \<Rightarrow>
       let s1 = upd_reply_send (rs_id n) (reply_sent provider message_id t) s;
           s2 = (case rd_lead_id d of None \<Rightarrow> s1
             | Some l \<Rightarrow> add_log l None L_SENT ''user''
                 (Some (''Reply manual enviada a '' @ rs_recipient_email n)) s1)
       in (Inr (reply_sent provider message_id t n), s2))"

text \<open>
  \<open>send_reply_assistant_draft\<close>.  The insertion fails when the unique index refuses it, because
  of a row of this session or one another session has committed; the session is then rolled back
  and the draft looked at again.
\<close>

definition refused_reply :: "uuid \<Rightarrow> store \<Rightarrow> reply_error" where
  "refused_reply k s = (case draft_of_message s k of
     None \<Rightarrow> ReplyIntegrity
   | Some d \<Rightarrow> (case latest_send (snd (compute_send_blocked_reason d s)) d of
       None \<Rightarrow> ReplyIntegrity
     | Some r \<Rightarrow>
         if rs_status r = RS_SENT then ReplyDraftAlreadySent ''Reply draft has already been sent.''
         else if rs_status r = RS_SENDING
         then ReplyDraftAlreadySending ''Reply draft is already being sent.''
         else ReplyIntegrity))"

definition send_reply_assistant_draft ::
    "mail_setup \<Rightarrow> uuid \<Rightarrow> store \<Rightarrow> store \<Rightarrow> (reply_error + reply_send) \<times> store" where
  "send_reply_assistant_draft w k base s = (case reply_checks k s of
     (Inl e, s1) \<Rightarrow> (Inl e, s1)
   | (Inr (d, m), s1) \<Rightarrow>
       (case ensure_outbound_mail_ready w s1 of
          (Inl e, s2) \<Rightarrow> (Inl (ReplyMail e), s2)
        | (Inr c, s2) \<Rightarrow> (case reply_texts d m of
            Inl e \<Rightarrow> (Inl e, s2)
          | Inr (recipient, subject, body) \<Rightarrow>
              let n = new_reply_send c d m recipient subject body s2
              in if reply_clash n s2 \<or> reply_clash n base
                 then (Inl (refused_reply k base), rollback_to base s2)
                 else settle_reply w c base d n (add_reply_send n (tick_uuid s2)))))"

section \<open>The endpoints\<close>

text \<open>
  Each works on the committed store and gives back what it commits.  The endpoint that generates
  a draft does not commit; a flush or an exception before the commit leaves everything as it was.
  The argument of the review task is the id of the message, in the place of the broker message
  that other tasks use for a lead.
\<close>

definition reply_http_status :: "reply_error \<Rightarrow> int" where
  "reply_http_status e = (case e of
     ReplyDraftNotFound _ \<Rightarrow> 404 | ReplyDraftAlreadySent _ \<Rightarrow> 409
   | ReplyDraftAlreadySending _ \<Rightarrow> 409 | ReplyDraftValidation _ \<Rightarrow> 400
   | ReplyIntegrity \<Rightarrow> 500
   | ReplyMail x \<Rightarrow> (case x of DraftRecipientMissingError _ \<Rightarrow> 400 | MailDisabledError _ \<Rightarrow> 503
       | MailConfigurationError _ \<Rightarrow> 503 | _ \<Rightarrow> 500))"

definition create_or_refresh_reply_draft ::
    "reply_writer \<Rightarrow> uuid \<Rightarrow> store \<Rightarrow> (int + uuid option) \<times> store" where
  "create_or_refresh_reply_draft w k s =
     (if get_message s k = None then (Inl 404, s)
      else (case generate_reply_assistant_draft w s k s of
        Inl e \<Rightarrow> (Inl 500, s) | Inr (d, s') \<Rightarrow> (Inr d, rollback_to s s')))"

definition patch_reply_draft ::
    "uuid \<Rightarrow> string option \<Rightarrow> string option \<Rightarrow> string option \<Rightarrow> store \<Rightarrow> (int + uuid) \<times> store" where
  "patch_reply_draft k subject body edited_by s =
     (case update_reply_assistant_draft k subject body edited_by s of
        Inl e \<Rightarrow> (Inl (reply_http_status e), s) | Inr (d, s') \<Rightarrow> (Inr d, s'))"

definition send_reply_draft ::
    "mail_setup \<Rightarrow> uuid \<Rightarrow> store \<Rightarrow> (int + reply_send) \<times> store" where
  "send_reply_draft w k s = (case send_reply_assistant_draft w k s s of
     (Inl e, s') \<Rightarrow> (Inl (reply_http_status e), rollback_to s s')
   | (Inr r, s') \<Rightarrow> (Inr r, s'))"

definition review_reply_draft ::
    "string \<Rightarrow> uuid \<Rightarrow> store \<Rightarrow> (int + string) \<times> store" where
  "review_reply_draft task k s = (case (get_message s k, draft_of_message s k) of
     (Some m, Some d) \<Rightarrow>
       let call = \<lparr>call_task = ''app.workers.tasks.task_review_reply_assistant_draft'',
             call_lead_id = Some k, call_pipeline_run_id = None, call_correlation_id = None\<rparr>;
           s1 = dispatch call s
       in (case queue_task_run s task \<lparr>tm_task_name = ''task_review_reply_assistant_draft'',
             tm_queue = Some ''reviewer'', tm_lead_id = msg_lead_id m, tm_pipeline_run_id = None,
             tm_correlation_id = None, tm_scope_key = None,
             tm_current_step = Some ''reply_draft_review''\<rparr> s1 of
           Inl e \<Rightarrow> (Inl 500, rollback_to s s1)
         | Inr s2 \<Rightarrow> (Inr task, snd (ensure_reply_assistant_review_pending k (Some task) s2)))
   | _ \<Rightarrow> (Inl 404, s))"

section \<open>No send stays open\<close>

definition no_sending :: "store \<Rightarrow> bool" where
  "no_sending s \<longleftrightarrow> (\<forall>r \<in> set (reply_sends s). rs_status r \<noteq> RS_SENDING)"

definition one_sent_per_draft :: "store \<Rightarrow> bool" where
  "one_sent_per_draft s \<longleftrightarrow>
     distinct (map rs_reply_assistant_draft_id (filter (\<lambda>r. rs_status r = RS_SENT) (reply_sends s)))"

lemma latest_send_in: "latest_send s d = Some r \<Longrightarrow> r \<in> set (reply_sends s)"
  by (auto simp: latest_send_def dest: first_max_in)

lemma compute_settled:
  assumes "no_sending s"
  shows "snd (compute_send_blocked_reason d s) = s"
  using assms latest_send_in [of s d]
  by (auto simp: compute_send_blocked_reason_def no_sending_def timed_out_def Let_def split: option.splits)

lemma attach_settled: "no_sending s \<Longrightarrow> attach_reply_send_metadata d s = s"
  by (simp add: attach_reply_send_metadata_def compute_settled split: option.splits)

lemma no_sending_same: "reply_sends s' = reply_sends s \<Longrightarrow> no_sending s' = no_sending s"
  by (simp add: no_sending_def)

lemma reply_sends_frames [simp]:
  "reply_sends (upd_reply_draft k f s) = reply_sends s"
  "reply_sends (add_reply_draft d s) = reply_sends s"
  "reply_sends (upd_reply_review k g s) = reply_sends s"
  "reply_sends (add_reply_review r s) = reply_sends s"
  "reply_sends (drop_review d s) = reply_sends s"
  "reply_sends (rollback_to base s) = reply_sends base"
  "reply_sends (tick_uuid s) = reply_sends s"
  "reply_sends (snd (get_or_create s)) = reply_sends s"
  "reply_sends (add_log a b c e z s) = reply_sends s"
  "reply_sends (dispatch q s) = reply_sends s"
  by (simp_all add: upd_reply_draft_def add_reply_draft_def upd_reply_review_def add_reply_review_def
      drop_review_def rollback_to_def tick_uuid_def get_or_create_def add_log_def dispatch_def Let_def
      split: option.splits)

lemma update_reply_sends:
  assumes "no_sending s" and "update_reply_assistant_draft k a b e s = Inr (i, s')"
  shows "reply_sends s' = reply_sends s"
proof -
  have att: "reply_sends (attach_reply_send_metadata x y) = reply_sends y"
    if "reply_sends y = reply_sends s" for x y
    using attach_settled [of y x] no_sending_same [OF that] assms(1) by simp
  from assms show ?thesis
    by (auto simp: update_reply_assistant_draft_def get_reply_assistant_draft_for_message_def Let_def
        attach_settled att split: option.splits)
qed

lemma save_generated_sends:
  "reply_sends s = reply_sends base \<Longrightarrow> reply_sends (snd (save_generated g base k x s)) = reply_sends s"
  by (auto simp: save_generated_def rewrite_draft_def Let_def split: option.splits)

lemma generate_sends:
  assumes "no_sending s" and "generate_reply_assistant_draft w s k s = Inr (d, s')"
  shows "reply_sends s' = reply_sends s"
proof -
  let ?s = "snd (get_or_create s)"
  have ns: "no_sending ?s" using assms(1) by (simp add: no_sending_def)
  have att: "reply_sends (attach_reply_send_metadata x y) = reply_sends s"
    if "reply_sends y = reply_sends s" for x y
    using attach_settled [of y x] no_sending_same [OF that] assms(1) that by simp
  show ?thesis
  proof (cases "\<not> ops_reply_assistant_enabled (fst (get_or_create s)) \<or> get_message ?s k = None")
    case True
    with assms(2) show ?thesis
      by (auto simp: generate_reply_assistant_draft_def split_beta Let_def split: if_splits)
  next
    case False
    then obtain m where m: "get_message ?s k = Some m" by auto
    from assms(2) False m have
      "\<exists>x g. s' = attach_reply_send_metadata x (snd (save_generated g s k (draft_of_message ?s k) ?s))"
      by (auto simp: generate_reply_assistant_draft_def split_beta Let_def attach_settled [OF ns]
          get_reply_assistant_draft_for_message_def split: sum.splits)
    then show ?thesis by (auto intro!: att save_generated_sends [THEN trans])
  qed
qed

lemma ensure_pending_sends:
  "reply_sends (snd (ensure_reply_assistant_review_pending k t s)) = reply_sends s"
  by (simp add: ensure_reply_assistant_review_pending_def Let_def split: option.splits)

lemma reviewer_sends:
  assumes "no_sending s" and "review_reply_assistant_draft_with_reviewer w k s = Inr (r, s')"
  shows "reply_sends s' = reply_sends s"
proof -
  let ?s = "snd (get_or_create s)"
  have att: "reply_sends (attach_reply_send_metadata x y) = reply_sends s"
    if "reply_sends y = reply_sends s" for x y
    using attach_settled [of y x] no_sending_same [OF that] assms(1) that by simp
  show ?thesis
    using assms(2) ensure_pending_sends [of k None ?s]
    by (auto simp: review_reply_assistant_draft_with_reviewer_def get_cached_settings_def split_beta
        Let_def att split: if_splits option.splits sum.splits)
qed


text \<open>The new row ends sent or failed, behind the earlier rows, which stay as they were.\<close>

lemma upd_last_reply:
  assumes "rs_id n \<notin> rs_id ` set rows"
  shows "tbl_update rs_id (rs_id n) f (rows @ [n]) = rows @ [f n]"
  using assms by (induction rows) auto

lemma emit_reply_sends:
  assumes "notifs s = notifs base"
  shows "reply_sends (emit base a s) = reply_sends s" and "leads (emit base a s) = leads s"
proof -
  have "has_dedup_key x s = has_dedup_key x base" for x
    using assms by (simp add: has_dedup_key_def)
  then have "\<not> lost_race base a s" unfolding lost_race_def by blast
  from notif_frame_fields [OF emit_notif_frame [OF this]]
  show "reply_sends (emit base a s) = reply_sends s" "leads (emit base a s) = leads s" by simp_all
qed

definition settled_reply :: "reply_send \<Rightarrow> reply_send \<Rightarrow> bool" where
  "settled_reply n n' \<longleftrightarrow> rs_id n' = rs_id n
     \<and> rs_reply_assistant_draft_id n' = rs_reply_assistant_draft_id n
     \<and> rs_recipient_email n' = rs_recipient_email n \<and> rs_in_reply_to n' = rs_in_reply_to n
     \<and> rs_references_raw n' = rs_references_raw n
     \<and> (rs_status n' = RS_SENT \<and> rs_sent_at n' \<noteq> None \<and> rs_error n' = None
        \<or> rs_status n' = RS_FAILED \<and> rs_error n' \<noteq> None)"

lemma settle_reply_rows:
  assumes "rs_id n \<notin> rs_id ` set (reply_sends s)" and "notifs s = notifs base"
    and "settle_reply w c base d n (add_reply_send n (tick_uuid s)) = (Inr r, s')"
  shows "settled_reply n r \<and> leads s' = leads s
    \<and> (\<exists>n'. reply_sends s' = reply_sends s @ [n'] \<and> settled_reply n n' \<and> rs_status n' = rs_status r)"
proof -
  let ?s = "add_reply_send n (tick_uuid s)"
  let ?st = "\<lambda>f. stamp_reply_send ?s f n"
  have rows: "reply_sends (upd_reply_send (rs_id n) f ?s) = reply_sends s @ [?st f]" for f
    using upd_last_reply [OF assms(1)] by (simp add: upd_reply_send_def add_reply_send_def)
  have fr: "notifs (upd_reply_send k f ?s) = notifs base" "leads (upd_reply_send k f ?s) = leads s" for k f
    using assms(2) by (simp_all add: upd_reply_send_def add_reply_send_def tick_uuid_def)
  have f: "settled_reply n (reply_failed e n)" "settled_reply n (?st (reply_failed e))" for e
    by (simp_all add: settled_reply_def reply_failed_def)
  have g: "settled_reply n (reply_sent p m t n)" "settled_reply n (?st (reply_sent p m t))" for p m t
    by (simp_all add: settled_reply_def reply_sent_def)
  show ?thesis
  proof (cases "send_mail w (now ?s) (reply_request c n)")
    case (MailSent p m t)
    with assms(3) g rows fr show ?thesis
      by (auto simp: settle_reply_def Let_def add_log_def tick_uuid_def reply_sent_def split: option.splits)
  next
    case (MailProviderErr e)
    then have "r = reply_failed e n" and "s' = on_send_failed base None (Some (rs_id n))
        (Some (rs_recipient_email n)) (Some e) ''reply_assistant'' (upd_reply_send (rs_id n) (reply_failed e) ?s)"
      using assms(3) by (simp_all add: settle_reply_def Let_def)
    then show ?thesis
      using f [of e] rows fr
      by (auto simp: on_send_failed_def Let_def emit_reply_sends reply_failed_def)
  next
    case (OtherExc e)
    with assms(3) show ?thesis by (simp add: settle_reply_def)
  qed
qed

lemma ready_frames [simp]:
  "reply_sends (snd (ensure_outbound_mail_ready w s)) = reply_sends s"
  "notifs (snd (ensure_outbound_mail_ready w s)) = notifs s"
  "leads (snd (ensure_outbound_mail_ready w s)) = leads s"
  "next_uuid (snd (ensure_outbound_mail_ready w s)) = next_uuid s"
  by (simp_all add: ensure_outbound_mail_ready_def get_effective_outbound_mail_config_def
      get_or_create_def Let_def split_beta split: option.splits)

text \<open>What a send that answers with a row has checked and done, from a committed store.\<close>

definition reply_ready :: "store \<Rightarrow> uuid \<Rightarrow> reply_draft \<Rightarrow> inbound_message \<Rightarrow> bool" where
  "reply_ready s k d m \<longleftrightarrow> draft_of_message s k = Some d
     \<and> get_message s (rd_inbound_message_id d) = Some m
     \<and> review_blocks d (review_of s d) = None \<and> content_blocks d m = None
     \<and> \<not> (\<exists>r \<in> set (reply_sends s). rs_reply_assistant_draft_id r = rd_id d \<and> active_reply_send r)"

definition reply_added :: "store \<Rightarrow> reply_draft \<Rightarrow> inbound_message \<Rightarrow> reply_send \<Rightarrow> store \<Rightarrow> bool" where
  "reply_added s d m r s' \<longleftrightarrow> leads s' = leads s \<and> (\<exists>n. reply_sends s' = reply_sends s @ [n]
     \<and> rs_status n = rs_status r \<and> rs_status r \<in> {RS_SENT, RS_FAILED}
     \<and> rs_reply_assistant_draft_id n = rd_id d
     \<and> rs_recipient_email n = lower (strip (text_or_empty (msg_from_email m)))
     \<and> rs_in_reply_to n = normalize_message_id (msg_message_id m)
     \<and> rs_references_raw n = build_references_raw (msg_references_raw m) (msg_message_id m))"

lemma compute_reason_None:
  assumes "no_sending s" and "fst (compute_send_blocked_reason d s) = None"
  shows "\<exists>m. get_message s (rd_inbound_message_id d) = Some m
    \<and> review_blocks d (review_of s d) = None \<and> content_blocks d m = None"
  using assms latest_send_in [of s d]
  by (auto simp: compute_send_blocked_reason_def no_sending_def timed_out_def Let_def or_else_def
      split: option.splits if_splits)

lemma reply_checks_settled:
  assumes "no_sending s" and "reply_checks k s = (Inr (d, m), s1)"
  shows "s1 = s \<and> draft_of_message s k = Some d \<and> get_message s (rd_inbound_message_id d) = Some m
    \<and> review_blocks d (review_of s d) = None \<and> content_blocks d m = None"
proof -
  from assms(2) obtain d' where d': "draft_of_message s k = Some d'"
    by (auto simp: reply_checks_def split: option.splits)
  obtain reason where c: "compute_send_blocked_reason d' s = (reason, s)"
    using compute_settled [OF assms(1), of d'] by (cases "compute_send_blocked_reason d' s") simp
  from assms(2) d' c have "reason = None" "d = d'" "s1 = s"
      "get_message s (rd_inbound_message_id d) = Some m"
    by (auto simp: reply_checks_def split: option.splits)
  with compute_reason_None [OF assms(1), of d'] c d' show ?thesis by auto
qed

lemma send_reply_returns:
  assumes "no_sending s" and "next_uuid s \<notin> rs_id ` set (reply_sends s)"
    and "send_reply_assistant_draft w k s s = (Inr r, s')"
  shows "\<exists>d m. reply_ready s k d m \<and> reply_added s d m r s'"
proof -
  obtain x s1 where rc: "reply_checks k s = (x, s1)" by fastforce
  with assms(3) obtain d m where x: "x = Inr (d, m)"
    by (auto simp: send_reply_assistant_draft_def split: sum.splits)
  note ck = reply_checks_settled [OF assms(1) rc [unfolded x]]
  let ?s2 = "snd (ensure_outbound_mail_ready w s)"
  from assms(3) rc x ck obtain c where e: "ensure_outbound_mail_ready w s = (Inr c, ?s2)"
    by (cases "ensure_outbound_mail_ready w s") (auto simp: send_reply_assistant_draft_def split: sum.splits)
  from assms(3) rc x ck e obtain re su bo where t: "reply_texts d m = Inr (re, su, bo)"
    by (cases "reply_texts d m") (auto simp: send_reply_assistant_draft_def)
  let ?n = "new_reply_send c d m re su bo ?s2"
  from assms(3) rc x ck e t have nc: "\<not> reply_clash ?n ?s2"
    and st: "settle_reply w c s d ?n (add_reply_send ?n (tick_uuid ?s2)) = (Inr r, s')"
    by (auto simp: send_reply_assistant_draft_def Let_def split: if_splits)
  have re: "re = lower (strip (text_or_empty (msg_from_email m)))"
    using t by (auto simp: reply_texts_def require_recipient_email_def Let_def split: if_splits sum.splits)
  have "rs_id ?n \<notin> rs_id ` set (reply_sends ?s2)" using assms(2) by (simp add: new_reply_send_def)
  from settle_reply_rows [OF this _ st] re
  have "reply_added s d m r s'"
    by (auto simp: reply_added_def settled_reply_def new_reply_send_def)
  moreover have "reply_ready s k d m"
    using ck nc by (auto simp: reply_ready_def reply_clash_def new_reply_send_def)
  ultimately show ?thesis by blast
qed

lemma send_endpoint_rows:
  assumes "no_sending s" and "next_uuid s \<notin> rs_id ` set (reply_sends s)"
  shows "case send_reply_draft w k s of
      (Inl e, s') \<Rightarrow> reply_sends s' = reply_sends s
    | (Inr r, s') \<Rightarrow> \<exists>d m. reply_ready s k d m \<and> reply_added s d m r s'"
proof -
  obtain x s' where e: "send_reply_assistant_draft w k s s = (x, s')" by fastforce
  show ?thesis
  proof (cases x)
    case (Inr r)
    with send_reply_returns [OF assms, of w k r s'] e show ?thesis by (simp add: send_reply_draft_def)
  qed (simp add: send_reply_draft_def e)
qed

text \<open>
  The committed states the replies go through: every operation that touches them, in any order,
  and whatever else happens to the rest of the store.
\<close>

inductive reply_reach :: "store \<Rightarrow> bool" where
  rr_start: "reply_sends s = [] \<Longrightarrow> reply_reach s"
| rr_send: "reply_reach s \<Longrightarrow> next_uuid s \<notin> rs_id ` set (reply_sends s) \<Longrightarrow>
    reply_reach (snd (send_reply_draft w k s))"
| rr_patch: "reply_reach s \<Longrightarrow> reply_reach (snd (patch_reply_draft k a b e s))"
| rr_create: "reply_reach s \<Longrightarrow> reply_reach (snd (create_or_refresh_reply_draft g k s))"
| rr_generate: "reply_reach s \<Longrightarrow> generate_reply_assistant_draft g s k s = Inr (d, s') \<Longrightarrow>
    reply_reach s'"
| rr_review: "reply_reach s \<Longrightarrow>
    review_reply_assistant_draft_with_reviewer v k s = Inr (r, s') \<Longrightarrow> reply_reach s'"
| rr_other: "reply_reach s \<Longrightarrow> reply_sends s' = reply_sends s \<Longrightarrow> reply_reach s'"

definition replies_ok :: "store \<Rightarrow> bool" where
  "replies_ok s \<longleftrightarrow> no_sending s \<and> one_sent_per_draft s"

lemma replies_ok_same: "reply_sends s' = reply_sends s \<Longrightarrow> replies_ok s' = replies_ok s"
  by (simp add: replies_ok_def no_sending_def one_sent_per_draft_def)

lemma replies_ok_added:
  assumes "replies_ok s" and "reply_ready s k d m" and "reply_added s d m r s'"
  shows "replies_ok s'"
proof -
  from assms(3) obtain n where n: "reply_sends s' = reply_sends s @ [n]"
      "rs_status n = RS_SENT \<or> rs_status n = RS_FAILED" "rs_reply_assistant_draft_id n = rd_id d"
    by (auto simp: reply_added_def)
  from assms(2) have "rd_id d \<notin> rs_reply_assistant_draft_id ` set (filter (\<lambda>r. rs_status r = RS_SENT) (reply_sends s))"
    by (auto simp: reply_ready_def active_reply_send_def)
  with n assms(1) show ?thesis
    by (auto simp: replies_ok_def no_sending_def one_sent_per_draft_def)
qed

lemma reach_replies_ok: "reply_reach s \<Longrightarrow> replies_ok s"
proof (induction rule: reply_reach.induct)
  case (rr_start s)
  then show ?case by (simp add: replies_ok_def no_sending_def one_sent_per_draft_def)
next
  case (rr_send s w k)
  then have "no_sending s" by (simp add: replies_ok_def)
  note rows = send_endpoint_rows [OF this rr_send.hyps(2), where w = w and k = k]
  obtain x s' where e: "send_reply_draft w k s = (x, s')" by fastforce
  show ?case
  proof (cases x)
    case (Inl a)
    with rows e rr_send.IH show ?thesis using replies_ok_same [of s' s] by simp
  next
    case (Inr r)
    with rows e obtain d m where "reply_ready s k d m" "reply_added s d m r s'" by auto
    with replies_ok_added [OF rr_send.IH] e show ?thesis by simp
  qed
next
  case (rr_patch s k a b e)
  then have "no_sending s" by (simp add: replies_ok_def)
  from update_reply_sends [OF this, of k a b e]
  have "reply_sends (snd (patch_reply_draft k a b e s)) = reply_sends s"
    by (auto simp: patch_reply_draft_def split: sum.splits)
  with rr_patch.IH show ?case using replies_ok_same by blast
next
  case (rr_create s g k)
  have "reply_sends (snd (create_or_refresh_reply_draft g k s)) = reply_sends s"
    by (auto simp: create_or_refresh_reply_draft_def split: sum.splits)
  with rr_create.IH show ?case using replies_ok_same by blast
next
  case (rr_generate s g k d s')
  then have "no_sending s" by (simp add: replies_ok_def)
  from replies_ok_same [OF generate_sends [OF this rr_generate.hyps(2)]] rr_generate.IH
  show ?case by simp
next
  case (rr_review s v k r s')
  then have "no_sending s" by (simp add: replies_ok_def)
  from replies_ok_same [OF reviewer_sends [OF this rr_review.hyps(2)]] rr_review.IH
  show ?case by simp
next
  case (rr_other s s')
  from replies_ok_same [OF rr_other.hyps(2)] rr_other.IH show ?case by simp
qed

text \<open>
  C17: In every committed state no reply is still being sent and no draft has two sent replies, so
  the recovery of sends that hang for five minutes never has anything to do: looking at what
  blocks a draft changes nothing.
\<close>

theorem replies_settled:
  assumes "reply_reach s"
  shows "(\<forall>r \<in> set (reply_sends s). rs_status r \<noteq> RS_SENDING)
    \<and> distinct (map rs_reply_assistant_draft_id (filter (\<lambda>r. rs_status r = RS_SENT) (reply_sends s)))
    \<and> snd (compute_send_blocked_reason d s) = s"
  using reach_replies_ok [OF assms] compute_settled [of s d]
  by (simp add: replies_ok_def no_sending_def one_sent_per_draft_def)


section \<open>References survive the journey\<close>

text \<open>A message id as it travels: no brackets, no white space.\<close>

definition bare_id :: "string \<Rightarrow> bool" where
  "bare_id i \<longleftrightarrow> i \<noteq> [] \<and> (\<forall>c \<in> set i. \<not> py_space c) \<and> CHR ''<'' \<notin> set i \<and> CHR ''>'' \<notin> set i"

lemma bare_normal: "bare_id i \<Longrightarrow> normalize_message_id (Some i) = Some i"
  by (cases i) (auto simp: bare_id_def normalize_message_id_def Let_def strip_no_space)

lemma find_ids_wrapped:
  "bare_id i \<Longrightarrow> find_ids (CHR ''<'' # i @ CHR ''>'' # s) = i # find_ids s"
proof -
  assume i: "bare_id i"
  then have "\<forall>c \<in> set i. c \<noteq> CHR ''>''" by (auto simp: bare_id_def)
  then have "takeWhile (\<lambda>d. d \<noteq> CHR ''>'') (i @ CHR ''>'' # s) = i"
    "dropWhile (\<lambda>d. d \<noteq> CHR ''>'') (i @ CHR ''>'' # s) = CHR ''>'' # s"
    by simp_all
  with i show ?thesis by (simp add: bare_id_def)
qed

lemma wrap_bare: "bare_id i \<Longrightarrow> wrap_message_id i = CHR ''<'' # i @ [CHR ''>'']"
  by (cases i) (auto simp: bare_id_def wrap_message_id_def Let_def strip_no_space)

lemma find_ids_join:
  "\<forall>i \<in> set js. bare_id i \<Longrightarrow> find_ids (join '' '' (map wrap_message_id js)) = js"
proof (induction js rule: induct_list012)
  case (2 i)
  then show ?case using find_ids_wrapped [of i "[]"] by (simp add: wrap_bare)
next
  case (3 i j js)
  then show ?case
    using find_ids_wrapped [of i "CHR '' '' # join '' '' (map wrap_message_id (j # js))"]
    by (simp add: wrap_bare)
qed simp

lemma extract_wrapped:
  assumes "\<forall>i \<in> set js. bare_id i" and "js \<noteq> []"
  shows "extract_reference_ids (Some (join '' '' (map wrap_message_id js))) = js"
proof -
  have f: "find_ids (join '' '' (map wrap_message_id js)) = js" by (rule find_ids_join [OF assms(1)])
  have st: "map strip js = js"
    using assms(1) by (intro map_idI strip_no_space) (auto simp: bare_id_def)
  have "List.map_filter (\<lambda>t. normalize_message_id (Some t)) js = js"
    using assms(1) by (induction js) (simp_all add: bare_normal List.map_filter_simps)
  moreover have "join '' '' (map wrap_message_id js) \<noteq> []" using f assms(2) by (auto simp: find_ids.simps)
  ultimately show ?thesis using f st assms(2) by (simp add: extract_reference_ids_def Let_def)
qed

lemma normalize_references_bare:
  assumes "\<forall>i \<in> set js. bare_id i"
  shows "normalize_references (join '' '' js) = join '' '' (map wrap_message_id js)"
proof -
  have "split (join '' '' js) = js" by (rule split_join) (use assms in \<open>auto simp: bare_id_def\<close>)
  moreover have "map strip js = js"
    using assms by (intro map_idI strip_no_space) (auto simp: bare_id_def)
  moreover have "filter (\<lambda>p. strip p \<noteq> []) js = js"
    using assms by (auto simp: bare_id_def strip_no_space)
  ultimately show ?thesis by (simp add: normalize_references_def)
qed


section \<open>An example\<close>

definition demo_question :: inbound_message where
  "demo_question = \<lparr>msg_id = 3, msg_dedupe_key = ''k'', msg_thread_id = None, msg_lead_id = None,
     msg_draft_id = None, msg_delivery_id = None, msg_provider = ''imap'',
     msg_provider_mailbox = ''INBOX'', msg_provider_message_id = Some ''7'',
     msg_message_id = Some ''q@x'', msg_in_reply_to = None, msg_references_raw = Some ''<a@b>'',
     msg_from_email = Some ''Ana@x.com'', msg_from_name = None, msg_to_email = None,
     msg_subject = Some ''Precio'', msg_body_text = None, msg_body_snippet = None,
     msg_received_at = Some 0, msg_raw_metadata_json = None,
     msg_classification_status = CL_PENDING, msg_classification_label = None, msg_summary = None,
     msg_confidence = None, msg_next_action_suggestion = None,
     msg_should_escalate_reviewer = False, msg_classification_error = None,
     msg_classification_role = None, msg_classification_model = None, msg_classified_at = None,
     msg_created_at = 0, msg_updated_at = 0\<rparr>"

definition demo_reply_store :: store where
  "demo_reply_store = add_reply_draft ((blank_reply_draft 3 (empty_store 0))\<lparr>rd_id := 4,
       rd_body := ''Cuesta 5''\<rparr>) (add_message demo_question ((empty_store 0)\<lparr>next_uuid := 9\<rparr>))"

definition demo_reply_mail :: mail_setup where
  "demo_reply_mail = demo_mail (Accepted ''<r@x>'')"

lemma demo_reply_reach: "reply_reach demo_reply_store" "next_uuid demo_reply_store \<notin> rs_id ` set (reply_sends demo_reply_store)"
  by (auto simp: demo_reply_store_def add_reply_draft_def add_message_def empty_store_def intro: rr_start)

lemma demo_reply_sent:
  "case send_reply_draft demo_reply_mail 3 demo_reply_store of
     (Inr r, s') \<Rightarrow> rs_status r = RS_SENT | _ \<Rightarrow> False"
  by code_simp


theorem replies_settled_witness:
  "reply_reach (snd (send_reply_draft demo_reply_mail 3 demo_reply_store))
   \<and> snd (compute_send_blocked_reason (blank_reply_draft 3 (empty_store 0))
        (snd (send_reply_draft demo_reply_mail 3 demo_reply_store)))
     = snd (send_reply_draft demo_reply_mail 3 demo_reply_store)"
  using rr_send [OF demo_reply_reach, where w = demo_reply_mail and k = 3] replies_settled by blast


end
