(* ===== verification/Operational_Tasks.thy ===== *)
theory Operational_Tasks
  imports Scoring Task_Tracking
begin

text \<open>
  The operator's view of the long-running tasks
  (\<open>app/services/pipeline/operational_task_service.py\<close>): their canonical state is a
  \<open>TaskRun\<close> row, mirrored to one JSON document per task family in Redis for older readers.
  On top of it the task that scores every lead again
  (\<open>app/workers/batch_tasks.py\<close>, \<open>task_rescore_all\<close>).
\<close>

section \<open>The Redis mirror\<close>

text \<open>
  Redis as the service uses it: a server that answers or not, and documents with the instant
  they expire at.  \<open>json.loads\<close> of what \<open>json.dumps\<close> wrote is the document itself.
\<close>

record redis =
  rd_up :: bool
  rd_data :: "(string \<times> json \<times> datetime) list"

definition redis_get :: "datetime \<Rightarrow> string \<Rightarrow> redis \<Rightarrow> json option" where
  "redis_get t key r = (case map_of (rd_data r) key of
     Some (v, expires) \<Rightarrow> if t < expires then Some v else None
   | None \<Rightarrow> None)"

definition redis_set :: "datetime \<Rightarrow> string \<Rightarrow> json \<Rightarrow> int \<Rightarrow> redis \<Rightarrow> redis" where
  "redis_set t key v ttl r = r\<lparr>rd_data := assoc_set key (v, t + seconds ttl) (rd_data r)\<rparr>"

definition redis_delete :: "string \<Rightarrow> redis \<Rightarrow> redis" where
  "redis_delete key r = r\<lparr>rd_data := filter (\<lambda>e. fst e \<noteq> key) (rd_data r)\<rparr>"

definition batch_pipeline_scope_key :: string where
  "batch_pipeline_scope_key = ''status:new''"
definition batch_pipeline_redis_key :: string where
  "batch_pipeline_redis_key = ''pipeline:batch''"
definition rescore_all_scope_key :: string where
  "rescore_all_scope_key = ''scores:all''"
definition rescore_all_redis_key :: string where
  "rescore_all_redis_key = ''pipeline:rescore''"
definition territory_crawl_redis_prefix :: string where
  "territory_crawl_redis_prefix = ''crawl:territory:''"
definition default_legacy_mirror_ttl_seconds :: int where
  "default_legacy_mirror_ttl_seconds = 3600"

definition territory_crawl_redis_key :: "string \<Rightarrow> string" where
  "territory_crawl_redis_key territory = territory_crawl_redis_prefix @ territory"

text \<open>
  \<open>_read_legacy_operational_state\<close>: the exception of a server that does not answer is
  \<open>Inl\<close>, or nothing when errors are suppressed.
\<close>

definition read_legacy_operational_state ::
    "datetime \<Rightarrow> string \<Rightarrow> bool \<Rightarrow> redis \<Rightarrow> string + json option" where
  "read_legacy_operational_state t key suppress_errors r =
     (if rd_up r then Inr (redis_get t key r)
      else if suppress_errors then Inr None else Inl ''redis unavailable'')"

definition load_legacy_operational_state :: "datetime \<Rightarrow> string \<Rightarrow> redis \<Rightarrow> json option" where
  "load_legacy_operational_state t key r =
     (case read_legacy_operational_state t key True r of Inr v \<Rightarrow> v | Inl e \<Rightarrow> None)"

definition idle_status :: json where
  "idle_status = JObj [(''status'', JStr ''idle'')]"

text \<open>\<open>load(...) or {"status": "idle"}\<close>; the empty document is falsy too.\<close>

definition load_legacy_operational_state_or_idle :: "datetime \<Rightarrow> string \<Rightarrow> redis \<Rightarrow> json" where
  "load_legacy_operational_state_or_idle t key r =
     (case load_legacy_operational_state t key r of
        None \<Rightarrow> idle_status | Some v \<Rightarrow> if v = JObj [] then idle_status else v)"

definition mirror_legacy_operational_state ::
    "datetime \<Rightarrow> string \<Rightarrow> json \<Rightarrow> int \<Rightarrow> redis \<Rightarrow> redis" where
  "mirror_legacy_operational_state t key payload ttl r =
     (if rd_up r then redis_set t key payload ttl r else r)"

definition delete_legacy_operational_state :: "string \<Rightarrow> redis \<Rightarrow> redis" where
  "delete_legacy_operational_state key r = (if rd_up r then redis_delete key r else r)"

definition mark_legacy_operational_stop_requested ::
    "datetime \<Rightarrow> string \<Rightarrow> redis \<Rightarrow> bool \<times> redis" where
  "mark_legacy_operational_stop_requested t key r =
     (case load_legacy_operational_state t key r of
        None \<Rightarrow> (False, delete_legacy_operational_state key r)
      | Some v \<Rightarrow>
          if v = JObj []
             \<or> json_get ''status'' v \<notin> {Some (JStr ''running''), Some (JStr ''stopping'')}
          then (False, delete_legacy_operational_state key r)
          else (True, mirror_legacy_operational_state t key
                        (json_set ''status'' (JStr ''stopping'') v)
                        default_legacy_mirror_ttl_seconds r))"

section \<open>Reading the canonical state\<close>

text \<open>\<open>_serialize_status\<close>: the words of the operator's panel.\<close>

definition serialize_status :: "string \<Rightarrow> bool \<Rightarrow> string" where
  "serialize_status status stop_requested =
     (if status = ''stopped'' then ''stopped''
      else if status = ''failed'' then ''error''
      else if status = ''succeeded'' then ''done''
      else if status = ''stopping'' \<or> stop_requested then ''stopping''
      else if status \<in> {''queued'', ''running'', ''retrying''} then ''running''
      else status)"

text \<open>The active task of a name and scope, or else its newest task.\<close>

definition get_operational_task_run :: "string \<Rightarrow> string \<Rightarrow> store \<Rightarrow> task_run option" where
  "get_operational_task_run name scope s =
     or_else (get_scoped_task_run s name scope True) (get_scoped_task_run s name scope False)"

definition get_batch_pipeline_task_run :: "store \<Rightarrow> task_run option" where
  "get_batch_pipeline_task_run s =
     get_operational_task_run ''task_batch_pipeline'' batch_pipeline_scope_key s"

definition get_territory_crawl_task_run :: "string \<Rightarrow> store \<Rightarrow> task_run option" where
  "get_territory_crawl_task_run territory s =
     get_operational_task_run ''task_crawl_territory'' territory s"

definition get_rescore_all_task_run :: "store \<Rightarrow> task_run option" where
  "get_rescore_all_task_run s =
     get_operational_task_run ''task_rescore_all'' rescore_all_scope_key s"

text \<open>\<open>dict(task_run.progress_json or {})\<close> and \<open>progress.get(key, d)\<close>.\<close>

definition progress_get :: "task_run \<Rightarrow> string \<Rightarrow> json \<Rightarrow> json" where
  "progress_get t key d =
     (case task_progress_json t of
        None \<Rightarrow> d
      | Some p \<Rightarrow> (case json_get key p of Some v \<Rightarrow> v | None \<Rightarrow> d))"

definition step_or_progress :: "task_run \<Rightarrow> json" where
  "step_or_progress t = (if truthy (task_current_step t) then jstr (task_current_step t)
     else progress_get t ''current_step'' JNull)"

definition serialized_status :: "task_run \<Rightarrow> json" where
  "serialized_status t = JStr (serialize_status (task_status t) (task_stop_requested_at t \<noteq> None))"

definition serialize_batch_pipeline_status :: "task_run option \<Rightarrow> json" where
  "serialize_batch_pipeline_status task = (case task of None \<Rightarrow> idle_status | Some t \<Rightarrow>
     JObj [(''status'', serialized_status t), (''task_id'', JStr (task_id t)),
       (''total'', progress_get t ''total'' (JInt 0)),
       (''processed'', progress_get t ''processed'' (JInt 0)),
       (''current_lead'', progress_get t ''current_lead'' JNull),
       (''current_step'', step_or_progress t),
       (''errors'', progress_get t ''errors'' (JInt 0)),
       (''crawl_rounds'', progress_get t ''crawl_rounds'' (JInt 0)),
       (''leads_from_crawl'', progress_get t ''leads_from_crawl'' (JInt 0)),
       (''error'', jstr (task_error t)), (''correlation_id'', jstr (task_correlation_id t))])"

definition serialize_territory_crawl_status :: "task_run option \<Rightarrow> json" where
  "serialize_territory_crawl_status task = (case task of None \<Rightarrow> idle_status | Some t \<Rightarrow>
     JObj [(''status'', serialized_status t), (''task_id'', JStr (task_id t)),
       (''territory'', progress_get t ''territory'' JNull),
       (''total_cities'', progress_get t ''total_cities'' JNull),
       (''current_city_idx'', progress_get t ''current_city_idx'' JNull),
       (''current_city'', progress_get t ''current_city'' JNull),
       (''leads_found'', progress_get t ''leads_found'' (JInt 0)),
       (''leads_created'', progress_get t ''leads_created'' (JInt 0)),
       (''leads_skipped'', progress_get t ''leads_skipped'' (JInt 0)),
       (''error'', jstr (task_error t)), (''correlation_id'', jstr (task_correlation_id t))])"

definition serialize_rescore_all_status :: "task_run option \<Rightarrow> json" where
  "serialize_rescore_all_status task = (case task of None \<Rightarrow> idle_status | Some t \<Rightarrow>
     JObj [(''status'', serialized_status t), (''task_id'', JStr (task_id t)),
       (''total'', progress_get t ''total'' (JInt 0)),
       (''rescored'', progress_get t ''rescored'' (JInt 0)),
       (''errors'', progress_get t ''errors'' (JInt 0)),
       (''current_lead_id'', progress_get t ''current_lead_id'' JNull),
       (''current_step'', step_or_progress t),
       (''error'', jstr (task_error t)), (''correlation_id'', jstr (task_correlation_id t))])"

section \<open>Progress documents\<close>

text \<open>The keyword arguments of \<open>build_batch_pipeline_progress\<close> with their defaults.\<close>

record batch_progress =
  bp_status :: string
  bp_total :: int
  bp_processed :: int
  bp_current_lead :: "string option"
  bp_current_step :: string
  bp_errors :: int
  bp_crawl_rounds :: int
  bp_leads_from_crawl :: int

definition new_batch_progress :: batch_progress where
  "new_batch_progress = \<lparr>bp_status = ''running'', bp_total = 0, bp_processed = 0,
     bp_current_lead = None, bp_current_step = [], bp_errors = 0, bp_crawl_rounds = 0,
     bp_leads_from_crawl = 0\<rparr>"

definition build_batch_pipeline_progress :: "string \<Rightarrow> batch_progress \<Rightarrow> json" where
  "build_batch_pipeline_progress tid p =
     JObj [(''status'', JStr (bp_status p)), (''task_id'', JStr tid),
       (''total'', JInt (bp_total p)), (''processed'', JInt (bp_processed p)),
       (''current_lead'', jstr (bp_current_lead p)),
       (''current_step'', JStr (bp_current_step p)), (''errors'', JInt (bp_errors p)),
       (''crawl_rounds'', JInt (bp_crawl_rounds p)),
       (''leads_from_crawl'', JInt (bp_leads_from_crawl p))]"

record crawl_progress =
  cp_status :: string
  cp_territory :: "string option"
  cp_total_cities :: int
  cp_current_city_idx :: int
  cp_current_city :: string
  cp_current_step :: string
  cp_leads_found :: int
  cp_leads_created :: int
  cp_leads_skipped :: int

definition new_crawl_progress :: crawl_progress where
  "new_crawl_progress = \<lparr>cp_status = ''running'', cp_territory = None, cp_total_cities = 0,
     cp_current_city_idx = 0, cp_current_city = [], cp_current_step = [], cp_leads_found = 0,
     cp_leads_created = 0, cp_leads_skipped = 0\<rparr>"

definition build_territory_crawl_progress :: "string \<Rightarrow> crawl_progress \<Rightarrow> json" where
  "build_territory_crawl_progress tid p =
     JObj [(''status'', JStr (cp_status p)), (''task_id'', JStr tid),
       (''territory'', jstr (cp_territory p)), (''total_cities'', JInt (cp_total_cities p)),
       (''current_city_idx'', JInt (cp_current_city_idx p)),
       (''current_city'', JStr (cp_current_city p)),
       (''current_step'', JStr (cp_current_step p)),
       (''leads_found'', JInt (cp_leads_found p)),
       (''leads_created'', JInt (cp_leads_created p)),
       (''leads_skipped'', JInt (cp_leads_skipped p))]"

definition build_rescore_all_progress :: "nat \<Rightarrow> nat \<Rightarrow> nat \<Rightarrow> string option \<Rightarrow> json" where
  "build_rescore_all_progress n_total rescored errors current_lead =
     JObj [(''total'', JInt (int n_total)), (''rescored'', JInt (int rescored)),
       (''errors'', JInt (int errors)), (''current_lead_id'', jstr current_lead)]"

definition build_rescore_all_status_payload ::
    "string \<Rightarrow> string \<Rightarrow> nat \<Rightarrow> nat \<Rightarrow> nat \<Rightarrow> string option \<Rightarrow> string option \<Rightarrow> json" where
  "build_rescore_all_status_payload status tid n_total rescored errors current_step err =
     JObj ([(''status'', JStr status), (''task_id'', JStr tid), (''total'', JInt (int n_total)),
            (''rescored'', JInt (int rescored)), (''errors'', JInt (int errors))]
       @ (case current_step of Some st \<Rightarrow> [(''current_step'', JStr st)] | None \<Rightarrow> [])
       @ (case err of Some e \<Rightarrow> [(''error'', JStr e)] | None \<Rightarrow> []))"

section \<open>Writing both\<close>

text \<open>The database together with Redis: what a running task reads and writes.\<close>

record world =
  w_db :: store
  w_redis :: redis

definition mirror_state :: "string \<Rightarrow> json \<Rightarrow> world \<Rightarrow> world" where
  "mirror_state key payload w = w\<lparr>w_redis :=
     mirror_legacy_operational_state (now (w_db w)) key payload
       default_legacy_mirror_ttl_seconds (w_redis w)\<rparr>"

definition mirror_batch_pipeline_state :: "json \<Rightarrow> world \<Rightarrow> world" where
  "mirror_batch_pipeline_state payload w = mirror_state batch_pipeline_redis_key payload w"

definition mirror_rescore_all_state :: "json \<Rightarrow> world \<Rightarrow> world" where
  "mirror_rescore_all_state payload w = mirror_state rescore_all_redis_key payload w"

definition mirror_territory_crawl_state :: "string \<Rightarrow> json \<Rightarrow> world \<Rightarrow> world" where
  "mirror_territory_crawl_state territory payload w =
     mirror_state (territory_crawl_redis_key territory) payload w"

text \<open>
  \<open>should_stop_operational_task\<close>: the canonical row first, then the mirror; a server that
  does not answer never stops a task, a mirror that is gone does when the caller says so.
\<close>

definition should_stop_operational_task :: "string \<Rightarrow> string \<Rightarrow> bool \<Rightarrow> world \<Rightarrow> bool" where
  "should_stop_operational_task tid key treat_missing_legacy_as_stop w =
     (if is_task_stop_requested (w_db w) tid then True
      else case read_legacy_operational_state (now (w_db w)) key False (w_redis w) of
        Inl e \<Rightarrow> False
      | Inr None \<Rightarrow> treat_missing_legacy_as_stop
      | Inr (Some v) \<Rightarrow> json_get ''status'' v = Some (JStr ''stopping''))"

text \<open>\<open>persist_operational_task_state\<close>, in a session of its own that it commits.\<close>

definition persist_operational_task_state :: "string \<Rightarrow> task_update \<Rightarrow> world \<Rightarrow> world" where
  "persist_operational_task_state tid u w = w\<lparr>w_db := update_task_run tid u (w_db w)\<rparr>"

definition get_batch_pipeline_status_snapshot :: "world \<Rightarrow> json" where
  "get_batch_pipeline_status_snapshot w = (case get_batch_pipeline_task_run (w_db w) of
     Some t \<Rightarrow> serialize_batch_pipeline_status (Some t)
   | None \<Rightarrow> load_legacy_operational_state_or_idle (now (w_db w)) batch_pipeline_redis_key
               (w_redis w))"

definition get_territory_crawl_status_snapshot :: "string \<Rightarrow> world \<Rightarrow> json" where
  "get_territory_crawl_status_snapshot territory w =
     (case get_territory_crawl_task_run territory (w_db w) of
        Some t \<Rightarrow> serialize_territory_crawl_status (Some t)
      | None \<Rightarrow> load_legacy_operational_state_or_idle (now (w_db w))
                  (territory_crawl_redis_key territory) (w_redis w))"

section \<open>The operator's endpoints\<close>

text \<open>
  \<open>app/api/v1/pipelines.py\<close>, \<open>crawl.py\<close> and \<open>scoring.py\<close>: starting and stopping a
  long-running task.  \<open>tid\<close> is the id the broker gives the new task; \<open>base\<close> is the committed
  database when the row is written (the worker may have been faster).  A failed write leaves
  the endpoint as an exception, after the message is gone.
\<close>

definition operational_meta :: "string \<Rightarrow> string \<Rightarrow> string option \<Rightarrow> string \<Rightarrow> task_meta" where
  "operational_meta name scope cid step = \<lparr>tm_task_name = name, tm_queue = Some ''default'',
     tm_lead_id = None, tm_pipeline_run_id = None, tm_correlation_id = cid,
     tm_scope_key = Some scope, tm_current_step = Some step\<rparr>"

definition plain_call :: "string \<Rightarrow> string option \<Rightarrow> celery_call" where
  "plain_call name cid = \<lparr>call_task = name, call_lead_id = None, call_pipeline_run_id = None,
     call_correlation_id = cid\<rparr>"

definition busy_statuses :: "string set" where
  "busy_statuses = {''queued'', ''running'', ''retrying'', ''stopping''}"

definition legacy_busy :: "json \<Rightarrow> bool" where
  "legacy_busy v = (json_get ''status'' v \<in> {Some (JStr ''running''), Some (JStr ''stopping'')})"

definition enqueue_operational ::
    "string \<Rightarrow> string \<Rightarrow> string \<Rightarrow> string \<Rightarrow> string option \<Rightarrow> store \<Rightarrow> string \<Rightarrow> store \<Rightarrow>
     db_error + store" where
  "enqueue_operational celery_name name scope step cid base tid s =
     queue_task_run base tid (operational_meta name scope cid step)
       (dispatch (plain_call celery_name cid) s)"

definition start_batch_pipeline ::
    "string option \<Rightarrow> (store \<Rightarrow> store) \<Rightarrow> string \<Rightarrow> world \<Rightarrow> (db_error + json) \<times> world" where
  "start_batch_pipeline cid base tid w =
     (let busy = (\<lambda>progress. JObj [(''ok'', JBool False),
            (''message'', JStr ''El pipeline batch ya esta corriendo.''), (''progress'', progress)]);
          legacy = load_legacy_operational_state_or_idle (now (w_db w)) batch_pipeline_redis_key
            (w_redis w)
      in if (case get_batch_pipeline_task_run (w_db w) of
               Some t \<Rightarrow> task_status t \<in> busy_statuses | None \<Rightarrow> False)
         then (Inr (busy (get_batch_pipeline_status_snapshot w)), w)
         else if legacy_busy legacy then (Inr (busy legacy), w)
         else (case enqueue_operational ''app.workers.tasks.task_batch_pipeline''
                  ''task_batch_pipeline'' batch_pipeline_scope_key ''batch_dispatch'' cid
                  (base (w_db w)) tid (w_db w) of
             Inl e \<Rightarrow> (Inl e, w\<lparr>w_db := dispatch
                 (plain_call ''app.workers.tasks.task_batch_pipeline'' cid) (w_db w)\<rparr>)
           | Inr s \<Rightarrow> (Inr (JObj [(''ok'', JBool True), (''task_id'', JStr tid),
                 (''message'', JStr ''Pipeline batch iniciado.''),
                 (''correlation_id'', jstr cid)]), w\<lparr>w_db := s\<rparr>)))"

definition stop_message :: "string \<Rightarrow> json" where
  "stop_message m = JObj [(''ok'', JBool True), (''message'', JStr m)]"

text \<open>\<open>request_task_stop\<close>, else the mirror.\<close>

definition stop_operational :: "string \<Rightarrow> string \<Rightarrow> string \<Rightarrow> world \<Rightarrow> bool \<times> world" where
  "stop_operational name scope key w =
     (case request_task_stop name scope (w_db w) of
        (Some _, s) \<Rightarrow> (True, w\<lparr>w_db := s\<rparr>)
      | (None, s) \<Rightarrow>
          let (found, r) = mark_legacy_operational_stop_requested (now (w_db w)) key (w_redis w)
          in (found, w\<lparr>w_redis := r\<rparr>))"

definition stop_batch_pipeline :: "world \<Rightarrow> json \<times> world" where
  "stop_batch_pipeline w =
     (let (found, w') = stop_operational ''task_batch_pipeline'' batch_pipeline_scope_key
            batch_pipeline_redis_key w
      in (stop_message (if found
            then ''Pipeline batch deteni'' @ [CHR 0xE9] @ ''ndose tras el lead actual.''
            else ''No habia pipeline corriendo.''), w'))"

definition stop_territory_crawl :: "string \<Rightarrow> world \<Rightarrow> json \<times> world" where
  "stop_territory_crawl territory w =
     (let (found, w') = stop_operational ''task_crawl_territory'' territory
            (territory_crawl_redis_key territory) w
      in (stop_message (if found
            then ''Crawl deteni'' @ [CHR 0xE9] @ ''ndose tras la ciudad actual.''
            else ''No habia crawl corriendo.''), w'))"

text \<open>What the rescore endpoint answers when a task is still under way.\<close>

definition rescore_under_way :: "world \<Rightarrow> json option" where
  "rescore_under_way w =
     (let already = (\<lambda>k st. JObj [(''task_id'', JStr k), (''status'', st),
            (''message'', JStr ''Ya hay un rescore-all en curso.'')]);
          legacy = (case load_legacy_operational_state (now (w_db w)) rescore_all_redis_key
              (w_redis w) of
            Some v \<Rightarrow> if legacy_busy v
              then Some (already (case json_get ''task_id'' v of Some (JStr k) \<Rightarrow> k | _ \<Rightarrow> [])
                           (json_opt (json_get ''status'' v)))
              else None
          | None \<Rightarrow> None)
      in case get_rescore_all_task_run (w_db w) of
           Some t \<Rightarrow> if task_status t \<in> busy_statuses
             then Some (already (task_id t) (serialized_status t)) else legacy
         | None \<Rightarrow> legacy)"

definition rescore_all_leads ::
    "string option \<Rightarrow> (store \<Rightarrow> store) \<Rightarrow> string \<Rightarrow> world \<Rightarrow> (db_error + json) \<times> world" where
  "rescore_all_leads cid base tid w = (case rescore_under_way w of
     Some answer \<Rightarrow> (Inr answer, w)
   | None \<Rightarrow> (case enqueue_operational ''app.workers.tasks.task_rescore_all''
         ''task_rescore_all'' rescore_all_scope_key ''rescore_dispatch'' cid (base (w_db w))
         tid (w_db w) of
       Inl e \<Rightarrow> (Inl e, w\<lparr>w_db := dispatch
           (plain_call ''app.workers.tasks.task_rescore_all'' cid) (w_db w)\<rparr>)
     | Inr s \<Rightarrow> (Inr (JObj [(''task_id'', JStr tid), (''status'', JStr ''queued''),
           (''correlation_id'', jstr cid)]), w\<lparr>w_db := s\<rparr>)))"

definition get_rescore_all_status :: "world \<Rightarrow> json" where
  "get_rescore_all_status w = (case get_rescore_all_task_run (w_db w) of
     Some t \<Rightarrow> serialize_rescore_all_status (Some t)
   | None \<Rightarrow> load_legacy_operational_state_or_idle (now (w_db w)) rescore_all_redis_key (w_redis w))"

definition stop_rescore_all :: "world \<Rightarrow> json \<times> world" where
  "stop_rescore_all w = (case request_task_stop ''task_rescore_all'' rescore_all_scope_key (w_db w) of
     (Some _, s) \<Rightarrow> (stop_message (''Rescore-all deteni'' @ [CHR 0xE9] @ ''ndose tras el lead actual.''),
                    w\<lparr>w_db := s\<rparr>)
   | (None, s) \<Rightarrow> (stop_message ''No habia rescore-all corriendo.'', w))"

text \<open>
  \<open>POST /scoring/{lead_id}\<close>: the session of a request is closed without a commit, so the
  caller gets the scored lead and the database keeps nothing of it.
\<close>

definition score_endpoint :: "uuid \<Rightarrow> store \<Rightarrow> lead option \<times> store" where
  "score_endpoint k s = (let (l, s') = score_lead s k s in (l, rollback_to s s'))"

section \<open>A stop request reaches the task, a second start does not\<close>

lemma get_scoped_SomeD:
  assumes "get_scoped_task_run s name scope b = Some t"
  shows "t \<in> set (tasks s) \<and> task_name t = name \<and> task_scope_key t = Some scope
    \<and> (b \<longrightarrow> task_status t \<in> set active_task_run_statuses)"
proof -
  from assms have "t \<in> set (filter (\<lambda>t. task_name t = name \<and> task_scope_key t = Some scope
      \<and> (b \<longrightarrow> task_status t \<in> set active_task_run_statuses)) (tasks s))"
    unfolding get_scoped_task_run_def by (rule first_max_in)
  then show ?thesis by simp
qed

lemma get_scoped_active:
  assumes "t \<in> set (tasks s)" "task_name t = name" "task_scope_key t = Some scope"
    "task_status t \<in> set active_task_run_statuses"
  shows "\<exists>t'. get_scoped_task_run s name scope True = Some t'
    \<and> task_status t' \<in> set active_task_run_statuses"
proof -
  have "get_scoped_task_run s name scope True \<noteq> None"
    using assms by (auto simp: get_scoped_task_run_def filter_empty_conv)
  then obtain t' where t': "get_scoped_task_run s name scope True = Some t'" by blast
  with get_scoped_SomeD [OF t'] show ?thesis by simp
qed

lemma stop_heard:
  assumes "get_scoped_task_run (w_db w) name scope True = Some t"
  shows "is_task_stop_requested (w_db (snd (stop_operational name scope key w))) (task_id t)"
    and "fst (stop_operational name scope key w)"
proof -
  from get_scoped_SomeD [OF assms] have "get_task (w_db w) (task_id t) \<noteq> None"
    by (auto simp: get_task_def tbl_get_None_iff)
  then have "is_task_stop_requested (upd_task (task_id t) (set_stopping (now (w_db w))) (w_db w))
      (task_id t)"
    by (auto simp: is_task_stop_requested_def task_tbl.get_upd_same set_stopping_def or_else_def
        split: option.splits)
  with assms show "is_task_stop_requested (w_db (snd (stop_operational name scope key w))) (task_id t)"
    and "fst (stop_operational name scope key w)"
    by (simp_all add: stop_operational_def request_task_stop_def)
qed

lemma should_stop_requested:
  "is_task_stop_requested (w_db w) tid \<Longrightarrow> should_stop_operational_task tid key b w"
  by (simp add: should_stop_operational_task_def)

text \<open>
  A stop request of the operator is heard.  When a batch pipeline is active, the stop
  endpoint says so, and the running task's next poll answers true, whether Redis is up,
  whatever the mirror says and whether or not a missing mirror counts.  The crawl of a
  territory is stopped in the same way.
\<close>

theorem stop_request_heard:
  assumes "get_scoped_task_run (w_db w) ''task_batch_pipeline'' batch_pipeline_scope_key True = Some t"
    and "get_scoped_task_run (w_db w) ''task_crawl_territory'' territory True = Some c"
  shows "should_stop_operational_task (task_id t) batch_pipeline_redis_key b
      (snd (stop_batch_pipeline w)\<lparr>w_redis := r\<rparr>)
    \<and> should_stop_operational_task (task_id c) (territory_crawl_redis_key territory) b
      (snd (stop_territory_crawl territory w)\<lparr>w_redis := r\<rparr>)
    \<and> fst (stop_batch_pipeline w)
        = stop_message (''Pipeline batch deteni'' @ [CHR 0xE9] @ ''ndose tras el lead actual.'')"
  using stop_heard [OF assms(1), of batch_pipeline_redis_key]
    stop_heard [OF assms(2), of "territory_crawl_redis_key territory"]
  by (simp add: stop_batch_pipeline_def stop_territory_crawl_def split_beta should_stop_requested)

definition demo_operational_store :: store where
  "demo_operational_store =
     add_task ((new_task_run ''b'' ''task_batch_pipeline'' 1)
       \<lparr>task_scope_key := Some batch_pipeline_scope_key, task_status := ''running''\<rparr>)
     (add_task ((new_task_run ''c'' ''task_crawl_territory'' 1)
       \<lparr>task_scope_key := Some ''x'', task_status := ''running''\<rparr>) (empty_store 5))"

theorem stop_request_heard_witness:
  "should_stop_operational_task ''b'' batch_pipeline_redis_key False
     (snd (stop_batch_pipeline \<lparr>w_db = demo_operational_store,
        w_redis = \<lparr>rd_up = False, rd_data = []\<rparr>\<rparr>)\<lparr>w_redis := \<lparr>rd_up = False, rd_data = []\<rparr>\<rparr>)"
proof -
  let ?w = "\<lparr>w_db = demo_operational_store, w_redis = \<lparr>rd_up = False, rd_data = []\<rparr>\<rparr>"
  have ex: "map_option task_id (get_scoped_task_run demo_operational_store ''task_batch_pipeline''
        batch_pipeline_scope_key True) = Some ''b''"
      "map_option task_id (get_scoped_task_run demo_operational_store ''task_crawl_territory''
        ''x'' True) = Some ''c''"
    by code_simp+
  then obtain t c where t: "get_scoped_task_run (w_db ?w) ''task_batch_pipeline''
        batch_pipeline_scope_key True = Some t" "task_id t = ''b''"
    and c: "get_scoped_task_run (w_db ?w) ''task_crawl_territory'' ''x'' True = Some c"
    by auto
  from stop_request_heard [OF t(1) c, of False] show ?thesis by (simp add: t(2))
qed

section \<open>One task at a time\<close>

lemma queued_new_row:
  assumes "get_task s tid = None" "task_fk_ok s m"
  obtains t where "queue_task_run s tid m s = Inr (add_task t s)" "task_id t = tid"
    "task_name t = tm_task_name m" "task_scope_key t = tm_scope_key m" "task_status t = ''queued''"
  using assms that
  by (auto simp: queue_task_run_def apply_metadata_def new_task_run_def Let_def)

lemma batch_run_busy:
  assumes "get_scoped_task_run s ''task_batch_pipeline'' batch_pipeline_scope_key True = Some t"
  shows "\<exists>u. get_batch_pipeline_task_run s = Some u \<and> task_status u \<in> busy_statuses"
  using get_scoped_SomeD [OF assms] assms
  by (auto simp: get_batch_pipeline_task_run_def get_operational_task_run_def
      active_task_run_statuses_def busy_statuses_def)

text \<open>
  The batch pipeline is not started twice.  A start that the endpoint accepts sends one
  message and leaves an active row of the task; as long as that row is active the endpoint
  refuses, sends nothing and changes nothing.
\<close>

theorem batch_start_exclusive:
  assumes "get_task (w_db w) tid = None"
    and "start_batch_pipeline cid (\<lambda>s. s) tid w = (Inr j, w1)"
    and "json_get ''ok'' j = Some (JBool True)"
  shows "(\<exists>t. get_task (w_db w1) tid = Some t \<and> task_status t = ''queued'')
    \<and> dispatched (w_db w1) = dispatched (w_db w)
        @ [plain_call ''app.workers.tasks.task_batch_pipeline'' cid]
    \<and> (\<exists>j'. start_batch_pipeline cid' base tid' w1 = (Inr j', w1)
         \<and> json_get ''ok'' j' = Some (JBool False))"
proof -
  let ?m = "operational_meta ''task_batch_pipeline'' batch_pipeline_scope_key cid ''batch_dispatch''"
  let ?s = "dispatch (plain_call ''app.workers.tasks.task_batch_pipeline'' cid) (w_db w)"
  have g: "get_task ?s = get_task (w_db w)" by (simp add: get_task_def dispatch_def fun_eq_iff)
  have fk: "task_fk_ok x ?m" for x by (simp add: task_fk_ok_def operational_meta_def)
  have "get_task ?s tid = None" using assms(1) g by simp
  from queued_new_row [OF this fk] obtain t where
    q: "queue_task_run ?s tid ?m ?s = Inr (add_task t ?s)" "task_id t = tid"
    "task_name t = ''task_batch_pipeline''" "task_scope_key t = Some batch_pipeline_scope_key"
    "task_status t = ''queued''"
    by (auto simp: operational_meta_def)
  have e: "queue_task_run (w_db w) tid ?m ?s = queue_task_run ?s tid ?m ?s"
    using assms(1) fk by (simp add: queue_task_run_def g)
  have w1: "w1 = w\<lparr>w_db := add_task t ?s\<rparr>"
    using assms(2,3) q(1)
    by (auto simp: start_batch_pipeline_def enqueue_operational_def e Let_def json_get_def
        split: if_splits)
  have row: "get_task (add_task t ?s) tid = Some t"
    using q(2) assms(1) by (simp add: task_tbl.get_add g)
  have "t \<in> set (tasks (add_task t ?s))" by (simp add: add_task_def)
  with q obtain u where "get_scoped_task_run (add_task t ?s) ''task_batch_pipeline''
      batch_pipeline_scope_key True = Some u"
    using get_scoped_active [of t "add_task t ?s"] by (auto simp: active_task_run_statuses_def)
  from batch_run_busy [OF this] obtain u' where
    u': "get_batch_pipeline_task_run (add_task t ?s) = Some u'" "task_status u' \<in> busy_statuses"
    by blast
  show ?thesis
    using row q(5) u' by (simp add: w1 start_batch_pipeline_def json_get_def)
      (simp add: dispatch_def)
qed

theorem batch_start_exclusive_witness:
  "\<exists>w1. start_batch_pipeline None (\<lambda>s. s) ''n'' \<lparr>w_db = empty_store 5,
       w_redis = \<lparr>rd_up = True, rd_data = []\<rparr>\<rparr> = (Inr (JObj [(''ok'', JBool True),
         (''task_id'', JStr ''n''), (''message'', JStr ''Pipeline batch iniciado.''),
         (''correlation_id'', JNull)]), w1)
     \<and> snd (start_batch_pipeline None (\<lambda>s. s) ''m'' w1) = w1"
proof -
  let ?w = "\<lparr>w_db = empty_store 5, w_redis = \<lparr>rd_up = True, rd_data = []\<rparr>\<rparr>"
  let ?j = "JObj [(''ok'', JBool True), (''task_id'', JStr ''n''),
     (''message'', JStr ''Pipeline batch iniciado.''), (''correlation_id'', JNull)]"
  have none: "get_task (w_db ?w) ''n'' = None" by code_simp
  have "fst (start_batch_pipeline None (\<lambda>s. s) ''n'' ?w) = Inr ?j" by code_simp
  then obtain w1 where w1: "start_batch_pipeline None (\<lambda>s. s) ''n'' ?w = (Inr ?j, w1)"
    by (metis prod.collapse)
  from batch_start_exclusive [OF none w1, of None "\<lambda>s. s" "''m''"] w1 show ?thesis
    by (auto simp: json_get_def)
qed

end
