(* ===== verification/Rescoring.thy ===== *)
theory Rescoring
  imports Operational_Tasks
begin

text \<open>
  The task that scores every scored lead again (\<open>app/workers/batch_tasks.py\<close>,
  \<open>task_rescore_all\<close>): it reports its progress in committed sessions of its own, and scores
  each lead in one more session that it never commits.
\<close>

section \<open>The task\<close>

definition rescore_persist ::
    "string \<Rightarrow> string \<Rightarrow> nat \<Rightarrow> nat \<Rightarrow> nat \<Rightarrow> string option \<Rightarrow> task_update \<Rightarrow> world \<Rightarrow> world" where
  "rescore_persist tid step n_total rescored errors current_lead u w =
     persist_operational_task_state tid
       (u\<lparr>tu_current_step := Some step,
          tu_progress_json := Some (build_rescore_all_progress n_total rescored errors current_lead)\<rparr>) w"

definition rescore_mirror ::
    "string \<Rightarrow> string \<Rightarrow> string \<Rightarrow> nat \<Rightarrow> nat \<Rightarrow> nat \<Rightarrow> string option \<Rightarrow> world \<Rightarrow> world" where
  "rescore_mirror status tid step n_total rescored errors err w =
     mirror_rescore_all_state
       (build_rescore_all_status_payload status tid n_total rescored errors (Some step) err) w"

text \<open>
  \<open>with SessionLocal() as db: score_lead(db, lead_id)\<close>: the session ends without a commit.
  \<open>fails k\<close> is the exception that scoring lead \<open>k\<close> raises, if it does.
\<close>

definition score_in_session :: "uuid \<Rightarrow> world \<Rightarrow> world" where
  "score_in_session k w =
     w\<lparr>w_db := rollback_to (w_db w) (snd (score_lead (w_db w) k (w_db w)))\<rparr>"

datatype rescore_end = Rescore_stopped | Rescore_completed nat nat

text \<open>
  The loop over the leads.  \<open>others k\<close> is what other sessions commit while lead \<open>k\<close> is next;
  a stop request among it ends the loop.
\<close>

fun rescore_loop ::
    "(uuid \<Rightarrow> world \<Rightarrow> world) \<Rightarrow> (uuid \<Rightarrow> string option) \<Rightarrow> string \<Rightarrow> nat \<Rightarrow> uuid list \<Rightarrow> nat \<Rightarrow> nat \<Rightarrow>
     world \<Rightarrow> rescore_end \<times> world" where
  "rescore_loop others fails tid n_total [] rescored errors w =
     (Rescore_completed rescored errors, w)"
| "rescore_loop others fails tid n_total (k # ks) rescored errors w =
     (let w1 = others k (rescore_persist tid ''rescore_scoring'' n_total rescored errors
            (Some (uuid_str k)) no_task_update w)
      in if should_stop_operational_task tid rescore_all_redis_key False w1
         then (Rescore_stopped,
           rescore_mirror ''stopped'' tid ''rescore_stopped'' n_total rescored errors None
             (rescore_persist tid ''rescore_stopped'' n_total rescored errors None
                (no_task_update\<lparr>tu_status := Some ''stopped'', tu_finished := True\<rparr>) w1))
         else
           let (rescored', errors', w2) = (case fails k of
                 None \<Rightarrow> (Suc rescored, errors, score_in_session k w1)
               | Some e \<Rightarrow> (rescored, Suc errors, w1));
               w3 = rescore_persist tid ''rescore_scoring'' n_total rescored' errors' None
                 no_task_update w2;
               processed = rescored' + errors';
               w4 = (if processed mod 20 = 0 \<or> processed = n_total
                     then rescore_mirror ''running'' tid ''rescore_scoring'' n_total rescored' errors'
                       None w3
                     else w3)
           in rescore_loop others fails tid n_total ks rescored' errors' w4)"

definition rescore_meta :: "string \<Rightarrow> string option \<Rightarrow> task_meta" where
  "rescore_meta queue cid = \<lparr>tm_task_name = ''task_rescore_all'', tm_queue = Some queue,
     tm_lead_id = None, tm_pipeline_run_id = None, tm_correlation_id = cid,
     tm_scope_key = Some rescore_all_scope_key, tm_current_step = Some ''rescore_dispatch''\<rparr>"

definition scored_lead_ids :: "store \<Rightarrow> uuid list" where
  "scored_lead_ids s = map lead_id (filter (\<lambda>l. lead_score l \<noteq> None) (leads s))"

definition rescore_result :: "string \<Rightarrow> nat \<Rightarrow> nat \<Rightarrow> nat \<Rightarrow> json" where
  "rescore_result tid n_total rescored errors =
     JObj [(''status'', JStr ''done''), (''task_id'', JStr tid), (''total'', JInt (int n_total)),
       (''rescored'', JInt (int rescored)), (''errors'', JInt (int errors))]"

definition rescore_stopped_result :: "string \<Rightarrow> json" where
  "rescore_stopped_result tid = JObj [(''status'', JStr ''stopped''), (''task_id'', JStr tid)]"

text \<open>\<open>error_text\<close> is \<open>str(exc)\<close>.\<close>

definition task_rescore_all ::
    "(uuid \<Rightarrow> world \<Rightarrow> world) \<Rightarrow> (uuid \<Rightarrow> string option) \<Rightarrow> (db_error \<Rightarrow> string) \<Rightarrow> string \<Rightarrow> string \<Rightarrow>
     string option \<Rightarrow> world \<Rightarrow> (db_error + json) \<times> world" where
  "task_rescore_all others fails error_text tid queue cid w =
     (case mark_task_running (w_db w) tid (rescore_meta queue cid) (w_db w) of
        Inl e \<Rightarrow> (Inl e,
          rescore_mirror ''error'' tid ''rescore_dispatch'' 0 0 0 (Some (error_text e))
            (rescore_persist tid ''rescore_dispatch'' 0 0 0 None
               (no_task_update\<lparr>tu_status := Some ''failed'', tu_error := Some (error_text e),
                  tu_finished := True\<rparr>) w))
      | Inr s \<Rightarrow>
          let ids = scored_lead_ids s;
              n_total = length ids;
              w1 = rescore_mirror ''running'' tid ''rescore_dispatch'' n_total 0 0 None
                (rescore_persist tid ''rescore_dispatch'' n_total 0 0 None
                   (no_task_update\<lparr>tu_clear_error := True\<rparr>) (w\<lparr>w_db := s\<rparr>))
          in case rescore_loop others fails tid n_total ids 0 0 w1 of
               (Rescore_stopped, w2) \<Rightarrow> (Inr (rescore_stopped_result tid), w2)
             | (Rescore_completed rescored errors, w2) \<Rightarrow>
                 let res = rescore_result tid n_total rescored errors
                 in (Inr res,
                   rescore_mirror ''done'' tid ''rescore_completed'' n_total rescored errors None
                     (rescore_persist tid ''rescore_completed'' n_total rescored errors None
                        (no_task_update\<lparr>tu_status := Some ''succeeded'', tu_clear_error := True,
                           tu_finished := True, tu_result := Some res,
                           tu_stop_requested := Some False\<rparr>) w2)))"

section \<open>It changes nothing\<close>

text \<open>What a new score would show up in.\<close>

definition score_rows :: "store \<Rightarrow> lead list \<times> lead_signal list \<times> lead_event list
    \<times> notification list \<times> operational_settings option" where
  "score_rows s = (leads s, signals s, lead_events s, notifs s, ops s)"

lemma score_rows_upd_task [simp]:
  "score_rows (upd_task k f s) = score_rows s" "score_rows (add_task t s) = score_rows s"
  by (simp_all add: score_rows_def upd_task_def add_task_def)

lemma score_rows_rollback [simp]: "score_rows (rollback_to base s) = score_rows base"
  by (simp add: score_rows_def rollback_to_def)

lemma score_rows_persist [simp]:
  "score_rows (w_db (rescore_persist tid st n a b c u w)) = score_rows (w_db w)"
  by (simp add: rescore_persist_def persist_operational_task_state_def update_task_run_def)

lemma score_rows_mirror [simp]:
  "w_db (rescore_mirror status tid st n a b err w) = w_db w"
  by (simp add: rescore_mirror_def mirror_rescore_all_state_def mirror_state_def)

lemma score_rows_session [simp]: "score_rows (w_db (score_in_session k w)) = score_rows (w_db w)"
  by (simp add: score_in_session_def)

lemma scored_ids_rows: "score_rows s = score_rows s' \<Longrightarrow> scored_lead_ids s = scored_lead_ids s'"
  by (simp add: score_rows_def scored_lead_ids_def)

lemma rescore_started:
  obtains s where "mark_task_running base tid (rescore_meta queue cid) base = Inr s"
    and "score_rows s = score_rows base"
proof -
  have fk: "task_fk_ok base (rescore_meta queue cid)"
    by (simp add: task_fk_ok_def rescore_meta_def)
  then obtain s1 where q: "queue_task_run base tid (rescore_meta queue cid) base = Inr s1"
    and r: "score_rows s1 = score_rows base"
    by (cases "get_task base tid") (auto simp: queue_task_run_def)
  then have "mark_task_running base tid (rescore_meta queue cid) base
      = Inr (upd_task tid (set_running (now s1)) s1)"
    by (simp add: mark_task_running_def Let_def update_run_if_def rescore_meta_def)
  with r that show ?thesis by simp
qed

lemma rescore_loop_rows:
  assumes "\<And>k w. score_rows (w_db (others k w)) = score_rows (w_db w)"
  shows "score_rows (w_db (snd (rescore_loop others fails tid n ks a b w))) = score_rows (w_db w)"
  by (induction ks arbitrary: a b w) (simp_all add: assms Let_def split: option.split)

lemma rescore_loop_counts:
  "fst (rescore_loop others fails tid n ks a b w)
     \<in> {Rescore_stopped,
        Rescore_completed (a + length (filter (\<lambda>k. fails k = None) ks))
          (b + length (filter (\<lambda>k. fails k \<noteq> None) ks))}"
proof (induction ks arbitrary: a b w)
  case (Cons k ks)
  show ?case
  proof (cases "fails k")
    case None
    with Cons [of "Suc a" b] show ?thesis by (simp add: Let_def)
  next
    case (Some e)
    with Cons [of a "Suc b"] show ?thesis by (simp add: Let_def)
  qed
qed simp

text \<open>
  Re-scoring every lead changes no score.  Whatever the scores of the leads, and however
  often it runs, as long as nobody else writes leads, signals, events, alerts or settings
  meanwhile they are the same rows afterwards; yet unless it is stopped the task reports
  success, with one lead rescored for every lead that has a score and does not raise.
\<close>

theorem rescore_changes_nothing:
  assumes "\<And>k w. score_rows (w_db (others k w)) = score_rows (w_db w)"
  shows "score_rows (w_db (snd (task_rescore_all others fails err tid queue cid w)))
      = score_rows (w_db w)
    \<and> fst (task_rescore_all others fails err tid queue cid w) \<in>
        {Inr (rescore_stopped_result tid),
         Inr (rescore_result tid (length (scored_lead_ids (w_db w)))
           (length (filter (\<lambda>k. fails k = None) (scored_lead_ids (w_db w))))
           (length (filter (\<lambda>k. fails k \<noteq> None) (scored_lead_ids (w_db w)))))}"
proof -
  obtain s where m: "mark_task_running (w_db w) tid (rescore_meta queue cid) (w_db w) = Inr s"
    and r: "score_rows s = score_rows (w_db w)"
    by (rule rescore_started)
  note ids = scored_ids_rows [OF r]
  let ?n = "length (scored_lead_ids (w_db w))"
  let ?w = "rescore_mirror ''running'' tid ''rescore_dispatch'' ?n 0 0 None
    (rescore_persist tid ''rescore_dispatch'' ?n 0 0 None
       (no_task_update\<lparr>tu_clear_error := True\<rparr>) (w\<lparr>w_db := s\<rparr>))"
  let ?l = "rescore_loop others fails tid ?n (scored_lead_ids (w_db w)) 0 0 ?w"
  have rows: "score_rows (w_db (snd ?l)) = score_rows (w_db w)"
    by (simp add: rescore_loop_rows [OF assms] r)
  have counts: "fst ?l \<in> {Rescore_stopped,
      Rescore_completed (length (filter (\<lambda>k. fails k = None) (scored_lead_ids (w_db w))))
        (length (filter (\<lambda>k. fails k \<noteq> None) (scored_lead_ids (w_db w))))}"
    using rescore_loop_counts [where a = 0 and b = 0] by simp
  show ?thesis
    using rows counts
    by (cases ?l) (auto simp: task_rescore_all_def m ids Let_def split: rescore_end.splits)
qed

definition demo_scored_store :: store where
  "demo_scored_store =
     (add_lead ((blank_lead 1 ''Bar'' 0)\<lparr>lead_score := Some 5\<rparr>) (empty_store 0))
       \<lparr>signals := [demo_signal 1 NO_SSL]\<rparr>"

definition demo_world :: "store \<Rightarrow> world" where
  "demo_world s = \<lparr>w_db = s, w_redis = \<lparr>rd_up = True, rd_data = []\<rparr>\<rparr>"

text \<open>The lead's signals are worth 12 and the task reports it rescored, but its score stays 5.\<close>

theorem rescore_changes_nothing_witness:
  "map lead_score (leads (w_db (snd (task_rescore_all (\<lambda>k w. w) (\<lambda>k. None) (\<lambda>e. [])
       ''t9'' ''default'' None (demo_world demo_scored_store))))) = [Some 5]
   \<and> fst (task_rescore_all (\<lambda>k w. w) (\<lambda>k. None) (\<lambda>e. []) ''t9'' ''default'' None
       (demo_world demo_scored_store)) = Inr (rescore_result ''t9'' 1 1 0)
   \<and> map lead_score (leads (snd (score_lead demo_scored_store 1 demo_scored_store))) = [Some 12]"
proof -
  let ?r = "task_rescore_all (\<lambda>k w. w) (\<lambda>k. None) (\<lambda>e. []) ''t9'' ''default'' None
       (demo_world demo_scored_store)"
  have "score_rows (w_db (snd ?r)) = score_rows demo_scored_store"
    using rescore_changes_nothing [of "\<lambda>k w. w" "\<lambda>k. None" "\<lambda>e. []" "''t9''" "''default''" None
        "demo_world demo_scored_store"] by (simp add: demo_world_def)
  then have "leads (w_db (snd ?r)) = leads demo_scored_store" by (simp add: score_rows_def)
  then have a: "map lead_score (leads (w_db (snd ?r))) = [Some 5]"
    by (simp add: demo_scored_store_def add_lead_def empty_store_def)
  have b: "fst ?r = Inr (rescore_result ''t9'' 1 1 0)" by code_simp
  have c: "map lead_score (leads (snd (score_lead demo_scored_store 1 demo_scored_store))) = [Some 12]"
    by code_simp
  from a b c show ?thesis by blast
qed

end
