(* ===== verification/Web_Text.thy ===== *)
theory Web_Text
  imports Py_Text "HOL-Library.List_Lexorder" "HOL-Library.Char_ord"
begin

text \<open>
  Texts from the web: the parts of a URL that \<open>urllib.parse.urlparse\<close> gives, the e-mail
  addresses in a page (\<open>_EMAIL_RE\<close> and \<open>_extract_emails\<close> of
  \<open>app/services/leads/enrichment_service.py\<close>) and the test for a social-media address.
\<close>

section \<open>URLs\<close>

text \<open>\<open>s.partition(c)\<close> without its middle, and what follows the last \<open>c\<close>.\<close>

definition partition_at :: "char \<Rightarrow> string \<Rightarrow> string \<times> string" where
  "partition_at c s = (takeWhile (\<lambda>d. d \<noteq> c) s, drop 1 (dropWhile (\<lambda>d. d \<noteq> c) s))"

definition after_last :: "char \<Rightarrow> string \<Rightarrow> string" where
  "after_last c s = rev (takeWhile (\<lambda>d. d \<noteq> c) (rev s))"

definition ascii_letter :: "char \<Rightarrow> bool" where
  "ascii_letter c = (let n = ord_of c in 65 \<le> n \<and> n \<le> 90 \<or> 97 \<le> n \<and> n \<le> 122)"

definition ascii_digit :: "char \<Rightarrow> bool" where
  "ascii_digit c = (48 \<le> ord_of c \<and> ord_of c \<le> 57)"

definition scheme_char :: "char \<Rightarrow> bool" where
  "scheme_char c = (ascii_letter c \<or> ascii_digit c \<or> c \<in> set ''+-.'')"

record parsed_url =
  pu_scheme :: string
  pu_netloc :: string

text \<open>
  The scheme and the network location of \<open>urlparse(url)\<close>; the exception of an unbalanced
  bracket is \<open>Inl\<close>.  The address between two brackets is not checked further.
\<close>

definition clean_url :: "string \<Rightarrow> string" where
  "clean_url url = filter (\<lambda>c. ord_of c \<notin> {9, 10, 13}) (dropWhile (\<lambda>c. ord_of c \<le> 32) url)"

definition split_scheme :: "string \<Rightarrow> string \<times> string" where
  "split_scheme u = (let (a, b) = partition_at (CHR '':'') u in
     if CHR '':'' \<in> set u \<and> a \<noteq> [] \<and> ascii_letter (hd a) \<and> list_all scheme_char a
     then (lower a, b) else ([], u))"

definition urlparse :: "string \<Rightarrow> string + parsed_url" where
  "urlparse url =
     (let (scheme, r) = split_scheme (clean_url url);
          netloc = (if starts_with ''//'' r then takeWhile (\<lambda>c. c \<notin> set ''/?#'') (drop 2 r) else [])
      in if (CHR ''['' \<in> set netloc) \<noteq> (CHR '']'' \<in> set netloc) then Inl ''Invalid IPv6 URL''
         else Inr \<lparr>pu_scheme = scheme, pu_netloc = netloc\<rparr>)"

text \<open>The properties \<open>hostname\<close> and \<open>port\<close>.\<close>

definition hostinfo :: "parsed_url \<Rightarrow> string \<times> string option" where
  "hostinfo p =
     (let info = after_last (CHR ''@'') (pu_netloc p);
          (h, port) = (if CHR ''['' \<in> set info
             then (let (h, r) = partition_at (CHR '']'') (snd (partition_at (CHR ''['') info))
                   in (h, snd (partition_at (CHR '':'') r)))
             else partition_at (CHR '':'') info)
      in (h, none_if_empty port))"

definition hostname :: "parsed_url \<Rightarrow> string option" where
  "hostname p = (let h = fst (hostinfo p); host = takeWhile (\<lambda>c. c \<noteq> CHR ''%'') h in
     if h = [] then None else Some (lower host @ drop (length host) h))"

definition digits_value :: "string \<Rightarrow> int" where
  "digits_value s = foldl (\<lambda>a c. 10 * a + int (ord_of c - 48)) 0 s"

definition url_port :: "parsed_url \<Rightarrow> string + int option" where
  "url_port p = (case snd (hostinfo p) of
     None \<Rightarrow> Inr None
   | Some t \<Rightarrow>
       if \<not> list_all ascii_digit t
       then Inl (''Port could not be cast to integer value as '' @ [CHR 0x27] @ t @ [CHR 0x27])
       else if 65535 < digits_value t then Inl ''Port out of range 0-65535''
       else Inr (Some (digits_value t)))"

section \<open>Social media\<close>

definition social_media_domains :: "string list" where
  "social_media_domains = [''instagram.com'', ''facebook.com'', ''tiktok.com'', ''twitter.com'',
     ''x.com'', ''linkedin.com'']"

text \<open>\<open>_is_social_media_url\<close>, or the exception of \<open>urlparse\<close>.\<close>

definition is_social_media_url :: "string \<Rightarrow> string + bool" where
  "is_social_media_url url = (case urlparse url of
     Inl e \<Rightarrow> Inl e
   | Inr p \<Rightarrow> Inr (\<exists>d \<in> set social_media_domains. contains d (text_or_empty (hostname p))))"

section \<open>E-mail addresses in a text\<close>

definition local_char :: "char \<Rightarrow> bool" where
  "local_char c = (ascii_letter c \<or> ascii_digit c \<or> c \<in> set ''._%+-'')"

definition domain_char :: "char \<Rightarrow> bool" where
  "domain_char c = (ascii_letter c \<or> ascii_digit c \<or> c \<in> set ''.-'')"

text \<open>
  Where the regular expression ends a domain inside the run \<open>d\<close> of domain characters: after
  the last dot, not the first character, that at least two letters follow, and these letters.
\<close>

fun domain_end :: "nat \<Rightarrow> string \<Rightarrow> nat option" where
  "domain_end 0 d = None"
| "domain_end (Suc n) d =
     (let letters = length (takeWhile ascii_letter (drop (n + 2) d)) in
      if n + 1 < length d \<and> d ! (n + 1) = CHR ''.'' \<and> 2 \<le> letters then Some (n + 2 + letters)
      else domain_end n d)"

text \<open>A match at the start of the text: the address and what follows it.\<close>

definition email_at :: "string \<Rightarrow> (string \<times> string) option" where
  "email_at s =
     (let loc = takeWhile local_char s; r = dropWhile local_char s;
          d = takeWhile domain_char (drop 1 r)
      in if loc = [] \<or> r = [] \<or> hd r \<noteq> CHR ''@'' then None
         else (case domain_end (length d) d of
             None \<Rightarrow> None
           | Some n \<Rightarrow> Some (loc @ [CHR ''@''] @ take n d, drop (Suc n) r)))"

lemma length_dropWhile: "length (dropWhile p s) \<le> length s"
  by (induction s) auto

lemma email_at_shorter: "email_at s = Some (m, r) \<Longrightarrow> length r < length s"
proof -
  assume a: "email_at s = Some (m, r)"
  then obtain n where "r = drop (Suc n) (dropWhile local_char s)" "dropWhile local_char s \<noteq> []"
    by (auto simp: email_at_def Let_def split: if_splits option.splits)
  with length_dropWhile [of local_char s] show ?thesis
    by (cases "dropWhile local_char s") auto
qed

text \<open>\<open>_EMAIL_RE.findall\<close>.\<close>

function find_emails :: "string \<Rightarrow> string list" where
  "find_emails s = (case email_at s of
     Some (m, r) \<Rightarrow> m # find_emails r
   | None \<Rightarrow> (case s of [] \<Rightarrow> [] | c # t \<Rightarrow> find_emails t))"
  by pat_completeness auto
termination
  by (relation "measure length") (auto dest: email_at_shorter)

declare find_emails.simps [simp del]

definition junk_email_domains :: "string list" where
  "junk_email_domains = [''example.com'', ''email.com'', ''test.com'', ''placeholder.com'',
     ''sentry.io'', ''sentry-next.wixpress.com'', ''wixpress.com'', ''wordpress.com'',
     ''gravatar.com'', ''w3.org'', ''ingest.de.sentry.io'', ''ingest.sentry.io'']"

definition junk_email_prefixes :: "string list" where
  "junk_email_prefixes = [''noreply'', ''no-reply'', ''no_reply'', ''donotreply'', ''notify'',
     ''notification'', ''alert'', ''mailer-daemon'', ''tuemail'', ''youremail'', ''your-email'',
     ''tu-email'']"

definition image_extensions :: "string list" where
  "image_extensions = [''.png'', ''.jpg'', ''.svg'', ''.gif'', ''.webp'']"

text \<open>The address, in lower case, survives the filters of the loop.\<close>

definition real_email :: "string \<Rightarrow> bool" where
  "real_email e =
     (let (loc, domain) = partition_at (CHR ''@'') e in
      \<not> (domain \<in> set junk_email_domains \<or> contains ''sentry'' domain \<or> contains ''wixpress'' domain)
      \<and> \<not> (\<exists>x \<in> set image_extensions. ends_with x e)
      \<and> \<not> (\<exists>p \<in> set junk_email_prefixes. starts_with p loc)
      \<and> \<not> (20 < length loc
           \<and> list_all (\<lambda>c. c \<in> set ''0123456789abcdef'') (remove_char (CHR ''-'') loc)))"

definition extract_emails :: "string \<Rightarrow> string list" where
  "extract_emails html = sorted_list_of_set (set (filter real_email (map lower (find_emails html))))"

section \<open>What is extracted\<close>

lemma domain_end_bound: "domain_end n d = Some m \<Longrightarrow> m \<le> length d \<and> 3 < m"
proof (induction n)
  case (Suc n)
  show ?case
  proof (cases "n + 1 < length d \<and> d ! (n + 1) = CHR ''.''
      \<and> 2 \<le> length (takeWhile ascii_letter (drop (n + 2) d))")
    case True
    have "length (takeWhile ascii_letter (drop (n + 2) d)) \<le> length d - (n + 2)"
      using length_takeWhile_le [of ascii_letter "drop (n + 2) d"] by simp
    with True Suc.prems show ?thesis by (auto simp: Let_def)
  next
    case False
    with Suc.prems have "domain_end n d = Some m" by (auto simp: Let_def split: if_splits)
    then show ?thesis by (rule Suc.IH)
  qed
qed simp

text \<open>A match is a slice of the text: a local part, an at sign and a domain.\<close>

lemma email_at_match:
  assumes "email_at s = Some (m, r)"
  shows "s = m @ r \<and> (\<exists>loc d. m = loc @ CHR ''@'' # d \<and> loc \<noteq> [] \<and> list_all local_char loc
    \<and> d \<noteq> [] \<and> list_all domain_char d)"
proof -
  let ?loc = "takeWhile local_char s" and ?r = "dropWhile local_char s"
  let ?d = "takeWhile domain_char (drop 1 ?r)"
  from assms obtain n where n: "domain_end (length ?d) ?d = Some n" and l: "?loc \<noteq> []"
    and rr: "?r \<noteq> []" "hd ?r = CHR ''@''" and m: "m = ?loc @ [CHR ''@''] @ take n ?d"
    and r: "r = drop (Suc n) ?r"
    by (auto simp: email_at_def Let_def split: if_splits option.splits)
  from rr have e: "?r = CHR ''@'' # drop 1 ?r" by (cases ?r) auto
  have le: "n \<le> length ?d" and n3: "3 < n" using domain_end_bound [OF n] by auto
  have "drop 1 ?r = ?d @ dropWhile domain_char (drop 1 ?r)" by simp
  with le have t: "take n ?d = take n (drop 1 ?r)"
    by (metis append_take_drop_id diff_is_0_eq' take0 take_append append_Nil2)
  have "s = ?loc @ ?r" by simp
  also have "?r = CHR ''@'' # take n (drop 1 ?r) @ drop n (drop 1 ?r)"
    using e by (metis append_take_drop_id)
  also have "drop n (drop 1 ?r) = r" by (simp add: r)
  finally have "s = m @ r" by (simp only: m t append.assoc append_Cons append_Nil)
  moreover have "list_all local_char ?loc" "list_all domain_char (take n ?d)"
    by (auto simp: list_all_iff dest: set_takeWhileD in_set_takeD)
  moreover have "take n ?d \<noteq> []" using n3 le by (cases ?d) auto
  moreover have "m = ?loc @ CHR ''@'' # take n ?d" by (simp only: m append_Cons append_Nil)
  ultimately show ?thesis using l by blast
qed

lemma find_emails_match:
  "m \<in> set (find_emails s) \<Longrightarrow> contains m s
     \<and> (\<exists>loc d. m = loc @ CHR ''@'' # d \<and> loc \<noteq> [] \<and> list_all local_char loc
        \<and> d \<noteq> [] \<and> list_all domain_char d)"
proof (induction s rule: find_emails.induct)
  case (1 s)
  show ?case
  proof (cases "email_at s")
    case None
    show ?thesis
    proof (cases s)
      case Nil
      with 1 None show ?thesis by (simp add: find_emails.simps [of "[]"])
    next
      case (Cons c t)
      with 1(3) None have "m \<in> set (find_emails t)"
        by (simp add: find_emails.simps [of "c # t"])
      with "1.IH"(1) [OF None Cons] show ?thesis by (simp add: Cons)
    qed
  next
    case (Some mr)
    obtain m' r where mr: "mr = (m', r)" by fastforce
    from email_at_match Some mr have s: "s = m' @ r" by blast
    from 1(3) Some mr consider "m = m'" | "m \<in> set (find_emails r)"
      by (auto simp: find_emails.simps [of s])
    then show ?thesis
    proof cases
      case 1
      then show ?thesis using email_at_match [of s m' r] Some mr contains_append [of m "[]" r]
        by auto
    next
      case 2
      with "1.IH"(2) [OF Some mr [symmetric]] have c: "contains m r" and f: "\<exists>loc d. m = loc @ CHR ''@'' # d
          \<and> loc \<noteq> [] \<and> list_all local_char loc \<and> d \<noteq> [] \<and> list_all domain_char d"
        by auto
      from c obtain a b where "r = a @ m @ b" by (auto simp: contains_iff)
      then have "s = (m' @ a) @ m @ b" by (simp add: s)
      with f show ?thesis by (metis contains_append)
    qed
  qed
qed

end
