(* ===== verification/Enrichment.thy ===== *)
theory Enrichment
  imports Leads Web_Text
begin

text \<open>
  Enrichment of a lead (\<open>app/services/leads/enrichment_service.py\<close>): its website is fetched
  and analysed into signals, a contact address is looked for, and the old signals are
  replaced.  The web is a parameter: the answers to a fetch (retries included), what the HTML
  parser finds in a page, the link in an Instagram profile and the screenshot.
\<close>

section \<open>The web\<close>

datatype fetch_answer = FetchTimeout string | FetchConnectError string | FetchError string
  | Response int pyfloat string

text \<open>
  What \<open>BeautifulSoup\<close> finds: the tags asked for, with the text of the title and the content
  of the generator tag where they have one.
\<close>

record page =
  pg_viewport :: bool
  pg_title :: "string option option"
  pg_description :: bool
  pg_generator :: "string option option"

text \<open>
  \<open>web_bio\<close>: the website linked from an Instagram profile, if any, or an exception;
  \<open>web_screenshot\<close>: the path of the file and its size if it exists, or an exception.
\<close>

record web =
  web_fetch :: "string \<Rightarrow> fetch_answer"
  web_parse :: "string \<Rightarrow> page"
  web_bio :: "string \<Rightarrow> string + string option"
  web_screenshot :: "string \<Rightarrow> string + (string \<times> int option) option"

section \<open>Analysing a website\<close>

type_synonym signal_list = "(SignalType \<times> string) list"

text \<open>\<open>format(x, ".1f")\<close> of a number that is not negative.\<close>

definition format_1f :: "pyfloat \<Rightarrow> string" where
  "format_1f x = (let n = round_half_even (10 * x) in int_str (n div 10) @ ''.'' @ int_str (n mod 10))"

definition free_hosts :: "string list" where
  "free_hosts = [''wixsite.com'', ''wordpress.com'', ''blogspot.com'', ''weebly.com'', ''carrd.co'']"

definition subpaths :: "string list" where
  "subpaths = [''/contacto'', ''/contact'', ''/about'', ''/nosotros'', ''/quienes-somos'']"

text \<open>The first subpage that answers and has an address.\<close>

fun scan_subpages :: "web \<Rightarrow> string \<Rightarrow> string list \<Rightarrow> string list" where
  "scan_subpages e base [] = []"
| "scan_subpages e base (p # ps) = (case web_fetch e (base @ p) of
     Response status elapsed text \<Rightarrow>
       if status < 400 \<and> extract_emails text \<noteq> [] then extract_emails text
       else scan_subpages e base ps
   | _ \<Rightarrow> scan_subpages e base ps)"

text \<open>\<open>f"{parsed.scheme}://{parsed.hostname}"\<close> and the port unless it is usual.\<close>

definition base_url :: "parsed_url \<Rightarrow> int option \<Rightarrow> string" where
  "base_url p port = pu_scheme p @ ''://''
     @ (case hostname p of None \<Rightarrow> ''None'' | Some h \<Rightarrow> h)
     @ (case port of Some n \<Rightarrow> if n \<noteq> 0 \<and> n \<notin> {80, 443} then CHR '':'' # int_str n else []
        | None \<Rightarrow> [])"

definition host_signals :: "parsed_url \<Rightarrow> signal_list" where
  "host_signals p = (let h = text_or_empty (hostname p) in
     (if pu_scheme p \<noteq> ''https'' then [(NO_SSL, ''Site not served over HTTPS'')] else [])
     @ (if \<exists>fh \<in> set free_hosts. contains fh h then [(NO_CUSTOM_DOMAIN, ''Hosted on '' @ h)]
        else [(HAS_CUSTOM_DOMAIN, h)]))"

definition page_signals :: "page \<Rightarrow> signal_list" where
  "page_signals g =
     (if pg_viewport g then [] else [(NO_MOBILE_FRIENDLY, ''No viewport meta tag'')])
     @ (case pg_title g of
          Some t \<Rightarrow> if strip (text_or_empty t) = [] then [(WEAK_SEO, ''Missing or empty <title>'')] else []
        | None \<Rightarrow> [(WEAK_SEO, ''Missing or empty <title>'')])
     @ (if pg_description g then [] else [(WEAK_SEO, ''Missing meta description'')])"

definition generator_signals :: "page \<Rightarrow> signal_list" where
  "generator_signals g = (case pg_generator g of
     None \<Rightarrow> []
   | Some c \<Rightarrow> (let content = lower (text_or_empty c) in
       if contains ''wordpress'' content then [(OUTDATED_WEBSITE, ''Generator: '' @ content)] else []))"

text \<open>The part of \<open>_analyze_website\<close> that looks at a page that was served.\<close>

definition served_signals :: "int \<Rightarrow> pyfloat \<Rightarrow> parsed_url \<Rightarrow> page \<Rightarrow> signal_list" where
  "served_signals status elapsed p g =
     [(HAS_WEBSITE, ''HTTP '' @ int_str status)]
     @ (if 3 < elapsed then [(SLOW_LOAD, ''Load time: '' @ format_1f elapsed @ ''s'')] else [])
     @ host_signals p @ page_signals g"

definition find_contact :: "web \<Rightarrow> parsed_url \<Rightarrow> string \<Rightarrow> string + string list" where
  "find_contact e p html = (case extract_emails html of
     [] \<Rightarrow> (case url_port p of
         Inl err \<Rightarrow> Inl err
       | Inr port \<Rightarrow> Inr (scan_subpages e (base_url p port) subpaths))
   | home \<Rightarrow> Inr home)"

definition no_email_signals :: "string list \<Rightarrow> signal_list" where
  "no_email_signals emails =
     (if emails = [] then [(NO_VISIBLE_EMAIL, ''No email found on page'')] else [])"

definition analyze_page ::
    "web \<Rightarrow> parsed_url \<Rightarrow> int \<Rightarrow> pyfloat \<Rightarrow> string \<Rightarrow> string + signal_list \<times> string list" where
  "analyze_page e p status elapsed html =
     (let g = web_parse e html in
      case find_contact e p html of
        Inl err \<Rightarrow> Inl err
      | Inr emails \<Rightarrow> Inr (served_signals status elapsed p g @ no_email_signals emails
                         @ generator_signals g, emails))"

text \<open>\<open>_analyze_website\<close>; an exception of \<open>urlparse\<close> leaves it.\<close>

definition analyze_website :: "web \<Rightarrow> string \<Rightarrow> string + signal_list \<times> string list" where
  "analyze_website e url = (case web_fetch e url of
     FetchTimeout m \<Rightarrow> Inr ([(WEBSITE_ERROR, ''Timeout: '' @ m)], [])
   | FetchConnectError m \<Rightarrow> Inr ([(NO_WEBSITE, ''Could not connect: '' @ m)], [])
   | FetchError m \<Rightarrow> Inr ([(WEBSITE_ERROR, ''Error: '' @ m)], [])
   | Response status elapsed html \<Rightarrow>
       if 500 \<le> status
       then Inr ([(WEBSITE_ERROR, ''Server error: HTTP '' @ int_str status)], [])
       else (case urlparse url of
         Inl err \<Rightarrow> Inl err
       | Inr p \<Rightarrow> analyze_page e p status elapsed html))"

section \<open>Enriching a lead\<close>

definition new_signal :: "uuid \<Rightarrow> datetime \<Rightarrow> uuid \<Rightarrow> SignalType \<times> string \<Rightarrow> lead_signal" where
  "new_signal k t i g = \<lparr>sig_id = i, sig_lead_id = k, sig_signal_type = fst g,
     sig_detail = Some (snd g), sig_confidence = None, sig_source = None, sig_detected_at = t\<rparr>"

definition add_signal :: "uuid \<Rightarrow> SignalType \<times> string \<Rightarrow> store \<Rightarrow> store" where
  "add_signal k g s =
     tick_uuid (s\<lparr>signals := signals s @ [new_signal k (now s) (next_uuid s) g]\<rparr>)"

definition replace_signals :: "uuid \<Rightarrow> signal_list \<Rightarrow> store \<Rightarrow> store" where
  "replace_signals k gs s =
     fold (add_signal k) gs (s\<lparr>signals := filter (\<lambda>g. sig_lead_id g \<noteq> k) (signals s)\<rparr>)"

definition screenshot_artifact :: "lead \<Rightarrow> string \<Rightarrow> string \<times> int option \<Rightarrow> store \<Rightarrow> artifact" where
  "screenshot_artifact l url shot s = \<lparr>art_id = next_uuid s, art_lead_id = lead_id l,
     art_artifact_type = SCREENSHOT, art_file_path = fst shot, art_file_size = snd shot,
     art_metadata_json = Some (JObj [(''source'', JStr ''enrichment_auto''), (''url'', JStr url)]),
     art_created_at = now s\<rparr>"

text \<open>
  The screenshot of a website that was reached: it replaces the first one of the lead.  The
  old file is removed from the disk, which is not modelled.
\<close>

definition store_screenshot :: "web \<Rightarrow> lead \<Rightarrow> string \<Rightarrow> signal_list \<Rightarrow> store \<Rightarrow> store" where
  "store_screenshot e l url sigs s =
     (if \<exists>g \<in> set sigs. fst g = NO_WEBSITE then s
      else (case web_screenshot e url of
        Inr (Some shot) \<Rightarrow>
          let old = find (\<lambda>a. art_lead_id a = lead_id l \<and> art_artifact_type a = SCREENSHOT)
                (artifacts s);
              kept = (case old of None \<Rightarrow> artifacts s
                | Some a \<Rightarrow> tbl_delete art_id (art_id a) (artifacts s))
          in tick_uuid (s\<lparr>artifacts := kept @ [screenshot_artifact l url shot s]\<rparr>)
      | _ \<Rightarrow> s))"

text \<open>A social-media address in the website field is moved to its own field or dropped.\<close>

definition move_social :: "lead \<Rightarrow> string + lead" where
  "move_social l =
     (if \<not> truthy (lead_website_url l) then Inr l
      else (case is_social_media_url (text_or_empty (lead_website_url l)) of
        Inl err \<Rightarrow> Inl err
      | Inr False \<Rightarrow> Inr l
      | Inr True \<Rightarrow> Inr (l\<lparr>
          lead_instagram_url :=
            (if contains ''instagram.com'' (lower (text_or_empty (lead_website_url l)))
                \<and> \<not> truthy (lead_instagram_url l)
             then lead_website_url l else lead_instagram_url l),
          lead_website_url := None\<rparr>)))"

definition website_from_bio :: "web \<Rightarrow> lead \<Rightarrow> lead" where
  "website_from_bio e l =
     (if \<not> truthy (lead_website_url l) \<and> truthy (lead_instagram_url l)
      then (case web_bio e (text_or_empty (lead_instagram_url l)) of
          Inr (Some w) \<Rightarrow> if w = [] then l else l\<lparr>lead_website_url := Some w\<rparr>
        | _ \<Rightarrow> l)
      else l)"

definition instagram_only_signals :: "lead \<Rightarrow> signal_list" where
  "instagram_only_signals l =
     (if truthy (lead_instagram_url l) \<and> \<not> truthy (lead_website_url l)
      then [(INSTAGRAM_ONLY, text_or_empty (lead_instagram_url l))] else [])"

definition set_enriched :: "datetime \<Rightarrow> lead \<Rightarrow> string list \<Rightarrow> lead \<Rightarrow> lead" where
  "set_enriched t l2 emails l = l\<lparr>lead_website_url := lead_website_url l2,
     lead_instagram_url := lead_instagram_url l2,
     lead_email := (if \<not> truthy (lead_email l) \<and> emails \<noteq> [] then Some (hd emails)
                    else lead_email l),
     lead_status := ENRICHED, lead_enriched_at := Some t\<rparr>"

text \<open>
  \<open>enrich_lead\<close>: the lead read back, or the exception that leaves the function (the session is
  then abandoned).
\<close>

definition enrich_lead :: "web \<Rightarrow> uuid \<Rightarrow> store \<Rightarrow> string + lead option \<times> store" where
  "enrich_lead e k s = (case get_lead s k of
     None \<Rightarrow> Inr (None, s)
   | Some l \<Rightarrow> (case move_social l of
       Inl err \<Rightarrow> Inl err
     | Inr l1 \<Rightarrow>
         let l2 = website_from_bio e l1 in
         case (if truthy (lead_website_url l2)
               then analyze_website e (text_or_empty (lead_website_url l2))
               else Inr ([(NO_WEBSITE, ''No website URL provided'')], [])) of
           Inl err \<Rightarrow> Inl err
         | Inr (sigs, emails) \<Rightarrow>
             let s1 = (if truthy (lead_website_url l2)
                   then store_screenshot e l2 (text_or_empty (lead_website_url l2)) sigs s else s);
                 s2 = replace_signals k (sigs @ instagram_only_signals l2) s1;
                 s3 = upd_lead k (set_enriched (now s) l2 emails) s2
             in Inr (get_lead s3 k, s3)))"

text \<open>
  \<open>POST /enrichment/{lead_id}\<close> (\<open>app/api/v1/enrichment.py\<close>): the session of the request is closed
  without a commit.
\<close>

definition enrich_endpoint :: "web \<Rightarrow> uuid \<Rightarrow> store \<Rightarrow> (string + lead option) \<times> store" where
  "enrich_endpoint e k s = (case enrich_lead e k s of
     Inl err \<Rightarrow> (Inl err, s)
   | Inr (l, s') \<Rightarrow> (Inr l, rollback_to s s'))"

section \<open>Extracted addresses\<close>

lemma real_email_extracted: "e \<in> set (extract_emails html) \<Longrightarrow> real_email e"
  by (auto simp: extract_emails_def)

lemma extract_emails_sorted: "sorted (extract_emails html) \<and> distinct (extract_emails html)"
  by (simp add: extract_emails_def)

lemma lower_local_char: "local_char c \<Longrightarrow> local_char (lower_char c)"
  by (auto simp: local_char_def lower_char_def ascii_letter_def ascii_digit_def Let_def upper_code_def
      ord_of_def)

lemma lower_domain_char: "domain_char c \<Longrightarrow> domain_char (lower_char c)"
  by (auto simp: domain_char_def lower_char_def ascii_letter_def ascii_digit_def Let_def
      upper_code_def ord_of_def)

lemma at_not_local: "\<not> local_char (CHR ''@'')"
  by (simp add: local_char_def ascii_letter_def ascii_digit_def ord_of_def Let_def)

lemma lower_at [simp]: "lower_char (CHR ''@'') = CHR ''@''"
  by (simp add: lower_char_def upper_code_def ord_of_def)

text \<open>
  What is taken for a contact address really is one of the page: the result is sorted and
  free of repetitions, and each address is the lower-case form of a piece of the text, made of
  a local part and a domain in their alphabets, with a domain that is no tracker's, no
  placeholder prefix, no image extension and no long hexadecimal local part.
\<close>

theorem extracted_emails_real:
  "sorted (extract_emails html) \<and> distinct (extract_emails html)
   \<and> (\<forall>e \<in> set (extract_emails html). \<exists>m loc d. contains m html \<and> e = lower m
        \<and> e = loc @ CHR ''@'' # d \<and> loc \<noteq> [] \<and> list_all local_char loc
        \<and> d \<noteq> [] \<and> list_all domain_char d
        \<and> d \<notin> set junk_email_domains \<and> \<not> contains ''sentry'' d \<and> \<not> contains ''wixpress'' d
        \<and> (\<forall>p \<in> set junk_email_prefixes. \<not> starts_with p loc)
        \<and> (\<forall>x \<in> set image_extensions. \<not> ends_with x e))"
proof -
  have "\<exists>m loc d. contains m html \<and> e = lower m
        \<and> e = loc @ CHR ''@'' # d \<and> loc \<noteq> [] \<and> list_all local_char loc
        \<and> d \<noteq> [] \<and> list_all domain_char d
        \<and> d \<notin> set junk_email_domains \<and> \<not> contains ''sentry'' d \<and> \<not> contains ''wixpress'' d
        \<and> (\<forall>p \<in> set junk_email_prefixes. \<not> starts_with p loc)
        \<and> (\<forall>x \<in> set image_extensions. \<not> ends_with x e)" if e: "e \<in> set (extract_emails html)" for e
  proof -
    from e obtain m where m: "m \<in> set (find_emails html)" "e = lower m"
      by (auto simp: extract_emails_def)
    from find_emails_match [OF m(1)] obtain loc d where c: "contains m html"
      and p: "m = loc @ CHR ''@'' # d" "loc \<noteq> []" "list_all local_char loc" "d \<noteq> []"
        "list_all domain_char d"
      by blast
    let ?loc = "lower loc" and ?d = "lower d"
    have el: "e = ?loc @ CHR ''@'' # ?d" by (simp add: m(2) p(1) lower_def)
    have ll: "list_all local_char ?loc" "list_all domain_char ?d"
      using p(3,5) by (auto simp: lower_def list_all_iff lower_local_char lower_domain_char)
    have na: "\<forall>c \<in> set ?loc. c \<noteq> CHR ''@''" using ll(1) at_not_local by (auto simp: list_all_iff)
    have part: "partition_at (CHR ''@'') e = (?loc, ?d)"
      using na by (auto simp: partition_at_def el takeWhile_append dropWhile_append)
    have "real_email e" using e by (rule real_email_extracted)
    with part have "?d \<notin> set junk_email_domains" "\<not> contains ''sentry'' ?d"
      "\<not> contains ''wixpress'' ?d" "\<forall>p \<in> set junk_email_prefixes. \<not> starts_with p ?loc"
      "\<forall>x \<in> set image_extensions. \<not> ends_with x e"
      by (simp_all add: real_email_def)
    moreover have "?loc \<noteq> []" "?d \<noteq> []" using p(2,4) by simp_all
    ultimately show ?thesis using c m(2) el ll by blast
  qed
  then show ?thesis using extract_emails_sorted [of html] by simp
qed

theorem extracted_emails_real_witness:
  "extract_emails ''Escribinos a Info@Bar.com.ar o a no-reply@bar.com.ar''
     = [''info@bar.com.ar'']
   \<and> (\<exists>m. contains m ''Escribinos a Info@Bar.com.ar o a no-reply@bar.com.ar''
        \<and> ''info@bar.com.ar'' = lower m)"
proof -
  have "extract_emails ''Escribinos a Info@Bar.com.ar o a no-reply@bar.com.ar''
     = [''info@bar.com.ar'']"
    by code_simp
  with extracted_emails_real [of "''Escribinos a Info@Bar.com.ar o a no-reply@bar.com.ar''"]
  show ?thesis by auto
qed

section \<open>Signals after enrichment\<close>

text \<open>The signals of a lead as pairs of type and detail, and the ones about reachability.\<close>

definition signal_pairs :: "store \<Rightarrow> uuid \<Rightarrow> (SignalType \<times> string option) list" where
  "signal_pairs s k = map (\<lambda>g. (sig_signal_type g, sig_detail g)) (signals_of s k)"

definition reach_types :: "SignalType list" where
  "reach_types = [HAS_WEBSITE, NO_WEBSITE, WEBSITE_ERROR]"

lemma add_signal_frame [simp]:
  "now (add_signal k g s) = now s" "leads (add_signal k g s) = leads s"
  by (simp_all add: add_signal_def tick_uuid_def)

lemma fold_add_signal:
  "now (fold (add_signal k) gs s) = now s \<and> leads (fold (add_signal k) gs s) = leads s
   \<and> (\<exists>is. length is = length gs \<and>
       signals (fold (add_signal k) gs s) = signals s @ map2 (new_signal k (now s)) is gs)"
proof (induction gs arbitrary: s)
  case (Cons g gs)
  from Cons [of "add_signal k g s"] obtain js where js: "length js = length gs"
    "signals (fold (add_signal k) gs (add_signal k g s))
       = signals (add_signal k g s) @ map2 (new_signal k (now s)) js gs"
    by auto
  then have "signals (fold (add_signal k) (g # gs) s)
      = signals s @ map2 (new_signal k (now s)) (next_uuid s # js) (g # gs)"
    by (simp add: add_signal_def tick_uuid_def)
  with js(1) Cons [of "add_signal k g s"] show ?case
    by (metis (no_types, lifting) add_signal_frame fold_simps(2) length_Cons)
qed simp

lemma map2_new_signal:
  "length js = length gs \<Longrightarrow>
     filter (\<lambda>g. sig_lead_id g = k') (map2 (new_signal k t) js gs)
       = (if k' = k then map2 (new_signal k t) js gs else [])
   \<and> map (\<lambda>g. (sig_signal_type g, sig_detail g)) (map2 (new_signal k t) js gs)
       = map (\<lambda>g. (fst g, Some (snd g))) gs"
  by (induction js gs rule: list_induct2) (auto simp: new_signal_def)

lemma replace_signals_effect:
  "signal_pairs (replace_signals k gs s) k = map (\<lambda>g. (fst g, Some (snd g))) gs"
  "k' \<noteq> k \<Longrightarrow> signals_of (replace_signals k gs s) k' = signals_of s k'"
  "leads (replace_signals k gs s) = leads s"
proof -
  let ?s = "s\<lparr>signals := filter (\<lambda>g. sig_lead_id g \<noteq> k) (signals s)\<rparr>"
  obtain js where js: "length js = length gs" "signals (replace_signals k gs s)
      = filter (\<lambda>g. sig_lead_id g \<noteq> k) (signals s) @ map2 (new_signal k (now s)) js gs"
    using fold_add_signal [of k gs ?s] by (auto simp: replace_signals_def)
  from map2_new_signal [OF js(1)] js(2)
  show "signal_pairs (replace_signals k gs s) k = map (\<lambda>g. (fst g, Some (snd g))) gs"
    by (simp add: signal_pairs_def signals_of_def)
  show "signals_of (replace_signals k gs s) k' = signals_of s k'" if "k' \<noteq> k"
    using map2_new_signal [OF js(1)] js(2) that
    by (auto simp: signals_of_def intro: filter_cong)
  show "leads (replace_signals k gs s) = leads s"
    using fold_add_signal [of k gs ?s] by (simp add: replace_signals_def)
qed

lemma store_screenshot_frame [simp]:
  "leads (store_screenshot e l u g s) = leads s" "signals (store_screenshot e l u g s) = signals s"
  "now (store_screenshot e l u g s) = now s"
  by (simp_all add: store_screenshot_def tick_uuid_def Let_def split: sum.split option.split)

text \<open>No signal of a list is about reachability or about an Instagram account.\<close>

definition neutral :: "signal_list \<Rightarrow> bool" where
  "neutral gs \<longleftrightarrow> list_all (\<lambda>g. fst g \<notin> set (INSTAGRAM_ONLY # reach_types)) gs"

lemma neutral_parts:
  "neutral (host_signals p)" "neutral (page_signals g)" "neutral (generator_signals g)"
  "neutral (no_email_signals es)"
  by (auto simp: neutral_def host_signals_def page_signals_def generator_signals_def
      no_email_signals_def reach_types_def Let_def split: option.splits)

lemma neutral_append [simp]: "neutral (gs @ hs) \<longleftrightarrow> neutral gs \<and> neutral hs"
  by (simp add: neutral_def)

lemma neutral_reach: "neutral gs \<Longrightarrow> filter (\<lambda>g. fst g \<in> set reach_types) gs = []"
  by (auto simp: neutral_def filter_empty_conv list_all_iff)

lemma neutral_instagram: "neutral gs \<Longrightarrow> INSTAGRAM_ONLY \<notin> fst ` set gs"
  by (auto simp: neutral_def list_all_iff)

lemma served_signals_split:
  "\<exists>gs. served_signals status elapsed p g = (HAS_WEBSITE, ''HTTP '' @ int_str status) # gs \<and> neutral gs"
proof -
  have "neutral (if 3 < elapsed then [(SLOW_LOAD, ''Load time: '' @ format_1f elapsed @ ''s'')] else [])"
    by (simp add: neutral_def reach_types_def)
  with neutral_parts(1) [of p] neutral_parts(2) [of g] show ?thesis
    by (simp add: served_signals_def)
qed

lemma analysis_signals:
  assumes "analyze_website e url = Inr (gs, emails)"
  shows "\<exists>g hs. gs = g # hs \<and> fst g \<in> set reach_types \<and> neutral hs"
proof (cases "web_fetch e url")
  case (Response status elapsed html)
  show ?thesis
  proof (cases "500 \<le> status")
    case True
    with Response assms show ?thesis by (auto simp: analyze_website_def reach_types_def neutral_def)
  next
    case False
    with Response assms obtain p where "urlparse url = Inr p"
      and ap: "analyze_page e p status elapsed html = Inr (gs, emails)"
      by (auto simp: analyze_website_def split: sum.splits)
    from ap obtain es where gs: "gs = served_signals status elapsed p (web_parse e html)
        @ no_email_signals es @ generator_signals (web_parse e html)"
      by (auto simp: analyze_page_def Let_def split: sum.splits)
    obtain hs where "served_signals status elapsed p (web_parse e html)
        = (HAS_WEBSITE, ''HTTP '' @ int_str status) # hs" "neutral hs"
      using served_signals_split by blast
    with gs neutral_parts(3,4) show ?thesis by (auto simp: reach_types_def)
  qed
qed (use assms in \<open>auto simp: analyze_website_def reach_types_def neutral_def\<close>)

text \<open>
  What the signals of an enriched lead say together: exactly one about whether its website is
  reachable; that there is none whenever the lead has none; and that it lives on Instagram
  exactly when it has an account there and no website.
\<close>

definition signals_coherent :: "lead \<Rightarrow> SignalType list \<Rightarrow> bool" where
  "signals_coherent l ts \<longleftrightarrow>
     length (filter (\<lambda>t. t \<in> set reach_types) ts) = 1
   \<and> (\<not> truthy (lead_website_url l) \<longrightarrow> NO_WEBSITE \<in> set ts)
   \<and> (HAS_WEBSITE \<in> set ts \<longrightarrow> truthy (lead_website_url l))
   \<and> (INSTAGRAM_ONLY \<in> set ts
        \<longleftrightarrow> truthy (lead_instagram_url l) \<and> \<not> truthy (lead_website_url l))"

lemma set_enriched_key [simp]: "lead_id (set_enriched t l2 es l) = lead_id l"
  by (simp add: set_enriched_def)

lemma enrich_leadE:
  assumes "enrich_lead e k s = Inr (Some l', s')"
  obtains l l2 gs es v where "get_lead s k = Some l"
    and "(if truthy (lead_website_url l2)
          then analyze_website e (text_or_empty (lead_website_url l2)) = Inr (gs, es)
          else gs = [(NO_WEBSITE, ''No website URL provided'')] \<and> es = [])"
    and "leads v = leads s" "signals v = signals s" "now v = now s"
    and "s' = upd_lead k (set_enriched (now s) l2 es)
           (replace_signals k (gs @ instagram_only_signals l2) v)"
    and "get_lead s' k = Some l'"
proof -
  from assms obtain l where l: "get_lead s k = Some l" by (auto simp: enrich_lead_def split: option.splits)
  with assms obtain l1 where l1: "move_social l = Inr l1"
    by (auto simp: enrich_lead_def split: sum.splits)
  let ?l2 = "website_from_bio e l1"
  show ?thesis
  proof (cases "truthy (lead_website_url ?l2)")
    case True
    with l l1 assms obtain gs es where
      "analyze_website e (text_or_empty (lead_website_url ?l2)) = Inr (gs, es)"
      by (auto simp: enrich_lead_def Let_def split: sum.splits)
    with True l l1 assms that [of l ?l2 gs es
        "store_screenshot e ?l2 (text_or_empty (lead_website_url ?l2)) gs s"]
    show ?thesis by (auto simp: enrich_lead_def Let_def)
  next
    case False
    with l l1 assms that [of l ?l2 "[(NO_WEBSITE, ''No website URL provided'')]" "[]" s]
    show ?thesis by (auto simp: enrich_lead_def Let_def)
  qed
qed

lemma coherent_enriched:
  assumes "if truthy (lead_website_url l2)
          then analyze_website e (text_or_empty (lead_website_url l2)) = Inr (gs, es)
          else gs = [(NO_WEBSITE, ''No website URL provided'')] \<and> es = []"
    and "lead_website_url l' = lead_website_url l2" "lead_instagram_url l' = lead_instagram_url l2"
  shows "signals_coherent l' (map fst (gs @ instagram_only_signals l2))"
proof (cases "truthy (lead_website_url l2)")
  case True
  with assms(1) obtain g hs where g: "gs = g # hs" "fst g \<in> set reach_types" "neutral hs"
    using analysis_signals by (metis (no_types))
  have "filter (\<lambda>t. t \<in> set reach_types) (map fst hs) = []"
    using neutral_reach [OF g(3)] by (simp add: filter_map o_def)
  moreover have "INSTAGRAM_ONLY \<notin> set (map fst hs)" using neutral_instagram [OF g(3)] by simp
  ultimately show ?thesis
    using True g(1,2) assms(2,3)
    by (auto simp: signals_coherent_def instagram_only_signals_def reach_types_def)
next
  case False
  with assms show ?thesis
    by (auto simp: signals_coherent_def instagram_only_signals_def reach_types_def)
qed

text \<open>A page that some fetch has brought.\<close>

definition fetched :: "web \<Rightarrow> string \<Rightarrow> bool" where
  "fetched e html \<longleftrightarrow> (\<exists>url status elapsed. web_fetch e url = Response status elapsed html)"

lemma fetchedI: "web_fetch e url = Response status elapsed html \<Longrightarrow> fetched e html"
  by (auto simp: fetched_def)

lemma scan_subpages_fetched:
  "scan_subpages e base ps = [] \<or> (\<exists>html. fetched e html \<and> scan_subpages e base ps = extract_emails html)"
  by (induction ps) (auto split: fetch_answer.split intro: fetchedI)

lemma find_contact_fetched:
  assumes "find_contact e p html = Inr es" and "fetched e html"
  shows "es = [] \<or> (\<exists>html. fetched e html \<and> es = extract_emails html)"
  using assms scan_subpages_fetched [of e _ subpaths]
  by (auto simp: find_contact_def split: list.splits sum.splits)

lemma analysis_emails:
  assumes "analyze_website e url = Inr (gs, es)"
  shows "es = [] \<or> (\<exists>html. fetched e html \<and> es = extract_emails html)"
proof (cases "web_fetch e url")
  case (Response status elapsed html)
  with assms consider "es = []" | p where "find_contact e p html = Inr es"
    by (auto simp: analyze_website_def analyze_page_def Let_def split: sum.splits if_splits)
  with fetchedI [OF Response] show ?thesis by cases (auto dest: find_contact_fetched)
qed (use assms in \<open>auto simp: analyze_website_def\<close>)

text \<open>
  C14: An enrichment that returns the lead has replaced its signals by a coherent set, left the
  signals of every other lead and every other lead as they were, kept an address the lead
  already had, and taken a new one only from what it extracted; the lead is marked enriched now,
  whatever its status was.
\<close>

theorem enrichment_coherent:
  assumes "enrich_lead e k s = Inr (Some l', s')"
  shows "\<exists>l. get_lead s k = Some l \<and> get_lead s' k = Some l'
    \<and> signals_coherent l' (map fst (signal_pairs s' k))
    \<and> (k' = k \<or> get_lead s' k' = get_lead s k' \<and> signals_of s' k' = signals_of s k')
    \<and> (lead_email l' = lead_email l
        \<or> \<not> truthy (lead_email l) \<and> (\<exists>html m. fetched e html \<and> m \<in> set (extract_emails html)
             \<and> lead_email l' = Some m))
    \<and> lead_status l' = ENRICHED \<and> lead_enriched_at l' = Some (now s)"
proof -
  obtain l l2 gs es v where l: "get_lead s k = Some l"
    and an: "if truthy (lead_website_url l2)
          then analyze_website e (text_or_empty (lead_website_url l2)) = Inr (gs, es)
          else gs = [(NO_WEBSITE, ''No website URL provided'')] \<and> es = []"
    and v: "leads v = leads s" "signals v = signals s" "now v = now s"
    and s': "s' = upd_lead k (set_enriched (now s) l2 es)
           (replace_signals k (gs @ instagram_only_signals l2) v)" (is "_ = upd_lead k ?f ?r")
    and l': "get_lead s' k = Some l'"
    using enrich_leadE [OF assms] by blast
  have gr: "get_lead ?r = get_lead s"
    by (simp add: get_lead_def fun_eq_iff replace_signals_effect(3) v(1))
  have row: "l' = stamp_lead ?r ?f l"
    using l' l by (simp add: s' lead_tbl.get_upd_same gr set_enriched_def)
  have coh: "signals_coherent l' (map fst (gs @ instagram_only_signals l2))"
    using an by (rule coherent_enriched) (simp_all add: row set_enriched_def)
  have "signal_pairs s' k = map (\<lambda>g. (fst g, Some (snd g))) (gs @ instagram_only_signals l2)"
    using replace_signals_effect(1) by (simp add: s' signal_pairs_def signals_of_def upd_lead_def)
  then have "map fst (signal_pairs s' k) = map fst (gs @ instagram_only_signals l2)"
    by simp
  moreover have "k' = k \<or> get_lead s' k' = get_lead s k' \<and> signals_of s' k' = signals_of s k'"
  proof (cases "k' = k")
    case False
    have "signals_of s' k' = signals_of ?r k'" by (simp add: s' signals_of_def upd_lead_def)
    also have "\<dots> = signals_of v k'" by (rule replace_signals_effect(2) [OF False])
    also have "\<dots> = signals_of s k'" by (simp add: signals_of_def v(2))
    finally show ?thesis
      using False by (simp add: s' lead_tbl.get_upd_other set_enriched_def gr)
  qed simp
  moreover have "es = [] \<or> (\<exists>html. fetched e html \<and> es = extract_emails html)"
    using an analysis_emails by (metis (full_types))
  then have "lead_email l' = lead_email l \<or> \<not> truthy (lead_email l)
      \<and> (\<exists>html m. fetched e html \<and> m \<in> set (extract_emails html) \<and> lead_email l' = Some m)"
    by (auto simp: row set_enriched_def)
  moreover have "lead_status l' = ENRICHED \<and> lead_enriched_at l' = Some (now s)"
    by (simp add: row set_enriched_def)
  ultimately show ?thesis using l l' coh by auto
qed

text \<open>A web with one small site, served over HTTPS without a viewport or a description.\<close>

definition demo_web :: web where
  "demo_web = \<lparr>web_fetch = (\<lambda>url. if url = ''https://bar.com.ar'' then Response 200 1 ''Hola info@bar.com.ar''
       else FetchConnectError ''no route''),
     web_parse = (\<lambda>html. \<lparr>pg_viewport = False, pg_title = Some (Some ''Bar''), pg_description = False,
       pg_generator = None\<rparr>),
     web_bio = (\<lambda>url. Inr None), web_screenshot = (\<lambda>url. Inr None)\<rparr>"

definition demo_site_store :: "string \<Rightarrow> store" where
  "demo_site_store url =
     add_lead ((blank_lead 1 ''Bar'' 0)\<lparr>lead_website_url := Some url\<rparr>) (empty_store 7)"

theorem enrichment_coherent_witness:
  "\<exists>l' s'. enrich_lead demo_web 1 (demo_site_store ''https://bar.com.ar'') = Inr (Some l', s')
     \<and> lead_email l' = Some ''info@bar.com.ar'' \<and> lead_status l' = ENRICHED
     \<and> signals_coherent l' (map fst (signal_pairs s' 1))"
proof -
  let ?r = "enrich_lead demo_web 1 (demo_site_store ''https://bar.com.ar'')"
  have "map_sum (\<lambda>e. ()) (\<lambda>(l, s). map_option lead_email l) ?r
      = Inr (Some (Some ''info@bar.com.ar''))"
    by code_simp
  then obtain l' s' where r: "?r = Inr (Some l', s')" and e: "lead_email l' = Some ''info@bar.com.ar''"
    by (cases ?r) auto
  from enrichment_coherent [OF r, of 1] e r show ?thesis by auto
qed

section \<open>Websites taken for social media\<close>

text \<open>
  A website whose host merely contains the text of a social-media domain, as every host
  that ends in \<open>x.com\<close> does, is dropped: without an Instagram account the lead ends with no
  website, without a single request to it, and with the signal that it has none.
\<close>

theorem website_mistaken_for_social:
  assumes "get_lead s k = Some l" "lead_website_url l = Some url" "urlparse url = Inr p"
    and "hostname p = Some (a @ ''x.com'' @ b)" "\<not> contains ''instagram.com'' (lower url)"
    and "lead_instagram_url l = None"
  shows "\<exists>l' s'. enrich_lead e k s = Inr (Some l', s') \<and> lead_website_url l' = None
    \<and> signal_pairs s' k = [(NO_WEBSITE, Some ''No website URL provided'')]"
proof -
  have "is_social_media_url url = Inr True"
    using assms(3,4) contains_append [of "''x.com''" a b]
    by (auto simp: is_social_media_url_def social_media_domains_def)
  moreover have "url \<noteq> []"
    using assms(3,4) by (auto simp: urlparse_def clean_url_def split_scheme_def hostname_def
        hostinfo_def after_last_def partition_at_def Let_def)
  ultimately have m: "move_social l = Inr (l\<lparr>lead_website_url := None\<rparr>)"
    using assms(2,5,6) by (simp add: move_social_def)
  let ?l2 = "l\<lparr>lead_website_url := None\<rparr>"
  let ?r = "replace_signals k [(NO_WEBSITE, ''No website URL provided'')] s"
  let ?s = "upd_lead k (set_enriched (now s) ?l2 []) ?r"
  have b: "website_from_bio e ?l2 = ?l2" "instagram_only_signals ?l2 = []"
    using assms(6) by (simp_all add: website_from_bio_def instagram_only_signals_def)
  have en: "enrich_lead e k s = Inr (get_lead ?s k, ?s)"
    using assms(1) m by (simp add: enrich_lead_def b Let_def)
  have "get_lead ?r k = Some l" using assms(1)
    by (simp add: get_lead_def replace_signals_effect(3))
  then have "\<exists>l'. get_lead ?s k = Some l' \<and> lead_website_url l' = None"
    by (simp add: lead_tbl.get_upd_same set_enriched_def)
  moreover have "signal_pairs ?s k = [(NO_WEBSITE, Some ''No website URL provided'')]"
    using replace_signals_effect(1) [of k "[(NO_WEBSITE, ''No website URL provided'')]" s]
    by (simp add: signal_pairs_def signals_of_def upd_lead_def)
  ultimately show ?thesis using en by auto
qed

theorem website_mistaken_for_social_witness:
  "\<exists>l' s'. enrich_lead demo_web 1 (demo_site_store ''https://www.fenix.com/'') = Inr (Some l', s')
     \<and> lead_website_url l' = None"
proof -
  have g: "get_lead (demo_site_store ''https://www.fenix.com/'') 1
      = Some ((blank_lead 1 ''Bar'' 0)\<lparr>lead_website_url := Some ''https://www.fenix.com/''\<rparr>)"
    by (simp add: demo_site_store_def get_lead_def add_lead_def empty_store_def blank_lead_def)
  have u: "urlparse ''https://www.fenix.com/''
      = Inr \<lparr>pu_scheme = ''https'', pu_netloc = ''www.fenix.com''\<rparr>"
    by code_simp
  have h: "hostname \<lparr>pu_scheme = ''https'', pu_netloc = ''www.fenix.com''\<rparr>
      = Some (''www.feni'' @ ''x.com'' @ [])"
    by code_simp
  have i: "\<not> contains ''instagram.com'' (lower ''https://www.fenix.com/'')" by code_simp
  show ?thesis
    using website_mistaken_for_social [OF g _ u h i, of demo_web] by (auto simp: blank_lead_def)
qed

end
