(* ===== verification/Pipeline_Context.thy ===== *)
theory Pipeline_Context
  imports Task_Tracking Calendar
begin

text \<open>
  What the steps of a pipeline run tell each other
  (\<open>app/services/pipeline/context_service.py\<close>): each step writes its findings under its own
  key of \<open>PipelineRun.step_context_json\<close>, within size limits, and the draft step reads them as a
  text.  Also the daily budget (\<open>cost_gate.py\<close>).
\<close>

section \<open>JSON as text\<close>

text \<open>
  \<open>json.dumps\<close> with its defaults: everything but printable ASCII is escaped.  How a float is
  written is a parameter \<open>fr\<close>.
\<close>

definition hex4 :: "nat \<Rightarrow> string" where
  "hex4 n = map (\<lambda>k. hex_digit (n div 16 ^ k mod 16)) [3, 2, 1, 0]"

definition escape_char :: "char \<Rightarrow> string" where
  "escape_char c = (let n = ord_of c in
     if n = 34 then [CHR 92, CHR 34]
     else if n = 92 then [CHR 92, CHR 92]
     else if n = 10 then [CHR 92, CHR ''n'']
     else if n = 13 then [CHR 92, CHR ''r'']
     else if n = 9 then [CHR 92, CHR ''t'']
     else if n = 8 then [CHR 92, CHR ''b'']
     else if n = 12 then [CHR 92, CHR ''f'']
     else if 32 \<le> n \<and> n \<le> 126 then [c]
     else [CHR 92, CHR ''u''] @ hex4 n)"

definition json_string :: "string \<Rightarrow> string" where
  "json_string s = [CHR 34] @ concat (map escape_char s) @ [CHR 34]"

fun json_dumps :: "(pyfloat \<Rightarrow> string) \<Rightarrow> json \<Rightarrow> string"
  and json_items :: "(pyfloat \<Rightarrow> string) \<Rightarrow> json list \<Rightarrow> string list"
  and json_members :: "(pyfloat \<Rightarrow> string) \<Rightarrow> (string \<times> json) list \<Rightarrow> string list" where
  "json_dumps fr JNull = ''null''"
| "json_dumps fr (JBool b) = (if b then ''true'' else ''false'')"
| "json_dumps fr (JInt n) = int_str n"
| "json_dumps fr (JFloat x) = fr x"
| "json_dumps fr (JStr s) = json_string s"
| "json_dumps fr (JList js) = ''['' @ join '', '' (json_items fr js) @ '']''"
| "json_dumps fr (JObj kvs) = ''{'' @ join '', '' (json_members fr kvs) @ ''}''"
| "json_items fr [] = []"
| "json_items fr (j # js) = json_dumps fr j # json_items fr js"
| "json_members fr [] = []"
| "json_members fr ((k, j) # kvs) = (json_string k @ '': '' @ json_dumps fr j) # json_members fr kvs"

section \<open>Collecting\<close>

definition max_step_bytes :: nat where "max_step_bytes = 2048"
definition max_total_bytes :: nat where "max_total_bytes = 16384"

text \<open>\<open>dict(run.step_context_json or {})\<close>.\<close>

definition context_members :: "json option \<Rightarrow> (string \<times> json) list" where
  "context_members j = (case j of Some (JObj kvs) \<Rightarrow> kvs | _ \<Rightarrow> [])"

definition limited_context :: "(pyfloat \<Rightarrow> string) \<Rightarrow> json \<Rightarrow> json" where
  "limited_context fr ctx =
     (if max_step_bytes < length (json_dumps fr ctx)
      then JObj [(''truncated'', JBool True), (''summary'', JStr (take 500 (json_dumps fr ctx)))]
      else ctx)"

text \<open>\<open>append_step_context\<close>; an unknown run and a total above the limit only log.\<close>

definition append_step_context ::
    "(pyfloat \<Rightarrow> string) \<Rightarrow> uuid \<Rightarrow> string \<Rightarrow> json \<Rightarrow> store \<Rightarrow> store" where
  "append_step_context fr rid step ctx s = (case get_run s rid of
     None \<Rightarrow> s
   | Some r \<Rightarrow>
       let existing = assoc_set step (limited_context fr ctx)
             (context_members (run_step_context_json r))
       in if max_total_bytes < length (json_dumps fr (JObj existing)) then s
          else upd_run rid (\<lambda>r. r\<lparr>run_step_context_json := Some (JObj existing)\<rparr>) s)"

definition get_step_context :: "uuid \<Rightarrow> store \<Rightarrow> json" where
  "get_step_context rid s = JObj (case get_run s rid of
     None \<Rightarrow> [] | Some r \<Rightarrow> context_members (run_step_context_json r))"

section \<open>The text for the prompt\<close>

text \<open>
  Truth and \<open>str()\<close> of a value; how floats and containers are written is a parameter.
\<close>

definition json_truthy :: "json \<Rightarrow> bool" where
  "json_truthy j = (case j of JNull \<Rightarrow> False | JBool b \<Rightarrow> b | JInt n \<Rightarrow> n \<noteq> 0 | JFloat x \<Rightarrow> x \<noteq> 0
     | JStr t \<Rightarrow> t \<noteq> [] | JList js \<Rightarrow> js \<noteq> [] | JObj kvs \<Rightarrow> kvs \<noteq> [])"

definition py_str :: "(json \<Rightarrow> string) \<Rightarrow> json \<Rightarrow> string" where
  "py_str other j = (case j of JNull \<Rightarrow> ''None'' | JBool b \<Rightarrow> if b then ''True'' else ''False''
     | JInt n \<Rightarrow> int_str n | JStr t \<Rightarrow> t | _ \<Rightarrow> other j)"

text \<open>\<open>d.get(key, default)\<close>, and its truth without a default.\<close>

definition get_or :: "string \<Rightarrow> json \<Rightarrow> json \<Rightarrow> json" where
  "get_or key d j = (case json_get key j of Some v \<Rightarrow> v | None \<Rightarrow> d)"

definition has :: "string \<Rightarrow> json \<Rightarrow> bool" where
  "has key j = json_truthy (get_or key JNull j)"

definition qm :: json where "qm = JStr ''?''"

definition strings_of :: "json \<Rightarrow> string list" where
  "strings_of j = (case j of JList js \<Rightarrow> map (\<lambda>v. case v of JStr t \<Rightarrow> t | _ \<Rightarrow> []) js | _ \<Rightarrow> [])"

definition enrichment_part :: "json \<Rightarrow> string list" where
  "enrichment_part e = [''Enrichment: signals=['' @ join '', '' (strings_of (get_or ''signals'' (JList []) e))
     @ ''], email='' @ (if has ''email_found'' e then ''yes'' else ''no'')]"

definition analysis_part :: "(json \<Rightarrow> string) \<Rightarrow> json \<Rightarrow> string list" where
  "analysis_part o' a =
     [''Quality: '' @ py_str o' (get_or ''quality'' qm a) @ '' - ''
        @ py_str o' (get_or ''reasoning'' (JStr []) a)]
     @ (if has ''suggested_angle'' a
        then [''Angle: '' @ py_str o' (get_or ''suggested_angle'' JNull a)] else [])"

text \<open>\<open>len()\<close>; a number has none.\<close>

definition py_len :: "json \<Rightarrow> string + nat" where
  "py_len j = (let none = (\<lambda>t. Inl (''object of type '' @ [CHR 0x27] @ t @ [CHR 0x27] @ '' has no len()'')) in
     case j of JNull \<Rightarrow> none ''NoneType'' | JBool b \<Rightarrow> none ''bool'' | JInt n \<Rightarrow> none ''int''
     | JFloat x \<Rightarrow> none ''float'' | JStr t \<Rightarrow> Inr (length t) | JList js \<Rightarrow> Inr (length js)
     | JObj kvs \<Rightarrow> Inr (length kvs))"

definition scout_part :: "(json \<Rightarrow> string) \<Rightarrow> json \<Rightarrow> string list" where
  "scout_part o' sc =
     (case get_or ''findings'' (JObj []) sc of
        JObj kvs \<Rightarrow> [''Scout findings: '' @ py_str o' (get_or ''opportunity''
            (get_or ''summary'' (JStr []) (JObj kvs)) (JObj kvs))]
      | JStr t \<Rightarrow> [''Scout findings: '' @ t]
      | _ \<Rightarrow> [])"

definition pages_part :: "json \<Rightarrow> string + string list" where
  "pages_part sc = (let pages = get_or ''pages_visited'' (JList []) sc in
     if json_truthy pages
     then (case py_len pages of Inl e \<Rightarrow> Inl e
       | Inr n \<Rightarrow> Inr [''Scout visited: '' @ nat_str n @ '' pages''])
     else Inr [])"

definition research_part :: "(json \<Rightarrow> string) \<Rightarrow> json \<Rightarrow> string list" where
  "research_part o' r =
     (if has ''business_description'' r
      then [''Research: '' @ py_str o' (get_or ''business_description'' JNull r)] else [])
     @ (if has ''whatsapp_detected'' r then [''WhatsApp detected: yes''] else [])"

definition brief_part :: "(json \<Rightarrow> string) \<Rightarrow> json \<Rightarrow> string list" where
  "brief_part o' b =
     [''Brief: opportunity='' @ py_str o' (get_or ''opportunity_score'' qm b)
        @ '', budget='' @ py_str o' (get_or ''budget_tier'' qm b)
        @ '', channel='' @ py_str o' (get_or ''recommended_contact_method'' qm b)]
     @ (if has ''recommended_angle'' b
        then [''Brief angle: '' @ py_str o' (get_or ''recommended_angle'' JNull b)] else [])"

definition brief_review_part :: "(json \<Rightarrow> string) \<Rightarrow> json \<Rightarrow> string list" where
  "brief_review_part o' br =
     [''Brief review: '' @ (if has ''approved'' br then ''approved'' else ''needs revision'')]
     @ (if has ''verdict_reasoning'' br
        then [''Review note: '' @ py_str o' (get_or ''verdict_reasoning'' JNull br)] else [])"

text \<open>
  \<open>format_context_for_prompt\<close> on a context whose entries are objects, as every step writes
  them: the text, or the exception of a number of pages where a list of pages is expected.
\<close>

definition context_part :: "json \<Rightarrow> string \<Rightarrow> (json \<Rightarrow> string list) \<Rightarrow> string list" where
  "context_part ctx key f = (case json_get key ctx of None \<Rightarrow> [] | Some j \<Rightarrow> f j)"

definition context_parts :: "(json \<Rightarrow> string) \<Rightarrow> json \<Rightarrow> string + string list" where
  "context_parts o' ctx =
     (case (case json_get ''scout'' ctx of None \<Rightarrow> Inr [] | Some j \<Rightarrow> pages_part j) of
        Inl e \<Rightarrow> Inl e
      | Inr pages \<Rightarrow> Inr (context_part ctx ''enrichment'' enrichment_part
          @ context_part ctx ''scoring'' (\<lambda>j. [''Score: '' @ py_str o' (get_or ''score'' qm j) @ ''/100''])
          @ context_part ctx ''analysis'' (analysis_part o')
          @ context_part ctx ''scout'' (scout_part o') @ pages
          @ context_part ctx ''research'' (research_part o')
          @ context_part ctx ''brief'' (brief_part o')
          @ context_part ctx ''brief_review'' (brief_review_part o')))"

definition format_context_for_prompt :: "(json \<Rightarrow> string) \<Rightarrow> json \<Rightarrow> nat \<Rightarrow> string + string" where
  "format_context_for_prompt o' ctx max_chars =
     (if ctx = JObj [] then Inr []
      else case context_parts o' ctx of
        Inl e \<Rightarrow> Inl e
      | Inr parts \<Rightarrow> let t = join [CHR 10] parts
          in Inr (if max_chars < length t then take max_chars t @ ''...'' else t))"

section \<open>The daily budget\<close>

definition get_today_cost_usd :: "store \<Rightarrow> pyfloat" where
  "get_today_cost_usd s = (let today = now s - time_of_day (now s) in
     sum_list (map (\<lambda>i. case inv_usd_cost_estimated i of Some c \<Rightarrow> c | None \<Rightarrow> 0)
       (filter (\<lambda>i. today \<le> inv_created_at i) (invocations s))))"

definition check_daily_budget :: "store \<Rightarrow> bool" where
  "check_daily_budget s = (case ops s of
     None \<Rightarrow> True
   | Some row \<Rightarrow> (case ops_daily_usd_budget row of
       None \<Rightarrow> True | Some budget \<Rightarrow> \<not> budget \<le> get_today_cost_usd s))"

section \<open>The context stays within its limits\<close>

text \<open>How floats are written in a JSON text: in printable ASCII.\<close>

definition printable :: "string \<Rightarrow> bool" where
  "printable t \<longleftrightarrow> list_all (\<lambda>c. 32 \<le> ord_of c \<and> ord_of c \<le> 126) t"

lemma printable_append [simp]: "printable (a @ b) \<longleftrightarrow> printable a \<and> printable b"
  by (simp add: printable_def)

lemma printable_take: "printable t \<Longrightarrow> printable (take n t)"
  by (auto simp: printable_def list_all_iff dest: in_set_takeD)

lemma ord_of_hex: "n < 16 \<Longrightarrow> 48 \<le> ord_of (hex_digit n) \<and> ord_of (hex_digit n) \<le> 102"
  by (auto simp: hex_digit_def ord_of_def)

lemma printable_hex4: "printable (hex4 n)"
proof -
  have "32 \<le> ord_of (hex_digit (m mod 16)) \<and> ord_of (hex_digit (m mod 16)) \<le> 126" for m
    using ord_of_hex [of "m mod 16"] by simp
  then show ?thesis by (simp add: hex4_def printable_def)
qed

lemma printable_escape: "printable (escape_char c)"
  using printable_hex4 [of "ord_of c"]
  by (auto simp: escape_char_def Let_def) (auto simp: printable_def ord_of_def)

lemma printable_json_string: "printable (json_string s)"
proof -
  have "printable (concat (map escape_char s))"
    by (induction s) (simp_all add: printable_escape, simp add: printable_def)
  then show ?thesis by (simp add: json_string_def) (simp add: printable_def ord_of_def)
qed

lemma printable_digit_rev: "printable (digit_rev n)"
proof (induction n rule: digit_rev.induct)
  case (1 n)
  have "printable [char_of (48 + n mod 10 :: nat)]" "n < 10 \<Longrightarrow> printable [char_of (48 + n)]"
    by (auto simp: printable_def ord_of_def)
  with 1 show ?case by (auto simp: digit_rev.simps [of n] printable_def)
qed

lemma printable_int_str: "printable (int_str n)"
  using printable_digit_rev by (simp add: int_str_def nat_str_def printable_def ord_of_def)

lemma printable_join: "printable sep \<Longrightarrow> list_all printable ts \<Longrightarrow> printable (join sep ts)"
  by (induction sep ts rule: join.induct) (auto simp: printable_def)

lemma printable_const:
  "printable ''null''" "printable ''true''" "printable ''false''" "printable ''[''" "printable '']''"
  "printable ''{''" "printable ''}''" "printable '', ''" "printable '': ''"
  by (simp_all add: printable_def ord_of_def)

lemma printable_dumps:
  assumes "\<And>x. printable (fr x)"
  shows "printable (json_dumps fr j)" "list_all printable (json_items fr js)"
    "list_all printable (json_members fr kvs)"
proof (induction fr\<equiv>fr j and fr\<equiv>fr js and fr\<equiv>fr kvs
    rule: json_dumps_json_items_json_members.induct)
qed (simp_all add: assms printable_json_string printable_int_str printable_join printable_const
       del: append.simps)

lemma escape_printable_length: "printable t \<Longrightarrow> length (concat (map escape_char t)) \<le> 2 * length t"
  by (induction t) (auto simp: printable_def escape_char_def Let_def)

text \<open>A truncated entry fits: 500 printable characters escape to at most a thousand.\<close>

lemma limited_context_bound:
  assumes "\<And>x. printable (fr x)"
  shows "length (json_dumps fr (limited_context fr ctx)) \<le> max_step_bytes"
proof -
  let ?t = "take 500 (json_dumps fr ctx)"
  have "printable ?t" using printable_dumps(1) [OF assms] by (rule printable_take)
  from escape_printable_length [OF this] have "length (concat (map escape_char ?t)) \<le> 1000" by simp
  moreover have "length (concat (map escape_char ''truncated'')) = 9"
    "length (concat (map escape_char ''summary'')) = 7"
    by code_simp+
  ultimately show ?thesis
    by (simp add: limited_context_def max_step_bytes_def json_string_def)
qed

text \<open>Every entry of a context, and the whole, are within the limits; the keys are distinct.\<close>

definition context_ok :: "(pyfloat \<Rightarrow> string) \<Rightarrow> pipeline_run \<Rightarrow> bool" where
  "context_ok fr r \<longleftrightarrow>
     (let kvs = context_members (run_step_context_json r) in
      distinct (map fst kvs) \<and> list_all (\<lambda>kv. length (json_dumps fr (snd kv)) \<le> max_step_bytes) kvs
      \<and> length (json_dumps fr (JObj kvs)) \<le> max_total_bytes)"

lemma assoc_set_keys: "set (map fst (assoc_set k v kvs)) = insert k (set (map fst kvs))"
proof (induction kvs)
  case (Cons e kvs)
  then show ?case by (cases e) (simp add: insert_commute)
qed simp

lemma distinct_assoc_set: "distinct (map fst kvs) \<Longrightarrow> distinct (map fst (assoc_set k v kvs))"
proof (induction kvs)
  case (Cons e kvs)
  then show ?case using assoc_set_keys [of k v kvs] by (cases e) (auto simp del: set_map)
qed simp

lemma list_all_assoc_set:
  "list_all P kvs \<Longrightarrow> P (k, v) \<Longrightarrow> list_all P (assoc_set k v kvs)"
  by (induction kvs) auto

lemma append_context_cases:
  assumes "get_run s rid = Some r"
  shows "append_step_context fr rid step ctx s = s
    \<or> (\<exists>r'. get_run (append_step_context fr rid step ctx s) rid = Some r'
         \<and> context_members (run_step_context_json r')
             = assoc_set step (limited_context fr ctx) (context_members (run_step_context_json r))
         \<and> length (json_dumps fr (JObj (context_members (run_step_context_json r'))))
             \<le> max_total_bytes)"
  using assms
  by (auto simp: append_step_context_def Let_def run_tbl.get_upd_same)
    (auto simp: context_members_def)

text \<open>The calls of \<open>append_step_context\<close> of the steps of one run, in order.\<close>

definition append_all :: "(pyfloat \<Rightarrow> string) \<Rightarrow> uuid \<Rightarrow> (string \<times> json) list \<Rightarrow> store \<Rightarrow> store" where
  "append_all fr rid calls s = fold (\<lambda>(step, ctx). append_step_context fr rid step ctx) calls s"

lemma append_context_ok:
  assumes "\<And>x. printable (fr x)" and "get_run s rid = Some r" "context_ok fr r"
  shows "\<exists>r'. get_run (append_step_context fr rid step ctx s) rid = Some r' \<and> context_ok fr r'
    \<and> (\<forall>other. other \<noteq> step \<longrightarrow> json_get other (get_step_context rid (append_step_context fr rid step ctx s))
         = json_get other (get_step_context rid s))"
  using append_context_cases [OF assms(2), of fr step ctx]
proof (elim disjE exE conjE)
  assume "append_step_context fr rid step ctx s = s"
  with assms(2,3) show ?thesis by simp
next
  fix r'
  let ?new = "assoc_set step (limited_context fr ctx) (context_members (run_step_context_json r))"
  assume r': "get_run (append_step_context fr rid step ctx s) rid = Some r'"
    and m: "context_members (run_step_context_json r') = ?new"
    and t: "length (json_dumps fr (JObj (context_members (run_step_context_json r'))))
      \<le> max_total_bytes"
  have "distinct (map fst ?new)"
    using assms(3) by (simp add: context_ok_def Let_def distinct_assoc_set)
  moreover have "list_all (\<lambda>kv. length (json_dumps fr (snd kv)) \<le> max_step_bytes) ?new"
    using assms(3) limited_context_bound [OF assms(1)]
    by (auto simp: context_ok_def Let_def intro: list_all_assoc_set)
  ultimately have "context_ok fr r'" using m t by (simp add: context_ok_def Let_def)
  moreover have "json_get other (get_step_context rid (append_step_context fr rid step ctx s))
         = json_get other (get_step_context rid s)" if "other \<noteq> step" for other
    using that r' m assms(2) by (simp add: get_step_context_def)
  ultimately show ?thesis using r' by blast
qed

text \<open>
  Whatever the steps of a pipeline run write, in any order and any number of times, the
  context of the run stays within its limits, each entry and the whole, with one entry per
  step; and a step never changes what another step has written.  It is enough that floats are
  written in printable characters.
\<close>

theorem context_within_limits:
  assumes "\<And>x. printable (fr x)" and "get_run s rid = Some r" "context_ok fr r"
  shows "\<exists>r'. get_run (append_all fr rid calls s) rid = Some r' \<and> context_ok fr r'
    \<and> (\<forall>other. other \<notin> fst ` set calls \<longrightarrow>
         json_get other (get_step_context rid (append_all fr rid calls s))
           = json_get other (get_step_context rid s))"
  using assms(2,3)
proof (induction calls arbitrary: s r)
  case (Cons c calls)
  obtain step ctx where c: "c = (step, ctx)" by fastforce
  let ?s = "append_step_context fr rid step ctx s"
  from append_context_ok [OF assms(1) Cons.prems, of step ctx] obtain r1 where
    r1: "get_run ?s rid = Some r1" "context_ok fr r1" and
    o: "\<forall>other. other \<noteq> step \<longrightarrow> json_get other (get_step_context rid ?s)
      = json_get other (get_step_context rid s)"
    by blast
  have "append_all fr rid (c # calls) s = append_all fr rid calls ?s"
    by (simp add: append_all_def c)
  with Cons.IH [OF r1] o show ?case by (auto simp: c)
qed (auto simp: append_all_def)

definition demo_run_store :: store where
  "demo_run_store = snd (create_pipeline_run 1 ''pipeline_dispatch'' (Some ''c'') (empty_store 0))"

theorem context_within_limits_witness:
  "\<exists>r. get_run (append_all (\<lambda>x. ''1.5'') 0 [(''analysis'', JStr (replicate 3000 (CHR ''a''))),
         (''scoring'', JObj [(''score'', JFloat 3)])] demo_run_store) 0 = Some r
     \<and> context_ok (\<lambda>x. ''1.5'') r"
proof -
  have g: "map_option run_step_context_json (get_run demo_run_store 0) = Some None" by code_simp
  then obtain r where r: "get_run demo_run_store 0 = Some r" "run_step_context_json r = None" by auto
  have ok: "context_ok (\<lambda>x. ''1.5'') r"
    by (simp add: context_ok_def r(2) context_members_def max_total_bytes_def)
  have pr: "printable ''1.5''" by (simp add: printable_def ord_of_def)
  from context_within_limits [OF _ r(1) ok] pr show ?thesis by blast
qed

end
