(* ===== verification/Pipeline_Workers.thy ===== *)
theory Pipeline_Workers
  imports Auto_Send Enrichment Scoring Dead_Letters Pipeline_Context
begin

text \<open>
  The Celery tasks that take a lead through the pipeline (\<open>app/workers/pipeline_tasks.py\<close>) with
  the analysis step they share with the batch (\<open>app/workflows/lead_pipeline.py\<close>).  A task runs
  in a session of its own; what it returns, raises or waits for comes with the committed
  database it leaves behind.  Messages to the broker are sent at once and are not undone.
\<close>

section \<open>Running a tracked task\<close>

record request =
  rq_task_id :: string
  rq_queue :: "string option"
  rq_retries :: int

text \<open>The decorator and the constants of a task; \<open>tk_retries\<close>: whether it asks for a retry.\<close>

record task_kind =
  tk_name :: string
  tk_celery :: string
  tk_queue :: string
  tk_step :: string
  tk_max_retries :: int
  tk_retries :: bool
  tk_time_limited :: bool

text \<open>
  The world of the pipeline: the web, the language model (an exception, or its answer), the
  writers and channels of the outreach, how numbers and containers are written, and whether
  the broker takes a message for a task.
\<close>

record pipeline_env =
  pe_web :: web
  pe_summarize :: "lead \<Rightarrow> lead_signal list \<Rightarrow> string + string"
  pe_evaluate :: "lead \<Rightarrow> lead_signal list \<Rightarrow> string + (string \<times> string \<times> string) option"
  pe_email_writer :: email_writer
  pe_whatsapp_writer :: whatsapp_writer
  pe_kapso :: template_sender
  pe_mail :: mail_setup
  pe_float :: "pyfloat \<Rightarrow> string"
  pe_other :: "json \<Rightarrow> string"
  pe_broker :: "string \<Rightarrow> bool"

text \<open>
  How the body of a task ends, and how the task does.  A statement of a second session on a row
  that another open transaction has written waits for that transaction.
\<close>

datatype body_end = BReturn json | BRaise string | BWait
datatype task_end = Returned json | Raised string | Retrying string | Waiting

type_synonym task_body = "step_handle \<Rightarrow> store \<Rightarrow> store \<Rightarrow> body_end \<times> store \<times> store"

definition queue_name :: "request \<Rightarrow> string \<Rightarrow> string" where
  "queue_name rq fallback = (if truthy (rq_queue rq) then text_or_empty (rq_queue rq) else fallback)"

definition kind_meta ::
    "task_kind \<Rightarrow> request \<Rightarrow> uuid \<Rightarrow> uuid option \<Rightarrow> string option \<Rightarrow> task_meta" where
  "kind_meta kind rq k rid cid = \<lparr>tm_task_name = tk_name kind,
     tm_queue = Some (queue_name rq (tk_queue kind)), tm_lead_id = Some k,
     tm_pipeline_run_id = rid, tm_correlation_id = cid, tm_scope_key = None,
     tm_current_step = Some (tk_step kind)\<rparr>"

definition kind_failure ::
    "task_kind \<Rightarrow> request \<Rightarrow> uuid \<Rightarrow> uuid option \<Rightarrow> string option \<Rightarrow> string \<Rightarrow> failure" where
  "kind_failure kind rq k rid cid err = \<lparr>fl_task_name = tk_name kind, fl_task_id = rq_task_id rq,
     fl_lead_id = Some k, fl_pipeline_run_id = rid, fl_correlation_id = cid,
     fl_current_step = tk_step kind, fl_queue = queue_name rq (tk_queue kind), fl_error = err,
     fl_retries = rq_retries rq, fl_max_retries = tk_max_retries kind\<rparr>"

definition task_call :: "string \<Rightarrow> uuid \<Rightarrow> uuid option \<Rightarrow> string option \<Rightarrow> celery_call" where
  "task_call name k rid cid = \<lparr>call_task = name, call_lead_id = Some k,
     call_pipeline_run_id = rid, call_correlation_id = cid\<rparr>"

text \<open>
  The \<open>except\<close> clauses: the soft time limit, whose \<open>mark_task_failed\<close> is never committed, and
  any other exception, which is tracked in a new session and committed before the retry.
\<close>

definition task_failed ::
    "task_kind \<Rightarrow> request \<Rightarrow> uuid \<Rightarrow> uuid option \<Rightarrow> string option \<Rightarrow> string \<Rightarrow> store \<Rightarrow>
     task_end \<times> store" where
  "task_failed kind rq k rid cid err db =
     (if tk_time_limited kind \<and> err = ''SoftTimeLimitExceeded''
      then (Raised err, rollback_to db (mark_task_failed (rq_task_id rq)
              ''Soft time limit exceeded (5min)'' (Some (tk_step kind)) rid db))
      else (case track_failure db (kind_failure kind rq k rid cid err) db of
        Inl e \<Rightarrow> (Raised ''IntegrityError'', db)
      | Inr db' \<Rightarrow>
          if tk_retries kind \<and> rq_retries rq < tk_max_retries kind
          then (Retrying err, dispatch (task_call (tk_celery kind) k rid cid) db')
          else (Raised err, db')))"

text \<open>
  \<open>with SessionLocal() as db, tracked_task_step(...)\<close>: the body runs after the task was marked
  running, and only its normal end commits.
\<close>

definition run_task ::
    "task_kind \<Rightarrow> request \<Rightarrow> uuid \<Rightarrow> uuid option \<Rightarrow> string option \<Rightarrow> task_body \<Rightarrow> store \<Rightarrow>
     task_end \<times> store" where
  "run_task kind rq k rid cid body db =
     (case mark_task_running db (rq_task_id rq) (kind_meta kind rq k rid cid) db of
        Inl e \<Rightarrow> task_failed kind rq k rid cid ''IntegrityError'' db
      | Inr s \<Rightarrow>
          (case body \<lparr>sh_task_id = rq_task_id rq, sh_current_step = tk_step kind,
                   sh_pipeline_run_id = rid\<rparr> db s of
             (BReturn j, b, s') \<Rightarrow> (Returned j, s')
           | (BRaise err, b, s') \<Rightarrow> task_failed kind rq k rid cid err (rollback_to b s')
           | (BWait, b, s') \<Rightarrow> (Waiting, rollback_to b s')))"

section \<open>The steps\<close>

definition delay :: "pipeline_env \<Rightarrow> celery_call \<Rightarrow> store \<Rightarrow> string + store" where
  "delay env c s = (if pe_broker env (call_task c) then Inr (dispatch c s)
     else Inl ''OperationalError'')"

definition enrich_name :: string where "enrich_name = ''app.workers.tasks.task_enrich_lead''"
definition score_name :: string where "score_name = ''app.workers.tasks.task_score_lead''"
definition analyze_name :: string where "analyze_name = ''app.workers.tasks.task_analyze_lead''"
definition draft_name :: string where "draft_name = ''app.workers.tasks.task_generate_draft''"
definition research_name :: string where "research_name = ''app.workers.tasks.task_research_lead''"
definition batch_review_name :: string where
  "batch_review_name = ''app.workers.batch_review_tasks.task_check_batch_review''"

text \<open>\<open>if pipeline_run_id: next.delay(...)\<close> and \<open>return result\<close>.\<close>

definition chain ::
    "pipeline_env \<Rightarrow> string \<Rightarrow> uuid \<Rightarrow> uuid option \<Rightarrow> string option \<Rightarrow> json \<Rightarrow> store \<Rightarrow> store \<Rightarrow>
     body_end \<times> store \<times> store" where
  "chain env name k rid cid res b s =
     (if rid = None then (BReturn res, b, s)
      else (case delay env (task_call name k rid cid) s of
        Inl e \<Rightarrow> (BRaise e, b, s)
      | Inr s' \<Rightarrow> (BReturn res, b, s')))"

definition not_found_result :: "string \<Rightarrow> uuid \<Rightarrow> json" where
  "not_found_result st k = JObj [(''status'', JStr st), (''lead_id'', JStr (uuid_str k))]"

text \<open>\<open>if pipeline_uuid: append_step_context(...)\<close>.\<close>

definition append_if :: "pipeline_env \<Rightarrow> uuid option \<Rightarrow> string \<Rightarrow> json \<Rightarrow> store \<Rightarrow> store" where
  "append_if env rid step ctx s =
     (case rid of None \<Rightarrow> s | Some r \<Rightarrow> append_step_context (pe_float env) r step ctx s)"

definition enrich_body ::
    "pipeline_env \<Rightarrow> uuid \<Rightarrow> uuid option \<Rightarrow> string option \<Rightarrow> task_body" where
  "enrich_body env k rid cid h b s = (case get_lead s k of
     None \<Rightarrow> (BReturn (not_found_result ''not_found'' k), b, handle_fail h ''Lead not found'' None s)
   | Some l \<Rightarrow>
       if lead_enriched_at l \<noteq> None
       then (let res = JObj [(''status'', JStr ''skipped''), (''lead_id'', JStr (uuid_str k)),
                   (''reason'', JStr ''already_enriched'')]
             in chain env score_name k rid cid res b (handle_succeed h (Some res) None None s))
       else (case enrich_lead (pe_web env) k s of
         Inl e \<Rightarrow> (BRaise e, b, s)
       | Inr (None, s1) \<Rightarrow>
           (BReturn (not_found_result ''not_found'' k), b, handle_fail h ''Lead not found'' None s1)
       | Inr (Some l', s1) \<Rightarrow>
           let sigs = signals_of s1 k;
               res = JObj [(''status'', JStr ''ok''), (''lead_id'', JStr (uuid_str k)),
                   (''signals'', JInt (int (length sigs)))];
               s2 = handle_succeed h (Some res) None None s1;
               s3 = append_if env rid ''enrichment'' (JObj
                   [(''signals'', JList (map (\<lambda>g. JStr (signal_value (sig_signal_type g))) sigs)),
                    (''email_found'', JBool (lead_email l' \<noteq> None)),
                    (''website_exists'', JBool (lead_website_url l' \<noteq> None)),
                    (''instagram_exists'', JBool (lead_instagram_url l' \<noteq> None))]) s2
           in chain env score_name k rid cid res b s3))"

definition enrich_kind :: task_kind where
  "enrich_kind = \<lparr>tk_name = ''task_enrich_lead'', tk_celery = enrich_name, tk_queue = ''enrichment'',
     tk_step = ''enrichment'', tk_max_retries = 3, tk_retries = True, tk_time_limited = False\<rparr>"

definition task_enrich_lead ::
    "pipeline_env \<Rightarrow> request \<Rightarrow> uuid \<Rightarrow> uuid option \<Rightarrow> string option \<Rightarrow> store \<Rightarrow> task_end \<times> store" where
  "task_enrich_lead env rq k rid cid db =
     run_task enrich_kind rq k rid cid (enrich_body env k rid cid) db"

definition score_body ::
    "pipeline_env \<Rightarrow> uuid \<Rightarrow> uuid option \<Rightarrow> string option \<Rightarrow> task_body" where
  "score_body env k rid cid h b s = (case get_lead s k of
     None \<Rightarrow> (BReturn (not_found_result ''not_found'' k), b, handle_fail h ''Lead not found'' None s)
   | Some l \<Rightarrow>
       if lead_scored_at l \<noteq> None
       then (let res = JObj [(''status'', JStr ''skipped''), (''lead_id'', JStr (uuid_str k)),
                   (''reason'', JStr ''already_scored''), (''score'', jfloat (lead_score l))]
             in chain env analyze_name k rid cid res b (handle_succeed h (Some res) None None s))
       else (case score_lead b k s of
         (None, s1) \<Rightarrow>
           (BReturn (not_found_result ''failed'' k), b, handle_fail h ''Score failed'' None s1)
       | (Some l', s1) \<Rightarrow>
           let res = JObj [(''status'', JStr ''ok''), (''lead_id'', JStr (uuid_str k)),
                   (''score'', jfloat (lead_score l'))];
               s2 = handle_succeed h (Some res) None None s1;
               s3 = append_if env rid ''scoring'' (JObj [(''score'', jfloat (lead_score l')),
                   (''signal_count'', JInt (int (length (signals_of s2 k))))]) s2
           in chain env analyze_name k rid cid res b s3))"

definition score_kind :: task_kind where
  "score_kind = \<lparr>tk_name = ''task_score_lead'', tk_celery = score_name, tk_queue = ''scoring'',
     tk_step = ''scoring'', tk_max_retries = 3, tk_retries = True, tk_time_limited = False\<rparr>"

definition task_score_lead ::
    "pipeline_env \<Rightarrow> request \<Rightarrow> uuid \<Rightarrow> uuid option \<Rightarrow> string option \<Rightarrow> store \<Rightarrow> task_end \<times> store" where
  "task_score_lead env rq k rid cid db =
     run_task score_kind rq k rid cid (score_body env k rid cid) db"

section \<open>Analysis\<close>

record analysis_result =
  an_summary :: string
  an_quality :: string
  an_reasoning :: string
  an_suggested_angle :: string

definition normal_quality :: "string \<Rightarrow> string" where
  "normal_quality raw = (let q = strip (lower raw) in
     if q \<in> {''high'', ''medium'', ''low''} then q else ''unknown'')"

definition analysis_of :: "string \<Rightarrow> (string \<times> string \<times> string) option \<Rightarrow> analysis_result" where
  "analysis_of summary ev = (case ev of
     None \<Rightarrow> \<lparr>an_summary = summary, an_quality = ''unknown'',
       an_reasoning = ''LLM analysis unavailable'',
       an_suggested_angle = ''General web development services''\<rparr>
   | Some (q, r, a) \<Rightarrow> \<lparr>an_summary = summary, an_quality = normal_quality q, an_reasoning = r,
       an_suggested_angle = a\<rparr>)"

definition set_analysis :: "analysis_result \<Rightarrow> lead \<Rightarrow> lead" where
  "set_analysis a l = l\<lparr>lead_llm_summary := Some (an_summary a),
     lead_llm_quality_assessment := Some (an_reasoning a),
     lead_llm_suggested_angle := Some (an_suggested_angle a),
     lead_llm_quality := Some (an_quality a)\<rparr>"

text \<open>\<open>run_lead_analysis_step\<close>: the exception of a model call leaves it before the quality is set.\<close>

definition run_lead_analysis_step ::
    "pipeline_env \<Rightarrow> lead \<Rightarrow> store \<Rightarrow> string + analysis_result \<times> store" where
  "run_lead_analysis_step env l s =
     (let sigs = signals_of s (lead_id l) in
      case pe_summarize env l sigs of
        Inl e \<Rightarrow> Inl e
      | Inr summary \<Rightarrow> (case pe_evaluate env l sigs of
          Inl e \<Rightarrow> Inl e
        | Inr ev \<Rightarrow> let a = analysis_of summary ev
                   in Inr (a, upd_lead (lead_id l) (set_analysis a) s)))"

text \<open>The next task by the quality of the lead; research has the draft as its fall-back.\<close>

definition chain_by_quality ::
    "pipeline_env \<Rightarrow> string option \<Rightarrow> uuid \<Rightarrow> uuid option \<Rightarrow> string option \<Rightarrow> json \<Rightarrow> store \<Rightarrow> store \<Rightarrow>
     body_end \<times> store \<times> store" where
  "chain_by_quality env quality k rid cid res b s =
     (if quality = Some ''high''
      then (case delay env (task_call research_name k rid cid) s of
        Inl e \<Rightarrow> chain env draft_name k rid cid res b s
      | Inr s' \<Rightarrow> (BReturn res, b, s'))
      else chain env draft_name k rid cid res b s)"

definition analyze_body ::
    "pipeline_env \<Rightarrow> uuid \<Rightarrow> uuid option \<Rightarrow> string option \<Rightarrow> task_body" where
  "analyze_body env k rid cid h b s = (case get_lead s k of
     None \<Rightarrow> (BReturn (not_found_result ''not_found'' k), b, handle_fail h ''Lead not found'' None s)
   | Some l \<Rightarrow>
       if lead_llm_summary l \<noteq> None
       then (let res = JObj [(''status'', JStr ''skipped''), (''lead_id'', JStr (uuid_str k)),
                   (''reason'', JStr ''already_analyzed''), (''quality'', jstr (lead_llm_quality l))]
             in chain_by_quality env (lead_llm_quality l) k rid cid res b
                  (handle_succeed h (Some res) None None s))
       else (case run_lead_analysis_step env l s of
         Inl e \<Rightarrow> (BRaise e, b, s)
       | Inr (a, s1) \<Rightarrow>
           let res = JObj [(''status'', JStr ''ok''), (''lead_id'', JStr (uuid_str k)),
                   (''quality'', JStr (an_quality a))];
               s2 = handle_succeed h (Some res) None None s1;
               s3 = append_if env rid ''analysis'' (JObj [(''quality'', JStr (an_quality a)),
                   (''reasoning'', JStr (an_reasoning a)),
                   (''suggested_angle'', JStr (an_suggested_angle a)),
                   (''summary'', JStr (an_summary a))]) s2
           in chain_by_quality env (Some (an_quality a)) k rid cid res s1 s3))"

definition analyze_kind :: task_kind where
  "analyze_kind = \<lparr>tk_name = ''task_analyze_lead'', tk_celery = analyze_name, tk_queue = ''llm'',
     tk_step = ''analysis'', tk_max_retries = 2, tk_retries = True, tk_time_limited = True\<rparr>"

definition task_analyze_lead ::
    "pipeline_env \<Rightarrow> request \<Rightarrow> uuid \<Rightarrow> uuid option \<Rightarrow> string option \<Rightarrow> store \<Rightarrow> task_end \<times> store" where
  "task_analyze_lead env rq k rid cid db =
     run_task analyze_kind rq k rid cid (analyze_body env k rid cid) db"

section \<open>The draft\<close>

text \<open>\<open>OutreachDraftWorkflowResult.to_payload\<close>.\<close>

definition draft_payload :: "draft_result \<Rightarrow> json" where
  "draft_payload r = JObj ([(''status'', JStr (dr_status r)), (''lead_id'', JStr (uuid_str (dr_lead_id r)))]
     @ (case dr_draft_id r of Some d \<Rightarrow> [(''draft_id'', JStr (uuid_str d))] | None \<Rightarrow> [])
     @ (if truthy (dr_reason r) then [(''reason'', jstr (dr_reason r))] else [])
     @ (case dr_whatsapp_draft_id r of
          Some d \<Rightarrow> [(''whatsapp_draft_id'', JStr (uuid_str d))] | None \<Rightarrow> [])
     @ (if dr_ai_fallback_used r then [(''ai_fallback_used'', JBool True)] else [])
     @ (if dr_ai_degraded r then [(''ai_degraded'', JBool True)] else []))"

definition completed_update :: "json \<Rightarrow> run_update" where
  "completed_update payload = no_run_update\<lparr>ru_status := Some ''succeeded'',
     ru_current_step := Some ''completed'', ru_result := Some payload, ru_finished := True\<rparr>"

text \<open>
  Whether the second session, which reads the run as committed (\<open>b\<close>) and flushes its own
  update of it, waits: it does when the first session's flush, from \<open>s\<close> to \<open>s'\<close>, has written
  the same row and is not committed.
\<close>

definition waits_for_row :: "uuid \<Rightarrow> run_update \<Rightarrow> store \<Rightarrow> store \<Rightarrow> store \<Rightarrow> bool" where
  "waits_for_row r u b s s' =
     (get_run s' r \<noteq> get_run s r
      \<and> (case get_run b r of None \<Rightarrow> False | Some row \<Rightarrow> apply_run_update (now b) u row \<noteq> row))"

definition check_batch_review :: "pipeline_env \<Rightarrow> string option \<Rightarrow> store \<Rightarrow> store" where
  "check_batch_review env cid s =
     (let c = \<lparr>call_task = batch_review_name, call_lead_id = None, call_pipeline_run_id = None,
            call_correlation_id = cid\<rparr>
      in case delay env c s of Inl e \<Rightarrow> s | Inr s' \<Rightarrow> s')"

text \<open>The accumulated context of the run, as a text for the prompt.\<close>

definition draft_context :: "pipeline_env \<Rightarrow> uuid option \<Rightarrow> store \<Rightarrow> string + string" where
  "draft_context env rid s = (case rid of None \<Rightarrow> Inr []
     | Some r \<Rightarrow> format_context_for_prompt (pe_other env) (get_step_context r s) 2000)"

definition draft_made ::
    "pipeline_env \<Rightarrow> uuid \<Rightarrow> uuid option \<Rightarrow> string option \<Rightarrow> string \<Rightarrow> task_body" where
  "draft_made env k rid cid ctx h b s =
     (let (res, b1, s1) = run_draft_generation_step (pe_email_writer env) (pe_whatsapp_writer env)
            (pe_kapso env) (pe_mail env) k True ctx b s
      in case res of
           Inl e \<Rightarrow> (BRaise e, b1, s1)
         | Inr r \<Rightarrow>
             if dr_status r = ''not_found''
             then (BReturn (draft_payload r), b1, handle_fail h ''Lead not found'' None s1)
             else if dr_status r = ''failed''
             then (BReturn (draft_payload r), b1,
               handle_fail h (or_text (dr_reason r) ''Draft generation failed'') None s1)
             else
               let s2 = handle_succeed h (Some (draft_payload r)) None
                     (if rid = None then None else Some ''succeeded'') s1
               in if (case rid of None \<Rightarrow> False
                    | Some run \<Rightarrow> waits_for_row run (completed_update (draft_payload r)) b1 s1 s2)
                  then (BWait, b1, s2)
                  else (BReturn (draft_payload r), b1, check_batch_review env cid s2))"

definition draft_body_of ::
    "pipeline_env \<Rightarrow> uuid \<Rightarrow> uuid option \<Rightarrow> string option \<Rightarrow> task_body" where
  "draft_body_of env k rid cid h b s = (case get_lead s k of
     None \<Rightarrow> (BReturn (not_found_result ''not_found'' k), b, handle_fail h ''Lead not found'' None s)
   | Some l \<Rightarrow> (case draft_context env rid s of
       Inl e \<Rightarrow> (BRaise e, b, s)
     | Inr ctx \<Rightarrow> draft_made env k rid cid ctx h b s))"

definition draft_kind :: task_kind where
  "draft_kind = \<lparr>tk_name = ''task_generate_draft'', tk_celery = draft_name, tk_queue = ''llm'',
     tk_step = ''draft_generation'', tk_max_retries = 2, tk_retries = True, tk_time_limited = True\<rparr>"

definition task_generate_draft ::
    "pipeline_env \<Rightarrow> request \<Rightarrow> uuid \<Rightarrow> uuid option \<Rightarrow> string option \<Rightarrow> store \<Rightarrow> task_end \<times> store" where
  "task_generate_draft env rq k rid cid db =
     run_task draft_kind rq k rid cid (draft_body_of env k rid cid) db"

section \<open>Starting a pipeline\<close>

definition budget_notice :: "uuid \<Rightarrow> notif_args" where
  "budget_notice k = \<lparr>na_type = ''daily_budget_exceeded'', na_category = SYSTEM,
     na_severity = SEV_CRITICAL, na_title = ''Daily LLM budget exceeded'',
     na_message = ''Pipeline dispatch skipped: today'' @ [CHR 0x27]
       @ ''s LLM spend has reached the daily budget.'',
     na_source_kind = None, na_source_id = None, na_metadata = None,
     na_dedup_key = Some (''daily_budget_exceeded:'' @ take 8 (uuid_hex k))\<rparr>"

definition pipeline_body ::
    "pipeline_env \<Rightarrow> uuid \<Rightarrow> uuid option \<Rightarrow> string option \<Rightarrow> task_body" where
  "pipeline_body env k rid cid h b s =
     (if \<not> check_daily_budget s
      then (let payload = JObj [(''status'', JStr ''skipped''),
                  (''reason'', JStr ''daily_budget_exceeded''), (''lead_id'', JStr (uuid_str k))]
            in (BReturn payload, b, handle_succeed h (Some payload) None
                  (if rid = None then None else Some ''skipped'') (emit b (budget_notice k) s)))
      else (case delay env (task_call enrich_name k rid cid) s of
        Inl e \<Rightarrow> (BRaise e, b, s)
      | Inr s1 \<Rightarrow>
          let payload = JObj [(''status'', JStr ''pipeline_started''), (''lead_id'', JStr (uuid_str k)),
                (''pipeline_run_id'', jstr (map_option uuid_str rid))]
          in (BReturn payload, b, handle_succeed h (Some payload) None
                (if rid = None then None else Some ''running'') s1)))"

text \<open>\<open>task_full_pipeline\<close> has Celery's default of three retries but never asks for one.\<close>

definition pipeline_kind :: task_kind where
  "pipeline_kind = \<lparr>tk_name = ''task_full_pipeline'',
     tk_celery = ''app.workers.tasks.task_full_pipeline'', tk_queue = ''default'',
     tk_step = ''pipeline_dispatch'', tk_max_retries = 3, tk_retries = False,
     tk_time_limited = False\<rparr>"

definition task_full_pipeline ::
    "pipeline_env \<Rightarrow> request \<Rightarrow> uuid \<Rightarrow> uuid option \<Rightarrow> string option \<Rightarrow> store \<Rightarrow> task_end \<times> store" where
  "task_full_pipeline env rq k rid cid db =
     run_task pipeline_kind rq k rid cid (pipeline_body env k rid cid) db"

end
