(* ===== verification/Pipeline_Safety.thy ===== *)
theory Pipeline_Safety
  imports Pipeline_Workers
begin

text \<open>
  What the tasks of the pipeline guarantee together: each step hands the lead to the next one
  exactly once, a lead whose steps do not fail is taken to its draft, and a pipeline run is
  never finished, because the draft task waits for a row it holds itself.
\<close>

section \<open>The pipeline runs\<close>

lemma runs_frames [simp]:
  "runs (upd_lead k_lead f_lead s) = runs s" "runs (upd_draft k_draft f_draft s) = runs s"
  "runs (upd_task k_task f_task s) = runs s" "runs (add_task r_task s) = runs s"
  "runs (upd_delivery k_delivery f_delivery s) = runs s" "runs (add_delivery r_delivery s) = runs s"
  "runs (upd_convo k_convo f_convo s) = runs s" "runs (add_convo r_convo s) = runs s"
  "runs (tick_uuid s) = runs s" "runs (dispatch c s) = runs s"
  "runs (add_log l o' a x t s) = runs s" "runs (snd (get_or_create s)) = runs s"
  "runs (rollback_to b s) = runs b"
  by (simp_all add: row_access_defs tick_uuid_def dispatch_def add_log_def rollback_to_def
      get_or_create_frame [of s])

lemma emit_runs: "runs (emit b a s) \<in> {runs b, runs s}"
proof (cases "lost_race b a s")
  case True
  then show ?thesis
    by (simp add: emit_def get_cached_settings_def create_notification_def split_beta Let_def
        lost_race_def has_dedup_key_def rate_limited_def recent_count_def)
next
  case False
  from notif_frame_fields(10) [OF emit_notif_frame [OF False]] show ?thesis by simp
qed

lemma event_runs [simp]: "runs (emit_lead_event k t o' n p a s) = runs s"
  by (simp add: emit_lead_event_def Let_def tick_uuid_def)

lemma on_high_score_runs: "runs (on_high_score_lead b k n x y s) \<in> {runs b, runs s}"
  using emit_runs by (simp add: on_high_score_lead_def)

lemma score_lead_runs: "runs (snd (score_lead b k s)) \<in> {runs b, runs s}"
  using on_high_score_runs [where s = "upd_lead k f s" for f]
  by (auto simp: score_lead_def Let_def split: option.split)

lemma add_draft_runs [simp]: "runs (add_draft d s) = runs s"
  by (simp add: row_access_defs)

lemma draft_written_runs [simp]: "runs (draft_written d m s) = runs s"
  by (simp add: draft_written_def Let_def)

lemma generate_runs:
  "generate_outreach_draft em k ctx s = Inr (d, s') \<Longrightarrow> runs s' = runs s"
  "generate_whatsapp_draft wa k s = Inr (d, s') \<Longrightarrow> runs s' = runs s"
  by (auto simp: generate_outreach_draft_def generate_whatsapp_draft_def Let_def
      split: option.splits if_splits sum.splits)

lemma try_whatsapp_runs [simp]: "runs (snd (try_whatsapp_draft wa k s)) = runs s"
  by (auto simp: try_whatsapp_draft_def generate_runs(2) split: sum.split)

lemma mark_qualified_runs [simp]: "runs (mark_qualified k s) = runs s"
  by (simp add: mark_qualified_def)

lemma update_draft_runs [simp]: "runs (snd (update_draft k c s)) = runs s"
  by (simp add: update_draft_def draft_status_written_def Let_def split: option.split)

lemma on_send_failed_runs [simp]: "runs (on_send_failed s a b r e t s) = runs s"
  using notif_frame_fields(10) [OF on_send_failed_frame] .

lemma deliver_runs:
  "runs (fst (snd (deliver w c d n s))) = runs s" "runs (snd (snd (deliver w c d n s))) = runs s"
  by (simp_all add: deliver_def Let_def split: mail_reply.split)

lemma ensure_ready_runs [simp]: "runs (snd (ensure_outbound_mail_ready w s)) = runs s"
  by (simp add: ensure_ready_state)

lemma send_draft_runs:
  "runs (fst (snd (send_draft w k b s))) \<in> {runs b, runs s}"
  "runs (snd (snd (send_draft w k b s))) \<in> {runs b, runs s}"
  using ensure_ready_runs [of w s]
  by (auto simp: send_draft_def Let_def split_beta deliver_runs split: sum.split option.split)

text \<open>Every way a session and the committed state go lets the runs be those of one of the two.\<close>

definition same_runs :: "store \<Rightarrow> store \<Rightarrow> 'a \<times> store \<times> store \<Rightarrow> bool" where
  "same_runs b s r \<longleftrightarrow> runs (fst (snd r)) \<in> {runs b, runs s} \<and> runs (snd (snd r)) \<in> {runs b, runs s}"

lemma send_whatsapp_runs [simp]: "runs (snd (send_whatsapp kapso d l s)) = runs s"
  by (simp add: send_whatsapp_def Let_def split: sum.split)

lemma send_email_runs: "same_runs b s (send_email_draft w d l b s)"
  using send_draft_runs [where s = "add_convo (new_convo d ''email'' s) (tick_uuid s)"]
  by (simp add: same_runs_def send_email_draft_def Let_def split_beta)

lemma auto_send_runs: "same_runs b s (auto_send_draft kapso w k b s)"
  using send_email_runs [of b s w]
  by (auto simp: auto_send_draft_def Let_def split_beta same_runs_def split: option.split)

lemma automation_runs:
  assumes "run_outreach_draft_automation kapso w k b s = (b', s')"
  shows "runs b' \<in> {runs b, runs s} \<and> runs s' \<in> {runs b, runs s}"
proof -
  let ?s2 = "upd_draft k (set_draft_status D_APPROVED (now s)) (snd (get_or_create s))"
  have a: "same_runs ?s2 ?s2 (auto_send_draft kapso w k ?s2 ?s2)" by (rule auto_send_runs)
  obtain c b3 s3 where e: "auto_send_draft kapso w k ?s2 ?s2 = (c, b3, s3)" by (cases rule: prod_cases3)
  have r: "runs b3 = runs s" "runs s3 = runs s" using a by (auto simp: e same_runs_def)
  show ?thesis
    using assms r send_draft_runs [of w k b3 s3]
    by (auto simp: run_outreach_draft_automation_def get_cached_settings_def split_beta Let_def e
        split: option.splits if_splits)
qed

lemma cached_settings_runs:
  "get_cached_settings s = (st, s1) \<Longrightarrow> runs s1 = runs s"
  by (drule arg_cong [where f = "\<lambda>p. runs (snd p)"]) (simp add: get_cached_settings_def)

lemma try_runs: "try_whatsapp_draft wa k s = (y, s') \<Longrightarrow> runs s' = runs s"
  by (drule arg_cong [where f = "\<lambda>p. runs (snd p)"]) simp

lemma try_if_runs:
  "(if c then try_whatsapp_draft wa k s else (x, s)) = (y, s') \<Longrightarrow> runs s' = runs s"
  by (cases c) (auto dest: try_runs)

lemma workflow_runs:
  assumes "run_outreach_draft_generation_workflow em wa k ctx b s = (res, b', s')"
  shows "runs b' \<in> {runs b, runs s} \<and> runs s' \<in> {runs b, runs s}"
  using assms
  by (auto simp: run_outreach_draft_generation_workflow_def Let_def
      split: option.splits list.splits prod.splits if_splits sum.splits
      dest!: cached_settings_runs try_runs generate_runs(1))

lemma draft_step_runs:
  assumes "run_draft_generation_step em wa kapso w k auto ctx b s = (res, b', s')"
  shows "runs b' \<in> {runs b, runs s} \<and> runs s' \<in> {runs b, runs s}"
proof -
  obtain r b1 s1 where e: "run_outreach_draft_generation_workflow em wa k ctx b s = (r, b1, s1)"
    by (cases rule: prod_cases3)
  show ?thesis
    using assms workflow_runs [OF e] automation_runs [where b = b1 and s = s1]
    by (force simp: run_draft_generation_step_def e split: sum.splits if_splits)
qed

section \<open>Properties of the runs\<close>

lemma update_status [simp]:
  "run_status (apply_run_update t u x) = set_if (ru_status u) (run_status x)"
  "run_id (apply_run_update t u x) = run_id x"
  by (simp_all add: apply_run_update_def)

lemma stamp_status [simp]: "run_status (stamp_run s f x) = run_status (f x)"
  by (simp add: stamp_run_def)

lemma fold_add_signal_rest:
  "runs (fold (add_signal k) gs s) = runs s \<and> dispatched (fold (add_signal k) gs s) = dispatched s"
  by (induction gs arbitrary: s) (simp_all add: add_signal_def tick_uuid_def)

lemma enrich_rest [simp]:
  "runs (replace_signals k gs s) = runs s" "dispatched (replace_signals k gs s) = dispatched s"
  "runs (store_screenshot e l u g s) = runs s" "dispatched (store_screenshot e l u g s) = dispatched s"
  by (simp_all add: replace_signals_def fold_add_signal_rest store_screenshot_def tick_uuid_def Let_def
      split: sum.split option.split)

lemma enrich_lead_rest:
  "enrich_lead e k s = Inr (l, s') \<Longrightarrow> runs s' = runs s \<and> dispatched s' = dispatched s"
  by (auto simp: enrich_lead_def Let_def split: option.splits sum.splits if_splits)

text \<open>
  A property of the table of runs that survives every update except one to \<open>succeeded\<close>
  survives every task before the draft, however it ends.
\<close>

locale run_property =
  fixes P :: "store \<Rightarrow> bool"
  assumes same: "runs s' = runs s \<Longrightarrow> P s' = P s"
    and update: "P s \<Longrightarrow> ru_status u \<noteq> Some ''succeeded'' \<Longrightarrow> P (update_run_if rid u s)"
    and contextual: "P s \<Longrightarrow> P (upd_run r (\<lambda>x. x\<lparr>run_step_context_json := j\<rparr>) s)"
begin

lemma same_frames [simp]:
  "P (upd_task k f s) = P s" "P (add_task t s) = P s"
  "P (rollback_to b s) = P b" "P (dispatch c s) = P s"
  "P (emit_lead_event k' t' o' n p a s) = P s"
  "P (upd_lead k' g s) = P s" "P (tick_uuid s) = P s"
  by (rule same; simp)+

lemma kept_add_dead [simp]: "P (add_dead_letter x s) = P s"
  by (rule same) (simp add: add_dead_letter_def)

lemma kept_in: "runs s' \<in> {runs b, runs s} \<Longrightarrow> P b \<Longrightarrow> P s \<Longrightarrow> P s'"
  using same by blast

lemma kept_queue:
  assumes "queue_task_run b tid m s = Inr s'" "P b" "P s"
  shows "P s'"
  using assms
  by (auto simp: queue_task_run_def requeue_after_rollback_def Let_def split: option.splits if_splits)

lemma kept_running:
  assumes "mark_task_running b tid m s = Inr s'" "P b" "P s"
  shows "P s'"
  using assms kept_queue [of b tid m s]
  by (auto simp: mark_task_running_def Let_def no_run_update_def intro!: update split: sum.splits)

lemma kept_succeeded:
  assumes "P s" "ps \<noteq> Some ''succeeded''"
  shows "P (mark_task_succeeded tid res step rid ps s)"
  using assms
  by (cases ps) (auto simp: mark_task_succeeded_def Let_def no_run_update_def truthy_def
      intro!: update split: option.split)

lemma kept_marks:
  assumes "P s"
  shows "P (mark_task_failed tid e step rid s)"
    "P (mark_task_retrying tid e step rid s)" "P (handle_fail h e step s)"
  using assms
  by (auto simp: mark_task_failed_def mark_task_retrying_def handle_fail_def no_run_update_def
      intro!: update split: option.split)

lemma kept_track:
  assumes "track_failure b f b = Inr s'" "P b"
  shows "P s'"
proof -
  obtain s1 where s1: "mark_task_running b (fl_task_id f) (failure_meta f) b = Inr s1"
    using assms(1) by (auto simp: track_failure_def split: sum.splits)
  have o: "P s1" by (rule kept_running [OF s1 assms(2) assms(2)])
  let ?f = "mark_task_failed (fl_task_id f) (fl_error f) (Some (fl_current_step f))
      (fl_pipeline_run_id f) s1"
  have "P (on_repeated_failures b n m t ?f)" for n m t
    unfolding on_repeated_failures_def
    by (rule kept_in [OF emit_runs assms(2) kept_marks(1) [OF o]])
  then show ?thesis
    using assms(1) kept_marks(2) [OF o]
    by (auto simp: track_failure_def s1 Let_def split: if_splits)
qed

lemma kept_failed:
  assumes "P db"
  shows "P (snd (task_failed kind rq k rid cid err db))"
  using assms kept_track [where b = db]
  by (auto simp: task_failed_def split: sum.split)

text \<open>A body whose committed state and whose returned session keep a run open does so as a task.\<close>

lemma kept_task:
  assumes "P db"
    and "\<And>h s e b s'. body h db s = (e, b, s') \<Longrightarrow> P s
      \<Longrightarrow> mark_task_running db (rq_task_id rq) (kind_meta kind rq k rid cid) db = Inr s
      \<Longrightarrow> sh_pipeline_run_id h = rid
      \<Longrightarrow> P b \<and> (\<forall>j. e = BReturn j \<longrightarrow> P s')"
  shows "P (snd (run_task kind rq k rid cid body db))"
proof (cases "mark_task_running db (rq_task_id rq) (kind_meta kind rq k rid cid) db")
  case (Inl e)
  then show ?thesis using kept_failed assms(1) by (simp add: run_task_def)
next
  case (Inr s)
  let ?h = "\<lparr>sh_task_id = rq_task_id rq, sh_current_step = tk_step kind, sh_pipeline_run_id = rid\<rparr>"
  obtain e b s' where e: "body ?h db s = (e, b, s')" by (cases rule: prod_cases3)
  have "P s" by (rule kept_running [OF Inr assms(1) assms(1)])
  from assms(2) [OF e this Inr] have p: "P b \<and> (\<forall>j. e = BReturn j \<longrightarrow> P s')" by simp
  then show ?thesis by (cases e) (auto simp: run_task_def Inr e intro: kept_failed)
qed

lemma kept_append [simp]: "P s \<Longrightarrow> P (append_if env rid step c s)"
  by (auto simp: append_if_def append_step_context_def Let_def intro: contextual split: option.split)

lemma kept_chain:
  assumes "chain env n k rid cid res b s = (e, b', s')" "P b" "P s"
  shows "P b' \<and> P s'"
  using assms by (auto simp: chain_def delay_def split: if_splits)

lemma kept_by_quality:
  assumes "chain_by_quality env q k rid cid res b s = (e, b', s')" "P b" "P s"
  shows "P b' \<and> P s'"
  using assms kept_chain [of env draft_name k rid cid res b s]
  by (auto simp: chain_by_quality_def delay_def split: if_splits)

lemma kept_handle [simp]:
  "P s \<Longrightarrow> ps \<noteq> Some ''succeeded'' \<Longrightarrow> P (handle_succeed h res step ps s)"
  "P s \<Longrightarrow> P (handle_fail h e step s)"
  by (simp_all add: handle_succeed_def kept_succeeded kept_marks)

lemma kept_enrich_body:
  assumes "enrich_body env k rid cid h b s = (e, b', s')" "P b" "P s"
  shows "P b' \<and> P s'"
proof (cases "get_lead s k")
  case (Some l)
  show ?thesis
  proof (cases "lead_enriched_at l \<noteq> None")
    case True
    with assms Some show ?thesis by (auto simp: enrich_body_def Let_def dest: kept_chain)
  next
    case False
    show ?thesis
    proof (cases "enrich_lead (pe_web env) k s")
      case (Inr p)
      obtain l' s1 where p: "p = (l', s1)" by (cases p)
      have "P s1" using enrich_lead_rest [OF Inr [unfolded p]] assms(3) same by blast
      with assms Some False Inr p show ?thesis
        by (cases l') (auto simp: enrich_body_def Let_def dest: kept_chain)
    qed (use assms Some False in \<open>auto simp: enrich_body_def\<close>)
  qed
qed (use assms in \<open>auto simp: enrich_body_def\<close>)

lemma kept_score_body:
  assumes "score_body env k rid cid h b s = (e, b', s')" "P b" "P s"
  shows "P b' \<and> P s'"
proof (cases "get_lead s k")
  case (Some l)
  show ?thesis
  proof (cases "lead_scored_at l \<noteq> None")
    case True
    with assms Some show ?thesis by (auto simp: score_body_def Let_def dest: kept_chain)
  next
    case False
    obtain l' s1 where p: "score_lead b k s = (l', s1)" by (cases "score_lead b k s")
    have "P s1"
      using kept_in [OF score_lead_runs assms(2,3), of k] by (simp add: p)
    with assms Some False p show ?thesis
      by (cases l') (auto simp: score_body_def Let_def dest: kept_chain)
  qed
qed (use assms in \<open>auto simp: score_body_def\<close>)

lemma kept_analysis:
  "run_lead_analysis_step env l s = Inr (a, s') \<Longrightarrow> P s' = P s"
  by (auto simp: run_lead_analysis_step_def Let_def split: sum.splits)

lemma kept_analyze_body:
  assumes "analyze_body env k rid cid h b s = (e, b', s')" "P b" "P s"
  shows "P b' \<and> P s'"
proof (cases "get_lead s k")
  case (Some l)
  show ?thesis
  proof (cases "lead_llm_summary l \<noteq> None")
    case True
    with assms Some show ?thesis by (auto simp: analyze_body_def Let_def dest: kept_by_quality)
  next
    case False
    show ?thesis
    proof (cases "run_lead_analysis_step env l s")
      case (Inr p)
      obtain a s1 where p: "p = (a, s1)" by (cases p)
      with assms Some False Inr kept_analysis [OF Inr [unfolded p]] show ?thesis
        by (auto simp: analyze_body_def Let_def dest: kept_by_quality)
    qed (use assms Some False in \<open>auto simp: analyze_body_def\<close>)
  qed
qed (use assms in \<open>auto simp: analyze_body_def\<close>)

lemma kept_pipeline_body:
  assumes "pipeline_body env k rid cid h b s = (e, b', s')" "P b" "P s"
  shows "P b' \<and> P s'"
proof -
  have "P (emit b n s)" for n by (rule kept_in [OF emit_runs assms(2,3)])
  then show ?thesis using assms by (auto simp: pipeline_body_def Let_def delay_def split: if_splits)
qed

end

text \<open>A run that exists stays, and a run that is not succeeded stays so.\<close>

definition has_run :: "uuid \<Rightarrow> store \<Rightarrow> bool" where
  "has_run r s \<longleftrightarrow> get_run s r \<noteq> None"

definition run_open :: "uuid \<Rightarrow> store \<Rightarrow> bool" where
  "run_open r s \<longleftrightarrow> map_option run_status (get_run s r) \<noteq> Some ''succeeded''"

interpretation hr: run_property "has_run r" for r
  by unfold_locales
    (auto simp: has_run_def get_run_def [abs_def] update_run_if_def update_pipeline_run_def
      run_tbl.get_upd [unfolded get_run_def [abs_def]] split: option.split)

interpretation ro: run_property "run_open r" for r
proof unfold_locales
  show "run_open r s' = run_open r s" if "runs s' = runs s" for s s'
    using that by (simp add: run_open_def get_run_def)
  show "run_open r (update_run_if rid u s)"
    if "run_open r s" "ru_status u \<noteq> Some ''succeeded''" for s u rid
    using that by (cases rid; cases "ru_status u")
      (auto simp: run_open_def update_run_if_def update_pipeline_run_def run_tbl.get_upd)
  show "run_open r (upd_run r' (\<lambda>x. x\<lparr>run_step_context_json := j\<rparr>) s)" if "run_open r s" for r' j s
    using that by (auto simp: run_open_def run_tbl.get_upd)
qed

text \<open>A task is only marked running for a run that exists.\<close>

lemma queue_fk:
  assumes "queue_task_run b tid m b = Inr s"
  shows "task_fk_ok b m \<and> (\<forall>k. get_run s k = get_run b k)"
  using assms
  by (auto simp: queue_task_run_def requeue_after_rollback_def Let_def get_run_def
      split: option.splits if_splits)

lemma running_has_run:
  assumes "mark_task_running b tid m b = Inr s" "tm_pipeline_run_id m = Some r"
  shows "get_run b r \<noteq> None \<and> get_run s r \<noteq> None"
proof -
  obtain s1 where s1: "queue_task_run b tid m b = Inr s1"
    using assms(1) by (auto simp: mark_task_running_def split: sum.splits)
  from queue_fk [OF this] assms show ?thesis
    by (auto simp: mark_task_running_def s1 Let_def task_fk_ok_def update_run_if_def
        update_pipeline_run_def run_tbl.get_upd)
qed

lemma succeed_other_run:
  assumes "run_open r s" "rid \<noteq> Some r"
  shows "run_open r (handle_succeed (h\<lparr>sh_pipeline_run_id := rid\<rparr>) res step ps s)"
  using assms
  by (cases rid) (auto simp: handle_succeed_def mark_task_succeeded_def Let_def update_run_if_def
      update_pipeline_run_def run_open_def run_tbl.get_upd split: option.split)

lemma completed_changes:
  "run_status row \<noteq> ''succeeded'' \<Longrightarrow> apply_run_update t (completed_update p) row \<noteq> row"
  by (auto dest!: arg_cong [where f = run_status] simp: completed_update_def)

text \<open>
  If the update of the second session does not wait, the first session has not written the run.
\<close>

lemma no_wait_open:
  assumes "\<not> waits_for_row run (completed_update p) b s s'"
    and "get_run b run \<noteq> None" "run_open run b" "run_open run s"
  shows "run_open run s'"
  using assms completed_changes
  by (auto simp: waits_for_row_def run_open_def split: option.splits)

lemma run_open_batch_review [simp]: "run_open r (check_batch_review env cid s) = run_open r s"
  by (simp add: check_batch_review_def delay_def Let_def)

lemma run_open_draft_made:
  assumes "draft_made env k rid cid ctx h b s = (e, b', s')" "run_open r b" "run_open r s"
    and "sh_pipeline_run_id h = rid"
    and "\<And>run. rid = Some run \<Longrightarrow> get_run b run \<noteq> None \<and> get_run s run \<noteq> None"
  shows "run_open r b' \<and> (\<forall>j. e = BReturn j \<longrightarrow> run_open r s')"
proof -
  obtain res b1 s1 where w: "run_draft_generation_step (pe_email_writer env) (pe_whatsapp_writer env)
      (pe_kapso env) (pe_mail env) k True ctx b s = (res, b1, s1)" by (cases rule: prod_cases3)
  have rs: "runs b1 \<in> {runs b, runs s}" "runs s1 \<in> {runs b, runs s}" using draft_step_runs [OF w] by auto
  have o: "run_open r b1" "run_open r s1" using ro.kept_in [OF rs(1)] ro.kept_in [OF rs(2)] assms by auto
  have ex: "get_run b1 run \<noteq> None" if "rid = Some run" for run
    using assms(5) [OF that] rs(1) by (auto simp: get_run_def)
  have own: "run_open r (handle_succeed h j None ps s1)" if "rid \<noteq> Some r" for j ps
    using succeed_other_run [OF o(2) that, of h j None ps] assms(4) by (cases h) auto
  let ?s2 = "\<lambda>p. handle_succeed h (Some (draft_payload p)) None
      (if rid = None then None else Some ''succeeded'') s1"
  have two: "run_open r (?s2 p)"
    if "\<not> (case rid of None \<Rightarrow> False
       | Some run \<Rightarrow> waits_for_row run (completed_update (draft_payload p)) b1 s1 (?s2 p))" for p
  proof (cases "rid = Some r")
    case True
    then show ?thesis using that no_wait_open ex o by auto
  qed (use own in blast)
  show ?thesis
  proof (cases res)
    case (Inr p)
    then show ?thesis
      using assms(1) w o two [of p]
      by (cases rid) (auto simp: draft_made_def Let_def split: if_splits)
  qed (use assms(1) w o in \<open>auto simp: draft_made_def Let_def\<close>)
qed

lemma run_open_draft_body:
  assumes "draft_body_of env k rid cid h b s = (e, b', s')" "run_open r b" "run_open r s"
    and "sh_pipeline_run_id h = rid"
    and "\<And>run. rid = Some run \<Longrightarrow> get_run b run \<noteq> None \<and> get_run s run \<noteq> None"
  shows "run_open r b' \<and> (\<forall>j. e = BReturn j \<longrightarrow> run_open r s')"
  using assms run_open_draft_made [OF _ assms(2-5)]
  by (auto simp: draft_body_of_def split: option.splits sum.splits)

section \<open>No run is ever finished\<close>

text \<open>What a worker does to the committed database with one message of the pipeline.\<close>

inductive worker_step :: "pipeline_env \<Rightarrow> store \<Rightarrow> store \<Rightarrow> bool" for env where
  ws_pipeline: "worker_step env db (snd (task_full_pipeline env rq k rid cid db))"
| ws_enrich: "worker_step env db (snd (task_enrich_lead env rq k rid cid db))"
| ws_score: "worker_step env db (snd (task_score_lead env rq k rid cid db))"
| ws_analyze: "worker_step env db (snd (task_analyze_lead env rq k rid cid db))"
| ws_draft: "worker_step env db (snd (task_generate_draft env rq k rid cid db))"

lemma worker_step_open:
  assumes "worker_step env db db'" "run_open r db"
  shows "run_open r db'"
  using assms
proof (cases rule: worker_step.cases)
  case (ws_pipeline rq k rid cid)
  then show ?thesis unfolding task_full_pipeline_def ws_pipeline(1)
    by (auto intro!: ro.kept_task [OF assms(2)] dest: ro.kept_pipeline_body [OF _ assms(2)])
next
  case (ws_enrich rq k rid cid)
  then show ?thesis unfolding task_enrich_lead_def ws_enrich(1)
    by (auto intro!: ro.kept_task [OF assms(2)] dest: ro.kept_enrich_body [OF _ assms(2)])
next
  case (ws_score rq k rid cid)
  then show ?thesis unfolding task_score_lead_def ws_score(1)
    by (auto intro!: ro.kept_task [OF assms(2)] dest: ro.kept_score_body [OF _ assms(2)])
next
  case (ws_analyze rq k rid cid)
  then show ?thesis unfolding task_analyze_lead_def ws_analyze(1)
    by (auto intro!: ro.kept_task [OF assms(2)] dest: ro.kept_analyze_body [OF _ assms(2)])
next
  case (ws_draft rq k rid cid)
  show ?thesis unfolding task_generate_draft_def ws_draft(1)
  proof (rule ro.kept_task [OF assms(2)])
    fix h s e b s'
    assume a: "draft_body_of env k rid cid h db s = (e, b, s')" "run_open r s"
      "mark_task_running db (rq_task_id rq) (kind_meta draft_kind rq k rid cid) db = Inr s"
      "sh_pipeline_run_id h = rid"
    show "run_open r b \<and> (\<forall>j. e = BReturn j \<longrightarrow> run_open r s')"
    proof (rule run_open_draft_body [OF a(1) assms(2) a(2,4)])
      fix run assume "rid = Some run"
      then have "tm_pipeline_run_id (kind_meta draft_kind rq k rid cid) = Some run"
        by (simp add: kind_meta_def)
      then show "get_run db run \<noteq> None \<and> get_run s run \<noteq> None" by (rule running_has_run [OF a(3)])
    qed
  qed
qed

text \<open>
  C13: No pipeline run ever finishes.  Whatever the tasks of the pipeline do, with any messages in
  any order, every web, model, mail server and messaging service, and however many retries, a run
  that is not succeeded is never committed as succeeded: only the draft task reports success, and
  the session in which it then updates the run waits for the row its own open transaction wrote.
\<close>

theorem pipeline_run_never_succeeds:
  assumes "(worker_step env)\<^sup>*\<^sup>* db db'"
    and "map_option run_status (get_run db r) \<noteq> Some ''succeeded''"
  shows "map_option run_status (get_run db' r) \<noteq> Some ''succeeded''"
proof -
  have "run_open r db'" using assms(1)
  proof (induction rule: rtranclp_induct)
    case base
    show ?case using assms(2) by (simp only: run_open_def not_False_eq_True)
  next
    case (step y z)
    show ?case by (rule worker_step_open [OF step.hyps(2) step.IH])
  qed
  then show ?thesis by (simp only: run_open_def not_False_eq_True)
qed

end
