(* ===== verification/Pipeline_Flow.thy ===== *)
theory Pipeline_Flow
  imports Pipeline_Safety
begin

text \<open>
  The three steps that prepare a lead against an abstract specification: a lead is a set of
  steps already done, a step adds itself to the set and sends one message to the next step.
  Then a worker that takes the messages in order is shown to bring a lead to its draft.
\<close>

section \<open>The abstract chain\<close>

datatype lead_step = Enriching | Scoring_it | Analyzing

fun step_done :: "lead_step \<Rightarrow> lead \<Rightarrow> bool" where
  "step_done Enriching l = (lead_enriched_at l \<noteq> None)"
| "step_done Scoring_it l = (lead_scored_at l \<noteq> None)"
| "step_done Analyzing l = (lead_llm_summary l \<noteq> None)"

definition steps_done :: "store \<Rightarrow> uuid \<Rightarrow> lead_step list" where
  "steps_done s k = (case get_lead s k of None \<Rightarrow> []
     | Some l \<Rightarrow> filter (\<lambda>st. step_done st l) [Enriching, Scoring_it, Analyzing])"

definition lead_quality :: "store \<Rightarrow> uuid \<Rightarrow> string option" where
  "lead_quality s k = Option.bind (get_lead s k) lead_llm_quality"

text \<open>The message a finished step owes to the next one; research is started without a run too.\<close>

fun next_calls ::
    "lead_step \<Rightarrow> string option \<Rightarrow> uuid \<Rightarrow> uuid option \<Rightarrow> string option \<Rightarrow> celery_call list" where
  "next_calls Enriching q k rid cid = (if rid = None then [] else [task_call score_name k rid cid])"
| "next_calls Scoring_it q k rid cid = (if rid = None then [] else [task_call analyze_name k rid cid])"
| "next_calls Analyzing q k rid cid =
     (if q = Some ''high'' then [task_call research_name k rid cid]
      else if rid = None then [] else [task_call draft_name k rid cid])"

text \<open>The abstract step: \<open>D\<close> is what is done, \<open>out\<close> what was sent.\<close>

definition abstract_step ::
    "lead_step \<Rightarrow> string option \<Rightarrow> uuid \<Rightarrow> uuid option \<Rightarrow> string option \<Rightarrow>
     lead_step set \<times> celery_call list \<Rightarrow> lead_step set \<times> celery_call list" where
  "abstract_step st q k rid cid p = (insert st (fst p), snd p @ next_calls st q k rid cid)"

definition flow_abs :: "uuid \<Rightarrow> store \<Rightarrow> lead_step set \<times> celery_call list" where
  "flow_abs k s = (set (steps_done s k), dispatched s)"

fun lead_task ::
    "lead_step \<Rightarrow> pipeline_env \<Rightarrow> request \<Rightarrow> uuid \<Rightarrow> uuid option \<Rightarrow> string option \<Rightarrow> store \<Rightarrow>
     task_end \<times> store" where
  "lead_task Enriching = task_enrich_lead"
| "lead_task Scoring_it = task_score_lead"
| "lead_task Analyzing = task_analyze_lead"

fun lead_body ::
    "lead_step \<Rightarrow> pipeline_env \<Rightarrow> uuid \<Rightarrow> uuid option \<Rightarrow> string option \<Rightarrow> task_body" where
  "lead_body Enriching = enrich_body"
| "lead_body Scoring_it = score_body"
| "lead_body Analyzing = analyze_body"

fun lead_kind :: "lead_step \<Rightarrow> task_kind" where
  "lead_kind Enriching = enrich_kind"
| "lead_kind Scoring_it = score_kind"
| "lead_kind Analyzing = analyze_kind"

lemma lead_task_run:
  "lead_task st env rq k rid cid db = run_task (lead_kind st) rq k rid cid (lead_body st env k rid cid) db"
  by (cases st) (simp_all add: task_enrich_lead_def task_score_lead_def task_analyze_lead_def)

section \<open>What the bookkeeping leaves alone\<close>

text \<open>Between the steps only the tracking rows and the audit log change.\<close>

definition tracking_only :: "store \<Rightarrow> store \<Rightarrow> bool" where
  "tracking_only s s' \<longleftrightarrow> (\<exists>ts rs es u. s' = s\<lparr>tasks := ts, runs := rs, lead_events := es, next_uuid := u\<rparr>)"

lemma tracking_onlyI:
  "s' = s\<lparr>tasks := tasks s', runs := runs s', lead_events := lead_events s', next_uuid := next_uuid s'\<rparr>
    \<Longrightarrow> tracking_only s s'"
  unfolding tracking_only_def by blast

lemma tracking_refl [simp]: "tracking_only s s"
  by (rule tracking_onlyI) simp

lemma tracking_trans: "tracking_only s s' \<Longrightarrow> tracking_only s' s'' \<Longrightarrow> tracking_only s s''"
  by (rule tracking_onlyI) (auto simp: tracking_only_def intro!: store.equality)

lemma tracking_rows:
  "tracking_only s (upd_task k f s)" "tracking_only s (upd_run r g s)" "tracking_only s (add_task t s)"
  "tracking_only s (emit_lead_event k' t' o' n p a s)" "tracking_only s (update_run_if rid u s)"
  by (rule tracking_onlyI, simp add: row_access_defs emit_lead_event_def tick_uuid_def
      update_run_if_def update_pipeline_run_def split: option.split)+

lemma tracking_fields:
  assumes "tracking_only s s'"
  shows "leads s' = leads s" "signals s' = signals s" "notifs s' = notifs s" "ops s' = ops s"
    "dispatched s' = dispatched s" "now s' = now s" "invocations s' = invocations s"
    "get_lead s' = get_lead s" "signals_of s' = signals_of s"
  using assms by (auto simp: tracking_only_def get_lead_def signals_of_def fun_eq_iff)

lemma tracking_queue:
  assumes "queue_task_run b tid m b = Inr s"
  shows "tracking_only b s"
  using assms tracking_rows
  by (auto simp: queue_task_run_def requeue_after_rollback_def Let_def rollback_to_def
      split: option.splits if_splits)

lemma tracking_running:
  assumes "mark_task_running b tid m b = Inr s"
  shows "tracking_only b s"
proof -
  obtain s1 where s1: "queue_task_run b tid m b = Inr s1"
    using assms by (auto simp: mark_task_running_def split: sum.splits)
  from tracking_queue [OF this] assms show ?thesis
    by (auto simp: mark_task_running_def s1 Let_def intro: tracking_trans [OF _ tracking_rows(5)]
        tracking_trans [OF _ tracking_rows(1)])
qed

lemma tracking_succeed: "tracking_only s (handle_succeed h res step ps s)"
  by (auto simp: handle_succeed_def mark_task_succeeded_def Let_def split: option.split
      intro!: tracking_trans [OF _ tracking_rows(5)] tracking_trans [OF _ tracking_rows(4)] tracking_rows)

lemma tracking_append: "tracking_only s (append_if env rid step c s)"
  by (auto simp: append_if_def append_step_context_def Let_def intro: tracking_rows split: option.split)

lemma tracking_both: "tracking_only s (append_if env rid step c (handle_succeed h res st ps s))"
  by (rule tracking_trans [OF tracking_succeed tracking_append])

section \<open>What a step does to its lead\<close>

text \<open>The lead the step leaves: only its own mark is new, unless it was there already.\<close>

definition step_result :: "lead_step \<Rightarrow> lead \<Rightarrow> lead \<Rightarrow> bool" where
  "step_result st l l' \<longleftrightarrow> (\<forall>st'. step_done st' l' \<longleftrightarrow> st' = st \<or> step_done st' l)
     \<and> (step_done st l \<longrightarrow> l' = l)"

lemma lead_step_all: "(\<forall>st. P st) \<longleftrightarrow> P Enriching \<and> P Scoring_it \<and> P Analyzing"
  by (metis lead_step.exhaust)

lemma step_result_same: "step_done st l \<Longrightarrow> step_result st l l"
  by (auto simp: step_result_def)

lemma stamp_lead_marks [simp]:
  "step_done st (stamp_lead s f l) = step_done st (f l)"
  "lead_llm_quality (stamp_lead s f l) = lead_llm_quality (f l)"
  by (cases st; simp add: stamp_lead_def)+

lemma get_lead_upd:
  assumes "\<And>x. lead_id (f x) = lead_id x" "get_lead s k = Some l"
  shows "get_lead (upd_lead k f s) k = Some (stamp_lead s f l)"
  using lead_tbl.get_upd_same [OF assms] .

lemma lead_in_enrich [simp]:
  "get_lead (replace_signals k gs s) = get_lead s" "get_lead (store_screenshot e l2 u g s) = get_lead s"
  by (simp_all add: get_lead_def fun_eq_iff replace_signals_effect)

lemma enrich_step:
  assumes "get_lead s k = Some l" "\<not> step_done Enriching l" "enrich_lead e k s = Inr (p, s')"
  shows "\<exists>l'. p = Some l' \<and> get_lead s' k = Some l' \<and> step_result Enriching l l'
    \<and> dispatched s' = dispatched s"
proof -
  from assms(1,3) obtain l1 where l1: "move_social l = Inr l1"
    by (auto simp: enrich_lead_def split: sum.splits)
  let ?l2 = "website_from_bio e l1" and ?u = "\<lambda>es v. upd_lead k (set_enriched (now s) (website_from_bio e l1) es) v"
  have "\<exists>es v. s' = ?u es v \<and> get_lead v = get_lead s \<and> p = get_lead s' k"
  proof (cases "truthy (lead_website_url ?l2)")
    case True
    then obtain gs es where "analyze_website e (text_or_empty (lead_website_url ?l2)) = Inr (gs, es)"
      using assms(1,3) l1 by (auto simp: enrich_lead_def Let_def split: sum.splits)
    with True assms(1,3) l1 show ?thesis
      by (intro exI [of _ es] exI [of _ "replace_signals k (gs @ instagram_only_signals ?l2)
          (store_screenshot e ?l2 (text_or_empty (lead_website_url ?l2)) gs s)"])
        (auto simp: enrich_lead_def Let_def)
  next
    case False
    with assms(1,3) l1 show ?thesis
      by (intro exI [of _ "[]"] exI [of _ "replace_signals k ([(NO_WEBSITE, ''No website URL provided'')]
          @ instagram_only_signals ?l2) s"]) (auto simp: enrich_lead_def Let_def)
  qed
  then obtain es v where s': "s' = ?u es v" and v: "get_lead v k = Some l" and p: "p = get_lead s' k"
    using assms(1) by metis
  let ?l' = "stamp_lead v (set_enriched (now s) ?l2 es) l"
  have g: "get_lead s' k = Some ?l'" unfolding s' by (rule get_lead_upd [OF _ v]) simp
  have "step_result Enriching l ?l'"
    using assms(2) by (simp add: step_result_def lead_step_all) (simp add: set_enriched_def)
  with g p enrich_lead_rest [OF assms(3)] show ?thesis by auto
qed

lemma score_step:
  assumes "get_lead s k = Some l" "\<not> step_done Scoring_it l" "notifs b = notifs s"
    and "score_lead b k s = (p, s')"
  shows "\<exists>l'. p = Some l' \<and> get_lead s' k = Some l' \<and> step_result Scoring_it l l'
    \<and> dispatched s' = dispatched s"
proof -
  let ?s1 = "scored_state k l s" and ?x = "compute_score l (signals_of s k) None"
  have n: "notif_frame ?s1 s'" and p: "p = get_lead ?s1 k"
    using score_lead_cases [OF assms(1), of b] assms(3,4) by (auto simp: has_dedup_key_def)
  let ?l' = "stamp_lead s (set_score (now s) ?x) l"
  have g: "get_lead ?s1 k = Some ?l'" unfolding scored_state_def
    by (rule get_lead_upd [OF _ assms(1)]) (simp add: set_score_def)
  have "get_lead s' = get_lead ?s1" using notif_frame_fields(1) [OF n] by (simp add: get_lead_def fun_eq_iff)
  moreover have "dispatched s' = dispatched s"
    using notif_frame_fields(21) [OF n] by (simp add: scored_state_def)
  moreover have "step_result Scoring_it l ?l'"
    using assms(2) by (simp add: step_result_def lead_step_all) (simp add: set_score_def)
  ultimately show ?thesis using g p by auto
qed

lemma analyze_step:
  assumes "get_lead s k = Some l" "\<not> step_done Analyzing l"
    and "run_lead_analysis_step env l s = Inr (a, s')"
  shows "\<exists>l'. get_lead s' k = Some l' \<and> step_result Analyzing l l' \<and> dispatched s' = dispatched s
    \<and> lead_llm_quality l' = Some (an_quality a)"
proof -
  have k: "lead_id l = k" using lead_tbl.get_key [OF assms(1)] .
  have s': "s' = upd_lead k (set_analysis a) s"
    using assms(3) by (auto simp: run_lead_analysis_step_def Let_def k split: sum.splits)
  let ?l' = "stamp_lead s (set_analysis a) l"
  have g: "get_lead s' k = Some ?l'" unfolding s'
    by (rule get_lead_upd [OF _ assms(1)]) (simp add: set_analysis_def)
  have "step_result Analyzing l ?l'"
    using assms(2) by (simp add: step_result_def lead_step_all) (simp add: set_analysis_def)
  with g show ?thesis unfolding s' by (simp add: set_analysis_def)
qed

section \<open>What a step sends\<close>

definition broker_up :: "pipeline_env \<Rightarrow> bool" where
  "broker_up env \<longleftrightarrow> (\<forall>n \<in> set [enrich_name, score_name, analyze_name, draft_name, research_name].
     pe_broker env n)"

lemma dispatch_fields [simp]:
  "dispatched (dispatch c s) = dispatched s @ [c]" "get_lead (dispatch c s) = get_lead s"
  by (simp_all add: dispatch_def get_lead_def fun_eq_iff)

lemma chain_up:
  assumes "pe_broker env n"
  shows "chain env n k rid cid res b s =
    (BReturn res, b, if rid = None then s else dispatch (task_call n k rid cid) s)"
  using assms by (simp add: chain_def delay_def task_call_def)

lemma by_quality_up:
  assumes "broker_up env"
  shows "chain_by_quality env q k rid cid res b s =
    (BReturn res, b, fold dispatch (next_calls Analyzing q k rid cid) s)"
  using assms by (simp add: chain_by_quality_def broker_up_def chain_up delay_def task_call_def)

lemma fold_dispatch [simp]:
  "dispatched (fold dispatch cs s) = dispatched s @ cs" "get_lead (fold dispatch cs s) = get_lead s"
  by (induction cs arbitrary: s) simp_all

text \<open>
  The end of a body whose broker is up: the lead as the step left it, and what is owed to the
  next step.
\<close>

definition step_ends ::
    "lead_step \<Rightarrow> uuid \<Rightarrow> uuid option \<Rightarrow> string option \<Rightarrow> lead \<Rightarrow> store \<Rightarrow> store \<Rightarrow> bool" where
  "step_ends st k rid cid l s s' \<longleftrightarrow> (\<exists>l'. get_lead s' k = Some l' \<and> step_result st l l'
     \<and> dispatched s' = dispatched s @ next_calls st (lead_llm_quality l') k rid cid)"

lemma step_endsI:
  assumes "get_lead v k = Some l'" "step_result st l l'" "dispatched v = dispatched s"
    and "tracking_only v v'" "s' = fold dispatch (next_calls st (lead_llm_quality l') k rid cid) v'"
  shows "step_ends st k rid cid l s s'"
  unfolding step_ends_def
  using assms tracking_fields(5,8) [OF assms(4)] by (intro exI [of _ l']) simp

text \<open>The exception a step raises on a lead it has still to do.\<close>

fun step_raises :: "lead_step \<Rightarrow> pipeline_env \<Rightarrow> uuid \<Rightarrow> lead \<Rightarrow> store \<Rightarrow> string option" where
  "step_raises Enriching env k l s =
     (case enrich_lead (pe_web env) k s of Inl e \<Rightarrow> Some e | Inr _ \<Rightarrow> None)"
| "step_raises Scoring_it env k l s = None"
| "step_raises Analyzing env k l s =
     (case run_lead_analysis_step env l s of Inl e \<Rightarrow> Some e | Inr _ \<Rightarrow> None)"

definition body_outcome ::
    "lead_step \<Rightarrow> pipeline_env \<Rightarrow> uuid \<Rightarrow> uuid option \<Rightarrow> string option \<Rightarrow> lead \<Rightarrow> store \<Rightarrow>
     body_end \<times> store \<times> store \<Rightarrow> bool" where
  "body_outcome st env k rid cid l s r \<longleftrightarrow> (case r of
     (BReturn j, b', s') \<Rightarrow> step_ends st k rid cid l s s'
   | (BRaise err, b', s') \<Rightarrow> \<not> step_done st l \<and> step_raises st env k l s = Some err
   | (BWait, b', s') \<Rightarrow> False)"

lemma chain_fold:
  assumes "pe_broker env n"
  shows "chain env n k rid cid res b s =
    (BReturn res, b, fold dispatch (if rid = None then [] else [task_call n k rid cid]) s)"
  using chain_up [OF assms] by simp

lemma step_ends_skip:
  assumes "get_lead s k = Some l" "step_done st l"
    and "s' = fold dispatch (next_calls st (lead_llm_quality l) k rid cid) (handle_succeed h r None None s)"
  shows "step_ends st k rid cid l s s'"
  using assms by (intro step_endsI [OF _ step_result_same _ tracking_succeed]) auto

lemma step_ends_done:
  assumes "get_lead v k = Some l'" "step_result st l l'" "dispatched v = dispatched s"
  shows "step_ends st k rid cid l s (fold dispatch (next_calls st (lead_llm_quality l') k rid cid)
    (append_if env rid' step c (handle_succeed h r x y v)))"
  by (rule step_endsI [OF assms tracking_both refl])

lemma enrich_outcome:
  assumes "broker_up env" "get_lead s k = Some l"
  shows "body_outcome Enriching env k rid cid l s (enrich_body env k rid cid h b s)"
proof (cases "step_done Enriching l")
  case True
  have c: "chain env score_name k rid cid r b v = (BReturn r, b, fold dispatch (next_calls Enriching q k rid cid) v)"
    for r v q using assms(1) chain_fold [of env score_name] by (simp add: broker_up_def)
  with True assms(2) show ?thesis
    by (auto simp: body_outcome_def enrich_body_def Let_def c [of _ _ "lead_llm_quality l"]
        simp del: next_calls.simps intro!: step_ends_skip [OF assms(2) True])
next
  case False
  have c: "chain env score_name k rid cid r b v = (BReturn r, b, fold dispatch (next_calls Enriching q k rid cid) v)"
    for r v q using assms(1) chain_fold [of env score_name] by (simp add: broker_up_def)
  show ?thesis
  proof (cases "enrich_lead (pe_web env) k s")
    case (Inr p)
    obtain l' v where p: "p = (Some l', v)" and e: "get_lead v k = Some l'" "step_result Enriching l l'"
      "dispatched v = dispatched s"
      using enrich_step [OF assms(2) False, of "pe_web env" "fst p" "snd p"] Inr by (cases p) auto
    show ?thesis using False assms(2) Inr p
      by (auto simp: body_outcome_def enrich_body_def Let_def c [of _ _ "lead_llm_quality l'"]
          simp del: next_calls.simps intro!: step_ends_done [OF e])
  qed (use False assms(2) in \<open>auto simp: body_outcome_def enrich_body_def\<close>)
qed

lemma score_outcome:
  assumes "broker_up env" "get_lead s k = Some l" "notifs b = notifs s"
  shows "body_outcome Scoring_it env k rid cid l s (score_body env k rid cid h b s)"
proof (cases "step_done Scoring_it l")
  case True
  have c: "chain env analyze_name k rid cid r b v = (BReturn r, b, fold dispatch (next_calls Scoring_it q k rid cid) v)"
    for r v q using assms(1) chain_fold [of env analyze_name] by (simp add: broker_up_def)
  with True assms(2) show ?thesis
    by (auto simp: body_outcome_def score_body_def Let_def c [of _ _ "lead_llm_quality l"]
        simp del: next_calls.simps intro!: step_ends_skip [OF assms(2) True])
next
  case False
  have c: "chain env analyze_name k rid cid r b v = (BReturn r, b, fold dispatch (next_calls Scoring_it q k rid cid) v)"
    for r v q using assms(1) chain_fold [of env analyze_name] by (simp add: broker_up_def)
  obtain l' v where p: "score_lead b k s = (Some l', v)" and e: "get_lead v k = Some l'"
    "step_result Scoring_it l l'" "dispatched v = dispatched s"
    using score_step [OF assms(2) False assms(3)] by (cases "score_lead b k s") blast
  show ?thesis using False assms(2) p
    by (auto simp: body_outcome_def score_body_def Let_def c [of _ _ "lead_llm_quality l'"]
        simp del: next_calls.simps intro!: step_ends_done [OF e])
qed

lemma analyze_outcome:
  assumes "broker_up env" "get_lead s k = Some l"
  shows "body_outcome Analyzing env k rid cid l s (analyze_body env k rid cid h b s)"
proof (cases "step_done Analyzing l")
  case True
  with assms show ?thesis
    by (auto simp: body_outcome_def analyze_body_def Let_def by_quality_up simp del: next_calls.simps
        intro!: step_ends_skip [OF assms(2) True])
next
  case False
  show ?thesis
  proof (cases "run_lead_analysis_step env l s")
    case (Inr p)
    obtain a v where p: "p = (a, v)" by (cases p)
    obtain l' where e: "get_lead v k = Some l'" "step_result Analyzing l l'" "dispatched v = dispatched s"
      and q: "lead_llm_quality l' = Some (an_quality a)"
      using analyze_step [OF assms(2) False Inr [unfolded p]] by blast
    show ?thesis using False assms Inr p
      by (auto simp: body_outcome_def analyze_body_def Let_def by_quality_up q [symmetric]
          simp del: next_calls.simps intro!: step_ends_done [OF e])
  qed (use False assms(2) in \<open>auto simp: body_outcome_def analyze_body_def\<close>)
qed

lemma lead_outcome:
  assumes "broker_up env" "get_lead s k = Some l" "notifs b = notifs s"
  shows "body_outcome st env k rid cid l s (lead_body st env k rid cid h b s)"
  using assms enrich_outcome score_outcome analyze_outcome by (cases st) auto

section \<open>A step as a task\<close>

lemma running_ok:
  assumes "task_fk_ok b m"
  shows "\<exists>s. mark_task_running b tid m b = Inr s"
  using assms by (auto simp: mark_task_running_def queue_task_run_def Let_def split: option.split)

lemma kind_fk:
  "task_fk_ok db (kind_meta kind rq k rid cid)
     \<longleftrightarrow> get_lead db k \<noteq> None \<and> (\<forall>r. rid = Some r \<longrightarrow> has_run r db)"
  by (auto simp: task_fk_ok_def kind_meta_def has_run_def split: option.splits)

lemma task_failed_not_returned: "fst (task_failed kind rq k rid cid err db) \<noteq> Returned j"
  by (simp add: task_failed_def split: sum.split)

lemma step_ends_from:
  assumes "step_ends st k rid cid l s s'" "dispatched s = dispatched db"
  shows "step_ends st k rid cid l db s'"
  using assms by (simp add: step_ends_def)

lemma lead_task_outcome:
  assumes "broker_up env" "get_lead db k = Some l"
  shows "(\<exists>j. fst (lead_task st env rq k rid cid db) = Returned j
        \<and> step_ends st k rid cid l db (snd (lead_task st env rq k rid cid db)))
    \<or> (\<forall>j. fst (lead_task st env rq k rid cid db) \<noteq> Returned j)
      \<and> ((\<exists>r. rid = Some r \<and> \<not> has_run r db)
         \<or> (\<exists>s err. tracking_only db s \<and> \<not> step_done st l \<and> step_raises st env k l s = Some err))"
proof (cases "mark_task_running db (rq_task_id rq) (kind_meta (lead_kind st) rq k rid cid) db")
  case (Inl e)
  then have "\<not> task_fk_ok db (kind_meta (lead_kind st) rq k rid cid)" using running_ok [of db "kind_meta (lead_kind st) rq k rid cid" "rq_task_id rq"] by auto
  then show ?thesis using assms(2) Inl
    by (auto simp: lead_task_run run_task_def kind_fk task_failed_not_returned)
next
  case (Inr s)
  note t = tracking_running [OF Inr]
  note f = tracking_fields [OF t]
  let ?h = "\<lparr>sh_task_id = rq_task_id rq, sh_current_step = tk_step (lead_kind st), sh_pipeline_run_id = rid\<rparr>"
  obtain e b s' where e: "lead_body st env k rid cid ?h db s = (e, b, s')" by (cases rule: prod_cases3)
  have "body_outcome st env k rid cid l s (e, b, s')"
    using lead_outcome [OF assms(1), of s k l db st rid cid ?h] assms(2) f(3,8) by (simp add: e)
  then show ?thesis using t step_ends_from [OF _ f(5)]
    by (cases e) (auto simp: body_outcome_def lead_task_run run_task_def Inr e task_failed_not_returned)
qed

text \<open>
  C11: The tasks implement the abstract chain: when the enrichment, scoring or analysis task
  returns for an existing lead with the broker up, the abstraction of the committed database has
  made exactly the abstract step.  The lead has the step marked as done and no other mark
  changed, one message went to the next step (to research for a high quality, and none without
  a run otherwise), and a lead that had the step done already is committed unchanged.
\<close>

theorem pipeline_step_refines:
  assumes "broker_up env" "get_lead db k = Some l"
    and "lead_task st env rq k rid cid db = (Returned j, db')"
  shows "flow_abs k db' = abstract_step st (lead_quality db' k) k rid cid (flow_abs k db)
    \<and> (st \<in> set (steps_done db k) \<longrightarrow> get_lead db' k = get_lead db k)"
proof -
  have "step_ends st k rid cid l db db'" using lead_task_outcome [OF assms(1,2), of st rq rid cid] assms(3) by simp
  then obtain l' where l': "get_lead db' k = Some l'" and r: "step_result st l l'"
    and d: "dispatched db' = dispatched db @ next_calls st (lead_llm_quality l') k rid cid"
    by (auto simp: step_ends_def)
  have "set (steps_done db' k) = insert st (set (steps_done db k))"
    using r by (cases st) (auto simp: steps_done_def l' assms(2) step_result_def)
  then have "flow_abs k db' = abstract_step st (lead_quality db' k) k rid cid (flow_abs k db)"
    by (simp add: flow_abs_def abstract_step_def d lead_quality_def l')
  moreover have "st \<in> set (steps_done db k) \<longrightarrow> get_lead db' k = get_lead db k"
    using r by (auto simp: steps_done_def l' assms(2) step_result_def split: if_splits)
  ultimately show ?thesis ..
qed

section \<open>A worker\<close>

text \<open>
  Processing one message of the lead pipeline; \<open>None\<close> for a message that another module of tasks
  answers.
\<close>

definition consume :: "pipeline_env \<Rightarrow> celery_call \<Rightarrow> request \<Rightarrow> store \<Rightarrow> (task_end \<times> store) option" where
  "consume env c rq db = (case call_lead_id c of None \<Rightarrow> None | Some k \<Rightarrow>
     (let args = (\<lambda>t. Some (t env rq k (call_pipeline_run_id c) (call_correlation_id c) db)) in
      if call_task c = tk_celery pipeline_kind then args task_full_pipeline
      else if call_task c = enrich_name then args task_enrich_lead
      else if call_task c = score_name then args task_score_lead
      else if call_task c = analyze_name then args task_analyze_lead
      else if call_task c = draft_name then args task_generate_draft
      else None))"

text \<open>
  A worker takes the messages in the order they were sent, one request for each, until it has no
  request left or meets a message of another module.  The result: the messages left over and the
  database.
\<close>

fun worker ::
    "pipeline_env \<Rightarrow> request list \<Rightarrow> celery_call list \<Rightarrow> store \<Rightarrow> celery_call list \<times> store" where
  "worker env (rq # rqs) (c # q) db = (case consume env c rq db of
     None \<Rightarrow> (c # q, db)
   | Some (e, db') \<Rightarrow> worker env rqs (q @ drop (length (dispatched db)) (dispatched db')) db')"
| "worker env rqs q db = (q, db)"

text \<open>Nothing goes wrong for this lead: its website can be parsed and the models answer.\<close>

definition enrichable :: "web \<Rightarrow> lead \<Rightarrow> bool" where
  "enrichable e l = (case move_social l of Inl _ \<Rightarrow> False
     | Inr l1 \<Rightarrow> let l2 = website_from_bio e l1 in
         truthy (lead_website_url l2) \<longrightarrow> \<not> isl (analyze_website e (text_or_empty (lead_website_url l2))))"

definition models_answer :: "pipeline_env \<Rightarrow> bool" where
  "models_answer env \<longleftrightarrow>
     (\<forall>l sigs. \<not> isl (pe_summarize env l sigs) \<and> \<not> isl (pe_evaluate env l sigs))"

lemma enrichable_runs:
  assumes "get_lead s k = Some l" "enrichable e l"
  shows "\<exists>p. enrich_lead e k s = Inr p"
  using assms
  by (auto simp: enrichable_def enrich_lead_def Let_def split: sum.splits)

lemma analysis_runs: "models_answer env \<Longrightarrow> \<exists>p. run_lead_analysis_step env l s = Inr p"
  by (cases "pe_summarize env l (signals_of s (lead_id l))";
      cases "pe_evaluate env l (signals_of s (lead_id l))")
    (auto simp: models_answer_def run_lead_analysis_step_def Let_def 
      dest!: spec [of _ l] spec [of _ "signals_of s (lead_id l)"])

lemma step_keeps_run:
  assumes "has_run r db"
  shows "has_run r (snd (lead_task st env rq k rid cid db))"
  unfolding lead_task_run
  by (rule hr.kept_task [OF assms])
    (cases st; auto dest: hr.kept_enrich_body [OF _ assms] hr.kept_score_body [OF _ assms]
      hr.kept_analyze_body [OF _ assms])

lemma lead_task_done:
  assumes "broker_up env" "models_answer env" "get_lead db k = Some l" "has_run r db"
    and "st = Enriching \<Longrightarrow> enrichable (pe_web env) l"
  shows "step_ends st k (Some r) cid l db (snd (lead_task st env rq k (Some r) cid db))"
proof -
  have "step_raises st env k l s = None" if "tracking_only db s" for s
  proof -
    have "get_lead s k = Some l" using tracking_fields(8) [OF that] assms(3) by simp
    then show ?thesis
      using enrichable_runs [of s k l "pe_web env"] analysis_runs [OF assms(2), of l s] assms(5)
      by (cases st) auto
  qed
  then show ?thesis using lead_task_outcome [OF assms(1,3), of st rq "Some r" cid] assms(4) by auto
qed

lemma pipeline_task_done:
  assumes "broker_up env" "get_lead db k = Some l" "has_run r db" "check_daily_budget db"
    and res_def: "res = task_full_pipeline env rq k (Some r) cid db"
  shows "get_lead (snd res) k = Some l \<and> has_run r (snd res)
    \<and> dispatched (snd res) = dispatched db @ [task_call enrich_name k (Some r) cid]"
proof -
  obtain s where s: "mark_task_running db (rq_task_id rq) (kind_meta pipeline_kind rq k (Some r) cid) db = Inr s"
    using running_ok kind_fk assms(2,3) by (metis option.distinct(1) option.inject)
  note f = tracking_fields [OF tracking_running [OF s]]
  let ?h = "\<lparr>sh_task_id = rq_task_id rq, sh_current_step = tk_step pipeline_kind, sh_pipeline_run_id = Some r\<rparr>"
  have same_cost: "get_today_cost_usd s = get_today_cost_usd db"
    using f(6,7) by (simp add: get_today_cost_usd_def)
  then have b: "check_daily_budget s"
    using assms(4) f(4) unfolding check_daily_budget_def by (simp split: option.splits)
  have d: "delay env (task_call enrich_name k (Some r) cid) s = Inr (dispatch (task_call enrich_name k (Some r) cid) s)"
    using assms(1) by (simp add: delay_def broker_up_def task_call_def)
  let ?v = "dispatch (task_call enrich_name k (Some r) cid) s"
  obtain j ps where "pipeline_body env k (Some r) cid ?h db s = (BReturn j, db, handle_succeed ?h (Some j) None ps ?v)"
    and ps: "ps = Some ''running''"
    by (auto simp: pipeline_body_def b d Let_def)
  then have r: "res = (Returned j, handle_succeed ?h (Some j) None ps ?v)"
    by (simp add: res_def task_full_pipeline_def run_task_def s)
  have "has_run r s" by (rule hr.kept_running [OF s assms(3,3)])
  then have "has_run r (snd res)" unfolding r by (simp add: ps hr.kept_handle)
  with tracking_fields(5,8) [OF tracking_succeed [of ?v ?h "Some j" None ps]] f(5,8) assms(2)
  show ?thesis by (simp add: r)
qed

definition pipeline_call :: "uuid \<Rightarrow> uuid \<Rightarrow> string option \<Rightarrow> celery_call" where
  "pipeline_call k r cid = task_call (tk_celery pipeline_kind) k (Some r) cid"

lemma consume_calls:
  "consume env (pipeline_call k r cid) rq db = Some (task_full_pipeline env rq k (Some r) cid db)"
  "consume env (task_call enrich_name k rid cid) rq db = Some (lead_task Enriching env rq k rid cid db)"
  "consume env (task_call score_name k rid cid) rq db = Some (lead_task Scoring_it env rq k rid cid db)"
  "consume env (task_call analyze_name k rid cid) rq db = Some (lead_task Analyzing env rq k rid cid db)"
  by (simp_all add: consume_def task_call_def pipeline_call_def pipeline_kind_def enrich_name_def
      score_name_def analyze_name_def)

text \<open>One message in, the message owed to the next step out.\<close>

lemma worker_one:
  assumes "consume env c rq db = Some res" "dispatched (snd res) = dispatched db @ cs"
  shows "worker env (rq # rqs) [c] db = worker env rqs cs (snd res)"
  using assms by (cases res) auto

text \<open>
  C12: A lead gets through the pipeline: from the message that starts a pipeline, a worker with
  the broker up, answering models, a parsable website and budget left takes exactly four messages
  to enrich, score and analyse an existing lead whatever was done to it before, and is left with
  one message, research for a lead of high quality and a draft for any other.
\<close>

theorem pipeline_reaches_draft:
  assumes "broker_up env" "models_answer env" "get_lead db k = Some l" "enrichable (pe_web env) l"
    and "get_run db r \<noteq> None" "check_daily_budget db" "length rqs = 4"
  shows "\<exists>c db'. worker env rqs [pipeline_call k r cid] db = ([c], db')
    \<and> set (steps_done db' k) = {Enriching, Scoring_it, Analyzing}
    \<and> c = task_call (if lead_quality db' k = Some ''high'' then research_name else draft_name)
        k (Some r) cid"
proof -
  from assms(7) obtain q0 q1 q2 q3 where q: "rqs = [q0, q1, q2, q3]" by (auto simp: length_Suc_conv eval_nat_numeral)
  note ends = lead_task_done [OF assms(1,2)]
  have r0: "has_run r db" using assms(5) by (simp add: has_run_def)
  define p0 where "p0 = task_full_pipeline env q0 k (Some r) cid db"
  have p0: "get_lead (snd p0) k = Some l" "has_run r (snd p0)"
    "dispatched (snd p0) = dispatched db @ [task_call enrich_name k (Some r) cid]"
    using pipeline_task_done [OF assms(1,3) r0 assms(6) p0_def] by auto
  define p1 where "p1 = lead_task Enriching env q1 k (Some r) cid (snd p0)"
  have "step_ends Enriching k (Some r) cid l (snd p0) (snd p1)"
    unfolding p1_def by (rule ends [OF p0(1,2)]) (rule assms(4))
  then obtain l1 where l1: "get_lead (snd p1) k = Some l1" "step_result Enriching l l1"
    and d1: "dispatched (snd p1) = dispatched (snd p0) @ [task_call score_name k (Some r) cid]"
    by (auto simp: step_ends_def)
  have r1: "has_run r (snd p1)" unfolding p1_def by (rule step_keeps_run [OF p0(2)])
  define p2 where "p2 = lead_task Scoring_it env q2 k (Some r) cid (snd p1)"
  have "step_ends Scoring_it k (Some r) cid l1 (snd p1) (snd p2)"
    unfolding p2_def by (rule ends [OF l1(1) r1]) simp
  then obtain l2 where l2: "get_lead (snd p2) k = Some l2" "step_result Scoring_it l1 l2"
    and d2: "dispatched (snd p2) = dispatched (snd p1) @ [task_call analyze_name k (Some r) cid]"
    by (auto simp: step_ends_def)
  have r2: "has_run r (snd p2)" unfolding p2_def by (rule step_keeps_run [OF r1])
  define p3 where "p3 = lead_task Analyzing env q3 k (Some r) cid (snd p2)"
  have "step_ends Analyzing k (Some r) cid l2 (snd p2) (snd p3)"
    unfolding p3_def by (rule ends [OF l2(1) r2]) simp
  then obtain l3 where l3: "get_lead (snd p3) k = Some l3" "step_result Analyzing l2 l3"
    and d3: "dispatched (snd p3)
      = dispatched (snd p2) @ next_calls Analyzing (lead_llm_quality l3) k (Some r) cid"
    by (auto simp: step_ends_def)
  have "worker env rqs [pipeline_call k r cid] db
      = worker env [] (next_calls Analyzing (lead_llm_quality l3) k (Some r) cid) (snd p3)"
    unfolding q worker_one [OF consume_calls(1) p0(3) [unfolded p0_def]] p0_def [symmetric]
      worker_one [OF consume_calls(2) d1 [unfolded p1_def]] p1_def [symmetric]
      worker_one [OF consume_calls(3) d2 [unfolded p2_def]] p2_def [symmetric]
      worker_one [OF consume_calls(4) d3 [unfolded p3_def]] p3_def [symmetric] ..
  moreover have "set (steps_done (snd p3) k) = {Enriching, Scoring_it, Analyzing}"
    using l1(2) l2(2) l3(2) by (auto simp: steps_done_def l3(1) step_result_def)
  ultimately show ?thesis
    by (intro exI [of _ "task_call (if lead_llm_quality l3 = Some ''high'' then research_name
        else draft_name) k (Some r) cid"] exI [of _ "snd p3"]) (simp add: lead_quality_def l3(1))
qed

section \<open>A closed example\<close>

definition demo_pipeline_env :: pipeline_env where
  "demo_pipeline_env = \<lparr>pe_web = demo_web, pe_summarize = (\<lambda>l g. Inr ''A bar''),
     pe_evaluate = (\<lambda>l g. Inr (Some ('' High '', ''busy'', ''a website''))),
     pe_email_writer = demo_email_writer, pe_whatsapp_writer = demo_wa_writer,
     pe_kapso = (\<lambda>p t l ps. Inr None), pe_mail = demo_mail (Accepted ''m''),
     pe_float = (\<lambda>x. ''1.5''), pe_other = (\<lambda>j. ''''), pe_broker = (\<lambda>n. True)\<rparr>"

definition demo_request :: request where
  "demo_request = \<lparr>rq_task_id = ''t1'', rq_queue = None, rq_retries = 0\<rparr>"

definition demo_pipeline_store :: store where
  "demo_pipeline_store = snd (create_pipeline_run 1 ''pipeline_dispatch'' (Some ''c'')
     (add_lead (blank_lead 1 ''Bar'' 0) (empty_store 7)))"

lemma demo_pipeline_lead: "get_lead demo_pipeline_store 1 = Some (blank_lead 1 ''Bar'' 0)"
  by (simp add: demo_pipeline_store_def create_pipeline_run_def get_lead_def add_run_def add_lead_def
      empty_store_def tick_uuid_def Let_def blank_lead_def)

lemma demo_pipeline_run: "map_option run_status (get_run demo_pipeline_store 0) = Some ''queued''"
  by code_simp

lemma demo_nothing_sent: "dispatched demo_pipeline_store = []"
  by (simp add: demo_pipeline_store_def create_pipeline_run_def add_run_def add_lead_def empty_store_def
      tick_uuid_def Let_def)

lemma demo_env_up: "broker_up demo_pipeline_env" "models_answer demo_pipeline_env"
  by (simp_all add: broker_up_def models_answer_def demo_pipeline_env_def)

theorem pipeline_step_refines_witness:
  "flow_abs 1 (snd (lead_task Scoring_it demo_pipeline_env demo_request 1 None None demo_pipeline_store))
     = ({Scoring_it}, [])"
proof -
  let ?t = "lead_task Scoring_it demo_pipeline_env demo_request 1 None None demo_pipeline_store"
  obtain j where "fst ?t = Returned j"
    using lead_task_outcome [OF demo_env_up(1) demo_pipeline_lead, of Scoring_it demo_request None None]
    by auto
  then have t: "?t = (Returned j, snd ?t)" by (cases ?t) simp
  have "flow_abs 1 demo_pipeline_store = ({}, [])"
    by (simp add: flow_abs_def steps_done_def demo_pipeline_lead demo_nothing_sent blank_lead_def
        del: One_nat_def)
  with pipeline_step_refines [OF demo_env_up(1) demo_pipeline_lead t] show ?thesis
    by (simp add: abstract_step_def del: One_nat_def)
qed

theorem pipeline_reaches_draft_witness:
  "\<exists>c db'. worker demo_pipeline_env (replicate 4 demo_request) [pipeline_call 1 0 None]
      demo_pipeline_store = ([c], db') \<and> set (steps_done db' 1) = {Enriching, Scoring_it, Analyzing}"
proof -
  have e: "enrichable (pe_web demo_pipeline_env) (blank_lead 1 ''Bar'' 0)"
    by (simp add: enrichable_def move_social_def website_from_bio_def blank_lead_def Let_def)
  have r: "get_run demo_pipeline_store 0 \<noteq> None" using demo_pipeline_run by auto
  have b: "check_daily_budget demo_pipeline_store"
    by (simp add: check_daily_budget_def demo_pipeline_store_def create_pipeline_run_def add_run_def
        add_lead_def empty_store_def tick_uuid_def Let_def)
  from pipeline_reaches_draft [OF demo_env_up demo_pipeline_lead e r b, of "replicate 4 demo_request" None]
  show ?thesis by auto
qed

theorem pipeline_run_never_succeeds_witness:
  "map_option run_status (get_run (snd (task_generate_draft demo_pipeline_env demo_request 1 (Some 0)
     None demo_pipeline_store)) 0) \<noteq> Some ''succeeded''"
  by (rule pipeline_run_never_succeeds [OF r_into_rtranclp [of "worker_step demo_pipeline_env"],
        OF ws_draft]) (simp add: demo_pipeline_run)

end
