(* ===== verification/Territories.thy ===== *)
theory Territories
  imports Operational_Tasks "HOL-Library.Multiset" "HOL-Library.List_Lexorder" "HOL-Library.Char_ord"
begin

text \<open>
  Territories and the growth agent: the territory service (\<open>app/services/territories/\<close>), the
  performance metrics and the decisions of the growth cycle (\<open>app/services/growth/\<close>) and their
  tasks (\<open>app/workers/growth_tasks.py\<close>), with the table of known cities.
\<close>

section \<open>Stages and rates\<close>

fun pipeline_order :: "LeadStatus \<Rightarrow> int option" where
  "pipeline_order NEW = Some 0"
| "pipeline_order ENRICHED = Some 1"
| "pipeline_order SCORED = Some 2"
| "pipeline_order QUALIFIED = Some 3"
| "pipeline_order DRAFT_READY = Some 4"
| "pipeline_order APPROVED = Some 5"
| "pipeline_order CONTACTED = Some 6"
| "pipeline_order OPENED = Some 7"
| "pipeline_order REPLIED = Some 8"
| "pipeline_order MEETING = Some 9"
| "pipeline_order WON = Some 10"
| "pipeline_order st = None"

definition stage_rank :: "LeadStatus \<Rightarrow> int option" where
  "stage_rank st = (case pipeline_order st of Some n \<Rightarrow> Some n
     | None \<Rightarrow> if st = LOST then pipeline_order CONTACTED else None)"

definition reached_stage :: "LeadStatus \<Rightarrow> LeadStatus \<Rightarrow> bool" where
  "reached_stage st stage = (case (stage_rank st, pipeline_order stage) of
     (Some cur, Some goal) \<Rightarrow> goal \<le> cur | _ \<Rightarrow> False)"

text \<open>\<open>round(x, n)\<close> of an exact number.\<close>

definition round_digits :: "nat \<Rightarrow> pyfloat \<Rightarrow> pyfloat" where
  "round_digits n x = of_int (round_half_even (10 ^ n * x)) / 10 ^ n"

definition safe_rate :: "nat \<Rightarrow> nat \<Rightarrow> pyfloat" where
  "safe_rate num den = (if den = 0 then 0 else of_nat num / of_nat den)"

definition safe_average :: "pyfloat list \<Rightarrow> pyfloat" where
  "safe_average xs = (if xs = [] then 0 else sum_list xs / of_nat (length xs))"

definition count_leads :: "(lead \<Rightarrow> bool) \<Rightarrow> lead list \<Rightarrow> nat" where
  "count_leads p ls = length (filter p ls)"

definition lead_scores :: "lead list \<Rightarrow> pyfloat list" where
  "lead_scores ls = List.map_filter lead_score ls"

section \<open>The territory service\<close>

record territory_create =
  tc_name :: string
  tc_description :: "string option"
  tc_color :: string
  tc_cities :: "string list"
  tc_is_active :: bool

text \<open>
  The fields of \<open>TerritoryUpdate\<close> that were sent (\<open>exclude_unset\<close>), with an explicit null as
  \<open>Some None\<close>.  A null list of cities is stored as a JSON null, which every reader of the model
  takes for an empty list.
\<close>

record territory_update =
  tu_terr_name :: "string option option"
  tu_terr_description :: "string option option"
  tu_terr_color :: "string option option"
  tu_terr_cities :: "string list option option"
  tu_terr_active :: "bool option option"

definition get_territory :: "store \<Rightarrow> uuid \<Rightarrow> territory option" where
  "get_territory s k = find (\<lambda>t. terr_id t = k) (territories s)"

definition new_territory :: "territory_create \<Rightarrow> store \<Rightarrow> territory" where
  "new_territory d s = \<lparr>terr_id = next_uuid s, terr_name = tc_name d,
     terr_description = tc_description d, terr_color = tc_color d, terr_cities = tc_cities d,
     terr_is_active = tc_is_active d, terr_country_code = ''AR'', terr_center_lat = None,
     terr_center_lng = None, terr_bbox = None, terr_last_crawled_at = None,
     terr_last_dup_ratio = None, terr_crawl_count = 0, terr_is_saturated = False,
     terr_created_at = now s, terr_updated_at = now s\<rparr>"

text \<open>The names are unique.\<close>

definition name_taken :: "store \<Rightarrow> uuid \<Rightarrow> string \<Rightarrow> bool" where
  "name_taken s k n = (\<exists>t \<in> set (territories s). terr_name t = n \<and> terr_id t \<noteq> k)"

definition create_territory :: "territory_create \<Rightarrow> store \<Rightarrow> db_error + territory \<times> store" where
  "create_territory d s =
     (let t = new_territory d s in
      if name_taken s (terr_id t) (terr_name t) then Inl IntegrityError
      else Inr (t, (tick_uuid s)\<lparr>territories := territories s @ [t]\<rparr>))"

definition list_territories :: "store \<Rightarrow> territory list" where
  "list_territories s = sort_key terr_name (territories s)"

definition upd_territory :: "uuid \<Rightarrow> (territory \<Rightarrow> territory) \<Rightarrow> store \<Rightarrow> store" where
  "upd_territory k f s = s\<lparr>territories :=
     map (\<lambda>t. if terr_id t = k then (f t)\<lparr>terr_updated_at := now s\<rparr> else t) (territories s)\<rparr>"

text \<open>\<open>setattr\<close> of the sent fields; a null in a column that takes none fails the flush.\<close>

definition null_refused :: "territory_update \<Rightarrow> bool" where
  "null_refused d = (tu_terr_name d = Some None \<or> tu_terr_color d = Some None
     \<or> tu_terr_active d = Some None)"

definition sent :: "'a option option \<Rightarrow> 'a \<Rightarrow> 'a" where
  "sent v old = (case v of Some (Some x) \<Rightarrow> x | _ \<Rightarrow> old)"

definition apply_territory_update :: "territory_update \<Rightarrow> territory \<Rightarrow> territory" where
  "apply_territory_update d t = t\<lparr>terr_name := sent (tu_terr_name d) (terr_name t),
     terr_description := (case tu_terr_description d of None \<Rightarrow> terr_description t | Some v \<Rightarrow> v),
     terr_color := sent (tu_terr_color d) (terr_color t),
     terr_cities := (case tu_terr_cities d of None \<Rightarrow> terr_cities t
       | Some None \<Rightarrow> [] | Some (Some cs) \<Rightarrow> cs),
     terr_is_active := sent (tu_terr_active d) (terr_is_active t)\<rparr>"

definition update_territory ::
    "uuid \<Rightarrow> territory_update \<Rightarrow> store \<Rightarrow> db_error + territory option \<times> store" where
  "update_territory k d s = (case get_territory s k of
     None \<Rightarrow> Inr (None, s)
   | Some t \<Rightarrow>
       if null_refused d \<or> name_taken s k (sent (tu_terr_name d) (terr_name t))
       then Inl IntegrityError
       else (let s' = upd_territory k (apply_territory_update d) s
             in Inr (get_territory s' k, s')))"

text \<open>Deleting a territory deletes its performance snapshots.\<close>

definition delete_territory :: "uuid \<Rightarrow> store \<Rightarrow> bool \<times> store" where
  "delete_territory k s = (if get_territory s k = None then (False, s)
     else (True, s\<lparr>territories := filter (\<lambda>t. terr_id t \<noteq> k) (territories s),
       terr_perfs := filter (\<lambda>p. tp_territory_id p \<noteq> k) (terr_perfs s)\<rparr>))"

definition get_leads_in_cities :: "store \<Rightarrow> string list \<Rightarrow> nat option \<Rightarrow> lead list" where
  "get_leads_in_cities s cities most =
     (if cities = [] then []
      else let ls = filter (\<lambda>l. \<exists>c \<in> set cities. lead_city l = Some c) (leads s)
           in case most of None \<Rightarrow> ls | Some n \<Rightarrow> take n ls)"

record territory_stats =
  st_lead_count :: nat
  st_avg_score :: pyfloat
  st_qualified_count :: nat
  st_conversion_rate :: pyfloat

definition get_territory_stats :: "store \<Rightarrow> territory \<Rightarrow> territory_stats" where
  "get_territory_stats s t =
     (let ls = get_leads_in_cities s (terr_cities t) None;
          qualified = count_leads (\<lambda>l. reached_stage (lead_status l) QUALIFIED) ls;
          contacted = count_leads (\<lambda>l. reached_stage (lead_status l) CONTACTED) ls;
          won = count_leads (\<lambda>l. lead_status l = WON) ls
      in \<lparr>st_lead_count = length ls, st_avg_score = round_digits 1 (safe_average (lead_scores ls)),
           st_qualified_count = qualified,
           st_conversion_rate = round_digits 4 (safe_rate won contacted)\<rparr>)"

definition get_all_territories_with_stats :: "store \<Rightarrow> (territory \<times> territory_stats) list" where
  "get_all_territories_with_stats s = map (\<lambda>t. (t, get_territory_stats s t)) (list_territories s)"

section \<open>Performance\<close>

record lead_metrics =
  mt_leads_created :: nat
  mt_leads_qualified :: nat
  mt_leads_contacted :: nat
  mt_leads_won :: nat
  mt_leads_lost :: nat
  mt_conversion_rate :: pyfloat
  mt_avg_score :: pyfloat

definition compute_metrics :: "lead list \<Rightarrow> lead_metrics" where
  "compute_metrics ls =
     (let won = count_leads (\<lambda>l. lead_status l = WON) ls in
      \<lparr>mt_leads_created = length ls,
       mt_leads_qualified = count_leads (\<lambda>l. reached_stage (lead_status l) QUALIFIED) ls,
       mt_leads_contacted = count_leads (\<lambda>l. reached_stage (lead_status l) CONTACTED) ls,
       mt_leads_won = won, mt_leads_lost = count_leads (\<lambda>l. lead_status l = LOST) ls,
       mt_conversion_rate = round_digits 4 (safe_rate won (length ls)),
       mt_avg_score = round_digits 2 (safe_average (lead_scores ls))\<rparr>)"

definition period_bounds :: "int \<Rightarrow> store \<Rightarrow> datetime \<times> datetime" where
  "period_bounds n s = (now s - days n, now s)"

definition in_period :: "datetime \<times> datetime \<Rightarrow> lead \<Rightarrow> bool" where
  "in_period p l = (fst p \<le> lead_created_at l \<and> lead_created_at l < snd p)"

definition leads_for_cities :: "store \<Rightarrow> string list \<Rightarrow> datetime \<times> datetime \<Rightarrow> lead list" where
  "leads_for_cities s cities p =
     (if cities = [] then []
      else filter (\<lambda>l. (\<exists>c \<in> set cities. lead_city l = Some c) \<and> in_period p l) (leads s))"

definition snapshot_duplicates :: "territory \<Rightarrow> lead_metrics \<Rightarrow> int" where
  "snapshot_duplicates t m = (case terr_last_dup_ratio t of None \<Rightarrow> 0
     | Some r \<Rightarrow> if mt_leads_created m = 0 then 0
                 else round_half_even (r * of_nat (mt_leads_created m)))"

definition snapshot_territory_performance ::
    "territory \<Rightarrow> int \<Rightarrow> store \<Rightarrow> territory_performance \<times> store" where
  "snapshot_territory_performance t n s =
     (let p = period_bounds n s;
          m = compute_metrics (leads_for_cities s (terr_cities t) p);
          snap = \<lparr>tp_id = next_uuid s, tp_territory_id = terr_id t, tp_period_start = fst p,
            tp_period_end = snd p, tp_leads_created = int (mt_leads_created m),
            tp_leads_qualified = int (mt_leads_qualified m),
            tp_leads_contacted = int (mt_leads_contacted m), tp_leads_won = int (mt_leads_won m),
            tp_leads_lost = int (mt_leads_lost m), tp_total_duplicates = snapshot_duplicates t m,
            tp_conversion_rate = mt_conversion_rate m, tp_avg_score = mt_avg_score m,
            tp_created_at = now s\<rparr>
      in (snap, (tick_uuid s)\<lparr>terr_perfs := terr_perfs s @ [snap]\<rparr>))"

text \<open>The dict of a snapshot or of fresh metrics.\<close>

record performance =
  pf_territory_id :: uuid
  pf_territory_name :: string
  pf_period :: "datetime \<times> datetime"
  pf_leads_created :: int
  pf_leads_qualified :: int
  pf_leads_contacted :: int
  pf_leads_won :: int
  pf_leads_lost :: int
  pf_total_duplicates :: int
  pf_conversion_rate :: pyfloat
  pf_avg_score :: pyfloat

definition snapshot_to_dict :: "territory_performance \<Rightarrow> territory \<Rightarrow> performance" where
  "snapshot_to_dict p t = \<lparr>pf_territory_id = tp_territory_id p, pf_territory_name = terr_name t,
     pf_period = (tp_period_start p, tp_period_end p), pf_leads_created = tp_leads_created p,
     pf_leads_qualified = tp_leads_qualified p, pf_leads_contacted = tp_leads_contacted p,
     pf_leads_won = tp_leads_won p, pf_leads_lost = tp_leads_lost p,
     pf_total_duplicates = tp_total_duplicates p, pf_conversion_rate = tp_conversion_rate p,
     pf_avg_score = tp_avg_score p\<rparr>"

definition metrics_to_dict ::
    "lead_metrics \<Rightarrow> datetime \<times> datetime \<Rightarrow> territory \<Rightarrow> performance" where
  "metrics_to_dict m p t = \<lparr>pf_territory_id = terr_id t, pf_territory_name = terr_name t,
     pf_period = p, pf_leads_created = int (mt_leads_created m),
     pf_leads_qualified = int (mt_leads_qualified m),
     pf_leads_contacted = int (mt_leads_contacted m), pf_leads_won = int (mt_leads_won m),
     pf_leads_lost = int (mt_leads_lost m), pf_total_duplicates = 0,
     pf_conversion_rate = mt_conversion_rate m, pf_avg_score = mt_avg_score m\<rparr>"

definition get_territory_performance :: "store \<Rightarrow> territory \<Rightarrow> int \<Rightarrow> performance" where
  "get_territory_performance s t n =
     (let p = period_bounds n s in
      case first_max tp_period_end (filter (\<lambda>q. tp_territory_id q = terr_id t
             \<and> fst p \<le> tp_period_end q) (terr_perfs s)) of
        Some q \<Rightarrow> snapshot_to_dict q t
      | None \<Rightarrow> metrics_to_dict (compute_metrics (leads_for_cities s (terr_cities t) p)) p t)"

definition get_all_territory_performance :: "store \<Rightarrow> int \<Rightarrow> performance list" where
  "get_all_territory_performance s n =
     map (\<lambda>t. get_territory_performance s t n)
       (sort_key terr_name (filter terr_is_active (territories s)))"

text \<open>Grouping by industry, in order of first appearance, then by size, largest first.\<close>

fun add_bucket :: "string \<Rightarrow> lead \<Rightarrow> (string \<times> lead list) list \<Rightarrow> (string \<times> lead list) list" where
  "add_bucket c l [] = [(c, [l])]"
| "add_bucket c l ((c', ls) # bs) =
     (if c' = c then (c', ls @ [l]) # bs else (c', ls) # add_bucket c l bs)"

definition category_buckets :: "lead list \<Rightarrow> (string \<times> lead list) list" where
  "category_buckets ls = fold (\<lambda>l bs. if truthy (lead_industry l)
     then add_bucket (text_or_empty (lead_industry l)) l bs else bs) ls []"

definition get_category_performance ::
    "store \<Rightarrow> territory option \<Rightarrow> int \<Rightarrow> (string \<times> lead_metrics) list" where
  "get_category_performance s t n =
     (let p = period_bounds n s;
          ls = filter (\<lambda>l. lead_industry l \<noteq> None \<and> in_period p l
                 \<and> (case t of None \<Rightarrow> True | Some t \<Rightarrow> \<exists>c \<in> set (terr_cities t). lead_city l = Some c))
               (leads s)
      in if (case t of None \<Rightarrow> False | Some t \<Rightarrow> terr_cities t = []) then []
         else sort_key (\<lambda>x. - int (mt_leads_created (snd x)))
           (map (\<lambda>(c, g). (c, compute_metrics g)) (category_buckets ls)))"

section \<open>Known cities\<close>

definition city_province :: "(string \<times> string) list" where
  "city_province =
     [(''Buenos Aires'', ''CABA''), (''CABA'', ''CABA''), (''Capital Federal'', ''CABA''),
      (''Palermo'', ''CABA''), (''Belgrano'', ''CABA''), (''Recoleta'', ''CABA''),
      (''Caballito'', ''CABA''), (''Villa Urquiza'', ''CABA''), (''Flores'', ''CABA''),
      (''Barracas'', ''CABA''), (''Almagro'', ''CABA''), (''Villa Crespo'', ''CABA''),
      (''Boedo'', ''CABA''), (''San Isidro'', ''Buenos Aires''), (''Tigre'', ''Buenos Aires''),
      (''Pilar'', ''Buenos Aires''), (''Quilmes'', ''Buenos Aires''),
      (''Lomas de Zamora'', ''Buenos Aires''), (''Mor'' @ [CHR 0xF3] @ ''n'', ''Buenos Aires''),
      (''Lan'' @ [CHR 0xFA] @ ''s'', ''Buenos Aires''), (''Avellaneda'', ''Buenos Aires''),
      (''Vicente L'' @ [CHR 0xF3] @ ''pez'', ''Buenos Aires''),
      (''San Mart'' @ [CHR 0xED] @ ''n'', ''Buenos Aires''),
      (''San Fernando'', ''Buenos Aires''), (''Florencio Varela'', ''Buenos Aires''),
      (''Berazategui'', ''Buenos Aires''), (''Ituzaing'' @ [CHR 0xF3], ''Buenos Aires''),
      (''Merlo'', ''Buenos Aires''), (''Moreno'', ''Buenos Aires''),
      (''Jos'' @ [CHR 0xE9] @ '' C. Paz'', ''Buenos Aires''),
      (''Malvinas Argentinas'', ''Buenos Aires''), (''Escobar'', ''Buenos Aires''),
      (''La Matanza'', ''Buenos Aires''), (''Ezeiza'', ''Buenos Aires''),
      (''La Plata'', ''Buenos Aires''), (''Mar del Plata'', ''Buenos Aires''),
      (''Bah'' @ [CHR 0xED] @ ''a Blanca'', ''Buenos Aires''), (''Tandil'', ''Buenos Aires''),
      (''Olavarr'' @ [CHR 0xED] @ ''a'', ''Buenos Aires''),
      (''Jun'' @ [CHR 0xED] @ ''n'', ''Buenos Aires''), (''Pergamino'', ''Buenos Aires''),
      (''San Nicol'' @ [CHR 0xE1] @ ''s de los Arroyos'', ''Buenos Aires''),
      (''Z'' @ [CHR 0xE1] @ ''rate'', ''Buenos Aires''), (''Campana'', ''Buenos Aires''),
      (''C'' @ [CHR 0xF3] @ ''rdoba'', ''C'' @ [CHR 0xF3] @ ''rdoba''),
      (''R'' @ [CHR 0xED] @ ''o Cuarto'', ''C'' @ [CHR 0xF3] @ ''rdoba''),
      (''Villa Carlos Paz'', ''C'' @ [CHR 0xF3] @ ''rdoba''),
      (''Villa Mar'' @ [CHR 0xED] @ ''a'', ''C'' @ [CHR 0xF3] @ ''rdoba''),
      (''San Francisco'', ''C'' @ [CHR 0xF3] @ ''rdoba''),
      (''R'' @ [CHR 0xED] @ ''o Tercero'', ''C'' @ [CHR 0xF3] @ ''rdoba''),
      (''Rosario'', ''Santa Fe''), (''Santa Fe'', ''Santa Fe''), (''Rafaela'', ''Santa Fe''),
      (''Venado Tuerto'', ''Santa Fe''), (''Mendoza'', ''Mendoza''),
      (''San Rafael'', ''Mendoza''),
      (''Tucum'' @ [CHR 0xE1] @ ''n'', ''Tucum'' @ [CHR 0xE1] @ ''n''),
      (''San Miguel de Tucum'' @ [CHR 0xE1] @ ''n'', ''Tucum'' @ [CHR 0xE1] @ ''n''),
      (''Salta'', ''Salta''), (''San Salvador de Jujuy'', ''Jujuy''),
      (''San Juan'', ''San Juan''), (''Resistencia'', ''Chaco''),
      (''Neuqu'' @ [CHR 0xE9] @ ''n'', ''Neuqu'' @ [CHR 0xE9] @ ''n''),
      (''Posadas'', ''Misiones''), (''San Luis'', ''San Luis''),
      (''Paran'' @ [CHR 0xE1], ''Entre R'' @ [CHR 0xED] @ ''os''),
      (''Concordia'', ''Entre R'' @ [CHR 0xED] @ ''os''), (''Formosa'', ''Formosa''),
      (''Corrientes'', ''Corrientes''), (''Santiago del Estero'', ''Santiago del Estero''),
      (''La Rioja'', ''La Rioja''), (''Catamarca'', ''Catamarca''),
      (''San Fernando del Valle de Catamarca'', ''Catamarca''), (''Rawson'', ''Chubut''),
      (''Trelew'', ''Chubut''), (''Puerto Madryn'', ''Chubut''),
      (''Comodoro Rivadavia'', ''Chubut''),
      (''R'' @ [CHR 0xED] @ ''o Gallegos'', ''Santa Cruz''), (''Ushuaia'', ''Tierra del Fuego''),
      (''Viedma'', ''R'' @ [CHR 0xED] @ ''o Negro''),
      (''San Carlos de Bariloche'', ''R'' @ [CHR 0xED] @ ''o Negro''),
      (''Santa Rosa'', ''La Pampa'')]"

definition city_coords :: "(string \<times> pyfloat \<times> pyfloat) list" where
  "city_coords =
     [(''Buenos Aires'', - 346037 / 10000, - 583816 / 10000),
      (''CABA'', - 346037 / 10000, - 583816 / 10000),
      (''Capital Federal'', - 346037 / 10000, - 583816 / 10000),
      (''Palermo'', - 345875 / 10000, - 584237 / 10000),
      (''Belgrano'', - 345627 / 10000, - 584565 / 10000),
      (''Recoleta'', - 345889 / 10000, - 583938 / 10000),
      (''Caballito'', - 346186 / 10000, - 584359 / 10000),
      (''Villa Urquiza'', - 345733 / 10000, - 584889 / 10000),
      (''Flores'', - 346358 / 10000, - 584633 / 10000),
      (''Barracas'', - 346455 / 10000, - 583840 / 10000),
      (''Almagro'', - 346089 / 10000, - 584196 / 10000),
      (''Villa Crespo'', - 345989 / 10000, - 584363 / 10000),
      (''Boedo'', - 346284 / 10000, - 584159 / 10000),
      (''San Isidro'', - 344727 / 10000, - 585276 / 10000),
      (''Tigre'', - 344264 / 10000, - 585796 / 10000),
      (''Pilar'', - 344587 / 10000, - 589142 / 10000),
      (''Quilmes'', - 347203 / 10000, - 582535 / 10000),
      (''Lomas de Zamora'', - 347612 / 10000, - 583948 / 10000),
      (''Mor'' @ [CHR 0xF3] @ ''n'', - 346534 / 10000, - 586198 / 10000),
      (''Lan'' @ [CHR 0xFA] @ ''s'', - 347066 / 10000, - 583928 / 10000),
      (''Avellaneda'', - 346603 / 10000, - 583649 / 10000),
      (''Vicente L'' @ [CHR 0xF3] @ ''pez'', - 345215 / 10000, - 584730 / 10000),
      (''San Mart'' @ [CHR 0xED] @ ''n'', - 345744 / 10000, - 585350 / 10000),
      (''San Fernando'', - 344440 / 10000, - 585596 / 10000),
      (''Florencio Varela'', - 347967 / 10000, - 582756 / 10000),
      (''Berazategui'', - 347624 / 10000, - 582098 / 10000),
      (''Ituzaing'' @ [CHR 0xF3], - 346592 / 10000, - 586731 / 10000),
      (''Merlo'', - 346685 / 10000, - 587277 / 10000),
      (''Moreno'', - 346333 / 10000, - 587917 / 10000),
      (''Jos'' @ [CHR 0xE9] @ '' C. Paz'', - 345143 / 10000, - 587658 / 10000),
      (''Malvinas Argentinas'', - 344971 / 10000, - 586961 / 10000),
      (''Escobar'', - 343476 / 10000, - 587953 / 10000),
      (''La Matanza'', - 347700 / 10000, - 586250 / 10000),
      (''Ezeiza'', - 348543 / 10000, - 585228 / 10000),
      (''C'' @ [CHR 0xF3] @ ''rdoba'', - 314201 / 10000, - 641888 / 10000),
      (''Rosario'', - 329468 / 10000, - 606393 / 10000),
      (''Mendoza'', - 328908 / 10000, - 688272 / 10000),
      (''La Plata'', - 349215 / 10000, - 579545 / 10000),
      (''Tucum'' @ [CHR 0xE1] @ ''n'', - 268083 / 10000, - 652176 / 10000),
      (''San Miguel de Tucum'' @ [CHR 0xE1] @ ''n'', - 268083 / 10000, - 652176 / 10000),
      (''Mar del Plata'', - 380055 / 10000, - 575426 / 10000),
      (''Salta'', - 247821 / 10000, - 654232 / 10000),
      (''Santa Fe'', - 316333 / 10000, - 607000 / 10000),
      (''San Juan'', - 315375 / 10000, - 685364 / 10000),
      (''Resistencia'', - 274513 / 10000, - 589867 / 10000),
      (''Neuqu'' @ [CHR 0xE9] @ ''n'', - 389516 / 10000, - 680591 / 10000),
      (''Posadas'', - 273621 / 10000, - 558961 / 10000),
      (''San Luis'', - 332996 / 10000, - 663357 / 10000),
      (''Bah'' @ [CHR 0xED] @ ''a Blanca'', - 387196 / 10000, - 622724 / 10000),
      (''Paran'' @ [CHR 0xE1], - 317413 / 10000, - 605116 / 10000),
      (''Formosa'', - 261775 / 10000, - 581781 / 10000),
      (''Corrientes'', - 274806 / 10000, - 588341 / 10000),
      (''San Salvador de Jujuy'', - 241858 / 10000, - 652995 / 10000),
      (''Santiago del Estero'', - 277951 / 10000, - 642615 / 10000),
      (''R'' @ [CHR 0xED] @ ''o Cuarto'', - 331307 / 10000, - 643499 / 10000),
      (''Concordia'', - 313930 / 10000, - 580209 / 10000),
      (''La Rioja'', - 294131 / 10000, - 668558 / 10000),
      (''Catamarca'', - 284696 / 10000, - 657795 / 10000),
      (''San Fernando del Valle de Catamarca'', - 284696 / 10000, - 657795 / 10000),
      (''San Rafael'', - 346175 / 10000, - 674867 / 10000),
      (''Rawson'', - 433002 / 10000, - 651023 / 10000),
      (''R'' @ [CHR 0xED] @ ''o Gallegos'', - 516226 / 10000, - 692181 / 10000),
      (''Ushuaia'', - 548019 / 10000, - 683030 / 10000),
      (''Viedma'', - 408135 / 10000, - 629967 / 10000),
      (''Santa Rosa'', - 366167 / 10000, - 642833 / 10000),
      (''Comodoro Rivadavia'', - 458656 / 10000, - 674823 / 10000),
      (''Trelew'', - 432489 / 10000, - 653050 / 10000),
      (''Puerto Madryn'', - 427692 / 10000, - 650385 / 10000),
      (''San Carlos de Bariloche'', - 411335 / 10000, - 713103 / 10000),
      (''Villa Carlos Paz'', - 314241 / 10000, - 644978 / 10000),
      (''Rafaela'', - 312533 / 10000, - 614867 / 10000),
      (''Venado Tuerto'', - 337456 / 10000, - 619692 / 10000),
      (''Tandil'', - 373217 / 10000, - 591332 / 10000),
      (''Olavarr'' @ [CHR 0xED] @ ''a'', - 368927 / 10000, - 603222 / 10000),
      (''Jun'' @ [CHR 0xED] @ ''n'', - 345849 / 10000, - 609539 / 10000),
      (''Pergamino'', - 338997 / 10000, - 605707 / 10000),
      (''San Nicol'' @ [CHR 0xE1] @ ''s de los Arroyos'', - 333299 / 10000, - 602241 / 10000),
      (''Z'' @ [CHR 0xE1] @ ''rate'', - 340977 / 10000, - 590281 / 10000),
      (''Campana'', - 341685 / 10000, - 589587 / 10000),
      (''Villa Mar'' @ [CHR 0xED] @ ''a'', - 324074 / 10000, - 632429 / 10000),
      (''San Francisco'', - 314282 / 10000, - 620828 / 10000),
      (''R'' @ [CHR 0xED] @ ''o Tercero'', - 321731 / 10000, - 641131 / 10000)]"

text \<open>Every city an active territory covers.\<close>

definition covered_cities :: "store \<Rightarrow> string set" where
  "covered_cities s = set (concat (map terr_cities (filter terr_is_active (territories s))))"

definition get_cities_in_province :: "string \<Rightarrow> string set \<Rightarrow> string list" where
  "get_cities_in_province province excluded =
     (if province = [] then []
      else let goal = lower (strip province)
           in sort (map fst (filter (\<lambda>(c, p). lower p = goal \<and> c \<notin> excluded) city_province)))"

definition city_entry :: "string \<times> pyfloat \<times> pyfloat \<Rightarrow> json" where
  "city_entry c = JObj [(''name'', JStr (fst c)), (''province'', jstr (map_of city_province (fst c))),
     (''lat'', JFloat (fst (snd c))), (''lng'', JFloat (snd (snd c)))]"

definition get_uncovered_cities :: "store \<Rightarrow> nat \<Rightarrow> json list" where
  "get_uncovered_cities s most =
     (if most = 0 then []
      else map city_entry (take most (sort_key fst
        (filter (\<lambda>c. fst c \<notin> covered_cities s) city_coords))))"

section \<open>The growth agent\<close>

record growth_action =
  ga_territory_id :: "string option"
  ga_new_cities :: "string list option"
  ga_new_categories :: "string list option"
  ga_new_source :: "string option"

record growth_decision =
  gn_decision :: string
  gn_reason :: string
  gn_action :: growth_action
  gn_confidence :: pyfloat
  gn_next_step :: string

record growth_state =
  gs_saturated_territories :: "territory list"
  gs_territory_performance :: "performance list"
  gs_available_cities :: "string list"
  gs_current_categories :: "string list"
  gs_runs_24h :: nat
  gs_succeeded :: nat
  gs_failed :: nat

text \<open>
  What the agent takes from outside: the model, the categories of the crawler, how the database
  reads a text as a key (\<open>None\<close>: it refuses it, and the transaction with it), and the order in
  which a set of cities is written as a list.
\<close>

record growth_env =
  ge_decide :: "growth_state \<Rightarrow> string + growth_decision"
  ge_categories :: "string list"
  ge_parse_uuid :: "string \<Rightarrow> uuid option"
  ge_set_list :: "string list \<Rightarrow> string list"

definition member_key :: "string \<Rightarrow> json \<Rightarrow> string + json" where
  "member_key k j = (case json_get k j of Some v \<Rightarrow> Inr v | None \<Rightarrow> Inl ''KeyError'')"

text \<open>The loop \<open>[entry["city"] for entry in available]\<close>.\<close>

fun city_names :: "json list \<Rightarrow> string + string list" where
  "city_names [] = Inr []"
| "city_names (e # es) = (case member_key ''city'' e of
     Inl err \<Rightarrow> Inl err
   | Inr v \<Rightarrow> (case city_names es of Inl err \<Rightarrow> Inl err
       | Inr cs \<Rightarrow> Inr ((case v of JStr c \<Rightarrow> c | _ \<Rightarrow> []) # cs)))"

definition get_growth_state :: "growth_env \<Rightarrow> store \<Rightarrow> string + growth_state" where
  "get_growth_state env s =
     (let recent = filter (\<lambda>r. case run_started_at r of None \<Rightarrow> False
            | Some t \<Rightarrow> now s - hours 24 \<le> t) (runs s)
      in case city_names (get_uncovered_cities s 30) of
           Inl err \<Rightarrow> Inl err
         | Inr cs \<Rightarrow> Inr \<lparr>
             gs_saturated_territories =
               filter (\<lambda>t. terr_is_active t \<and> terr_is_saturated t) (territories s),
             gs_territory_performance = get_all_territory_performance s 30,
             gs_available_cities = cs, gs_current_categories = ge_categories env,
             gs_runs_24h = length recent,
             gs_succeeded = length (filter (\<lambda>r. run_status r = ''succeeded'') recent),
             gs_failed = length (filter (\<lambda>r. run_status r = ''failed'') recent)\<rparr>)"

definition jstrs :: "string list option \<Rightarrow> json" where
  "jstrs v = (case v of None \<Rightarrow> JNull | Some xs \<Rightarrow> JList (map JStr xs))"

definition growth_result :: "growth_decision \<Rightarrow> bool \<Rightarrow> (string \<times> json) list \<Rightarrow> json" where
  "growth_result d applied rest =
     JObj ([(''applied'', JBool applied), (''decision_type'', JStr (gn_decision d))] @ rest)"

definition because :: "string \<Rightarrow> string \<times> json" where
  "because r = (''reason'', JStr r)"

text \<open>
  \<open>execute_growth_decision\<close>: the result, and the session, \<open>None\<close> when the database refused the
  key and has aborted the transaction.
\<close>

definition expand_territory :: "growth_env \<Rightarrow> growth_decision \<Rightarrow> store \<Rightarrow> json \<times> store option" where
  "expand_territory env d s =
     (let a = gn_action d in
      if \<not> truthy (ga_territory_id a) \<or> ga_new_cities a \<in> {None, Some []}
      then (growth_result d False [because ''missing_territory_id_or_cities''], Some s)
      else (case ge_parse_uuid env (text_or_empty (ga_territory_id a)) of
        None \<Rightarrow> (growth_result d False [because ''territory_not_found''], None)
      | Some k \<Rightarrow> (case get_territory s k of
          None \<Rightarrow> (growth_result d False [because ''territory_not_found''], Some s)
        | Some t \<Rightarrow>
            let to_add = filter (\<lambda>c. c \<notin> set (terr_cities t)) (the (ga_new_cities a));
                cs = ge_set_list env (terr_cities t @ to_add)
            in if to_add = [] then (growth_result d False [because ''no_new_cities_to_add''], Some s)
               else (growth_result d True [(''territory_id'', JStr (uuid_str k)),
                   (''cities_added'', JList (map JStr to_add)),
                   (''total_cities'', JInt (int (length cs)))],
                 Some (upd_territory k (\<lambda>t. t\<lparr>terr_cities := cs, terr_is_saturated := False\<rparr>) s)))))"

definition execute_growth_decision ::
    "growth_env \<Rightarrow> growth_decision \<Rightarrow> store \<Rightarrow> json \<times> store option" where
  "execute_growth_decision env d s =
     (if gn_decision d = ''expand'' then expand_territory env d s
      else if gn_decision d = ''niche''
      then (growth_result d False [because ''niche_shift_logged_no_action_yet'',
        (''new_categories'', jstrs (ga_new_categories (gn_action d)))], Some s)
      else if gn_decision d = ''source''
      then (growth_result d False [because ''source_diversification_not_implemented'',
        (''new_source'', jstr (ga_new_source (gn_action d)))], Some s)
      else (growth_result d False [because (''unknown_decision_type:'' @ gn_decision d)], Some s))"

definition action_json :: "growth_action \<Rightarrow> json" where
  "action_json a = JObj [(''territory_id'', jstr (ga_territory_id a)),
     (''new_cities'', jstrs (ga_new_cities a)), (''new_categories'', jstrs (ga_new_categories a)),
     (''new_source'', jstr (ga_new_source a))]"

definition decision_json :: "growth_decision \<Rightarrow> json" where
  "decision_json d = JObj [(''decision'', JStr (gn_decision d)), (''reason'', JStr (gn_reason d)),
     (''action'', action_json (gn_action d)), (''confidence'', JFloat (gn_confidence d)),
     (''next_step'', JStr (gn_next_step d))]"

definition growth_log :: "growth_decision \<Rightarrow> json \<Rightarrow> store \<Rightarrow> growth_decision_log" where
  "growth_log d res s = \<lparr>gd_id = next_uuid s, gd_created_at = now s, gd_decision_type = gn_decision d,
     gd_reason = gn_reason d, gd_action_data = Some (action_json (gn_action d)),
     gd_confidence = gn_confidence d, gd_result = Some res, gd_leads_generated_7d = None,
     gd_conversions_7d = None\<rparr>"

definition run_growth_cycle :: "growth_env \<Rightarrow> store \<Rightarrow> (string + json) \<times> store" where
  "run_growth_cycle env s = (case get_growth_state env s of
     Inl err \<Rightarrow> (Inl err, s)
   | Inr st \<Rightarrow>
       if gs_saturated_territories st = [] \<and> 0 < gs_runs_24h st
       then (Inr (JObj [(''status'', JStr ''skipped''), because ''no_trigger_conditions'']), s)
       else (case ge_decide env st of
         Inl err \<Rightarrow> (Inl err, s)
       | Inr d \<Rightarrow> (case execute_growth_decision env d s of
           (res, None) \<Rightarrow> (Inl ''InternalError'', s)
         | (res, Some s1) \<Rightarrow>
             (Inr (JObj [(''status'', JStr ''ok''), (''decision'', decision_json d), (''result'', res)]),
              (tick_uuid s1)\<lparr>growth_logs := growth_logs s1 @ [growth_log d res s1]\<rparr>))))"

section \<open>The tasks\<close>

text \<open>
  \<open>task_snapshot_territory_performance\<close>: \<open>fails k\<close> says that the snapshot of territory \<open>k\<close>
  raises.
\<close>

definition task_snapshot_territory_performance :: "(uuid \<Rightarrow> bool) \<Rightarrow> store \<Rightarrow> json \<times> store" where
  "task_snapshot_territory_performance fails s =
     (let ts = filter terr_is_active (territories s) in
      if ts = [] then (JObj [(''status'', JStr ''skipped''), because ''no_active_territories''], s)
      else (JObj [(''status'', JStr ''ok''),
              (''snapshots_created'', JInt (int (length (filter (\<lambda>t. \<not> fails (terr_id t)) ts)))),
              (''failures'', JInt (int (length (filter (\<lambda>t. fails (terr_id t)) ts))))],
            fold (\<lambda>t s. if fails (terr_id t) then s else snd (snapshot_territory_performance t 30 s))
              ts s))"

definition growth_task_name :: string where
  "growth_task_name = ''app.workers.growth_tasks.task_growth_cycle''"

text \<open>\<open>task_growth_cycle\<close>: an exception rolls back and, up to two times, asks for a retry.\<close>

definition task_growth_cycle :: "growth_env \<Rightarrow> nat \<Rightarrow> store \<Rightarrow> (string + json) \<times> store" where
  "task_growth_cycle env retries s =
     (if (case ops s of None \<Rightarrow> True | Some r \<Rightarrow> \<not> ops_auto_pipeline_enabled r)
      then (Inr (JObj [(''status'', JStr ''skipped''), because ''auto_pipeline_disabled'']), s)
      else (case run_growth_cycle env s of
        (Inl err, s1) \<Rightarrow> (Inl err, if retries < 2
            then dispatch (plain_call growth_task_name None) (rollback_to s s1) else rollback_to s s1)
      | (Inr j, s1) \<Rightarrow> (Inr j, s1)))"

section \<open>The metrics are coherent\<close>

lemma reached_order:
  "reached_stage st CONTACTED \<Longrightarrow> reached_stage st QUALIFIED"
  "reached_stage WON CONTACTED" "reached_stage LOST CONTACTED"
  by (cases st; simp add: reached_stage_def stage_rank_def)+

lemma count_mono: "(\<And>l. p l \<Longrightarrow> q l) \<Longrightarrow> count_leads p ls \<le> count_leads q ls"
  by (induction ls) (auto simp: count_leads_def)

lemma count_split:
  "count_leads (\<lambda>l. lead_status l = WON) ls + count_leads (\<lambda>l. lead_status l = LOST) ls
     \<le> count_leads (\<lambda>l. reached_stage (lead_status l) CONTACTED) ls"
  by (induction ls) (auto simp: count_leads_def reached_order)

lemma count_le_length: "count_leads p ls \<le> length ls"
  by (simp add: count_leads_def)

lemma round_half_even_mono_int:
  "of_int a \<le> x \<Longrightarrow> x \<le> of_int b \<Longrightarrow> a \<le> round_half_even x \<and> round_half_even x \<le> b"
proof -
  assume a: "of_int a \<le> x" and b: "x \<le> of_int b"
  have "a \<le> \<lfloor>x\<rfloor>" using a by (simp add: le_floor_iff)
  moreover have "\<lfloor>x\<rfloor> + 1 \<le> b" if "x \<noteq> of_int \<lfloor>x\<rfloor>"
  proof -
    have "of_int \<lfloor>x\<rfloor> < (of_int b :: rat)" using that b of_int_floor_le [of x] by linarith
    then show ?thesis by simp
  qed
  moreover have "\<lfloor>x\<rfloor> \<le> b" using b by linarith
  ultimately show ?thesis by (auto simp: round_half_even_def Let_def)
qed

lemma round_digits_range:
  assumes "of_int a \<le> x" "x \<le> of_int b"
  shows "of_int a \<le> round_digits n x \<and> round_digits n x \<le> of_int b"
proof -
  have p: "(0::rat) < 10 ^ n" by simp
  have "of_int (a * 10 ^ n) \<le> 10 ^ n * x" "10 ^ n * x \<le> of_int (b * 10 ^ n)"
    using mult_left_mono [OF assms(1), of "10 ^ n"] mult_left_mono [OF assms(2), of "10 ^ n"]
    by (simp_all add: mult.commute)
  from round_half_even_mono_int [OF this]
  have "of_int (a * 10 ^ n) \<le> (of_int (round_half_even (10 ^ n * x)) :: rat)"
    "(of_int (round_half_even (10 ^ n * x)) :: rat) \<le> of_int (b * 10 ^ n)"
    by (simp_all only: of_int_le_iff)
  then show ?thesis using p by (simp add: round_digits_def pos_le_divide_eq pos_divide_le_eq)
qed

lemma safe_rate_range: "m \<le> n \<Longrightarrow> 0 \<le> safe_rate m n \<and> safe_rate m n \<le> 1"
  by (simp add: safe_rate_def divide_le_eq)

lemma sum_list_range:
  fixes xs :: "rat list"
  assumes "\<And>x. x \<in> set xs \<Longrightarrow> a \<le> x \<and> x \<le> b"
  shows "a * of_nat (length xs) \<le> sum_list xs \<and> sum_list xs \<le> b * of_nat (length xs)"
  using assms
proof (induction xs)
  case (Cons x xs)
  then have "a \<le> x \<and> x \<le> b" "a * of_nat (length xs) \<le> sum_list xs \<and> sum_list xs \<le> b * of_nat (length xs)"
    by auto
  then show ?case by (simp add: ring_distribs)
qed simp

lemma safe_average_range:
  assumes "\<And>x. x \<in> set xs \<Longrightarrow> a \<le> x \<and> x \<le> b" "a \<le> 0" "0 \<le> b"
  shows "a \<le> safe_average xs \<and> safe_average xs \<le> b"
  using sum_list_range [of xs a b] assms
  by (auto simp: safe_average_def pos_le_divide_eq pos_divide_le_eq)

lemma lead_scores_in: "x \<in> set (lead_scores ls) \<Longrightarrow> \<exists>l \<in> set ls. lead_score l = Some x"
  by (induction ls) (auto simp: lead_scores_def map_filter_simps split: option.splits)

text \<open>
  The metrics of any group of leads fit together: no more leads are won and lost than
  contacted, none contacted without counting as qualified, the conversion rate is a share, and
  the rounded average score lies in the range the scores do.
\<close>

theorem metrics_coherent:
  assumes "\<And>l x. l \<in> set ls \<Longrightarrow> lead_score l = Some x \<Longrightarrow> 0 \<le> x \<and> x \<le> 100"
  shows "mt_leads_won (compute_metrics ls) + mt_leads_lost (compute_metrics ls)
      \<le> mt_leads_contacted (compute_metrics ls)
    \<and> mt_leads_contacted (compute_metrics ls) \<le> mt_leads_qualified (compute_metrics ls)
    \<and> mt_leads_qualified (compute_metrics ls) \<le> mt_leads_created (compute_metrics ls)
    \<and> 0 \<le> mt_conversion_rate (compute_metrics ls) \<and> mt_conversion_rate (compute_metrics ls) \<le> 1
    \<and> 0 \<le> mt_avg_score (compute_metrics ls) \<and> mt_avg_score (compute_metrics ls) \<le> 100"
proof -
  have r: "0 \<le> safe_rate (count_leads (\<lambda>l. lead_status l = WON) ls) (length ls)"
    "safe_rate (count_leads (\<lambda>l. lead_status l = WON) ls) (length ls) \<le> 1"
    using safe_rate_range [OF count_le_length] by auto
  have s: "0 \<le> x \<and> x \<le> 100" if "x \<in> set (lead_scores ls)" for x
    using lead_scores_in [OF that] assms by blast
  have a: "0 \<le> safe_average (lead_scores ls)" "safe_average (lead_scores ls) \<le> 100"
    using safe_average_range [of "lead_scores ls" 0 100] s by auto
  have "count_leads (\<lambda>l. reached_stage (lead_status l) CONTACTED) ls
      \<le> count_leads (\<lambda>l. reached_stage (lead_status l) QUALIFIED) ls"
    by (rule count_mono) (rule reached_order)
  then show ?thesis
    using count_split [of ls] count_le_length round_digits_range [of 0 _ 1 4] r
      round_digits_range [of 0 _ 100 2] a
    by (simp add: compute_metrics_def Let_def)
qed

section \<open>The categories are a partition\<close>

lemma add_bucket_keys:
  "map fst (add_bucket c l bs) = (if c \<in> fst ` set bs then map fst bs else map fst bs @ [c])"
  by (induction bs) (auto, force+)

lemma add_bucket_sum:
  "sum_list (map (\<lambda>b. length (snd b)) (add_bucket c l bs)) = Suc (sum_list (map (\<lambda>b. length (snd b)) bs))"
  by (induction bs) auto

definition bucket_of :: "string \<Rightarrow> lead list \<Rightarrow> lead list" where
  "bucket_of c ls = filter (\<lambda>l. lead_industry l = Some c) ls"

definition buckets_ok :: "lead list \<Rightarrow> (string \<times> lead list) list \<Rightarrow> bool" where
  "buckets_ok ls bs \<longleftrightarrow> distinct (map fst bs) \<and> bs = map (\<lambda>c. (c, bucket_of c ls)) (map fst bs)
     \<and> fst ` set bs = {c. c \<noteq> [] \<and> bucket_of c ls \<noteq> []}
     \<and> sum_list (map (\<lambda>b. length (snd b)) bs) = length (filter (\<lambda>l. truthy (lead_industry l)) ls)"

lemma add_bucket_map:
  assumes "distinct cs" "c \<notin> set cs \<Longrightarrow> f c = []"
  shows "add_bucket c l (map (\<lambda>c. (c, f c)) cs)
    = map (\<lambda>c'. (c', if c' = c then f c' @ [l] else f c')) (if c \<in> set cs then cs else cs @ [c])"
  using assms by (induction cs) auto

lemma buckets_ok_category: "buckets_ok ls (category_buckets ls)"
proof (induction ls rule: rev_induct)
  case Nil
  show ?case by (simp add: buckets_ok_def category_buckets_def bucket_of_def)
next
  case (snoc l ls)
  let ?bs = "category_buckets ls" and ?cs = "map fst (category_buckets ls)"
  note ok = snoc.IH [unfolded buckets_ok_def]
  show ?case
  proof (cases "truthy (lead_industry l)")
    case False
    have e: "category_buckets (ls @ [l]) = ?bs" using False by (simp add: category_buckets_def)
    have "bucket_of c (ls @ [l]) = bucket_of c ls" if "c \<noteq> []" for c
      using False that by (auto simp: bucket_of_def)
    moreover have "c \<noteq> []" if "c \<in> set ?cs" for c using ok that by auto
    ultimately have "map (\<lambda>c. (c, bucket_of c (ls @ [l]))) ?cs = map (\<lambda>c. (c, bucket_of c ls)) ?cs"
      and "{c. c \<noteq> [] \<and> bucket_of c (ls @ [l]) \<noteq> []} = {c. c \<noteq> [] \<and> bucket_of c ls \<noteq> []}"
      by (simp_all cong: conj_cong)
    then show ?thesis using ok False unfolding e buckets_ok_def by (simp only: list.set_map) simp
  next
    case True
    then obtain c where c: "lead_industry l = Some c" "c \<noteq> []" by (cases "lead_industry l") auto
    have e: "category_buckets (ls @ [l]) = add_bucket c l ?bs" using c by (simp add: category_buckets_def)
    have none: "bucket_of c ls = []" if "c \<notin> set ?cs" using ok that c(2) by auto
    have b: "bucket_of c' (ls @ [l]) = (if c' = c then bucket_of c' ls @ [l] else bucket_of c' ls)" for c'
      using c by (auto simp: bucket_of_def)
    have "add_bucket c l ?bs = map (\<lambda>c'. (c', bucket_of c' (ls @ [l])))
        (if c \<in> set ?cs then ?cs else ?cs @ [c])"
      using add_bucket_map [of ?cs c "\<lambda>c. bucket_of c ls" l] none ok by (simp add: b)
    moreover have "set (if c \<in> set ?cs then ?cs else ?cs @ [c])
        = {c'. c' \<noteq> [] \<and> bucket_of c' (ls @ [l]) \<noteq> []}"
      using ok c(2) b by auto
    moreover have "distinct (if c \<in> set ?cs then ?cs else ?cs @ [c])" using ok by auto
    moreover have "sum_list (map (\<lambda>b. length (snd b)) (add_bucket c l ?bs))
        = length (filter (\<lambda>l. truthy (lead_industry l)) (ls @ [l]))"
      using add_bucket_sum [of c l ?bs] ok True by simp
    ultimately show ?thesis unfolding e buckets_ok_def by (simp add: comp_def image_image)
  qed
qed

lemma buckets_member:
  assumes "buckets_ok ls bs" "(c, g) \<in> set bs"
  shows "c \<noteq> [] \<and> g = bucket_of c ls"
proof -
  note ok = assms(1) [unfolded buckets_ok_def]
  have "c \<in> fst ` set bs" using assms(2) by (rule image_eqI [rotated]) simp
  moreover have "(c, g) \<in> set (map (\<lambda>c. (c, bucket_of c ls)) (map fst bs))"
    using arg_cong [OF conjunct1 [OF conjunct2 [OF ok]], of set] assms(2) by blast
  ultimately show ?thesis using conjunct1 [OF conjunct2 [OF conjunct2 [OF ok]]] by auto
qed

definition category_leads :: "store \<Rightarrow> territory option \<Rightarrow> int \<Rightarrow> lead list" where
  "category_leads s t n = filter (\<lambda>l. truthy (lead_industry l) \<and> in_period (period_bounds n s) l
     \<and> (case t of None \<Rightarrow> True | Some t \<Rightarrow> \<exists>c \<in> set (terr_cities t). lead_city l = Some c)) (leads s)"

lemma sum_list_sort_key: "sum_list (map f (sort_key g xs)) = sum_list (map f xs)" for f :: "'a \<Rightarrow> nat"
proof -
  have "mset (map f (sort_key g xs)) = mset (map f xs)" by simp
  then show ?thesis by (metis sum_mset_sum_list)
qed

text \<open>
  The performance by category is a partition of the leads of the window: each category
  once, with exactly the metrics of the leads of that industry, largest category first, and
  together they count every lead that has an industry once.
\<close>

theorem category_performance_partition:
  fixes t :: "territory option"
  defines "r s n \<equiv> get_category_performance s t n"
  shows "distinct (map fst (r s n))
    \<and> r s n = map (\<lambda>c. (c, compute_metrics (bucket_of c (category_leads s t n)))) (map fst (r s n))
    \<and> sorted (map (\<lambda>x. - int (mt_leads_created (snd x))) (r s n))
    \<and> sum_list (map (\<lambda>x. mt_leads_created (snd x)) (r s n)) = length (category_leads s t n)"
proof (cases "case t of None \<Rightarrow> False | Some t \<Rightarrow> terr_cities t = []")
  case True
  then have "r s n = []" "category_leads s t n = []"
    by (auto simp: r_def get_category_performance_def category_leads_def split: option.splits)
  then show ?thesis by simp
next
  case False
  let ?ls = "filter (\<lambda>l. lead_industry l \<noteq> None \<and> in_period (period_bounds n s) l
     \<and> (case t of None \<Rightarrow> True | Some t \<Rightarrow> \<exists>c \<in> set (terr_cities t). lead_city l = Some c)) (leads s)"
  let ?bs = "category_buckets ?ls" and ?m = "\<lambda>(c, g). (c, compute_metrics g)"
  have r: "r s n = sort_key (\<lambda>x. - int (mt_leads_created (snd x))) (map ?m ?bs)"
    using False by (simp add: r_def get_category_performance_def Let_def split_beta)
  have ok: "distinct (map fst ?bs)" "sum_list (map (\<lambda>b. length (snd b)) ?bs)
      = length (filter (\<lambda>l. truthy (lead_industry l)) ?ls)"
    using buckets_ok_category [of ?ls] by (simp_all only: buckets_ok_def)
  have cl: "filter (\<lambda>l. truthy (lead_industry l)) ?ls = category_leads s t n"
    unfolding category_leads_def filter_filter
    by (rule filter_cong) (auto, metis truthyE)
  have b: "bucket_of c ?ls = bucket_of c (category_leads s t n)" if "c \<noteq> []" for c
    using that by (auto simp: bucket_of_def category_leads_def intro: filter_cong)
  have mem: "x = (fst x, compute_metrics (bucket_of (fst x) (category_leads s t n)))" if "x \<in> set (r s n)" for x
  proof -
    have "x \<in> ?m ` set ?bs" using that unfolding r set_sort set_map .
    then obtain y where y: "y \<in> set ?bs" "x = ?m y" by blast
    obtain c g where cg: "y = (c, g)" by (cases y)
    have x: "x = (c, compute_metrics g)" "(c, g) \<in> set ?bs" using y by (simp_all add: cg)
    from buckets_member [OF buckets_ok_category x(2)] have "c \<noteq> []" "g = bucket_of c ?ls" by blast+
    from this(2) b [OF this(1)] show ?thesis by (simp only: x(1) fst_conv)
  qed
  have "distinct (map fst (map ?m ?bs))" using ok(1) by (simp add: comp_def split_beta)
  then have "distinct (map fst (r s n))"
    unfolding r by (metis (no_types, lifting) distinct_map distinct_sort set_sort)
  moreover have "r s n = map (\<lambda>c. (c, compute_metrics (bucket_of c (category_leads s t n)))) (map fst (r s n))"
    using mem by (simp add: map_idI [symmetric] comp_def)
  moreover have "sorted (map (\<lambda>x. - int (mt_leads_created (snd x))) (r s n))" unfolding r by simp
  moreover have "sum_list (map (\<lambda>x. mt_leads_created (snd x)) (map ?m ?bs)) = sum_list (map (\<lambda>b. length (snd b)) ?bs)"
    by (simp add: comp_def split_beta compute_metrics_def Let_def)
  then have "sum_list (map (\<lambda>x. mt_leads_created (snd x)) (r s n)) = length (category_leads s t n)"
    unfolding r sum_list_sort_key using ok(2) cl by simp
  ultimately show ?thesis by blast
qed

section \<open>The growth cycle\<close>

lemma city_entry_no_city [simp]: "json_get ''city'' (city_entry c) = None"
  by (simp add: city_entry_def json_get_def)

lemma uncovered_KeyError:
  assumes "c \<in> set city_coords" "fst c \<notin> covered_cities s" "0 < n"
  shows "city_names (get_uncovered_cities s n) = Inl ''KeyError''"
proof -
  let ?cs = "sort_key fst (filter (\<lambda>c. fst c \<notin> covered_cities s) city_coords)"
  have "c \<in> set ?cs" using assms(1,2) by simp
  then obtain c0 cs where "?cs = c0 # cs" by (cases ?cs) auto
  with assms(3) show ?thesis
    by (cases n) (simp_all add: get_uncovered_cities_def member_key_def)
qed

text \<open>
  The growth agent never decides anything.  As long as one known city is covered by no
  active territory, the state it collects cannot be built (its entries have a name, not a city),
  so the task raises \<open>KeyError\<close> whatever the model would answer: nothing is decided, expanded or
  logged, and all that happens is the request for a retry.
\<close>

theorem growth_cycle_raises:
  assumes "ops s = Some row" "ops_auto_pipeline_enabled row"
    and "c \<in> fst ` set city_coords" "c \<notin> covered_cities s"
  shows "task_growth_cycle env n s = (Inl ''KeyError'',
    if n < 2 then dispatch (plain_call growth_task_name None) s else s)"
proof -
  from assms(3) obtain e where e: "e \<in> set city_coords" "fst e = c" by auto
  have "city_names (get_uncovered_cities s 30) = Inl ''KeyError''"
    using uncovered_KeyError [OF e(1), of s 30] e(2) assms(4) by simp
  then have "get_growth_state env s = Inl ''KeyError''" by (simp add: get_growth_state_def Let_def)
  then have "run_growth_cycle env s = (Inl ''KeyError'', s)" by (simp add: run_growth_cycle_def)
  moreover have "rollback_to s s = s" by (simp add: rollback_to_def)
  ultimately show ?thesis using assms(1,2) by (simp add: task_growth_cycle_def)
qed

lemma get_upd_territory:
  assumes "get_territory s k = Some t" "\<And>u. terr_id (f u) = terr_id u"
  shows "get_territory (upd_territory k f s) k = Some ((f t)\<lparr>terr_updated_at := now s\<rparr>)"
proof -
  have "find (\<lambda>t. terr_id t = k) ts = Some t \<Longrightarrow>
    find (\<lambda>t. terr_id t = k) (map (\<lambda>t. if terr_id t = k then (f t)\<lparr>terr_updated_at := now s\<rparr> else t) ts)
      = Some ((f t)\<lparr>terr_updated_at := now s\<rparr>)" for ts
    by (induction ts) (auto simp: assms(2) split: if_splits)
  then show ?thesis using assms(1) by (simp add: get_territory_def upd_territory_def)
qed

lemma upd_territory_others:
  assumes "\<And>u. terr_id (f u) = terr_id u"
  shows "filter (\<lambda>t. terr_id t \<noteq> k) (territories (upd_territory k f s))
    = filter (\<lambda>t. terr_id t \<noteq> k) (territories s)"
proof -
  have "filter (\<lambda>t. terr_id t \<noteq> k) (map (\<lambda>t. if terr_id t = k then (f t)\<lparr>terr_updated_at := now s\<rparr> else t) ts)
      = filter (\<lambda>t. terr_id t \<noteq> k) ts" for ts
    by (induction ts) (auto simp: assms)
  then show ?thesis by (simp add: upd_territory_def)
qed

lemma growth_result_applied [simp]: "json_get ''applied'' (growth_result d b xs) = Some (JBool b)"
  by (simp add: growth_result_def json_get_def)

definition grown :: "growth_env \<Rightarrow> string list \<Rightarrow> territory \<Rightarrow> territory \<Rightarrow> territory" where
  "grown env cs t u = u\<lparr>terr_cities := ge_set_list env (terr_cities t
     @ filter (\<lambda>c. c \<notin> set (terr_cities t)) cs), terr_is_saturated := False\<rparr>"

lemma expand_cases:
  assumes "expand_territory env d s = (res, Some s')"
  shows "(json_get ''applied'' res = Some (JBool False) \<and> s' = s)
    \<or> (json_get ''applied'' res = Some (JBool True)
       \<and> (\<exists>k t cs. ge_parse_uuid env (text_or_empty (ga_territory_id (gn_action d))) = Some k
          \<and> get_territory s k = Some t \<and> ga_new_cities (gn_action d) = Some cs
          \<and> filter (\<lambda>c. c \<notin> set (terr_cities t)) cs \<noteq> []
          \<and> s' = upd_territory k (grown env cs t) s))"
proof (cases "\<not> truthy (ga_territory_id (gn_action d)) \<or> ga_new_cities (gn_action d) \<in> {None, Some []}")
  case True
  then have "expand_territory env d s
      = (growth_result d False [because ''missing_territory_id_or_cities''], Some s)"
    unfolding expand_territory_def Let_def by (rule if_P)
  with assms show ?thesis by auto
next
  case False
  note e = assms [unfolded expand_territory_def Let_def if_not_P [OF False]]
  from False obtain cs where cs: "ga_new_cities (gn_action d) = Some cs" by auto
  obtain k where k: "ge_parse_uuid env (text_or_empty (ga_territory_id (gn_action d))) = Some k"
    using e by (auto split: option.splits)
  show ?thesis
  proof (cases "get_territory s k")
    case None
    with e k show ?thesis by auto
  next
    case (Some t)
    show ?thesis
    proof (cases "filter (\<lambda>c. c \<notin> set (terr_cities t)) cs = []")
      case True
      with e k Some cs show ?thesis by auto
    next
      case ne: False
      have "json_get ''applied'' res = Some (JBool True) \<and> s' = upd_territory k (grown env cs t) s"
        using e k Some cs ne by (auto simp: grown_def [abs_def] simp del: filter_empty_conv)
      with k Some cs ne show ?thesis by blast
    qed
  qed
qed

text \<open>
  What a decision of the growth agent may do: only an expansion that it reports as applied
  changes anything, and then only the territory it names, whose cities become the old and the
  new ones and whose saturation is cleared; no city is lost, and every other territory and
  every lead stays as it is.
\<close>

theorem growth_decision_scope:
  assumes "\<And>xs. set (ge_set_list env xs) = set xs"
    and "execute_growth_decision env d s = (res, Some s')"
  shows "(json_get ''applied'' res = Some (JBool False) \<and> s' = s)
    \<or> (json_get ''applied'' res = Some (JBool True) \<and> gn_decision d = ''expand''
       \<and> (\<exists>k t t' cs. ge_parse_uuid env (text_or_empty (ga_territory_id (gn_action d))) = Some k
          \<and> get_territory s k = Some t \<and> get_territory s' k = Some t'
          \<and> ga_new_cities (gn_action d) = Some cs
          \<and> set (terr_cities t') = set (terr_cities t) \<union> set cs \<and> set (terr_cities t) \<subset> set (terr_cities t')
          \<and> \<not> terr_is_saturated t' \<and> leads s' = leads s
          \<and> filter (\<lambda>t. terr_id t \<noteq> k) (territories s') = filter (\<lambda>t. terr_id t \<noteq> k) (territories s)))"
proof (cases "gn_decision d = ''expand''")
  case False
  then have "json_get ''applied'' res = Some (JBool False) \<and> s' = s"
    using assms(2) by (auto simp: execute_growth_decision_def split: if_splits)
  then show ?thesis ..
next
  case True
  then have "expand_territory env d s = (res, Some s')"
    using assms(2) by (simp add: execute_growth_decision_def)
  from expand_cases [OF this] show ?thesis
  proof (elim disjE conjE exE)
    fix k t cs
    assume a: "json_get ''applied'' res = Some (JBool True)"
      "ge_parse_uuid env (text_or_empty (ga_territory_id (gn_action d))) = Some k"
      "get_territory s k = Some t" "ga_new_cities (gn_action d) = Some cs"
      and ne: "filter (\<lambda>c. c \<notin> set (terr_cities t)) cs \<noteq> []"
      and s': "s' = upd_territory k (grown env cs t) s"
    let ?t = "(grown env cs t t)\<lparr>terr_updated_at := now s\<rparr>"
    have g: "get_territory s' k = Some ?t"
      unfolding s' by (rule get_upd_territory [OF a(3)]) (simp add: grown_def)
    have fo: "filter (\<lambda>t. terr_id t \<noteq> k) (territories s') = filter (\<lambda>t. terr_id t \<noteq> k) (territories s)"
      unfolding s' by (rule upd_territory_others) (simp add: grown_def)
    have c: "set (terr_cities ?t) = set (terr_cities t) \<union> set cs" by (auto simp: grown_def assms(1))
    have sub: "set (terr_cities t) \<subset> set (terr_cities ?t)" unfolding c using ne by (auto simp: filter_empty_conv)
    have "\<not> terr_is_saturated ?t" "leads s' = leads s" by (simp_all add: grown_def s' upd_territory_def)
    with True a g fo c sub show ?thesis by blast
  qed simp
qed

section \<open>Closed examples\<close>

theorem metrics_coherent_witness:
  "mt_leads_won (compute_metrics [(blank_lead 1 ''Bar'' 0)\<lparr>lead_status := WON, lead_score := Some 50\<rparr>]) = 1
   \<and> mt_conversion_rate (compute_metrics [(blank_lead 1 ''Bar'' 0)\<lparr>lead_status := WON, lead_score := Some 50\<rparr>]) \<le> 1"
proof -
  let ?ls = "[(blank_lead 1 ''Bar'' 0)\<lparr>lead_status := WON, lead_score := Some 50\<rparr>]"
  have "mt_leads_won (compute_metrics ?ls) = 1" by (simp add: compute_metrics_def count_leads_def Let_def)
  with metrics_coherent [of ?ls] show ?thesis by simp
qed

definition demo_growth_env :: growth_env where
  "demo_growth_env = \<lparr>ge_decide = (\<lambda>st. Inl ''down''), ge_categories = [],
     ge_parse_uuid = (\<lambda>t. Some 1), ge_set_list = remdups\<rparr>"

definition demo_territory :: territory where
  "demo_territory = new_territory \<lparr>tc_name = ''Sur'', tc_description = None, tc_color = ''#6366f1'',
     tc_cities = [''Tigre''], tc_is_active = True\<rparr> ((empty_store 5)\<lparr>next_uuid := 1\<rparr>)"

definition demo_growth_store :: store where
  "demo_growth_store = (let s = snd (get_or_create (empty_store 5)) in
     s\<lparr>territories := [demo_territory],
       ops := map_option (\<lambda>r. r\<lparr>ops_auto_pipeline_enabled := True\<rparr>) (ops s)\<rparr>)"

definition demo_expansion :: growth_decision where
  "demo_expansion = \<lparr>gn_decision = ''expand'', gn_reason = ''saturated'',
     gn_action = \<lparr>ga_territory_id = Some ''1'', ga_new_cities = Some [''Pilar'', ''Tigre''],
       ga_new_categories = None, ga_new_source = None\<rparr>, gn_confidence = 1, gn_next_step = []\<rparr>"

lemma demo_growth_covers: "covered_cities demo_growth_store = {''Tigre''}"
  by (simp add: covered_cities_def demo_growth_store_def demo_territory_def new_territory_def Let_def)

theorem growth_cycle_raises_witness:
  "task_growth_cycle demo_growth_env 2 demo_growth_store = (Inl ''KeyError'', demo_growth_store)"
proof -
  obtain r where r: "ops demo_growth_store = Some r" "ops_auto_pipeline_enabled r"
    by (auto simp: demo_growth_store_def Let_def get_or_create_def empty_store_def)
  have c: "''CABA'' \<in> fst ` set city_coords" by (simp add: city_coords_def)
  have "''CABA'' \<notin> covered_cities demo_growth_store" by (simp add: demo_growth_covers)
  from growth_cycle_raises [OF r c this, of demo_growth_env 2] show ?thesis by simp
qed

theorem growth_decision_scope_witness:
  "\<exists>res s'. execute_growth_decision demo_growth_env demo_expansion demo_growth_store = (res, Some s')
     \<and> json_get ''applied'' res = Some (JBool True)
     \<and> map_option (\<lambda>t. set (terr_cities t)) (get_territory s' 1) = Some {''Tigre'', ''Pilar''}"
proof -
  let ?r = "execute_growth_decision demo_growth_env demo_expansion demo_growth_store"
  have "json_get ''applied'' (fst ?r) = Some (JBool True) \<and> snd ?r \<noteq> None" by code_simp
  then obtain res s' where r: "?r = (res, Some s')" and a: "json_get ''applied'' res = Some (JBool True)"
    by (cases ?r) auto
  have g: "get_territory demo_growth_store 1 = Some demo_territory"
    by (simp add: get_territory_def demo_growth_store_def demo_territory_def new_territory_def Let_def)
  have "set (ge_set_list demo_growth_env xs) = set xs" for xs by (simp add: demo_growth_env_def)
  from growth_decision_scope [OF this r] a obtain k t' where
    k: "ge_parse_uuid demo_growth_env (text_or_empty (ga_territory_id (gn_action demo_expansion))) = Some k"
    and t': "get_territory s' k = Some t'" "set (terr_cities t') = set (terr_cities demo_territory) \<union> {''Pilar'', ''Tigre''}"
    using g by (auto simp: demo_growth_env_def demo_expansion_def)
  have "k = 1" using k by (simp add: demo_growth_env_def)
  with t' r a show ?thesis by (auto simp: demo_territory_def new_territory_def)
qed

end
