(* ===== verification/Territory_Crawl.thy ===== *)
theory Territory_Crawl
  imports Territories Leads
begin

text \<open>
  Crawling a territory (\<open>app/workflows/territory_crawl.py\<close>), with the tasks and the endpoint
  that start it (\<open>app/workers/crawl_tasks.py\<close>, \<open>app/api/v1/crawl.py\<close>) and the address markers
  of a country (\<open>app/services/territories/geo_markers.py\<close>).
\<close>

section \<open>Markers\<close>

definition country_markers :: "(string \<times> string list) list" where
  "country_markers = [(''AR'', [''argentina'']), (''US'', [''usa'', ''united states'']),
     (''MX'', [''mexico'', ''m'' @ [CHR 0xE9] @ ''xico'']), (''BR'', [''brasil'', ''brazil'']),
     (''CL'', [''chile'']), (''UY'', [''uruguay'']), (''CO'', [''colombia'']),
     (''ES'', [''espa'' @ [CHR 0xF1] @ ''a'', ''spain''])]"

definition default_markers :: "string list" where "default_markers = [''argentina'']"

text \<open>\<open>str.upper\<close> of a letter of ASCII; country codes have no other letters.\<close>

definition upper_ascii :: "char \<Rightarrow> char" where
  "upper_ascii c = (if 97 \<le> ord_of c \<and> ord_of c \<le> 122 then char_of (ord_of c - 32) else c)"

definition markers_for_country :: "string option \<Rightarrow> string list" where
  "markers_for_country code =
     (if \<not> truthy code then default_markers
      else (case map_of country_markers (map upper_ascii (text_or_empty code)) of
        Some ms \<Rightarrow> ms | None \<Rightarrow> default_markers))"

section \<open>Identifiers\<close>

text \<open>
  \<open>uuid.UUID(text)\<close>, \<open>None\<close> for its \<open>ValueError\<close>: prefixes, braces and dashes are dropped and 32
  hexadecimal digits must be left (the signs and underscores \<open>int\<close> would take as well are left out).
\<close>

function remove_text :: "string \<Rightarrow> string \<Rightarrow> string" where
  "remove_text p [] = []"
| "remove_text p (c # s) =
     (if p \<noteq> [] \<and> starts_with p (c # s) then remove_text p (drop (length p) (c # s))
      else c # remove_text p s)"
  by pat_completeness auto

termination
  by (relation "measure (\<lambda>(p, s). length s)") (auto simp: neq_Nil_conv)

definition hex_digits :: string where "hex_digits = ''0123456789abcdef''"

definition brace :: "char \<Rightarrow> bool" where "brace c = (c \<in> {CHR ''{'', CHR ''}''})"

definition py_uuid :: "string \<Rightarrow> uuid option" where
  "py_uuid text =
     (let h = remove_text ''uuid:'' (remove_text ''urn:'' text);
          ds = remove_char (CHR ''-'') (rstrip_where brace (dropWhile brace h))
      in if length ds = 32 \<and> list_all (\<lambda>c. c \<in> set hex_digits) (lower ds)
         then Some (foldl (\<lambda>a c. 16 * a + hex_value c) 0 (lower ds)) else None)"

section \<open>Raw leads\<close>

record raw_lead =
  rl_business_name :: string
  rl_industry :: "string option"
  rl_city :: "string option"
  rl_zone :: "string option"
  rl_website_url :: "string option"
  rl_instagram_url :: "string option"
  rl_email :: "string option"
  rl_phone :: "string option"
  rl_source_url :: "string option"
  rl_address :: "string option"
  rl_google_maps_url :: "string option"
  rl_rating :: "pyfloat option"
  rl_review_count :: "int option"
  rl_business_status :: "string option"
  rl_opening_hours :: "string option"
  rl_latitude :: "pyfloat option"
  rl_longitude :: "pyfloat option"

text \<open>The \<open>LeadCreate\<close> of the workflow: without the e-mail address.\<close>

definition lead_of_raw :: "uuid \<Rightarrow> raw_lead \<Rightarrow> lead_create" where
  "lead_of_raw source r = \<lparr>lc_business_name = rl_business_name r, lc_industry = rl_industry r,
     lc_city = rl_city r, lc_zone = rl_zone r, lc_website_url = rl_website_url r,
     lc_instagram_url = rl_instagram_url r, lc_email = None, lc_phone = rl_phone r,
     lc_source_id = Some source, lc_address = rl_address r,
     lc_google_maps_url = rl_google_maps_url r, lc_rating = rl_rating r,
     lc_review_count = rl_review_count r, lc_business_status = rl_business_status r,
     lc_opening_hours = rl_opening_hours r, lc_latitude = rl_latitude r,
     lc_longitude = rl_longitude r\<rparr>"

text \<open>The lengths \<open>LeadCreate\<close> accepts.\<close>

definition at_most :: "nat \<Rightarrow> string option \<Rightarrow> bool" where
  "at_most n v = (case v of None \<Rightarrow> True | Some t \<Rightarrow> length t \<le> n)"

definition lead_create_ok :: "lead_create \<Rightarrow> bool" where
  "lead_create_ok d = (lc_business_name d \<noteq> [] \<and> length (lc_business_name d) \<le> 500
     \<and> at_most 255 (lc_industry d) \<and> at_most 255 (lc_city d) \<and> at_most 255 (lc_zone d)
     \<and> at_most 2048 (lc_website_url d) \<and> at_most 2048 (lc_instagram_url d)
     \<and> at_most 320 (lc_email d) \<and> at_most 50 (lc_phone d)
     \<and> at_most 2048 (lc_google_maps_url d) \<and> at_most 50 (lc_business_status d))"

section \<open>The workflow\<close>

record crawl_options =
  co_categories :: "string list option"
  co_only_without_website :: bool
  co_max_results_per_category :: int
  co_target_leads :: int

definition default_crawl :: crawl_options where
  "default_crawl = \<lparr>co_categories = None, co_only_without_website = False,
     co_max_results_per_category = 20, co_target_leads = 50\<rparr>"

text \<open>What one call of the crawler is given.\<close>

record crawl_query =
  cq_city :: string
  cq_options :: crawl_options
  cq_api_key :: string
  cq_country_code :: string
  cq_center :: "(pyfloat \<times> pyfloat) option"
  cq_bbox :: "json option"
  cq_markers :: "string list"

text \<open>
  The world of a crawl: the key of the Google Maps interface (or the exception of reading it),
  the crawler, the digest of fingerprints, what other sessions commit while a city is next, and
  whether the broker takes a message.
\<close>

record crawl_env =
  ce_api_key :: "store \<Rightarrow> string + string option"
  ce_crawl :: "crawl_query \<Rightarrow> string + raw_lead list"
  ce_digest :: "string \<Rightarrow> string"
  ce_others :: "string \<Rightarrow> world \<Rightarrow> world"
  ce_broker :: "string \<Rightarrow> bool"

text \<open>\<open>sync_progress\<close>; the mirror gets the payload, or the progress.\<close>

definition sync_crawl ::
    "string \<Rightarrow> string \<Rightarrow> crawl_progress \<Rightarrow> json option \<Rightarrow> task_update \<Rightarrow> world \<Rightarrow> world" where
  "sync_crawl tid terr p payload u w =
     (let progress = build_territory_crawl_progress tid p;
          w1 = mirror_territory_crawl_state terr
            (case payload of None \<Rightarrow> progress | Some j \<Rightarrow> j) w
      in persist_operational_task_state tid (u\<lparr>tu_current_step := Some (cp_current_step p),
           tu_progress_json := Some progress\<rparr>) w1)"

definition crawl_error_payload :: "string \<Rightarrow> string \<Rightarrow> json" where
  "crawl_error_payload tid err =
     JObj [(''status'', JStr ''error''), (''task_id'', JStr tid), (''error'', JStr err)]"

definition crawl_failed_update :: "string \<Rightarrow> task_update" where
  "crawl_failed_update err = no_task_update\<lparr>tu_status := Some ''failed'', tu_error := Some err,
     tu_finished := True\<rparr>"

definition crawl_refused ::
    "string \<Rightarrow> string \<Rightarrow> crawl_progress \<Rightarrow> string \<Rightarrow> world \<Rightarrow> (string + json) \<times> world" where
  "crawl_refused tid terr p err w = (Inr (JObj [(''status'', JStr ''error''), (''task_id'', JStr tid),
       (''territory_id'', JStr terr), (''error'', JStr err)]),
     sync_crawl tid terr p (Some (crawl_error_payload tid err)) (crawl_failed_update err) w)"

text \<open>One raw lead: a new row, or one more duplicate (a refused one counts as such).\<close>

definition store_raw ::
    "(string \<Rightarrow> string) \<Rightarrow> uuid \<Rightarrow> raw_lead \<Rightarrow> nat \<times> nat \<times> store \<Rightarrow> nat \<times> nat \<times> store" where
  "store_raw digest source r st = (case st of (created, dup, s) \<Rightarrow>
     (let h = compute_dedup_hash digest (rl_business_name r) (rl_city r) (rl_website_url r);
          d = lead_of_raw source r
      in if find (\<lambda>l. lead_dedup_hash l = Some h) (leads s) \<noteq> None then (created, Suc dup, s)
         else if \<not> lead_create_ok d then (created, Suc dup, s)
         else (case create_lead digest d s of
           Inl e \<Rightarrow> (created, Suc dup, s)
         | Inr (l, s') \<Rightarrow> (Suc created, dup, s'))))"

definition crawl_query_of :: "crawl_options \<Rightarrow> string \<Rightarrow> territory \<Rightarrow> string \<Rightarrow> crawl_query" where
  "crawl_query_of opts key t city = \<lparr>cq_city = city, cq_options = opts, cq_api_key = key,
     cq_country_code = terr_country_code t,
     cq_center = (case (terr_center_lat t, terr_center_lng t) of
       (Some x, Some y) \<Rightarrow> Some (x, y) | _ \<Rightarrow> None),
     cq_bbox = terr_bbox t, cq_markers = markers_for_country (Some (terr_country_code t))\<rparr>"

datatype crawl_end = Crawl_stopped | Crawl_completed nat nat nat

text \<open>The loop over the cities; \<open>idx\<close> is the number of the next one.\<close>

fun crawl_cities ::
    "crawl_env \<Rightarrow> crawl_options \<Rightarrow> string \<Rightarrow> string \<Rightarrow> uuid \<Rightarrow> string \<Rightarrow> territory \<Rightarrow> string list \<Rightarrow> nat \<Rightarrow>
     crawl_progress \<Rightarrow> nat \<Rightarrow> nat \<Rightarrow> nat \<Rightarrow> world \<Rightarrow> crawl_end \<times> crawl_progress \<times> world" where
  "crawl_cities env opts tid terr source key t [] idx p found created dup w =
     (Crawl_completed found created dup, p, w)"
| "crawl_cities env opts tid terr source key t (city # cities) idx p found created dup w =
     (let w1 = ce_others env city w in
      if should_stop_operational_task tid (territory_crawl_redis_key terr) True w1
      then (let p1 = p\<lparr>cp_status := ''stopped''\<rparr> in
        (Crawl_stopped, p1, sync_crawl tid terr p1 None
           (no_task_update\<lparr>tu_status := Some ''stopped'', tu_finished := True\<rparr>) w1))
      else
        let p1 = p\<lparr>cp_current_city_idx := int idx, cp_current_city := city,
              cp_current_step := ''crawling''\<rparr>;
            w2 = sync_crawl tid terr p1 None no_task_update w1
        in case ce_crawl env (crawl_query_of opts key t city) of
             Inl e \<Rightarrow> crawl_cities env opts tid terr source key t cities (Suc idx) p1 found created dup w2
           | Inr raws \<Rightarrow>
               let (created', dup', s') =
                     fold (store_raw (ce_digest env) source) raws (created, dup, w_db w2);
                   found' = found + length raws;
                   p2 = p1\<lparr>cp_leads_found := int found', cp_leads_created := int created',
                     cp_leads_skipped := int dup'\<rparr>;
                   w3 = sync_crawl tid terr p2 None no_task_update (w2\<lparr>w_db := s'\<rparr>)
               in crawl_cities env opts tid terr source key t cities (Suc idx) p2 found' created' dup' w3)"

text \<open>
  The statistics of the territory.  The ratio is stored before it is compared with itself; the
  notification follows the commit, in a session that is not committed again.
\<close>

definition dup_ratio :: "nat \<Rightarrow> nat \<Rightarrow> pyfloat" where
  "dup_ratio dup found = of_nat dup / of_nat (max found 1)"

definition crawled_territory :: "pyfloat \<Rightarrow> datetime \<Rightarrow> territory \<Rightarrow> territory" where
  "crawled_territory ratio tm t =
     (let t1 = t\<lparr>terr_last_crawled_at := Some tm, terr_last_dup_ratio := Some ratio,
            terr_crawl_count := terr_crawl_count t + 1\<rparr>
      in if 4 / 5 < ratio \<and> 4 / 5 < (case terr_last_dup_ratio t1 of None \<Rightarrow> 0 | Some x \<Rightarrow> x)
         then t1\<lparr>terr_is_saturated := True\<rparr> else t1)"

definition update_crawl_stats :: "uuid \<Rightarrow> string \<Rightarrow> nat \<Rightarrow> nat \<Rightarrow> store \<Rightarrow> store" where
  "update_crawl_stats k name dup found s = (case get_territory s k of
     None \<Rightarrow> s
   | Some t \<Rightarrow>
       let ratio = dup_ratio dup found;
           s1 = upd_territory k (crawled_territory ratio (now s)) s
       in if (case get_territory s1 k of None \<Rightarrow> False | Some t1 \<Rightarrow> terr_is_saturated t1)
          then rollback_to s1 (on_territory_saturated s1 k name ratio s1) else s1)"

definition google_maps_source :: "store \<Rightarrow> lead_source option" where
  "google_maps_source s = find (\<lambda>x. src_name x = ''google_maps'') (lead_sources s)"

definition ensure_source :: "store \<Rightarrow> uuid \<times> store" where
  "ensure_source s = (case google_maps_source s of
     Some x \<Rightarrow> (src_id x, s)
   | None \<Rightarrow> (next_uuid s, (tick_uuid s)\<lparr>lead_sources := lead_sources s @
       [\<lparr>src_id = next_uuid s, src_name = ''google_maps'', src_source_type = CRAWLER,
         src_url = None, src_description = Some ''Google Maps Places API'',
         src_created_at = now s\<rparr>]\<rparr>))"

definition crawl_meta :: "string \<Rightarrow> string option \<Rightarrow> string \<Rightarrow> string \<Rightarrow> task_meta" where
  "crawl_meta terr cid queue step = \<lparr>tm_task_name = ''task_crawl_territory'', tm_queue = Some queue,
     tm_lead_id = None, tm_pipeline_run_id = None, tm_correlation_id = cid,
     tm_scope_key = Some terr, tm_current_step = Some step\<rparr>"

text \<open>The arrow of this message is outside the model's alphabet and is written with the sign \<open>>\<close>.\<close>

definition no_key_message :: string where
  "no_key_message = ''Google Maps API key no configurada. Cargala en Configuraci'' @ [CHR 0xF3]
     @ ''n > Crawlers o defin'' @ [CHR 0xED] @ '' GOOGLE_MAPS_API_KEY en el .env y reinici''
     @ [CHR 0xE1] @ '' el backend.''"

definition crawl_result :: "string \<Rightarrow> string \<Rightarrow> nat \<Rightarrow> nat \<Rightarrow> nat \<Rightarrow> json" where
  "crawl_result tid name found created dup = JObj [(''status'', JStr ''done''), (''task_id'', JStr tid),
     (''territory'', JStr name), (''found'', JInt (int found)), (''created'', JInt (int created)),
     (''skipped'', JInt (int dup))]"

definition finish_crawl ::
    "string \<Rightarrow> string \<Rightarrow> uuid \<Rightarrow> string \<Rightarrow> crawl_progress \<Rightarrow> nat \<Rightarrow> nat \<Rightarrow> nat \<Rightarrow> world \<Rightarrow> (string + json) \<times> world" where
  "finish_crawl tid terr k name p found created dup w =
     (let w1 = w\<lparr>w_db := update_crawl_stats k name dup found (w_db w)\<rparr>;
          res = crawl_result tid name found created dup
      in (Inr res, sync_crawl tid terr (p\<lparr>cp_status := ''done'', cp_current_step := ''completed''\<rparr>) None
           (no_task_update\<lparr>tu_status := Some ''succeeded'', tu_clear_error := True,
              tu_finished := True, tu_result := Some res, tu_stop_requested := Some False\<rparr>) w1))"

text \<open>The handler of any other exception, which is raised again.\<close>

definition crawl_raised ::
    "string \<Rightarrow> string \<Rightarrow> crawl_progress \<Rightarrow> string \<Rightarrow> world \<Rightarrow> (string + json) \<times> world" where
  "crawl_raised tid terr p err w = (Inl err,
     sync_crawl tid terr p (Some (crawl_error_payload tid err)) (crawl_failed_update err) w)"

definition run_territory_crawl_workflow ::
    "crawl_env \<Rightarrow> crawl_options \<Rightarrow> string \<Rightarrow> string \<Rightarrow> string option \<Rightarrow> string \<Rightarrow> world \<Rightarrow>
     (string + json) \<times> world" where
  "run_territory_crawl_workflow env opts tid terr cid queue w =
     (case mark_task_running (w_db w) tid (crawl_meta terr cid queue ''crawl_init'') (w_db w) of
        Inl e \<Rightarrow> (Inl ''IntegrityError'', w)
      | Inr s \<Rightarrow>
          let w1 = w\<lparr>w_db := s\<rparr>; p = new_crawl_progress\<lparr>cp_current_step := ''crawl_init''\<rparr> in
          case ce_api_key env s of
            Inl err \<Rightarrow> crawl_raised tid terr p err w1
          | Inr key \<Rightarrow>
              if \<not> truthy key then crawl_refused tid terr p no_key_message w1
              else (case py_uuid terr of
                None \<Rightarrow> crawl_raised tid terr p ''badly formed hexadecimal UUID string'' w1
              | Some k \<Rightarrow> (case get_territory s k of
                None \<Rightarrow> crawl_refused tid terr p ''Territorio no encontrado'' w1
              | Some t \<Rightarrow>
                  if terr_cities t = []
                  then crawl_refused tid terr p ''El territorio no tiene ciudades'' w1
                  else
                    let (source, s1) = ensure_source s;
                        p1 = p\<lparr>cp_territory := Some (terr_name t),
                          cp_total_cities := int (length (terr_cities t))\<rparr>;
                        w2 = sync_crawl tid terr p1 None (no_task_update\<lparr>tu_clear_error := True\<rparr>)
                          (w1\<lparr>w_db := s1\<rparr>)
                    in case crawl_cities env opts tid terr source (text_or_empty key) t (terr_cities t) 1
                         p1 0 0 0 w2 of
                         (Crawl_stopped, p2, w3) \<Rightarrow> (Inr (JObj [(''status'', JStr ''stopped''),
                           (''task_id'', JStr tid), (''territory'', JStr (terr_name t))]), w3)
                       | (Crawl_completed found created dup, p2, w3) \<Rightarrow>
                           finish_crawl tid terr k (terr_name t) p2 found created dup w3)))"

section \<open>The tasks\<close>

definition crawl_task_name :: string where
  "crawl_task_name = ''app.workers.tasks.task_crawl_territory''"

text \<open>\<open>task_crawl_territory\<close>: one retry after an exception.\<close>

definition task_crawl_territory ::
    "crawl_env \<Rightarrow> crawl_options \<Rightarrow> string \<Rightarrow> string \<Rightarrow> string option \<Rightarrow> string \<Rightarrow> nat \<Rightarrow> world \<Rightarrow>
     (string + json) \<times> world" where
  "task_crawl_territory env opts tid terr cid queue retries w =
     (case run_territory_crawl_workflow env opts tid terr cid queue w of
        (Inl err, w1) \<Rightarrow> (Inl err, if retries < 1
          then w1\<lparr>w_db := dispatch (plain_call crawl_task_name cid) (w_db w1)\<rparr> else w1)
      | (Inr j, w1) \<Rightarrow> (Inr j, w1))"

definition due_for_crawl :: "datetime \<Rightarrow> territory \<Rightarrow> bool" where
  "due_for_crawl tm t = (terr_is_active t \<and> \<not> terr_is_saturated t
     \<and> (case terr_last_crawled_at t of None \<Rightarrow> True | Some x \<Rightarrow> x < tm - days 3))"

definition send_crawl :: "crawl_env \<Rightarrow> territory \<Rightarrow> nat \<times> store \<Rightarrow> nat \<times> store" where
  "send_crawl env t p = (if ce_broker env crawl_task_name
     then (Suc (fst p), dispatch (plain_call crawl_task_name None) (snd p)) else p)"

definition all_saturated :: "store \<Rightarrow> bool" where
  "all_saturated s = (let act = filter terr_is_active (territories s) in
     act \<noteq> [] \<and> length (filter (\<lambda>t. terr_is_active t \<and> terr_is_saturated t) (territories s)) = length act)"

definition all_saturated_notice :: "store \<Rightarrow> notif_args" where
  "all_saturated_notice s = \<lparr>na_type = ''all_territories_saturated'', na_category = SYSTEM,
     na_severity = SEV_CRITICAL, na_title = ''Todos los territorios saturados'',
     na_message = ''Los '' @ int_str (int (length (filter terr_is_active (territories s))))
       @ '' territorios activos estan saturados. Considerar expandir.'',
     na_source_kind = None, na_source_id = None, na_metadata = None,
     na_dedup_key = Some ''all_territories_saturated''\<rparr>"

text \<open>
  \<open>task_scheduled_crawl\<close>; its session ends without a commit.  A message the broker refuses is
  skipped for a territory, and makes the task ask for a retry when it is the one for the batch.
\<close>

definition scheduled_session :: "crawl_env \<Rightarrow> store \<Rightarrow> (string + json) \<times> store" where
  "scheduled_session env s =
     (let due = filter (due_for_crawl (now s)) (territories s) in
      if due = []
      then (Inr (JObj [(''status'', JStr ''skipped''), because ''no_active_territories'']), s)
      else
        let (n, s1) = fold (send_crawl env) due (0, s);
            s2 = (if all_saturated s1 then emit s (all_saturated_notice s1) s1 else s1);
            done = Inr (JObj [(''status'', JStr ''ok''), (''territories_dispatched'', JInt (int n))])
        in if (case ops s2 of None \<Rightarrow> False | Some r \<Rightarrow> ops_auto_pipeline_enabled r)
           then (if ce_broker env ''app.workers.tasks.task_batch_pipeline''
                 then (done, dispatch (plain_call ''app.workers.tasks.task_batch_pipeline'' None) s2)
                 else (Inl ''OperationalError'', s2))
           else (done, s2))"

definition task_scheduled_crawl :: "crawl_env \<Rightarrow> nat \<Rightarrow> store \<Rightarrow> (string + json) \<times> store" where
  "task_scheduled_crawl env retries s =
     (let (res, s1) = scheduled_session env s; s2 = rollback_to s s1 in
      case res of
        Inl err \<Rightarrow> (Inl err, if retries < 1
          then dispatch (plain_call ''app.workers.crawl_tasks.task_scheduled_crawl'' None) s2 else s2)
      | Inr j \<Rightarrow> (Inr j, s2))"

section \<open>The endpoint\<close>

datatype crawl_refusal = Key_missing | Bad_territory_id | Territory_missing | Db_error db_error

text \<open>
  \<open>POST /crawl/territory\<close>: the task is looked up under the text of the identifier as it was sent.
\<close>

definition start_territory_crawl ::
    "crawl_env \<Rightarrow> string option \<Rightarrow> string \<Rightarrow> string \<Rightarrow> world \<Rightarrow> (crawl_refusal + json) \<times> world" where
  "start_territory_crawl env cid tid terr w =
     (let busy = (\<lambda>progress. JObj [(''ok'', JBool False),
            (''message'', JStr ''Ya hay un crawl en curso para este territorio.''),
            (''progress'', progress)]);
          legacy = load_legacy_operational_state_or_idle (now (w_db w)) (territory_crawl_redis_key terr)
            (w_redis w)
      in case ce_api_key env (w_db w) of
           Inl err \<Rightarrow> (Inl Key_missing, w)
         | Inr key \<Rightarrow> if \<not> truthy key then (Inl Key_missing, w)
             else (case py_uuid terr of None \<Rightarrow> (Inl Bad_territory_id, w)
             | Some k \<Rightarrow> (case get_territory (w_db w) k of None \<Rightarrow> (Inl Territory_missing, w)
               | Some t \<Rightarrow>
                   if (case get_territory_crawl_task_run terr (w_db w) of
                         Some r \<Rightarrow> task_status r \<in> busy_statuses | None \<Rightarrow> False)
                   then (Inr (busy (get_territory_crawl_status_snapshot terr w)), w)
                   else if legacy_busy legacy then (Inr (busy legacy), w)
                   else (case enqueue_operational crawl_task_name ''task_crawl_territory'' terr
                           ''crawl_dispatch'' cid (w_db w) tid (w_db w) of
                       Inl e \<Rightarrow> (Inl (Db_error e),
                         w\<lparr>w_db := dispatch (plain_call crawl_task_name cid) (w_db w)\<rparr>)
                     | Inr s \<Rightarrow> (Inr (JObj [(''ok'', JBool True), (''task_id'', JStr tid),
                         (''correlation_id'', jstr cid), (''message'', JStr (''Crawl iniciado para ''
                           @ terr_name t @ '' ('' @ int_str (int (length (terr_cities t)))
                           @ '' ciudades).''))]), w\<lparr>w_db := s\<rparr>)))))"

section \<open>The schedule\<close>

lemma due_not_all_saturated:
  assumes "t \<in> set (territories s)" "due_for_crawl tm t"
  shows "\<not> all_saturated s"
proof -
  have "length (filter (\<lambda>t. terr_is_active t \<and> terr_is_saturated t) ts) < length (filter terr_is_active ts)"
    if "t \<in> set ts" for ts
    using that assms(2)
  proof (induction ts)
    case (Cons u ts)
    have "length (filter (\<lambda>t. terr_is_active t \<and> terr_is_saturated t) us) \<le> length (filter terr_is_active us)"
      for us by (induction us) auto
    then show ?case using Cons by (auto simp: due_for_crawl_def less_Suc_eq_le)
  qed simp
  from this [OF assms(1)] show ?thesis by (simp add: all_saturated_def Let_def)
qed

lemma send_crawl_fold:
  assumes "ce_broker env crawl_task_name"
  shows "fold (send_crawl env) ts (n, s) = (n + length ts, s\<lparr>dispatched := dispatched s
    @ replicate (length ts) (plain_call crawl_task_name None)\<rparr>)"
  by (induction ts arbitrary: n s)
    (simp_all add: send_crawl_def assms dispatch_def replicate_append_same)

text \<open>
  The scheduled crawl sends one message for each territory that is active, not saturated
  and not crawled for three days, and one for the batch if the automatic pipeline is on;
  otherwise it leaves the database as it is.  The alert that all territories are saturated, for
  which it looks after sending, is never raised: it only looks when one of them is not.
\<close>

theorem scheduled_crawl_effect:
  fixes s :: store
  defines "n \<equiv> length (filter (due_for_crawl (now s)) (territories s))"
  assumes "ce_broker env crawl_task_name" "ce_broker env ''app.workers.tasks.task_batch_pipeline''"
  shows "snd (task_scheduled_crawl env retries s) = s\<lparr>dispatched := dispatched s
      @ replicate n (plain_call crawl_task_name None)
      @ (if 0 < n \<and> (case ops s of None \<Rightarrow> False | Some r \<Rightarrow> ops_auto_pipeline_enabled r)
         then [plain_call ''app.workers.tasks.task_batch_pipeline'' None] else [])\<rparr>
    \<and> notifs (snd (scheduled_session env s)) = notifs s"
proof (cases "filter (due_for_crawl (now s)) (territories s)")
  case Nil
  then show ?thesis by (simp add: task_scheduled_crawl_def scheduled_session_def n_def rollback_to_def)
next
  case (Cons t ts)
  let ?due = "filter (due_for_crawl (now s)) (territories s)"
  let ?s1 = "s\<lparr>dispatched := dispatched s @ replicate n (plain_call crawl_task_name None)\<rparr>"
  have "t \<in> set ?due" by (simp only: Cons list.set_intros)
  then have "\<not> all_saturated s" using due_not_all_saturated [of t s "now s"] by simp
  then have ns: "\<not> all_saturated ?s1" by (simp add: all_saturated_def)
  have f: "fold (send_crawl env) ?due (0, s) = (n, ?s1)"
    by (simp only: send_crawl_fold [OF assms(2)] n_def add_0)
  have n: "0 < n" by (simp only: n_def Cons) simp
  have due: "?due \<noteq> []" by (simp only: Cons) simp
  show ?thesis
    using ns due n assms(3)
    by (cases "case ops s of None \<Rightarrow> False | Some r \<Rightarrow> ops_auto_pipeline_enabled r")
      (simp_all add: task_scheduled_crawl_def scheduled_session_def f rollback_to_def dispatch_def)
qed

section \<open>The statistics\<close>

lemma dup_ratio_range: "dup \<le> found \<Longrightarrow> 0 \<le> dup_ratio dup found \<and> dup_ratio dup found \<le> 1"
  by (auto simp: dup_ratio_def divide_le_eq max_def)

lemma crawled_territory_eq:
  "crawled_territory r tm t = t\<lparr>terr_last_crawled_at := Some tm, terr_last_dup_ratio := Some r,
     terr_crawl_count := terr_crawl_count t + 1,
     terr_is_saturated := (terr_is_saturated t \<or> 4 / 5 < r)\<rparr>"
  by (cases "terr_is_saturated t") (simp_all add: crawled_territory_def Let_def)

lemma not_lost_alone: "\<not> lost_race s a s"
  unfolding lost_race_def by blast

lemma crawl_stats_state:
  assumes "get_territory s k = Some t"
  shows "update_crawl_stats k name dup found s
    = (upd_territory k (crawled_territory (dup_ratio dup found) (now s)) s)
        \<lparr>next_uuid := next_uuid (update_crawl_stats k name dup found s)\<rparr>"
proof -
  let ?s1 = "upd_territory k (crawled_territory (dup_ratio dup found) (now s)) s"
  let ?e = "on_territory_saturated ?s1 k name (dup_ratio dup found) ?s1"
  have nf: "notif_frame ?s1 ?e" unfolding on_territory_saturated_def by (rule emit_notif_frame [OF not_lost_alone])
  then have "rollback_to ?s1 ?e = ?s1\<lparr>next_uuid := next_uuid ?e\<rparr>"
    using notif_frame_fields(21,22) [OF nf] by (simp add: rollback_to_def)
  then show ?thesis by (simp add: update_crawl_stats_def assms Let_def)
qed

text \<open>
  What a finished crawl does to its territory: time, ratio and count are written, and the
  territory is saturated if it was before or if more than four fifths of this one crawl were
  duplicates, whatever the ratio of the crawl before.  Every other territory and every other
  table stays as it is, the notifications included: the alert is written after the commit.
\<close>

theorem crawl_saturation_effect:
  assumes "get_territory s k = Some t"
  shows "\<exists>t'. get_territory (update_crawl_stats k name dup found s) k = Some t'
    \<and> terr_last_dup_ratio t' = Some (dup_ratio dup found)
    \<and> terr_last_crawled_at t' = Some (now s) \<and> terr_crawl_count t' = terr_crawl_count t + 1
    \<and> terr_is_saturated t' = (terr_is_saturated t \<or> 4 / 5 < dup_ratio dup found)
    \<and> update_crawl_stats k name dup found s
        = s\<lparr>territories := territories (upd_territory k (crawled_territory (dup_ratio dup found) (now s)) s),
            next_uuid := next_uuid (update_crawl_stats k name dup found s)\<rparr>"
proof -
  let ?f = "crawled_territory (dup_ratio dup found) (now s)"
  let ?s1 = "upd_territory k ?f s"
  have g: "get_territory ?s1 k = Some ((?f t)\<lparr>terr_updated_at := now s\<rparr>)"
    by (rule get_upd_territory [OF assms]) (simp add: crawled_territory_eq)
  note same = crawl_stats_state [OF assms, of name dup found]
  have terr: "territories (update_crawl_stats k name dup found s) = territories ?s1"
    by (subst same) simp
  have "get_territory (update_crawl_stats k name dup found s) k = Some ((?f t)\<lparr>terr_updated_at := now s\<rparr>)"
    using g by (simp add: get_territory_def terr)
  moreover have "update_crawl_stats k name dup found s
      = s\<lparr>territories := territories ?s1, next_uuid := next_uuid (update_crawl_stats k name dup found s)\<rparr>"
    by (subst same) (simp add: upd_territory_def)
  ultimately show ?thesis
    by (intro exI [of _ "(?f t)\<lparr>terr_updated_at := now s\<rparr>"]) (simp add: crawled_territory_eq)
qed

section \<open>The leads of a crawl\<close>

definition crawled_lead :: "uuid \<Rightarrow> lead \<Rightarrow> bool" where
  "crawled_lead source l \<longleftrightarrow> lead_status l = NEW \<and> lead_source_id l = Some source \<and> lead_email l = None"

definition fingerprints_unique :: "store \<Rightarrow> bool" where
  "fingerprints_unique s \<longleftrightarrow> distinct (List.map_filter lead_dedup_hash (leads s))"

text \<open>\<open>s'\<close> has grown from \<open>s\<close> by \<open>n\<close> crawled leads, and the fingerprints stay unique.\<close>

definition grown_by :: "uuid \<Rightarrow> nat \<Rightarrow> store \<Rightarrow> store \<Rightarrow> bool" where
  "grown_by source n s s' \<longleftrightarrow> (\<exists>ls. leads s' = leads s @ ls \<and> length ls = n \<and> list_all (crawled_lead source) ls)
     \<and> (fingerprints_unique s \<longrightarrow> fingerprints_unique s')"

lemma grown_by_0 [simp]: "leads s' = leads s \<Longrightarrow> grown_by source 0 s s'"
  by (simp add: grown_by_def fingerprints_unique_def)

lemma grown_by_trans:
  assumes "grown_by source m s s'" "grown_by source n s' s''"
  shows "grown_by source (m + n) s s''"
proof -
  obtain ls ls' where "leads s' = leads s @ ls" "length ls = m" "list_all (crawled_lead source) ls"
    "leads s'' = leads s' @ ls'" "length ls' = n" "list_all (crawled_lead source) ls'"
    using assms by (auto simp: grown_by_def)
  then show ?thesis using assms
    unfolding grown_by_def by (intro conjI exI [of _ "ls @ ls'"]) auto
qed

lemma grown_by_leads: "grown_by source n s s' \<Longrightarrow> leads t = leads s' \<Longrightarrow> grown_by source n s t"
  by (simp add: grown_by_def fingerprints_unique_def)

lemma store_raw_grows:
  assumes "store_raw digest source r (c, d, s) = (c', d', s')"
  shows "c' + d' = Suc (c + d) \<and> c \<le> c' \<and> grown_by source (c' - c) s s'"
proof -
  let ?h = "compute_dedup_hash digest (rl_business_name r) (rl_city r) (rl_website_url r)"
  let ?d = "lead_of_raw source r"
  show ?thesis
  proof (cases "find (\<lambda>l. lead_dedup_hash l = Some ?h) (leads s)")
    case None
    show ?thesis
    proof (cases "lead_create_ok ?d")
      case True
      have "create_lead digest ?d s = Inr (new_lead ?d ?h s, add_lead (new_lead ?d ?h s) (tick_uuid s))"
        using None by (simp add: create_lead_def lead_of_raw_def Let_def)
      then have r: "c' = Suc c" "d' = d" "leads s' = leads s @ [new_lead ?d ?h s]"
        using assms None True by (auto simp: store_raw_def Let_def leads_add)
      moreover have "crawled_lead source (new_lead ?d ?h s)"
        by (simp add: crawled_lead_def new_lead_def lead_of_raw_def)
      moreover have "?h \<notin> set (List.map_filter lead_dedup_hash (leads s))"
        using None by (auto simp: find_None_iff map_filter_def)
      then have "fingerprints_unique s \<Longrightarrow> fingerprints_unique s'"
        by (simp add: fingerprints_unique_def r(3) map_filter_def new_lead_def)
      ultimately show ?thesis by (simp add: grown_by_def)
    qed (use assms None in \<open>auto simp: store_raw_def Let_def\<close>)
  qed (use assms in \<open>auto simp: store_raw_def Let_def\<close>)
qed

lemma store_raws_grow:
  assumes "fold (store_raw digest source) rs (c, d, s) = (c', d', s')"
  shows "c' + d' = c + d + length rs \<and> c \<le> c' \<and> grown_by source (c' - c) s s'"
  using assms
proof (induction rs arbitrary: c d s)
  case (Cons r rs)
  obtain c1 d1 s1 where 1: "store_raw digest source r (c, d, s) = (c1, d1, s1)" by (cases rule: prod_cases3)
  with Cons.prems have 2: "fold (store_raw digest source) rs (c1, d1, s1) = (c', d', s')" by simp
  note h = store_raw_grows [OF 1] Cons.IH [OF 2]
  then have "grown_by source ((c1 - c) + (c' - c1)) s s'" by (blast intro: grown_by_trans)
  moreover have "(c1 - c) + (c' - c1) = c' - c" using h by simp
  ultimately show ?case using h by simp
qed simp

lemma sync_crawl_leads [simp]:
  "leads (w_db (sync_crawl tid terr p j u w)) = leads (w_db w)"
  by (simp add: sync_crawl_def persist_operational_task_state_def update_task_run_def
      mirror_territory_crawl_state_def mirror_state_def upd_task_def Let_def)

lemma crawl_cities_grow:
  assumes others: "\<And>c w. leads (w_db (ce_others env c w)) = leads (w_db w)"
    and "crawl_cities env opts tid terr source key t cities idx p f c d w = (Crawl_completed f' c' d', p', w')"
    and "f = c + d"
  shows "f' = c' + d' \<and> c \<le> c' \<and> grown_by source (c' - c) (w_db w) (w_db w')"
  using assms(2,3)
proof (induction cities arbitrary: idx p f c d w)
  case (Cons city cities)
  let ?w1 = "ce_others env city w"
  let ?p1 = "p\<lparr>cp_current_city_idx := int idx, cp_current_city := city, cp_current_step := ''crawling''\<rparr>"
  let ?w2 = "sync_crawl tid terr ?p1 None no_task_update ?w1"
  have go: "\<not> should_stop_operational_task tid (territory_crawl_redis_key terr) True ?w1"
    using Cons.prems(1) by (auto simp: Let_def)
  show ?case
  proof (cases "ce_crawl env (crawl_query_of opts key t city)")
    case (Inl e)
    then have "crawl_cities env opts tid terr source key t cities (Suc idx) ?p1 f c d ?w2
        = (Crawl_completed f' c' d', p', w')"
      using Cons.prems(1) go by (simp add: Let_def)
    from Cons.IH [OF this Cons.prems(2)] show ?thesis
      by (simp add: grown_by_def fingerprints_unique_def others)
  next
    case (Inr raws)
    obtain c1 d1 s1 where st: "fold (store_raw (ce_digest env) source) raws (c, d, w_db ?w2) = (c1, d1, s1)"
      by (cases rule: prod_cases3)
    let ?p2 = "?p1\<lparr>cp_leads_found := int (f + length raws), cp_leads_created := int c1,
       cp_leads_skipped := int d1\<rparr>"
    let ?w3 = "sync_crawl tid terr ?p2 None no_task_update (?w2\<lparr>w_db := s1\<rparr>)"
    have "crawl_cities env opts tid terr source key t cities (Suc idx) ?p2 (f + length raws) c1 d1 ?w3
        = (Crawl_completed f' c' d', p', w')"
      using Cons.prems(1) go Inr st by (simp add: Let_def)
    moreover note h = store_raws_grow [OF st]
    moreover have "f + length raws = c1 + d1" using h Cons.prems(2) by simp
    ultimately have r: "f' = c' + d'" "c1 \<le> c'" "grown_by source (c' - c1) (w_db ?w3) (w_db w')"
      using Cons.IH by blast+
    have "grown_by source (c1 - c) (w_db w) (w_db ?w3)"
      using h by (simp add: grown_by_def fingerprints_unique_def others)
    from grown_by_trans [OF this r(3)] have "grown_by source ((c1 - c) + (c' - c1)) (w_db w) (w_db w')" .
    moreover have "(c1 - c) + (c' - c1) = c' - c" using h r(2) by simp
    ultimately show ?thesis using r h by simp
  qed
qed simp

lemma tracked_leads:
  assumes "mark_task_running b tid m b = Inr s"
  shows "leads s = leads b"
proof -
  obtain s1 where "queue_task_run b tid m b = Inr s1" "leads s = leads s1"
    using assms by (auto simp: mark_task_running_def update_run_if_def update_pipeline_run_def Let_def
        upd_task_def upd_run_def split: sum.splits option.splits)
  then show ?thesis
    by (auto simp: queue_task_run_def requeue_after_rollback_def Let_def upd_task_def add_task_def
        rollback_to_def split: option.splits if_splits)
qed

lemma update_stats_leads: "leads (update_crawl_stats k name dup found s) = leads s"
proof (cases "get_territory s k")
  case (Some t)
  show ?thesis by (subst crawl_stats_state [OF Some]) (simp add: upd_territory_def)
qed (simp add: update_crawl_stats_def)


section \<open>Closed examples\<close>

definition demo_raw :: "string \<Rightarrow> raw_lead" where
  "demo_raw n = \<lparr>rl_business_name = n, rl_industry = None, rl_city = Some ''Tigre'', rl_zone = None,
     rl_website_url = None, rl_instagram_url = None, rl_email = None, rl_phone = None,
     rl_source_url = None, rl_address = None, rl_google_maps_url = None, rl_rating = None,
     rl_review_count = None, rl_business_status = None, rl_opening_hours = None,
     rl_latitude = None, rl_longitude = None\<rparr>"

definition demo_crawl_env :: crawl_env where
  "demo_crawl_env = \<lparr>ce_api_key = (\<lambda>s. Inr (Some ''k'')),
     ce_crawl = (\<lambda>q. Inr [demo_raw ''Bar'', demo_raw ''bar '']), ce_digest = (\<lambda>t. t),
     ce_others = (\<lambda>c w. w), ce_broker = (\<lambda>n. True)\<rparr>"

definition demo_crawl_world :: world where
  "demo_crawl_world = \<lparr>w_db = demo_growth_store, w_redis = \<lparr>rd_up = True, rd_data = []\<rparr>\<rparr>"

theorem scheduled_crawl_effect_witness:
  "dispatched (snd (task_scheduled_crawl demo_crawl_env 0 demo_growth_store))
     = [plain_call crawl_task_name None, plain_call ''app.workers.tasks.task_batch_pipeline'' None]"
proof -
  have b: "ce_broker demo_crawl_env n" for n by (simp add: demo_crawl_env_def)
  show ?thesis
    using scheduled_crawl_effect [OF b b, of 0 demo_growth_store]
    by (simp add: demo_growth_store_def demo_territory_def new_territory_def due_for_crawl_def Let_def
        get_or_create_def empty_store_def)
qed

theorem crawl_saturation_effect_witness:
  "\<exists>t'. get_territory (update_crawl_stats 1 ''Sur'' 9 10 demo_growth_store) 1 = Some t'
     \<and> terr_last_dup_ratio demo_territory = None \<and> terr_is_saturated t'"
proof -
  have g: "get_territory demo_growth_store 1 = Some demo_territory"
    by (simp add: get_territory_def demo_growth_store_def demo_territory_def new_territory_def Let_def)
  from crawl_saturation_effect [OF g, of "''Sur''" 9 10] show ?thesis
    by (auto simp: dup_ratio_def demo_territory_def new_territory_def)
qed


section \<open>Identifiers\<close>

lemma remove_text_none: "p \<noteq> [] \<Longrightarrow> hd p \<notin> set s \<Longrightarrow> remove_text p s = s"
proof (induction p s rule: remove_text.induct)
  case (2 p c s)
  then have "\<not> starts_with p (c # s)" by (cases p) auto
  with 2 show ?case by simp
qed simp

lemma hex_digit_set: "n < 16 \<Longrightarrow> hex_digit n \<in> set hex_digits"
proof -
  assume "n < 16"
  moreover have "list_all (\<lambda>n. hex_digit n \<in> set hex_digits) [0..<16]" by code_simp
  ultimately show ?thesis by (simp add: list_all_iff)
qed

lemma hex_rev_digits: "list_all (\<lambda>c. c \<in> set hex_digits) (hex_rev n)"
proof (induction n rule: hex_rev.induct)
  case (1 n)
  then show ?case by (cases "n < 16") (simp_all add: hex_rev.simps [of n] hex_digit_set)
qed

lemma uuid_hex_digits: "list_all (\<lambda>c. c \<in> set hex_digits) (uuid_hex n)"
proof -
  have "CHR ''0'' \<in> set hex_digits" by (simp add: hex_digits_def)
  then show ?thesis using hex_rev_digits [of n]
    by (auto simp: uuid_hex_def Let_def list_all_iff)
qed

lemma length_hex_rev: "n < 16 ^ Suc m \<Longrightarrow> length (hex_rev n) \<le> Suc m"
proof (induction m arbitrary: n)
  case (Suc m)
  then show ?case by (subst hex_rev.simps) (simp add: less_mult_imp_div_less)
qed (simp add: hex_rev.simps)

lemma length_uuid_hex: "n < 16 ^ 32 \<Longrightarrow> length (uuid_hex n) = 32"
  using length_hex_rev [of n 31] by (simp add: uuid_hex_def Let_def)

lemma uuid_str_chars: "set (uuid_str n) \<subseteq> insert (CHR ''-'') (set (uuid_hex n))"
  by (auto simp: uuid_str_def Let_def dest: in_set_takeD in_set_dropD)

lemma hex_digits_lower: "list_all (\<lambda>c. c \<in> set hex_digits) t \<Longrightarrow> lower t = t"
proof -
  assume a: "list_all (\<lambda>c. c \<in> set hex_digits) t"
  have "lower hex_digits = hex_digits" by code_simp
  then have "lower_char c = c" if "c \<in> set hex_digits" for c
    using that by (auto simp: lower_def hex_digits_def)
  then show ?thesis using a by (simp add: lower_def list_all_iff map_idI)
qed

lemma dropWhile_none: "list_all (\<lambda>c. \<not> p c) s \<Longrightarrow> dropWhile p s = s"
  by (cases s) auto

text \<open>
  Identifiers survive being written and read: the text of a territory's identifier, which is
  what the tasks, the endpoints and the keys of the mirror carry, is read back as the same one.
\<close>

theorem uuid_roundtrip:
  assumes "k < 2 ^ 128"
  shows "py_uuid (uuid_str k) = Some k"
proof -
  have h: "set (uuid_str k) \<subseteq> insert (CHR ''-'') (set hex_digits)"
    using uuid_str_chars [of k] uuid_hex_digits [of k] by (auto simp: list_all_iff)
  have "remove_text ''urn:'' (uuid_str k) = uuid_str k"
    by (rule remove_text_none) (use h in \<open>auto simp: hex_digits_def\<close>)
  moreover have "remove_text ''uuid:'' (uuid_str k) = uuid_str k"
    by (rule remove_text_none) (use h in \<open>auto simp: hex_digits_def\<close>)
  moreover have nb: "list_all (\<lambda>c. \<not> brace c) (uuid_str k)"
    using h by (fastforce simp: list_all_iff brace_def hex_digits_def)
  then have "dropWhile brace (uuid_str k) = uuid_str k" "rstrip_where brace (uuid_str k) = uuid_str k"
    by (simp_all add: dropWhile_none rstrip_where_def list_all_rev)
  moreover have "lower (uuid_hex k) = uuid_hex k" by (rule hex_digits_lower [OF uuid_hex_digits])
  moreover have "length (uuid_hex k) = 32" using assms length_uuid_hex [of k] by simp
  ultimately show ?thesis
    by (simp add: py_uuid_def Let_def remove_dash_uuid uuid_hex_digits uuid_hex_value)
qed

theorem uuid_roundtrip_witness: "py_uuid (uuid_str 255) = Some 255"
  by (rule uuid_roundtrip) simp

end
