(* ===== verification/Research.thy ===== *)
theory Research
  imports Pipeline_Workers
begin

text \<open>
  What is found out about a lead before it is contacted: the research of its web presence
  (\<open>app/services/research/research_service.py\<close>), the commercial brief and its review
  (\<open>brief_service.py\<close>), and the synchronous lane of both that the batch uses
  (\<open>app/workflows/lead_pipeline.py\<close>).  Both services only flush; committing is left to the caller.
\<close>

section \<open>Research reports\<close>

definition confidence_value :: "ConfidenceLevel \<Rightarrow> string" where
  "confidence_value c = (case c of C_CONFIRMED \<Rightarrow> ''confirmed'' | C_PROBABLE \<Rightarrow> ''probable''
     | C_UNKNOWN \<Rightarrow> ''unknown'' | C_MISMATCH \<Rightarrow> ''mismatch'')"

definition research_status_value :: "ResearchStatus \<Rightarrow> string" where
  "research_status_value st = (case st of R_PENDING \<Rightarrow> ''pending'' | R_RUNNING \<Rightarrow> ''running''
     | R_COMPLETED \<Rightarrow> ''completed'' | R_FAILED \<Rightarrow> ''failed'')"

text \<open>What \<open>BeautifulSoup\<close> finds in a page: its title, its description and its Open Graph tags.\<close>

record html_meta =
  hm_title :: "string option"
  hm_description :: "string option"
  hm_og_tags :: "(string \<times> string) list"

text \<open>
  The web as research sees it: how a site and a profile answer (an exception with its text, or a
  status code with a body), what the parser finds, and how long it takes.
\<close>

record research_web =
  rw_get :: "string \<Rightarrow> string + int \<times> string"
  rw_instagram :: "string \<Rightarrow> string + int \<times> string"
  rw_parse :: "string \<Rightarrow> html_meta"
  rw_duration_ms :: int

definition report_of :: "store \<Rightarrow> uuid \<Rightarrow> research_report option" where
  "report_of s k = find (\<lambda>r. rep_lead_id r = k) (reports s)"

definition stamp_report :: "store \<Rightarrow> (research_report \<Rightarrow> research_report) \<Rightarrow> research_report \<Rightarrow> research_report" where
  "stamp_report s f r = (if f r = r then r else (f r)\<lparr>rep_updated_at := now s\<rparr>)"

definition upd_report :: "uuid \<Rightarrow> (research_report \<Rightarrow> research_report) \<Rightarrow> store \<Rightarrow> store" where
  "upd_report k f s = s\<lparr>reports := tbl_update rep_id k (stamp_report s f) (reports s)\<rparr>"

definition get_research_report_for_lead :: "store \<Rightarrow> uuid \<Rightarrow> research_report option" where
  "get_research_report_for_lead s k = (case get_lead s k of None \<Rightarrow> None | Some l \<Rightarrow> report_of s k)"

text \<open>The lead and its newest screenshot.\<close>

definition get_lead_screenshot_artifact :: "store \<Rightarrow> uuid \<Rightarrow> lead option \<times> artifact option" where
  "get_lead_screenshot_artifact s k = (case get_lead s k of
     None \<Rightarrow> (None, None)
   | Some l \<Rightarrow> (Some l, first_max art_created_at
       (filter (\<lambda>a. art_lead_id a = k \<and> art_artifact_type a = SCREENSHOT) (artifacts s))))"

definition new_report :: "uuid \<Rightarrow> store \<Rightarrow> research_report" where
  "new_report k s = \<lparr>rep_id = next_uuid s, rep_lead_id = k, rep_status = R_PENDING,
     rep_website_exists = None, rep_website_url_verified = None, rep_website_confidence = None,
     rep_instagram_exists = None, rep_instagram_url_verified = None,
     rep_instagram_confidence = None, rep_whatsapp_detected = None,
     rep_whatsapp_confidence = None, rep_screenshots_json = None,
     rep_detected_signals_json = None, rep_html_metadata_json = None,
     rep_business_description = None, rep_researcher_model = None,
     rep_research_duration_ms = None, rep_error = None, rep_created_at = now s,
     rep_updated_at = now s\<rparr>"

text \<open>
  \<open>create_or_get_report\<close>: when another session has committed a report for the lead meanwhile,
  the insert fails on the unique key, the session is rolled back and that report is read.
\<close>

definition create_or_get_report :: "store \<Rightarrow> uuid \<Rightarrow> store \<Rightarrow> research_report \<times> store" where
  "create_or_get_report base k s = (case report_of s k of
     Some r \<Rightarrow> (r, s)
   | None \<Rightarrow> (case report_of base k of
       Some r \<Rightarrow> (r, rollback_to base s)
     | None \<Rightarrow> (new_report k s, (tick_uuid s)\<lparr>reports := reports s @ [new_report k s]\<rparr>)))"

section \<open>The investigation\<close>

definition research_signal :: "string \<Rightarrow> string \<Rightarrow> pyfloat \<Rightarrow> json" where
  "research_signal type detail confidence = JObj [(''type'', JStr type), (''detail'', JStr detail),
     (''confidence'', JFloat confidence)]"

definition mentions_whatsapp :: "string \<Rightarrow> bool" where
  "mentions_whatsapp t = (contains ''wa.me'' t \<or> contains ''whatsapp'' t
     \<or> contains ''api.whatsapp.com'' t)"

definition meta_json :: "html_meta \<Rightarrow> (string \<times> json) list" where
  "meta_json m = [(''title'', jstr (if truthy (hm_title m) then map_option strip (hm_title m) else None)),
       (''description'', jstr (if truthy (hm_description m) then hm_description m else None))]
     @ (if hm_og_tags m = [] then []
        else [(''og_tags'', JObj (map (\<lambda>(k, v). (k, JStr v)) (hm_og_tags m)))])"

text \<open>Each part of the investigation gives the report, its signals and the metadata of the page.\<close>

definition research_website ::
    "research_web \<Rightarrow> lead \<Rightarrow> research_report \<Rightarrow> research_report \<times> json list \<times> (string \<times> json) list" where
  "research_website env l r =
     (if truthy (lead_website_url l)
      then
        let url = text_or_empty (lead_website_url l);
            r1 = r\<lparr>rep_website_exists := Some True, rep_website_url_verified := Some url,
              rep_website_confidence := Some C_CONFIRMED\<rparr>
        in case rw_get env url of
             Inl err \<Rightarrow> (r1\<lparr>rep_website_confidence := Some C_MISMATCH\<rparr>,
               [research_signal ''website_error'' (take 200 err) (8 / 10)], [])
           | Inr (status, html) \<Rightarrow>
               if status < 400
               then
                 let found = mentions_whatsapp (lower html)
                 in (r1\<lparr>rep_whatsapp_detected := Some found,
                       rep_whatsapp_confidence := Some (if found then C_PROBABLE else C_UNKNOWN)\<rparr>,
                     (if found then [research_signal ''whatsapp_detected''
                        ''WhatsApp link/reference found on website'' (7 / 10)] else [])
                     @ (if starts_with ''https'' url
                        then [research_signal ''has_ssl'' ''HTTPS detected'' 1] else []),
                     meta_json (rw_parse env (take 50000 html)))
               else (r1\<lparr>rep_website_confidence := Some C_MISMATCH\<rparr>,
                 [research_signal ''website_error'' (''HTTP '' @ int_str status) (9 / 10)], [])
      else (r\<lparr>rep_website_exists := Some False, rep_website_confidence := Some C_CONFIRMED\<rparr>,
        [research_signal ''no_website'' ''No website URL in lead data'' 1], []))"

definition note_instagram :: "lead \<Rightarrow> research_report \<Rightarrow> research_report" where
  "note_instagram l r =
     (if truthy (lead_instagram_url l)
      then r\<lparr>rep_instagram_exists := Some True, rep_instagram_url_verified := lead_instagram_url l,
        rep_instagram_confidence := Some C_PROBABLE\<rparr>
      else r\<lparr>rep_instagram_exists := Some False, rep_instagram_confidence := Some C_UNKNOWN\<rparr>)"

definition whatsapp_on_instagram ::
    "research_web \<Rightarrow> lead \<Rightarrow> research_report \<Rightarrow> research_report \<times> json list" where
  "whatsapp_on_instagram env l r =
     (if rep_whatsapp_detected r \<noteq> Some True \<and> truthy (lead_instagram_url l)
      then (case rw_instagram env (text_or_empty (lead_instagram_url l)) of
          Inl err \<Rightarrow> (r, [])
        | Inr (status, body) \<Rightarrow>
            if status < 400 \<and> mentions_whatsapp (lower (take 100000 body))
            then (r\<lparr>rep_whatsapp_detected := Some True, rep_whatsapp_confidence := Some C_CONFIRMED\<rparr>,
              [research_signal ''whatsapp_confirmed'' ''WhatsApp link/mention found on Instagram page'' 1])
            else (r, []))
      else (r, []))"

text \<open>The dash of the detail is written with an ASCII sign.\<close>

definition whatsapp_by_phone :: "lead \<Rightarrow> research_report \<Rightarrow> research_report \<times> json list" where
  "whatsapp_by_phone l r =
     (if rep_whatsapp_detected r \<noteq> Some True \<and> truthy (lead_phone l)
      then (r\<lparr>rep_whatsapp_detected := Some True, rep_whatsapp_confidence := Some C_PROBABLE\<rparr>,
        [research_signal ''whatsapp_probable'' (''Phone detected ('' @ take 6 (text_or_empty (lead_phone l))
          @ ''...) - WhatsApp probable'') (8 / 10)])
      else (r, []))"

definition researched :: "research_web \<Rightarrow> datetime \<Rightarrow> lead \<Rightarrow> research_report \<Rightarrow> research_report" where
  "researched env tm l r =
     (let (r1, g1, meta) = research_website env l r;
          (r2, g2) = whatsapp_on_instagram env l (note_instagram l r1);
          (r3, g3) = whatsapp_by_phone l r2
      in r3\<lparr>rep_detected_signals_json := Some (JList (g1 @ g2 @ g3)),
           rep_html_metadata_json := (if meta = [] then None else Some (JObj meta)),
           rep_research_duration_ms := Some (rw_duration_ms env),
           rep_status := R_COMPLETED, rep_updated_at := tm\<rparr>)"

text \<open>
  \<open>run_research\<close>: the report read back.  Its handler for exceptions is only reached by a flush
  that fails, which makes the flush of the handler fail too.
\<close>

definition run_research ::
    "research_web \<Rightarrow> store \<Rightarrow> uuid \<Rightarrow> store \<Rightarrow> research_report option \<times> store" where
  "run_research env base k s = (case get_lead s k of
     None \<Rightarrow> (None, s)
   | Some l \<Rightarrow>
       let (r, s1) = create_or_get_report base k s in
       if rep_status r = R_COMPLETED then (Some r, s1)
       else
         let l1 = (case get_lead s1 k of Some x \<Rightarrow> x | None \<Rightarrow> l);
             s2 = upd_report (rep_id r) (researched env (now s1) l1) s1
         in (report_of s2 k, s2))"

section \<open>Commercial briefs\<close>

definition budget_tier_value :: "BudgetTier \<Rightarrow> string" where
  "budget_tier_value t = (case t of BT_LOW \<Rightarrow> ''low'' | BT_MEDIUM \<Rightarrow> ''medium''
     | BT_HIGH \<Rightarrow> ''high'' | BT_PREMIUM \<Rightarrow> ''premium'')"

definition brief_status_value :: "BriefStatus \<Rightarrow> string" where
  "brief_status_value st = (case st of BRIEF_PENDING \<Rightarrow> ''pending'' | BRIEF_GENERATED \<Rightarrow> ''generated''
     | BRIEF_REVIEWED \<Rightarrow> ''reviewed'' | BRIEF_FAILED \<Rightarrow> ''failed'')"

text \<open>
  The answers of the language model (\<open>CommercialBriefResult\<close>, \<open>CommercialBriefReviewResult\<close> and
  what the invocation reports about them).
\<close>

record brief_answer =
  ba_opportunity_score :: pyfloat
  ba_estimated_scope :: string
  ba_recommended_contact_method :: string
  ba_should_call :: string
  ba_call_reason :: string
  ba_why_this_lead_matters :: string
  ba_main_business_signals :: "string list"
  ba_main_digital_gaps :: "string list"
  ba_recommended_angle :: string
  ba_demo_recommended :: bool

record brief_review_answer =
  bv_approved :: bool
  bv_feedback :: string

text \<open>
  \<open>json.loads\<close> of the stored matrix (\<open>None\<close>: it raises), the text of the \<open>TypeError\<close> when a
  document of the wrong shape is searched, subscripted or compared, the number a float column
  stores for a text (\<open>None\<close>: the database refuses it), and the two invocations: an exception, or
  the parsed answer, the model and whether a fall-back was used.
\<close>

record brief_env =
  be_loads :: "string \<Rightarrow> json option"
  be_type_error :: "json \<Rightarrow> string"
  be_text_number :: "string \<Rightarrow> pyfloat option"
  be_generate :: "lead \<Rightarrow> string list \<Rightarrow> json \<Rightarrow> json \<Rightarrow>
      string + brief_answer option \<times> string option \<times> bool"
  be_review :: "commercial_brief \<Rightarrow> string + brief_review_answer option \<times> string option"

definition price_range :: "int \<Rightarrow> int \<Rightarrow> json" where
  "price_range low high = JObj [(''min'', JInt low), (''max'', JInt high)]"

definition default_pricing_matrix :: json where
  "default_pricing_matrix = JObj [(''landing'', price_range 300 600),
     (''institutional_web'', price_range 500 1200), (''catalog'', price_range 600 1500),
     (''ecommerce'', price_range 1500 4000), (''redesign'', price_range 400 1000),
     (''automation'', price_range 800 3000), (''branding_web'', price_range 1000 2500)]"

definition get_pricing_matrix :: "brief_env \<Rightarrow> store \<Rightarrow> json \<times> store" where
  "get_pricing_matrix env s =
     (let (st, s1) = get_or_create s in
      (if truthy (ops_pricing_matrix st)
       then (case be_loads env (text_or_empty (ops_pricing_matrix st)) of
           Some j \<Rightarrow> j | None \<Rightarrow> default_pricing_matrix)
       else default_pricing_matrix, s1))"

definition get_brief_for_lead :: "store \<Rightarrow> uuid \<Rightarrow> commercial_brief option" where
  "get_brief_for_lead s k = find (\<lambda>b. cb_lead_id b = k) (briefs s)"

definition contact_priority_value :: "ContactPriority \<Rightarrow> string" where
  "contact_priority_value p = (case p of CP_IMMEDIATE \<Rightarrow> ''immediate'' | CP_HIGH \<Rightarrow> ''high''
     | CP_NORMAL \<Rightarrow> ''normal'' | CP_LOW \<Rightarrow> ''low'')"

definition list_briefs :: "store \<Rightarrow> string option \<Rightarrow> string option \<Rightarrow> nat \<Rightarrow> commercial_brief list" where
  "list_briefs s tier priority n = take n (sort_key (\<lambda>b. - cb_created_at b)
     (filter (\<lambda>b. (truthy tier \<longrightarrow> map_option budget_tier_value (cb_budget_tier b) = tier)
        \<and> (truthy priority \<longrightarrow> map_option contact_priority_value (cb_contact_priority b) = priority))
        (briefs s)))"

definition stamp_brief :: "store \<Rightarrow> (commercial_brief \<Rightarrow> commercial_brief) \<Rightarrow> commercial_brief \<Rightarrow> commercial_brief" where
  "stamp_brief s f b = (if f b = b then b else (f b)\<lparr>cb_updated_at := now s\<rparr>)"

definition upd_brief :: "uuid \<Rightarrow> (commercial_brief \<Rightarrow> commercial_brief) \<Rightarrow> store \<Rightarrow> store" where
  "upd_brief k f s = s\<lparr>briefs := tbl_update cb_id k (stamp_brief s f) (briefs s)\<rparr>"

definition new_brief :: "uuid \<Rightarrow> store \<Rightarrow> commercial_brief" where
  "new_brief k s = \<lparr>cb_id = next_uuid s, cb_lead_id = k, cb_research_report_id = None,
     cb_status = BRIEF_PENDING, cb_opportunity_score = None, cb_budget_tier = None,
     cb_estimated_budget_min = None, cb_estimated_budget_max = None, cb_estimated_scope = None,
     cb_recommended_contact_method = None, cb_should_call = None, cb_call_reason = None,
     cb_why_this_lead_matters = None, cb_main_business_signals = None,
     cb_main_digital_gaps = None, cb_recommended_angle = None, cb_demo_recommended = None,
     cb_contact_priority = None, cb_generator_model = None, cb_reviewer_model = None,
     cb_reviewed_at = None, cb_error = None, cb_is_fallback = False, cb_created_at = now s,
     cb_updated_at = now s\<rparr>"

definition create_or_get_brief :: "store \<Rightarrow> uuid \<Rightarrow> store \<Rightarrow> commercial_brief \<times> store" where
  "create_or_get_brief base k s = (case get_brief_for_lead s k of
     Some b \<Rightarrow> (b, s)
   | None \<Rightarrow> (case get_brief_for_lead base k of
       Some b \<Rightarrow> (b, rollback_to base s)
     | None \<Rightarrow> (new_brief k s, (tick_uuid s)\<lparr>briefs := briefs s @ [new_brief k s]\<rparr>)))"

section \<open>What the answer becomes\<close>

definition clamp :: "pyfloat \<Rightarrow> pyfloat \<Rightarrow> pyfloat \<Rightarrow> pyfloat" where
  "clamp lo hi x = max lo (min hi x)"

definition safe_enum :: "('e \<Rightarrow> string) \<Rightarrow> 'e list \<Rightarrow> string \<Rightarrow> 'e option" where
  "safe_enum value_of members v = (if v = [] then None else find (\<lambda>e. value_of e = v) members)"

definition all_scopes :: "EstimatedScope list" where
  "all_scopes = [LANDING, INSTITUTIONAL_WEB, CATALOG, ECOMMERCE, REDESIGN, AUTOMATION, BRANDING_WEB]"

definition all_contact_methods :: "ContactMethod list" where
  "all_contact_methods = [CM_WHATSAPP, CM_EMAIL, CM_CALL, CM_DEMO_FIRST, CM_MANUAL_REVIEW]"

definition all_call_decisions :: "CallDecision list" where
  "all_call_decisions = [CALL_YES, CALL_NO, CALL_MAYBE]"

definition infer_budget_tier :: "pyfloat option \<Rightarrow> BudgetTier option" where
  "infer_budget_tier m = (case m of None \<Rightarrow> None
   | Some x \<Rightarrow> Some (if x \<le> 700 then BT_LOW else if x \<le> 1500 then BT_MEDIUM
       else if x \<le> 3000 then BT_HIGH else BT_PREMIUM))"

definition infer_contact_priority :: "pyfloat option \<Rightarrow> ContactPriority option" where
  "infer_contact_priority m = (case m of None \<Rightarrow> None
   | Some x \<Rightarrow> Some (if 80 \<le> x then CP_IMMEDIATE else if 60 \<le> x then CP_HIGH
       else if 40 \<le> x then CP_NORMAL else CP_LOW))"

text \<open>
  The entry of a scope in the matrix: \<open>scope in pricing\<close> and \<open>pricing[scope]\<close>, then
  \<open>tier_data[key]\<close>; a float column takes a number, null or the text of a number, anything else
  fails its flush.
\<close>

definition priced_scope :: "brief_env \<Rightarrow> json \<Rightarrow> string \<Rightarrow> string + json option" where
  "priced_scope env pricing scope = (case pricing of
     JObj kvs \<Rightarrow> Inr (map_of kvs scope)
   | JList js \<Rightarrow> if JStr scope \<in> set js then Inl (be_type_error env pricing) else Inr None
   | JStr t \<Rightarrow> if contains scope t then Inl (be_type_error env pricing) else Inr None
   | _ \<Rightarrow> Inl (be_type_error env pricing))"

definition tier_entry :: "brief_env \<Rightarrow> json \<Rightarrow> string \<Rightarrow> string + json" where
  "tier_entry env tier key = (case tier of
     JObj kvs \<Rightarrow> (case map_of kvs key of Some v \<Rightarrow> Inr v | None \<Rightarrow> Inl ([CHR 0x27] @ key @ [CHR 0x27]))
   | _ \<Rightarrow> Inl (be_type_error env tier))"

fun float_cell :: "brief_env \<Rightarrow> json \<Rightarrow> pyfloat option option" where
  "float_cell env JNull = Some None"
| "float_cell env (JInt n) = Some (Some (of_int n))"
| "float_cell env (JFloat x) = Some (Some x)"
| "float_cell env (JStr t) = map_option Some (be_text_number env t)"
| "float_cell env j = None"

text \<open>
  The assignments to the budget of a brief: the columns, an exception after some of them, or a
  value the database refuses.
\<close>

datatype budget = Budgeted "pyfloat option" "pyfloat option" | Unpriced
  | Budget_raised string "pyfloat option option" "pyfloat option option" | Budget_refused

definition budget_of :: "brief_env \<Rightarrow> json \<Rightarrow> EstimatedScope option \<Rightarrow> budget" where
  "budget_of env pricing scope = (case scope of None \<Rightarrow> Unpriced
   | Some sc \<Rightarrow> (case priced_scope env pricing (scope_value sc) of
       Inl e \<Rightarrow> Budget_raised e None None
     | Inr None \<Rightarrow> Unpriced
     | Inr (Some tier) \<Rightarrow> (case tier_entry env tier ''min'' of
         Inl e \<Rightarrow> Budget_raised e None None
       | Inr low \<Rightarrow> (case float_cell env low of
           None \<Rightarrow> Budget_refused
         | Some lo \<Rightarrow> (case tier_entry env tier ''max'' of
             Inl e \<Rightarrow> Budget_raised e (Some lo) None
           | Inr high \<Rightarrow> (case float_cell env high of
               None \<Rightarrow> Budget_refused
             | Some hi \<Rightarrow> (case high of
                 JStr t \<Rightarrow> Budget_raised (be_type_error env high) (Some lo) (Some hi)
               | _ \<Rightarrow> Budgeted lo hi)))))))"

definition scored_brief :: "brief_answer option \<Rightarrow> commercial_brief \<Rightarrow> commercial_brief" where
  "scored_brief a b = b\<lparr>
     cb_opportunity_score := map_option (\<lambda>r. clamp 0 100 (ba_opportunity_score r)) a,
     cb_estimated_scope := safe_enum scope_value all_scopes
       (case a of None \<Rightarrow> [] | Some r \<Rightarrow> strip (lower (ba_estimated_scope r)))\<rparr>"

definition answered_brief ::
    "brief_answer option \<Rightarrow> string option \<Rightarrow> bool \<Rightarrow> datetime \<Rightarrow> commercial_brief \<Rightarrow> commercial_brief" where
  "answered_brief a model fallback tm b =
     (let norm = (\<lambda>f. case a of None \<Rightarrow> [] | Some r \<Rightarrow> strip (lower (f r))) in
      b\<lparr>cb_budget_tier := infer_budget_tier (cb_estimated_budget_max b),
        cb_recommended_contact_method := safe_enum contact_method_value all_contact_methods
          (norm ba_recommended_contact_method),
        cb_should_call := safe_enum call_decision_value all_call_decisions (norm ba_should_call),
        cb_call_reason := map_option ba_call_reason a,
        cb_why_this_lead_matters := map_option ba_why_this_lead_matters a,
        cb_main_business_signals := map_option ba_main_business_signals a,
        cb_main_digital_gaps := map_option ba_main_digital_gaps a,
        cb_recommended_angle := map_option ba_recommended_angle a,
        cb_demo_recommended := Some (case a of None \<Rightarrow> False | Some r \<Rightarrow> ba_demo_recommended r),
        cb_contact_priority := infer_contact_priority (cb_opportunity_score b),
        cb_generator_model := model, cb_is_fallback := fallback,
        cb_status := BRIEF_GENERATED, cb_updated_at := tm\<rparr>)"

definition failed_brief :: "string \<Rightarrow> commercial_brief \<Rightarrow> commercial_brief" where
  "failed_brief err b = b\<lparr>cb_status := BRIEF_FAILED, cb_error := Some (take 500 err)\<rparr>"

definition research_data :: "research_report option \<Rightarrow> json" where
  "research_data rep = (case rep of None \<Rightarrow> JObj []
   | Some r \<Rightarrow> JObj [(''website_confidence'', jstr (map_option confidence_value (rep_website_confidence r))),
       (''instagram_confidence'', jstr (map_option confidence_value (rep_instagram_confidence r))),
       (''whatsapp_detected'', (case rep_whatsapp_detected r of None \<Rightarrow> JNull | Some v \<Rightarrow> JBool v)),
       (''html_metadata'', json_opt (rep_html_metadata_json r)),
       (''business_description'', jstr (rep_business_description r))])"

text \<open>
  \<open>generate_brief\<close>: the brief read back, or the exception of a flush that failed twice, after
  which the session can only be rolled back.  A roll-back by the notification leaves a new brief
  as an object without a row.
\<close>

definition generate_brief ::
    "brief_env \<Rightarrow> store \<Rightarrow> uuid \<Rightarrow> store \<Rightarrow> string + commercial_brief option \<times> store" where
  "generate_brief env base k s = (case get_lead s k of
     None \<Rightarrow> Inr (None, s)
   | Some l \<Rightarrow>
       let (b, s1) = create_or_get_brief base k s;
           rep = report_of s1 k;
           s2 = (case rep of None \<Rightarrow> s1
             | Some r \<Rightarrow> upd_brief (cb_id b) (\<lambda>b. b\<lparr>cb_research_report_id := Some (rep_id r)\<rparr>) s1);
           (pricing, s3) = get_pricing_matrix env s2;
           failed = (\<lambda>err f. let s4 = upd_brief (cb_id b) (failed_brief err \<circ> f) s3
             in Inr (get_brief_for_lead s4 k, s4))
       in case be_generate env l (map (\<lambda>g. signal_value (sig_signal_type g)) (signals_of s3 k))
              (research_data rep) pricing of
            Inl err \<Rightarrow> failed err id
          | Inr (a, model, fallback) \<Rightarrow>
              (case budget_of env pricing (cb_estimated_scope (scored_brief a b)) of
                 Budget_refused \<Rightarrow> Inl ''DBAPIError''
               | Budget_raised err lo hi \<Rightarrow> failed err (\<lambda>b. (scored_brief a b)\<lparr>
                   cb_estimated_budget_min := set_if lo (cb_estimated_budget_min b),
                   cb_estimated_budget_max := set_if hi (cb_estimated_budget_max b)\<rparr>)
               | bud \<Rightarrow>
                   let price = (\<lambda>b. case bud of Budgeted lo hi \<Rightarrow>
                           b\<lparr>cb_estimated_budget_min := lo, cb_estimated_budget_max := hi\<rparr> | _ \<Rightarrow> b);
                       s4 = upd_brief (cb_id b)
                         (\<lambda>b. answered_brief a model fallback (now s3) (price (scored_brief a b))) s3
                   in (case get_brief_for_lead s4 k of None \<Rightarrow> Inr (None, s4)
                     | Some b' \<Rightarrow>
                         let s5 = on_brief_generated base k (Some (lead_business_name l))
                               (cb_opportunity_score b')
                               (map_option call_decision_value (cb_should_call b')) s4
                         in Inr (Some (case get_brief_for_lead s5 k of Some b'' \<Rightarrow> b'' | None \<Rightarrow> b'), s5))))"

text \<open>The verdict of the reviewer, stored by the task and by the batch alike.\<close>

definition reviewed_brief ::
    "brief_review_answer option \<Rightarrow> string option \<Rightarrow> datetime \<Rightarrow> commercial_brief \<Rightarrow> commercial_brief" where
  "reviewed_brief a model tm b =
     (let b1 = b\<lparr>cb_reviewer_model := model, cb_reviewed_at := Some tm\<rparr>
      in case a of Some v \<Rightarrow> if bv_approved v then b1\<lparr>cb_status := BRIEF_REVIEWED\<rparr> else b1 | None \<Rightarrow> b1)"

section \<open>The synchronous lane\<close>

text \<open>\<open>HighValueLaneResult\<close>.\<close>

record lane_result =
  hv_research_completed :: bool
  hv_brief_generated :: bool
  hv_warnings :: "string list"

text \<open>
  \<open>run_high_value_lane_inline\<close>: the result with the committed state and the session, or with
  no session when a failed flush has left it unusable.  Only a generated brief is reviewed, and
  only its review commits.
\<close>

definition run_high_value_lane_inline ::
    "research_web \<Rightarrow> brief_env \<Rightarrow> uuid \<Rightarrow> store \<Rightarrow> store \<Rightarrow> lane_result \<times> (store \<times> store) option" where
  "run_high_value_lane_inline web env k base s =
     (let (rep, s1) = run_research web base k s;
          completed = (case rep of None \<Rightarrow> False | Some r \<Rightarrow> rep_status r = R_COMPLETED);
          result = \<lparr>hv_research_completed = completed, hv_brief_generated = False, hv_warnings = []\<rparr>
      in case generate_brief env base k s1 of
           Inl err \<Rightarrow> (result\<lparr>hv_warnings := [''brief:'' @ err]\<rparr>, None)
         | Inr (brief, s2) \<Rightarrow>
             (case brief of
                None \<Rightarrow> (result, Some (base, s2))
              | Some b \<Rightarrow>
                  if cb_status b \<noteq> BRIEF_GENERATED then (result, Some (base, s2))
                  else
                    let result = result\<lparr>hv_brief_generated := True\<rparr> in
                    (case be_review env b of
                       Inl err \<Rightarrow> (result\<lparr>hv_warnings := [''brief_review:'' @ err]\<rparr>, Some (base, s2))
                     | Inr (answer, model) \<Rightarrow>
                         let s3 = upd_brief (cb_id b) (reviewed_brief answer model (now s2)) s2
                         in (result, Some (s3, s3)))))"

end
