(* ===== verification/Batch_Pipeline.thy ===== *)
theory Batch_Pipeline
  imports Research Territory_Crawl Operational_Tasks Pipeline_Flow "HOL-Library.Option_ord"
begin

text \<open>
  The batch that takes every waiting lead through the whole pipeline in one task
  (\<open>app/workflows/batch_pipeline.py\<close> and its Celery wrapper in \<open>app/workers/batch_tasks.py\<close>).  It
  works in rounds: a round takes the leads of the wanted status, oldest first, or crawls a
  territory when there are none.  The loop is a \<open>while True\<close>, so it is a partial function:
  \<open>None\<close> is a batch that never returns.  The status filter is a value of the enumeration; the
  handler around the loop is for exceptions of the database itself, which the model does not raise.
\<close>

section \<open>The world of a batch\<close>

text \<open>What other sessions commit before a round (\<open>None\<close>) and before each of its leads.\<close>

record batch_env =
  bt_pipeline :: pipeline_env
  bt_research :: research_web
  bt_briefs :: brief_env
  bt_crawl :: crawl_env
  bt_others :: "uuid option \<Rightarrow> world \<Rightarrow> world"

record batch_state =
  bs_world :: world
  bs_progress :: batch_progress
  bs_total_processed :: nat
  bs_total_errors :: nat
  bs_crawl_rounds :: nat

text \<open>\<open>sync_progress\<close>: Redis and the task row, both outside the session of the lead.\<close>

definition batch_update :: "string \<Rightarrow> batch_progress \<Rightarrow> task_update \<Rightarrow> task_update" where
  "batch_update tid p u = u\<lparr>tu_current_step := Some (bp_current_step p),
     tu_progress_json := Some (build_batch_pipeline_progress tid p)\<rparr>"

definition sync_batch :: "string \<Rightarrow> batch_progress \<Rightarrow> task_update \<Rightarrow> world \<Rightarrow> world" where
  "sync_batch tid p u w = persist_operational_task_state tid (batch_update tid p u)
     (mirror_batch_pipeline_state (build_batch_pipeline_progress tid p) w)"

text \<open>The same while a session is open: what is committed outside shows in it.\<close>

definition sync_open :: "string \<Rightarrow> batch_progress \<Rightarrow> world \<times> store \<Rightarrow> world \<times> store" where
  "sync_open tid p x = (sync_batch tid p no_task_update (fst x),
     update_task_run tid (batch_update tid p no_task_update) (snd x))"

definition stop_pipeline :: "string \<Rightarrow> batch_progress \<Rightarrow> world \<Rightarrow> json \<times> world" where
  "stop_pipeline tid p w =
     (JObj [(''status'', JStr ''stopped''), (''task_id'', JStr tid)],
      sync_batch tid (p\<lparr>bp_status := ''stopped''\<rparr>)
        (no_task_update\<lparr>tu_status := Some ''stopped'', tu_finished := True\<rparr>) w)"

section \<open>One lead\<close>

definition step_of :: "string \<Rightarrow> batch_progress \<Rightarrow> batch_progress" where
  "step_of step p = p\<lparr>bp_current_step := step\<rparr>"

text \<open>
  The draft of a lead.  Whether it was made without an exception, and the committed world when
  the session is closed.
\<close>

definition batch_generate ::
    "pipeline_env \<Rightarrow> string \<Rightarrow> uuid \<Rightarrow> batch_progress \<Rightarrow> world \<times> store \<Rightarrow> bool \<times> batch_progress \<times> world" where
  "batch_generate pe tid k p x =
     (let p' = step_of ''draft'' p;
          (w, s) = sync_open tid p' x;
          (res, b, s') = run_draft_generation_step (pe_email_writer pe) (pe_whatsapp_writer pe)
            (pe_kapso pe) (pe_mail pe) k True [] (w_db w) s
      in (\<not> isl res, p', w\<lparr>w_db := rollback_to b s'\<rparr>))"

text \<open>
  The tail of a lead after its analysis was committed: research and brief for high quality, then
  the draft.  A session that the brief left unusable raises when the draft asks it for the lead.
\<close>

definition batch_draft ::
    "batch_env \<Rightarrow> string \<Rightarrow> uuid \<Rightarrow> string \<Rightarrow> batch_progress \<Rightarrow> world \<times> store \<Rightarrow>
     bool \<times> batch_progress \<times> world" where
  "batch_draft env tid k quality p x =
     (if quality = ''high''
      then
        let p1 = step_of ''research'' p;
            (w1, s1) = sync_open tid p1 x;
            p2 = step_of ''brief'' p1
        in case run_high_value_lane_inline (bt_research env) (bt_briefs env) k (w_db w1) s1 of
             (result, Some (b, s2)) \<Rightarrow>
               batch_generate (bt_pipeline env) tid k p2 (sync_open tid p2 (w1\<lparr>w_db := b\<rparr>, s2))
           | (result, None) \<Rightarrow>
               let p3 = step_of ''draft'' p2
               in (False, p3, sync_batch tid p3 no_task_update (sync_batch tid p2 no_task_update
                    (w1\<lparr>w_db := rollback_to (w_db w1) s1\<rparr>)))
      else batch_generate (bt_pipeline env) tid k p x)"

text \<open>The handler of any exception in the pass over a lead; its session is rolled back by then.\<close>

definition lead_failed ::
    "string \<Rightarrow> batch_progress \<Rightarrow> nat \<Rightarrow> world \<Rightarrow> batch_progress \<times> nat \<times> world" where
  "lead_failed tid p errors w =
     (let p' = p\<lparr>bp_errors := int (Suc errors)\<rparr>
      in (p', Suc errors, sync_batch tid p' no_task_update w))"

text \<open>Analysis, in the session that holds the enrichment and the score, and the one commit of the three.\<close>

definition batch_analysis ::
    "batch_env \<Rightarrow> string \<Rightarrow> uuid \<Rightarrow> batch_progress \<Rightarrow> nat \<Rightarrow> world \<Rightarrow> store \<Rightarrow>
     batch_progress \<times> nat \<times> world" where
  "batch_analysis env tid k p errors w s =
     (let rolled = w\<lparr>w_db := rollback_to (w_db w) s\<rparr> in
      case get_lead s k of
        None \<Rightarrow> lead_failed tid p errors rolled
      | Some l \<Rightarrow> (case run_lead_analysis_step (bt_pipeline env) l s of
          Inl err \<Rightarrow> lead_failed tid p errors rolled
        | Inr (a, s') \<Rightarrow>
            (case batch_draft env tid k (an_quality a) p (w\<lparr>w_db := s'\<rparr>, s') of
               (ok, p', w') \<Rightarrow> if ok then (p', errors, w') else lead_failed tid p' errors w')))"

definition batch_score ::
    "batch_env \<Rightarrow> string \<Rightarrow> uuid \<Rightarrow> batch_progress \<Rightarrow> nat \<Rightarrow> world \<Rightarrow> store \<Rightarrow>
     batch_progress \<times> nat \<times> world" where
  "batch_score env tid k p errors w s =
     (let p1 = step_of ''scoring'' p;
          (w1, s1) = sync_open tid p1 (w, s);
          s2 = snd (score_lead (w_db w1) k s1);
          p2 = step_of ''analysis'' p1;
          (w2, s3) = sync_open tid p2 (w1, s2)
      in batch_analysis env tid k p2 errors w2 s3)"

text \<open>
  One pass of the loop over the leads.  An exception anywhere in it is counted; a lead that is
  gone is passed over.
\<close>

definition batch_lead ::
    "batch_env \<Rightarrow> string \<Rightarrow> nat \<Rightarrow> uuid \<Rightarrow> batch_progress \<Rightarrow> nat \<Rightarrow> world \<Rightarrow>
     batch_progress \<times> nat \<times> world" where
  "batch_lead env tid pos k p errors w =
     (let p1 = step_of ''enrichment'' (p\<lparr>bp_processed := int pos\<rparr>);
          w1 = sync_batch tid p1 no_task_update w
      in case get_lead (w_db w1) k of
           None \<Rightarrow> (p1, errors, w1)
         | Some l \<Rightarrow>
             let p2 = p1\<lparr>bp_current_lead := Some (lead_business_name l)\<rparr>;
                 w2 = sync_batch tid p2 no_task_update w1
             in case enrich_lead (pe_web (bt_pipeline env)) k (w_db w2) of
                  Inl err \<Rightarrow> lead_failed tid p2 errors w2
                | Inr (l', s) \<Rightarrow> batch_score env tid k p2 errors w2 s)"

text \<open>The leads of a round from number \<open>idx\<close> on; \<open>None\<close> for a stop.\<close>

fun batch_leads ::
    "batch_env \<Rightarrow> string \<Rightarrow> nat \<Rightarrow> nat \<Rightarrow> uuid list \<Rightarrow> batch_progress \<Rightarrow> nat \<Rightarrow> world \<Rightarrow>
     bool \<times> batch_progress \<times> nat \<times> world" where
  "batch_leads env tid n idx [] p errors w = (True, p, errors, w)"
| "batch_leads env tid n idx (k # ks) p errors w =
     (let w1 = bt_others env (Some k) w in
      if should_stop_operational_task tid batch_pipeline_redis_key True w1
      then (False, p, errors, w1)
      else case batch_lead env tid (n + idx) k p errors w1 of
        (p2, e2, w2) \<Rightarrow> batch_leads env tid n (Suc idx) ks p2 e2 w2)"

section \<open>One round\<close>

definition waiting_ids :: "LeadStatus \<Rightarrow> store \<Rightarrow> uuid list" where
  "waiting_ids status s =
     map lead_id (sort_key lead_created_at (filter (\<lambda>l. lead_status l = status) (leads s)))"

definition next_territory :: "store \<Rightarrow> territory option" where
  "next_territory s = (case sort_key terr_last_crawled_at
       (filter (\<lambda>t. terr_is_active t \<and> \<not> terr_is_saturated t) (territories s)) of
     [] \<Rightarrow> None | t # _ \<Rightarrow> Some t)"

definition crawl_label :: "territory \<Rightarrow> nat \<Rightarrow> string" where
  "crawl_label t n = ''Crawling '' @ terr_name t @ '' (ronda '' @ int_str (int n) @ '')''"

datatype round_end = Round_stopped | Round_idle | Round_again

text \<open>The part of a round that has leads to work on.\<close>

definition batch_work ::
    "batch_env \<Rightarrow> string \<Rightarrow> uuid list \<Rightarrow> batch_state \<Rightarrow> round_end \<times> batch_state" where
  "batch_work env tid ids st =
     (let n = bs_total_processed st;
          p = (bs_progress st)\<lparr>bp_total := int (n + length ids)\<rparr>;
          w = sync_batch tid p no_task_update (bs_world st)
      in case batch_leads env tid n 0 ids p (bs_total_errors st) w of
           (went_on, p', errors, w') \<Rightarrow>
             (if went_on then Round_again else Round_stopped,
              \<lparr>bs_world = w', bs_progress = p',
               bs_total_processed = (if went_on then n + length ids else n),
               bs_total_errors = errors, bs_crawl_rounds = 0\<rparr>))"

text \<open>The part that has none: a crawl with a task of its own, at most three in a row.\<close>

definition batch_crawl ::
    "batch_env \<Rightarrow> string \<Rightarrow> string option \<Rightarrow> LeadStatus \<Rightarrow> batch_state \<Rightarrow> round_end \<times> batch_state" where
  "batch_crawl env tid cid status st =
     (case next_territory (w_db (bs_world st)) of
        None \<Rightarrow> (Round_idle, st)
      | Some t \<Rightarrow>
          if 3 \<le> bs_crawl_rounds st then (Round_idle, st)
          else
            let rounds = Suc (bs_crawl_rounds st);
                p = (step_of ''crawling'' (bs_progress st))\<lparr>
                  bp_current_lead := Some (crawl_label t rounds), bp_crawl_rounds := int rounds\<rparr>;
                w = sync_batch tid p no_task_update (bs_world st);
                crawl_id = uuid_str (next_uuid (w_db w));
                st1 = st\<lparr>bs_crawl_rounds := rounds, bs_progress := p\<rparr>
            in case run_territory_crawl_workflow (bt_crawl env) default_crawl crawl_id
                   (uuid_str (terr_id t)) cid ''default'' (w\<lparr>w_db := tick_uuid (w_db w)\<rparr>) of
                 (Inl err, w1) \<Rightarrow>
                   let errors = Suc (bs_total_errors st);
                       p1 = p\<lparr>bp_errors := int errors\<rparr>
                   in (Round_again, st1\<lparr>bs_total_errors := errors, bs_progress := p1,
                        bs_world := sync_batch tid p1 no_task_update w1\<rparr>)
               | (Inr result, w1) \<Rightarrow>
                   let ids = waiting_ids status (w_db w1);
                       p1 = p\<lparr>bp_leads_from_crawl := bp_leads_from_crawl p + int (length ids)\<rparr>;
                       st2 = st1\<lparr>bs_progress := p1, bs_world := sync_batch tid p1 no_task_update w1\<rparr>
                   in if ids = [] then (Round_idle, st2) else batch_work env tid ids st2)"

definition batch_round ::
    "batch_env \<Rightarrow> string \<Rightarrow> string option \<Rightarrow> LeadStatus \<Rightarrow> batch_state \<Rightarrow> round_end \<times> batch_state" where
  "batch_round env tid cid status st =
     (let w = bt_others env None (bs_world st);
          st1 = st\<lparr>bs_world := w\<rparr>
      in if should_stop_operational_task tid batch_pipeline_redis_key False w then (Round_stopped, st1)
         else case waiting_ids status (w_db w) of
           [] \<Rightarrow> batch_crawl env tid cid status st1
         | ids \<Rightarrow> batch_work env tid ids st1)"

section \<open>The loop\<close>

definition batch_result :: "string \<Rightarrow> nat \<Rightarrow> nat \<Rightarrow> json" where
  "batch_result tid n errors = JObj [(''status'', JStr ''done''), (''task_id'', JStr tid),
     (''total'', JInt (int n)), (''errors'', JInt (int errors))]"

definition finish_batch :: "string \<Rightarrow> batch_state \<Rightarrow> json \<times> world" where
  "finish_batch tid st =
     (let n = bs_total_processed st;
          p = (bs_progress st)\<lparr>bp_status := ''done'', bp_processed := int n, bp_total := int n,
            bp_current_lead := None, bp_current_step := ''completed''\<rparr>;
          res = batch_result tid n (bs_total_errors st)
      in (res, sync_batch tid p (no_task_update\<lparr>tu_status := Some ''succeeded'',
           tu_clear_error := True, tu_finished := True, tu_result := Some res,
           tu_stop_requested := Some False\<rparr>) (bs_world st)))"

partial_function (option) batch_loop ::
    "batch_env \<Rightarrow> string \<Rightarrow> string option \<Rightarrow> LeadStatus \<Rightarrow> batch_state \<Rightarrow> (json \<times> world) option" where
  "batch_loop env tid cid status st =
     (case batch_round env tid cid status st of
        (Round_stopped, st') \<Rightarrow> Some (stop_pipeline tid (bs_progress st') (bs_world st'))
      | (Round_idle, st') \<Rightarrow> Some (finish_batch tid st')
      | (Round_again, st') \<Rightarrow> batch_loop env tid cid status st')"

definition batch_started :: "string \<Rightarrow> world \<Rightarrow> batch_state" where
  "batch_started tid w =
     (let p = step_of ''batch_dispatch'' new_batch_progress
      in \<lparr>bs_world = persist_operational_task_state tid
            (batch_update tid p (no_task_update\<lparr>tu_clear_error := True\<rparr>)) w,
          bs_progress = p, bs_total_processed = 0, bs_total_errors = 0, bs_crawl_rounds = 0\<rparr>)"

definition run_batch_pipeline_workflow ::
    "batch_env \<Rightarrow> string \<Rightarrow> string option \<Rightarrow> LeadStatus \<Rightarrow> world \<Rightarrow> (json \<times> world) option" where
  "run_batch_pipeline_workflow env tid cid status w =
     batch_loop env tid cid status (batch_started tid w)"

text \<open>\<open>task_batch_pipeline\<close>: the task is marked running and committed before the workflow.\<close>

definition batch_meta :: "string \<Rightarrow> string option \<Rightarrow> task_meta" where
  "batch_meta queue cid = \<lparr>tm_task_name = ''task_batch_pipeline'', tm_queue = Some queue,
     tm_lead_id = None, tm_pipeline_run_id = None, tm_correlation_id = cid,
     tm_scope_key = Some batch_pipeline_scope_key, tm_current_step = Some ''batch_dispatch''\<rparr>"

definition task_batch_pipeline ::
    "batch_env \<Rightarrow> string \<Rightarrow> string \<Rightarrow> string option \<Rightarrow> LeadStatus \<Rightarrow> world \<Rightarrow>
     (db_error + json \<times> world) option" where
  "task_batch_pipeline env tid queue cid status w =
     (case mark_task_running (w_db w) tid (batch_meta queue cid) (w_db w) of
        Inl e \<Rightarrow> Some (Inl e)
      | Inr s \<Rightarrow> map_option Inr (run_batch_pipeline_workflow env tid cid status (w\<lparr>w_db := s\<rparr>)))"

end
