(* ===== verification/Batch_Loop.thy ===== *)
theory Batch_Loop
  imports Batch_Pipeline
begin

text \<open>
  When the batch returns and when it does not.  Its loop has no bound: it ends when no lead
  waits and nothing is left to crawl, so a lead that keeps its status is taken up again for
  ever.
\<close>

section \<open>A batch that never returns\<close>

text \<open>A lead that is never brought past its analysis, whatever else the session holds.\<close>

definition never_analyzed :: "pipeline_env \<Rightarrow> lead \<Rightarrow> bool" where
  "never_analyzed pe l \<longleftrightarrow>
     (\<forall>s. get_lead s (lead_id l) = Some l \<longrightarrow> isl (enrich_lead (pe_web pe) (lead_id l) s))
     \<or> (\<forall>x gs. lead_id x = lead_id l \<longrightarrow> isl (pe_summarize pe x gs))"

definition not_stopped :: "string \<Rightarrow> world \<Rightarrow> bool" where
  "not_stopped tid w \<longleftrightarrow> \<not> should_stop_operational_task tid batch_pipeline_redis_key False w"

lemma update_task_fields [simp]:
  "leads (update_task_run tid u s) = leads s" "territories (update_task_run tid u s) = territories s"
  "now (update_task_run tid u s) = now s"
  by (simp_all add: update_task_run_def row_access_defs)

text \<open>What a synchronisation leaves: the same rows, and a mirror that says running.\<close>

lemma sync_batch_leads [simp]: "leads (w_db (sync_batch tid p u w)) = leads (w_db w)"
  by (simp add: sync_batch_def persist_operational_task_state_def
      mirror_batch_pipeline_state_def mirror_state_def)

lemma get_lead_sync [simp]: "get_lead (w_db (sync_batch tid p u w)) = get_lead (w_db w)"
  by (simp add: get_lead_def fun_eq_iff)

lemma sync_open_parts [simp]:
  "fst (sync_open tid p x) = sync_batch tid p no_task_update (fst x)"
  "leads (snd (sync_open tid p x)) = leads (snd x)"
  "get_lead (snd (sync_open tid p x)) = get_lead (snd x)"
  by (simp_all add: sync_open_def get_lead_def fun_eq_iff)

lemma stop_after_update:
  assumes "tu_stop_requested u = None"
  shows "is_task_stop_requested (update_task_run tid u s) tid = is_task_stop_requested s tid"
  using assms
  by (cases "get_task s tid") (auto simp: is_task_stop_requested_def update_task_run_def
      task_tbl.get_upd apply_task_update_def stamp_task_def)

lemma sync_not_stopped:
  assumes "\<not> is_task_stop_requested (w_db w) tid" "bp_status p = ''running''" "tu_stop_requested u = None"
  shows "\<not> should_stop_operational_task tid batch_pipeline_redis_key b (sync_batch tid p u w)"
proof -
  let ?w = "sync_batch tid p u w"
  have r: "\<not> is_task_stop_requested (w_db ?w) tid"
    using assms(1,3) by (simp add: sync_batch_def persist_operational_task_state_def batch_update_def
        stop_after_update mirror_batch_pipeline_state_def mirror_state_def)
  have "now (w_db ?w) = now (w_db w)"
    by (simp add: sync_batch_def persist_operational_task_state_def
        mirror_batch_pipeline_state_def mirror_state_def)
  then have "read_legacy_operational_state (now (w_db ?w)) batch_pipeline_redis_key False (w_redis ?w)
      = (if rd_up (w_redis w) then Inr (Some (build_batch_pipeline_progress tid p))
         else Inl ''redis unavailable'')"
    by (simp add: sync_batch_def persist_operational_task_state_def mirror_batch_pipeline_state_def
        mirror_state_def mirror_legacy_operational_state_def read_legacy_operational_state_def
        redis_get_def redis_set_def map_of_assoc_set default_legacy_mirror_ttl_seconds_def seconds_def)
  with r assms(2) show ?thesis
    by (simp add: should_stop_operational_task_def build_batch_pipeline_progress_def json_get_def)
qed

lemma rollback_fields [simp]: "leads (rollback_to b s) = leads b" "get_task (rollback_to b s) = get_task b"
  by (simp_all add: rollback_to_def get_task_def fun_eq_iff)

lemma status_step_of [simp]: "bp_status (step_of t p) = bp_status p"
  by (simp add: step_of_def)

definition asked :: "string \<Rightarrow> world \<Rightarrow> bool" where
  "asked tid w = is_task_stop_requested (w_db w) tid"

lemma asked_sync [simp]: "asked tid (sync_batch tid p no_task_update w) = asked tid w"
  by (simp add: asked_def sync_batch_def persist_operational_task_state_def batch_update_def
      stop_after_update no_task_update_def mirror_batch_pipeline_state_def mirror_state_def)

lemma asked_rollback [simp]: "asked tid (w\<lparr>w_db := rollback_to (w_db w) s\<rparr>) = asked tid w"
  by (simp add: asked_def is_task_stop_requested_def)

lemma quiet_sync:
  assumes "\<not> asked tid w" "bp_status p = ''running''"
  shows "\<not> should_stop_operational_task tid batch_pipeline_redis_key b (sync_batch tid p no_task_update w)"
  using sync_not_stopped [of w tid p no_task_update] assms by (simp add: asked_def no_task_update_def)

text \<open>
  The exception of a lead that is never analyzed: one more error, a synchronisation, and the rows
  of all leads as they were.
\<close>

definition given_up ::
    "string \<Rightarrow> world \<Rightarrow> nat \<Rightarrow> batch_progress \<times> nat \<times> world \<Rightarrow> bool" where
  "given_up tid w errors r \<longleftrightarrow> (\<exists>q v. r = (q, Suc errors, sync_batch tid q no_task_update v)
     \<and> bp_status q = ''running'' \<and> \<not> asked tid v \<and> leads (w_db v) = leads (w_db w))"

lemma given_upI:
  assumes "bp_status p = ''running''" "\<not> asked tid v" "leads (w_db v) = leads (w_db w)"
  shows "given_up tid w errors (lead_failed tid p errors v)"
  unfolding given_up_def lead_failed_def Let_def
  using assms by (intro exI [of _ "p\<lparr>bp_errors := int (Suc errors)\<rparr>"] exI [of _ v]) simp

lemma given_up_analysis:
  assumes "bp_status p = ''running''" "\<not> asked tid w"
    and "\<And>l. get_lead s k = Some l \<Longrightarrow> isl (run_lead_analysis_step (bt_pipeline env) l s)"
  shows "given_up tid w errors (batch_analysis env tid k p errors w s)"
  using assms by (auto simp: batch_analysis_def Let_def isl_def intro!: given_upI
      split: option.split dest: assms(3))

lemma given_up_score:
  assumes "bp_status p = ''running''" "\<not> asked tid w"
    and "\<And>x gs. lead_id x = k \<Longrightarrow> isl (pe_summarize (bt_pipeline env) x gs)"
  shows "given_up tid w errors (batch_score env tid k p errors w s)"
proof -
  have r: "get_lead v k = Some x \<Longrightarrow> isl (run_lead_analysis_step (bt_pipeline env) x v)" for x v
    using assms(3) [OF lead_tbl.get_key, of v x "signals_of v (lead_id x)"]
    by (auto simp: run_lead_analysis_step_def Let_def isl_def)
  have up: "given_up tid v errors (batch_analysis env tid k q errors v s')
      \<Longrightarrow> leads (w_db v) = leads (w_db w) \<Longrightarrow> given_up tid w errors (batch_analysis env tid k q errors v s')"
    for v q s' by (simp add: given_up_def)
  show ?thesis unfolding batch_score_def Let_def split_beta
    by (rule up [OF given_up_analysis]) (use assms(1,2) in \<open>simp_all add: r\<close>)
qed

lemma batch_lead_never:
  assumes "get_lead (w_db w) k = Some l" "never_analyzed (bt_pipeline env) l"
    and "\<not> asked tid w" "bp_status p = ''running''"
  shows "given_up tid w errors (batch_lead env tid n k p errors w)"
proof -
  have id: "lead_id l = k" by (rule lead_tbl.get_key [OF assms(1)])
  let ?p1 = "step_of ''enrichment'' (p\<lparr>bp_processed := int n\<rparr>)"
  let ?p2 = "?p1\<lparr>bp_current_lead := Some (lead_business_name l)\<rparr>"
  define w2 where "w2 = sync_batch tid ?p2 no_task_update (sync_batch tid ?p1 no_task_update w)"
  have g: "get_lead (w_db w2) k = Some l" and q: "\<not> asked tid w2" and le: "leads (w_db w2) = leads (w_db w)"
    using assms by (simp_all add: w2_def)
  have b: "batch_lead env tid n k p errors w =
      (case enrich_lead (pe_web (bt_pipeline env)) k (w_db w2) of
         Inl err \<Rightarrow> lead_failed tid ?p2 errors w2 | Inr (l', s) \<Rightarrow> batch_score env tid k ?p2 errors w2 s)"
    using assms(1) unfolding w2_def by (simp add: batch_lead_def Let_def)
  have "given_up tid w2 errors (batch_lead env tid n k p errors w)"
  proof (cases "enrich_lead (pe_web (bt_pipeline env)) k (w_db w2)")
    case (Inl err)
    then show ?thesis using assms(4) q by (simp add: b given_upI)
  next
    case (Inr r)
    then have sum: "isl (pe_summarize (bt_pipeline env) x gs)" if "lead_id x = k" for x gs
      using assms(2) id that g unfolding never_analyzed_def by (metis sum.disc(2))
    then show ?thesis using assms(4) q Inr by (cases r) (simp add: b given_up_score)
  qed
  then show ?thesis by (simp add: given_up_def le)
qed

text \<open>A whole round over such leads, and then the loop.\<close>

definition stuck :: "batch_env \<Rightarrow> LeadStatus \<Rightarrow> store \<Rightarrow> bool" where
  "stuck env status s \<longleftrightarrow> waiting_ids status s \<noteq> []
     \<and> (\<forall>k \<in> set (waiting_ids status s). \<exists>l. get_lead s k = Some l \<and> never_analyzed (bt_pipeline env) l)"

lemma stuck_leads: "leads s' = leads s \<Longrightarrow> stuck env status s' = stuck env status s"
  by (simp add: stuck_def waiting_ids_def get_lead_def)

lemma given_upE:
  assumes "given_up tid w errors r"
  obtains q v where "r = (q, Suc errors, sync_batch tid q no_task_update v)" "bp_status q = ''running''"
    "\<not> asked tid v" "leads (w_db v) = leads (w_db w)"
  using assms by (auto simp: given_up_def)

lemma batch_leads_never:
  assumes "\<forall>k \<in> set ks. \<exists>l. get_lead (w_db w) k = Some l \<and> never_analyzed (bt_pipeline env) l"
    and "\<And>k v. bt_others env k v = v" "bp_status p = ''running''" "\<not> asked tid w"
    and "\<And>b. \<not> should_stop_operational_task tid batch_pipeline_redis_key b w"
  shows "\<exists>q e w'. batch_leads env tid n idx ks p errors w = (True, q, e, w')
    \<and> bp_status q = ''running'' \<and> \<not> asked tid w' \<and> leads (w_db w') = leads (w_db w)
    \<and> (\<forall>b. \<not> should_stop_operational_task tid batch_pipeline_redis_key b w')"
  using assms(1,3-)
proof (induction ks arbitrary: idx p errors w)
  case Nil
  then show ?case by simp
next
  case (Cons k ks)
  obtain l where l: "get_lead (w_db w) k = Some l" "never_analyzed (bt_pipeline env) l"
    using Cons.prems(1) by auto
  obtain q v where g: "batch_lead env tid (n + idx) k p errors w
      = (q, Suc errors, sync_batch tid q no_task_update v)"
    and q: "bp_status q = ''running''" "\<not> asked tid v" "leads (w_db v) = leads (w_db w)"
    by (rule given_upE [OF batch_lead_never [OF l Cons.prems(3) Cons.prems(2)]])
  have "get_lead (w_db v) = get_lead (w_db w)" using q(3) by (simp add: get_lead_def fun_eq_iff)
  then show ?case
    using Cons.IH [of "sync_batch tid q no_task_update v" q "Suc idx" "Suc errors"]
      Cons.prems q quiet_sync [OF q(2,1)] g
    by (simp add: assms(2) Let_def)
qed

definition stuck_state :: "batch_env \<Rightarrow> string \<Rightarrow> LeadStatus \<Rightarrow> batch_state \<Rightarrow> bool" where
  "stuck_state env tid status st \<longleftrightarrow> stuck env status (w_db (bs_world st))
     \<and> \<not> should_stop_operational_task tid batch_pipeline_redis_key False (bs_world st)
     \<and> bp_status (bs_progress st) = ''running''"

lemma stuck_round:
  assumes "stuck_state env tid status st" "\<And>k v. bt_others env k v = v"
  shows "\<exists>st'. batch_round env tid cid status st = (Round_again, st') \<and> stuck_state env tid status st'"
proof -
  let ?w = "bs_world st" and ?ids = "waiting_ids status (w_db (bs_world st))"
  let ?p = "(bs_progress st)\<lparr>bp_total := int (bs_total_processed st + length ?ids)\<rparr>"
  let ?w1 = "sync_batch tid ?p no_task_update ?w"
  note a = assms(1) [unfolded stuck_state_def]
  have n: "\<not> asked tid ?w" using a by (auto simp: asked_def should_stop_operational_task_def)
  have "\<exists>q e w'. batch_leads env tid (bs_total_processed st) 0 ?ids ?p (bs_total_errors st) ?w1 = (True, q, e, w')
    \<and> bp_status q = ''running'' \<and> \<not> asked tid w' \<and> leads (w_db w') = leads (w_db ?w1)
    \<and> (\<forall>b. \<not> should_stop_operational_task tid batch_pipeline_redis_key b w')"
    by (rule batch_leads_never) (use a n quiet_sync [OF n] in \<open>auto simp: stuck_def assms(2)\<close>)
  then obtain q e w' where r:
    "batch_leads env tid (bs_total_processed st) 0 ?ids ?p (bs_total_errors st) ?w1 = (True, q, e, w')"
    "bp_status q = ''running''" "leads (w_db w') = leads (w_db ?w)"
    "\<not> should_stop_operational_task tid batch_pipeline_redis_key False w'" by auto
  have "batch_round env tid cid status st = batch_work env tid ?ids st"
    using a assms(2) by (cases ?ids) (simp_all add: batch_round_def stuck_def)
  with r a show ?thesis
    by (auto simp: batch_work_def stuck_state_def stuck_leads [OF r(3)])
qed

lemma batch_loop_stuck:
  assumes "\<And>k v. bt_others env k v = v" "stuck_state env tid status st"
  shows "batch_loop env tid cid status st = None"
proof -
  have no: "\<not> ((\<forall>k v. bt_others env' k v = v) \<and> stuck_state env' tid' status' st)"
    if "batch_loop env' tid' cid' status' st = Some y" for env' tid' cid' status' st y
    using that
  proof (induction rule: batch_loop.raw_induct [rotated, consumes 1, case_names step])
    case (step loop env tid cid status st y)
    show ?case
    proof
      assume a: "(\<forall>k v. bt_others env k v = v) \<and> stuck_state env tid status st"
      then obtain st' where r: "batch_round env tid cid status st = (Round_again, st')"
        "stuck_state env tid status st'" using stuck_round by metis
      have l: "loop env tid cid status st' = Some y" using step(2) r(1) by simp
      show False using step(1) [OF l] a r(2) by blast
    qed
  qed
  show ?thesis using no [of env tid cid status st] assms by (cases "batch_loop env tid cid status st") auto
qed

lemma started_not_stopped:
  "should_stop_operational_task tid key b (bs_world (batch_started tid w))
     = should_stop_operational_task tid key b w"
  by (simp add: batch_started_def Let_def should_stop_operational_task_def persist_operational_task_state_def
      stop_after_update batch_update_def no_task_update_def)


end
