(* ===== verification/Batch_Returns.thy ===== *)
theory Batch_Returns
  imports Batch_Loop
begin

text \<open>
  When the batch does return: a property of the rows of the leads that only an unfinished lead
  can break is kept by everything the batch does, and after one round over leads that can be
  finished none is left.
\<close>

section \<open>What the batch may do to the leads\<close>

definition lead_rows :: "store \<Rightarrow> lead list \<times> territory list" where
  "lead_rows s = (leads s, territories s)"

lemma lead_rows_frames [simp]:
  "lead_rows (upd_draft k_draft f_draft s) = lead_rows s" "lead_rows (add_draft d s) = lead_rows s"
  "lead_rows (upd_delivery k_delivery f_delivery s) = lead_rows s"
  "lead_rows (add_delivery r_delivery s) = lead_rows s"
  "lead_rows (upd_convo k_convo f_convo s) = lead_rows s" "lead_rows (add_convo r_convo s) = lead_rows s"
  "lead_rows (tick_uuid s) = lead_rows s" "lead_rows (add_log l o' a x t s) = lead_rows s"
  "lead_rows (snd (get_or_create s)) = lead_rows s" "lead_rows (rollback_to b s) = lead_rows b"
  "lead_rows (update_task_run tid u s) = lead_rows s"
  "lead_rows (upd_report k_rep f_rep s) = lead_rows s" "lead_rows (upd_brief k_brief f_brief s) = lead_rows s"
  by (simp_all add: lead_rows_def row_access_defs tick_uuid_def add_log_def rollback_to_def
      get_or_create_frame [of s] upd_report_def upd_brief_def)

lemma lead_rows_sync [simp]: "lead_rows (w_db (sync_batch tid p u w)) = lead_rows (w_db w)"
  by (simp add: lead_rows_def sync_batch_def persist_operational_task_state_def
      mirror_batch_pipeline_state_def mirror_state_def)

lemma lead_rows_open [simp]: "lead_rows (snd (sync_open tid p x)) = lead_rows (snd x)"
  by (simp add: sync_open_def)

lemma lead_rows_frame: "notif_frame s s' \<Longrightarrow> lead_rows s' = lead_rows s"
  by (simp add: lead_rows_def notif_frame_fields(1,19))

lemma lead_rows_add_signals: "lead_rows (fold (add_signal k) gs s) = lead_rows s"
  by (induction gs arbitrary: s) (simp_all add: lead_rows_def add_signal_def tick_uuid_def)

lemma lead_rows_enrich [simp]:
  "lead_rows (replace_signals k gs s) = lead_rows s" "lead_rows (store_screenshot e l u g s) = lead_rows s"
  by (simp_all add: replace_signals_def lead_rows_add_signals store_screenshot_def Let_def
      split: sum.split option.split) (simp_all add: lead_rows_def tick_uuid_def)

lemma lead_rows_emit: "lead_rows (emit b a s) \<in> {lead_rows b, lead_rows s}"
proof (cases "lost_race b a s")
  case True
  then show ?thesis
    by (simp add: emit_def get_cached_settings_def create_notification_def split_beta Let_def
        lost_race_def has_dedup_key_def rate_limited_def recent_count_def)
next
  case False
  from lead_rows_frame [OF emit_notif_frame [OF False]] show ?thesis by simp
qed

lemma lead_status_of_draft: "draft_lead_status st = Some ls \<Longrightarrow> ls \<noteq> NEW"
  by (cases st) auto

locale lead_property =
  fixes P :: "store \<Rightarrow> bool"
  assumes same: "lead_rows s' = lead_rows s \<Longrightarrow> P s' = P s"
    and moved: "P s \<Longrightarrow> (\<And>l. lead_id (f l) = lead_id l) \<Longrightarrow> (\<And>l. lead_status (f l) \<noteq> NEW)
      \<Longrightarrow> P (upd_lead k f s)"
begin

lemma kept_rows [simp]:
  "P (upd_draft k_draft f_draft s) = P s" "P (add_draft d s) = P s"
  "P (upd_delivery k_delivery f_delivery s) = P s" "P (add_delivery r_delivery s) = P s"
  "P (upd_convo k_convo f_convo s) = P s" "P (add_convo r_convo s) = P s"
  "P (tick_uuid s) = P s" "P (add_log l o' a x t s) = P s" "P (snd (get_or_create s)) = P s"
  "P (rollback_to b s) = P b" "P (update_task_run tid u s) = P s"
  "P (upd_report k_rep f_rep s) = P s" "P (upd_brief k_brief f_brief s) = P s"
  "P (w_db (sync_batch tid p tu w)) = P (w_db w)" "P (snd (sync_open tid p ws)) = P (snd ws)"
  by (rule same; simp)+

lemma kept_emit:
  assumes "P b" "P s"
  shows "P (emit b a s)"
  using same lead_rows_emit [of b a s] assms by blast

lemma kept_draft_written [simp]: "P (draft_written d m s) = P s"
  by (simp add: draft_written_def Let_def)

lemma kept_generate:
  assumes "P s"
  shows "generate_outreach_draft em k ctx s = Inr (d, s') \<Longrightarrow> P s'"
    "generate_whatsapp_draft wa k s = Inr (d, s') \<Longrightarrow> P s'"
  using assms
  by (auto simp: generate_outreach_draft_def generate_whatsapp_draft_def Let_def
      split: option.splits if_splits sum.splits intro!: moved)

lemma kept_try:
  assumes "try_whatsapp_draft wa k s = (y, s')" "P s"
  shows "P s'"
  using assms kept_generate(2) by (auto simp: try_whatsapp_draft_def split: sum.splits)

lemma kept_qualified: "P s \<Longrightarrow> P (mark_qualified k s)"
  unfolding mark_qualified_def by (rule moved) simp_all

lemma kept_update_draft: "P s \<Longrightarrow> P (snd (update_draft k c s))"
  by (auto simp: update_draft_def draft_status_written_def Let_def split: option.split
      intro!: moved dest: lead_status_of_draft)

lemma kept_upd_status: "P s \<Longrightarrow> st \<noteq> NEW \<Longrightarrow> P (upd_lead k (\<lambda>l. l\<lparr>lead_status := st\<rparr>) s)"
  by (rule moved) simp_all

lemma kept_notified:
  assumes "P s"
  shows "P (on_send_failed s a b r e t s)"
  using same [OF lead_rows_frame [OF on_send_failed_frame]] assms by blast

lemma kept_deliver:
  assumes "P s"
  shows "P (fst (snd (deliver w c d n s)))" "P (snd (snd (deliver w c d n s)))"
  using assms by (auto simp: deliver_def Let_def kept_notified kept_update_draft split: mail_reply.split)

lemma kept_ready [simp]: "P (snd (ensure_outbound_mail_ready w s)) = P s"
  by (simp add: ensure_ready_state)

text \<open>A committed state and a session that both have the property, after an operation.\<close>

definition both :: "'a \<times> store \<times> store \<Rightarrow> bool" where
  "both r \<longleftrightarrow> P (fst (snd r)) \<and> P (snd (snd r))"

lemma kept_send_draft:
  assumes "P b" "P s"
  shows "both (send_draft w k b s)"
  using assms kept_deliver kept_ready [of w s]
  by (auto simp: both_def send_draft_def Let_def split_beta split: sum.split option.split)

lemma kept_send_whatsapp: "P s \<Longrightarrow> P (snd (send_whatsapp kapso d l s))"
  by (simp add: send_whatsapp_def Let_def split: sum.split)

lemma kept_send_email:
  assumes "P b" "P s"
  shows "both (send_email_draft w d l b s)"
  using assms kept_send_draft [of b "add_convo (new_convo d ''email'' s) (tick_uuid s)"]
  by (simp add: both_def send_email_draft_def Let_def split_beta)

lemma kept_auto_send:
  assumes "P b" "P s"
  shows "both (auto_send_draft kapso w k b s)"
  using assms kept_send_email kept_send_whatsapp
  by (auto simp: auto_send_draft_def Let_def split_beta both_def split: option.split)

lemma kept_automation:
  assumes "run_outreach_draft_automation kapso w k b s = (b', s')" "P b" "P s"
  shows "P b' \<and> P s'"
proof -
  let ?s2 = "upd_draft k (set_draft_status D_APPROVED (now s)) (snd (get_or_create s))"
  obtain c b3 s3 where e: "auto_send_draft kapso w k ?s2 ?s2 = (c, b3, s3)" by (cases rule: prod_cases3)
  have r: "P b3" "P s3" using kept_auto_send [of ?s2 ?s2 kapso w k] assms(3) by (auto simp: e both_def)
  show ?thesis
    using assms r kept_send_draft [OF r, of w k]
    by (auto simp: run_outreach_draft_automation_def get_cached_settings_def split_beta Let_def e both_def
        split: option.splits if_splits)
qed

lemma kept_settings: "get_cached_settings s = (st, s1) \<Longrightarrow> P s \<Longrightarrow> P s1"
  using kept_rows(9) [of s] by (simp add: get_cached_settings_def)

lemma kept_try_if: "(if c then try_whatsapp_draft wa k s else (x, s)) = (y, s') \<Longrightarrow> P s \<Longrightarrow> P s'"
  by (cases c) (auto dest: kept_try)

lemma kept_workflow:
  assumes "run_outreach_draft_generation_workflow em wa k ctx b s = (res, b', s')" "P b" "P s"
  shows "P b' \<and> P s'"
  using assms
  by (auto simp: run_outreach_draft_generation_workflow_def Let_def
      split: option.splits list.splits prod.splits if_splits sum.splits
      dest!: kept_settings kept_try kept_generate(1) [rotated] intro!: kept_qualified)

lemma kept_draft_step:
  assumes "run_draft_generation_step em wa kapso w k auto ctx b s = (res, b', s')" "P b" "P s"
  shows "P b' \<and> P s'"
proof -
  obtain r b1 s1 where e: "run_outreach_draft_generation_workflow em wa k ctx b s = (r, b1, s1)"
    by (cases rule: prod_cases3)
  show ?thesis
    using assms kept_workflow [OF e assms(2,3)] kept_automation [where b = b1 and s = s1]
    by (force simp: run_draft_generation_step_def e split: sum.splits if_splits)
qed

lemma kept_report:
  assumes "create_or_get_report b k s = (r, s')" "P b" "P s"
  shows "P s'"
proof -
  have "lead_rows s' \<in> {lead_rows b, lead_rows s}"
    using assms(1) by (auto simp: create_or_get_report_def lead_rows_def tick_uuid_def rollback_to_def
        split: option.splits)
  then show ?thesis using same assms(2,3) by blast
qed

lemma kept_research:
  assumes "P b" "P s"
  shows "P (snd (run_research web b k s))"
  using assms kept_report [where b = b and k = k and s = s]
  by (simp add: run_research_def Let_def split_beta split: option.split)
    (metis prod.collapse)

lemma kept_new_brief:
  assumes "P b" "P s"
  shows "P (snd (create_or_get_brief b k s))"
proof -
  have "lead_rows (snd (create_or_get_brief b k s)) \<in> {lead_rows b, lead_rows s}"
    by (auto simp: create_or_get_brief_def lead_rows_def tick_uuid_def rollback_to_def split: option.split)
  then show ?thesis using same assms by blast
qed

lemma kept_brief:
  assumes "generate_brief env b k s = Inr (br, s')" "P b" "P s"
  shows "P s'"
  using assms(1) kept_new_brief [OF assms(2,3), of k] assms(2,3)
  by (auto simp: generate_brief_def Let_def split_beta get_pricing_matrix_def on_brief_generated_def
      split: option.splits sum.splits budget.splits intro!: kept_emit)

lemma kept_lane:
  assumes "run_high_value_lane_inline web env k b s = (r, Some (b', s'))" "P b" "P s"
  shows "P b' \<and> P s'"
proof -
  let ?s1 = "snd (run_research web b k s)"
  have p: "P ?s1" by (rule kept_research [OF assms(2,3)])
  show ?thesis
    using assms(1,2) kept_brief [OF _ assms(2) p]
    by (auto simp: run_high_value_lane_inline_def Let_def split_beta
        split: sum.splits option.splits if_splits)
qed

end

section \<open>The leads that wait\<close>

text \<open>
  Only these leads are new, every new one can be enriched, the identifiers are unique, and these
  are the territories.
\<close>

definition waits_in :: "web \<Rightarrow> uuid set \<Rightarrow> territory list \<Rightarrow> store \<Rightarrow> bool" where
  "waits_in web X T s \<longleftrightarrow> territories s = T \<and> distinct (map lead_id (leads s))
     \<and> (\<forall>l \<in> set (leads s). lead_status l = NEW \<longrightarrow> lead_id l \<in> X \<and> enrichable web l)"

lemma waits_status:
  assumes "waits_in web X T s" "\<And>l. lead_id (f l) = lead_id l" "\<And>l. lead_status (f l) \<noteq> NEW"
  shows "waits_in web (X - {k}) T (upd_lead k f s)"
proof -
  have "map lead_id (leads (upd_lead k f s)) = map lead_id (leads s)"
    using assms(2) by (simp add: row_access_defs tbl_update_def stamp_lead_def)
  moreover have "l \<in> set (leads s) \<and> lead_id l \<noteq> k"
    if "l \<in> set (leads (upd_lead k f s))" "lead_status l = NEW" for l
    using that assms(2,3) by (auto simp: row_access_defs tbl_update_def stamp_lead_def split: if_splits) metis
  ultimately show ?thesis using assms(1) by (auto simp: waits_in_def row_access_defs)
qed

lemma waits_mono: "waits_in web X T s \<Longrightarrow> X \<subseteq> Y \<Longrightarrow> waits_in web Y T s"
  by (auto simp: waits_in_def)

interpretation wi: lead_property "waits_in web X T" for web X T
proof
  show "lead_rows s' = lead_rows s \<Longrightarrow> waits_in web X T s' = waits_in web X T s" for s s'
    by (simp add: lead_rows_def waits_in_def)
  show "waits_in web X T s \<Longrightarrow> (\<And>l. lead_id (f l) = lead_id l) \<Longrightarrow> (\<And>l. lead_status (f l) \<noteq> NEW)
      \<Longrightarrow> waits_in web X T (upd_lead k f s)" for s f k
    by (rule waits_mono [OF waits_status]) auto
qed

lemma waits_analysis:
  assumes "waits_in web X T s" "k \<notin> X"
  shows "waits_in web X T (upd_lead k (set_analysis a) s)"
proof -
  have i: "map lead_id (leads (upd_lead k (set_analysis a) s)) = map lead_id (leads s)"
    by (simp add: row_access_defs tbl_update_def stamp_lead_def set_analysis_def)
  have "\<exists>y \<in> set (leads s). lead_id l = lead_id y \<and> lead_status l = lead_status y \<and> (lead_id y \<noteq> k \<longrightarrow> l = y)"
    if "l \<in> set (leads (upd_lead k (set_analysis a) s))" for l
    using that by (auto simp: row_access_defs tbl_update_def stamp_lead_def set_analysis_def split: if_splits)
  then have "lead_id l \<in> X \<and> enrichable web l"
    if "l \<in> set (leads (upd_lead k (set_analysis a) s))" "lead_status l = NEW" for l
    using that assms unfolding waits_in_def by metis
  moreover have "territories (upd_lead k (set_analysis a) s) = territories s" by (simp add: row_access_defs)
  ultimately show ?thesis using assms(1) i by (simp add: waits_in_def)
qed

lemma notifs_add_signals: "notifs (fold (add_signal k) gs s) = notifs s"
  by (induction gs arbitrary: s) (simp_all add: add_signal_def tick_uuid_def)

lemma notifs_enrich:
  "notifs (replace_signals k gs s) = notifs s" "notifs (store_screenshot e l u g s) = notifs s"
  by (simp_all add: replace_signals_def notifs_add_signals store_screenshot_def Let_def tick_uuid_def
      split: sum.split option.split)

lemma enrich_shape:
  assumes "enrich_lead e k s = Inr (p, s')" "get_lead s k = Some l"
  obtains f v where "s' = upd_lead k f v" "lead_rows v = lead_rows s" "notifs v = notifs s"
    "\<And>x. lead_id (f x) = lead_id x" "\<And>x. lead_status (f x) = ENRICHED"
proof -
  have f: "lead_status (set_enriched t l2 es x) = ENRICHED" for t l2 es x by (simp add: set_enriched_def)
  have "\<exists>l2 es gs v. s' = upd_lead k (set_enriched (now s) l2 es) (replace_signals k gs v)
      \<and> lead_rows v = lead_rows s \<and> notifs v = notifs s"
    using assms notifs_enrich(2) by (fastforce simp: enrich_lead_def Let_def split: sum.splits if_splits)
  then obtain l2 es gs v where
    "s' = upd_lead k (set_enriched (now s) l2 es) (replace_signals k gs v)"
    "lead_rows v = lead_rows s" "notifs v = notifs s" by blast
  then show ?thesis
    by (intro that [of "set_enriched (now s) l2 es" "replace_signals k gs v"]) (simp_all add: notifs_enrich f)
qed

lemma get_lead_upd_Some: "get_lead s k \<noteq> None \<Longrightarrow> (\<And>x. lead_id (f x) = lead_id x) \<Longrightarrow> get_lead (upd_lead k f s) k \<noteq> None"
  using get_lead_upd by fastforce

lemma score_waits:
  assumes "waits_in web X T s" "get_lead s k \<noteq> None" "notifs b = notifs s"
  shows "waits_in web (X - {k}) T (snd (score_lead b k s)) \<and> get_lead (snd (score_lead b k s)) k \<noteq> None"
proof -
  obtain l where l: "get_lead s k = Some l" using assms(2) by blast
  let ?s1 = "scored_state k l s"
  have "notif_frame ?s1 (snd (score_lead b k s))"
    using score_lead_cases [OF l, of b] assms(3) by (auto simp: has_dedup_key_def)
  note r = lead_rows_frame [OF this]
  have k: "lead_id (set_score t x y) = lead_id y" "lead_status (set_score t x y) \<noteq> NEW" for t x y
    by (simp_all add: set_score_def)
  have "waits_in web (X - {k}) T ?s1" unfolding scored_state_def by (rule waits_status [OF assms(1)]) (simp_all add: k)
  moreover have "get_lead ?s1 k \<noteq> None" unfolding scored_state_def
    by (rule get_lead_upd_Some [OF assms(2)]) (simp add: k)
  ultimately show ?thesis using wi.same [OF r] r by (simp add: lead_rows_def get_lead_def)
qed

section \<open>One lead, one round\<close>

context lead_property
begin

lemma kept_batch_generate:
  assumes "P (w_db (fst x))" "P (snd x)"
  shows "P (w_db (snd (snd (batch_generate pe tid k p x))))"
proof -
  let ?y = "sync_open tid (step_of ''draft'' p) x"
  obtain res b s' where e: "run_draft_generation_step (pe_email_writer pe) (pe_whatsapp_writer pe)
      (pe_kapso pe) (pe_mail pe) k True [] (w_db (fst ?y)) (snd ?y) = (res, b, s')"
    by (cases rule: prod_cases3)
  have "P b" using kept_draft_step [OF e] assms by simp
  then show ?thesis using e by (simp add: batch_generate_def Let_def split_beta)
qed

lemma kept_batch_draft:
  assumes "P (w_db (fst x))" "P (snd x)"
  shows "P (w_db (snd (snd (batch_draft env tid k q p x))))"
proof (cases "q = ''high''")
  case False
  with kept_batch_generate [OF assms] show ?thesis by (simp add: batch_draft_def)
next
  case True
  let ?y = "sync_open tid (step_of ''research'' p) x"
  obtain r o' where e: "run_high_value_lane_inline (bt_research env) (bt_briefs env) k (w_db (fst ?y)) (snd ?y)
      = (r, o')" by (cases "run_high_value_lane_inline (bt_research env) (bt_briefs env) k (w_db (fst ?y)) (snd ?y)")
  show ?thesis
  proof (cases o')
    case None
    with True e assms show ?thesis by (simp add: batch_draft_def Let_def split_beta)
  next
    case (Some bs)
    obtain b s where bs: "bs = (b, s)" by (cases bs)
    have "P b \<and> P s" using kept_lane [OF e [unfolded Some bs]] assms by simp
    with True e Some bs assms show ?thesis
      by (simp add: batch_draft_def Let_def split_beta kept_batch_generate)
  qed
qed

lemma kept_lead_failed: "P (w_db w) \<Longrightarrow> P (w_db (snd (snd (lead_failed tid p e w))))"
  by (simp add: lead_failed_def Let_def)

end

lemma analysis_waits:
  assumes "waits_in web (X - {k}) T s" "get_lead s k \<noteq> None" "models_answer (bt_pipeline env)"
  shows "waits_in web (X - {k}) T (w_db (snd (snd (batch_analysis env tid k p e w s))))"
proof -
  obtain l where l: "get_lead s k = Some l" using assms(2) by blast
  obtain a s' where r: "run_lead_analysis_step (bt_pipeline env) l s = Inr (a, s')"
    using analysis_runs [OF assms(3), of l s] by auto
  have "s' = upd_lead k (set_analysis a) s"
    using r lead_tbl.get_key [OF l] by (auto simp: run_lead_analysis_step_def Let_def split: sum.splits)
  then have "waits_in web (X - {k}) T s'" using waits_analysis [OF assms(1)] by simp
  then have "waits_in web (X - {k}) T
      (w_db (snd (snd (batch_draft env tid k (an_quality a) p (w\<lparr>w_db := s'\<rparr>, s')))))"
    by (intro wi.kept_batch_draft) simp_all
  then show ?thesis using l r
    by (auto simp: batch_analysis_def Let_def split_beta intro: wi.kept_lead_failed)
qed

lemma notifs_sync [simp]:
  "notifs (w_db (sync_batch tid p u w)) = notifs (w_db w)" "notifs (snd (sync_open tid p x)) = notifs (snd x)"
  by (simp_all add: sync_open_def sync_batch_def persist_operational_task_state_def update_task_run_def
      mirror_batch_pipeline_state_def mirror_state_def row_access_defs)

lemma scored_waits:
  assumes "waits_in web X T s" "get_lead s k \<noteq> None" "notifs (w_db w) = notifs s"
    and "models_answer (bt_pipeline env)"
  shows "waits_in web (X - {k}) T (w_db (snd (snd (batch_score env tid k p e w s))))"
proof -
  let ?y = "sync_open tid (step_of ''scoring'' p) (w, s)"
  have "waits_in web X T (snd ?y)" "get_lead (snd ?y) k \<noteq> None" "notifs (w_db (fst ?y)) = notifs (snd ?y)"
    using assms by simp_all
  from score_waits [OF this] show ?thesis
    unfolding batch_score_def Let_def split_beta
    by (intro analysis_waits) (simp_all add: assms(4))
qed

lemma tbl_get_unique: "distinct (map key rows) \<Longrightarrow> r \<in> set rows \<Longrightarrow> tbl_get key rows (key r) = Some r"
  by (induction rows) (auto simp: tbl_get_def)

lemma no_row_waits:
  assumes "waits_in web X T s" "\<And>l. get_lead s k = Some l \<Longrightarrow> lead_status l \<noteq> NEW"
  shows "waits_in web (X - {k}) T s"
proof -
  have "lead_id l \<noteq> k" if "l \<in> set (leads s)" "lead_status l = NEW" for l
  proof
    assume "lead_id l = k"
    with that(1) assms(1) have "get_lead s k = Some l"
      using tbl_get_unique [of lead_id "leads s" l] by (simp add: waits_in_def get_lead_def)
    with assms(2) that(2) show False by blast
  qed
  then show ?thesis using assms(1) by (auto simp: waits_in_def)
qed

lemma batch_lead_waits:
  assumes "waits_in (pe_web (bt_pipeline env)) X T (w_db w)" "models_answer (bt_pipeline env)"
  shows "waits_in (pe_web (bt_pipeline env)) (X - {k}) T
      (w_db (snd (snd (batch_lead env tid n k p e w))))"
proof (cases "get_lead (w_db w) k")
  case None
  then show ?thesis using no_row_waits [OF assms(1), of k] by (simp add: batch_lead_def Let_def)
next
  case (Some l)
  let ?web = "pe_web (bt_pipeline env)"
  let ?p2 = "(step_of ''enrichment'' (p\<lparr>bp_processed := int n\<rparr>))\<lparr>bp_current_lead := Some (lead_business_name l)\<rparr>"
  define w2 where "w2 = sync_batch tid ?p2 no_task_update
      (sync_batch tid (step_of ''enrichment'' (p\<lparr>bp_processed := int n\<rparr>)) no_task_update w)"
  have w: "waits_in ?web X T (w_db w2)" and g: "get_lead (w_db w2) k = Some l"
    using assms(1) Some by (simp_all add: w2_def)
  have b: "batch_lead env tid n k p e w = (case enrich_lead ?web k (w_db w2) of
      Inl err \<Rightarrow> lead_failed tid ?p2 e w2 | Inr (l', s) \<Rightarrow> batch_score env tid k ?p2 e w2 s)"
    using Some unfolding w2_def by (simp add: batch_lead_def Let_def)
  show ?thesis
  proof (cases "enrich_lead ?web k (w_db w2)")
    case (Inl err)
    have "\<not> enrichable ?web l" using enrichable_runs [OF g, of ?web] Inl by auto
    moreover have "l \<in> set (leads (w_db w2))" using g by (simp add: get_lead_def tbl_get_in)
    ultimately have "lead_status l \<noteq> NEW" using w by (auto simp: waits_in_def)
    then have "waits_in ?web (X - {k}) T (w_db w2)" using no_row_waits [OF w, of k] g by simp
    then show ?thesis by (simp add: b Inl wi.kept_lead_failed)
  next
    case (Inr r)
    obtain l' s where r: "r = (l', s)" by (cases r)
    obtain f v where f: "s = upd_lead k f v" "lead_rows v = lead_rows (w_db w2)"
      "notifs v = notifs (w_db w2)" "\<And>x. lead_id (f x) = lead_id x" "\<And>x. lead_status (f x) = ENRICHED"
      using enrich_shape [OF Inr [unfolded r] g] by blast
    have v: "waits_in ?web X T v" "get_lead v k \<noteq> None"
      using w wi.same [OF f(2)] g f(2) by (simp_all add: lead_rows_def get_lead_def)
    have "waits_in ?web X T s" unfolding f(1) by (rule wi.moved [OF v(1)]) (simp_all add: f(4,5))
    moreover have "get_lead s k \<noteq> None" unfolding f(1) by (rule get_lead_upd_Some [OF v(2) f(4)])
    moreover have "notifs (w_db w2) = notifs s" unfolding f(1) by (simp add: f(3) row_access_defs)
    ultimately show ?thesis using scored_waits assms(2) by (simp add: b Inr r)
  qed
qed

lemma batch_leads_waits:
  assumes "\<And>j v. lead_rows (w_db (bt_others env j v)) = lead_rows (w_db v)" "models_answer (bt_pipeline env)"
    and "waits_in (pe_web (bt_pipeline env)) X T (w_db w)"
    and "batch_leads env tid n idx ks p e w = (True, p', e', w')"
  shows "waits_in (pe_web (bt_pipeline env)) (X - set ks) T (w_db w')"
  using assms(3,4)
proof (induction ks arbitrary: X idx p e w)
  case (Cons k ks)
  let ?w1 = "bt_others env (Some k) w"
  obtain p2 e2 w2 where l: "batch_lead env tid (n + idx) k p e ?w1 = (p2, e2, w2)" by (cases rule: prod_cases3)
  have "waits_in (pe_web (bt_pipeline env)) (X - {k}) T (w_db w2)"
  proof -
    have "waits_in (pe_web (bt_pipeline env)) X T (w_db ?w1)"
      using wi.same [OF assms(1) [of "Some k" w]] Cons.prems(1) by blast
    from batch_lead_waits [OF this assms(2), of k tid "n + idx" p e] show ?thesis by (simp add: l)
  qed
  moreover have "batch_leads env tid n (Suc idx) ks p2 e2 w2 = (True, p', e', w')"
    using Cons.prems(2) by (simp add: Let_def l split: if_splits)
  ultimately have "waits_in (pe_web (bt_pipeline env)) (X - {k} - set ks) T (w_db w')" by (rule Cons.IH)
  then show ?case by (simp add: Diff_insert2 [of X k "set ks"])
qed simp

lemma batch_work_waits:
  assumes "\<And>j v. lead_rows (w_db (bt_others env j v)) = lead_rows (w_db v)" "models_answer (bt_pipeline env)"
    and "waits_in (pe_web (bt_pipeline env)) X T (w_db (bs_world st))"
    and "batch_work env tid ids st = (r, st')"
  shows "r = Round_stopped
    \<or> r = Round_again \<and> waits_in (pe_web (bt_pipeline env)) (X - set ids) T (w_db (bs_world st'))"
proof -
  let ?p = "(bs_progress st)\<lparr>bp_total := int (bs_total_processed st + length ids)\<rparr>"
  obtain b p' e' w' where l: "batch_leads env tid (bs_total_processed st) 0 ids ?p (bs_total_errors st)
      (sync_batch tid ?p no_task_update (bs_world st)) = (b, p', e', w')" by (cases rule: prod_cases4)
  show ?thesis
  proof (cases b)
    case False
    with l assms(4) show ?thesis by (auto simp: batch_work_def Let_def)
  next
    case True
    have "waits_in (pe_web (bt_pipeline env)) X T (w_db (sync_batch tid ?p no_task_update (bs_world st)))"
      using assms(3) by simp
    from batch_leads_waits [OF assms(1,2) this] l True
    have "waits_in (pe_web (bt_pipeline env)) (X - set ids) T (w_db w')" by simp
    with l True assms(4) show ?thesis by (auto simp: batch_work_def Let_def)
  qed
qed

text \<open>How a batch ends: it was stopped, or no new lead is left.\<close>

definition batch_over :: "(json \<times> world) option \<Rightarrow> bool" where
  "batch_over r \<longleftrightarrow> (\<exists>res w. r = Some (res, w)
     \<and> (json_get ''status'' res = Some (JStr ''stopped'')
        \<or> json_get ''status'' res = Some (JStr ''done'') \<and> waiting_ids NEW (w_db w) = []))"

lemma waiting_rows: "lead_rows s' = lead_rows s \<Longrightarrow> waiting_ids f s' = waiting_ids f s"
  "lead_rows s' = lead_rows s \<Longrightarrow> next_territory s' = next_territory s"
  by (simp_all add: lead_rows_def waiting_ids_def next_territory_def)

lemma stopped_over: "batch_over (Some (stop_pipeline tid p w))"
  by (simp add: batch_over_def stop_pipeline_def json_get_def)

lemma finished_over:
  assumes "waiting_ids NEW (w_db (bs_world st)) = []"
  shows "batch_over (Some (finish_batch tid st))"
  using assms by (simp add: batch_over_def finish_batch_def batch_result_def Let_def json_get_def
      waiting_rows(1) [OF lead_rows_sync])

lemma idle_over:
  assumes "\<And>j v. lead_rows (w_db (bt_others env j v)) = lead_rows (w_db v)"
    and "waiting_ids NEW (w_db (bs_world st)) = []" "next_territory (w_db (bs_world st)) = None"
  shows "batch_over (batch_loop env tid cid NEW st)"
proof -
  have "waiting_ids NEW (w_db (bt_others env None (bs_world st))) = []"
    "next_territory (w_db (bt_others env None (bs_world st))) = None"
    using assms(2,3) waiting_rows [OF assms(1)] by metis+
  then show ?thesis
    by (simp add: batch_loop.simps [of env tid cid NEW st] batch_round_def batch_crawl_def Let_def
        stopped_over finished_over)
qed

lemma waits_in_none: "waits_in web {} T s \<Longrightarrow> waiting_ids NEW s = []"
  by (auto simp: waits_in_def waiting_ids_def filter_empty_conv)

lemma waiting_ids_set: "set (waiting_ids f s) = lead_id ` {l \<in> set (leads s). lead_status l = f}"
  by (auto simp: waiting_ids_def)


section \<open>Examples\<close>

definition demo_batch_env :: batch_env where
  "demo_batch_env = \<lparr>bt_pipeline = demo_pipeline_env,
     bt_research = \<lparr>rw_get = (\<lambda>u. Inl ''timeout''), rw_instagram = (\<lambda>u. Inl ''timeout''),
       rw_parse = (\<lambda>h. \<lparr>hm_title = None, hm_description = None, hm_og_tags = []\<rparr>), rw_duration_ms = 1\<rparr>,
     bt_briefs = \<lparr>be_loads = (\<lambda>t. None), be_type_error = (\<lambda>j. ''''), be_text_number = (\<lambda>t. None),
       be_generate = (\<lambda>l g d p. Inl ''timeout''), be_review = (\<lambda>b. Inl ''timeout'')\<rparr>,
     bt_crawl = demo_crawl_env, bt_others = (\<lambda>k w. w)\<rparr>"

definition demo_batch_world :: "string option \<Rightarrow> world" where
  "demo_batch_world url = \<lparr>w_db = add_lead ((blank_lead 1 ''Bar'' 0)\<lparr>lead_website_url := url\<rparr>) (empty_store 7),
     w_redis = \<lparr>rd_up = True, rd_data = []\<rparr>\<rparr>"



end
