(* ===== verification/Research_Workers.thy ===== *)
theory Research_Workers
  imports Research Pipeline_Flow
begin

text \<open>
  The tasks of the lane for leads of high quality: research with the investigating agent
  (\<open>app/workers/research_tasks.py\<close>), the commercial brief and its review
  (\<open>app/workers/brief_tasks.py\<close>).  Each hands the lead to the next one; the last hands it to the
  draft.
\<close>

section \<open>Research\<close>

definition brief_name :: string where "brief_name = ''app.workers.brief_tasks.task_generate_brief''"
definition review_name :: string where "review_name = ''app.workers.brief_tasks.task_review_brief''"

text \<open>\<open>ScoutResult\<close>; findings, pages and calls are the documents the agent collected.\<close>

record scout_result =
  sc_findings :: json
  sc_pages_visited :: "json list"
  sc_tool_calls :: "json list"
  sc_duration_ms :: int
  sc_loops_used :: int
  sc_error :: "string option"

text \<open>What the prompt of the dossier is given besides the lead.\<close>

record dossier_query =
  dq_signals :: string
  dq_html_metadata :: string
  dq_website_confidence :: string
  dq_instagram_confidence :: string
  dq_whatsapp_detected :: string

text \<open>
  The world of the lane: the agent (an exception, or what it found), the model of its role, the
  dossier (an exception, or its description), and the order in which a set of texts is listed.
\<close>

record lane_env =
  le_pipeline :: pipeline_env
  le_research :: research_web
  le_briefs :: brief_env
  le_scout :: "lead \<Rightarrow> string \<Rightarrow> string \<Rightarrow> string + scout_result"
  le_executor_model :: "string option"
  le_dossier :: "lead \<Rightarrow> dossier_query \<Rightarrow> string + string"
  le_listing :: "string list \<Rightarrow> string list"

definition delay_quietly ::
    "lane_env \<Rightarrow> string \<Rightarrow> uuid \<Rightarrow> uuid option \<Rightarrow> string option \<Rightarrow> store \<Rightarrow> store" where
  "delay_quietly env name k rid cid s =
     (case delay (le_pipeline env) (task_call name k rid cid) s of Inl e \<Rightarrow> s | Inr s' \<Rightarrow> s')"

text \<open>A completed report of the last day makes the task pass the lead on at once.\<close>

definition recent_report :: "store \<Rightarrow> uuid \<Rightarrow> research_report option" where
  "recent_report s k = find (\<lambda>r. rep_lead_id r = k \<and> rep_status r = R_COMPLETED
     \<and> now s - hours 24 \<le> rep_updated_at r) (reports s)"

text \<open>The last five outcomes of the industry, as a hint for the agent.\<close>

definition outcome_hint :: "lane_env \<Rightarrow> store \<Rightarrow> lead \<Rightarrow> string" where
  "outcome_hint env s l =
     (if \<not> truthy (lead_industry l) then []
      else
        let past = take 5 (sort_key (\<lambda>o'. - snap_created_at o')
              (filter (\<lambda>o'. snap_industry o' = lead_industry l) (snapshots s)));
            won = filter (\<lambda>o'. snap_outcome o' = ''won'') past;
            signals = concat (map (\<lambda>o'. case snap_signals_json o' of None \<Rightarrow> []
              | Some gs \<Rightarrow> map signal_value (take 3 gs)) won)
        in if past = [] then []
           else [CHR 10] @ ''Outcome history ('' @ text_or_empty (lead_industry l) @ ''): ''
             @ nat_str (length won) @ '' WON, '' @ nat_str (length past - length won) @ '' LOST.''
             @ (if signals = [] then []
                else '' Winning signals: '' @ join '', '' (le_listing env (remdups signals)) @ ''.''))"

definition analysis_context :: "lane_env \<Rightarrow> uuid option \<Rightarrow> store \<Rightarrow> string" where
  "analysis_context env rid s = (case rid of None \<Rightarrow> []
   | Some r \<Rightarrow> (let a = get_or ''analysis'' (JObj []) (get_step_context r s);
         text = py_str (pe_other (le_pipeline env))
       in ''Quality: '' @ text (get_or ''quality'' qm a) @ ''. '' @ text (get_or ''reasoning'' (JStr []) a)))"

definition scout_thread ::
    "lane_env \<Rightarrow> uuid \<Rightarrow> uuid option \<Rightarrow> scout_result \<Rightarrow> store \<Rightarrow> investigation_thread" where
  "scout_thread env k rid r s = \<lparr>it_id = next_uuid s, it_lead_id = k, it_pipeline_run_id = rid,
     it_agent_model = or_text (le_executor_model env) ''unknown'',
     it_tool_calls_json = JList (sc_tool_calls r), it_pages_visited_json = JList (sc_pages_visited r),
     it_findings_json = sc_findings r, it_loops_used = sc_loops_used r,
     it_duration_ms = sc_duration_ms r, it_error = sc_error r, it_created_at = now s\<rparr>"

text \<open>The entry of the agent in the context of the run: the pages are a number.\<close>

definition scout_context :: "scout_result \<Rightarrow> json" where
  "scout_context r = (let f = sc_findings r in
     JObj [(''pages_visited'', JInt (int (length (sc_pages_visited r)))),
       (''opportunity'', get_or ''opportunity'' (JStr []) f),
       (''whatsapp_detected'', get_or ''whatsapp_detected'' (JBool False) f),
       (''findings_summary'', get_or ''summary'' (JStr []) f),
       (''loops_used'', JInt (sc_loops_used r))])"

text \<open>
  The agent's part: its result if it had one, the committed state (the thread of the
  investigation is committed) and the session.
\<close>

definition run_scout ::
    "lane_env \<Rightarrow> uuid \<Rightarrow> uuid option \<Rightarrow> store \<Rightarrow> store \<Rightarrow> scout_result option \<times> store \<times> store" where
  "run_scout env k rid b s = (case get_lead s k of
     None \<Rightarrow> (None, b, s)
   | Some l \<Rightarrow> (case le_scout env l
         (join '', '' (map (\<lambda>g. signal_value (sig_signal_type g)) (signals_of s k)))
         (analysis_context env rid s @ outcome_hint env s l) of
       Inl e \<Rightarrow> (None, b, s)
     | Inr r \<Rightarrow>
         let s1 = (tick_uuid s)\<lparr>investigations := investigations s @ [scout_thread env k rid r s]\<rparr>
         in (Some r, s1, if json_truthy (sc_findings r)
               then append_if (le_pipeline env) rid ''scout'' (scout_context r) s1 else s1)))"

text \<open>The findings in the report, or the exception of an opportunity that is not a text.\<close>

definition scouted_report :: "lane_env \<Rightarrow> json \<Rightarrow> research_report \<Rightarrow> string + research_report" where
  "scouted_report env f r =
     (let seen = (\<lambda>r. if has ''whatsapp_detected'' f then r\<lparr>rep_whatsapp_detected := Some True\<rparr> else r) in
      if has ''opportunity'' f
      then (case get_or ''opportunity'' JNull f of
          JStr t \<Rightarrow> Inr (seen (r\<lparr>rep_business_description :=
            Some (text_or_empty (rep_business_description r) @ '' | Scout: '' @ t)\<rparr>))
        | v \<Rightarrow> Inl (be_type_error (le_briefs env) v))
      else Inr (seen r))"

definition signal_types :: "json \<Rightarrow> string list" where
  "signal_types j = (case j of
     JList gs \<Rightarrow> map (\<lambda>g. case get_or ''type'' (JStr []) g of JStr t \<Rightarrow> t | _ \<Rightarrow> []) gs | _ \<Rightarrow> [])"

text \<open>
  The prompt's word for WhatsApp: the flag reaches it as the text of a truth value, which is
  never empty.
\<close>

definition whatsapp_word :: "research_report \<Rightarrow> string" where
  "whatsapp_word r = (let flag = (if rep_whatsapp_detected r = Some True then ''True'' else ''False'')
     in if flag \<noteq> [] then ''Si'' else ''No'')"

definition dossier_query_of :: "lane_env \<Rightarrow> research_report \<Rightarrow> dossier_query" where
  "dossier_query_of env r = \<lparr>
     dq_signals = join '', '' (signal_types (json_opt (rep_detected_signals_json r))),
     dq_html_metadata = pe_other (le_pipeline env)
       (case rep_html_metadata_json r of Some j \<Rightarrow> j | None \<Rightarrow> JObj []),
     dq_website_confidence = (case rep_website_confidence r of
       Some c \<Rightarrow> confidence_value c | None \<Rightarrow> ''unknown''),
     dq_instagram_confidence = (case rep_instagram_confidence r of
       Some c \<Rightarrow> confidence_value c | None \<Rightarrow> ''unknown''),
     dq_whatsapp_detected = whatsapp_word r\<rparr>"

text \<open>The dossier replaces the description; the alert of the completed research follows.\<close>

definition write_dossier :: "lane_env \<Rightarrow> uuid \<Rightarrow> store \<Rightarrow> store \<Rightarrow> store \<times> store" where
  "write_dossier env k b s = (case (get_lead s k, report_of s k) of
     (Some l, Some r) \<Rightarrow>
       let (b1, s1) = (case le_dossier env l (dossier_query_of env r) of
             Inl e \<Rightarrow> (b, s)
           | Inr d \<Rightarrow> let s' = upd_report (rep_id r) (\<lambda>r. r\<lparr>rep_business_description := Some d\<rparr>) s
                     in (s', s'))
       in (b1, on_research_completed b1 k (Some (lead_business_name l))
            (int (length (signal_types (json_opt (rep_detected_signals_json r))))) s1)
   | _ \<Rightarrow> (b, s))"

definition research_context :: "research_report \<Rightarrow> json" where
  "research_context r = (let flag = (\<lambda>v. case v of None \<Rightarrow> JNull | Some x \<Rightarrow> JBool x) in
     JObj [(''status'', JStr (research_status_value (rep_status r))),
       (''website_exists'', flag (rep_website_exists r)),
       (''whatsapp_detected'', flag (rep_whatsapp_detected r)),
       (''signals'', json_opt (rep_detected_signals_json r)),
       (''business_description'', jstr (rep_business_description r))])"

text \<open>The end of the task: context, message to the brief, result.\<close>

definition research_done ::
    "lane_env \<Rightarrow> uuid \<Rightarrow> uuid option \<Rightarrow> string option \<Rightarrow> task_body" where
  "research_done env k rid cid h b s = (case report_of s k of
     None \<Rightarrow> (BRaise ''ObjectDeletedError'', b, s)
   | Some r \<Rightarrow>
       let s1 = append_if (le_pipeline env) rid ''research'' (research_context r) s;
           s2 = (if rid = None then s1 else delay_quietly env brief_name k rid cid s1);
           res = JObj [(''status'', JStr (research_status_value (rep_status r))),
             (''lead_id'', JStr (uuid_str k)),
             (''duration_ms'', (case rep_research_duration_ms r of None \<Rightarrow> JNull | Some n \<Rightarrow> JInt n))]
       in (BReturn res, b, handle_succeed h (Some res) None None s2))"

definition research_body ::
    "lane_env \<Rightarrow> uuid \<Rightarrow> uuid option \<Rightarrow> string option \<Rightarrow> task_body" where
  "research_body env k rid cid h b s =
     (if recent_report s k \<noteq> None
      then (let res = JObj [(''status'', JStr ''skipped''), (''reason'', JStr ''recent_research_exists'')];
                s1 = (if rid = None then s else delay_quietly env brief_name k rid cid s)
            in (BReturn res, b, handle_succeed h (Some res) None None s1))
      else
        let (scout, b1, s1) = run_scout env k rid b s;
            (rep, s2) = run_research (le_research env) b1 k s1
        in case rep of
             None \<Rightarrow> (BReturn (not_found_result ''not_found'' k), b1, handle_fail h ''Lead not found'' None s2)
           | Some r \<Rightarrow>
               let finish = (\<lambda>b s. if rep_status r = R_COMPLETED
                     then (let (b', s') = write_dossier env k b s in research_done env k rid cid h b' s')
                     else research_done env k rid cid h b s)
               in (case scout of
                     None \<Rightarrow> finish b1 s2
                   | Some sc \<Rightarrow>
                       if json_truthy (sc_findings sc) \<and> \<not> truthy (sc_error sc)
                       then (case scouted_report env (sc_findings sc) r of
                           Inl e \<Rightarrow> (BRaise e, b1, s2)
                         | Inr r' \<Rightarrow> let s3 = upd_report (rep_id r) (\<lambda>_. r') s2 in finish s3 s3)
                       else finish b1 s2))"

definition research_kind :: task_kind where
  "research_kind = \<lparr>tk_name = ''task_research_lead'', tk_celery = research_name, tk_queue = ''research'',
     tk_step = ''research'', tk_max_retries = 1, tk_retries = True, tk_time_limited = True\<rparr>"

definition task_research_lead ::
    "lane_env \<Rightarrow> request \<Rightarrow> uuid \<Rightarrow> uuid option \<Rightarrow> string option \<Rightarrow> store \<Rightarrow> task_end \<times> store" where
  "task_research_lead env rq k rid cid db =
     run_task research_kind rq k rid cid (research_body env k rid cid) db"

section \<open>Briefs\<close>

text \<open>
  The two brief tasks record a failure in a session that is closed without a commit; what is left
  of it is the request for a retry.
\<close>

definition brief_failed ::
    "task_kind \<Rightarrow> request \<Rightarrow> uuid \<Rightarrow> uuid option \<Rightarrow> string option \<Rightarrow> string \<Rightarrow> store \<Rightarrow>
     task_end \<times> store" where
  "brief_failed kind rq k rid cid err db =
     (let db1 = rollback_to db (mark_task_failed (rq_task_id rq) (take 500 err) (Some (tk_step kind)) rid db)
      in if rq_retries rq < tk_max_retries kind
         then (Retrying err, dispatch (task_call (tk_celery kind) k rid cid) db1)
         else (Raised err, db1))"

definition run_brief_task ::
    "task_kind \<Rightarrow> request \<Rightarrow> uuid \<Rightarrow> uuid option \<Rightarrow> string option \<Rightarrow> task_body \<Rightarrow> store \<Rightarrow>
     task_end \<times> store" where
  "run_brief_task kind rq k rid cid body db =
     (case mark_task_running db (rq_task_id rq) (kind_meta kind rq k rid cid) db of
        Inl e \<Rightarrow> brief_failed kind rq k rid cid ''IntegrityError'' db
      | Inr s \<Rightarrow>
          (case body \<lparr>sh_task_id = rq_task_id rq, sh_current_step = tk_step kind,
                   sh_pipeline_run_id = rid\<rparr> db s of
             (BReturn j, b, s') \<Rightarrow> (Returned j, s')
           | (BRaise err, b, s') \<Rightarrow> brief_failed kind rq k rid cid err (rollback_to b s')
           | (BWait, b, s') \<Rightarrow> (Waiting, rollback_to b s')))"

definition brief_context :: "commercial_brief \<Rightarrow> json" where
  "brief_context b = JObj [(''opportunity_score'', jfloat (cb_opportunity_score b)),
     (''budget_tier'', jstr (map_option budget_tier_value (cb_budget_tier b))),
     (''estimated_scope'', jstr (map_option scope_value (cb_estimated_scope b))),
     (''recommended_contact_method'', jstr (map_option contact_method_value (cb_recommended_contact_method b))),
     (''recommended_angle'', jstr (cb_recommended_angle b)),
     (''why_this_lead_matters'', jstr (cb_why_this_lead_matters b))]"

definition brief_generation ::
    "lane_env \<Rightarrow> uuid \<Rightarrow> uuid option \<Rightarrow> task_body" where
  "brief_generation env k rid h b s = (case generate_brief (le_briefs env) b k s of
     Inl e \<Rightarrow> (BRaise e, b, s)
   | Inr (br, s1) \<Rightarrow>
       let failed = (\<lambda>err. (BReturn (JObj [(''status'', JStr ''failed''), (''lead_id'', JStr (uuid_str k)),
             (''error'', jstr err)]), b, handle_fail h (or_text err ''unknown'') None s1))
       in (case br of
             None \<Rightarrow> failed (Some ''Lead not found'')
           | Some br \<Rightarrow>
               if cb_status br \<noteq> BRIEF_GENERATED then failed (cb_error br)
               else
                 let res = JObj [(''status'', JStr ''ok''), (''lead_id'', JStr (uuid_str k)),
                       (''opportunity_score'', jfloat (cb_opportunity_score br))];
                     s2 = handle_succeed h (Some res) None None s1;
                     s3 = append_if (le_pipeline env) rid ''brief'' (brief_context br) s2
                 in (BReturn res, b, delay_quietly env review_name k rid None s3)))"

definition brief_body ::
    "lane_env \<Rightarrow> uuid \<Rightarrow> uuid option \<Rightarrow> task_body" where
  "brief_body env k rid h b s =
     (let made = (\<lambda>b. cb_status b \<in> {BRIEF_GENERATED, BRIEF_REVIEWED}) in
      case get_brief_for_lead s k of
        Some br \<Rightarrow> if made br
          then (let next = (if cb_status br = BRIEF_GENERATED then review_name else draft_name);
                    s1 = (if rid = None then s else delay_quietly env next k rid None s);
                    res = JObj [(''status'', JStr ''skipped''), (''reason'', JStr ''brief_exists''),
                      (''lead_id'', JStr (uuid_str k)),
                      (''existing_status'', JStr (brief_status_value (cb_status br)))]
                in (BReturn res, b, handle_succeed h (Some res) None None s1))
          else brief_generation env k rid h b s
      | None \<Rightarrow> brief_generation env k rid h b s)"

definition brief_kind :: task_kind where
  "brief_kind = \<lparr>tk_name = ''task_generate_brief'', tk_celery = brief_name, tk_queue = ''llm'',
     tk_step = ''brief_generation'', tk_max_retries = 1, tk_retries = True, tk_time_limited = False\<rparr>"

definition task_generate_brief ::
    "lane_env \<Rightarrow> request \<Rightarrow> uuid \<Rightarrow> uuid option \<Rightarrow> string option \<Rightarrow> store \<Rightarrow> task_end \<times> store" where
  "task_generate_brief env rq k rid cid db =
     run_brief_task brief_kind rq k rid cid (brief_body env k rid) db"

section \<open>The review of the brief\<close>

definition approval_json :: "brief_review_answer option \<Rightarrow> json" where
  "approval_json a = (case a of None \<Rightarrow> JNull | Some v \<Rightarrow> JBool (bv_approved v))"

definition review_body ::
    "lane_env \<Rightarrow> uuid \<Rightarrow> uuid option \<Rightarrow> task_body" where
  "review_body env k rid h b s =
     (let skip = (let res = JObj [(''status'', JStr ''skipped''), (''lead_id'', JStr (uuid_str k)),
             (''reason'', JStr ''no_generated_brief'')]
           in (BReturn res, b, handle_succeed h (Some res) None None s))
      in case get_brief_for_lead s k of
           None \<Rightarrow> skip
         | Some br \<Rightarrow>
             if cb_status br \<noteq> BRIEF_GENERATED then skip
             else (case be_review (le_briefs env) br of
                 Inl e \<Rightarrow> (BRaise e, b, s)
               | Inr (a, model) \<Rightarrow>
                   let s1 = upd_brief (cb_id br) (reviewed_brief a model (now s)) s;
                       s2 = append_if (le_pipeline env) rid ''brief_review''
                         (JObj [(''approved'', approval_json a),
                            (''verdict_reasoning'', jstr (map_option bv_feedback a))]) s1;
                       res = JObj [(''status'', JStr ''ok''), (''lead_id'', JStr (uuid_str k)),
                         (''approved'', approval_json a)];
                       s3 = handle_succeed h (Some res) None None s2
                   in if rid = None then (BReturn res, s1, s3)
                      else if approval_json a = JBool True
                      then (case delay (le_pipeline env) (task_call draft_name k rid None) s3 of
                          Inl e \<Rightarrow> (BRaise e, s1, s3)
                        | Inr s4 \<Rightarrow> (BReturn res, s1, s4))
                      else (let s4 = mark_qualified k s3 in (BReturn res, s4, s4))))"

definition review_kind :: task_kind where
  "review_kind = \<lparr>tk_name = ''task_review_brief'', tk_celery = review_name, tk_queue = ''reviewer'',
     tk_step = ''brief_review'', tk_max_retries = 1, tk_retries = True, tk_time_limited = False\<rparr>"

definition task_review_brief ::
    "lane_env \<Rightarrow> request \<Rightarrow> uuid \<Rightarrow> uuid option \<Rightarrow> string option \<Rightarrow> store \<Rightarrow> task_end \<times> store" where
  "task_review_brief env rq k rid cid db =
     run_brief_task review_kind rq k rid cid (review_body env k rid) db"

end
