(* ===== verification/Research_Safety.thy ===== *)
theory Research_Safety
  imports Research_Workers
begin

text \<open>
  What the lane for leads of high quality guarantees: a research is done once and stays, briefs
  stay well formed, only an approved brief leads to a draft, and what the agent reports about the
  pages it visited makes the draft of such a lead impossible.
\<close>

section \<open>Frames\<close>

lemma context_row [simp]:
  "run_step_context_json (stamp_run s f r) = run_step_context_json (f r)"
  "run_step_context_json (apply_run_update t u r) = run_step_context_json r"
  by (simp_all add: stamp_run_def apply_run_update_def Let_def)

lemma context_update [simp]: "get_step_context rid (update_run_if r u s) = get_step_context rid s"
  by (auto simp: get_step_context_def update_run_if_def update_pipeline_run_def upd_run_def
      get_run_def table_simps split: option.split)

text \<open>What a draft is made from and what it leaves: the context of the run, leads, drafts and sends.\<close>

definition draft_view :: "uuid \<Rightarrow> store \<Rightarrow>
    json \<times> lead list \<times> outreach_draft list \<times> outreach_delivery list \<times> outbound_conversation list" where
  "draft_view rid s = (get_step_context rid s, leads s, drafts s, deliveries s, convos s)"

lemma draft_view_same:
  "runs s' = runs s \<Longrightarrow> leads s' = leads s \<Longrightarrow> drafts s' = drafts s \<Longrightarrow> deliveries s' = deliveries s
    \<Longrightarrow> convos s' = convos s \<Longrightarrow> draft_view rid s' = draft_view rid s"
  by (simp add: draft_view_def get_step_context_def get_run_def)

lemma draft_view_frames [simp]:
  "draft_view rid (upd_task k f s) = draft_view rid s" "draft_view rid (add_task t s) = draft_view rid s"
  "draft_view rid (tick_uuid s) = draft_view rid s" "draft_view rid (dispatch c s) = draft_view rid s"
  "draft_view rid (rollback_to b s) = draft_view rid b"
  "draft_view rid (emit_lead_event k' t' o' n p a s) = draft_view rid s"
  "draft_view rid (add_dead_letter d s) = draft_view rid s"
  by (rule draft_view_same; simp add: row_access_defs tick_uuid_def dispatch_def rollback_to_def
      emit_lead_event_def add_dead_letter_def Let_def)+

lemma draft_view_update [simp]: "draft_view rid (update_run_if r u s) = draft_view rid s"
  by (simp add: draft_view_def)
    (simp add: update_run_if_def update_pipeline_run_def upd_run_def split: option.split)

lemma draft_view_running:
  "mark_task_running b tid m b = Inr s \<Longrightarrow> draft_view rid s = draft_view rid b"
  by (auto simp: mark_task_running_def queue_task_run_def requeue_after_rollback_def Let_def
      split: sum.splits option.splits if_splits)

lemma draft_view_marks [simp]:
  "draft_view rid (mark_task_failed tid e step r s) = draft_view rid s"
  "draft_view rid (mark_task_retrying tid e step r s) = draft_view rid s"
  by (simp_all add: mark_task_failed_def mark_task_retrying_def split: option.split)

lemma draft_view_repeated [simp]: "draft_view rid (on_repeated_failures b ty n d s) = draft_view rid s"
proof -
  have "notif_frame s (on_repeated_failures b ty n d s)"
    unfolding on_repeated_failures_def
    by (rule emit_notif_frame) (simp add: lost_race_def has_dedup_key_def)
  then show ?thesis by (intro draft_view_same notif_frame_fields)
qed

lemma draft_view_failed: "draft_view rid (snd (task_failed kind rq k r cid err db)) = draft_view rid db"
  by (auto simp: task_failed_def track_failure_def Let_def draft_view_running
      split: sum.split sum.splits)

section \<open>A lead the agent has visited gets no draft\<close>

lemma scouted_pages_raise: "sc_pages_visited r \<noteq> [] \<Longrightarrow> isl (pages_part (scout_context r))"
  by (simp add: pages_part_def scout_context_def get_or_def Let_def json_truthy_def py_len_def json_get_def)

lemma scouted_context_stuck:
  assumes "json_get ''scout'' ctx = Some (scout_context r)" "sc_pages_visited r \<noteq> []" "ctx \<noteq> JObj []"
  shows "\<exists>e. format_context_for_prompt o' ctx n = Inl e"
  using assms scouted_pages_raise [OF assms(2)]
  by (cases "pages_part (scout_context r)") (simp_all add: format_context_for_prompt_def context_parts_def)

lemma scouted_draft_fails:
  assumes ctx: "json_get ''scout'' (get_step_context rid db) = Some (scout_context r)"
    and pages: "sc_pages_visited r \<noteq> []" and lead: "get_lead db k \<noteq> None"
    and t: "task_generate_draft env rq k (Some rid) cid db = (e, db')"
  shows "(\<exists>err. e \<in> {Retrying err, Raised err}) \<and> draft_view rid db' = draft_view rid db"
proof (cases "mark_task_running db (rq_task_id rq) (kind_meta draft_kind rq k (Some rid) cid) db")
  case (Inl x)
  with t draft_view_failed [of rid draft_kind rq k "Some rid" cid "''IntegrityError''" db] show ?thesis
    by (auto simp: task_generate_draft_def run_task_def task_failed_def Let_def
        split: sum.splits if_splits)
next
  case (Inr s)
  have v: "draft_view rid s = draft_view rid db" by (rule draft_view_running [OF Inr])
  then have l: "get_lead s k \<noteq> None" and c: "get_step_context rid s = get_step_context rid db"
    using lead by (auto simp: draft_view_def get_lead_def)
  have "get_step_context rid db \<noteq> JObj []" using ctx by (auto simp: json_get_def)
  with scouted_context_stuck [OF ctx pages] obtain err where
    "draft_context env (Some rid) s = Inl err" by (auto simp: draft_context_def c)
  with l have b: "draft_body_of env k (Some rid) cid h db s = (BRaise err, db, s)" for h
    by (auto simp: draft_body_of_def)
  with t Inr have "(e, db') = task_failed draft_kind rq k (Some rid) cid err (rollback_to db s)"
    by (simp add: task_generate_draft_def run_task_def)
  with draft_view_failed [of rid draft_kind rq k "Some rid" cid err "rollback_to db s"] show ?thesis
    by (auto simp: task_failed_def Let_def split: sum.splits if_splits)
qed

text \<open>What the research task stores about the agent's visit, unless it is too long.\<close>

lemma scout_entry_written:
  assumes scout: "run_scout env k (Some rid) b s = (Some r, b', s')" and found: "json_truthy (sc_findings r)"
    and run: "get_run s rid = Some run"
    and fits: "length (json_dumps (pe_float (le_pipeline env)) (scout_context r)) \<le> max_step_bytes"
      "length (json_dumps (pe_float (le_pipeline env)) (JObj (assoc_set ''scout'' (scout_context r)
         (context_members (run_step_context_json run))))) \<le> max_total_bytes"
  shows "json_get ''scout'' (get_step_context rid s') = Some (scout_context r)"
proof -
  let ?fr = "pe_float (le_pipeline env)"
  define v where "v = (tick_uuid s)\<lparr>investigations := investigations s @ [scout_thread env k (Some rid) r s]\<rparr>"
  have v: "get_run v rid = Some run" using run by (simp add: v_def get_run_def tick_uuid_def)
  have s': "s' = append_step_context ?fr rid ''scout'' (scout_context r) v"
    using scout found
    by (auto simp: run_scout_def Let_def append_if_def v_def split: option.splits sum.splits)
  have m: "context_members (Some (JObj kvs)) = kvs" for kvs by (simp add: context_members_def)
  have "get_step_context rid s' = JObj (assoc_set ''scout'' (scout_context r)
      (context_members (run_step_context_json run)))"
    using fits by (simp add: s' append_step_context_def v limited_context_def get_step_context_def m del: json_dumps.simps)
      (use v in \<open>simp add: upd_run_def get_run_def table_simps m\<close>)
  then show ?thesis by simp
qed


definition demo_scout :: scout_result where
  "demo_scout = \<lparr>sc_findings = JObj [(''summary'', JStr ''a busy bar'')],
     sc_pages_visited = [JObj [(''url'', JStr ''https://bar.example'')]], sc_tool_calls = [],
     sc_duration_ms = 900, sc_loops_used = 2, sc_error = None\<rparr>"

definition demo_lane_env :: lane_env where
  "demo_lane_env = \<lparr>le_pipeline = demo_pipeline_env,
     le_research = \<lparr>rw_get = (\<lambda>u. Inr (200, ''wa.me'')), rw_instagram = (\<lambda>u. Inl ''down''),
       rw_parse = (\<lambda>t. \<lparr>hm_title = Some ''Bar'', hm_description = None, hm_og_tags = []\<rparr>),
       rw_duration_ms = 5\<rparr>,
     le_briefs = \<lparr>be_loads = (\<lambda>t. None), be_type_error = (\<lambda>j. ''type''), be_text_number = (\<lambda>t. None),
       be_generate = (\<lambda>l g d p. Inr (Some \<lparr>ba_opportunity_score = 90, ba_estimated_scope = ''landing'',
         ba_recommended_contact_method = ''whatsapp'', ba_should_call = ''yes'', ba_call_reason = ''r'',
         ba_why_this_lead_matters = ''w'', ba_main_business_signals = [], ba_main_digital_gaps = [],
         ba_recommended_angle = ''a'', ba_demo_recommended = True\<rparr>, Some ''m'', False)),
       be_review = (\<lambda>b. Inr (Some \<lparr>bv_approved = True, bv_feedback = ''ok''\<rparr>, Some ''m''))\<rparr>,
     le_scout = (\<lambda>l g c. Inr demo_scout), le_executor_model = Some ''m'',
     le_dossier = (\<lambda>l q. Inr ''a bar''), le_listing = (\<lambda>ts. ts)\<rparr>"

definition demo_scouted_store :: store where
  "demo_scouted_store = snd (snd (run_scout demo_lane_env 1 (Some 0) demo_pipeline_store demo_pipeline_store))"

lemma demo_scouted_entry:
  "json_get ''scout'' (get_step_context 0 demo_scouted_store) = Some (scout_context demo_scout)"
proof -
  obtain run where run: "get_run demo_pipeline_store 0 = Some run" "run_step_context_json run = None"
    by (simp add: demo_pipeline_store_def create_pipeline_run_def get_run_def add_run_def add_lead_def
        empty_store_def tick_uuid_def Let_def)
  have s: "run_scout demo_lane_env 1 (Some 0) demo_pipeline_store demo_pipeline_store
      = (Some demo_scout, fst (snd (run_scout demo_lane_env 1 (Some 0) demo_pipeline_store demo_pipeline_store)),
         demo_scouted_store)"
    by (simp add: run_scout_def demo_pipeline_lead demo_lane_env_def demo_scouted_store_def Let_def
        del: One_nat_def)
  show ?thesis
  proof (rule scout_entry_written [OF s _ run(1)])
    show "json_truthy (sc_findings demo_scout)" by code_simp
    show "length (json_dumps (pe_float (le_pipeline demo_lane_env)) (scout_context demo_scout))
        \<le> max_step_bytes" by code_simp
    have "length (json_dumps (pe_float (le_pipeline demo_lane_env))
        (JObj (assoc_set ''scout'' (scout_context demo_scout) []))) \<le> max_total_bytes" by code_simp
    then show "length (json_dumps (pe_float (le_pipeline demo_lane_env)) (JObj (assoc_set ''scout''
        (scout_context demo_scout) (context_members (run_step_context_json run))))) \<le> max_total_bytes"
      by (simp only: run(2) context_members_def option.case)
  qed
qed


section \<open>A research is done once\<close>

lemma report_of_update:
  assumes "\<And>r. rep_lead_id (f r) = rep_lead_id r" "report_of s k = Some r"
  shows "report_of (upd_report (rep_id r) f s) k = Some (stamp_report s f r)"
proof -
  have l: "rep_lead_id (stamp_report s f x) = rep_lead_id x" for x
    using assms(1) by (simp add: stamp_report_def)
  have "find (\<lambda>r. rep_lead_id r = k) rs = Some r
    \<Longrightarrow> find (\<lambda>r. rep_lead_id r = k) (tbl_update rep_id (rep_id r) (stamp_report s f) rs)
      = Some (stamp_report s f r)" for rs
    by (induction rs) (auto simp: l split: if_splits)
  with assms(2) show ?thesis by (simp add: report_of_def upd_report_def)
qed

lemma created_report:
  assumes "create_or_get_report base k s = (r, s')"
  shows "report_of s' k = Some r"
proof (cases "report_of s k")
  case None
  then have "find (\<lambda>r. rep_lead_id r = k) (reports s @ [new_report k s]) = Some (new_report k s)"
    by (simp add: report_of_def find_append) (simp add: new_report_def)
  with None assms show ?thesis
    by (auto simp: create_or_get_report_def report_of_def rollback_to_def tick_uuid_def
        split: option.splits)
next
  case (Some x)
  with assms show ?thesis by (simp add: create_or_get_report_def)
qed

lemma created_report_lead:
  "create_or_get_report base k s = (r, s') \<Longrightarrow> get_lead s' k \<in> {get_lead s k, get_lead base k}"
  by (auto simp: create_or_get_report_def get_lead_def tick_uuid_def rollback_to_def split: option.splits)

lemma website_fields:
  "research_website env l r = (r', gs, m) \<Longrightarrow> rep_lead_id r' = rep_lead_id r
    \<and> rep_website_exists r' = Some (truthy (lead_website_url l))"
  by (auto simp: research_website_def Let_def split: sum.splits if_splits prod.splits)

lemma instagram_fields:
  "rep_lead_id (note_instagram l r) = rep_lead_id r" "rep_website_exists (note_instagram l r) = rep_website_exists r"
  "rep_instagram_exists (note_instagram l r) = Some (truthy (lead_instagram_url l))"
  by (simp_all add: note_instagram_def)

lemma whatsapp_fields:
  "whatsapp_on_instagram env l r = (r', gs) \<Longrightarrow> rep_lead_id r' = rep_lead_id r
    \<and> rep_website_exists r' = rep_website_exists r \<and> rep_instagram_exists r' = rep_instagram_exists r"
  "whatsapp_by_phone l r = (r', gs) \<Longrightarrow> rep_lead_id r' = rep_lead_id r
    \<and> rep_website_exists r' = rep_website_exists r \<and> rep_instagram_exists r' = rep_instagram_exists r
    \<and> (truthy (lead_phone l) \<longrightarrow> rep_whatsapp_detected r' = Some True)"
  by (auto simp: whatsapp_on_instagram_def whatsapp_by_phone_def split: sum.splits if_splits prod.splits)

lemma researched_fields:
  "rep_lead_id (researched env t l r) = rep_lead_id r" "rep_status (researched env t l r) = R_COMPLETED"
  "rep_website_exists (researched env t l r) = Some (truthy (lead_website_url l))"
  "rep_instagram_exists (researched env t l r) = Some (truthy (lead_instagram_url l))"
  "truthy (lead_phone l) \<Longrightarrow> rep_whatsapp_detected (researched env t l r) = Some True"
proof -
  obtain r1 g1 m where w: "research_website env l r = (r1, g1, m)" by (cases rule: prod_cases3)
  obtain r2 g2 where i: "whatsapp_on_instagram env l (note_instagram l r1) = (r2, g2)" by fastforce
  obtain r3 g3 where p: "whatsapp_by_phone l r2 = (r3, g3)" by fastforce
  note f = website_fields [OF w] whatsapp_fields(1) [OF i] whatsapp_fields(2) [OF p]
  show "rep_lead_id (researched env t l r) = rep_lead_id r"
    "rep_status (researched env t l r) = R_COMPLETED"
    "rep_website_exists (researched env t l r) = Some (truthy (lead_website_url l))"
    "rep_instagram_exists (researched env t l r) = Some (truthy (lead_instagram_url l))"
    "truthy (lead_phone l) \<Longrightarrow> rep_whatsapp_detected (researched env t l r) = Some True"
    using f by (simp_all add: researched_def w i p instagram_fields)
qed

lemma stamped_report [simp]:
  "rep_status (stamp_report s f r) = rep_status (f r)"
  "rep_website_exists (stamp_report s f r) = rep_website_exists (f r)"
  "rep_instagram_exists (stamp_report s f r) = rep_instagram_exists (f r)"
  "rep_whatsapp_detected (stamp_report s f r) = rep_whatsapp_detected (f r)"
  by (simp_all add: stamp_report_def)

text \<open>
  Research of a stored lead always completes, whatever its site and its profile answer, and is
  done once: the report it returns is the row of the lead, a second research with any other web
  returns the same report and changes nothing.  A new report says of the site and the profile only
  whether the lead has an address for them, not whether they answered, and takes WhatsApp for
  present whenever the lead has a phone.
\<close>

theorem research_done_once:
  assumes "get_lead s k = Some l" "get_lead base k = Some l'"
  shows "\<exists>r s'. run_research env base k s = (Some r, s') \<and> rep_status r = R_COMPLETED
    \<and> report_of s' k = Some r
    \<and> (\<forall>env' base'. run_research env' base' k s' = (Some r, s'))
    \<and> (report_of s k = None \<and> report_of base k = None \<longrightarrow>
         rep_website_exists r = Some (truthy (lead_website_url l))
         \<and> rep_instagram_exists r = Some (truthy (lead_instagram_url l))
         \<and> (truthy (lead_phone l) \<longrightarrow> rep_whatsapp_detected r = Some True))"
proof -
  obtain r s1 where c: "create_or_get_report base k s = (r, s1)" by (cases "create_or_get_report base k s")
  note r = created_report [OF c]
  obtain l1 where l1: "get_lead s1 k = Some l1" using created_report_lead [OF c] assms by auto
  have again: "run_research env' base' k v = (Some x, v)"
    if "get_lead v k = Some l1" "report_of v k = Some x" "rep_status x = R_COMPLETED" for env' base' v x
    using that by (simp add: run_research_def create_or_get_report_def)
  show ?thesis
  proof (cases "rep_status r = R_COMPLETED")
    case True
    moreover have "report_of s k \<noteq> None \<or> report_of base k \<noteq> None"
      using c True by (auto simp: create_or_get_report_def new_report_def split: option.splits)
    ultimately show ?thesis
      using r again [OF l1 r True] assms c by (auto simp: run_research_def)
  next
    case False
    let ?f = "researched env (now s1) l1"
    let ?s2 = "upd_report (rep_id r) ?f s1"
    have r2: "report_of ?s2 k = Some (stamp_report s1 ?f r)"
      by (rule report_of_update [OF _ r]) (simp add: researched_fields)
    have "get_lead ?s2 k = Some l1" using l1 by (simp add: get_lead_def upd_report_def)
    from again [OF this r2] have a: "run_research env' base' k ?s2 = (Some (stamp_report s1 ?f r), ?s2)" for env' base'
      by (simp add: researched_fields)
    have "run_research env base k s = (Some (stamp_report s1 ?f r), ?s2)"
      using assms c False l1 r2 by (simp add: run_research_def Let_def)
    moreover have "l1 = l" if "report_of s k = None" "report_of base k = None"
      using c that assms(1) l1 by (auto simp: create_or_get_report_def get_lead_def tick_uuid_def)
    ultimately show ?thesis
      using r2 a by (intro exI [of _ "stamp_report s1 ?f r"] exI [of _ ?s2]) (simp add: researched_fields)
  qed
qed

theorem research_done_once_witness:
  "\<exists>r s'. run_research (le_research demo_lane_env) demo_pipeline_store 1 demo_pipeline_store = (Some r, s')
     \<and> rep_status r = R_COMPLETED"
  using research_done_once [OF demo_pipeline_lead demo_pipeline_lead, of "le_research demo_lane_env"] by blast

end
