(* ===== verification/Brief_Safety.thy ===== *)
theory Brief_Safety
  imports Research_Workers
begin

text \<open>
  Briefs: their rows stay well formed whatever the model answers and whoever writes them, the
  review is the only way to a draft, and the chain of the three tasks ends in the message for the
  draft when nothing fails.
\<close>

section \<open>Only an approved brief leads to a draft\<close>

lemma review_frames [simp]:
  "briefs (append_if env rid step c s) = briefs s" "dispatched (append_if env rid step c s) = dispatched s"
  "briefs (handle_succeed h res st ps s) = briefs s" "dispatched (handle_succeed h res st ps s) = dispatched s"
  "dispatched (upd_brief k f s) = dispatched s" "briefs (upd_lead k' g s) = briefs s"
  "dispatched (upd_lead k' g s) = dispatched s"
  "dispatched (mark_qualified k' s) = dispatched s" "briefs (mark_qualified k' s) = briefs s"
  by (simp_all add: append_if_def append_step_context_def handle_succeed_def mark_task_succeeded_def
      update_run_if_def update_pipeline_run_def row_access_defs upd_brief_def mark_qualified_def
      emit_lead_event_def tick_uuid_def Let_def split: option.split)

lemma brief_failed_effect:
  assumes "brief_failed kind rq k rid cid err db = (e, db')"
  shows "briefs db' = briefs db \<and> (\<exists>err. e \<in> {Retrying err, Raised err})
    \<and> dispatched db' \<in> {dispatched (mark_task_failed (rq_task_id rq) (take 500 err) (Some (tk_step kind)) rid db),
        dispatched (mark_task_failed (rq_task_id rq) (take 500 err) (Some (tk_step kind)) rid db)
          @ [task_call (tk_celery kind) k rid cid]}"
  using assms by (auto simp: brief_failed_def Let_def rollback_to_def dispatch_def split: if_splits)


lemma mark_failed_dispatched [simp]: "dispatched (mark_task_failed tid err step rid s) = dispatched s"
  by (simp add: mark_task_failed_def update_run_if_def update_pipeline_run_def row_access_defs split: option.split)

lemma tracking_briefs:
  assumes "tracking_only s s'"
  shows "briefs s' = briefs s" "reports s' = reports s" "get_brief_for_lead s' = get_brief_for_lead s"
    "report_of s' = report_of s"
  using assms by (auto simp: tracking_only_def get_brief_for_lead_def report_of_def fun_eq_iff)

lemma brief_of_update:
  assumes "\<And>b. cb_lead_id (f b) = cb_lead_id b" "get_brief_for_lead s k = Some b"
  shows "get_brief_for_lead (upd_brief (cb_id b) f s) k = Some (stamp_brief s f b)"
proof -
  have l: "cb_lead_id (stamp_brief s f x) = cb_lead_id x" for x
    using assms(1) by (simp add: stamp_brief_def)
  have "find (\<lambda>b. cb_lead_id b = k) bs = Some b
    \<Longrightarrow> find (\<lambda>b. cb_lead_id b = k) (tbl_update cb_id (cb_id b) (stamp_brief s f) bs) = Some (stamp_brief s f b)" for bs
    by (induction bs) (auto simp: l split: if_splits)
  with assms(2) show ?thesis by (simp add: get_brief_for_lead_def upd_brief_def)
qed

lemma reviewed_fields [simp]:
  "cb_lead_id (reviewed_brief a m t b) = cb_lead_id b" "cb_id (reviewed_brief a m t b) = cb_id b"
  "cb_status (reviewed_brief a m t b) =
     (if approval_json a = JBool True then BRIEF_REVIEWED else cb_status b)"
  "cb_status (stamp_brief s f b) = cb_status (f b)"
  by (auto simp: reviewed_brief_def approval_json_def stamp_brief_def Let_def split: option.split)

lemma brief_lookup_same:
  "briefs s' = briefs s \<Longrightarrow> get_brief_for_lead s' = get_brief_for_lead s"
  by (simp add: get_brief_for_lead_def fun_eq_iff)

lemma review_bodyE:
  assumes "review_body env k rid h b s = (e, b', s')"
  obtains (skipped) "\<forall>br. get_brief_for_lead s k = Some br \<longrightarrow> cb_status br \<noteq> BRIEF_GENERATED"
      "\<exists>j. e = BReturn j" "briefs s' = briefs s" "dispatched s' = dispatched s"
  | (raised) err where "e = BRaise err" "dispatched s' = dispatched s"
  | (sent) br br' where "\<exists>j. e = BReturn j" "get_brief_for_lead s k = Some br" "cb_status br = BRIEF_GENERATED"
      "get_brief_for_lead s' k = Some br'" "cb_status br' = BRIEF_REVIEWED" "rid \<noteq> None"
      "dispatched s' = dispatched s @ [task_call draft_name k rid None]"
  | (kept) br br' where "\<exists>j. e = BReturn j" "get_brief_for_lead s k = Some br"
      "cb_status br = BRIEF_GENERATED" "get_brief_for_lead s' k = Some br'" "dispatched s' = dispatched s"
      "rid = None \<or> cb_status br' = BRIEF_GENERATED
         \<and> (\<forall>l. get_lead s' k = Some l \<longrightarrow> lead_status l = QUALIFIED)"
proof (cases "\<exists>br. get_brief_for_lead s k = Some br \<and> cb_status br = BRIEF_GENERATED")
  case False
  then show thesis using assms
    by (intro skipped) (auto simp: review_body_def Let_def split: option.splits if_splits)
next
  case True
  then obtain br where br: "get_brief_for_lead s k = Some br" "cb_status br = BRIEF_GENERATED" by blast
  show thesis
  proof (cases "be_review (le_briefs env) br")
    case (Inl err)
    then show thesis using assms br by (intro raised) (auto simp: review_body_def Let_def)
  next
    case (Inr v)
    obtain a m where v: "v = (a, m)" by (cases v)
    let ?s1 = "upd_brief (cb_id br) (reviewed_brief a m (now s)) s"
    let ?br = "stamp_brief s (reviewed_brief a m (now s)) br"
    have b1: "get_brief_for_lead ?s1 k = Some ?br" by (rule brief_of_update) (simp_all add: br)
    define s3 where "s3 = handle_succeed h (Some (JObj [(''status'', JStr ''ok''),
      (''lead_id'', JStr (uuid_str k)), (''approved'', approval_json a)])) None None
      (append_if (le_pipeline env) rid ''brief_review'' (JObj [(''approved'', approval_json a),
         (''verdict_reasoning'', jstr (map_option bv_feedback a))]) ?s1)"
    have f: "briefs s3 = briefs ?s1" "dispatched s3 = dispatched s" by (simp_all add: s3_def)
    have b3: "get_brief_for_lead s3 k = Some ?br" using b1 brief_lookup_same [OF f(1)] by simp
    have b4: "get_brief_for_lead (mark_qualified k s3) k = Some ?br"
      using b3 brief_lookup_same [of "mark_qualified k s3" s3] by simp
    have b5: "get_brief_for_lead (dispatch c s3) k = Some ?br" for c
      using b3 brief_lookup_same [of "dispatch c s3" s3] by (simp add: dispatch_def)
    have eq: "review_body env k rid h b s =
      (let res = JObj [(''status'', JStr ''ok''), (''lead_id'', JStr (uuid_str k)), (''approved'', approval_json a)]
       in if rid = None then (BReturn res, ?s1, s3)
          else if approval_json a = JBool True
          then (case delay (le_pipeline env) (task_call draft_name k rid None) s3 of
              Inl e \<Rightarrow> (BRaise e, ?s1, s3)
            | Inr s4 \<Rightarrow> (BReturn res, ?s1, s4))
          else (let s4 = mark_qualified k s3 in (BReturn res, s4, s4)))"
      unfolding review_body_def s3_def Let_def by (simp add: br Inr v split del: if_split)
    have q: "lead_status l = QUALIFIED" if "get_lead (mark_qualified k s3) k = Some l" for l
      using that by (auto simp: mark_qualified_def get_lead_def upd_lead_def table_simps)
    consider "rid = None" | "rid \<noteq> None" "approval_json a = JBool True"
      | "rid \<noteq> None" "approval_json a \<noteq> JBool True" by blast
    then show thesis
    proof cases
      case 1
      with assms eq br b3 f show thesis by (intro kept [of br ?br]) (auto simp: Let_def)
    next
      case 2
      show thesis
      proof (cases "delay (le_pipeline env) (task_call draft_name k rid None) s3")
        case (Inl x)
        with 2 assms eq f show thesis by (intro raised) (auto simp: Let_def)
      next
        case (Inr s4)
        with 2 assms eq br b5 f show thesis
          by (intro sent [of br ?br]) (auto simp: Let_def delay_def dispatch_def split: if_splits)
      qed
    next
      case 3
      with assms eq br b4 f q show thesis by (intro kept [of br ?br]) (auto simp: Let_def)
    qed
  qed
qed

text \<open>
  C27: The review of a brief is a gate.  However the task ends, it sends at most one message; the
  draft is asked for only when the brief it found generated is stored as reviewed, and only within
  a run.  When it returns for a generated brief within a run and asks for no draft, the brief is
  still only generated, the lead is qualified again whatever it was, and nothing else was sent: a
  reviewer that could not be parsed counts as a refusal, and the run is left open.
\<close>

theorem brief_review_gate:
  assumes t: "task_review_brief env rq k rid cid db = (e, db')"
  shows "\<exists>sent. dispatched db' = dispatched db @ sent
    \<and> sent \<in> {[], [task_call draft_name k rid None], [task_call review_name k rid cid]}
    \<and> (sent = [task_call draft_name k rid None] \<longrightarrow> rid \<noteq> None
        \<and> map_option cb_status (get_brief_for_lead db k) = Some BRIEF_GENERATED
        \<and> map_option cb_status (get_brief_for_lead db' k) = Some BRIEF_REVIEWED)
    \<and> ((\<exists>j. e = Returned j) \<and> sent = [] \<and> rid \<noteq> None
        \<and> map_option cb_status (get_brief_for_lead db k) = Some BRIEF_GENERATED
      \<longrightarrow> map_option cb_status (get_brief_for_lead db' k) = Some BRIEF_GENERATED
        \<and> map_option lead_status (get_lead db' k) \<in> {None, Some QUALIFIED})"
proof -
  have no_draft: "[task_call review_name k rid cid] \<noteq> [task_call draft_name k rid None]"
    by (simp add: task_call_def review_name_def draft_name_def)
  have failed: ?thesis if "(e, db') = brief_failed review_kind rq k rid cid err d"
    "dispatched d = dispatched db" for err d
    using brief_failed_effect [OF that(1) [symmetric]] that(2) no_draft
    by (auto simp: review_kind_def)
  show ?thesis
  proof (cases "mark_task_running db (rq_task_id rq) (kind_meta review_kind rq k rid cid) db")
    case (Inl x)
    with t have "(e, db') = brief_failed review_kind rq k rid cid ''IntegrityError'' db"
      by (simp add: task_review_brief_def run_brief_task_def)
    from failed [OF this refl] show ?thesis .
  next
    case (Inr s)
    let ?h = "\<lparr>sh_task_id = rq_task_id rq, sh_current_step = tk_step review_kind, sh_pipeline_run_id = rid\<rparr>"
    note fr = tracking_briefs [OF tracking_running [OF Inr]] tracking_fields [OF tracking_running [OF Inr]]
    obtain e' b' s' where body: "review_body env k rid ?h db s = (e', b', s')"
      by (cases rule: prod_cases3)
    from t body Inr have ends: "(e, db') = (case e' of BReturn j \<Rightarrow> (Returned j, s')
        | BRaise err \<Rightarrow> brief_failed review_kind rq k rid cid err (rollback_to b' s')
        | BWait \<Rightarrow> (Waiting, rollback_to b' s'))"
      by (simp add: task_review_brief_def run_brief_task_def split: body_end.splits)
    from body show ?thesis
    proof (cases rule: review_bodyE)
      case skipped
      with ends fr show ?thesis by (auto intro!: exI [of _ "[]"])
    next
      case (raised err)
      with ends fr failed [of err "rollback_to b' s'"] show ?thesis by (simp add: rollback_to_def)
    next
      case (sent br br')
      with ends fr show ?thesis
        by (auto intro!: exI [of _ "[task_call draft_name k rid None]"])
    next
      case (kept br br')
      with ends fr show ?thesis by (cases "get_lead db' k") (auto intro!: exI [of _ "[]"])
    qed
  qed
qed

section \<open>Briefs stay well formed\<close>

text \<open>
  A row of \<open>commercial_briefs\<close> is well formed: the score is a percentage, the tier and the priority
  of a finished brief are those of its budget and its score, and a reviewed brief has a date.
\<close>

definition brief_ok :: "commercial_brief \<Rightarrow> bool" where
  "brief_ok b \<longleftrightarrow>
     (case cb_opportunity_score b of None \<Rightarrow> True | Some x \<Rightarrow> 0 \<le> x \<and> x \<le> 100)
     \<and> (cb_status b \<in> {BRIEF_GENERATED, BRIEF_REVIEWED} \<longrightarrow>
          cb_contact_priority b = infer_contact_priority (cb_opportunity_score b)
          \<and> cb_budget_tier b = infer_budget_tier (cb_estimated_budget_max b)
          \<and> cb_demo_recommended b \<noteq> None)
     \<and> (cb_status b = BRIEF_REVIEWED \<longrightarrow> cb_reviewed_at b \<noteq> None)"

text \<open>
  The table: one brief for a lead, primary keys below the supply of ids, every row well formed.
  A session starts from a committed state that is as good.
\<close>

definition briefs_ok :: "store \<Rightarrow> bool" where
  "briefs_ok s \<longleftrightarrow> distinct (map cb_lead_id (briefs s)) \<and> distinct (map cb_id (briefs s))
     \<and> (\<forall>b \<in> set (briefs s). brief_ok b \<and> cb_id b < next_uuid s)"

definition session_ok :: "store \<Rightarrow> store \<Rightarrow> bool" where
  "session_ok base s \<longleftrightarrow> briefs_ok base \<and> briefs_ok s \<and> next_uuid base \<le> next_uuid s
     \<and> (\<forall>x \<in> set (briefs s). \<forall>y \<in> set (briefs base). cb_id x = cb_id y \<longrightarrow> cb_lead_id x = cb_lead_id y)"

lemma same_id_same_brief:
  "briefs_ok s \<Longrightarrow> x \<in> set (briefs s) \<Longrightarrow> y \<in> set (briefs s) \<Longrightarrow> cb_id x = cb_id y \<Longrightarrow> x = y"
  by (auto simp: briefs_ok_def distinct_map dest: inj_onD)

lemma session_ok_same:
  assumes "session_ok base s" "briefs s' = briefs s" "next_uuid s \<le> next_uuid s'"
  shows "session_ok base s'"
  using assms by (fastforce simp: session_ok_def briefs_ok_def)

lemma session_ok_rollback:
  assumes "session_ok base s"
  shows "session_ok base (rollback_to base s)"
proof -
  from assms have base: "briefs_ok base" and le: "next_uuid base \<le> next_uuid s"
    by (simp_all add: session_ok_def)
  have "briefs_ok (rollback_to base s)"
    using base le by (auto simp: briefs_ok_def rollback_to_def intro: less_le_trans)
  with base le same_id_same_brief [OF base] show ?thesis
    unfolding session_ok_def by (auto simp: rollback_to_def)
qed

lemma clamp_percent: "0 \<le> clamp 0 100 x \<and> clamp 0 100 x \<le> 100"
  by (simp add: clamp_def)

lemma brief_ok_frames [simp]:
  "brief_ok (b\<lparr>cb_updated_at := t\<rparr>) = brief_ok b"
  "brief_ok (b\<lparr>cb_research_report_id := r\<rparr>) = brief_ok b"
  by (simp_all add: brief_ok_def)

lemma brief_ok_made:
  "brief_ok b \<Longrightarrow> brief_ok (failed_brief err b)" "brief_ok (failed_brief err ((scored_brief a b)\<lparr>
     cb_estimated_budget_min := lo, cb_estimated_budget_max := hi\<rparr>))"
  "brief_ok (answered_brief a m fb t (scored_brief a b))"
  "brief_ok (answered_brief a m fb t ((scored_brief a b)\<lparr>cb_estimated_budget_min := lo,
     cb_estimated_budget_max := hi\<rparr>))"
  using clamp_percent
  by (auto simp: brief_ok_def failed_brief_def scored_brief_def answered_brief_def Let_def split: option.split)

lemma brief_ok_reviewed:
  "brief_ok b \<Longrightarrow> cb_status b = BRIEF_GENERATED \<Longrightarrow> brief_ok (reviewed_brief a m t b)"
  by (auto simp: brief_ok_def reviewed_brief_def Let_def split: option.split)

lemma brief_lead_made [simp]:
  "cb_lead_id (failed_brief err b) = cb_lead_id b" "cb_lead_id (scored_brief a b) = cb_lead_id b"
  "cb_lead_id (answered_brief a m fb t b) = cb_lead_id b"
  "cb_id (failed_brief err b) = cb_id b" "cb_id (scored_brief a b) = cb_id b"
  "cb_id (answered_brief a m fb t b) = cb_id b"
  by (simp_all add: failed_brief_def scored_brief_def answered_brief_def Let_def)

lemma session_ok_upd:
  assumes ok: "session_ok base s"
    and ids: "\<And>b. cb_lead_id (f b) = cb_lead_id b" "\<And>b. cb_id (f b) = cb_id b"
    and keeps: "\<And>b. b \<in> set (briefs s) \<Longrightarrow> cb_id b = k \<Longrightarrow> brief_ok b \<Longrightarrow> brief_ok (f b)"
  shows "session_ok base (upd_brief k f s)"
proof -
  let ?g = "\<lambda>b. if cb_id b = k then stamp_brief s f b else b"
  have st: "cb_lead_id (?g b) = cb_lead_id b" "cb_id (?g b) = cb_id b" for b
    using ids by (auto simp: stamp_brief_def)
  have good: "brief_ok (?g b)" if "b \<in> set (briefs s)" "brief_ok b" for b
    using keeps that by (simp add: stamp_brief_def)
  have b: "briefs (upd_brief k f s) = map ?g (briefs s)" by (simp add: upd_brief_def tbl_update_def)
  have "map cb_lead_id (map ?g (briefs s)) = map cb_lead_id (briefs s)"
    "map cb_id (map ?g (briefs s)) = map cb_id (briefs s)"
    by (simp_all only: map_map comp_def st)
  then have "briefs_ok (upd_brief k f s)"
    using ok good unfolding session_ok_def briefs_ok_def b
    by (simp only: set_map ball_simps st) (simp add: upd_brief_def)
  moreover have "cb_lead_id x = cb_lead_id y"
    if x: "x \<in> set (briefs (upd_brief k f s))" and y: "y \<in> set (briefs base)" "cb_id x = cb_id y" for x y
  proof -
    from x have "x \<in> ?g ` set (briefs s)" by (simp only: b set_map)
    then obtain x0 where x0: "x0 \<in> set (briefs s)" "x = ?g x0" by (rule imageE)
    have "cb_id x0 = cb_id y" using y(2) by (simp only: x0(2) st)
    with ok x0(1) y(1) have "cb_lead_id x0 = cb_lead_id y" by (simp add: session_ok_def)
    then show ?thesis by (simp only: x0(2) st)
  qed
  moreover have "next_uuid (upd_brief k f s) = next_uuid s" by (simp add: upd_brief_def)
  ultimately show ?thesis using ok unfolding session_ok_def by simp
qed

lemma dispatch_next [simp]: "next_uuid (maybe_dispatch ch g k s) = next_uuid s"
  by (simp add: maybe_dispatch_def Let_def split_beta get_or_create_frame [of s] upd_notif_def
      split: option.split)

lemma emit_next: "next_uuid s \<le> next_uuid (emit b a s)"
  by (simp add: emit_def get_cached_settings_def create_notification_def Let_def split_beta
      rollback_to_def tick_uuid_def get_or_create_frame [of s] add_notif_def)

lemma session_ok_emit:
  assumes "session_ok base s"
  shows "session_ok base (emit base a s)"
proof (cases "lost_race base a s")
  case True
  then have "emit base a s \<in> {rollback_to base (snd (get_or_create s)), snd (get_or_create s)}"
    by (simp add: emit_def get_cached_settings_def create_notification_def split_beta Let_def
        lost_race_def has_dedup_key_def rate_limited_def recent_count_def)
  moreover have "session_ok base (snd (get_or_create s))"
    using assms by (rule session_ok_same) (simp_all add: get_or_create_frame [of s])
  ultimately show ?thesis by (elim insertE emptyE) (simp_all add: session_ok_rollback)
next
  case False
  have "briefs (emit base a s) = briefs s"
    using emit_notif_frame [OF False] by (auto simp: notif_frame_def)
  then show ?thesis by (rule session_ok_same [OF assms _ emit_next])
qed

lemma created_brief:
  assumes "session_ok base s" "create_or_get_brief base k s = (b, s')"
  shows "session_ok base s'" "get_brief_for_lead s' k = Some b"
proof -
  have new: "session_ok base ((tick_uuid s)\<lparr>briefs := briefs s @ [new_brief k s]\<rparr>)"
    (is "session_ok base ?s") if "get_brief_for_lead s k = None"
  proof -
    have base: "briefs_ok base" and le: "next_uuid base \<le> next_uuid s" and ok: "briefs_ok s"
      using assms(1) by (simp_all add: session_ok_def)
    have n: "cb_id (new_brief k s) = next_uuid s" "cb_lead_id (new_brief k s) = k" "brief_ok (new_brief k s)"
      by (simp_all add: new_brief_def brief_ok_def)
    have "briefs_ok ?s"
      using ok that n by (fastforce simp: briefs_ok_def tick_uuid_def get_brief_for_lead_def find_None_iff)
    moreover have "cb_id y < next_uuid s" if "y \<in> set (briefs base)" for y
      using base le that by (force simp: briefs_ok_def)
    ultimately show ?thesis
      using assms(1) le n unfolding session_ok_def by (force simp: tick_uuid_def)
  qed
  show "session_ok base s'"
    using assms(2) new assms(1) session_ok_rollback [OF assms(1)]
    by (auto simp: create_or_get_brief_def split: option.splits)
  show "get_brief_for_lead s' k = Some b"
  proof (cases "get_brief_for_lead s k")
    case None
    then have "find (\<lambda>b. cb_lead_id b = k) (briefs s @ [new_brief k s]) = Some (new_brief k s)"
      by (simp add: get_brief_for_lead_def find_append) (simp add: new_brief_def)
    with None assms(2) show ?thesis
      by (auto simp: create_or_get_brief_def get_brief_for_lead_def rollback_to_def tick_uuid_def
          split: option.splits)
  next
    case (Some x)
    with assms(2) show ?thesis by (auto simp: create_or_get_brief_def)
  qed
qed

lemma pricing_frame:
  "get_pricing_matrix env s = (j, s') \<Longrightarrow> briefs s' = briefs s \<and> next_uuid s' = next_uuid s"
  by (auto simp: get_pricing_matrix_def Let_def split_beta get_or_create_frame [of s])

lemma emit_rows: "briefs (emit base a s) = briefs s \<or> briefs (emit base a s) = briefs base"
proof (cases "lost_race base a s")
  case True
  then show ?thesis
    by (simp add: emit_def get_cached_settings_def create_notification_def split_beta Let_def
        lost_race_def has_dedup_key_def rate_limited_def recent_count_def rollback_to_def
        get_or_create_frame [of s])
next
  case False
  then show ?thesis using emit_notif_frame [OF False] by (auto simp: notif_frame_def)
qed

text \<open>A brief that is returned is a row of the session, or an object without a row.\<close>

lemma emitted_brief:
  assumes ok: "session_ok base s" and b: "get_brief_for_lead s k = Some b"
  shows "get_brief_for_lead (emit base a s) k \<noteq> None \<or> cb_id b \<notin> cb_id ` set (briefs (emit base a s))"
proof (cases "briefs (emit base a s) = briefs s")
  case True
  with b show ?thesis by (simp add: get_brief_for_lead_def)
next
  case False
  then have base: "briefs (emit base a s) = briefs base" using emit_rows by blast
  have b': "b \<in> set (briefs s)" "cb_lead_id b = k"
    using b by (auto simp: get_brief_for_lead_def find_Some_iff)
  have "get_brief_for_lead (emit base a s) k \<noteq> None" if "y \<in> set (briefs base)" "cb_id b = cb_id y" for y
  proof -
    from ok b' that have "cb_lead_id y = k" by (force simp: session_ok_def)
    with that(1) show ?thesis by (auto simp: get_brief_for_lead_def base find_None_iff)
  qed
  then show ?thesis by (auto simp: base)
qed

text \<open>How a generation ends: without a lead, with a row as it is stored, or with the alert sent.\<close>

lemma generate_briefE:
  assumes ok: "session_ok base s" and g: "generate_brief env base k s = Inr (br, s')"
  obtains (gone) "br = None" "s' = s"
  | (stored) "session_ok base s'" "br = get_brief_for_lead s' k"
  | (emitted) s4 b a where "session_ok base s4" "get_brief_for_lead s4 k = Some b" "s' = emit base a s4"
      "br = Some (case get_brief_for_lead s' k of Some c \<Rightarrow> c | None \<Rightarrow> b)"
proof (cases "get_lead s k")
  case None
  with g show thesis by (intro gone) (simp_all add: generate_brief_def)
next
  case (Some l)
  obtain b s1 where c: "create_or_get_brief base k s = (b, s1)" by (cases "create_or_get_brief base k s")
  let ?s2 = "case report_of s1 k of None \<Rightarrow> s1
    | Some r \<Rightarrow> upd_brief (cb_id b) (\<lambda>b. b\<lparr>cb_research_report_id := Some (rep_id r)\<rparr>) s1"
  obtain pricing s3 where p: "get_pricing_matrix env ?s2 = (pricing, s3)" by (cases "get_pricing_matrix env ?s2")
  have "session_ok base ?s2"
    using created_brief(1) [OF ok c] by (auto intro: session_ok_upd split: option.split)
  then have s3: "session_ok base s3"
    by (rule session_ok_same) (use pricing_frame [OF p] in simp_all)
  have answered: "session_ok base (upd_brief (cb_id b) (\<lambda>b. answered_brief a m fb t (pr (scored_brief a b))) s3)"
    if "pr = (\<lambda>b. b) \<or> (\<exists>lo hi. pr = (\<lambda>b. b\<lparr>cb_estimated_budget_min := lo, cb_estimated_budget_max := hi\<rparr>))"
    for a m fb t pr
    by (rule session_ok_upd [OF s3]) (use that in \<open>auto intro: brief_ok_made\<close>)
  have failed: "session_ok base (upd_brief (cb_id b) (failed_brief err \<circ> f) s3)"
    if "f = id \<or> (\<exists>a lo hi. f = (\<lambda>b. (scored_brief a b)\<lparr>cb_estimated_budget_min := lo b,
      cb_estimated_budget_max := hi b\<rparr>))" for err f
    by (rule session_ok_upd [OF s3]) (use that in \<open>auto intro: brief_ok_made\<close>)
  show thesis
  proof (cases "be_generate env l (map (\<lambda>g. signal_value (sig_signal_type g)) (signals_of s3 k))
      (research_data (report_of s1 k)) pricing")
    case (Inl err)
    with g Some c p failed [of id err] show thesis
      by (intro stored) (auto simp: generate_brief_def Let_def)
  next
    case (Inr v)
    obtain a m fb where v: "v = (a, m, fb)" by (cases v)
    let ?s4 = "\<lambda>pr. upd_brief (cb_id b) (\<lambda>b. answered_brief a m fb (now s3) (pr (scored_brief a b))) s3"
    have alerted: thesis
      if "(case get_brief_for_lead s4 k of None \<Rightarrow> Inr (None, s4)
        | Some b' \<Rightarrow> let s5 = on_brief_generated base k (Some (lead_business_name l))
              (cb_opportunity_score b') (map_option call_decision_value (cb_should_call b')) s4
            in Inr (Some (case get_brief_for_lead s5 k of Some b'' \<Rightarrow> b'' | None \<Rightarrow> b'), s5)) = Inr (br, s')"
        "session_ok base s4" for s4
    proof (cases "get_brief_for_lead s4 k")
      case None
      with that show thesis by (intro stored) simp_all
    next
      case (Some b')
      with that show thesis by (intro emitted [OF that(2) Some]) (auto simp: Let_def on_brief_generated_def)
    qed
    show thesis
    proof (cases "budget_of env pricing (cb_estimated_scope (scored_brief a b))")
      case (Budgeted lo hi)
      have "session_ok base (?s4 (\<lambda>b. b\<lparr>cb_estimated_budget_min := lo, cb_estimated_budget_max := hi\<rparr>))"
        by (rule answered) blast
      then show thesis using g Some c p Inr v Budgeted
        by (intro alerted [rotated]) (auto simp: generate_brief_def Let_def)
    next
      case Unpriced
      have "session_ok base (?s4 (\<lambda>b. b))" by (rule answered) blast
      then show thesis using g Some c p Inr v Unpriced
        by (intro alerted [rotated]) (auto simp: generate_brief_def Let_def)
    next
      case (Budget_raised err lo hi)
      have "session_ok base (upd_brief (cb_id b) (failed_brief err \<circ> (\<lambda>b. (scored_brief a b)\<lparr>
          cb_estimated_budget_min := set_if lo (cb_estimated_budget_min b),
          cb_estimated_budget_max := set_if hi (cb_estimated_budget_max b)\<rparr>)) s3)"
        by (rule failed) (intro disjI2 exI, rule refl)
      then show thesis using g Some c p Inr v Budget_raised
        by (intro stored) (auto simp: generate_brief_def Let_def)
    next
      case Budget_refused
      with g Some c p Inr v show thesis by (simp add: generate_brief_def Let_def)
    qed
  qed
qed

lemma generated_session_ok:
  assumes ok: "session_ok base s" and g: "generate_brief env base k s = Inr (br, s')"
  shows "session_ok base s'"
  using ok g by (cases rule: generate_briefE [OF ok g]) (simp_all add: session_ok_emit)

lemma generated_brief:
  assumes ok: "session_ok base s" and g: "generate_brief env base k s = Inr (Some x, s')"
  shows "get_brief_for_lead s' k = Some x \<or> cb_id x \<notin> cb_id ` set (briefs s')"
  using g
proof (cases rule: generate_briefE [OF ok g])
  case (3 s4 b a)
  then show ?thesis
    using emitted_brief [OF 3(1,2), of a] by (cases "get_brief_for_lead s' k") simp_all
qed simp_all

lemma reviewed_session_ok:
  assumes ok: "session_ok base s" and br: "get_brief_for_lead s k = Some br" "cb_status br = BRIEF_GENERATED"
  shows "session_ok base (upd_brief (cb_id br) (reviewed_brief a m t) s)"
proof (rule session_ok_upd [OF ok])
  fix b assume b: "b \<in> set (briefs s)" "cb_id b = cb_id br" "brief_ok b"
  have "br \<in> set (briefs s)" using br(1) by (auto simp: get_brief_for_lead_def find_Some_iff)
  then have "b = br" using b ok same_id_same_brief [of s b br] by (simp add: session_ok_def)
  with b br show "brief_ok (reviewed_brief a m t b)" by (simp add: brief_ok_reviewed)
qed simp_all

lemma next_frames [simp]:
  "next_uuid (append_if env rid step c s) = next_uuid s" "next_uuid (mark_qualified k s) = next_uuid s"
  "next_uuid (dispatch cl s) = next_uuid s" "briefs (dispatch cl s) = briefs s"
  "next_uuid (update_run_if r u s) = next_uuid s" "briefs (update_run_if r u s) = briefs s"
  "next_uuid (upd_task t f s) = next_uuid s" "briefs (upd_task t f s) = briefs s"
  by (simp_all add: append_if_def append_step_context_def mark_qualified_def row_access_defs
      dispatch_def update_run_if_def update_pipeline_run_def Let_def split: option.split)

lemma marks_next:
  "next_uuid s \<le> next_uuid (handle_succeed h res st ps s)" "next_uuid s \<le> next_uuid (handle_fail h e st s)"
  "briefs (handle_fail h e st s) = briefs s" "briefs (mark_task_failed tid e step rid s) = briefs s"
  "next_uuid (mark_task_failed tid e step rid s) = next_uuid s"
  by (simp_all add: handle_succeed_def mark_task_succeeded_def handle_fail_def mark_task_failed_def
      emit_lead_event_def tick_uuid_def Let_def split: option.split)

lemma delay_quietly_frame [simp]:
  "briefs (delay_quietly env n k rid cid s) = briefs s"
  "next_uuid (delay_quietly env n k rid cid s) = next_uuid s"
  by (auto simp: delay_quietly_def delay_def split: sum.split)

lemma running_session_ok:
  assumes "mark_task_running db tid m db = Inr s" "briefs_ok db"
  shows "session_ok db s"
proof -
  have "next_uuid s = next_uuid db" "briefs s = briefs db"
    using assms(1) by (auto simp: mark_task_running_def queue_task_run_def requeue_after_rollback_def
        rollback_to_def add_task_def Let_def split: sum.splits option.splits if_splits)
  with assms(2) show ?thesis
    by (auto simp: session_ok_def dest: same_id_same_brief) (simp_all add: briefs_ok_def)
qed

text \<open>The two bodies: what they commit early and what they leave in the session.\<close>

lemma handled_session_ok: "session_ok base s \<Longrightarrow> session_ok base (handle_succeed h res st ps s)"
  "session_ok base s \<Longrightarrow> session_ok base (handle_fail h e st s)"
  by (erule session_ok_same; simp add: marks_next)+

lemma session_ok_frames:
  "session_ok base s \<Longrightarrow> session_ok base (append_if env rid step c s)"
  "session_ok base s \<Longrightarrow> session_ok base (delay_quietly lenv n k rid' cid s)"
  "session_ok base s \<Longrightarrow> session_ok base (mark_qualified k' s)"
  "session_ok base s \<Longrightarrow> session_ok base (dispatch call s)"
  by (erule session_ok_same; simp)+

lemma brief_body_ok:
  assumes "session_ok b s" "brief_body env k rid h b s = (e, b', s')"
  shows "session_ok b' s'"
  using assms generated_session_ok [OF assms(1)]
  by (auto simp: brief_body_def brief_generation_def Let_def
      intro!: handled_session_ok session_ok_frames split: option.splits sum.splits if_splits)

lemma session_ok_refl: "session_ok b s \<Longrightarrow> session_ok s s"
  by (auto simp: session_ok_def dest: same_id_same_brief)

lemma review_body_ok:
  assumes ok: "session_ok b s" and r: "review_body env k rid h b s = (e, b', s')"
  shows "session_ok b' s'"
proof -
  have rev: "session_ok (upd_brief (cb_id br) (reviewed_brief a m t) s) (upd_brief (cb_id br) (reviewed_brief a m t) s)"
    if "get_brief_for_lead s k = Some br" "cb_status br = BRIEF_GENERATED" for br a m t
    by (rule session_ok_refl [OF reviewed_session_ok [OF ok that]])
  have qual: "session_ok (mark_qualified k v) (mark_qualified k v)" if "session_ok c v" for c v
    using session_ok_frames(3) [OF that] by (rule session_ok_refl)
  from r ok show ?thesis
    by (auto simp: review_body_def Let_def delay_def
        intro!: handled_session_ok session_ok_frames qual rev split: option.splits sum.splits if_splits)
qed

lemma run_brief_ok:
  assumes "briefs_ok db" "\<And>h s e b s'. body h db s = (e, b, s') \<Longrightarrow> session_ok db s \<Longrightarrow> session_ok b s'"
  shows "briefs_ok (snd (run_brief_task kind rq k rid cid body db))"
proof -
  have failed: "briefs_ok (snd (brief_failed kind rq k rid cid err d))" if "briefs_ok d" for err d
    using that by (simp add: brief_failed_def Let_def briefs_ok_def rollback_to_def marks_next)
  have rolled: "briefs_ok (rollback_to b s')" if "session_ok b s'" for b s'
    using session_ok_rollback [OF that] by (simp add: session_ok_def)
  show ?thesis
  proof (cases "mark_task_running db (rq_task_id rq) (kind_meta kind rq k rid cid) db")
    case (Inl x)
    with failed [OF assms(1)] show ?thesis by (simp add: run_brief_task_def)
  next
    case (Inr s)
    let ?h = "\<lparr>sh_task_id = rq_task_id rq, sh_current_step = tk_step kind, sh_pipeline_run_id = rid\<rparr>"
    obtain e b s' where body: "body ?h db s = (e, b, s')" by (cases rule: prod_cases3)
    have ok: "session_ok b s'" by (rule assms(2) [OF body running_session_ok [OF Inr assms(1)]])
    then have "briefs_ok s'" by (simp add: session_ok_def)
    with failed [OF rolled [OF ok]] rolled [OF ok] show ?thesis
      by (simp add: run_brief_task_def Inr body split: body_end.split)
  qed
qed

text \<open>What can happen to the committed briefs: the tasks, the lane of the batch, and whatever leaves them alone.\<close>

inductive brief_step :: "store \<Rightarrow> store \<Rightarrow> bool" where
  bs_generate: "brief_step db (snd (task_generate_brief env rq k rid cid db))"
| bs_review: "brief_step db (snd (task_review_brief env rq k rid cid db))"
| bs_lane: "run_high_value_lane_inline web env k db db = (res, Some (b, s)) \<Longrightarrow> db' \<in> {b, s}
    \<Longrightarrow> brief_step db db'"
| bs_other: "briefs db' = briefs db \<Longrightarrow> next_uuid db \<le> next_uuid db' \<Longrightarrow> brief_step db db'"

lemma research_session_ok:
  assumes "session_ok base s" "run_research env base k s = (r, s')"
  shows "session_ok base s'"
proof -
  have c: "session_ok base (snd (create_or_get_report base k s))"
  proof (cases "report_of s k = None \<and> report_of base k = None")
    case True
    then show ?thesis
      by (auto simp: create_or_get_report_def tick_uuid_def intro: session_ok_same [OF assms(1)])
  next
    case False
    with assms(1) session_ok_rollback [OF assms(1)] show ?thesis
      by (auto simp: create_or_get_report_def split: option.split)
  qed
  have u: "session_ok base (upd_report i f v) = session_ok base v" for i f v
    by (simp add: session_ok_def briefs_ok_def upd_report_def)
  show ?thesis
    using assms c
    by (auto simp: run_research_def Let_def u split_beta split: option.splits if_splits)
qed

lemma no_row_upd: "k \<notin> cb_id ` set (briefs s) \<Longrightarrow> upd_brief k f s = s"
  by (auto simp: upd_brief_def tbl_update_def intro!: store.equality map_idI)

lemma lane_session_ok:
  assumes ok: "session_ok base s"
    and r: "run_high_value_lane_inline web env k base s = (res, Some (b, s'))"
  shows "session_ok b s'"
proof -
  obtain rep s1 where s1: "run_research web base k s = (rep, s1)" by (cases "run_research web base k s")
  note ok1 = research_session_ok [OF ok s1]
  show ?thesis
  proof (cases "generate_brief env base k s1")
    case (Inl x)
    with r s1 show ?thesis by (simp add: run_high_value_lane_inline_def Let_def)
  next
    case (Inr v)
    obtain br s2 where v: "v = (br, s2)" by (cases v)
    note ok2 = generated_session_ok [OF ok1 Inr [unfolded v]]
    have "session_ok (upd_brief (cb_id x) (reviewed_brief a m t) s2) (upd_brief (cb_id x) (reviewed_brief a m t) s2)"
      if "br = Some x" "cb_status x = BRIEF_GENERATED" for x a m t
      by (rule session_ok_refl [of base])
        (use generated_brief [OF ok1 Inr [unfolded v that(1)]] reviewed_session_ok [OF ok2 _ that(2)] ok2
          in \<open>auto simp: no_row_upd\<close>)
    with r s1 Inr v ok2 show ?thesis
      by (auto simp: run_high_value_lane_inline_def Let_def intro: session_ok_refl
          split: option.splits sum.splits if_splits)
  qed
qed

lemma briefs_ok_session: "briefs_ok db \<Longrightarrow> session_ok db db"
  by (auto simp: session_ok_def dest: same_id_same_brief)

lemma brief_step_ok: "brief_step db db' \<Longrightarrow> briefs_ok db \<Longrightarrow> briefs_ok db'"
proof (induction rule: brief_step.induct)
  case (bs_generate db env rq k rid cid)
  then show ?case unfolding task_generate_brief_def by (rule run_brief_ok) (rule brief_body_ok)
next
  case (bs_review db env rq k rid cid)
  then show ?case unfolding task_review_brief_def by (rule run_brief_ok) (rule review_body_ok)
next
  case (bs_lane web env k db res b s db')
  from lane_session_ok [OF briefs_ok_session [OF bs_lane(3)] bs_lane(1)] bs_lane(2)
  show ?case by (auto simp: session_ok_def)
next
  case (bs_other db' db)
  then show ?case by (fastforce simp: briefs_ok_def)
qed

text \<open>
  C28: The rows of the table of briefs are well formed in every state that generations, reviews and
  the lane of the batch can commit, whatever the models answer, whatever pricing matrix is stored
  and however often a brief is made again: one brief for a lead, a score that is a percentage, and
  for every brief that is generated or reviewed the contact priority of that score, the tier of
  that budget, and a date when it was reviewed.
\<close>

theorem briefs_well_formed:
  assumes "brief_step\<^sup>*\<^sup>* db db'" "briefs_ok db"
  shows "distinct (map cb_lead_id (briefs db'))
    \<and> (\<forall>b \<in> set (briefs db').
         (case cb_opportunity_score b of None \<Rightarrow> True | Some x \<Rightarrow> 0 \<le> x \<and> x \<le> 100)
         \<and> (cb_status b \<in> {BRIEF_GENERATED, BRIEF_REVIEWED} \<longrightarrow>
              cb_contact_priority b = infer_contact_priority (cb_opportunity_score b)
              \<and> cb_budget_tier b = infer_budget_tier (cb_estimated_budget_max b)
              \<and> cb_demo_recommended b \<noteq> None)
         \<and> (cb_status b = BRIEF_REVIEWED \<longrightarrow> cb_reviewed_at b \<noteq> None))"
proof -
  have "briefs_ok db'" using assms by (induction rule: rtranclp_induct) (auto intro: brief_step_ok)
  then show ?thesis by (simp add: briefs_ok_def brief_ok_def)
qed

definition demo_brief_lane :: lane_env where
  "demo_brief_lane = \<lparr>le_pipeline = demo_pipeline_env,
     le_research = \<lparr>rw_get = (\<lambda>u. Inr (200, ''wa.me'')), rw_instagram = (\<lambda>u. Inl ''down''),
       rw_parse = (\<lambda>t. \<lparr>hm_title = Some ''Bar'', hm_description = None, hm_og_tags = []\<rparr>),
       rw_duration_ms = 5\<rparr>,
     le_briefs = \<lparr>be_loads = (\<lambda>t. None), be_type_error = (\<lambda>j. ''type''), be_text_number = (\<lambda>t. None),
       be_generate = (\<lambda>l g d p. Inr (Some \<lparr>ba_opportunity_score = 190, ba_estimated_scope = ''landing'',
         ba_recommended_contact_method = ''whatsapp'', ba_should_call = ''yes'', ba_call_reason = ''r'',
         ba_why_this_lead_matters = ''w'', ba_main_business_signals = [], ba_main_digital_gaps = [],
         ba_recommended_angle = ''a'', ba_demo_recommended = True\<rparr>, Some ''m'', False)),
       be_review = (\<lambda>b. Inr (Some \<lparr>bv_approved = True, bv_feedback = ''ok''\<rparr>, Some ''m''))\<rparr>,
     le_scout = (\<lambda>l g c. Inl ''off''), le_executor_model = Some ''m'',
     le_dossier = (\<lambda>l q. Inr ''a bar''), le_listing = (\<lambda>ts. ts)\<rparr>"

theorem briefs_well_formed_witness:
  "distinct (map cb_lead_id (briefs (snd (task_generate_brief demo_brief_lane demo_request 1 (Some 0) None
     demo_pipeline_store))))"
proof -
  have "briefs_ok demo_pipeline_store"
    by (simp add: briefs_ok_def demo_pipeline_store_def create_pipeline_run_def add_run_def add_lead_def
        empty_store_def tick_uuid_def Let_def)
  from briefs_well_formed [OF r_into_rtranclp [of brief_step, OF bs_generate] this] show ?thesis by blast
qed

definition demo_briefed :: store where
  "demo_briefed = snd (task_generate_brief demo_brief_lane demo_request 1 (Some 0) None demo_pipeline_store)"

theorem brief_review_gate_witness:
  "\<exists>sent. dispatched (snd (task_review_brief demo_brief_lane demo_request 1 (Some 0) None demo_briefed))
    = dispatched demo_briefed @ sent
    \<and> sent \<in> {[], [task_call draft_name 1 (Some 0) None], [task_call review_name 1 (Some 0) None]}"
  using brief_review_gate [OF surjective_pairing, of demo_brief_lane demo_request 1 "Some 0" None demo_briefed]
  by blast

end
