(* ===== verification/Batch_Review.thy ===== *)
theory Batch_Review
  imports Territories Calendar
begin

text \<open>
  The periodic review of the whole system's work
  (\<open>app/services/pipeline/batch_review_service.py\<close>), its tasks
  (\<open>app/workers/batch_review_tasks.py\<close>) and its endpoints (\<open>app/api/v1/batch_reviews.py\<close>): when
  enough has happened, metrics are collected, one model writes a synthesis with proposals, another
  validates it, and an operator approves, rejects and applies the proposals.
\<close>

section \<open>Rows\<close>

definition get_batch_review :: "store \<Rightarrow> uuid \<Rightarrow> batch_review option" where
  "get_batch_review s k = tbl_get br_id (batch_reviews s) k"

definition stamp_batch_review :: "store \<Rightarrow> (batch_review \<Rightarrow> batch_review) \<Rightarrow> batch_review \<Rightarrow> batch_review" where
  "stamp_batch_review s f r = (if f r = r then r else (f r)\<lparr>br_updated_at := now s\<rparr>)"

definition upd_batch_review :: "uuid \<Rightarrow> (batch_review \<Rightarrow> batch_review) \<Rightarrow> store \<Rightarrow> store" where
  "upd_batch_review k f s = s\<lparr>batch_reviews := tbl_update br_id k (stamp_batch_review s f) (batch_reviews s)\<rparr>"

definition get_proposal :: "store \<Rightarrow> uuid \<Rightarrow> improvement_proposal option" where
  "get_proposal s k = tbl_get prop_id (proposals s) k"

definition upd_proposal :: "uuid \<Rightarrow> (improvement_proposal \<Rightarrow> improvement_proposal) \<Rightarrow> store \<Rightarrow> store" where
  "upd_proposal k f s = s\<lparr>proposals := tbl_update prop_id k f (proposals s)\<rparr>"

definition proposals_of :: "store \<Rightarrow> uuid \<Rightarrow> improvement_proposal list" where
  "proposals_of s k = filter (\<lambda>p. prop_batch_review_id p = k) (proposals s)"

section \<open>Reading\<close>

definition iso_opt :: "datetime option \<Rightarrow> json" where
  "iso_opt t = (case t of None \<Rightarrow> JNull | Some x \<Rightarrow> JStr (isoformat x))"

definition batch_review_summary :: "store \<Rightarrow> batch_review \<Rightarrow> json" where
  "batch_review_summary s r = (let ps = proposals_of s (br_id r) in
     JObj [(''id'', JStr (uuid_str (br_id r))), (''trigger_reason'', JStr (br_trigger_reason r)),
       (''batch_size'', JInt (br_batch_size r)), (''status'', JStr (br_status r)),
       (''reviewer_verdict'', jstr (br_reviewer_verdict r)),
       (''strategy_brief'', jstr (br_strategy_brief r)),
       (''proposals_count'', JInt (int (length ps))),
       (''proposals_pending'', JInt (int (length (filter (\<lambda>p. prop_status p = ''pending'') ps)))),
       (''created_at'', JStr (isoformat (br_created_at r)))])"

definition list_batch_reviews :: "store \<Rightarrow> nat \<Rightarrow> json list" where
  "list_batch_reviews s n = map (batch_review_summary s)
     (take (min n 50) (sort_key (\<lambda>r. - br_created_at r) (batch_reviews s)))"

definition proposal_json :: "improvement_proposal \<Rightarrow> json" where
  "proposal_json p = JObj [(''id'', JStr (uuid_str (prop_id p))), (''category'', JStr (prop_category p)),
     (''description'', JStr (prop_description p)), (''impact'', JStr (prop_impact p)),
     (''confidence'', JStr (prop_confidence p)), (''evidence_summary'', jstr (prop_evidence_summary p)),
     (''status'', JStr (prop_status p)), (''approved_by'', jstr (prop_approved_by p)),
     (''applied_at'', iso_opt (prop_applied_at p))]"

definition get_batch_review_detail :: "store \<Rightarrow> uuid \<Rightarrow> json option" where
  "get_batch_review_detail s k = map_option (\<lambda>r.
     JObj [(''id'', JStr (uuid_str (br_id r))), (''trigger_reason'', JStr (br_trigger_reason r)),
       (''batch_size'', JInt (br_batch_size r)), (''period_start'', iso_opt (br_period_start r)),
       (''period_end'', iso_opt (br_period_end r)), (''status'', JStr (br_status r)),
       (''executor_draft'', jstr (br_executor_draft r)),
       (''reviewer_verdict'', jstr (br_reviewer_verdict r)),
       (''reviewer_notes'', jstr (br_reviewer_notes r)),
       (''strategy_brief'', jstr (br_strategy_brief r)),
       (''metrics_json'', json_opt (br_metrics_json r)),
       (''created_at'', JStr (isoformat (br_created_at r))),
       (''proposals'', JList (map proposal_json (proposals_of s (br_id r))))]) (get_batch_review s k)"

definition newest_completed :: "store \<Rightarrow> batch_review option" where
  "newest_completed s = first_max br_created_at (filter (\<lambda>r. br_status r = ''completed'') (batch_reviews s))"

definition get_latest_strategy_brief :: "store \<Rightarrow> string option" where
  "get_latest_strategy_brief s = Option.bind (newest_completed s) br_strategy_brief"

text \<open>The start of the period: the last completed review, or the first of January 2020.\<close>

definition period_since :: "store \<Rightarrow> datetime" where
  "period_since s = (case newest_completed s of Some r \<Rightarrow> br_created_at r
     | None \<Rightarrow> days (day_of_civil (2020, 1, 1)))"

section \<open>When a review is due\<close>

text \<open>
  The settings row has none of the columns \<open>batch_review_...\<close>, so \<open>getattr\<close> gives the defaults.
\<close>

definition check_review_threshold :: "store \<Rightarrow> string option \<times> store" where
  "check_review_threshold s =
     (let s1 = snd (get_cached_settings s);
          since = period_since s1;
          total_leads = length (filter (\<lambda>r. since \<le> run_created_at r \<and> run_status r = ''succeeded'') (runs s1));
          high_leads = length (filter (\<lambda>l. since \<le> lead_updated_at l \<and> lead_llm_quality l = Some ''high'') (leads s1));
          new_outcomes = length (filter (\<lambda>o'. since \<le> snap_created_at o') (snapshots s1))
      in (if 25 \<le> total_leads then Some (nat_str total_leads @ ''_leads'')
          else if 10 \<le> high_leads then Some (nat_str high_leads @ ''_high_leads'')
          else if 5 \<le> new_outcomes then Some (nat_str new_outcomes @ ''_outcomes'')
          else None, s1))"

section \<open>Metrics\<close>

text \<open>
  \<open>group_by(...)\<close> with a count, as an object; SQL leaves the order of groups with the same count
  open, and the key of a group without a value is \<open>null\<close> as \<open>json.dumps\<close> writes it.
\<close>

definition counts_json :: "('g \<Rightarrow> string) \<Rightarrow> ('g \<times> nat) list \<Rightarrow> json" where
  "counts_json value_of gs = JObj (map (\<lambda>(g, n). (value_of g, JInt (int n))) gs)"

definition top_groups :: "nat \<Rightarrow> ('g \<times> nat) list \<Rightarrow> ('g \<times> nat) list" where
  "top_groups n gs = take n (sort_key (\<lambda>g. - int (snd g)) gs)"

definition correction_category_value :: "CorrectionCategory \<Rightarrow> string" where
  "correction_category_value c = (case c of TONE \<Rightarrow> ''tone'' | CTA \<Rightarrow> ''cta''
     | PERSONALIZATION \<Rightarrow> ''personalization'' | LENGTH \<Rightarrow> ''length'' | ACCURACY \<Rightarrow> ''accuracy''
     | RELEVANCE \<Rightarrow> ''relevance'' | FORMAT \<Rightarrow> ''format'' | LANGUAGE \<Rightarrow> ''language'')"

record batch_data =
  bd_leads_processed :: nat
  bd_metrics :: json

definition collect_batch_data :: "store \<Rightarrow> datetime \<Rightarrow> batch_data" where
  "collect_batch_data s since =
     (let quality_counts = group_counts lead_llm_quality (filter (\<lambda>l. since \<le> lead_updated_at l) (leads s));
          corr = top_groups 10 (group_counts corr_category (filter (\<lambda>c. since \<le> corr_created_at c) (corrections s)));
          sigs = top_groups 15 (group_counts sig_signal_type (filter (\<lambda>g. since \<le> sig_detected_at g) (signals s)));
          outcomes = filter (\<lambda>o'. since \<le> snap_created_at o') (snapshots s);
          won = length (filter (\<lambda>o'. snap_outcome o' = ''won'') outcomes);
          calls = filter (\<lambda>i. since \<le> inv_created_at i) (invocations s);
          fallbacks = length (filter inv_fallback_used calls);
          processed = sum_list (map snd quality_counts)
      in \<lparr>bd_leads_processed = processed,
          bd_metrics = JObj [(''period_start'', JStr (isoformat since)),
            (''period_end'', JStr (isoformat (now s))), (''leads_processed'', JInt (int processed)),
            (''quality_distribution'', counts_json
               (\<lambda>q. case q of None \<Rightarrow> ''null'' | Some t \<Rightarrow> t) quality_counts),
            (''corrections'', counts_json correction_category_value corr),
            (''signals'', counts_json signal_value sigs),
            (''outcomes'', JObj [(''won'', JInt (int won)), (''lost'', JInt (int (length outcomes - won))),
               (''total'', JInt (int (length outcomes)))]),
            (''invocations'', JInt (int (length calls))), (''fallback_count'', JInt (int fallbacks)),
            (''fallback_rate'', JFloat (round_digits 3
               (of_nat fallbacks / of_nat (max (length calls) 1))))]\<rparr>)"

section \<open>Generation\<close>

text \<open>The answers of the two models (\<open>ProposalItem\<close>, the synthesis and its validation).\<close>

record proposal_item =
  pi_category :: string
  pi_description :: string
  pi_impact :: string
  pi_confidence :: string
  pi_evidence :: string

record batch_synthesis =
  sy_strategy_brief :: string
  sy_proposals :: "proposal_item list"

record batch_validation =
  va_validated_brief :: string
  va_adjusted_proposals :: "proposal_item list"
  va_reviewer_notes :: string

text \<open>
  The models as the review sees them: an exception, or the parsed answer if there is one and the
  raw text.
\<close>

record review_models =
  rm_synthesize :: "string \<Rightarrow> batch_data \<Rightarrow> string + batch_synthesis option \<times> string option"
  rm_validate :: "batch_synthesis \<Rightarrow> json \<Rightarrow> string + batch_validation option"

definition new_batch_review :: "string \<Rightarrow> datetime \<Rightarrow> batch_data \<Rightarrow> store \<Rightarrow> batch_review" where
  "new_batch_review trigger since d s = \<lparr>br_id = next_uuid s, br_trigger_reason = trigger,
     br_batch_size = int (bd_leads_processed d), br_period_start = Some since,
     br_period_end = Some (now s), br_executor_draft = None, br_reviewer_verdict = None,
     br_reviewer_notes = None, br_strategy_brief = None, br_metrics_json = Some (bd_metrics d),
     br_status = ''generating'', br_created_at = now s, br_updated_at = now s\<rparr>"

definition new_proposal :: "uuid \<Rightarrow> store \<Rightarrow> proposal_item \<Rightarrow> improvement_proposal" where
  "new_proposal k s p = \<lparr>prop_id = next_uuid s, prop_batch_review_id = k, prop_category = pi_category p,
     prop_description = pi_description p, prop_impact = pi_impact p,
     prop_confidence = pi_confidence p, prop_evidence_summary = Some (pi_evidence p),
     prop_status = ''pending'', prop_approved_by = None, prop_applied_at = None,
     prop_result_notes = None, prop_created_at = now s\<rparr>"

definition add_proposal :: "uuid \<Rightarrow> proposal_item \<Rightarrow> store \<Rightarrow> store" where
  "add_proposal k p s = (tick_uuid s)\<lparr>proposals := proposals s @ [new_proposal k s p]\<rparr>"

definition failed_review :: "string \<Rightarrow> batch_review \<Rightarrow> batch_review" where
  "failed_review draft r = r\<lparr>br_status := ''failed'', br_executor_draft := Some draft\<rparr>"

definition completed_review ::
    "string \<Rightarrow> string \<Rightarrow> string \<Rightarrow> string option \<Rightarrow> batch_review \<Rightarrow> batch_review" where
  "completed_review draft brief verdict notes r = r\<lparr>br_executor_draft := Some draft,
     br_strategy_brief := Some brief, br_reviewer_verdict := Some verdict,
     br_reviewer_notes := (case notes of Some n \<Rightarrow> Some n | None \<Rightarrow> br_reviewer_notes r),
     br_status := ''completed''\<rparr>"

text \<open>What the second step makes of the synthesis: brief, verdict, notes and proposals.\<close>

definition validated ::
    "review_models \<Rightarrow> batch_synthesis \<Rightarrow> json \<Rightarrow> string \<times> string \<times> string option \<times> proposal_item list" where
  "validated env sy metrics = (case rm_validate env sy metrics of
     Inl err \<Rightarrow> (sy_strategy_brief sy, ''error'', Some (''Reviewer error: '' @ take 500 err), sy_proposals sy)
   | Inr None \<Rightarrow> (sy_strategy_brief sy, ''fallback'', None, sy_proposals sy)
   | Inr (Some v) \<Rightarrow> (va_validated_brief v, ''validated'', Some (va_reviewer_notes v), va_adjusted_proposals v))"

text \<open>\<open>generate_batch_review\<close>: the id of the new review and the session; nothing is committed.\<close>

definition generate_batch_review :: "review_models \<Rightarrow> string \<Rightarrow> store \<Rightarrow> uuid \<times> store" where
  "generate_batch_review env trigger s =
     (let since = period_since s;
          d = collect_batch_data s since;
          k = next_uuid s;
          s1 = (tick_uuid s)\<lparr>batch_reviews := batch_reviews s @ [new_batch_review trigger since d s]\<rparr>
      in (k, case rm_synthesize env trigger d of
           Inl err \<Rightarrow> upd_batch_review k (failed_review (''Executor error: '' @ take 500 err)) s1
         | Inr (None, raw) \<Rightarrow> upd_batch_review k (failed_review (or_text raw ''Synthesis failed'')) s1
         | Inr (Some sy, raw) \<Rightarrow>
             (case validated env sy (bd_metrics d) of (brief, verdict, notes, items) \<Rightarrow>
               upd_batch_review k (completed_review (sy_strategy_brief sy) brief verdict notes)
                 (fold (add_proposal k) items s1))))"

section \<open>Tasks\<close>

definition review_result :: "json list \<Rightarrow> uuid \<Rightarrow> store \<Rightarrow> (string \<times> json) list" where
  "review_result extra k s = (case get_batch_review s k of
     None \<Rightarrow> []
   | Some r \<Rightarrow> [(''status'', JStr (br_status r)), (''review_id'', JStr (uuid_str k))]
       @ map (\<lambda>t. (''trigger'', t)) extra
       @ [(''batch_size'', JInt (br_batch_size r)),
          (''proposals_count'', JInt (int (length (proposals_of s k))))])"

text \<open>The session of a task is closed without a commit: what the task wrote is rolled back.\<close>

definition task_check_batch_review :: "review_models \<Rightarrow> store \<Rightarrow> json \<times> store" where
  "task_check_batch_review env db =
     (case check_review_threshold db of
        (None, s) \<Rightarrow> (JObj [(''status'', JStr ''skipped''), (''reason'', JStr ''threshold_not_met'')],
          rollback_to db s)
      | (Some trigger, s) \<Rightarrow> (case generate_batch_review env trigger s of
          (k, s') \<Rightarrow> (JObj (review_result [JStr trigger] k s'), rollback_to db s')))"

definition task_generate_batch_review_manual :: "review_models \<Rightarrow> store \<Rightarrow> json \<times> store" where
  "task_generate_batch_review_manual env db =
     (case generate_batch_review env ''manual'' db of
        (k, s') \<Rightarrow> (JObj (review_result [] k s'), rollback_to db s'))"

section \<open>Proposals\<close>

text \<open>The three moves of a proposal: the changed row, or nothing when it is not in the right state.\<close>

definition approve_proposal :: "uuid \<Rightarrow> string \<Rightarrow> store \<Rightarrow> improvement_proposal option \<times> store" where
  "approve_proposal k approved_by s = (case get_proposal s k of
     None \<Rightarrow> (None, s)
   | Some p \<Rightarrow>
       if prop_status p \<noteq> ''pending'' then (None, s)
       else let s' = upd_proposal k (\<lambda>p. p\<lparr>prop_status := ''approved'', prop_approved_by := Some approved_by\<rparr>) s
            in (get_proposal s' k, s'))"

definition reject_proposal :: "uuid \<Rightarrow> store \<Rightarrow> improvement_proposal option \<times> store" where
  "reject_proposal k s = (case get_proposal s k of
     None \<Rightarrow> (None, s)
   | Some p \<Rightarrow>
       if prop_status p \<noteq> ''pending'' then (None, s)
       else let s' = upd_proposal k (\<lambda>p. p\<lparr>prop_status := ''rejected''\<rparr>) s in (get_proposal s' k, s'))"

definition apply_proposal :: "uuid \<Rightarrow> string \<Rightarrow> store \<Rightarrow> improvement_proposal option \<times> store" where
  "apply_proposal k notes s = (case get_proposal s k of
     None \<Rightarrow> (None, s)
   | Some p \<Rightarrow>
       if prop_status p \<noteq> ''approved'' then (None, s)
       else let s' = upd_proposal k (\<lambda>p. p\<lparr>prop_status := ''applied'', prop_applied_at := Some (now s),
               prop_result_notes := Some (if notes = [] then ''Applied by operator at '' @ isoformat (now s)
                 else notes)\<rparr>) s
            in (get_proposal s' k, s'))"

section \<open>Endpoints\<close>

text \<open>The answer or the status code, and the committed state: a refusal commits nothing.\<close>

definition proposal_answer ::
    "(improvement_proposal \<Rightarrow> (string \<times> json) list) \<Rightarrow> store \<Rightarrow> improvement_proposal option \<times> store \<Rightarrow>
     (nat + json) \<times> store" where
  "proposal_answer extra db x = (case fst x of
     None \<Rightarrow> (Inl 404, rollback_to db (snd x))
   | Some p \<Rightarrow> (Inr (JObj ([(''id'', JStr (uuid_str (prop_id p))), (''status'', JStr (prop_status p))]
       @ extra p)), snd x))"

definition approve_endpoint :: "uuid \<Rightarrow> store \<Rightarrow> (nat + json) \<times> store" where
  "approve_endpoint k db = proposal_answer (\<lambda>p. [(''approved_by'', jstr (prop_approved_by p))]) db
     (approve_proposal k ''operator'' db)"

definition apply_endpoint :: "uuid \<Rightarrow> store \<Rightarrow> (nat + json) \<times> store" where
  "apply_endpoint k db = proposal_answer (\<lambda>p. [(''applied_at'', iso_opt (prop_applied_at p))]) db
     (apply_proposal k [] db)"

definition reject_endpoint :: "uuid \<Rightarrow> store \<Rightarrow> (nat + json) \<times> store" where
  "reject_endpoint k db = proposal_answer (\<lambda>p. []) db (reject_proposal k db)"

definition get_batch_review_endpoint :: "uuid \<Rightarrow> store \<Rightarrow> nat + json" where
  "get_batch_review_endpoint k s = (case get_batch_review_detail s k of None \<Rightarrow> Inl 404 | Some j \<Rightarrow> Inr j)"

definition trigger_batch_review :: "store \<Rightarrow> store" where
  "trigger_batch_review s = dispatch \<lparr>
     call_task = ''app.workers.batch_review_tasks.task_generate_batch_review_manual'',
     call_lead_id = None, call_pipeline_run_id = None, call_correlation_id = None\<rparr> s"

section \<open>The life of a proposal\<close>

text \<open>The abstract machine: an operator decides once, and only what was approved is applied.\<close>

inductive proposal_move :: "string \<Rightarrow> string \<Rightarrow> bool" where
  pm_approve: "proposal_move ''pending'' ''approved''"
| pm_reject: "proposal_move ''pending'' ''rejected''"
| pm_apply: "proposal_move ''approved'' ''applied''"

inductive_cases proposal_move_ends: "proposal_move ''applied'' st" "proposal_move ''rejected'' st"

text \<open>What the other columns of a proposal say in each of its states.\<close>

definition proposal_ok :: "improvement_proposal \<Rightarrow> bool" where
  "proposal_ok p \<longleftrightarrow> prop_status p \<in> {''pending'', ''approved'', ''rejected'', ''applied''}
     \<and> (prop_approved_by p \<noteq> None \<longleftrightarrow> prop_status p \<in> {''approved'', ''applied''})
     \<and> (prop_applied_at p \<noteq> None \<longleftrightarrow> prop_status p = ''applied'')
     \<and> (prop_result_notes p \<noteq> None \<longleftrightarrow> prop_status p = ''applied'')"

definition proposals_ok :: "store \<Rightarrow> bool" where
  "proposals_ok s \<longleftrightarrow> distinct (map prop_id (proposals s))
     \<and> (\<forall>p \<in> set (proposals s). proposal_ok p \<and> prop_id p < next_uuid s)"

text \<open>Every proposal of the first state is in the second, moved along the machine.\<close>

definition moved :: "store \<Rightarrow> store \<Rightarrow> bool" where
  "moved s s' \<longleftrightarrow> (\<forall>p \<in> set (proposals s). \<exists>p' \<in> set (proposals s'). prop_id p' = prop_id p
     \<and> prop_batch_review_id p' = prop_batch_review_id p
     \<and> proposal_move\<^sup>*\<^sup>* (prop_status p) (prop_status p'))"

lemma moved_refl [simp]: "moved s s"
  by (auto simp: moved_def)

lemma moved_same: "proposals s' = proposals s \<Longrightarrow> moved s s'"
  by (auto simp: moved_def)

lemma moved_trans: "moved s s' \<Longrightarrow> moved s' s'' \<Longrightarrow> moved s s''"
  unfolding moved_def by (metis rtranclp_trans)

text \<open>A move of one proposal, from the state the guard has found.\<close>

lemma upd_proposal_moves:
  assumes ok: "proposals_ok s" and p: "get_proposal s k = Some p"
    and f: "prop_id (f p) = prop_id p" "prop_batch_review_id (f p) = prop_batch_review_id p"
      "proposal_ok (f p)" "proposal_move (prop_status p) (prop_status (f p))"
  shows "proposals_ok (upd_proposal k f s) \<and> moved s (upd_proposal k f s)"
proof -
  let ?g = "\<lambda>q. if prop_id q = k then f q else q"
  have mem: "p \<in> set (proposals s)" "prop_id p = k"
    using p by (auto simp: get_proposal_def tbl_get_def find_Some_iff)
  have one: "q = p" if "q \<in> set (proposals s)" "prop_id q = k" for q
    using ok mem that by (auto simp: proposals_ok_def distinct_map dest: inj_onD)
  have ps: "proposals (upd_proposal k f s) = map ?g (proposals s)"
    by (simp add: upd_proposal_def tbl_update_def)
  have ids: "map prop_id (map ?g (proposals s)) = map prop_id (proposals s)"
    using one f(1) by auto
  have n: "next_uuid (upd_proposal k f s) = next_uuid s" by (simp add: upd_proposal_def)
  have "proposal_ok (?g q) \<and> prop_id (?g q) < next_uuid s" if "q \<in> set (proposals s)" for q
    using ok one [OF that] f that by (auto simp: proposals_ok_def)
  then have "\<forall>q \<in> set (map ?g (proposals s)). proposal_ok q \<and> prop_id q < next_uuid s"
    by (simp only: set_map ball_simps) blast
  moreover have "distinct (map prop_id (proposals s))" using ok by (simp only: proposals_ok_def)
  ultimately have "proposals_ok (upd_proposal k f s)"
    unfolding proposals_ok_def ps n by (simp only: ids)
  moreover have "prop_id (?g q) = prop_id q \<and> prop_batch_review_id (?g q) = prop_batch_review_id q
      \<and> proposal_move\<^sup>*\<^sup>* (prop_status q) (prop_status (?g q))" if "q \<in> set (proposals s)" for q
    using one [OF that] f by auto
  then have "moved s (upd_proposal k f s)" unfolding moved_def ps by (fastforce intro: imageI)
  ultimately show ?thesis ..
qed

lemma proposal_operations:
  assumes "proposals_ok s"
  shows "proposals_ok (snd (approve_proposal k by s)) \<and> moved s (snd (approve_proposal k by s))"
    "proposals_ok (snd (reject_proposal k s)) \<and> moved s (snd (reject_proposal k s))"
    "proposals_ok (snd (apply_proposal k notes s)) \<and> moved s (snd (apply_proposal k notes s))"
proof -
  have ok: "proposal_ok p" if "get_proposal s k = Some p" for p
    using assms that by (auto simp: proposals_ok_def get_proposal_def tbl_get_def find_Some_iff)
  show "proposals_ok (snd (approve_proposal k by s)) \<and> moved s (snd (approve_proposal k by s))"
  proof (cases "\<exists>p. get_proposal s k = Some p \<and> prop_status p = ''pending''")
    case True
    then obtain p where p: "get_proposal s k = Some p" "prop_status p = ''pending''" by blast
    with ok [OF p(1)] upd_proposal_moves [OF assms p(1), of "\<lambda>p. p\<lparr>prop_status := ''approved'',
        prop_approved_by := Some by\<rparr>"] show ?thesis
      by (simp add: approve_proposal_def Let_def proposal_ok_def pm_approve)
  qed (use assms in \<open>auto simp: approve_proposal_def split: option.split\<close>)
  show "proposals_ok (snd (reject_proposal k s)) \<and> moved s (snd (reject_proposal k s))"
  proof (cases "\<exists>p. get_proposal s k = Some p \<and> prop_status p = ''pending''")
    case True
    then obtain p where p: "get_proposal s k = Some p" "prop_status p = ''pending''" by blast
    with ok [OF p(1)] upd_proposal_moves [OF assms p(1), of "\<lambda>p. p\<lparr>prop_status := ''rejected''\<rparr>"]
    show ?thesis by (simp add: reject_proposal_def Let_def proposal_ok_def pm_reject)
  qed (use assms in \<open>auto simp: reject_proposal_def split: option.split\<close>)
  show "proposals_ok (snd (apply_proposal k notes s)) \<and> moved s (snd (apply_proposal k notes s))"
  proof (cases "\<exists>p. get_proposal s k = Some p \<and> prop_status p = ''approved''")
    case True
    then obtain p where p: "get_proposal s k = Some p" "prop_status p = ''approved''" by blast
    with ok [OF p(1)] upd_proposal_moves [OF assms p(1), of "\<lambda>p. p\<lparr>prop_status := ''applied'',
        prop_applied_at := Some (now s), prop_result_notes := Some (if notes = []
          then ''Applied by operator at '' @ isoformat (now s) else notes)\<rparr>"]
    show ?thesis by (simp add: apply_proposal_def Let_def proposal_ok_def pm_apply)
  qed (use assms in \<open>auto simp: apply_proposal_def split: option.split\<close>)
qed

lemma added_proposals:
  assumes "proposals_ok s"
  shows "proposals_ok (fold (add_proposal k) items s) \<and> moved s (fold (add_proposal k) items s)
    \<and> batch_reviews (fold (add_proposal k) items s) = batch_reviews s
    \<and> (\<exists>qs. proposals (fold (add_proposal k) items s) = proposals s @ qs \<and> length qs = length items
         \<and> (\<forall>q \<in> set qs. prop_batch_review_id q = k \<and> prop_status q = ''pending''))"
  using assms
proof (induction items arbitrary: s)
  case Nil
  then show ?case by simp
next
  case (Cons i items)
  let ?s = "add_proposal k i s"
  have ok: "proposals_ok ?s"
    using Cons.prems by (force simp: proposals_ok_def add_proposal_def tick_uuid_def new_proposal_def
        proposal_ok_def)
  have m: "moved s ?s" by (auto simp: moved_def add_proposal_def tick_uuid_def)
  from Cons.IH [OF ok] obtain qs where qs: "proposals (fold (add_proposal k) items ?s) = proposals ?s @ qs"
    "length qs = length items" "\<forall>q \<in> set qs. prop_batch_review_id q = k \<and> prop_status q = ''pending''"
    by blast
  have "proposals ?s = proposals s @ [new_proposal k s i]" by (simp add: add_proposal_def)
  with qs have "\<exists>qs. proposals (fold (add_proposal k) items ?s) = proposals s @ qs
      \<and> length qs = length (i # items)
      \<and> (\<forall>q \<in> set qs. prop_batch_review_id q = k \<and> prop_status q = ''pending'')"
    by (intro exI [of _ "new_proposal k s i # qs"]) (auto simp: new_proposal_def)
  moreover have "batch_reviews ?s = batch_reviews s" by (simp add: add_proposal_def tick_uuid_def)
  ultimately show ?case using Cons.IH [OF ok] moved_trans [OF m] by simp
qed

lemma review_update_proposals [simp]:
  "proposals (upd_batch_review k f s) = proposals s" "next_uuid (upd_batch_review k f s) = next_uuid s"
  by (simp_all add: upd_batch_review_def)

lemma generated_proposals:
  assumes "proposals_ok s"
  shows "proposals_ok (snd (generate_batch_review env trigger s))
    \<and> moved s (snd (generate_batch_review env trigger s))"
proof -
  define s1 where "s1 = (tick_uuid s)\<lparr>batch_reviews := batch_reviews s @
    [new_batch_review trigger (period_since s) (collect_batch_data s (period_since s)) s]\<rparr>"
  have same: "proposals_ok s'" "moved s s'" if "proposals s' = proposals s1" "next_uuid s1 \<le> next_uuid s'" for s'
    using assms that by (fastforce simp: s1_def proposals_ok_def tick_uuid_def,
        auto simp: s1_def moved_def tick_uuid_def)
  have s1: "proposals_ok s1" "moved s s1" by (rule same; simp)+
  have u: "proposals_ok (upd_batch_review k f v) = proposals_ok v"
    "moved s (upd_batch_review k f v) = moved s v" for k f v
    by (simp_all add: proposals_ok_def moved_def)
  from added_proposals [OF s1(1)] moved_trans [OF s1(2)] s1 show ?thesis
    by (auto simp: generate_batch_review_def Let_def u s1_def [symmetric] split: sum.split option.split prod.split)
qed

text \<open>The operations on proposals, in one session or committed one by one.\<close>

inductive proposal_step :: "store \<Rightarrow> store \<Rightarrow> bool" where
  ps_generate: "proposal_step s (snd (generate_batch_review env trigger s))"
| ps_approve: "proposal_step s (snd (approve_proposal k by s))"
| ps_reject: "proposal_step s (snd (reject_proposal k s))"
| ps_apply: "proposal_step s (snd (apply_proposal k notes s))"
| ps_other: "proposals s' = proposals s \<Longrightarrow> next_uuid s \<le> next_uuid s' \<Longrightarrow> proposal_step s s'"

lemma proposal_step_ok: "proposal_step s s' \<Longrightarrow> proposals_ok s \<Longrightarrow> proposals_ok s' \<and> moved s s'"
proof (induction rule: proposal_step.induct)
  case (ps_other s' s)
  then show ?case by (auto simp: moved_same) (fastforce simp: proposals_ok_def)
qed (simp_all add: generated_proposals proposal_operations)


definition demo_proposal :: improvement_proposal where
  "demo_proposal = new_proposal 0 (empty_store 7) \<lparr>pi_category = ''copy'', pi_description = ''shorter'',
     pi_impact = ''high'', pi_confidence = ''low'', pi_evidence = ''e''\<rparr>"


section \<open>No review is ever stored\<close>

text \<open>What the program commits: the two tasks, the three endpoints, and all other code.\<close>

inductive review_commit :: "store \<Rightarrow> store \<Rightarrow> bool" where
  rc_check: "review_commit db (snd (task_check_batch_review env db))"
| rc_manual: "review_commit db (snd (task_generate_batch_review_manual env db))"
| rc_approve: "review_commit db (snd (approve_endpoint k db))"
| rc_reject: "review_commit db (snd (reject_endpoint k db))"
| rc_apply: "review_commit db (snd (apply_endpoint k db))"
| rc_trigger: "review_commit db (trigger_batch_review db)"
| rc_other: "batch_reviews db' = batch_reviews db \<Longrightarrow> proposals db' = proposals db \<Longrightarrow> review_commit db db'"

lemma no_proposal [simp]: "proposals s = [] \<Longrightarrow> get_proposal s k = None"
  by (simp add: get_proposal_def)

lemma endpoints_refuse:
  assumes "proposals db = []"
  shows "approve_endpoint k db = (Inl 404, rollback_to db db)" "reject_endpoint k db = (Inl 404, rollback_to db db)"
    "apply_endpoint k db = (Inl 404, rollback_to db db)"
  using assms
  by (simp_all add: approve_endpoint_def reject_endpoint_def apply_endpoint_def proposal_answer_def
      approve_proposal_def reject_proposal_def apply_proposal_def)

lemma review_commit_empty:
  "review_commit db db' \<Longrightarrow> batch_reviews db = [] \<Longrightarrow> proposals db = []
    \<Longrightarrow> batch_reviews db' = [] \<and> proposals db' = []"
  by (induction rule: review_commit.induct)
    (auto simp: task_check_batch_review_def task_generate_batch_review_manual_def rollback_to_def
      endpoints_refuse trigger_batch_review_def dispatch_def split: prod.split option.split)

text \<open>
  C32: No batch review is ever stored.  The tasks that generate one close their session without a
  commit, so starting from a database without reviews, whatever the models answer and whatever
  else the program does, the tables of reviews and proposals stay empty: the list is empty, there
  is no strategy brief, every proposal endpoint answers 404, and each check looks at everything
  since 2020 again.  The manual task nevertheless answers with the id of the review it has made.
\<close>

theorem batch_reviews_never_stored:
  assumes "review_commit\<^sup>*\<^sup>* db db'" "batch_reviews db = []" "proposals db = []"
  shows "list_batch_reviews db' n = [] \<and> get_latest_strategy_brief db' = None
    \<and> get_batch_review_endpoint k db' = Inl 404
    \<and> fst (approve_endpoint k db') = Inl 404 \<and> fst (reject_endpoint k db') = Inl 404
    \<and> fst (apply_endpoint k db') = Inl 404
    \<and> period_since db' = days (day_of_civil (2020, 1, 1))
    \<and> (\<exists>j. json_get ''review_id'' (fst (task_generate_batch_review_manual env db')) = Some j)"
proof -
  have e: "batch_reviews db' = [] \<and> proposals db' = []"
    using assms by (induction rule: rtranclp_induct) (auto dest: review_commit_empty)
  have row: "\<exists>r. get_batch_review (upd_batch_review (next_uuid db') f s) (next_uuid db') = Some r"
    if "batch_reviews s = [new_batch_review t x d db']" "br_id (f (new_batch_review t x d db')) = next_uuid db'"
    for f s t x d
    using that by (simp add: get_batch_review_def upd_batch_review_def stamp_batch_review_def new_batch_review_def)
  have add: "batch_reviews (fold (add_proposal k) items s) = batch_reviews s" for k items s
    by (induction items arbitrary: s) (simp_all add: add_proposal_def tick_uuid_def)
  let ?g = "generate_batch_review env ''manual'' db'"
  have "\<exists>r. get_batch_review (snd ?g) (next_uuid db') = Some r"
    using e by (auto simp: generate_batch_review_def Let_def add tick_uuid_def failed_review_def
        completed_review_def intro!: row split: sum.split option.split prod.split)
      (simp_all add: new_batch_review_def)
  moreover have "fst ?g = next_uuid db'" by (simp add: generate_batch_review_def Let_def)
  ultimately have "\<exists>j. json_get ''review_id'' (fst (task_generate_batch_review_manual env db')) = Some j"
    by (cases ?g) (auto simp: task_generate_batch_review_manual_def review_result_def json_get_def)
  moreover have "newest_completed db' = None" using e by (simp add: newest_completed_def)
  ultimately show ?thesis
    using e by (simp add: list_batch_reviews_def get_latest_strategy_brief_def
        get_batch_review_endpoint_def get_batch_review_detail_def get_batch_review_def endpoints_refuse
        period_since_def)
qed

theorem batch_reviews_never_stored_witness:
  "list_batch_reviews (snd (task_generate_batch_review_manual \<lparr>rm_synthesize = (\<lambda>t d. Inl ''down''),
     rm_validate = (\<lambda>y m. Inl ''down'')\<rparr> (empty_store 7))) 10 = []"
  using batch_reviews_never_stored [OF r_into_rtranclp [of review_commit, OF rc_manual], of "empty_store 7"]
  by (simp add: empty_store_def)

end
