(* ===== verification/Outcomes.thy ===== *)
theory Outcomes
  imports Batch_Review "HOL-Library.AList"
begin

text \<open>
  Learning from outcomes (\<open>app/services/pipeline/outcome_analysis_service.py\<close>): how signals,
  quality ratings and industries relate to won and lost leads, recommendations drawn from it, and
  the weekly report that stores them (\<open>app/workers/weekly_tasks.py\<close>), with its endpoint's list
  (\<open>app/services/dashboard/ai_office_service.py\<close>).
\<close>

section \<open>Counting\<close>

text \<open>The dict \<open>{"won": .., "lost": .., "total": ..}\<close> of one group.\<close>

record outcome_stats =
  os_won :: nat
  os_lost :: nat
  os_total :: nat

definition no_outcomes :: outcome_stats where
  "no_outcomes = \<lparr>os_won = 0, os_lost = 0, os_total = 0\<rparr>"

text \<open>
  \<open>stats[s.outcome] += 1\<close>, where the dict has besides the counters the name of the group under
  the key \<open>label\<close>, a text.
\<close>

definition count_outcome :: "string \<Rightarrow> string \<Rightarrow> outcome_stats \<Rightarrow> string + outcome_stats" where
  "count_outcome label out st =
     (if out = ''won'' then Inr (st\<lparr>os_won := os_won st + 1\<rparr>)
      else if out = ''lost'' then Inr (st\<lparr>os_lost := os_lost st + 1\<rparr>)
      else if out = ''total'' then Inr (st\<lparr>os_total := os_total st + 1\<rparr>)
      else if out = label then Inl ''TypeError'' else Inl ''KeyError'')"

text \<open>The groups in the order of their first occurrence, from pairs of group and outcome.\<close>

fun tally :: "string \<Rightarrow> (string \<times> string) list \<Rightarrow> (string \<times> outcome_stats) list
    \<Rightarrow> string + (string \<times> outcome_stats) list" where
  "tally label [] acc = Inr acc"
| "tally label ((k, out) # evs) acc =
     (let st = (case map_of acc k of None \<Rightarrow> no_outcomes | Some st \<Rightarrow> st)
      in case count_outcome label out st of
           Inl e \<Rightarrow> Inl e
         | Inr st' \<Rightarrow> tally label evs (AList.update k (st'\<lparr>os_total := os_total st' + 1\<rparr>) acc))"

record outcome_row =
  or_key :: string
  or_stats :: outcome_stats
  or_win_rate :: pyfloat

definition win_rate_of :: "outcome_stats \<Rightarrow> pyfloat" where
  "win_rate_of st =
     (if 0 < os_total st then round_digits 2 (of_nat (os_won st) / of_nat (os_total st)) else 0)"

definition outcome_row_of :: "string \<times> outcome_stats \<Rightarrow> outcome_row" where
  "outcome_row_of = (\<lambda>(k, st). \<lparr>or_key = k, or_stats = st, or_win_rate = win_rate_of st\<rparr>)"

text \<open>\<open>sorted(.., key=lambda x: (-x["win_rate"], -x["total"]))\<close>.\<close>

definition best_first :: "outcome_row list \<Rightarrow> outcome_row list" where
  "best_first rows = sort_key (\<lambda>r. - or_win_rate r) (sort_key (\<lambda>r. - int (os_total (or_stats r))) rows)"

section \<open>The analyses\<close>

record outcome_summary =
  sum_total :: nat
  sum_won :: nat
  sum_lost :: nat
  sum_win_rate :: pyfloat
  sum_sufficient_data :: bool

definition get_outcome_summary :: "store \<Rightarrow> outcome_summary" where
  "get_outcome_summary s =
     (let won = length (filter (\<lambda>x. snap_outcome x = ''won'') (snapshots s));
          lost = length (filter (\<lambda>x. snap_outcome x = ''lost'') (snapshots s));
          total = length (snapshots s)
      in if snapshots s = [] then \<lparr>sum_total = 0, sum_won = 0, sum_lost = 0, sum_win_rate = 0,
              sum_sufficient_data = False\<rparr>
         else \<lparr>sum_total = total, sum_won = won, sum_lost = lost,
           sum_win_rate = round_digits 2 (of_nat won / of_nat total),
           sum_sufficient_data = (50 \<le> total)\<rparr>)"

definition signal_events :: "outcome_snapshot \<Rightarrow> (string \<times> string) list" where
  "signal_events x = map (\<lambda>g. (signal_value g, snap_outcome x))
     (case snap_signals_json x of None \<Rightarrow> [] | Some gs \<Rightarrow> gs)"

definition analyze_signal_correlations :: "store \<Rightarrow> string + outcome_row list" where
  "analyze_signal_correlations s =
     map_sum id (\<lambda>groups. best_first (map outcome_row_of groups))
       (tally ''signal'' (concat (map signal_events (snapshots s))) [])"

text \<open>\<open>s.lead_quality or "unknown"\<close>.\<close>

definition or_unknown :: "string option \<Rightarrow> string" where
  "or_unknown v = (if truthy v then text_or_empty v else ''unknown'')"

definition analyze_quality_accuracy :: "store \<Rightarrow> string + outcome_row list" where
  "analyze_quality_accuracy s =
     map_sum id (\<lambda>groups. sort_key (\<lambda>r. - or_win_rate r) (map outcome_row_of groups))
       (tally ''quality'' (map (\<lambda>x. (or_unknown (snap_lead_quality x), snap_outcome x)) (snapshots s)) [])"

definition analyze_industry_performance :: "store \<Rightarrow> string + outcome_row list" where
  "analyze_industry_performance s =
     map_sum id (\<lambda>groups. best_first (map outcome_row_of groups))
       (tally ''industry'' (map (\<lambda>x. (or_unknown (snap_industry x), snap_outcome x)) (snapshots s)) [])"

section \<open>Recommendations\<close>

record recommendation =
  rec_type :: string
  rec_signal :: "string option"
  rec_description :: string
  rec_evidence :: string
  rec_action :: string

definition won_of_total :: "outcome_stats \<Rightarrow> string" where
  "won_of_total st = nat_str (os_won st) @ '' WON / '' @ nat_str (os_total st) @ '' total''"

definition insufficient_data :: "outcome_summary \<Rightarrow> recommendation" where
  "insufficient_data sm = \<lparr>rec_type = ''info'', rec_signal = None,
     rec_description = ''Datos insuficientes: '' @ nat_str (sum_total sm) @ '' outcomes (necesitamos >=50)'',
     rec_evidence = nat_str (sum_won sm) @ '' WON, '' @ nat_str (sum_lost sm) @ '' LOST'',
     rec_action = ''Seguir acumulando outcomes''\<rparr>"

definition signal_recommendation :: "pyfloat \<Rightarrow> outcome_row \<Rightarrow> recommendation list" where
  "signal_recommendation avg r =
     (let st = or_stats r; k = or_key r; diff = or_win_rate r - avg;
          description = k @ '' tiene win rate '' @ format_pct (or_win_rate r)
            @ '' vs promedio '' @ format_pct avg
      in if os_total st < 5 then []
         else if 15 / 100 < diff then
           [\<lparr>rec_type = ''increase_weight'', rec_signal = Some k, rec_description = description,
             rec_evidence = won_of_total st,
             rec_action = ''Aumentar peso de '' @ k @ '' en scoring (+5 a +10 puntos)''\<rparr>]
         else if diff < - (15 / 100) then
           [\<lparr>rec_type = ''decrease_weight'', rec_signal = Some k, rec_description = description,
             rec_evidence = won_of_total st,
             rec_action = ''Reducir peso de '' @ k @ '' en scoring (-5 puntos)''\<rparr>]
         else [])"

definition industry_recommendation :: "pyfloat \<Rightarrow> outcome_row \<Rightarrow> recommendation list" where
  "industry_recommendation avg r =
     (let st = or_stats r; k = or_key r
      in if os_total st < 5 then []
         else if avg + 2 / 10 < or_win_rate r then
           [\<lparr>rec_type = ''high_value_industry'', rec_signal = Some k,
             rec_description = ''Industria \"'' @ k @ ''\" convierte a '' @ format_pct (or_win_rate r),
             rec_evidence = won_of_total st,
             rec_action = ''Agregar \"'' @ k @ ''\" a HIGH_VALUE_INDUSTRIES si no est'' @ [CHR 0xE1]\<rparr>]
         else [])"

text \<open>
  \<open>Counter\<close>: the values in the order of their first occurrence with their numbers, and
  \<open>most_common\<close>, which keeps that order among equals.
\<close>

definition counter :: "'g list \<Rightarrow> ('g \<times> nat) list" where
  "counter gs = map (\<lambda>g. (g, count_list gs g)) (rev (remdups (rev gs)))"

definition most_common :: "nat \<Rightarrow> ('g \<times> nat) list \<Rightarrow> ('g \<times> nat) list" where
  "most_common n c = take n (sort_key (\<lambda>g. - int (snd g)) c)"

definition correction_recommendation :: "CorrectionCategory \<times> nat \<Rightarrow> recommendation list" where
  "correction_recommendation = (\<lambda>(cat, n). let c = correction_category_value cat in
     if n < 5 then []
     else [\<lparr>rec_type = ''prompt_improvement'', rec_signal = Some c,
        rec_description = ''Reviewer corrigio \"'' @ c @ ''\" '' @ nat_str n @ '' veces en las ultimas 100 reviews'',
        rec_evidence = nat_str n @ '' correcciones'',
        rec_action = ''Mejorar prompt del Executor para reducir errores de '' @ c\<rparr>])"

definition latest_corrections :: "store \<Rightarrow> review_correction list" where
  "latest_corrections s = take 100 (sort_key (\<lambda>c. - corr_created_at c) (corrections s))"

definition correction_recommendations :: "store \<Rightarrow> recommendation list" where
  "correction_recommendations s = concat (map correction_recommendation
     (most_common 3 (counter (map corr_category (latest_corrections s)))))"

definition generate_scoring_recommendations :: "store \<Rightarrow> string + recommendation list" where
  "generate_scoring_recommendations s =
     (let sm = get_outcome_summary s; avg = sum_win_rate sm
      in if \<not> sum_sufficient_data sm then Inr [insufficient_data sm]
         else case analyze_signal_correlations s of
           Inl e \<Rightarrow> Inl e
         | Inr sigs \<Rightarrow> (case analyze_industry_performance s of
             Inl e \<Rightarrow> Inl e
           | Inr inds \<Rightarrow> Inr (concat (map (signal_recommendation avg) sigs)
               @ concat (map (industry_recommendation avg) inds)
               @ correction_recommendations s)))"

section \<open>The weekly report\<close>

record weekly_metrics =
  wm_period :: string
  wm_leads_processed :: nat
  wm_high_leads :: nat
  wm_won :: nat
  wm_lost :: nat
  wm_drafts_generated :: nat
  wm_executor_calls :: nat
  wm_reviewer_calls :: nat
  wm_fallback_rate :: pyfloat
  wm_corrections_count :: nat
  wm_scout_investigations :: nat

definition collect_metrics :: "store \<Rightarrow> datetime \<Rightarrow> datetime \<Rightarrow> weekly_metrics" where
  "collect_metrics s week_start week_end =
     (let calls = filter (\<lambda>i. week_start \<le> inv_created_at i) (invocations s);
          outcomes = filter (\<lambda>x. week_start \<le> snap_created_at x) (snapshots s);
          executor = length (filter (\<lambda>i. inv_role i = ''executor'') calls);
          reviewer = length (filter (\<lambda>i. inv_role i = ''reviewer'') calls);
          fallbacks = length (filter inv_fallback_used calls)
      in \<lparr>wm_period = date_str week_start @ '' to '' @ date_str week_end,
          wm_leads_processed = length (filter
            (\<lambda>l. week_start \<le> lead_created_at l \<and> lead_created_at l < week_end) (leads s)),
          wm_high_leads = length (filter
            (\<lambda>l. week_start \<le> lead_created_at l \<and> lead_llm_quality l = Some ''high'') (leads s)),
          wm_won = length (filter (\<lambda>x. snap_outcome x = ''won'') outcomes),
          wm_lost = length (filter (\<lambda>x. snap_outcome x = ''lost'') outcomes),
          wm_drafts_generated = length (filter (\<lambda>d. week_start \<le> draft_generated_at d) (drafts s)),
          wm_executor_calls = executor, wm_reviewer_calls = reviewer,
          wm_fallback_rate = round_digits 2 (of_nat fallbacks / of_nat (max (executor + reviewer) 1)),
          wm_corrections_count = length (filter (\<lambda>c. week_start \<le> corr_created_at c) (corrections s)),
          wm_scout_investigations = length (filter (\<lambda>i. week_start \<le> it_created_at i) (investigations s))\<rparr>)"

definition metrics_json :: "weekly_metrics \<Rightarrow> json" where
  "metrics_json m = JObj [(''period'', JStr (wm_period m)),
     (''leads_processed'', JInt (int (wm_leads_processed m))),
     (''high_leads'', JInt (int (wm_high_leads m))), (''won'', JInt (int (wm_won m))),
     (''lost'', JInt (int (wm_lost m))), (''drafts_generated'', JInt (int (wm_drafts_generated m))),
     (''executor_calls'', JInt (int (wm_executor_calls m))),
     (''reviewer_calls'', JInt (int (wm_reviewer_calls m))),
     (''fallback_rate'', JFloat (wm_fallback_rate m)),
     (''corrections_count'', JInt (int (wm_corrections_count m))),
     (''scout_investigations'', JInt (int (wm_scout_investigations m)))]"

definition recommendation_json :: "recommendation \<Rightarrow> json" where
  "recommendation_json r = JObj ((''type'', JStr (rec_type r))
     # (case rec_signal r of None \<Rightarrow> [] | Some x \<Rightarrow> [(''signal'', JStr x)])
     @ [(''description'', JStr (rec_description r)), (''evidence'', JStr (rec_evidence r)),
        (''action'', JStr (rec_action r))])"

definition collect_recommendations :: "store \<Rightarrow> recommendation list" where
  "collect_recommendations s =
     (case generate_scoring_recommendations s of Inl _ \<Rightarrow> [] | Inr recs \<Rightarrow> recs)"

definition newline :: string where
  "newline = [CHR 0x0A]"

definition build_synthesis_prompt :: "weekly_metrics \<Rightarrow> recommendation list \<Rightarrow> string" where
  "build_synthesis_prompt m recs =
     (let rec_text = join newline (map (\<lambda>r. ''- ['' @ rec_type r @ ''] '' @ rec_description r
            @ '': '' @ rec_action r) (take 5 recs))
      in join newline
       [''Datos de la semana:'',
        ''- Leads procesados: '' @ nat_str (wm_leads_processed m),
        ''- Leads HIGH: '' @ nat_str (wm_high_leads m),
        ''- WON: '' @ nat_str (wm_won m) @ '', LOST: '' @ nat_str (wm_lost m),
        ''- Drafts generados: '' @ nat_str (wm_drafts_generated m),
        ''- Executor calls: '' @ nat_str (wm_executor_calls m) @ '', Reviewer calls: ''
          @ nat_str (wm_reviewer_calls m),
        ''- Fallback rate: '' @ format_pct (wm_fallback_rate m),
        ''- Correcciones del reviewer: '' @ nat_str (wm_corrections_count m),
        ''- Investigaciones de Scout: '' @ nat_str (wm_scout_investigations m),
        [], ''Recomendaciones del sistema:'',
        if rec_text = [] then ''Sin recomendaciones esta semana.'' else rec_text,
        [], ''Gener'' @ [CHR 0xE1] @ '' el resumen semanal.''])"

definition template_synthesis :: "weekly_metrics \<Rightarrow> recommendation list \<Rightarrow> string" where
  "template_synthesis m recs = join newline
     ([''Semana '' @ wm_period m @ '':'',
       ''- '' @ nat_str (wm_leads_processed m) @ '' leads procesados, '' @ nat_str (wm_high_leads m) @ '' HIGH'',
       ''- '' @ nat_str (wm_won m) @ '' WON, '' @ nat_str (wm_lost m) @ '' LOST'',
       ''- '' @ nat_str (wm_drafts_generated m) @ '' drafts generados'',
       ''- '' @ nat_str (wm_scout_investigations m) @ '' investigaciones de Scout'',
       ''- '' @ nat_str (wm_corrections_count m) @ '' correcciones del reviewer'',
       ''- Fallback rate: '' @ format_pct (wm_fallback_rate m)]
      @ (if recs = [] then []
         else (newline @ ''Recomendaciones:'') # map (\<lambda>r. ''- '' @ rec_description r) (take 3 recs)))"

text \<open>
  The model answers a prompt with an exception or with a text, perhaps missing, and its own name.
\<close>

type_synonym text_model = "string \<Rightarrow> string + string option \<times> string option"

definition generate_synthesis :: "text_model \<Rightarrow> weekly_metrics \<Rightarrow> recommendation list
    \<Rightarrow> string \<times> string option" where
  "generate_synthesis ask m recs =
     (case ask (build_synthesis_prompt m recs) of
        Inr (Some t, name) \<Rightarrow> if t = [] then (template_synthesis m recs, None) else (t, name)
      | _ \<Rightarrow> (template_synthesis m recs, None))"

text \<open>
  The task commits the report; \<open>emit_notification\<close>, which it imports then, does not exist in
  \<open>notification_emitter.py\<close>, and the \<open>ImportError\<close> is swallowed.
\<close>

definition new_weekly_report :: "text_model \<Rightarrow> store \<Rightarrow> weekly_report" where
  "new_weekly_report ask s =
     (let week_start = now s - days 7; m = collect_metrics s week_start (now s);
          recs = collect_recommendations s; syn = generate_synthesis ask m recs
      in \<lparr>wr_id = next_uuid s, wr_week_start = week_start, wr_week_end = now s,
          wr_metrics_json = metrics_json m, wr_recommendations_json = JList (map recommendation_json recs),
          wr_synthesis_text = Some (fst syn), wr_synthesis_model = snd syn, wr_created_at = now s\<rparr>)"

definition task_weekly_report :: "text_model \<Rightarrow> store \<Rightarrow> uuid \<times> store" where
  "task_weekly_report ask s = (next_uuid s,
     tick_uuid (s\<lparr>weekly_reports := weekly_reports s @ [new_weekly_report ask s]\<rparr>))"

definition weekly_report_json :: "weekly_report \<Rightarrow> json" where
  "weekly_report_json r = JObj [(''id'', JStr (uuid_str (wr_id r))),
     (''week_start'', JStr (isoformat (wr_week_start r))), (''week_end'', JStr (isoformat (wr_week_end r))),
     (''metrics'', wr_metrics_json r), (''recommendations'', wr_recommendations_json r),
     (''synthesis'', jstr (wr_synthesis_text r)), (''synthesis_model'', jstr (wr_synthesis_model r)),
     (''created_at'', JStr (isoformat (wr_created_at r)))]"

definition get_weekly_reports :: "nat \<Rightarrow> store \<Rightarrow> json list" where
  "get_weekly_reports n s = map weekly_report_json
     (take n (sort_key (\<lambda>r. - wr_created_at r) (weekly_reports s)))"


section \<open>Counting is right\<close>

definition stats_at :: "(string \<times> outcome_stats) list \<Rightarrow> string \<Rightarrow> outcome_stats" where
  "stats_at acc k = (case map_of acc k of None \<Rightarrow> no_outcomes | Some st \<Rightarrow> st)"

definition settled_outcomes :: "(string \<times> string) list \<Rightarrow> bool" where
  "settled_outcomes evs = (\<forall>e\<in>set evs. snd e = ''won'' \<or> snd e = ''lost'')"

text \<open>\<open>n\<close> occurrences more of won and lost in \<open>evs\<close> for the group \<open>k\<close>.\<close>

definition plus_events :: "(string \<times> string) list \<Rightarrow> string \<Rightarrow> outcome_stats \<Rightarrow> outcome_stats" where
  "plus_events evs k st = \<lparr>os_won = os_won st + count_list evs (k, ''won''),
     os_lost = os_lost st + count_list evs (k, ''lost''),
     os_total = os_total st + count_list (map fst evs) k\<rparr>"

lemma stats_at_update: "stats_at (AList.update k st acc) j = (if j = k then st else stats_at acc j)"
  by (simp add: stats_at_def update_conv')

lemma tally_step:
  assumes "out = ''won'' \<or> out = ''lost''"
  obtains st where "count_outcome label out (stats_at acc k) = Inr st"
    "st\<lparr>os_total := os_total st + 1\<rparr> = plus_events [(k, out)] k (stats_at acc k)"
  using assms by (auto simp: count_outcome_def plus_events_def)

lemma tally_right:
  assumes "settled_outcomes evs" "distinct (map fst acc)"
  shows "\<exists>al. tally label evs acc = Inr al \<and> distinct (map fst al)
    \<and> set (map fst al) = set (map fst acc) \<union> fst ` set evs
    \<and> (\<forall>k. stats_at al k = plus_events evs k (stats_at acc k))"
  using assms
proof (induction evs arbitrary: acc)
  case Nil
  then show ?case by (simp add: plus_events_def)
next
  case (Cons e evs)
  obtain k out where e: "e = (k, out)" by (cases e)
  from Cons.prems e have o: "out = ''won'' \<or> out = ''lost''" and r: "settled_outcomes evs"
    by (auto simp: settled_outcomes_def)
  obtain st where st: "count_outcome label out (stats_at acc k) = Inr st"
    "st\<lparr>os_total := os_total st + 1\<rparr> = plus_events [(k, out)] k (stats_at acc k)"
    by (rule tally_step [OF o])
  let ?acc = "AList.update k (plus_events [(k, out)] k (stats_at acc k)) acc"
  have d: "distinct (map fst ?acc)" using Cons.prems(2) by (simp add: distinct_update)
  have k: "fst ` set ?acc = insert k (fst ` set acc)"
    by (simp add: dom_update)
  have t: "tally label (e # evs) acc = tally label evs ?acc"
    using st by (simp add: e Let_def stats_at_def)
  from Cons.IH [OF r d] obtain al where al: "tally label evs ?acc = Inr al" "distinct (map fst al)"
    "set (map fst al) = set (map fst ?acc) \<union> fst ` set evs"
    "\<And>j. stats_at al j = plus_events evs j (stats_at ?acc j)" by blast
  have "stats_at al j = plus_events (e # evs) j (stats_at acc j)" for j
    using o by (auto simp: al(4) stats_at_update e plus_events_def)
  then show ?case using al(1-3) t k by (auto simp: e)
qed

definition group_report :: "(string \<times> string) list \<Rightarrow> outcome_row list \<Rightarrow> bool" where
  "group_report evs rows \<longleftrightarrow> distinct (map or_key rows) \<and> set (map or_key rows) = fst ` set evs
     \<and> (\<forall>r\<in>set rows. os_won (or_stats r) = count_list evs (or_key r, ''won'')
          \<and> os_lost (or_stats r) = count_list evs (or_key r, ''lost'')
          \<and> os_total (or_stats r) = os_won (or_stats r) + os_lost (or_stats r)
          \<and> or_win_rate r = round_digits 2 (of_nat (os_won (or_stats r)) / of_nat (os_total (or_stats r)))
          \<and> 0 \<le> or_win_rate r \<and> or_win_rate r \<le> 1)
     \<and> sorted (map (\<lambda>r. - or_win_rate r) rows)"

lemma count_fst:
  "settled_outcomes evs \<Longrightarrow> count_list (map fst evs) k = count_list evs (k, ''won'') + count_list evs (k, ''lost'')"
  by (induction evs) (auto simp: settled_outcomes_def)

lemma group_report_tally:
  assumes "settled_outcomes evs" "mset rows = mset (map outcome_row_of (al :: (string \<times> outcome_stats) list))"
    "sorted (map (\<lambda>r. - or_win_rate r) rows)" "tally label evs [] = Inr al"
  shows "group_report evs rows"
proof -
  from tally_right [OF assms(1), of "[]" label] assms(4)
  have al: "distinct (map fst al)" "set (map fst al) = fst ` set evs"
    "\<And>k. stats_at al k = plus_events evs k (stats_at [] k)" by auto
  have keys: "mset (map or_key rows) = mset (map fst al)"
  proof -
    have "mset (map or_key rows) = mset (map or_key (map outcome_row_of al))"
      using assms(2) by (metis mset_map)
    also have "map or_key (map outcome_row_of al) = map fst al"
      by (simp add: outcome_row_of_def case_prod_beta comp_def)
    finally show ?thesis .
  qed
  have each: "\<exists>k. r = outcome_row_of (k, plus_events evs k no_outcomes) \<and> k \<in> fst ` set evs"
    if r: "r \<in> set rows" for r
  proof -
    from r assms(2) obtain k st where p: "(k, st) \<in> set al" "r = outcome_row_of (k, st)"
      by (metis (no_types, opaque_lifting) image_iff list.set_map mset_eq_setD prod.collapse)
    from p(1) al(1) have "map_of al k = Some st" by simp
    then have "st = plus_events evs k no_outcomes" using al(3) [of k] by (simp add: stats_at_def)
    then show ?thesis using p al(2) by (metis fst_conv image_eqI list.set_map)
  qed
  have one: "os_won (or_stats r) = count_list evs (or_key r, ''won'')
      \<and> os_lost (or_stats r) = count_list evs (or_key r, ''lost'')
      \<and> os_total (or_stats r) = os_won (or_stats r) + os_lost (or_stats r)
      \<and> or_win_rate r = round_digits 2 (of_nat (os_won (or_stats r)) / of_nat (os_total (or_stats r)))
      \<and> 0 \<le> or_win_rate r \<and> or_win_rate r \<le> 1" if r: "r \<in> set rows" for r
  proof -
    from each [OF r] obtain k where k: "r = outcome_row_of (k, plus_events evs k no_outcomes)" "k \<in> fst ` set evs"
      by blast
    have t: "0 < count_list (map fst evs) k" using k(2) by (simp add: count_list_0_iff) (metis count_list_0_iff gr_zeroI list.set_map)
    have "round_digits 2 (of_nat a / of_nat (a + b)) \<in> {0..1}" if "0 < a + b" for a b :: nat
      using that round_digits_range [of 0 "of_nat a / of_nat (a + b)" 1 2] by (simp add: divide_le_eq)
    from this [of "count_list evs (k, ''won'')" "count_list evs (k, ''lost'')"] t
    show ?thesis by (simp add: k outcome_row_of_def win_rate_of_def plus_events_def no_outcomes_def
        count_fst [OF assms(1)])
  qed
  have "distinct (map or_key rows)" using keys al(1) by (metis mset_eq_imp_distinct_iff)
  moreover have "set (map or_key rows) = fst ` set evs" using keys al(2) by (metis mset_eq_setD)
  ultimately show ?thesis unfolding group_report_def using one assms(3) by blast
qed


lemma best_first_order:
  "mset (best_first rows) = mset rows" "sorted (map (\<lambda>r. - or_win_rate r) (best_first rows))"
  by (simp_all add: best_first_def)

lemma tally_total: "settled_outcomes evs \<Longrightarrow> \<exists>al. tally label evs [] = Inr al"
  using tally_right [of evs "[]" label] by auto

lemma reported:
  assumes "settled_outcomes evs"
    and "\<And>al. mset (order (map outcome_row_of al)) = mset (map outcome_row_of al)"
    and "\<And>al. sorted (map (\<lambda>r. - or_win_rate r) (order (map outcome_row_of al)))"
  shows "\<exists>rows. map_sum id (\<lambda>al. order (map outcome_row_of al)) (tally label evs []) = Inr rows
    \<and> group_report evs rows"
  using tally_total [OF assms(1), of label] group_report_tally [OF assms(1) assms(2,3), where label = label]
  by auto

definition outcomes_settled :: "store \<Rightarrow> bool" where
  "outcomes_settled s = (\<forall>x\<in>set (snapshots s). snap_outcome x = ''won'' \<or> snap_outcome x = ''lost'')"

lemma settled_events:
  assumes "outcomes_settled s"
  shows "settled_outcomes (concat (map signal_events (snapshots s)))"
    "settled_outcomes (map (\<lambda>x. (f x, snap_outcome x)) (snapshots s))"
  using assms by (auto simp: settled_outcomes_def outcomes_settled_def signal_events_def)

text \<open>
  The outcome analyses count right.  When every snapshot is of a won or a lost lead, none of
  them raises; each group of signals, qualities or industries that occurs has exactly one row, its
  won and lost counters are the numbers of its occurrences with that outcome and add up to the
  total, its rate is their rounded quotient and lies in 0..1, and the rows come best first.
\<close>

theorem outcome_analyses_count:
  assumes "outcomes_settled s"
  shows "(\<exists>rows. analyze_signal_correlations s = Inr rows
           \<and> group_report (concat (map signal_events (snapshots s))) rows)
    \<and> (\<exists>rows. analyze_quality_accuracy s = Inr rows
           \<and> group_report (map (\<lambda>x. (or_unknown (snap_lead_quality x), snap_outcome x)) (snapshots s)) rows)
    \<and> (\<exists>rows. analyze_industry_performance s = Inr rows
           \<and> group_report (map (\<lambda>x. (or_unknown (snap_industry x), snap_outcome x)) (snapshots s)) rows)"
proof (intro conjI)
  note evs = settled_events [OF assms]
  show "\<exists>rows. analyze_signal_correlations s = Inr rows
      \<and> group_report (concat (map signal_events (snapshots s))) rows"
    unfolding analyze_signal_correlations_def by (rule reported [OF evs(1)]) (simp_all only: best_first_order)
  show "\<exists>rows. analyze_quality_accuracy s = Inr rows
      \<and> group_report (map (\<lambda>x. (or_unknown (snap_lead_quality x), snap_outcome x)) (snapshots s)) rows"
    unfolding analyze_quality_accuracy_def by (rule reported [OF evs(2)]) simp_all
  show "\<exists>rows. analyze_industry_performance s = Inr rows
      \<and> group_report (map (\<lambda>x. (or_unknown (snap_industry x), snap_outcome x)) (snapshots s)) rows"
    unfolding analyze_industry_performance_def
    by (rule reported [OF evs(2)]) (simp_all only: best_first_order)
qed

lemma signal_rows:
  assumes "outcomes_settled s" "analyze_signal_correlations s = Inr rows"
  shows "group_report (concat (map signal_events (snapshots s))) rows"
proof -
  have "\<exists>rows. analyze_signal_correlations s = Inr rows
      \<and> group_report (concat (map signal_events (snapshots s))) rows"
    unfolding analyze_signal_correlations_def
    by (rule reported [OF settled_events(1) [OF assms(1)]]) (simp_all only: best_first_order)
  then show ?thesis using assms(2) by auto
qed

definition weight_types :: "string set" where
  "weight_types = {''increase_weight'', ''decrease_weight''}"

lemma weight_recommended:
  assumes "r \<in> set (signal_recommendation avg row)"
  shows "rec_signal r = Some (or_key row) \<and> 5 \<le> os_total (or_stats row)
    \<and> (rec_type r = ''increase_weight'' \<longleftrightarrow> 15 / 100 < or_win_rate row - avg)
    \<and> (rec_type r = ''decrease_weight'' \<longleftrightarrow> or_win_rate row - avg < - (15 / 100))"
  using assms by (auto simp: signal_recommendation_def Let_def split: if_splits)

lemma other_recommendations:
  "r \<in> set (industry_recommendation avg row) \<Longrightarrow> rec_type r \<notin> weight_types"
  "r \<in> set (correction_recommendation c) \<Longrightarrow> rec_type r \<notin> weight_types"
  "rec_type (insufficient_data sm) \<notin> weight_types"
  by (auto simp: industry_recommendation_def correction_recommendation_def insufficient_data_def
      weight_types_def Let_def split: if_splits prod.splits)

text \<open>
  Advice on the weights of the score is supported by data.  Whenever it says to raise or to lower
  the weight of a signal there are at least fifty outcomes and five occurrences of the signal, and
  the rounded rate of won leads among those is above (below) the average by more than 15 points;
  so no signal is ever to be raised and lowered at once.
\<close>

theorem weight_advice_supported:
  assumes "outcomes_settled s" "r \<in> set (collect_recommendations s)" "rec_type r \<in> weight_types"
  defines "evs \<equiv> concat (map signal_events (snapshots s))"
  shows "\<exists>k. rec_signal r = Some k \<and> 50 \<le> length (snapshots s)
    \<and> 5 \<le> count_list evs (k, ''won'') + count_list evs (k, ''lost'')
    \<and> (let rate = round_digits 2 (of_nat (count_list evs (k, ''won''))
              / of_nat (count_list evs (k, ''won'') + count_list evs (k, ''lost'')));
            avg = sum_win_rate (get_outcome_summary s)
        in (rec_type r = ''increase_weight'' \<longleftrightarrow> 15 / 100 < rate - avg)
           \<and> (rec_type r = ''decrease_weight'' \<longleftrightarrow> rate - avg < - (15 / 100)))"
proof -
  let ?avg = "sum_win_rate (get_outcome_summary s)"
  have enough: "sum_sufficient_data (get_outcome_summary s)"
    using assms(2,3) other_recommendations(3)
    by (auto simp: collect_recommendations_def generate_scoring_recommendations_def Let_def split: if_splits)
  then obtain rows inds where rows: "analyze_signal_correlations s = Inr rows"
    "r \<in> set (concat (map (signal_recommendation ?avg) rows)
       @ concat (map (industry_recommendation ?avg) inds) @ correction_recommendations s)"
    using assms(2)
    by (auto simp: collect_recommendations_def generate_scoring_recommendations_def Let_def split: sum.splits)
  then obtain row where row: "row \<in> set rows" "r \<in> set (signal_recommendation ?avg row)"
    using assms(3) other_recommendations(1,2) by (auto simp: correction_recommendations_def)
  have "50 \<le> length (snapshots s)"
    using enough by (auto simp: get_outcome_summary_def Let_def split: if_splits)
  moreover note weight_recommended [OF row(2)]
  moreover have "group_report evs rows" unfolding evs_def by (rule signal_rows [OF assms(1) rows(1)])
  ultimately show ?thesis using row(1) by (auto simp: group_report_def Let_def)
qed

section \<open>The report is stored\<close>

lemma sort_key_first:
  fixes f :: "'r \<Rightarrow> 'm::linorder"
  shows "\<forall>x\<in>set xs. f r < f x \<Longrightarrow> sort_key f (xs @ [r]) = r # sort_key f xs"
  by (induction xs) (auto simp: not_le)

text \<open>
  A weekly report is always stored, whatever the model answers: exactly one row is added, with the
  metrics of the seven days before, the recommendations and a text that is never empty (the
  model's, or the template's and then without a model), nothing else changes, and the operator is
  not notified.  Once it is the newest, it is the one the office shows.
\<close>

theorem weekly_report_effect:
  "task_weekly_report ask s = (k, s') \<Longrightarrow> (\<forall>r\<in>set (weekly_reports s). wr_created_at r < now s) \<Longrightarrow>
   (\<exists>r. s' = s\<lparr>weekly_reports := weekly_reports s @ [r], next_uuid := Suc (next_uuid s)\<rparr>
     \<and> wr_id r = k \<and> wr_week_start r = now s - days 7 \<and> wr_week_end r = now s
     \<and> wr_metrics_json r = metrics_json (collect_metrics s (now s - days 7) (now s))
     \<and> (\<exists>t. wr_synthesis_text r = Some t \<and> t \<noteq> [])
     \<and> get_weekly_reports 1 s' = [weekly_report_json r])"
proof -
  assume h: "task_weekly_report ask s = (k, s')" "\<forall>r\<in>set (weekly_reports s). wr_created_at r < now s"
  let ?r = "new_weekly_report ask s"
  have syn: "\<exists>t. wr_synthesis_text ?r = Some t \<and> t \<noteq> []"
    by (auto simp: new_weekly_report_def Let_def generate_synthesis_def template_synthesis_def
        split: sum.splits option.splits prod.splits)
  have "sort_key (\<lambda>r. - wr_created_at r) (weekly_reports s @ [?r])
      = ?r # sort_key (\<lambda>r. - wr_created_at r) (weekly_reports s)"
    using h(2) by (intro sort_key_first) (simp add: new_weekly_report_def Let_def)
  then show ?thesis using h(1) syn
    by (intro exI [of _ ?r]) (auto simp: task_weekly_report_def tick_uuid_def get_weekly_reports_def
        new_weekly_report_def Let_def)
qed

end
