(* ===== verification/Json_Read.thy ===== *)
theory Json_Read
  imports Pipeline_Context Web_Text "HOL-Library.Monad_Syntax"
begin

text \<open>
  \<open>json.loads\<close>, which reads what the language models write and what the JSON columns hold, and
  the round trip with \<open>json.dumps\<close>.  An escaped character above code point 255 is read as a
  question mark, a number with a fraction or an exponent as the exact rational, and \<open>NaN\<close> and the
  infinities are refused; the limits of the interpreter on depth and digits are not modelled.
\<close>

section \<open>Tokens\<close>

definition json_ws :: "char \<Rightarrow> bool" where
  "json_ws c = (ord_of c \<in> {9, 10, 13, 32})"

definition skip_ws :: "string \<Rightarrow> string" where
  "skip_ws s = dropWhile json_ws s"

definition accept :: "char \<Rightarrow> string \<Rightarrow> string option" where
  "accept c s = (case s of [] \<Rightarrow> None | d # r \<Rightarrow> if d = c then Some r else None)"

definition hex_char :: "char \<Rightarrow> bool" where
  "hex_char c = (let n = ord_of c in 48 \<le> n \<and> n \<le> 57 \<or> 65 \<le> n \<and> n \<le> 70 \<or> 97 \<le> n \<and> n \<le> 102)"

definition hex_code :: "string \<Rightarrow> nat" where
  "hex_code s = foldl (\<lambda>a c. 16 * a + hex_value (lower_char c)) 0 s"

definition simple_escape :: "char \<Rightarrow> char option" where
  "simple_escape e = map_of [(CHR 34, CHR 34), (CHR 92, CHR 92), (CHR ''/'', CHR ''/''), (CHR ''b'', CHR 8),
     (CHR ''f'', CHR 12), (CHR ''n'', CHR 10), (CHR ''r'', CHR 13), (CHR ''t'', CHR 9)] e"

text \<open>The four digits after \<open>\u\<close>; a low surrogate behind a high one belongs to the same character.\<close>

definition low_surrogate :: "string \<Rightarrow> bool" where
  "low_surrogate s = (starts_with [CHR 92, CHR ''u''] s \<and> length s \<ge> 6
     \<and> list_all hex_char (take 4 (drop 2 s))
     \<and> 56320 \<le> hex_code (take 4 (drop 2 s)) \<and> hex_code (take 4 (drop 2 s)) \<le> 57343)"

definition unicode_escape :: "string \<Rightarrow> (char \<times> string) option" where
  "unicode_escape s =
     (let h = take 4 s; n = hex_code h; r = drop 4 s in
      if length h < 4 \<or> \<not> list_all hex_char h then None
      else if n < 256 then Some (char_of n, r)
      else if 55296 \<le> n \<and> n \<le> 56319 \<and> low_surrogate r then Some (CHR ''?'', drop 6 r)
      else Some (CHR ''?'', r))"

lemma unicode_escape_shorter: "unicode_escape s = Some (d, r) \<Longrightarrow> length r < length s"
  by (auto simp: unicode_escape_def Let_def split: if_splits)

text \<open>A string after its opening quote, with what follows the closing one.\<close>

function json_text :: "string \<Rightarrow> (string \<times> string) option" where
  "json_text s = (case s of
     [] \<Rightarrow> None
   | c # r \<Rightarrow>
       if c = CHR 34 then Some ([], r)
       else if c = CHR 92 then (case r of
           [] \<Rightarrow> None
         | e # t \<Rightarrow>
             if e = CHR ''u'' then (case unicode_escape t of
                 None \<Rightarrow> None
               | Some (d, u) \<Rightarrow> map_option (apfst (Cons d)) (json_text u))
             else (case simple_escape e of
                 None \<Rightarrow> None
               | Some d \<Rightarrow> map_option (apfst (Cons d)) (json_text t)))
       else if ord_of c < 32 then None
       else map_option (apfst (Cons c)) (json_text r))"
  by pat_completeness auto
termination
  by (relation "measure length") (auto dest: unicode_escape_shorter)

declare json_text.simps [simp del]

lemma map_Cons_eq_Some:
  "map_option (apfst (Cons d)) x = Some (t, r) \<longleftrightarrow> (\<exists>t'. x = Some (t', r) \<and> t = d # t')"
  by (cases x) auto

lemma json_text_shorter: "json_text s = Some (t, r) \<Longrightarrow> length r < length s"
proof (induction "length s" arbitrary: s t rule: less_induct)
  case less
  then obtain c u where s: "s = c # u" by (cases s) (simp_all add: json_text.simps [of "[]"])
  have step: "json_text v = Some (t', r) \<Longrightarrow> length v < length s \<Longrightarrow> length r < length s" for v t'
    using less.hyps [of v t'] by linarith
  consider "c = CHR 34" | e w where "c = CHR 92" "u = e # w" | "c \<noteq> CHR 34" "c \<noteq> CHR 92"
    using less.prems unfolding s by (subst (asm) json_text.simps) (cases u; force split: if_splits)
  then show ?case
  proof cases
    case 1
    with less.prems show ?thesis unfolding s by (subst (asm) json_text.simps) simp
  next
    case (2 e w)
    with less.prems have "(\<exists>d v t'. e = CHR ''u'' \<and> unicode_escape w = Some (d, v) \<and> json_text v = Some (t', r))
        \<or> (\<exists>t'. json_text w = Some (t', r))"
      unfolding s by (subst (asm) json_text.simps)
        (auto simp: map_Cons_eq_Some split: if_splits option.splits)
    then show ?thesis
    proof (elim disjE exE conjE)
      fix d v t' assume "unicode_escape w = Some (d, v)" "json_text v = Some (t', r)"
      with step [of v t'] 2 show ?thesis by (auto simp: s dest: unicode_escape_shorter)
    next
      fix t' assume "json_text w = Some (t', r)"
      with step [of w t'] 2 show ?thesis by (simp add: s)
    qed
  next
    case 3
    with less.prems obtain t' where "json_text u = Some (t', r)"
      unfolding s by (subst (asm) json_text.simps) (auto simp: map_Cons_eq_Some split: if_splits)
    with step [of u t'] show ?thesis by (simp add: s)
  qed
qed

definition json_literal :: "string \<Rightarrow> (json \<times> string) option" where
  "json_literal s =
     (if starts_with ''null'' s then Some (JNull, drop 4 s)
      else if starts_with ''true'' s then Some (JBool True, drop 4 s)
      else if starts_with ''false'' s then Some (JBool False, drop 5 s)
      else None)"

text \<open>The number pattern: sign, integer part without leading zeros, fraction, exponent.\<close>

definition integer_part :: "string \<Rightarrow> string" where
  "integer_part s = (if starts_with ''0'' s then ''0'' else takeWhile ascii_digit s)"

definition fraction_part :: "string \<Rightarrow> string" where
  "fraction_part s = (case accept (CHR ''.'') s of None \<Rightarrow> [] | Some r \<Rightarrow> takeWhile ascii_digit r)"

definition exponent_part :: "string \<Rightarrow> (bool \<times> string \<times> string) option" where
  "exponent_part s = (case s of [] \<Rightarrow> None | e # r \<Rightarrow>
     if e \<noteq> CHR ''e'' \<and> e \<noteq> CHR ''E'' then None
     else let neg = starts_with ''-'' r; r1 = (if neg \<or> starts_with ''+'' r then tl r else r);
            ds = takeWhile ascii_digit r1
          in if ds = [] then None else Some (neg, ds, drop (length ds) r1))"

definition json_number :: "string \<Rightarrow> (json \<times> string) option" where
  "json_number s =
     (let neg = starts_with ''-'' s; s1 = (if neg then tl s else s);
          i = integer_part s1; s2 = drop (length i) s1;
          f = fraction_part s2; s3 = (if f = [] then s2 else drop (Suc (length f)) s2);
          sgn = (if neg then -1 else 1 :: int);
          m = of_int (sgn * digits_value (i @ f)) / 10 ^ length f
      in if i = [] then None
         else (case exponent_part s3 of
             None \<Rightarrow> Some (if f = [] then JInt (sgn * digits_value i) else JFloat m, s3)
           | Some (eneg, ds, s4) \<Rightarrow>
               Some (JFloat (if eneg then m / 10 ^ nat (digits_value ds)
                 else m * 10 ^ nat (digits_value ds)), s4)))"

section \<open>Values\<close>

text \<open>
  \<open>dict(pairs)\<close>: a repeated key keeps its place and takes the last value.  Every level of nesting
  takes two steps of the fuel and at least one character, so twice the length is enough.
\<close>

definition dict_of :: "(string \<times> json) list \<Rightarrow> (string \<times> json) list" where
  "dict_of kvs = fold (\<lambda>(k, v). assoc_set k v) kvs []"

fun json_value :: "nat \<Rightarrow> string \<Rightarrow> (json \<times> string) option"
  and json_elems :: "nat \<Rightarrow> string \<Rightarrow> (json list \<times> string) option"
  and json_pairs :: "nat \<Rightarrow> string \<Rightarrow> ((string \<times> json) list \<times> string) option" where
  "json_value 0 s = None"
| "json_value (Suc n) s = (case s of
     [] \<Rightarrow> None
   | c # r \<Rightarrow>
       if c = CHR 34 then map_option (apfst JStr) (json_text r)
       else if c = CHR ''{'' then (case accept (CHR ''}'') (skip_ws r) of
           Some r1 \<Rightarrow> Some (JObj [], r1)
         | None \<Rightarrow> do {
             q \<leftarrow> accept (CHR 34) (skip_ws r);
             (kvs, r1) \<leftarrow> json_pairs n q;
             Some (JObj (dict_of kvs), r1) })
       else if c = CHR ''['' then (case accept (CHR '']'') (skip_ws r) of
           Some r1 \<Rightarrow> Some (JList [], r1)
         | None \<Rightarrow> map_option (apfst JList) (json_elems n (skip_ws r)))
       else (case json_literal s of Some x \<Rightarrow> Some x | None \<Rightarrow> json_number s))"
| "json_elems 0 s = None"
| "json_elems (Suc n) s = do {
     (v, r1) \<leftarrow> json_value n s;
     case accept (CHR '']'') (skip_ws r1) of
       Some r2 \<Rightarrow> Some ([v], r2)
     | None \<Rightarrow> do {
         r2 \<leftarrow> accept (CHR '','') (skip_ws r1);
         (vs, r3) \<leftarrow> json_elems n (skip_ws r2);
         Some (v # vs, r3) } }"
| "json_pairs 0 s = None"
| "json_pairs (Suc n) s = do {
     (k, r1) \<leftarrow> json_text s;
     r2 \<leftarrow> accept (CHR '':'') (skip_ws r1);
     (v, r3) \<leftarrow> json_value n (skip_ws r2);
     case accept (CHR ''}'') (skip_ws r3) of
       Some r4 \<Rightarrow> Some ([(k, v)], r4)
     | None \<Rightarrow> do {
         r4 \<leftarrow> accept (CHR '','') (skip_ws r3);
         r5 \<leftarrow> accept (CHR 34) (skip_ws r4);
         (kvs, r6) \<leftarrow> json_pairs n r5;
         Some ((k, v) # kvs, r6) } }"

definition json_loads :: "string \<Rightarrow> json option" where
  "json_loads s = (case json_value (2 * length s + 1) (skip_ws s) of
     None \<Rightarrow> None
   | Some (v, r) \<Rightarrow> if skip_ws r = [] then Some v else None)"

section \<open>Enough fuel\<close>

lemma accept_Some_iff: "accept c s = Some r \<longleftrightarrow> s = c # r"
  by (cases s) (auto simp: accept_def)

lemma length_skip_ws: "length (skip_ws s) \<le> length s"
  by (simp add: skip_ws_def length_dropWhile_le)

lemma accept_skip_shorter: "accept c (skip_ws s) = Some r \<Longrightarrow> length r < length s"
  using length_skip_ws [of s] by (simp add: accept_Some_iff)

lemma json_literal_shorter: "json_literal s = Some (v, r) \<Longrightarrow> length r < length s"
  by (auto simp: json_literal_def starts_with_iff split: if_splits)

lemma json_number_shorter:
  assumes "json_number s = Some (v, r)"
  shows "length r < length s"
proof -
  define s1 where "s1 = (if starts_with ''-'' s then tl s else s)"
  define i where "i = integer_part s1"
  define s2 where "s2 = drop (length i) s1"
  define f where "f = fraction_part s2"
  define s3 where "s3 = (if f = [] then s2 else drop (Suc (length f)) s2)"
  have n: "i \<noteq> []" and r: "r = s3 \<or> (\<exists>x ds. exponent_part s3 = Some (x, ds, r))"
    using assms unfolding json_number_def Let_def
    by (auto simp: s1_def i_def s2_def f_def s3_def split: if_splits option.splits)
  have "i = ''0'' \<and> starts_with ''0'' s1 \<or> i = takeWhile ascii_digit s1"
    by (auto simp: i_def integer_part_def)
  with n have "s1 \<noteq> []" by auto
  with n have "length s2 < length s1" by (cases i) (simp_all add: s2_def)
  moreover have "length s1 \<le> length s" by (simp add: s1_def)
  moreover have "length s3 \<le> length s2" by (simp add: s3_def)
  moreover have "length r \<le> length s3"
    using r by (auto simp: exponent_part_def Let_def split: list.splits if_splits)
  ultimately show ?thesis by linarith
qed

lemma json_rest_shorter:
  "(\<forall>s v r. json_value n s = Some (v, r) \<longrightarrow> length r < length s)
   \<and> (\<forall>s vs r. json_elems n s = Some (vs, r) \<longrightarrow> length r < length s)
   \<and> (\<forall>s kvs r. json_pairs n s = Some (kvs, r) \<longrightarrow> length r < length s)"
proof (induction n)
  case (Suc n)
  have V: "json_value n s = Some (v, r) \<Longrightarrow> length r < length s"
    and E: "json_elems n s = Some (vs, r) \<Longrightarrow> length r < length s"
    and P: "json_pairs n s = Some (kvs, r) \<Longrightarrow> length r < length s" for s v vs kvs r
    using Suc by blast+
  have E': "json_elems n (skip_ws s) = Some (vs, r) \<Longrightarrow> length r < length s"
    and V': "json_value n (skip_ws s) = Some (v, r) \<Longrightarrow> length r < length s" for s v vs r
    using E [of "skip_ws s"] V [of "skip_ws s"] length_skip_ws [of s] by fastforce+
  have "json_value (Suc n) s = Some (v, r) \<Longrightarrow> length r < length s" for s v r
    by (cases s) (auto split: if_splits option.splits bind_splits
        dest!: json_text_shorter json_literal_shorter json_number_shorter accept_skip_shorter E' P)
  moreover have "json_elems (Suc n) s = Some (vs, r) \<Longrightarrow> length r < length s" for s vs r
    by (auto split: option.splits bind_splits dest!: accept_skip_shorter V E')
  moreover have "json_pairs (Suc n) s = Some (kvs, r) \<Longrightarrow> length r < length s" for s kvs r
    by (auto split: option.splits bind_splits dest!: json_text_shorter accept_skip_shorter V' P)
  ultimately show ?case by blast
qed simp

lemma json_value_shorter: "json_value n s = Some (v, r) \<Longrightarrow> length r < length s"
  using json_rest_shorter by blast

text \<open>Above the bound the result does not depend on the fuel, so running out of it never shows.\<close>

lemma json_fuel_enough:
  "(\<forall>m s. 2 * length s < n \<and> 2 * length s < m \<longrightarrow> json_value n s = json_value m s)
   \<and> (\<forall>m s. 2 * length s + 1 < n \<and> 2 * length s + 1 < m \<longrightarrow> json_elems n s = json_elems m s)
   \<and> (\<forall>m s. 2 * length s < n \<and> 2 * length s < m \<longrightarrow> json_pairs n s = json_pairs m s)"
proof (induction n)
  case (Suc n)
  have V: "2 * length s < n \<Longrightarrow> 2 * length s < m \<Longrightarrow> json_value n s = json_value m s"
    and E: "2 * length s + 1 < n \<Longrightarrow> 2 * length s + 1 < m \<Longrightarrow> json_elems n s = json_elems m s"
    and P: "2 * length s < n \<Longrightarrow> 2 * length s < m \<Longrightarrow> json_pairs n s = json_pairs m s" for m s
    using Suc by blast+
  have A: "json_value (Suc n) s = json_value (Suc m) s"
    if "2 * length s < Suc n" "2 * length s < Suc m" for m s
  proof (cases s)
    case (Cons c t)
    have "json_elems n (skip_ws t) = json_elems m (skip_ws t)"
      using that Cons length_skip_ws [of t] by (intro E) auto
    moreover have "accept (CHR 34) (skip_ws t) = Some q \<Longrightarrow> json_pairs n q = json_pairs m q" for q
      using that Cons by (intro P) (auto dest: accept_skip_shorter)
    ultimately show ?thesis
      by (simp add: Cons cong: option.case_cong if_cong Option.bind_cong)
  qed simp
  have B: "json_elems (Suc n) s = json_elems (Suc m) s"
    if b: "2 * length s + 1 < Suc n" "2 * length s + 1 < Suc m" for m s
  proof -
    have "json_value n s = json_value m s" using b by (intro V) auto
    moreover have "json_elems n (skip_ws q) = json_elems m (skip_ws q)"
      if q: "json_value m s = Some (v, r)" "accept (CHR '','') (skip_ws r) = Some q" for v r q
    proof (rule E)
      have "length q < length r" "length r < length s"
        using q by (auto dest: accept_skip_shorter json_value_shorter)
      then show "2 * length (skip_ws q) + 1 < n" "2 * length (skip_ws q) + 1 < m"
        using length_skip_ws [of q] b by linarith+
    qed
    ultimately show ?thesis
      by (cases "json_value m s") (auto intro!: Option.bind_cong split: option.split)
  qed
  have C: "json_pairs (Suc n) s = json_pairs (Suc m) s"
    if b: "2 * length s < Suc n" "2 * length s < Suc m" for m s
  proof -
    have v: "json_value n (skip_ws q) = json_value m (skip_ws q)"
      if q: "json_text s = Some (k, r)" "accept (CHR '':'') (skip_ws r) = Some q" for k r q
    proof (rule V)
      have "length q < length r" "length r < length s"
        using q by (auto dest: accept_skip_shorter json_text_shorter)
      then show "2 * length (skip_ws q) < n" "2 * length (skip_ws q) < m"
        using length_skip_ws [of q] b by linarith+
    qed
    have p: "json_pairs n z = json_pairs m z"
      if q: "json_text s = Some (k, r)" "accept (CHR '':'') (skip_ws r) = Some q"
        "json_value m (skip_ws q) = Some (v, u)" "accept (CHR '','') (skip_ws u) = Some w"
        "accept (CHR 34) (skip_ws w) = Some z" for k r q v u w z
    proof (rule P)
      have "length z < length w" "length w < length u" "length u < length (skip_ws q)"
        "length q < length r" "length r < length s"
        using q by (auto dest: accept_skip_shorter json_text_shorter json_value_shorter)
      then show "2 * length z < n" "2 * length z < m"
        using length_skip_ws [of q] b by linarith+
    qed
    show ?thesis
    proof (cases "json_text s")
      case (Some kr)
      then obtain k r where k: "json_text s = Some (k, r)" by (cases kr) auto
      show ?thesis
      proof (cases "accept (CHR '':'') (skip_ws r)")
        case (Some q)
        note v' = v [OF k Some] and p' = p [OF k Some]
        show ?thesis
        proof (cases "json_value m (skip_ws q)")
          case (Some vu)
          then obtain v u where w: "json_value m (skip_ws q) = Some (v, u)" by (cases vu) auto
          show ?thesis
            using p' [OF w] \<open>accept (CHR '':'') (skip_ws r) = Some q\<close>
            by (cases "accept (CHR '','') (skip_ws u)"; cases "accept (CHR ''}'') (skip_ws u)")
              (auto simp: k v' w intro!: Option.bind_cong)
        qed (simp add: k Some v')
      qed (simp add: k)
    qed simp
  qed
  have pos: "m = Suc (m - 1)" if "k < m" for k m :: nat using that by simp
  show ?case
  proof (intro conjI allI impI; elim conjE)
    fix m and s :: string assume "2 * length s < Suc n" "2 * length s < m"
    then show "json_value (Suc n) s = json_value m s" using A [of s "m - 1"] pos by simp
  next
    fix m and s :: string assume "2 * length s + 1 < Suc n" "2 * length s + 1 < m"
    then show "json_elems (Suc n) s = json_elems m s" using B [of s "m - 1"] pos by simp
  next
    fix m and s :: string assume "2 * length s < Suc n" "2 * length s < m"
    then show "json_pairs (Suc n) s = json_pairs m s" using C [of s "m - 1"] pos by simp
  qed
qed simp

section \<open>Round trip\<close>

text \<open>Documents without floats whose objects have no key twice, as every Python \<open>dict\<close> has.\<close>

fun json_plain :: "json \<Rightarrow> bool" where
  "json_plain (JFloat x) = False"
| "json_plain (JList js) = (\<forall>j \<in> set js. json_plain j)"
| "json_plain (JObj kvs) = (distinct (map fst kvs) \<and> (\<forall>kv \<in> set kvs. json_plain (snd kv)))"
| "json_plain j = True"

definition number_end :: "string \<Rightarrow> bool" where
  "number_end r = (case r of [] \<Rightarrow> True | c # t \<Rightarrow> \<not> ascii_digit c \<and> c \<notin> {CHR ''.'', CHR ''e'', CHR ''E''})"

lemma hex_value_lower_digit: "n < 16 \<Longrightarrow> hex_value (lower_char (hex_digit n)) = n"
  by (auto simp: hex_value_def hex_digit_def ord_of_def lower_char_def upper_code_def)

lemma hex_char_digit: "n < 16 \<Longrightarrow> hex_char (hex_digit n)"
  by (auto simp: hex_char_def hex_digit_def ord_of_def)

lemma hex4_code: "n < 256 \<Longrightarrow> hex_code (hex4 n) = n"
  by (simp add: hex_code_def hex4_def hex_value_lower_digit)

lemma unicode_escape_hex4: "unicode_escape (hex4 (ord_of c) @ t) = Some (c, t)"
proof -
  have "length (hex4 (ord_of c)) = 4" "list_all hex_char (hex4 (ord_of c))"
    by (simp_all add: hex4_def hex_char_digit)
  then show ?thesis
    using ord_of_less [of c] hex4_code [of "ord_of c"]
    by (simp add: unicode_escape_def Let_def) (simp add: ord_of_def)
qed

lemma json_text_escape:
  "json_text (escape_char c @ t) = map_option (apfst (Cons c)) (json_text t)"
proof -
  have u: "json_text ([CHR 92, CHR ''u''] @ hex4 (ord_of c) @ t)
      = map_option (apfst (Cons c)) (json_text t)"
    by (subst json_text.simps) (simp add: unicode_escape_hex4)
  have s: "json_text (CHR 92 # e # t) = map_option (apfst (Cons d)) (json_text t)"
    if "simple_escape e = Some d" "e \<noteq> CHR ''u''" for d e
    using that by (subst json_text.simps) simp
  show ?thesis
  proof (cases "ord_of c \<in> {34, 92, 10, 13, 9, 8, 12}")
    case True
    then have "ord_of c \<in> ord_of ` {CHR 34, CHR 92, CHR 10, CHR 13, CHR 9, CHR 8, CHR 12}"
      by (simp add: ord_of_def)
    then have "c \<in> {CHR 34, CHR 92, CHR 10, CHR 13, CHR 9, CHR 8, CHR 12}"
      by (auto simp: ord_of_eq_iff)
    then show ?thesis
      by (elim insertE emptyE) (simp_all add: escape_char_def s simple_escape_def ord_of_def)
  next
    case False
    show ?thesis
    proof (cases "32 \<le> ord_of c \<and> ord_of c \<le> 126")
      case True
      with False have "escape_char c = [c]" by (simp add: escape_char_def Let_def)
      moreover have "c \<noteq> CHR 34" "c \<noteq> CHR 92" using False by (auto simp: ord_of_def)
      ultimately show ?thesis using True by (subst json_text.simps) simp
    next
      case F2: False
      with False have "escape_char c = [CHR 92, CHR ''u''] @ hex4 (ord_of c)"
        by (simp add: escape_char_def Let_def)
      with u show ?thesis by simp
    qed
  qed
qed

lemma json_text_string: "json_text (concat (map escape_char s) @ CHR 34 # r) = Some (s, r)"
proof (induction s)
  case Nil
  then show ?case by (simp add: json_text.simps)
next
  case (Cons c s)
  then show ?case by (simp add: json_text_escape)
qed

lemma digit_rev_digits: "list_all ascii_digit (digit_rev n)"
proof (induction n rule: digit_rev.induct)
  case (1 n)
  then show ?case
    using mod_less_divisor [of 10 n]
    by (subst digit_rev.simps) (cases "n < 10"; simp add: ascii_digit_def [abs_def] ord_of_def; linarith)
qed

lemma nat_str_digits: "list_all ascii_digit (nat_str n)"
  using digit_rev_digits by (simp add: nat_str_def)

lemma digits_value_snoc: "digits_value (s @ [c]) = 10 * digits_value s + int (ord_of c - 48)"
  by (simp add: digits_value_def)

lemma digits_value_nat_str [simp]: "digits_value (nat_str n) = int n"
proof (induction n rule: digit_rev.induct)
  case (1 n)
  show ?case
  proof (cases "n < 10")
    case True
    then show ?thesis by (simp add: nat_str_def digit_rev.simps [of n] digits_value_def ord_of_def)
  next
    case False
    have "nat_str n = nat_str (n div 10) @ [char_of (48 + n mod 10)]"
      using False by (simp add: nat_str_def digit_rev.simps [of n])
    with 1 False have "digits_value (nat_str n) = 10 * int (n div 10) + int (n mod 10)"
      by (simp add: digits_value_snoc ord_of_def)
    also have "\<dots> = int n" by presburger
    finally show ?thesis .
  qed
qed

lemma nat_str_zero: "hd (nat_str n) = CHR ''0'' \<Longrightarrow> n = 0"
proof (induction n rule: digit_rev.induct)
  case (1 n)
  show ?case
  proof (cases "n < 10")
    case True
    with 1 have "char_of (48 + n) = CHR ''0''" by (simp add: nat_str_def digit_rev.simps [of n])
    then have "of_char (char_of (48 + n) :: char) = (48 :: nat)" by simp
    with True show ?thesis by simp
  next
    case False
    have "nat_str n = nat_str (n div 10) @ [char_of (48 + n mod 10)]"
      using False by (simp add: nat_str_def digit_rev.simps [of n])
    with 1 False have "n div 10 = 0" by simp
    with False show ?thesis by simp
  qed
qed



lemma takeWhile_number:
  "list_all ascii_digit ds \<Longrightarrow> number_end r \<Longrightarrow> takeWhile ascii_digit (ds @ r) = ds"
  by (induction ds) (auto simp: number_end_def split: list.splits)

lemma no_fraction: "number_end r \<Longrightarrow> fraction_part r = [] \<and> exponent_part r = None"
  by (cases r) (auto simp: number_end_def fraction_part_def exponent_part_def accept_def)

lemma integer_part_nat_str:
  assumes "number_end r"
  shows "integer_part (nat_str n @ r) = nat_str n"
proof (cases "n = 0")
  case True
  have "nat_str 0 = ''0''" by code_simp
  with True show ?thesis by (simp add: integer_part_def)
next
  case False
  then have "\<not> starts_with ''0'' (nat_str n @ r)"
    using nat_str_zero [of n] nat_str_nonempty [of n] by (cases "nat_str n") auto
  then show ?thesis using assms nat_str_digits by (simp add: integer_part_def takeWhile_number)
qed

lemma json_number_int_str:
  assumes "number_end r"
  shows "json_number (int_str n @ r) = Some (JInt n, r)"
proof -
  have d: "\<not> starts_with ''-'' (nat_str k @ r)" for k
    using nat_str_digits [of k] nat_str_nonempty [of k]
    by (cases "nat_str k") (auto simp: ascii_digit_def ord_of_def)
  show ?thesis
    by (simp add: json_number_def int_str_def integer_part_nat_str no_fraction assms d)
qed

lemma int_str_head:
  obtains c t where "int_str n = c # t" "c = CHR ''-'' \<or> ascii_digit c"
proof (cases "n < 0")
  case False
  with nat_str_digits [of "nat n"] nat_str_nonempty [of "nat n"] that show ?thesis
    by (cases "nat_str (nat n)") (auto simp: int_str_def)
qed (use that in \<open>simp add: int_str_def\<close>)

lemma dict_of_distinct: "distinct (map fst kvs) \<Longrightarrow> dict_of kvs = kvs"
proof -
  have app: "k \<notin> fst ` set acc \<Longrightarrow> assoc_set k v acc = acc @ [(k, v)]" for k v and acc :: "(string \<times> json) list"
    by (induction acc) auto
  have "fold (\<lambda>(k, v). assoc_set k v) kvs acc = acc @ kvs"
    if "distinct (map fst kvs)" "fst ` set kvs \<inter> fst ` set acc = {}" for acc
    using that
  proof (induction kvs arbitrary: acc)
    case (Cons kv kvs)
    then show ?case by (cases kv) (auto simp: app)
  qed simp
  then show "distinct (map fst kvs) \<Longrightarrow> dict_of kvs = kvs" by (simp add: dict_of_def)
qed

lemma not_number_start:
  assumes "c = CHR ''-'' \<or> ascii_digit c"
  shows "c \<notin> {CHR 34, CHR ''{'', CHR ''['', CHR ''n'', CHR ''t'', CHR ''f''}"
  using assms by (auto simp: ascii_digit_def ord_of_def)

lemma skip_ws_simps [simp]:
  "skip_ws [] = []" "skip_ws (c # s) = (if json_ws c then skip_ws s else c # s)"
  by (simp_all add: skip_ws_def)

lemma json_dumps_head:
  obtains c t where "json_dumps fr j = c # t" "\<not> json_ws c" "c \<noteq> CHR '']''" | x where "j = JFloat x"
proof (cases j)
  case (JInt n)
  obtain c t where "int_str n = c # t" "c = CHR ''-'' \<or> ascii_digit c" by (rule int_str_head)
  moreover from this(2) have "\<not> json_ws c" "c \<noteq> CHR '']''"
    by (auto simp: json_ws_def ascii_digit_def ord_of_def)
  ultimately show ?thesis using JInt that(1) by simp
next
  case (JBool b)
  show ?thesis
    by (rule that(1) [of "if b then CHR ''t'' else CHR ''f''" "if b then ''rue'' else ''alse''"])
      (simp_all add: JBool json_ws_def ord_of_def)
qed (use that in \<open>auto simp: json_string_def json_ws_def ord_of_def\<close>)

lemma skip_ws_dumps: "json_plain j \<Longrightarrow> skip_ws (json_dumps fr j @ r) = json_dumps fr j @ r"
  by (rule json_dumps_head [of fr j]) auto

lemma join_Cons: "join sep (x # xs) = x @ (if xs = [] then [] else sep @ join sep xs)"
  by (cases xs) simp_all

lemma join_items_head:
  assumes "\<forall>j \<in> set js. json_plain j" "js \<noteq> []"
  shows "skip_ws (join '', '' (json_items fr js) @ r) = join '', '' (json_items fr js) @ r
    \<and> accept (CHR '']'') (join '', '' (json_items fr js) @ r) = None"
proof (cases js)
  case (Cons j js')
  show ?thesis
  proof (rule json_dumps_head [of fr j])
    fix c t assume "json_dumps fr j = c # t" "\<not> json_ws c" "c \<noteq> CHR '']''"
    then show ?thesis by (simp add: Cons join_Cons accept_def)
  next
    fix x assume "j = JFloat x"
    with assms Cons show ?thesis by simp
  qed
qed (use assms in simp)

lemma join_members_head:
  "kvs \<noteq> [] \<Longrightarrow> \<exists>s. join '', '' (json_members fr kvs) = CHR 34 # s"
  by (cases kvs) (auto simp: join_Cons json_string_def)

lemma json_value_atoms:
  "json_value (Suc n) (''null'' @ r) = Some (JNull, r)"
  "json_value (Suc n) (''true'' @ r) = Some (JBool True, r)"
  "json_value (Suc n) (''false'' @ r) = Some (JBool False, r)"
  "json_value (Suc n) (json_string s @ r) = Some (JStr s, r)"
  by (simp_all add: json_literal_def json_string_def json_text_string)

lemma json_value_int:
  assumes "number_end r"
  shows "json_value (Suc n) (int_str k @ r) = Some (JInt k, r)"
proof -
  obtain c t where h: "int_str k = c # t" "c = CHR ''-'' \<or> ascii_digit c" by (rule int_str_head)
  have "json_literal (c # t @ r) = None"
    using not_number_start [OF h(2)] by (auto simp: json_literal_def)
  then show ?thesis
    using json_number_int_str [OF assms, of k] not_number_start [OF h(2)] by (simp add: h(1))
qed

lemma all_ge_Suc: "(\<forall>n \<ge> Suc N. P n) \<longleftrightarrow> (\<forall>n \<ge> N. P (Suc n))"
  by (metis Suc_le_D Suc_le_mono)

lemma json_read_back:
  "json_plain j \<Longrightarrow> \<exists>N. \<forall>n \<ge> N. \<forall>r. number_end r \<longrightarrow> json_value n (json_dumps fr j @ r) = Some (j, r)"
  "(\<forall>j \<in> set js. json_plain j) \<Longrightarrow> js \<noteq> [] \<Longrightarrow>
     \<exists>N. \<forall>n \<ge> N. \<forall>r. json_elems n (join '', '' (json_items fr js) @ CHR '']'' # r) = Some (js, r)"
  "(\<forall>kv \<in> set kvs. json_plain (snd kv)) \<Longrightarrow> kvs \<noteq> [] \<Longrightarrow>
     \<exists>N. \<forall>n \<ge> N. \<forall>r s. join '', '' (json_members fr kvs) = CHR 34 # s \<longrightarrow>
       json_pairs n (s @ CHR ''}'' # r) = Some (kvs, r)"
proof (induction fr j and fr js and fr kvs rule: json_dumps_json_items_json_members.induct)
  case (1 fr)
  show ?case by (rule exI [of _ "Suc 0"]) (auto simp del: json_value.simps
        simp: json_value_atoms [simplified append.simps] json_value_atoms(4) all_ge_Suc)
next
  case (2 fr b)
  show ?case by (rule exI [of _ "Suc 0"]) (auto simp del: json_value.simps
        simp: json_value_atoms [simplified append.simps] json_value_atoms(4) all_ge_Suc)
next
  case (3 fr n)
  show ?case by (rule exI [of _ "Suc 0"]) (auto simp del: json_value.simps simp: json_value_int all_ge_Suc)
next
  case (5 fr s)
  show ?case by (rule exI [of _ "Suc 0"]) (auto simp del: json_value.simps
        simp: json_value_atoms [simplified append.simps] json_value_atoms(4) all_ge_Suc)
next
  case (6 fr js)
  show ?case
  proof (cases "js = []")
    case True
    then show ?thesis
      by (intro exI [of _ "Suc 0"]) (auto simp: accept_def json_ws_def ord_of_def all_ge_Suc)
  next
    case False
    with 6 obtain N where N: "\<And>n r. N \<le> n \<Longrightarrow>
        json_elems n (join '', '' (json_items fr js) @ CHR '']'' # r) = Some (js, r)" by auto
    with join_items_head [of js fr] 6(2) False show ?thesis
      by (intro exI [of _ "Suc N"]) (auto simp: all_ge_Suc)
  qed
next
  case (7 fr kvs)
  show ?case
  proof (cases "kvs = []")
    case True
    then show ?thesis
      by (intro exI [of _ "Suc 0"]) (auto simp: accept_def json_ws_def ord_of_def all_ge_Suc)
  next
    case False
    from join_members_head [OF False, of fr] obtain s where
      s: "join '', '' (json_members fr kvs) = CHR 34 # s" by blast
    from 7 False obtain N where "\<forall>n \<ge> N. \<forall>r s. join '', '' (json_members fr kvs) = CHR 34 # s \<longrightarrow>
        json_pairs n (s @ CHR ''}'' # r) = Some (kvs, r)" by auto
    with s have N: "N \<le> n \<Longrightarrow> json_pairs n (s @ CHR ''}'' # r) = Some (kvs, r)" for n r by blast
    have "\<not> json_ws (CHR 34)" by (simp add: json_ws_def ord_of_def)
    with N 7(2) show ?thesis
      by (intro exI [of _ "Suc N"]) (auto simp: s accept_def dict_of_distinct all_ge_Suc)
  qed
next
  case (9 fr j js)
  have "json_plain j" using 9(3) by simp
  from 9(1) [OF this] obtain N where N: "N \<le> n \<Longrightarrow> number_end r \<Longrightarrow>
      json_value n (json_dumps fr j @ r) = Some (j, r)" for n r by blast
  have ws: "\<not> json_ws (CHR '']'')" "\<not> json_ws (CHR '','')" "json_ws (CHR '' '')"
    by (simp_all add: json_ws_def ord_of_def)
  have e: "number_end (CHR '']'' # r)" "number_end (CHR '','' # r)" for r
    by (simp_all add: number_end_def ascii_digit_def ord_of_def)
  show ?case
  proof (cases "js = []")
    case True
    with N e show ?thesis
      by (intro exI [of _ "Suc N"]) (auto simp: accept_def ws all_ge_Suc)
  next
    case False
    with 9(2,3) obtain M where M: "M \<le> n \<Longrightarrow>
        json_elems n (join '', '' (json_items fr js) @ CHR '']'' # r) = Some (js, r)" for n r
      by (metis list.set_intros(2))
    have i: "json_items fr js \<noteq> []" using False by (cases js) simp_all
    have "skip_ws (join '', '' (json_items fr js) @ r) = join '', '' (json_items fr js) @ r" for r
      using join_items_head [of js fr r] 9(3) False by simp
    with N M e i show ?thesis
      by (intro exI [of _ "Suc (max N M)"]) (auto simp: accept_def ws join_Cons all_ge_Suc)
  qed
next
  case (11 fr k j kvs)
  have "json_plain j" using 11(3) by simp
  from 11(1) [OF this] obtain N where N: "N \<le> n \<Longrightarrow> number_end r \<Longrightarrow>
      json_value n (json_dumps fr j @ r) = Some (j, r)" for n r by blast
  have ws: "\<not> json_ws (CHR ''}'')" "\<not> json_ws (CHR '','')" "json_ws (CHR '' '')" "\<not> json_ws (CHR '':'')"
      "\<not> json_ws (CHR 34)"
    by (simp_all add: json_ws_def ord_of_def)
  have e: "number_end (CHR ''}'' # r)" "number_end (CHR '','' # r)" for r
    by (simp_all add: number_end_def ascii_digit_def ord_of_def)
  have p: "skip_ws (json_dumps fr j @ r) = json_dumps fr j @ r" for r
    using 11(3) by (intro skip_ws_dumps) simp
  show ?case
  proof (cases "kvs = []")
    case True
    with N e show ?thesis
      by (intro exI [of _ "Suc N"])
        (auto simp: accept_def ws p json_string_def json_text_string all_ge_Suc)
  next
    case False
    with 11(2,3) obtain M where "\<forall>n \<ge> M. \<forall>r s. join '', '' (json_members fr kvs) = CHR 34 # s \<longrightarrow>
        json_pairs n (s @ CHR ''}'' # r) = Some (kvs, r)" by auto
    moreover from join_members_head [OF False, of fr] obtain s where
      s: "join '', '' (json_members fr kvs) = CHR 34 # s" by blast
    ultimately have M: "M \<le> n \<Longrightarrow> json_pairs n (s @ CHR ''}'' # r) = Some (kvs, r)" for n r by blast
    have i: "json_members fr kvs \<noteq> []" using False by (cases kvs) auto
    with N M e show ?thesis
      by (intro exI [of _ "Suc (max N M)"])
        (auto simp: accept_def ws p s join_Cons json_string_def json_text_string all_ge_Suc)
  qed
qed simp_all

lemma json_value_fuel:
  "2 * length s < n \<Longrightarrow> 2 * length s < m \<Longrightarrow> json_value n s = json_value m s"
  using json_fuel_enough by blast

declare json_value.simps [simp del]

lemma json_value_dumps:
  assumes "json_plain j" "number_end r" "2 * length (json_dumps fr j @ r) < n"
  shows "json_value n (json_dumps fr j @ r) = Some (j, r)"
proof -
  from json_read_back(1) [OF assms(1), of fr] obtain N where
    "\<forall>n \<ge> N. \<forall>r. number_end r \<longrightarrow> json_value n (json_dumps fr j @ r) = Some (j, r)" by blast
  with assms(2) have "json_value (max N n) (json_dumps fr j @ r) = Some (j, r)" by simp
  moreover have "json_value n (json_dumps fr j @ r) = json_value (max N n) (json_dumps fr j @ r)"
    using assms(3) by (intro json_value_fuel) simp_all
  ultimately show ?thesis by simp
qed

text \<open>
  Whatever document without floats is written to a JSON column or into a message is read back
  unchanged, escapes, nesting and the order of the members included.
\<close>

theorem json_roundtrip:
  assumes "json_plain j"
  shows "json_loads (json_dumps fr j) = Some j"
  using json_value_dumps [OF assms, of "[]" fr] skip_ws_dumps [OF assms, of fr "[]"]
  by (simp add: json_loads_def number_end_def)

theorem json_roundtrip_witness:
  "json_loads (json_dumps (\<lambda>x. []) (JObj [(''a'', JList [JInt (-12), JStr [CHR 10, CHR 34, CHR 200]]),
     (''b'', JNull)])) = Some (JObj [(''a'', JList [JInt (-12), JStr [CHR 10, CHR 34, CHR 200]]), (''b'', JNull)])"
  by (rule json_roundtrip) simp

end
