(* ===== verification/Agent_Format.thy ===== *)
theory Agent_Format
  imports Json_Read
begin

text \<open>
  What goes into and comes out of the agent's model: the sanitizer for external data
  (\<open>app/llm/sanitizer.py\<close>) and the format of tool calls and tool results
  (\<open>app/agent/hermes_format.py\<close>).
\<close>

section \<open>Patterns\<close>

text \<open>
  A pattern maps a text to the texts that may remain behind a match at its beginning, in the order
  in which the backtracking of \<open>re\<close> tries them; letters match in either case.
\<close>

type_synonym pattern = "string \<Rightarrow> string list"

definition lit :: "string \<Rightarrow> pattern" where
  "lit p s = (if lower (take (length p) s) = p then [drop (length p) s] else [])"

fun star :: "(char \<Rightarrow> bool) \<Rightarrow> pattern" where
  "star P [] = [[]]"
| "star P (c # s) = (if P c then star P s @ [c # s] else [c # s])"

definition plus1 :: "(char \<Rightarrow> bool) \<Rightarrow> pattern" where
  "plus1 P s = (case s of [] \<Rightarrow> [] | c # t \<Rightarrow> if P c then star P t else [])"

definition opt_char :: "char \<Rightarrow> pattern" where
  "opt_char d s = (case s of [] \<Rightarrow> [[]] | c # t \<Rightarrow> if c = d then [t, c # t] else [c # t])"

fun lazy_any :: "pattern" where
  "lazy_any [] = [[]]"
| "lazy_any (c # s) = (c # s) # lazy_any s"

fun seq :: "pattern list \<Rightarrow> pattern" where
  "seq [] s = [s]"
| "seq (m # ms) s = concat (map (seq ms) (m s))"

definition alt :: "pattern list \<Rightarrow> pattern" where
  "alt ms s = concat (map (\<lambda>m. m s) ms)"

definition first_match :: "pattern \<Rightarrow> string \<Rightarrow> string option" where
  "first_match m s = (case m s of [] \<Rightarrow> None | r # rs \<Rightarrow> Some r)"

text \<open>\<open>pattern.sub(text, s)\<close> for a pattern that matches no empty text.\<close>

function rx_sub :: "pattern \<Rightarrow> string \<Rightarrow> string \<Rightarrow> string" where
  "rx_sub m v s = (case s of
     [] \<Rightarrow> []
   | c # t \<Rightarrow> (case first_match m s of
       Some r \<Rightarrow> if length r < length s then v @ rx_sub m v r else c # rx_sub m v t
     | None \<Rightarrow> c # rx_sub m v t))"
  by pat_completeness auto
termination by (relation "measure (\<lambda>(m, v, s). length s)") auto

declare rx_sub.simps [simp del]

section \<open>Sanitizing external data\<close>

definition max_field_length :: nat where "max_field_length = 2000"
definition max_total_data_length :: nat where "max_total_data_length = 10000"

definition html_tag_re :: pattern where
  "html_tag_re = seq [lit ''<'', plus1 (\<lambda>c. c \<noteq> CHR ''>''), lit ''>'']"

definition script_re :: pattern where
  "script_re = seq [lit ''<script'', star (\<lambda>c. c \<noteq> CHR ''>''), lit ''>'', lazy_any, lit ''</script>'']"

definition style_re :: pattern where
  "style_re = seq [lit ''<style'', star (\<lambda>c. c \<noteq> CHR ''>''), lit ''>'', lazy_any, lit ''</style>'']"

definition sp1 :: pattern where "sp1 = plus1 py_space"
definition sp0 :: pattern where "sp0 = star py_space"

definition injection_patterns :: pattern where
  "injection_patterns = alt
     [seq [lit ''ignore'', sp1, alt [lit ''previous'', lit ''above'', lit ''all''], sp1, lit ''instructions''],
      seq [lit ''you'', sp1, lit ''are'', sp1, lit ''now'', sp1, lit ''a''],
      seq [lit ''disregard'', sp1, alt [lit ''all'', lit ''your''], sp1, lit ''previous''],
      seq [lit ''forget'', sp1, alt [lit ''everything'', lit ''all''], sp1, alt [lit ''you'', lit ''your'']],
      seq [lit ''system'', sp0, lit '':'', sp0, lit ''you'', sp1, lit ''are''],
      seq [lit ''<'', sp0, opt_char (CHR ''/''), sp0, lit ''system'', sp0, lit ''>''],
      seq [lit ''important:'', sp0, lit ''ignore'']]"

definition sanitize_field :: "string option \<Rightarrow> nat \<Rightarrow> string" where
  "sanitize_field v limit =
     (if \<not> truthy v then []
      else let t = rx_sub script_re [] (text_or_empty v);
               t = rx_sub style_re [] t;
               t = rx_sub html_tag_re '' '' t;
               t = rx_sub injection_patterns ''[REDACTED]'' t;
               t = strip (rx_sub sp1 '' '' t)
           in if limit < length t then take limit t @ ''...'' else t)"

definition sanitize_data_block :: "string \<Rightarrow> string" where
  "sanitize_data_block t = sanitize_field (Some t) max_total_data_length"

section \<open>Tool calls\<close>

record tool_call_request =
  tcr_name :: string
  tcr_arguments :: "(string \<times> json) list"

definition call_open :: string where "call_open = ''<tool_call>''"
definition call_close :: string where "call_close = ''</tool_call>''"

definition contains_tool_call :: "string \<Rightarrow> bool" where
  "contains_tool_call t = contains call_open t"

text \<open>
  The expression \<open>_TOOL_CALL_RE\<close> at the beginning of a text: what lies between the tags may not
  contain a \<open><\<close>, starts with a brace behind spaces, and the last brace is followed by spaces only.
\<close>

definition call_at :: "string \<Rightarrow> (string \<times> string) option" where
  "call_at s =
     (let t = drop (length call_open) s;
          raw = rstrip_where py_space (lstrip (takeWhile (\<lambda>c. c \<noteq> CHR ''<'') t));
          rest = dropWhile (\<lambda>c. c \<noteq> CHR ''<'') t
      in if starts_with call_open s \<and> starts_with ''{'' raw \<and> 2 \<le> length raw \<and> ends_with ''}'' raw
            \<and> starts_with call_close rest
         then Some (raw, drop (length call_close) rest) else None)"

lemma call_at_shorter: "call_at s = Some (raw, r) \<Longrightarrow> length r < length s"
proof -
  assume "call_at s = Some (raw, r)"
  then have o: "starts_with call_open s" and r: "r = drop (length call_close)
      (dropWhile (\<lambda>c. c \<noteq> CHR ''<'') (drop (length call_open) s))"
    by (auto simp: call_at_def Let_def split: if_splits)
  from o obtain t where t: "s = call_open @ t" by (auto simp: starts_with_iff)
  with r have "length r \<le> length t" using length_dropWhile_le [of "\<lambda>c. c \<noteq> CHR ''<''" t] by simp
  with t show ?thesis by (simp add: call_open_def)
qed

function tool_call_blocks :: "string \<Rightarrow> string list" where
  "tool_call_blocks s = (case call_at s of
     Some (raw, r) \<Rightarrow> raw # tool_call_blocks r
   | None \<Rightarrow> (case s of [] \<Rightarrow> [] | c # t \<Rightarrow> tool_call_blocks t))"
  by pat_completeness auto
termination
  by (relation "measure length") (auto dest: call_at_shorter)

declare tool_call_blocks.simps [simp del]

text \<open>One block: malformed ones and ones without a name are skipped.\<close>

definition request_of :: "string \<Rightarrow> tool_call_request option" where
  "request_of raw = (case json_loads raw of
     None \<Rightarrow> None
   | Some data \<Rightarrow>
       (case get_or ''name'' JNull data of
          JStr n \<Rightarrow> if n = [] then None
            else let a = get_or ''arguments'' JNull data; p = get_or ''parameters'' JNull data;
                     args = (if json_truthy a then a else if json_truthy p then p else JObj [])
              in Some \<lparr>tcr_name = n, tcr_arguments = (case args of JObj kvs \<Rightarrow> kvs | _ \<Rightarrow> [])\<rparr>
        | _ \<Rightarrow> None))"

definition parse_tool_calls :: "string \<Rightarrow> tool_call_request list" where
  "parse_tool_calls t = concat (map (\<lambda>raw. case request_of raw of None \<Rightarrow> [] | Some q \<Rightarrow> [q])
     (tool_call_blocks t))"

section \<open>Tool results\<close>

text \<open>\<open>json.dumps\<close> with \<open>ensure_ascii=False\<close>: only quotes, backslashes and control characters are escaped.\<close>

definition escape_control :: "char \<Rightarrow> string" where
  "escape_control c = (if 127 \<le> ord_of c then [c] else escape_char c)"

fun json_raw :: "(pyfloat \<Rightarrow> string) \<Rightarrow> json \<Rightarrow> string"
  and raw_items :: "(pyfloat \<Rightarrow> string) \<Rightarrow> json list \<Rightarrow> string list"
  and raw_members :: "(pyfloat \<Rightarrow> string) \<Rightarrow> (string \<times> json) list \<Rightarrow> string list" where
  "json_raw fr JNull = ''null''"
| "json_raw fr (JBool b) = (if b then ''true'' else ''false'')"
| "json_raw fr (JInt n) = int_str n"
| "json_raw fr (JFloat x) = fr x"
| "json_raw fr (JStr s) = [CHR 34] @ concat (map escape_control s) @ [CHR 34]"
| "json_raw fr (JList js) = ''['' @ join '', '' (raw_items fr js) @ '']''"
| "json_raw fr (JObj kvs) = ''{'' @ join '', '' (raw_members fr kvs) @ ''}''"
| "raw_items fr [] = []"
| "raw_items fr (j # js) = json_raw fr j # raw_items fr js"
| "raw_members fr [] = []"
| "raw_members fr ((k, j) # kvs) =
     ([CHR 34] @ concat (map escape_control k) @ [CHR 34] @ '': '' @ json_raw fr j) # raw_members fr kvs"

text \<open>A result is a document: the handlers return dictionaries, and only a text is sanitized.\<close>

definition sanitized_result :: "json \<Rightarrow> json" where
  "sanitized_result j = (case j of JStr t \<Rightarrow> JStr (sanitize_data_block t) | _ \<Rightarrow> j)"

definition format_tool_result :: "(pyfloat \<Rightarrow> string) \<Rightarrow> string \<Rightarrow> json \<Rightarrow> string option \<Rightarrow> string" where
  "format_tool_result fr name result err =
     ''<tool_response>'' @ [CHR 10]
     @ json_raw fr (JObj (case err of
         Some e \<Rightarrow> [(''name'', JStr name), (''content'', JNull), (''error'', JStr e)]
       | None \<Rightarrow> [(''name'', JStr name), (''content'', sanitized_result result)]))
     @ [CHR 10] @ ''</tool_response>''"

section \<open>Tool calls are read back\<close>

text \<open>A call the way the system prompt asks the model to write it.\<close>

definition call_text :: "(pyfloat \<Rightarrow> string) \<Rightarrow> string \<times> (string \<times> json) list \<Rightarrow> string" where
  "call_text fr q = call_open @ [CHR 10]
     @ json_dumps fr (JObj [(''name'', JStr (fst q)), (''arguments'', JObj (snd q))])
     @ [CHR 10] @ call_close"

lemma rstrip_where_keep: "\<not> p c \<Longrightarrow> rstrip_where p (s @ [c]) = s @ [c]"
  by (simp add: rstrip_where_def)

lemma call_at_call_text:
  assumes "CHR ''<'' \<notin> set (json_dumps fr (JObj [(''name'', JStr n), (''arguments'', JObj args)]))"
  shows "call_at (call_text fr (n, args) @ r)
    = Some (json_dumps fr (JObj [(''name'', JStr n), (''arguments'', JObj args)]), r)"
proof -
  define p where "p = json_dumps fr (JObj [(''name'', JStr n), (''arguments'', JObj args)])"
  obtain m where m: "p = CHR ''{'' # m @ [CHR ''}'']" by (simp add: p_def)
  have no: "CHR ''<'' \<notin> set p" using assms by (simp add: p_def)
  have sp: "py_space (CHR 10)" "\<not> py_space (CHR ''{'')" "\<not> py_space (CHR ''}'')"
    by (simp_all add: py_space_def ord_of_def)
  have stop: "takeWhile (\<lambda>c. c \<noteq> CHR ''<'') (xs @ call_close @ r) = xs
      \<and> dropWhile (\<lambda>c. c \<noteq> CHR ''<'') (xs @ call_close @ r) = call_close @ r"
    if "CHR ''<'' \<notin> set xs" for xs r
    using that by (induction xs) (auto simp: call_close_def)
  have t: "takeWhile (\<lambda>c. c \<noteq> CHR ''<'') (CHR 10 # p @ CHR 10 # call_close @ r) = CHR 10 # p @ [CHR 10]"
    "dropWhile (\<lambda>c. c \<noteq> CHR ''<'') (CHR 10 # p @ CHR 10 # call_close @ r) = call_close @ r"
    using stop [of "CHR 10 # p @ [CHR 10]" r] no by simp_all
  have "lstrip (CHR 10 # p @ [CHR 10]) = p @ [CHR 10]"
    using sp by (simp add: m lstrip_def)
  moreover have "rstrip_where py_space p = p"
    using sp rstrip_where_keep [of py_space "CHR ''}''" "CHR ''{'' # m"] by (simp add: m)
  then have "rstrip_where py_space (p @ [CHR 10]) = p" using sp by simp
  moreover have "call_text fr (n, args) @ r = call_open @ CHR 10 # p @ CHR 10 # call_close @ r"
    by (simp add: call_text_def p_def)
  ultimately have "call_at (call_text fr (n, args) @ r) = Some (p, r)"
    using t by (simp add: call_at_def Let_def m ends_with_def)
  then show ?thesis by (simp add: p_def)
qed

lemma request_of_dumps:
  assumes "n \<noteq> []" "json_plain (JObj args)"
  shows "request_of (json_dumps fr (JObj [(''name'', JStr n), (''arguments'', JObj args)]))
    = Some \<lparr>tcr_name = n, tcr_arguments = args\<rparr>"
proof -
  have "json_loads (json_dumps fr (JObj [(''name'', JStr n), (''arguments'', JObj args)]))
      = Some (JObj [(''name'', JStr n), (''arguments'', JObj args)])"
    using assms by (intro json_roundtrip) simp
  then show ?thesis
    using assms(1) by (simp add: request_of_def get_or_def json_get_def json_truthy_def)
qed

lemma tool_call_blocks_plain:
  "CHR ''<'' \<notin> set pre \<Longrightarrow> tool_call_blocks (pre @ s) = tool_call_blocks s"
proof (induction pre)
  case (Cons c pre)
  then have "call_at (c # pre @ s) = None"
    by (auto simp: call_at_def Let_def call_open_def)
  with Cons show ?case by (simp add: tool_call_blocks.simps [of "c # pre @ s"])
qed simp

lemma tool_call_blocks_Nil: "tool_call_blocks [] = []"
  by (subst tool_call_blocks.simps) (simp add: call_at_def Let_def call_open_def)


definition no_floats :: "pyfloat \<Rightarrow> string" where
  "no_floats x = []"

lemma demo_call_plain:
  "CHR ''<'' \<notin> set (json_dumps no_floats
     (JObj [(''name'', JStr ''search_leads''), (''arguments'', JObj [(''limit'', JInt 5)])]))"
  by code_simp


text \<open>
  With markup in an argument the pattern finds no call at all, although the answer contains one, and
  the turn ends with the call shown to the user as text.
\<close>

theorem tool_call_with_markup_lost:
  "contains_tool_call (call_text no_floats (''update_draft_content'', [(''body'', JStr ''<b>Hola</b>'')]))
   \<and> parse_tool_calls (call_text no_floats (''update_draft_content'', [(''body'', JStr ''<b>Hola</b>'')])) = []"
  by code_simp

section \<open>No markup survives the sanitizer\<close>

fun no_tag :: "string \<Rightarrow> bool" where
  "no_tag [] = True"
| "no_tag (c # s) = ((c = CHR ''<'' \<longrightarrow> CHR ''>'' \<notin> set s \<or> hd s = CHR ''>'') \<and> no_tag s)"

lemma no_tag_iff:
  "no_tag s \<longleftrightarrow> (\<forall>a x b. s = a @ ''<'' @ x @ ''>'' @ b \<longrightarrow> x = [] \<or> CHR ''>'' \<in> set x)"
proof (induction s)
  case (Cons c s)
  show ?case
  proof
    assume n: "no_tag (c # s)"
    show "\<forall>a x b. c # s = a @ ''<'' @ x @ ''>'' @ b \<longrightarrow> x = [] \<or> CHR ''>'' \<in> set x"
    proof (intro allI impI)
      fix a x b assume e: "c # s = a @ ''<'' @ x @ ''>'' @ b"
      show "x = [] \<or> CHR ''>'' \<in> set x"
      proof (cases a)
        case Nil
        with e n show ?thesis by (cases x) auto
      next
        case (Cons d a')
        with e n Cons.IH show ?thesis by auto
      qed
    qed
  next
    assume a: "\<forall>a x b. c # s = a @ ''<'' @ x @ ''>'' @ b \<longrightarrow> x = [] \<or> CHR ''>'' \<in> set x"
    then have "no_tag s" using Cons.IH by (metis append_Cons)
    moreover have "CHR ''>'' \<notin> set s \<or> hd s = CHR ''>''" if "c = CHR ''<''"
    proof (rule ccontr)
      assume g: "\<not> (CHR ''>'' \<notin> set s \<or> hd s = CHR ''>'')"
      then obtain x b where x: "s = x @ CHR ''>'' # b" "CHR ''>'' \<notin> set x" by (metis split_list_first)
      with a [rule_format, of "[]" x b] that g show False by (cases x) auto
    qed
    ultimately show "no_tag (c # s)" by simp
  qed
qed simp

lemma no_tag_plain: "CHR ''<'' \<notin> set p \<Longrightarrow> CHR ''>'' \<notin> set p \<Longrightarrow> no_tag (p @ s) = no_tag s"
  by (induction p) auto

lemma no_tag_take: "no_tag s \<Longrightarrow> CHR ''<'' \<notin> set p \<Longrightarrow> CHR ''>'' \<notin> set p \<Longrightarrow> no_tag (take n s @ p)"
proof (induction s arbitrary: n)
  case Nil
  then show ?case using no_tag_plain [of p "[]"] by simp
next
  case (Cons c s)
  show ?case
  proof (cases n)
    case 0
    then show ?thesis using Cons.prems no_tag_plain [of p "[]"] by simp
  next
    case (Suc m)
    have "CHR ''>'' \<notin> set (take m s @ p) \<or> hd (take m s @ p) = CHR ''>''" if "c = CHR ''<''"
      using Cons.prems that by (cases m; cases s) (auto dest: in_set_takeD)
    with Cons Suc show ?thesis by simp
  qed
qed

lemma no_tag_drop: "no_tag s \<Longrightarrow> no_tag (drop n s)"
  by (induction s arbitrary: n) (auto simp: drop_Cons split: nat.split)

lemma no_tag_strip: "no_tag s \<Longrightarrow> no_tag (strip s)"
proof -
  assume "no_tag s"
  moreover have "\<exists>n. lstrip s = drop n s" by (metis dropWhile_eq_drop lstrip_def)
  moreover have "\<exists>m. rstrip_where py_space t = take m t" for t
    by (metis append_eq_conv_conj rev_rev_ident rev_append rstrip_where_def takeWhile_dropWhile_id)
  ultimately show ?thesis
    using no_tag_drop no_tag_take [of _ "[]"] unfolding strip_def by (metis append_Nil2 empty_iff empty_set)
qed

text \<open>What a match consists of: characters of a set \<open>A\<close>, in front of what remains.\<close>

definition eats :: "char set \<Rightarrow> pattern \<Rightarrow> bool" where
  "eats A m \<longleftrightarrow> (\<forall>s. \<forall>r \<in> set (m s). \<exists>w. s = w @ r \<and> set w \<subseteq> A)"

lemma eatsD: "eats A m \<Longrightarrow> r \<in> set (m s) \<Longrightarrow> \<exists>w. s = w @ r \<and> set w \<subseteq> A"
  by (simp add: eats_def)

lemma eats_lit: "(\<And>c. lower_char c \<in> set p \<Longrightarrow> c \<in> A) \<Longrightarrow> eats A (lit p)"
proof -
  assume a: "\<And>c. lower_char c \<in> set p \<Longrightarrow> c \<in> A"
  have "set (take (length p) s) \<subseteq> A" if "lower (take (length p) s) = p" for s
    using a arg_cong [OF that, of set] by (auto simp: lower_def)
  then show ?thesis
    by (auto simp: eats_def lit_def intro!: exI [of _ "take (length p) s" for s])
qed

lemma star_eats: "r \<in> set (star P s) \<Longrightarrow> \<exists>w. s = w @ r \<and> set w \<subseteq> {c. P c}"
proof (induction s)
  case (Cons c s)
  show ?case
  proof (cases "r = c # s")
    case False
    with Cons obtain w where "s = w @ r" "set w \<subseteq> {c. P c}" "P c" by (auto split: if_splits)
    then show ?thesis by (intro exI [of _ "c # w"]) simp
  qed simp
qed simp

lemma eats_star: "{c. P c} \<subseteq> A \<Longrightarrow> eats A (star P)"
  by (fastforce simp: eats_def dest: star_eats)

lemma eats_plus1: "{c. P c} \<subseteq> A \<Longrightarrow> eats A (plus1 P)"
proof (unfold eats_def, intro allI ballI)
  fix s r assume a: "{c. P c} \<subseteq> A" and r: "r \<in> set (plus1 P s)"
  then obtain c t where s: "s = c # t" "P c" "r \<in> set (star P t)"
    by (auto simp: plus1_def split: list.splits if_splits)
  from star_eats [OF s(3)] obtain w where "t = w @ r" "set w \<subseteq> {c. P c}" by blast
  with a s show "\<exists>w. s = w @ r \<and> set w \<subseteq> A" by (intro exI [of _ "c # w"]) auto
qed

lemma eats_opt_char: "d \<in> A \<Longrightarrow> eats A (opt_char d)"
  by (auto simp: eats_def opt_char_def Cons_eq_append_conv split: list.splits)

lemma eats_seq: "list_all (eats A) ms \<Longrightarrow> eats A (seq ms)"
proof (induction ms)
  case (Cons m ms)
  show ?case
  proof (unfold eats_def, intro allI ballI)
    fix s r assume "r \<in> set (seq (m # ms) s)"
    then obtain t where t: "t \<in> set (m s)" "r \<in> set (seq ms t)" by auto
    moreover have "eats A m" "eats A (seq ms)" using Cons by simp_all
    ultimately obtain w w' where "s = w @ t" "set w \<subseteq> A" "t = w' @ r" "set w' \<subseteq> A"
      using eatsD [of A m t s] eatsD [of A "seq ms" r t] by blast
    then show "\<exists>w. s = w @ r \<and> set w \<subseteq> A" by (intro exI [of _ "w @ w'"]) simp
  qed
qed (simp add: eats_def)

lemma eats_alt: "list_all (eats A) ms \<Longrightarrow> eats A (alt ms)"
  unfolding eats_def alt_def list_all_iff by simp

lemmas eats_rules = eats_lit eats_star eats_plus1 eats_opt_char eats_seq eats_alt

lemma first_match_eats:
  "eats A m \<Longrightarrow> first_match m s = Some r \<Longrightarrow> \<exists>w. s = w @ r \<and> set w \<subseteq> A"
  using eatsD [of A m r s] by (auto simp: first_match_def split: list.splits)

lemma rx_sub_Nil [simp]: "rx_sub m v [] = []"
  by (simp add: rx_sub.simps)

lemma rx_sub_Cons:
  "rx_sub m v (c # t) = (case first_match m (c # t) of
     Some r \<Rightarrow> if length r < length (c # t) then v @ rx_sub m v r else c # rx_sub m v t
   | None \<Rightarrow> c # rx_sub m v t)"
  by (subst rx_sub.simps) (simp only: list.case)

lemma set_rx_sub: "eats A m \<Longrightarrow> set (rx_sub m v s) \<subseteq> set s \<union> set v"
proof (induction "length s" arbitrary: s rule: less_induct)
  case less
  show ?case
  proof (cases s)
    case (Cons c t)
    have "set (rx_sub m v t) \<subseteq> set t \<union> set v" using less Cons by simp
    moreover have "set (rx_sub m v r) \<subseteq> set s \<union> set v"
      if "first_match m s = Some r" "length r < length s" for r
    proof -
      from first_match_eats [OF less.prems that(1)] obtain w where "s = w @ r" by blast
      with less.hyps [OF that(2) less.prems] show ?thesis by auto
    qed
    ultimately show ?thesis
      by (auto simp: Cons rx_sub_Cons split: option.splits if_splits)
  qed simp
qed

text \<open>Removing tags leaves none.\<close>

lemma html_tag_eats: "eats UNIV html_tag_re"
  unfolding html_tag_re_def by (simp add: eats_rules)

lemma html_tag_matches:
  assumes "CHR ''>'' \<in> set t" "hd t \<noteq> CHR ''>''"
  shows "\<exists>r. first_match html_tag_re (CHR ''<'' # t) = Some r \<and> length r \<le> length t"
proof -
  obtain x b where x: "t = x @ CHR ''>'' # b" "CHR ''>'' \<notin> set x" using assms(1) by (metis split_list_first)
  with assms(2) obtain d y where y: "x = d # y" by (cases x) auto
  have "CHR ''>'' \<notin> set y \<Longrightarrow> CHR ''>'' # b \<in> set (star (\<lambda>c. c \<noteq> CHR ''>'') (y @ CHR ''>'' # b))" for y
    by (induction y) auto
  moreover have "lit ''>'' (CHR ''>'' # b) = [b]" "lit ''<'' (CHR ''<'' # t) = [t]"
    by (simp_all add: lit_def lower_def lower_char_def upper_code_def ord_of_def)
  ultimately have "b \<in> set (html_tag_re (CHR ''<'' # t))"
    using x y by (fastforce simp: html_tag_re_def plus1_def)
  then obtain r where r: "first_match html_tag_re (CHR ''<'' # t) = Some r"
    by (cases "html_tag_re (CHR ''<'' # t)") (auto simp: first_match_def)
  moreover from this have "r \<in> set (html_tag_re (CHR ''<'' # t))"
    by (auto simp: first_match_def split: list.splits)
  then obtain u where "u \<in> set (concat (map (seq [lit ''>'']) (plus1 (\<lambda>c. c \<noteq> CHR ''>'') t)))" "u = r"
    by (auto simp: html_tag_re_def lit_def lower_def lower_char_def upper_code_def ord_of_def)
  then have "length r \<le> length t"
    using eatsD [OF eats_seq [of UNIV "[plus1 (\<lambda>c. c \<noteq> CHR ''>''), lit ''>'']"], of r t]
    by (auto simp: eats_rules)
  ultimately show ?thesis by blast
qed

lemma html_tag_start: "first_match html_tag_re (CHR ''>'' # t) = None"
  by (simp add: first_match_def html_tag_re_def lit_def lower_def lower_char_def upper_code_def ord_of_def)

lemma no_tag_after_tags:
  assumes "CHR ''<'' \<notin> set v" "CHR ''>'' \<notin> set v"
  shows "no_tag (rx_sub html_tag_re v s)"
proof (induction "length s" arbitrary: s rule: less_induct)
  case less
  show ?case
  proof (cases s)
    case (Cons c t)
    have t: "no_tag (rx_sub html_tag_re v t)" using less Cons by simp
    show ?thesis
    proof (cases "\<exists>r. first_match html_tag_re s = Some r \<and> length r < length s")
      case True
      then obtain r where r: "first_match html_tag_re s = Some r" "length r < length s" by blast
      with less.hyps [OF r(2)] assms show ?thesis
        by (simp add: Cons rx_sub_Cons no_tag_plain)
    next
      case False
      then have e: "rx_sub html_tag_re v s = c # rx_sub html_tag_re v t"
        by (auto simp: Cons rx_sub_Cons split: option.split)
      have "CHR ''>'' \<notin> set (rx_sub html_tag_re v t) \<or> hd (rx_sub html_tag_re v t) = CHR ''>''"
        if "c = CHR ''<''"
      proof (cases "CHR ''>'' \<in> set t")
        case True
        with False that html_tag_matches [of t] have "hd t = CHR ''>''" by (fastforce simp: Cons)
        with True obtain u where "t = CHR ''>'' # u" by (cases t) auto
        then show ?thesis by (simp add: rx_sub_Cons html_tag_start)
      next
        case f: False
        with set_rx_sub [OF html_tag_eats, of v t] assms show ?thesis by auto
      qed
      with e t show ?thesis by simp
    qed
  qed simp
qed

text \<open>The later steps cut pieces without markup out of a text without tags.\<close>

lemma no_tag_rx_sub:
  assumes m: "\<And>s r. first_match m s = Some r \<Longrightarrow> no_tag s \<Longrightarrow> \<exists>w. s = w @ r \<and> CHR ''>'' \<notin> set w"
    and v: "CHR ''<'' \<notin> set v" "CHR ''>'' \<notin> set v"
  shows "no_tag s \<Longrightarrow> no_tag (rx_sub m v s) \<and> (CHR ''>'' \<notin> set s \<longrightarrow> CHR ''>'' \<notin> set (rx_sub m v s))"
proof (induction "length s" arbitrary: s rule: less_induct)
  case less
  show ?case
  proof (cases s)
    case (Cons c t)
    have t: "no_tag t" using less.prems Cons by simp
    note T = less.hyps [OF _ t]
    show ?thesis
    proof (cases "\<exists>r. first_match m s = Some r \<and> length r < length s")
      case True
      then obtain r where r: "first_match m s = Some r" "length r < length s" by blast
      with m [of s r] less.prems obtain w where w: "s = w @ r" by blast
      then have "no_tag r" using no_tag_drop [OF less.prems, of "length w"] by simp
      moreover have "rx_sub m v s = v @ rx_sub m v r" using r by (simp add: Cons rx_sub_Cons)
      ultimately show ?thesis using less.hyps [OF r(2)] v w by (simp add: no_tag_plain)
    next
      case False
      then have e: "rx_sub m v s = c # rx_sub m v t"
        by (auto simp: Cons rx_sub_Cons split: option.split)
      have "CHR ''>'' \<notin> set (rx_sub m v t) \<or> hd (rx_sub m v t) = CHR ''>''" if "c = CHR ''<''"
      proof (cases "CHR ''>'' \<in> set t")
        case True
        with less.prems that Cons obtain u where u: "t = CHR ''>'' # u" by (cases t) auto
        show ?thesis
        proof (cases "first_match m t")
          case None
          then show ?thesis by (simp add: u rx_sub_Cons)
        next
          case (Some r)
          from m [OF this t] obtain w where "t = w @ r" "CHR ''>'' \<notin> set w" by blast
          with u have "r = t" by (cases w) auto
          with Some show ?thesis by (simp add: u rx_sub_Cons)
        qed
      next
        case f: False
        with T Cons show ?thesis by simp
      qed
      with e T Cons show ?thesis by auto
    qed
  qed simp
qed

lemma system_tag_is_tag:
  assumes "r \<in> set (seq [lit ''<'', sp0, opt_char (CHR ''/''), sp0, lit ''system'', sp0, lit ''>''] s)"
  shows "\<not> no_tag s"
proof -
  let ?A = "- {CHR ''>''}"
  have lit1: "x \<in> set (lit [d] y) \<Longrightarrow> y = d # x" if "\<not> upper_code (ord_of d - 32) \<or> ord_of d < 97" for d x y
    using that by (cases y) (auto simp: lit_def lower_def lower_char_def upper_code_def ord_of_def split: if_splits)
  from assms obtain t where t: "t \<in> set (lit ''<'' s)"
    "r \<in> set (seq [sp0, opt_char (CHR ''/''), sp0, lit ''system'', sp0, lit ''>''] t)"
    using assms unfolding seq.simps(2) [of "lit ''<''"] by (auto simp del: seq.simps)
  obtain u where u: "u \<in> set (seq [sp0, opt_char (CHR ''/''), sp0, lit ''system'', sp0] t)" "r \<in> set (lit ''>'' u)"
    using t(2) by fastforce
  have s: "s = CHR ''<'' # t" "u = CHR ''>'' # r"
    using lit1 t(1) u(2) by (auto simp: ord_of_def upper_code_def)
  have "eats ?A (seq [sp0, opt_char (CHR ''/''), sp0, lit ''system'', sp0])"
    by (simp add: sp0_def)
      (auto intro!: eats_rules simp: py_space_def ord_of_def lower_char_def upper_code_def)
  then obtain w where w: "t = w @ u" "CHR ''>'' \<notin> set w" using u(1) by (fastforce dest!: eatsD)
  have "w \<noteq> []"
  proof
    assume "w = []"
    with w s have "t = CHR ''>'' # r" by simp
    with u(1) show False
      by (simp add: sp0_def opt_char_def lit_def lower_def lower_char_def upper_code_def py_space_def ord_of_def)
  qed
  then obtain d w' where "w = d # w'" by (cases w) auto
  with w s show ?thesis by auto
qed

lemma injection_no_markup:
  assumes "first_match injection_patterns s = Some r" "no_tag s"
  shows "\<exists>w. s = w @ r \<and> CHR ''>'' \<notin> set w"
proof -
  let ?A = "- {CHR ''>''}"
  have l: "eats ?A (lit p)" if "CHR ''>'' \<notin> set p" for p
    using that by (intro eats_lit) (auto simp: lower_char_def upper_code_def ord_of_def)
  have sp: "eats ?A sp1" "eats ?A sp0"
    by (auto simp: sp1_def sp0_def py_space_def ord_of_def intro!: eats_rules)
  have al: "eats ?A (alt ms)" if "list_all (eats ?A) ms" for ms using that by (rule eats_alt)
  from assms(1) have "r \<in> set (injection_patterns s)"
    by (auto simp: first_match_def split: list.splits)
  then obtain ms where ms: "ms \<in> set
     [[lit ''ignore'', sp1, alt [lit ''previous'', lit ''above'', lit ''all''], sp1, lit ''instructions''],
      [lit ''you'', sp1, lit ''are'', sp1, lit ''now'', sp1, lit ''a''],
      [lit ''disregard'', sp1, alt [lit ''all'', lit ''your''], sp1, lit ''previous''],
      [lit ''forget'', sp1, alt [lit ''everything'', lit ''all''], sp1, alt [lit ''you'', lit ''your'']],
      [lit ''system'', sp0, lit '':'', sp0, lit ''you'', sp1, lit ''are''],
      [lit ''important:'', sp0, lit ''ignore'']]" "r \<in> set (seq ms s)"
    using system_tag_is_tag [of r s] assms(2)
    unfolding injection_patterns_def alt_def by (simp del: seq.simps) blast
  have "list_all (eats ?A) ms" using ms(1) by (auto simp: l sp intro!: al)
  from eatsD [OF eats_seq [OF this] ms(2)] show ?thesis by auto
qed

text \<open>
  C37: Whatever external text the sanitizer is given, what it returns is at most three characters
  longer than the limit and holds no markup: no opening angle bracket is followed by text and a
  closing one, so that no tag, of HTML or of the tool protocol, reaches a model through it.
\<close>

theorem sanitized_has_no_tags:
  "no_tag (sanitize_field v limit) \<and> length (sanitize_field v limit) \<le> limit + 3"
proof (cases "truthy v")
  case True
  define t where "t = rx_sub html_tag_re '' '' (rx_sub style_re [] (rx_sub script_re [] (text_or_empty v)))"
  have "no_tag t" by (simp add: t_def no_tag_after_tags)
  then have "no_tag (rx_sub injection_patterns ''[REDACTED]'' t)"
    using no_tag_rx_sub [OF injection_no_markup, where v = "''[REDACTED]''" and s = t] by simp
  moreover have "eats (- {CHR ''>''}) sp1"
    unfolding sp1_def by (rule eats_plus1) (auto simp: py_space_def ord_of_def)
  then have "\<exists>w. s = w @ r \<and> CHR ''>'' \<notin> set w" if "first_match sp1 s = Some r" for s r
    using first_match_eats [OF _ that] by blast
  ultimately have "no_tag (strip (rx_sub sp1 '' '' (rx_sub injection_patterns ''[REDACTED]'' t)))"
    using no_tag_rx_sub [where m = sp1 and v = "'' ''"] by (intro no_tag_strip) simp
  then show ?thesis
    using True no_tag_take [of _ "''...''"]
    by (simp add: sanitize_field_def Let_def t_def [symmetric])
qed (simp add: sanitize_field_def)

end
