(* ===== verification/Agent_Registry.thy ===== *)
theory Agent_Registry
  imports Agent_Format
begin

text \<open>
  The registry of the agent's tools (\<open>app/agent/tool_registry.py\<close>): definitions, the check and
  conversion of the arguments the model gives, and the description of the tools for the prompt.
\<close>

type_synonym tool_args = "(string \<times> json) list"

record tool_parameter =
  tp_name :: string
  tp_type :: string
  tp_description :: string
  tp_required :: bool
  tp_enum :: "string list option"

text \<open>
  A handler: its Python name, whether its first parameter is \<open>db\<close>, its keyword parameters with
  whether they are required, and its body, on the committed store and the session's.
\<close>

record tool_handler =
  th_name :: string
  th_db :: bool
  th_keywords :: "(string \<times> bool) list"
  th_run :: "tool_args \<Rightarrow> store \<times> store \<Rightarrow> (string + json) \<times> (store \<times> store)"

record tool_definition =
  td_name :: string
  td_description :: string
  td_parameters :: "tool_parameter list"
  td_category :: string
  td_requires_confirmation :: bool
  td_handler :: "tool_handler option"
  td_takes_db :: bool

type_synonym tool_registry = "(string \<times> tool_definition) list"

definition register :: "tool_definition \<Rightarrow> tool_registry \<Rightarrow> tool_registry" where
  "register tool reg =
     (let tool' = (case td_handler tool of
          Some h \<Rightarrow> if \<not> td_takes_db tool \<and> th_db h then tool\<lparr>td_takes_db := True\<rparr> else tool
        | None \<Rightarrow> tool)
      in assoc_set (td_name tool) tool' reg)"

definition registry_get :: "tool_registry \<Rightarrow> string \<Rightarrow> tool_definition option" where
  "registry_get reg n = map_of reg n"

definition list_all_tools :: "tool_registry \<Rightarrow> tool_definition list" where
  "list_all_tools reg = map snd reg"

section \<open>The description for the prompt\<close>

definition parameter_schema :: "tool_parameter \<Rightarrow> json" where
  "parameter_schema p = JObj ([(''type'', JStr (tp_type p)), (''description'', JStr (tp_description p))]
     @ (case tp_enum p of None \<Rightarrow> [] | Some es \<Rightarrow> [(''enum'', JList (map JStr es))]))"

definition tool_json :: "tool_definition \<Rightarrow> json" where
  "tool_json t = JObj
     [(''type'', JStr ''function''),
      (''function'', JObj
        [(''name'', JStr (td_name t)), (''description'', JStr (td_description t)),
         (''parameters'', JObj
           [(''type'', JStr ''object''),
            (''properties'', JObj (dict_of (map (\<lambda>p. (tp_name p, parameter_schema p)) (td_parameters t)))),
            (''required'', JList (map (\<lambda>p. JStr (tp_name p)) (filter tp_required (td_parameters t))))])])]"

definition by_category :: "tool_definition list \<Rightarrow> (string \<times> tool_definition list) list" where
  "by_category ts = fold (\<lambda>t g. let c = (if td_category t = [] then ''general'' else td_category t) in
     assoc_set c ((case map_of g c of None \<Rightarrow> [] | Some us \<Rightarrow> us) @ [t]) g) ts []"

definition to_hermes_schema :: "(pyfloat \<Rightarrow> string) \<Rightarrow> tool_registry \<Rightarrow> string" where
  "to_hermes_schema fr reg = join [CHR 10]
     ([''<tools>'']
      @ concat (map (\<lambda>(c, ts).
          [''<!-- '' @ c @ '' tools ('' @ nat_str (length ts) @ '') -->'']
          @ concat (map (\<lambda>t. [''<tool>'', json_raw fr (tool_json t), ''</tool>'']) ts))
        (by_category (list_all_tools reg)))
      @ [''</tools>''])"

section \<open>Conversion of arguments\<close>

text \<open>
  What Python prints: a float or a container as a text, and the error of a conversion.  \<open>int\<close> and
  \<open>float\<close> of a text: spaces around, a sign, digits with single underscores between them; the texts
  for the infinities and for \<open>nan\<close> are refused here.
\<close>

record py_texts =
  pt_float :: "pyfloat \<Rightarrow> string"
  pt_other :: "json \<Rightarrow> string"
  pt_error :: "string \<Rightarrow> json \<Rightarrow> string"

definition digit_groups :: "string \<Rightarrow> bool" where
  "digit_groups s = list_all (\<lambda>p. p \<noteq> [] \<and> list_all ascii_digit p) (split_on (CHR ''_'') s)"

definition unsigned :: "string \<Rightarrow> bool \<times> string" where
  "unsigned s = (if starts_with ''-'' s then (True, tl s)
     else if starts_with ''+'' s then (False, tl s) else (False, s))"

definition group_value :: "string \<Rightarrow> int" where
  "group_value s = digits_value (remove_char (CHR ''_'') s)"

definition int_of_text :: "string \<Rightarrow> int option" where
  "int_of_text s = (let (neg, t) = unsigned (strip s) in
     if digit_groups t then Some (if neg then - group_value t else group_value t) else None)"

definition float_of_text :: "string \<Rightarrow> pyfloat option" where
  "float_of_text s =
     (let (neg, t) = unsigned (strip s);
          m = takeWhile (\<lambda>c. c \<noteq> CHR ''e'' \<and> c \<noteq> CHR ''E'') t;
          i = takeWhile (\<lambda>c. c \<noteq> CHR ''.'') m; f = drop (Suc (length i)) m;
          (eneg, x) = unsigned (drop (Suc (length m)) t);
          v = of_int (group_value (i @ f)) / 10 ^ length (remove_char (CHR ''_'') f) :: rat;
          e = nat (group_value x)
      in if (digit_groups i \<or> i = []) \<and> (digit_groups f \<or> f = []) \<and> i @ f \<noteq> []
            \<and> (length m = length t \<or> digit_groups x)
         then Some ((if neg then -1 else 1)
           * (if length m = length t then v else if eneg then v / 10 ^ e else v * 10 ^ e))
         else None)"

text \<open>A value that is an instance of the target type stays; \<open>bool\<close> is a subclass of \<open>int\<close>.\<close>

definition coerce :: "py_texts \<Rightarrow> string \<Rightarrow> json \<Rightarrow> json option" where
  "coerce py ty v =
     (if ty = ''string'' then Some (JStr (py_str (pt_other py) v))
      else if ty = ''integer'' then (case v of
          JInt n \<Rightarrow> Some v | JBool b \<Rightarrow> Some v | JFloat x \<Rightarrow> Some (JInt (if 0 \<le> x then \<lfloor>x\<rfloor> else \<lceil>x\<rceil>))
        | JStr t \<Rightarrow> map_option JInt (int_of_text t) | _ \<Rightarrow> None)
      else if ty = ''number'' then (case v of
          JFloat x \<Rightarrow> Some v | JInt n \<Rightarrow> Some (JFloat (of_int n)) | JBool b \<Rightarrow> Some (JFloat (if b then 1 else 0))
        | JStr t \<Rightarrow> map_option JFloat (float_of_text t) | _ \<Rightarrow> None)
      else if ty = ''boolean'' then Some (JBool (json_truthy v))
      else Some v)"

definition quoted :: "string \<Rightarrow> string" where
  "quoted s = [CHR 0x27] @ s @ [CHR 0x27]"

definition quoted_list :: "string list \<Rightarrow> string" where
  "quoted_list ss = ''['' @ join '', '' (map quoted ss) @ '']''"

definition missing_argument :: "string \<Rightarrow> string \<Rightarrow> string" where
  "missing_argument n k = ''Herramienta '' @ quoted n @ '': par'' @ [CHR 0xE1] @ ''metro obligatorio ''
     @ quoted k @ '' no proporcionado''"

definition not_in_enum :: "string \<Rightarrow> string \<Rightarrow> string list \<Rightarrow> string \<Rightarrow> string" where
  "not_in_enum n k es v = ''Herramienta '' @ quoted n @ '': par'' @ [CHR 0xE1] @ ''metro '' @ quoted k
     @ '' debe ser uno de '' @ quoted_list es @ '', recibido '' @ quoted v"

definition not_convertible :: "string \<Rightarrow> string \<Rightarrow> string \<Rightarrow> string \<Rightarrow> string" where
  "not_convertible n k ty e = ''Herramienta '' @ quoted n @ '': no se pudo convertir '' @ quoted k
     @ '' a '' @ ty @ '': '' @ e"

definition parameter_named :: "tool_definition \<Rightarrow> string \<Rightarrow> tool_parameter option" where
  "parameter_named t k = map_of (rev (map (\<lambda>p. (tp_name p, p)) (td_parameters t))) k"

definition validate_argument :: "py_texts \<Rightarrow> string \<Rightarrow> tool_definition \<Rightarrow> string \<times> json \<Rightarrow> string + json" where
  "validate_argument py n t kv = (case kv of (k, v) \<Rightarrow> (case parameter_named t k of
     None \<Rightarrow> Inr v
   | Some p \<Rightarrow>
       (case tp_enum p of
          Some es \<Rightarrow> if py_str (pt_other py) v \<notin> set es
            then Inl (not_in_enum n k es (py_str (pt_other py) v))
            else (case coerce py (tp_type p) v of
                Some v' \<Rightarrow> Inr v' | None \<Rightarrow> Inl (not_convertible n k (tp_type p) (pt_error py (tp_type p) v)))
        | None \<Rightarrow> (case coerce py (tp_type p) v of
                Some v' \<Rightarrow> Inr v' | None \<Rightarrow> Inl (not_convertible n k (tp_type p) (pt_error py (tp_type p) v))))))"

fun validate_arguments ::
    "py_texts \<Rightarrow> string \<Rightarrow> tool_definition \<Rightarrow> tool_args \<Rightarrow> string + tool_args" where
  "validate_arguments py n t [] = Inr []"
| "validate_arguments py n t (kv # kvs) = (case validate_argument py n t kv of
     Inl e \<Rightarrow> Inl e
   | Inr v \<Rightarrow> (case validate_arguments py n t kvs of
       Inl e \<Rightarrow> Inl e | Inr kvs' \<Rightarrow> Inr ((fst kv, v) # kvs')))"

definition validate_call ::
    "py_texts \<Rightarrow> tool_registry \<Rightarrow> string \<Rightarrow> tool_args \<Rightarrow> string + tool_args" where
  "validate_call py reg n args = (case registry_get reg n of
     None \<Rightarrow> Inl (quoted (''Unknown tool: '' @ n))
   | Some t \<Rightarrow>
       (case find (\<lambda>p. tp_required p \<and> tp_name p \<notin> fst ` set args) (td_parameters t) of
          Some p \<Rightarrow> Inl (missing_argument n (tp_name p))
        | None \<Rightarrow> validate_arguments py n t args))"

section \<open>What a validated call looks like\<close>

definition has_type :: "string \<Rightarrow> json \<Rightarrow> bool" where
  "has_type ty v =
     (if ty = ''string'' then (\<exists>t. v = JStr t)
      else if ty = ''integer'' then (\<exists>n. v = JInt n) \<or> (\<exists>b. v = JBool b)
      else if ty = ''number'' then (\<exists>x. v = JFloat x)
      else if ty = ''boolean'' then (\<exists>b. v = JBool b)
      else True)"

lemma coerce_has_type: "coerce py ty v = Some v' \<Longrightarrow> has_type ty v'"
  by (auto simp: coerce_def has_type_def split: if_splits json.splits)

lemma coerce_idem: "has_type ty v \<Longrightarrow> ty \<noteq> ''string'' \<or> v \<noteq> JNull \<Longrightarrow> coerce py ty v = Some v"
  by (auto simp: coerce_def has_type_def py_str_def json_truthy_def split: if_splits)

lemma validate_argument_type:
  "validate_argument py n t (k, v) = Inr v' \<Longrightarrow> parameter_named t k = Some p \<Longrightarrow> has_type (tp_type p) v'"
  by (auto simp: validate_argument_def dest: coerce_has_type split: option.splits if_splits)

lemma validate_argument_enum:
  "validate_argument py n t (k, v) = Inr v' \<Longrightarrow> parameter_named t k = Some p \<Longrightarrow> tp_enum p = Some es
     \<Longrightarrow> tp_type p = ''string'' \<Longrightarrow> \<exists>e \<in> set es. v' = JStr e"
  by (auto simp: validate_argument_def coerce_def split: option.splits if_splits)

lemma validate_argument_again:
  assumes "validate_argument py n t (k, v) = Inr v'"
    and "\<forall>p \<in> set (td_parameters t). tp_enum p \<noteq> None \<longrightarrow> tp_type p = ''string''"
  shows "validate_argument py n t (k, v') = Inr v'"
proof (cases "parameter_named t k")
  case None
  with assms show ?thesis by (simp add: validate_argument_def)
next
  case (Some p)
  have ty: "has_type (tp_type p) v'" by (rule validate_argument_type [OF assms(1) Some])
  then have c: "coerce py (tp_type p) v' = Some v'" by (rule coerce_idem) (use ty in \<open>auto simp: has_type_def\<close>)
  have "p \<in> set (td_parameters t)"
    using map_of_SomeD [OF Some [unfolded parameter_named_def]] by auto
  with assms Some validate_argument_enum [OF assms(1) Some] c show ?thesis
    by (cases "tp_enum p") (auto simp: validate_argument_def py_str_def)
qed

lemma validate_arguments_all:
  "validate_arguments py n t args = Inr args' \<Longrightarrow>
     map fst args' = map fst args
     \<and> list_all2 (\<lambda>kv kv'. fst kv' = fst kv \<and> validate_argument py n t kv = Inr (snd kv')) args args'"
  by (induction args arbitrary: args') (auto split: sum.splits)

text \<open>
  C38: A call that passes the check names a registered tool, has all its required arguments, keeps
  the arguments of the model with their names and order, and every declared one has the declared
  type and, where the values are enumerated, one of them; checking it again changes nothing.
\<close>

theorem validated_call:
  assumes "validate_call py reg n args = Inr args'"
  shows "\<exists>t. registry_get reg n = Some t \<and> map fst args' = map fst args
    \<and> (\<forall>p \<in> set (td_parameters t). tp_required p \<longrightarrow> tp_name p \<in> fst ` set args')
    \<and> (\<forall>(k, v) \<in> set args'. \<forall>p. parameter_named t k = Some p \<longrightarrow>
         has_type (tp_type p) v
         \<and> (tp_type p = ''string'' \<longrightarrow> (\<forall>es. tp_enum p = Some es \<longrightarrow> (\<exists>e \<in> set es. v = JStr e))))
    \<and> ((\<forall>p \<in> set (td_parameters t). tp_enum p \<noteq> None \<longrightarrow> tp_type p = ''string'')
         \<longrightarrow> validate_call py reg n args' = Inr args')"
proof -
  obtain t where t: "registry_get reg n = Some t"
    and req: "find (\<lambda>p. tp_required p \<and> tp_name p \<notin> fst ` set args) (td_parameters t) = None"
    and va: "validate_arguments py n t args = Inr args'"
    using assms by (auto simp: validate_call_def split: option.splits)
  note va' = validate_arguments_all [OF va]
  then have keys: "fst ` set args' = fst ` set args" by (metis image_set)
  have one: "\<exists>u. (k, u) \<in> set args \<and> validate_argument py n t (k, u) = Inr v" if "(k, v) \<in> set args'" for k v
  proof -
    from that obtain i where i: "i < length args'" "args' ! i = (k, v)" by (auto simp: in_set_conv_nth)
    with va' have "i < length args" "fst (args ! i) = k" "validate_argument py n t (args ! i) = Inr v"
      by (auto simp: list_all2_conv_all_nth)
    then show ?thesis
      by (intro exI [of _ "snd (args ! i)"]) (metis nth_mem prod.collapse)
  qed
  have again: "validate_arguments py n t args' = Inr args'"
    if "\<forall>p \<in> set (td_parameters t). tp_enum p \<noteq> None \<longrightarrow> tp_type p = ''string''"
    using va
  proof (induction args arbitrary: args')
    case (Cons kv args)
    then show ?case
      using that by (cases kv) (auto simp: validate_argument_again split: sum.splits)
  qed simp
  show ?thesis
  proof (intro exI [of _ t] conjI ballI impI)
    show "validate_call py reg n args' = Inr args'"
      if "\<forall>p \<in> set (td_parameters t). tp_enum p \<noteq> None \<longrightarrow> tp_type p = ''string''"
      using again [OF that] t req by (simp add: validate_call_def keys)
  next
    fix p assume "p \<in> set (td_parameters t)" "tp_required p"
    with req keys show "tp_name p \<in> fst ` set args'" by (auto simp: find_None_iff)
  next
    fix kv assume kv: "kv \<in> set args'"
    obtain k v where kv'': "kv = (k, v)" by (cases kv)
    with kv have kv': "kv = (k, v)" "(k, v) \<in> set args'" by simp_all
    from one [OF kv'(2)] obtain u where u: "validate_argument py n t (k, u) = Inr v" by blast
    show "case kv of (k, v) \<Rightarrow> \<forall>p. parameter_named t k = Some p \<longrightarrow> has_type (tp_type p) v
         \<and> (tp_type p = ''string'' \<longrightarrow> (\<forall>es. tp_enum p = Some es \<longrightarrow> (\<exists>e \<in> set es. v = JStr e)))"
      using validate_argument_type [OF u] validate_argument_enum [OF u] by (auto simp: kv'(1))
  qed (use t va' in auto)
qed

definition demo_registry :: tool_registry where
  "demo_registry = register \<lparr>td_name = ''list_drafts'', td_description = [],
     td_parameters = [\<lparr>tp_name = ''limit'', tp_type = ''integer'', tp_description = [], tp_required = False,
       tp_enum = None\<rparr>], td_category = ''outreach'', td_requires_confirmation = False, td_handler = None,
     td_takes_db = False\<rparr> []"

definition demo_texts :: py_texts where
  "demo_texts = \<lparr>pt_float = (\<lambda>x. []), pt_other = (\<lambda>j. []), pt_error = (\<lambda>t j. [])\<rparr>"

lemma demo_validated:
  "validate_call demo_texts demo_registry ''list_drafts'' [(''limit'', JStr '' 12'')]
     = Inr [(''limit'', JInt 12)]"
  by code_simp

theorem validated_call_witness:
  "\<exists>t. registry_get demo_registry ''list_drafts'' = Some t
     \<and> (\<forall>p. parameter_named t ''limit'' = Some p \<longrightarrow> has_type (tp_type p) (JInt 12))"
  using validated_call [OF demo_validated] by force

text \<open>A \<open>null\<close> for an optional text is turned into the text \<open>None\<close>.\<close>

lemma null_becomes_text: "coerce py ''string'' JNull = Some (JStr ''None'')"
  by (simp add: coerce_def py_str_def)

end
