(* ===== verification/Agent_Core.thy ===== *)
theory Agent_Core
  imports Agent_Registry Batch_Review
begin

text \<open>
  One turn of the agent (\<open>app/agent/core.py\<close>): the user's message is stored, the model is asked with
  the system prompt and the history that fits, the tools it calls are run and their results handed
  back, at most five times.  The answers of the model server are lines of a stream
  (\<open>app/agent/streaming_client.py\<close>); \<open>agent_env\<close> holds what is outside.
\<close>

section \<open>The stream of the model server\<close>

datatype stream_failure = StreamTimeout | StreamStatus int | StreamNoConnection | StreamOther string

datatype stream_end = StreamDone | StreamError string | StreamCrash string

text \<open>
  \<open>content\<close> of a chunk, with the exception of a chunk of another shape; \<open>done\<close> ends the stream.
\<close>

datatype chunk = ChunkDone | ChunkSkip | ChunkText string | ChunkBad string

definition chunk_of :: "py_texts \<Rightarrow> string \<Rightarrow> chunk" where
  "chunk_of py line =
     (if strip line = [] then ChunkSkip
      else case json_loads line of
        None \<Rightarrow> ChunkSkip
      | Some (JObj kvs) \<Rightarrow>
          if json_truthy (get_or ''done'' JNull (JObj kvs)) then ChunkDone
          else (case get_or ''message'' (JObj []) (JObj kvs) of
              JObj m \<Rightarrow>
                let content = get_or ''content'' (JStr []) (JObj m)
                in if \<not> json_truthy content then ChunkSkip
                   else (case content of JStr t \<Rightarrow> ChunkText t | j \<Rightarrow> ChunkBad (pt_error py ''content'' j))
            | j \<Rightarrow> ChunkBad (pt_error py ''message'' j))
      | Some j \<Rightarrow> ChunkBad (pt_error py ''chunk'' j))"

definition failure_end :: "py_texts \<Rightarrow> pyfloat \<Rightarrow> stream_failure option \<Rightarrow> stream_end" where
  "failure_end py timeout f = (case f of
     None \<Rightarrow> StreamDone
   | Some StreamTimeout \<Rightarrow> StreamError (''Ollama streaming timeout after '' @ pt_float py timeout @ ''s'')
   | Some (StreamStatus n) \<Rightarrow> StreamError (''Ollama HTTP error: '' @ int_str n)
   | Some StreamNoConnection \<Rightarrow> StreamError ''No se pudo conectar a Ollama''
   | Some (StreamOther e) \<Rightarrow> StreamCrash e)"

fun stream_tokens ::
    "py_texts \<Rightarrow> pyfloat \<Rightarrow> stream_failure option \<Rightarrow> string list \<Rightarrow> string list \<times> stream_end" where
  "stream_tokens py timeout f [] = ([], failure_end py timeout f)"
| "stream_tokens py timeout f (line # ls) = (case chunk_of py line of
     ChunkDone \<Rightarrow> ([], StreamDone)
   | ChunkSkip \<Rightarrow> stream_tokens py timeout f ls
   | ChunkText t \<Rightarrow> (let (ts, e) = stream_tokens py timeout f ls in (t # ts, e))
   | ChunkBad e \<Rightarrow> ([], StreamCrash e))"

section \<open>Environment, events and state of a turn\<close>

type_synonym chat_entry = "string \<times> string"

record agent_env =
  ag_py :: py_texts
  ag_model :: "string option"
  ag_timeout :: pyfloat
  ag_stream :: "nat \<Rightarrow> chat_entry list \<Rightarrow> string list \<times> stream_failure option"
  ag_identity :: string
  ag_preamble :: string
  ag_files :: "string list"
  ag_stats :: "store \<Rightarrow> string option"
  ag_gap :: nat
  ag_duration :: "nat \<Rightarrow> int"

datatype agent_event =
    TextDelta string
  | ToolStart string uuid tool_args
  | ToolResult uuid string json "string option"
  | ConfirmationRequired string uuid tool_args string
  | TurnComplete uuid
  | AgentError string

text \<open>
  Committed store, session, the events yielded so far, each with what was committed when it was
  yielded (the consumer may stop there), and the exception that ends the generator.
\<close>

record turn =
  tn_base :: store
  tn_session :: store
  tn_events :: "(agent_event \<times> store) list"
  tn_raised :: "string option"

definition yield_event :: "agent_event \<Rightarrow> turn \<Rightarrow> turn" where
  "yield_event e t = t\<lparr>tn_events := tn_events t @ [(e, tn_base t)]\<rparr>"

definition commit_turn :: "agent_env \<Rightarrow> turn \<Rightarrow> turn" where
  "commit_turn env t = (let s = (tn_session t)\<lparr>now := now (tn_session t) + int (Suc (ag_gap env))\<rparr>
     in t\<lparr>tn_base := s, tn_session := s\<rparr>)"

definition in_session :: "(store \<Rightarrow> store) \<Rightarrow> turn \<Rightarrow> turn" where
  "in_session f t = t\<lparr>tn_session := f (tn_session t)\<rparr>"

section \<open>Rows\<close>

definition new_message :: "uuid \<Rightarrow> string \<Rightarrow> string option \<Rightarrow> string option \<Rightarrow> store \<Rightarrow> chat_message" where
  "new_message c role content model s = \<lparr>cmsg_id = next_uuid s, cmsg_conversation_id = c, cmsg_role = role,
     cmsg_content = content, cmsg_attachments_json = None, cmsg_model = model, cmsg_created_at = now s\<rparr>"

definition save_message :: "uuid \<Rightarrow> string \<Rightarrow> string option \<Rightarrow> string option \<Rightarrow> store \<Rightarrow> store" where
  "save_message c role content model s = tick_uuid
     (s\<lparr>chat_messages := chat_messages s @ [new_message c role content model s]\<rparr>)"

definition new_tool_call ::
    "uuid \<Rightarrow> string \<Rightarrow> tool_args \<Rightarrow> json \<Rightarrow> string option \<Rightarrow> string \<Rightarrow> int option \<Rightarrow> store \<Rightarrow> tool_call_row" where
  "new_tool_call m n args result err status ms s = \<lparr>tc_id = next_uuid s, tc_message_id = m,
     tc_tool_name = n, tc_arguments_json = Some (JObj args),
     tc_result_json = Some (case result of JObj kvs \<Rightarrow> result | _ \<Rightarrow> JObj [(''value'', result)]),
     tc_error = err, tc_status = status, tc_duration_ms = ms, tc_created_at = now s,
     tc_completed_at = (if status \<in> {''completed'', ''failed''} then Some (now s) else None)\<rparr>"

definition save_tool_call ::
    "uuid \<Rightarrow> string \<Rightarrow> tool_args \<Rightarrow> json \<Rightarrow> string option \<Rightarrow> string \<Rightarrow> int option \<Rightarrow> store \<Rightarrow> store" where
  "save_tool_call m n args result err status ms s = tick_uuid
     (s\<lparr>tool_calls := tool_calls s @ [new_tool_call m n args result err status ms s]\<rparr>)"

section \<open>Prompt and history\<close>

definition max_tool_loops :: nat where "max_tool_loops = 5"
definition max_history_messages :: nat where "max_history_messages = 50"
definition context_window :: nat where "context_window = 16384"
definition reserved_for_response :: nat where "reserved_for_response = 2048"
definition chars_per_token :: nat where "chars_per_token = 4"

definition estimate_tokens :: "string \<Rightarrow> nat" where
  "estimate_tokens t = length t div chars_per_token"

text \<open>Walking from the newest message; \<open>used\<close> are the tokens taken so far.\<close>

fun keep_newest :: "int \<Rightarrow> nat \<Rightarrow> chat_entry list \<Rightarrow> chat_entry list" where
  "keep_newest available used [] = []"
| "keep_newest available used (m # ms) =
     (if available < int (used + estimate_tokens (snd m)) then []
      else m # keep_newest available (used + estimate_tokens (snd m)) ms)"

definition history_budget :: "string \<Rightarrow> int" where
  "history_budget prompt = int (context_window - reserved_for_response) - int (estimate_tokens prompt)"

definition trim_history_to_budget :: "string \<Rightarrow> chat_entry list \<Rightarrow> chat_entry list" where
  "trim_history_to_budget prompt history =
     (if history_budget prompt \<le> 0 then drop (length history - 5) history
      else rev (keep_newest (history_budget prompt) 0 (rev history)))"

definition load_history :: "store \<Rightarrow> uuid \<Rightarrow> chat_entry list" where
  "load_history s c =
     concat (map (\<lambda>m. if cmsg_role m \<in> {''user'', ''assistant''}
         then [(cmsg_role m, text_or_empty (cmsg_content m))]
         else if cmsg_role m = ''tool'' then [(''user'', text_or_empty (cmsg_content m))] else [])
       (rev (take max_history_messages
         (sort_key (\<lambda>m. - cmsg_created_at m) (filter (\<lambda>m. cmsg_conversation_id m = c) (chat_messages s))))))"

definition correction_lines :: "store \<Rightarrow> string list" where
  "correction_lines s = map (\<lambda>(c, n). ''  - '' @ correction_category_value c @ '': '' @ nat_str n @ '' veces'')
     (top_groups 3 (group_counts corr_category
        (filter (\<lambda>c. now s - days 30 \<le> corr_created_at c) (corrections s))))"

text \<open>\<open>_build_system_context\<close>; the line with the statistics of the dashboard is a parameter.\<close>

definition build_system_context :: "(store \<Rightarrow> string option) \<Rightarrow> store \<Rightarrow> string" where
  "build_system_context stats s =
     (let synthesis = (if truthy (get_latest_strategy_brief s)
            then [[CHR 10] @ ''Ultima reunion del equipo IA:'' @ [CHR 10]
              @ take 1500 (text_or_empty (get_latest_strategy_brief s))]
            else (case first_max wr_created_at (weekly_reports s) of
                Some r \<Rightarrow> if truthy (wr_synthesis_text r)
                  then [[CHR 10] @ ''Ultimo reporte semanal del equipo IA:'' @ [CHR 10]
                    @ take 1500 (text_or_empty (wr_synthesis_text r))] else []
              | None \<Rightarrow> []));
          patterns = (if correction_lines s = [] then []
            else [[CHR 10] @ ''Patrones de correccion del Reviewer (ultimos 30 dias):'' @ [CHR 10]
              @ join [CHR 10] (correction_lines s)])
      in join [CHR 10] ((case stats s of Some t \<Rightarrow> [t] | None \<Rightarrow> []) @ synthesis @ patterns))"

definition load_personality :: "string list \<Rightarrow> string" where
  "load_personality files = join [CHR 10, CHR 10]
     (filter (\<lambda>t. \<not> contains ''_(pick something'' t) (map strip files))"

text \<open>The fixed texts \<open>AGENT_IDENTITY\<close> and \<open>SECURITY_PREAMBLE\<close> are parameters.\<close>

definition build_agent_system_prompt ::
    "string \<Rightarrow> string \<Rightarrow> string list \<Rightarrow> string \<Rightarrow> string \<Rightarrow> string" where
  "build_agent_system_prompt identity preamble files schema ctx = join [CHR 10]
     ([identity, [], preamble]
      @ (let p = load_personality files in if p = [] then [] else [[], ''## Personalidad'', p])
      @ (if ctx = [] then [] else [[], ''## Contexto actual del sistema'', ctx])
      @ [[], ''## Herramientas disponibles'', [],
         ''Cuando necesites usar una herramienta, respond'' @ [CHR 0xE9] @ '' con el formato:'',
         ''<tool_call>'',
         ''{'' @ [CHR 34] @ ''name'' @ [CHR 34] @ '': '' @ [CHR 34] @ ''nombre_herramienta'' @ [CHR 34] @ '', ''
           @ [CHR 34] @ ''arguments'' @ [CHR 34] @ '': {'' @ [CHR 34] @ ''param'' @ [CHR 34] @ '': ''
           @ [CHR 34] @ ''valor'' @ [CHR 34] @ ''}}'',
         ''</tool_call>'', [],
         ''Pod'' @ [CHR 0xE9] @ ''s usar m'' @ [CHR 0xFA] @ ''ltiples herramientas en un mismo mensaje.'',
         ''Despu'' @ [CHR 0xE9] @ ''s de recibir el resultado, continu'' @ [CHR 0xE1] @ '' tu respuesta al usuario.'',
         [], schema])"

section \<open>Running a tool\<close>

definition suggest_tools :: "tool_registry \<Rightarrow> string \<Rightarrow> string" where
  "suggest_tools reg n =
     (let all_names = map td_name (list_all_tools reg); bare = remove_char (CHR ''_'');
          matches = filter (\<lambda>m. contains (bare n) (bare m)
            \<or> list_ex (\<lambda>w. 3 < length w \<and> contains w m) (split_on (CHR ''_'') n)) all_names
      in if matches = [] then '' Herramientas disponibles: '' @ join '', '' all_names
         else '' Herramientas similares: '' @ join '', '' (take 5 matches))"

text \<open>The \<open>TypeError\<close> of a call whose arguments do not fit the signature.\<close>

definition and_list :: "string list \<Rightarrow> string" where
  "and_list ss = (case ss of [] \<Rightarrow> [] | [a] \<Rightarrow> a | [a, b] \<Rightarrow> a @ '' and '' @ b
     | _ \<Rightarrow> join '', '' (butlast ss) @ '', and '' @ last ss)"

definition binding_error :: "tool_handler \<Rightarrow> bool \<Rightarrow> tool_args \<Rightarrow> string option" where
  "binding_error h takes_db args =
     (let unknown = filter (\<lambda>k. k \<notin> fst ` set (th_keywords h)) (map fst args);
          missing = filter (\<lambda>k. k \<notin> fst ` set args) (map fst (filter snd (th_keywords h)))
      in if unknown \<noteq> [] then Some (if hd unknown = ''db'' \<and> takes_db \<and> th_db h
             then th_name h @ ''() got multiple values for argument '' @ quoted ''db''
             else th_name h @ ''() got an unexpected keyword argument '' @ quoted (hd unknown))
         else if takes_db \<and> \<not> th_db h
           then Some (th_name h @ ''() takes 0 positional arguments but 1 was given'')
         else if th_db h \<and> \<not> takes_db
           then Some (th_name h @ ''() missing 1 required positional argument: '' @ quoted ''db'')
         else if missing \<noteq> [] then Some (th_name h @ ''() missing '' @ nat_str (length missing)
             @ '' required keyword-only argument'' @ (if length missing = 1 then [] else ''s'')
             @ '': '' @ and_list (map quoted missing))
         else None)"

definition execute_tool ::
    "py_texts \<Rightarrow> tool_registry \<Rightarrow> string \<Rightarrow> tool_args \<Rightarrow> store \<times> store
       \<Rightarrow> (json \<times> string option) \<times> (store \<times> store)" where
  "execute_tool py reg n args st =
     (let failed = (\<lambda>e. ((JNull, Some e), st)) in
      case Option.bind (registry_get reg n) (\<lambda>t. map_option (Pair t) (td_handler t)) of
        None \<Rightarrow> failed (''Herramienta '' @ quoted n @ '' no existe.'' @ suggest_tools reg n)
      | Some (t, h) \<Rightarrow> (case validate_call py reg n args of
          Inl e \<Rightarrow> failed e
        | Inr args' \<Rightarrow> (case binding_error h (td_takes_db t) args' of
            Some e \<Rightarrow> failed e
          | None \<Rightarrow> (case th_run h args' st of
              (Inl e, st') \<Rightarrow> ((JNull, Some e), st')
            | (Inr j, st') \<Rightarrow> ((j, None), st')))))"

definition pending_confirmation :: string where
  "pending_confirmation = ''pendiente de confirmaci'' @ [CHR 0xF3] @ ''n''"

definition needs_confirmation :: "tool_registry \<Rightarrow> string \<Rightarrow> bool" where
  "needs_confirmation reg n = (case registry_get reg n of None \<Rightarrow> False | Some t \<Rightarrow> td_requires_confirmation t)"

text \<open>
  One call of an answer, whose message is \<open>m\<close>: the text for the model and the turn.  The identifier
  of the event is drawn first and is not the one of the row.
\<close>

definition run_tool_call ::
    "agent_env \<Rightarrow> tool_registry \<Rightarrow> uuid \<Rightarrow> tool_call_request \<Rightarrow> turn \<Rightarrow> string \<times> turn" where
  "run_tool_call env reg m q t =
     (let n = tcr_name q; args = tcr_arguments q; i = next_uuid (tn_session t);
          t1 = in_session tick_uuid t; py = ag_py env
      in if needs_confirmation reg n
         then let t2 = commit_turn env (in_session (save_tool_call m n args JNull None ''pending'' None) t1)
              in (format_tool_result (pt_float py) n JNull
                    (Some (''Acci'' @ [CHR 0xF3] @ ''n '' @ pending_confirmation @ '' del usuario'')),
                  yield_event (ConfirmationRequired n i args
                    (''Ejecutar '' @ n @ '' con '' @ pt_other py (JObj args))) t2)
         else let t2 = yield_event (ToolStart n i args) t1;
                  ((result, err), (b, s)) = execute_tool py reg n args (tn_base t2, tn_session t2);
                  t3 = in_session (save_tool_call m n args result err
                    (if truthy err then ''failed'' else ''completed'') (Some (ag_duration env i)))
                    (t2\<lparr>tn_base := b, tn_session := s\<rparr>)
              in (format_tool_result (pt_float py) n result err, yield_event (ToolResult i n result err) t3))"

fun run_tool_calls ::
    "agent_env \<Rightarrow> tool_registry \<Rightarrow> uuid \<Rightarrow> tool_call_request list \<Rightarrow> turn \<Rightarrow> string list \<times> turn" where
  "run_tool_calls env reg m [] t = ([], t)"
| "run_tool_calls env reg m (q # qs) t =
     (let (x, t1) = run_tool_call env reg m q t; (xs, t2) = run_tool_calls env reg m qs t1
      in (x # xs, t2))"

section \<open>The turn\<close>

definition save_answer :: "agent_env \<Rightarrow> uuid \<Rightarrow> string \<Rightarrow> turn \<Rightarrow> turn" where
  "save_answer env c answer t = in_session (save_message c ''assistant'' (Some answer) (ag_model env)) t"

definition loop_limit_message :: string where
  "loop_limit_message = ''Se alcanz'' @ [CHR 0xF3] @ '' el l'' @ [CHR 0xED] @ ''mite m'' @ [CHR 0xE1]
     @ ''ximo de iteraciones de herramientas''"

definition empty_answer_message :: string where
  "empty_answer_message = ''Respuesta vac'' @ [CHR 0xED] @ ''a del modelo''"

text \<open>The loop; \<open>n\<close> rounds remain, \<open>asked\<close> is what the model is asked.\<close>

fun agent_loop ::
    "agent_env \<Rightarrow> tool_registry \<Rightarrow> uuid \<Rightarrow> nat \<Rightarrow> chat_entry list \<Rightarrow> turn \<Rightarrow> turn" where
  "agent_loop env reg c 0 asked t = yield_event (AgentError loop_limit_message) t"
| "agent_loop env reg c (Suc n) asked t =
     (let (ls, f) = ag_stream env (max_tool_loops - Suc n) asked;
          (tokens, ending) = stream_tokens (ag_py env) (ag_timeout env) f ls;
          t1 = fold (\<lambda>x. yield_event (TextDelta x)) tokens t;
          answer = concat tokens; calls = parse_tool_calls answer;
          m = next_uuid (tn_session t1)
      in case ending of
        StreamError e \<Rightarrow> yield_event (AgentError e) t1
      | StreamCrash e \<Rightarrow> t1\<lparr>tn_raised := Some e\<rparr>
      | StreamDone \<Rightarrow>
          if strip answer = [] then yield_event (AgentError empty_answer_message) t1
          else if \<not> contains_tool_call answer \<or> calls = []
          then yield_event (TurnComplete m) (commit_turn env (save_answer env c answer t1))
          else let (results, t2) = run_tool_calls env reg m calls (save_answer env c answer t1);
                   t3 = commit_turn env t2
               in if \<forall>r \<in> set results. contains pending_confirmation r
                  then yield_event (TurnComplete m) t3
                  else agent_loop env reg c n
                    (asked @ [(''assistant'', answer), (''user'', join [CHR 10] results)])
                    (commit_turn env (in_session
                      (save_message c ''tool'' (Some (join [CHR 10] results)) None) t3)))"

definition run_agent_turn :: "agent_env \<Rightarrow> tool_registry \<Rightarrow> uuid \<Rightarrow> string \<Rightarrow> store \<Rightarrow> turn" where
  "run_agent_turn env reg c text db =
     (let t0 = \<lparr>tn_base = db, tn_session = db, tn_events = [], tn_raised = None\<rparr> in
      if ag_model env = None \<or> ag_model env = Some []
      then t0\<lparr>tn_raised := Some ''No model configured for AGENT role''\<rparr>
      else let t1 = commit_turn env (in_session (save_message c ''user'' (Some text) None) t0);
               s = tn_session t1;
               prompt = build_agent_system_prompt (ag_identity env) (ag_preamble env) (ag_files env)
                 (to_hermes_schema (pt_float (ag_py env)) reg)
                 (build_system_context (ag_stats env) s);
               history = trim_history_to_budget prompt (load_history s c)
           in agent_loop env reg c max_tool_loops ((''system'', prompt) # history) t1)"

section \<open>History\<close>

lemma keep_newest_prefix: "\<exists>k. keep_newest a u ms = take k ms"
proof (induction ms arbitrary: u)
  case (Cons m ms)
  from Cons.IH [of "u + estimate_tokens (snd m)"] obtain k where
    "keep_newest a (u + estimate_tokens (snd m)) ms = take k ms" by blast
  then show ?case
    by (cases "a < int (u + estimate_tokens (snd m))") (auto intro: exI [of _ 0] exI [of _ "Suc k"])
qed simp

definition tokens_of :: "chat_entry list \<Rightarrow> nat" where
  "tokens_of ms = sum_list (map (\<lambda>m. estimate_tokens (snd m)) ms)"

lemma keep_newest_within: "keep_newest a u ms = [] \<or> int (u + tokens_of (keep_newest a u ms)) \<le> a"
proof (induction ms arbitrary: u)
  case (Cons m ms)
  then show ?case
    using Cons.IH [of "u + estimate_tokens (snd m)"] by (auto simp: tokens_of_def)
qed simp

lemma keep_newest_maximal:
  "k < length ms \<Longrightarrow> keep_newest a u ms = take k ms \<Longrightarrow> a < int (u + tokens_of (take (Suc k) ms))"
proof (induction ms arbitrary: u k)
  case (Cons m ms)
  show ?case
  proof (cases "a < int (u + estimate_tokens (snd m))")
    case True
    with Cons.prems show ?thesis by (cases k) (auto simp: tokens_of_def)
  next
    case False
    with Cons.prems obtain k' where "k = Suc k'" by (cases k) auto
    with Cons.IH [of k' "u + estimate_tokens (snd m)"] Cons.prems False show ?thesis
      by (simp add: tokens_of_def)
  qed
qed simp



section \<open>Nothing that needs confirmation runs\<close>

text \<open>The registry with other handlers for the tools that need confirmation.\<close>

definition guard_with :: "(string \<Rightarrow> tool_handler option) \<Rightarrow> tool_definition \<Rightarrow> tool_definition" where
  "guard_with f t = (if td_requires_confirmation t then t\<lparr>td_handler := f (td_name t)\<rparr> else t)"

definition with_guarded :: "(string \<Rightarrow> tool_handler option) \<Rightarrow> tool_registry \<Rightarrow> tool_registry" where
  "with_guarded f reg = map (apsnd (guard_with f)) reg"

lemma guard_with_fields [simp]:
  "td_name (guard_with f t) = td_name t" "td_description (guard_with f t) = td_description t"
  "td_parameters (guard_with f t) = td_parameters t" "td_category (guard_with f t) = td_category t"
  "td_requires_confirmation (guard_with f t) = td_requires_confirmation t"
  by (simp_all add: guard_with_def)

lemma registry_get_guarded: "registry_get (with_guarded f reg) n = map_option (guard_with f) (registry_get reg n)"
  by (induction reg) (auto simp: registry_get_def with_guarded_def)

lemma needs_confirmation_guarded [simp]: "needs_confirmation (with_guarded f reg) n = needs_confirmation reg n"
  by (simp add: needs_confirmation_def registry_get_guarded option.case_eq_if map_option_case)

lemma assoc_set_map: "assoc_set k (g v) (map (apsnd g) kvs) = map (apsnd g) (assoc_set k v kvs)"
  by (induction kvs) auto

lemma map_of_apsnd: "map_of (map (apsnd g) kvs) k = map_option g (map_of kvs k)"
  by (induction kvs) auto

lemma add_to_group:
  "assoc_set c ((case map_of (map (apsnd (map g)) h) c of None \<Rightarrow> [] | Some us \<Rightarrow> us) @ [g t])
      (map (apsnd (map g)) h)
    = map (apsnd (map g)) (assoc_set c ((case map_of h c of None \<Rightarrow> [] | Some us \<Rightarrow> us) @ [t]) h)"
proof -
  define us where "us = (case map_of h c of None \<Rightarrow> [] | Some us \<Rightarrow> us)"
  have "(case map_of (map (apsnd (map g)) h) c of None \<Rightarrow> [] | Some us \<Rightarrow> us) = map g us"
    by (simp add: map_of_apsnd us_def split: option.split)
  then show ?thesis
    using assoc_set_map [of c "map g" "us @ [t]" h] by (simp add: us_def)
qed

lemma by_category_map:
  assumes "\<And>t. td_category (g t) = td_category t"
  shows "by_category (map g ts) = map (apsnd (map g)) (by_category ts)"
proof -
  let ?step = "\<lambda>t h. let c = (if td_category t = [] then ''general'' else td_category t) in
     assoc_set c ((case map_of h c of None \<Rightarrow> [] | Some us \<Rightarrow> us) @ [t]) h"
  have one: "?step (g t) (map (apsnd (map g)) h) = map (apsnd (map g)) (?step t h)" for t h
    by (simp only: Let_def assms add_to_group)
  have "fold ?step (map g ts) (map (apsnd (map g)) h) = map (apsnd (map g)) (fold ?step ts h)" for h
    by (induction ts arbitrary: h) (simp_all add: one del: Let_def)
  from this [of "[]"] show ?thesis by (simp add: by_category_def)
qed

lemma schema_guarded: "to_hermes_schema fr (with_guarded f reg) = to_hermes_schema fr reg"
proof -
  have "list_all_tools (with_guarded f reg) = map (guard_with f) (list_all_tools reg)"
    by (simp add: list_all_tools_def with_guarded_def)
  moreover have "tool_json (guard_with f t) = tool_json t" for t by (simp add: tool_json_def)
  ultimately show ?thesis
    by (simp add: to_hermes_schema_def by_category_map comp_def case_prod_unfold)
qed

lemma suggest_tools_guarded [simp]: "suggest_tools (with_guarded f reg) n = suggest_tools reg n"
proof -
  have "map td_name (list_all_tools (with_guarded f reg)) = map td_name (list_all_tools reg)"
    by (simp add: list_all_tools_def with_guarded_def)
  then show ?thesis by (simp add: suggest_tools_def)
qed

lemma execute_tool_guarded:
  assumes "\<not> needs_confirmation reg n"
  shows "execute_tool py (with_guarded f reg) n args st = execute_tool py reg n args st"
proof (cases "registry_get reg n")
  case None
  then show ?thesis by (simp add: execute_tool_def registry_get_guarded)
next
  case (Some t)
  with assms have g: "guard_with f t = t" by (simp add: needs_confirmation_def guard_with_def)
  then have "validate_call py (with_guarded f reg) n args = validate_call py reg n args"
    using Some by (simp add: validate_call_def registry_get_guarded)
  with Some g show ?thesis
    by (cases "td_handler t") (simp_all add: execute_tool_def registry_get_guarded Let_def)
qed

lemma run_tool_calls_guarded:
  "run_tool_calls env (with_guarded f reg) m qs t = run_tool_calls env reg m qs t"
proof (induction qs arbitrary: t)
  case (Cons q qs)
  have "run_tool_call env (with_guarded f reg) m q t = run_tool_call env reg m q t"
    by (cases "needs_confirmation reg (tcr_name q)") (simp_all add: run_tool_call_def execute_tool_guarded)
  with Cons show ?case by simp
qed simp

lemma agent_loop_guarded: "agent_loop env (with_guarded f reg) c n asked t = agent_loop env reg c n asked t"
proof (induction n arbitrary: asked t)
  case (Suc n)
  show ?case unfolding agent_loop.simps run_tool_calls_guarded Suc.IH ..
qed simp

text \<open>
  C33: Whatever the model answers, in whatever order and however often, a tool that needs
  confirmation is never run in a turn: the whole turn, what it stores, what it sends and what it
  shows, is the same for any two implementations of these tools.
\<close>

theorem confirmation_never_bypassed:
  "run_agent_turn env (with_guarded f reg) c text db = run_agent_turn env reg c text db"
  unfolding run_agent_turn_def schema_guarded agent_loop_guarded ..

section \<open>The events of a turn\<close>

fun running :: "agent_event list \<Rightarrow> bool" where
  "running [] = True"
| "running (TextDelta x # es) = running es"
| "running (ConfirmationRequired n i args d # es) = running es"
| "running (ToolStart n i args # ToolResult i' n' r err # es) = (i' = i \<and> n' = n \<and> running es)"
| "running es = False"

definition final_event :: "agent_event \<Rightarrow> bool" where
  "final_event e = (case e of TurnComplete m \<Rightarrow> True | AgentError x \<Rightarrow> True | _ \<Rightarrow> False)"

lemma running_append: "running es \<Longrightarrow> running (es @ es') = running es'"
  by (induction es rule: running.induct) auto

text \<open>\<open>t'\<close> continues \<open>t\<close> with the events \<open>es\<close>.\<close>

definition continues :: "turn \<Rightarrow> agent_event list \<Rightarrow> turn \<Rightarrow> bool" where
  "continues t es t' \<longleftrightarrow> map fst (tn_events t') = map fst (tn_events t) @ es"

lemma continues_refl: "continues t [] t"
  by (simp add: continues_def)

lemma continues_trans: "continues t es t' \<Longrightarrow> continues t' es' t'' \<Longrightarrow> continues t (es @ es') t''"
  by (simp add: continues_def)

lemma continues_steps:
  "continues t es t' \<Longrightarrow> continues t (es @ [e]) (yield_event e t')"
  "continues t es t' \<Longrightarrow> continues t es (commit_turn env t')"
  "continues t es t' \<Longrightarrow> continues t es (in_session f t')"
  by (simp_all add: continues_def yield_event_def commit_turn_def in_session_def Let_def)

lemma raised_simps [simp]:
  "tn_raised (yield_event e t) = tn_raised t" "tn_raised (commit_turn env t) = tn_raised t"
  "tn_raised (in_session f t) = tn_raised t"
  by (simp_all add: yield_event_def commit_turn_def in_session_def Let_def)

lemma settled_simps [simp]:
  "tn_session (commit_turn env t) = tn_base (commit_turn env t)"
  "tn_session (yield_event e t) = tn_session t" "tn_base (yield_event e t) = tn_base t"
  by (simp_all add: yield_event_def commit_turn_def Let_def)

lemma run_tool_call_events:
  "\<exists>es. running es \<and> continues t es (snd (run_tool_call env reg m q t))
     \<and> tn_raised (snd (run_tool_call env reg m q t)) = tn_raised t"
proof (cases "needs_confirmation reg (tcr_name q)")
  case True
  then show ?thesis
    by (intro exI [of _ "[ConfirmationRequired (tcr_name q) (next_uuid (tn_session t)) (tcr_arguments q)
        (''Ejecutar '' @ tcr_name q @ '' con '' @ pt_other (ag_py env) (JObj (tcr_arguments q)))]"])
      (simp add: run_tool_call_def Let_def continues_def yield_event_def commit_turn_def in_session_def)
next
  case False
  let ?t1 = "in_session tick_uuid t"
  obtain r e b s where x: "execute_tool (ag_py env) reg (tcr_name q) (tcr_arguments q)
      (tn_base ?t1, tn_session ?t1) = ((r, e), (b, s))" by (metis prod.collapse)
  then show ?thesis using False
    by (intro exI [of _ "[ToolStart (tcr_name q) (next_uuid (tn_session t)) (tcr_arguments q),
        ToolResult (next_uuid (tn_session t)) (tcr_name q) r e]"])
      (simp add: run_tool_call_def Let_def continues_def yield_event_def in_session_def)
qed

lemma run_tool_calls_events:
  "\<exists>es. running es \<and> continues t es (snd (run_tool_calls env reg m qs t))
     \<and> tn_raised (snd (run_tool_calls env reg m qs t)) = tn_raised t"
proof (induction qs arbitrary: t)
  case Nil
  show ?case by (intro exI [of _ "[]"]) (simp add: continues_refl)
next
  case (Cons q qs)
  obtain x t1 where 1: "run_tool_call env reg m q t = (x, t1)" by (cases "run_tool_call env reg m q t")
  obtain xs t2 where 2: "run_tool_calls env reg m qs t1 = (xs, t2)" by (cases "run_tool_calls env reg m qs t1")
  from run_tool_call_events [of t env reg m q] Cons.IH [of t1] 1 2 obtain es es' where
    "running es" "continues t es t1" "tn_raised t1 = tn_raised t"
    "running es'" "continues t1 es' t2" "tn_raised t2 = tn_raised t1" by auto
  then show ?case
    by (intro exI [of _ "es @ es'"]) (simp add: 1 2 running_append continues_trans)
qed

lemma deltas_events:
  "continues t (map TextDelta xs) (fold (\<lambda>x. yield_event (TextDelta x)) xs t)
   \<and> tn_raised (fold (\<lambda>x. yield_event (TextDelta x)) xs t) = tn_raised t
   \<and> tn_session (fold (\<lambda>x. yield_event (TextDelta x)) xs t) = tn_session t
   \<and> tn_base (fold (\<lambda>x. yield_event (TextDelta x)) xs t) = tn_base t"
proof (induction xs arbitrary: t)
  case (Cons x xs)
  then show ?case
    using continues_trans [OF continues_steps(1) [OF continues_refl, of t "TextDelta x"]] by fastforce
qed (simp add: continues_refl)

lemma running_deltas: "running (map TextDelta xs)"
  by (induction xs) simp_all

text \<open>How a turn ends, from a point where everything is committed.\<close>

definition turn_ends :: "turn \<Rightarrow> turn \<Rightarrow> bool" where
  "turn_ends t t' \<longleftrightarrow> (\<exists>es. running es \<and>
     (if tn_raised t' = None
      then tn_session t' = tn_base t' \<and> (\<exists>e. final_event e \<and> continues t (es @ [e]) t')
      else continues t es t'))"

lemma turn_ends_step:
  "running es \<Longrightarrow> continues t es t1 \<Longrightarrow> turn_ends t1 t' \<Longrightarrow> turn_ends t t'"
  unfolding turn_ends_def by (metis append.assoc continues_trans running_append)

lemma turn_ends_now:
  "tn_raised t = None \<Longrightarrow> tn_session t = tn_base t \<Longrightarrow> final_event e \<Longrightarrow> turn_ends t (yield_event e t)"
  unfolding turn_ends_def
  by (rule exI [of _ "[]"]) (auto simp: continues_steps(1) [OF continues_refl, of _ e, simplified])

lemma agent_loop_ends:
  "tn_raised t = None \<Longrightarrow> tn_session t = tn_base t \<Longrightarrow> turn_ends t (agent_loop env reg c n asked t)"
proof (induction n arbitrary: asked t)
  case 0
  then show ?case by (simp add: turn_ends_now final_event_def)
next
  case (Suc n)
  obtain ls f where lf: "ag_stream env (max_tool_loops - Suc n) asked = (ls, f)" by (cases "ag_stream env (max_tool_loops - Suc n) asked")
  obtain tokens ending where te: "stream_tokens (ag_py env) (ag_timeout env) f ls = (tokens, ending)"
    by (cases "stream_tokens (ag_py env) (ag_timeout env) f ls")
  define t1 where "t1 = fold (\<lambda>x. yield_event (TextDelta x)) tokens t"
  define answer where "answer = concat tokens"
  define m where "m = next_uuid (tn_session t1)"
  have t1: "continues t (map TextDelta tokens) t1" "tn_raised t1 = None" "tn_session t1 = tn_base t1"
    using deltas_events [of t tokens] Suc.prems by (simp_all add: t1_def)
  note step = turn_ends_step [OF running_deltas t1(1)]
  define ta where "ta = save_answer env c answer t1"
  have ta: "continues t1 [] ta" "tn_raised ta = None"
    using t1(2) continues_steps(3) [OF continues_refl, of t1] by (simp_all add: ta_def save_answer_def)
  obtain results t2 where r: "run_tool_calls env reg m (parse_tool_calls answer) ta = (results, t2)"
    by (cases "run_tool_calls env reg m (parse_tool_calls answer) ta")
  from run_tool_calls_events [of ta env reg m "parse_tool_calls answer"] r ta(2) obtain es where
    es: "running es" "continues ta es t2" "tn_raised t2 = None" by auto
  define t3 where "t3 = commit_turn env t2"
  have t3: "continues t1 es t3" "tn_raised t3 = None" "tn_session t3 = tn_base t3"
    using continues_trans [OF ta(1) es(2)] es(3) by (simp_all add: t3_def continues_steps(2))
  define t4 where "t4 = commit_turn env (in_session (save_message c ''tool'' (Some (join [CHR 10] results)) None) t3)"
  have t4: "continues t1 es t4" "tn_raised t4 = None" "tn_session t4 = tn_base t4"
    using t3 by (simp_all add: t4_def continues_steps)
  have l: "agent_loop env reg c (Suc n) asked t = (case ending of
        StreamError e \<Rightarrow> yield_event (AgentError e) t1
      | StreamCrash e \<Rightarrow> t1\<lparr>tn_raised := Some e\<rparr>
      | StreamDone \<Rightarrow>
          if strip answer = [] then yield_event (AgentError empty_answer_message) t1
          else if \<not> contains_tool_call answer \<or> parse_tool_calls answer = []
          then yield_event (TurnComplete m) (commit_turn env ta)
          else if \<forall>r \<in> set results. contains pending_confirmation r then yield_event (TurnComplete m) t3
          else agent_loop env reg c n
            (asked @ [(''assistant'', answer), (''user'', join [CHR 10] results)]) t4)"
    unfolding agent_loop.simps lf te prod.case Let_def t1_def [symmetric] answer_def [symmetric]
      m_def [symmetric] ta_def [symmetric] r t3_def [symmetric] t4_def [symmetric] ..
  have crash: "turn_ends t1 (t1\<lparr>tn_raised := Some e\<rparr>)" for e
    unfolding turn_ends_def by (rule exI [of _ "[]"]) (simp add: continues_def)
  have done_now: "turn_ends t1 (yield_event (TurnComplete m) (commit_turn env ta))"
    using turn_ends_step [of "[]" t1 "commit_turn env ta"] ta
    by (simp add: continues_steps(2) turn_ends_now final_event_def)
  have done3: "turn_ends t1 (yield_event (TurnComplete m) t3)"
    using turn_ends_step [OF es(1) t3(1)] t3 by (simp add: turn_ends_now final_event_def)
  have again: "turn_ends t1 (agent_loop env reg c n asked' t4)" for asked'
    by (rule turn_ends_step [OF es(1) t4(1) Suc.IH [OF t4(2,3)]])
  have err: "turn_ends t1 (yield_event (AgentError e) t1)" for e
    using t1 by (simp add: turn_ends_now final_event_def)
  show ?case
    unfolding l by (rule step) (auto simp: crash done_now done3 again err split: stream_end.split)
qed


section \<open>Requests for confirmation are on record\<close>

definition on_record :: "tool_registry \<Rightarrow> agent_event \<times> store \<Rightarrow> bool" where
  "on_record reg p = (case fst p of
     ConfirmationRequired n i args d \<Rightarrow> needs_confirmation reg n
       \<and> (\<exists>row \<in> set (tool_calls (snd p)). tc_tool_name row = n \<and> tc_arguments_json row = Some (JObj args)
            \<and> tc_status row = ''pending'' \<and> tc_completed_at row = None \<and> tc_id row \<noteq> i)
   | ToolStart n i args \<Rightarrow> \<not> needs_confirmation reg n
   | _ \<Rightarrow> True)"

definition all_on_record :: "tool_registry \<Rightarrow> turn \<Rightarrow> bool" where
  "all_on_record reg t \<longleftrightarrow> (\<forall>p \<in> set (tn_events t). on_record reg p)"

lemma on_record_simps [simp]:
  "on_record reg (TextDelta x, s)" "on_record reg (TurnComplete m, s)" "on_record reg (AgentError x, s)"
  "on_record reg (ToolResult i n r e, s)"
  "on_record reg (ToolStart n i args, s) \<longleftrightarrow> \<not> needs_confirmation reg n"
  by (simp_all add: on_record_def)

lemma all_on_record_simps [simp]:
  "all_on_record reg (yield_event e t) \<longleftrightarrow> all_on_record reg t \<and> on_record reg (e, tn_base t)"
  "all_on_record reg (commit_turn env t) \<longleftrightarrow> all_on_record reg t"
  "all_on_record reg (in_session f t) \<longleftrightarrow> all_on_record reg t"
  "all_on_record reg (t\<lparr>tn_base := b, tn_session := s\<rparr>) \<longleftrightarrow> all_on_record reg t"
  "all_on_record reg (t\<lparr>tn_raised := x\<rparr>) \<longleftrightarrow> all_on_record reg t"
  by (auto simp: all_on_record_def yield_event_def commit_turn_def in_session_def Let_def)

lemma run_tool_call_on_record:
  "all_on_record reg t \<Longrightarrow> all_on_record reg (snd (run_tool_call env reg m q t))"
proof (cases "needs_confirmation reg (tcr_name q)")
  case True
  let ?s = "tick_uuid (tn_session t)"
  have "on_record reg (ConfirmationRequired (tcr_name q) (next_uuid (tn_session t)) (tcr_arguments q) d,
      tn_base (commit_turn env (in_session (save_tool_call m (tcr_name q) (tcr_arguments q) JNull None
        ''pending'' None) (in_session tick_uuid t))))" for d
    using True by (simp add: on_record_def commit_turn_def in_session_def save_tool_call_def new_tool_call_def
        tick_uuid_def Let_def)
  moreover assume "all_on_record reg t"
  ultimately show ?thesis using True by (simp add: run_tool_call_def Let_def)
qed (simp add: run_tool_call_def Let_def case_prod_unfold)

lemma run_tool_calls_on_record:
  "all_on_record reg t \<Longrightarrow> all_on_record reg (snd (run_tool_calls env reg m qs t))"
  by (induction qs arbitrary: t) (simp_all add: case_prod_unfold Let_def run_tool_call_on_record)

lemma deltas_on_record:
  "all_on_record reg (fold (\<lambda>x. yield_event (TextDelta x)) xs t) \<longleftrightarrow> all_on_record reg t"
  by (induction xs arbitrary: t) simp_all

lemma agent_loop_on_record: "all_on_record reg t \<Longrightarrow> all_on_record reg (agent_loop env reg c n asked t)"
proof (induction n arbitrary: asked t)
  case (Suc n)
  show ?case
    unfolding agent_loop.simps case_prod_unfold Let_def
    using Suc.prems
    by (auto split: stream_end.split intro!: Suc.IH run_tool_calls_on_record
        simp: deltas_on_record save_answer_def)
qed simp

text \<open>
  When the user is asked to confirm an action, the call is committed as pending with its
  arguments, under another identifier than the one the user is given; and what the turn starts to
  run are only tools that need no confirmation.
\<close>

theorem confirmations_on_record:
  "all_on_record reg (run_agent_turn env reg c text db)"
proof -
  have "all_on_record reg \<lparr>tn_base = db, tn_session = db, tn_events = [], tn_raised = x\<rparr>" for x
    by (simp add: all_on_record_def)
  then show ?thesis
    unfolding run_agent_turn_def Let_def by (simp add: agent_loop_on_record)
qed

end
