(* ===== verification/Reviews.thy ===== *)
theory Reviews
  imports Pipeline_Workers Batch_Review Reply_Drafts
begin

text \<open>
  Second opinions: a reviewing model looks at a lead, a draft, an inbound message or an assisted
  reply (\<open>app/services/reviews/review_service.py\<close>), run by tasks
  (\<open>app/workers/review_tasks.py\<close>) or by the endpoints of \<open>app/api/v1/reviews.py\<close>.  Corrections are
  stored, and the text the reviewer proposes for a draft is taken over at once.
\<close>

section \<open>Answers\<close>

text \<open>\<open>ReviewCorrectionItem\<close> and the three verdicts, parsed or the fall-back of the invocation.\<close>

record correction_item =
  ci_category :: string
  ci_severity :: string
  ci_issue :: string
  ci_suggestion :: "string option"

record lead_verdict =
  lv_verdict :: string
  lv_confidence :: string
  lv_reasoning :: string
  lv_recommended_action :: string
  lv_watchouts :: "string list"
  lv_corrections :: "correction_item list"

record draft_verdict =
  dv_verdict :: string
  dv_confidence :: string
  dv_reasoning :: string
  dv_strengths :: "string list"
  dv_concerns :: "string list"
  dv_suggested_changes :: "string list"
  dv_corrections :: "correction_item list"
  dv_revised_subject :: "string option"
  dv_revised_body :: "string option"

record inbound_verdict =
  iv_verdict :: string
  iv_confidence :: string
  iv_reasoning :: string
  iv_recommended_action :: string
  iv_suggested_response_angle :: "string option"
  iv_watchouts :: "string list"

text \<open>The reviewer: its model, and for each question an exception or a verdict.\<close>

record reviewer =
  rx_model :: "string option"
  rx_lead :: "lead \<Rightarrow> lead_signal list \<Rightarrow> string + lead_verdict"
  rx_draft :: "lead \<Rightarrow> lead_signal list \<Rightarrow> outreach_draft \<Rightarrow> string + draft_verdict"
  rx_inbound :: "inbound_message \<Rightarrow> lead option \<Rightarrow> outreach_delivery option \<Rightarrow> string + inbound_verdict"
  rx_reply :: reply_reviewer

section \<open>Corrections\<close>

definition all_correction_categories :: "CorrectionCategory list" where
  "all_correction_categories = [TONE, CTA, PERSONALIZATION, LENGTH, ACCURACY, RELEVANCE, FORMAT, LANGUAGE]"

definition correction_severity_value :: "CorrectionSeverity \<Rightarrow> string" where
  "correction_severity_value v = (case v of CS_CRITICAL \<Rightarrow> ''critical'' | CS_IMPORTANT \<Rightarrow> ''important''
     | CS_SUGGESTION \<Rightarrow> ''suggestion'')"

definition enum_or :: "('e \<Rightarrow> string) \<Rightarrow> 'e list \<Rightarrow> 'e \<Rightarrow> string \<Rightarrow> 'e" where
  "enum_or value_of members fallback v =
     (case find (\<lambda>e. value_of e = v) members of Some e \<Rightarrow> e | None \<Rightarrow> fallback)"

definition new_correction ::
    "uuid \<Rightarrow> uuid option \<Rightarrow> string \<Rightarrow> string option \<Rightarrow> correction_item \<Rightarrow> store \<Rightarrow> review_correction" where
  "new_correction k rid review_type model c s = \<lparr>corr_id = next_uuid s, corr_lead_id = k,
     corr_pipeline_run_id = rid, corr_review_type = review_type,
     corr_category = enum_or correction_category_value all_correction_categories RELEVANCE (ci_category c),
     corr_severity = enum_or correction_severity_value [CS_CRITICAL, CS_IMPORTANT, CS_SUGGESTION]
       CS_SUGGESTION (ci_severity c),
     corr_issue = ci_issue c, corr_suggestion = ci_suggestion c, corr_model = model,
     corr_created_at = now s\<rparr>"

definition add_correction ::
    "uuid \<Rightarrow> uuid option \<Rightarrow> string \<Rightarrow> string option \<Rightarrow> correction_item \<Rightarrow> store \<Rightarrow> store" where
  "add_correction k rid review_type model c s =
     (tick_uuid s)\<lparr>corrections := corrections s @ [new_correction k rid review_type model c s]\<rparr>"

definition persist_corrections ::
    "uuid \<Rightarrow> uuid option \<Rightarrow> string \<Rightarrow> correction_item list \<Rightarrow> string option \<Rightarrow> store \<Rightarrow> store" where
  "persist_corrections k rid review_type cs model s = fold (add_correction k rid review_type model) cs s"

text \<open>Categories by frequency, each with its three newest issues.\<close>

definition recent_issues :: "CorrectionCategory \<Rightarrow> review_correction list \<Rightarrow> string list" where
  "recent_issues c rows = map corr_issue
     (take 3 (sort_key (\<lambda>r. - corr_created_at r) (filter (\<lambda>r. corr_category r = c) rows)))"

definition get_corrections_summary :: "store \<Rightarrow> int \<Rightarrow> json list" where
  "get_corrections_summary s n =
     (let rows = filter (\<lambda>r. now s - days n \<le> corr_created_at r) (corrections s) in
      map (\<lambda>(c, count). JObj [(''category'', JStr (correction_category_value c)),
          (''count'', JInt (int count)), (''recent_examples'', JList (map JStr (recent_issues c rows)))])
        (sort_key (\<lambda>g. - int (snd g)) (group_counts corr_category rows)))"

section \<open>The three reviews\<close>

definition texts :: "string list \<Rightarrow> json" where
  "texts ts = JList (map JStr ts)"

definition correction_json :: "correction_item \<Rightarrow> json" where
  "correction_json c = JObj [(''category'', JStr (ci_category c)), (''severity'', JStr (ci_severity c)),
     (''issue'', JStr (ci_issue c)), (''suggestion'', jstr (ci_suggestion c))]"

definition reviewed_lead_payload :: "reviewer \<Rightarrow> lead \<Rightarrow> lead_verdict \<Rightarrow> (string \<times> json) list" where
  "reviewed_lead_payload w l v = [(''lead_id'', JStr (uuid_str (lead_id l))),
     (''business_name'', JStr (lead_business_name l)), (''role'', JStr ''reviewer''),
     (''model'', jstr (rx_model w)), (''verdict'', JStr (lv_verdict v)),
     (''confidence'', JStr (lv_confidence v)), (''reasoning'', JStr (lv_reasoning v)),
     (''recommended_action'', JStr (lv_recommended_action v)), (''watchouts'', texts (lv_watchouts v)),
     (''corrections'', JList (map correction_json (lv_corrections v)))]"

text \<open>Each review gives an exception, or its payload if there is something to review, and the session.\<close>

definition review_lead_with_reviewer ::
    "reviewer \<Rightarrow> uuid \<Rightarrow> store \<Rightarrow> (string + (string \<times> json) list option) \<times> store" where
  "review_lead_with_reviewer w k s =
     (let (st, s) = get_cached_settings s in
      if \<not> ops_reviewer_enabled st then (Inr None, s)
      else (case get_lead s k of
        None \<Rightarrow> (Inr None, s)
      | Some l \<Rightarrow> (case rx_lead w l (signals_of s k) of
          Inl e \<Rightarrow> (Inl e, s)
        | Inr v \<Rightarrow> (Inr (Some (reviewed_lead_payload w l v)),
            persist_corrections k None ''lead_review'' (lv_corrections v) (rx_model w) s))))"

definition reviewed_draft_payload ::
    "reviewer \<Rightarrow> lead \<Rightarrow> outreach_draft \<Rightarrow> draft_verdict \<Rightarrow> (string \<times> json) list" where
  "reviewed_draft_payload w l d v = [(''draft_id'', JStr (uuid_str (draft_id d))),
     (''lead_id'', JStr (uuid_str (lead_id l))), (''business_name'', JStr (lead_business_name l)),
     (''role'', JStr ''reviewer''), (''model'', jstr (rx_model w)), (''verdict'', JStr (dv_verdict v)),
     (''confidence'', JStr (dv_confidence v)), (''reasoning'', JStr (dv_reasoning v)),
     (''strengths'', texts (dv_strengths v)), (''concerns'', texts (dv_concerns v)),
     (''suggested_changes'', texts (dv_suggested_changes v)),
     (''corrections'', JList (map correction_json (dv_corrections v))),
     (''revised_subject'', jstr (dv_revised_subject v)), (''revised_body'', jstr (dv_revised_body v))]"

text \<open>The revised text replaces the draft's, whatever the status of the draft.\<close>

definition revised_draft :: "draft_verdict \<Rightarrow> outreach_draft \<Rightarrow> outreach_draft" where
  "revised_draft v d =
     (if dv_verdict v = ''revise'' \<and> truthy (dv_revised_body v)
      then d\<lparr>draft_body := text_or_empty (dv_revised_body v),
        draft_subject := (if truthy (dv_revised_subject v) then dv_revised_subject v else draft_subject d)\<rparr>
      else d)"

definition review_draft_with_reviewer ::
    "reviewer \<Rightarrow> uuid \<Rightarrow> store \<Rightarrow> (string + (string \<times> json) list option) \<times> store" where
  "review_draft_with_reviewer w k s =
     (let (st, s) = get_cached_settings s in
      if \<not> ops_reviewer_enabled st then (Inr None, s)
      else (case get_draft s k of
        None \<Rightarrow> (Inr None, s)
      | Some d \<Rightarrow> (case get_lead s (draft_lead_id d) of
          None \<Rightarrow> (Inr None, s)
        | Some l \<Rightarrow> (case rx_draft w l (signals_of s (lead_id l)) d of
            Inl e \<Rightarrow> (Inl e, s)
          | Inr v \<Rightarrow> (Inr (Some (reviewed_draft_payload w l d v)),
              upd_draft k (revised_draft v)
                (persist_corrections (lead_id l) None ''draft_review'' (dv_corrections v) (rx_model w) s))))))"

definition reviewed_inbound_payload ::
    "reviewer \<Rightarrow> inbound_message \<Rightarrow> lead option \<Rightarrow> inbound_verdict \<Rightarrow> (string \<times> json) list" where
  "reviewed_inbound_payload w m l v = [(''inbound_message_id'', JStr (uuid_str (msg_id m))),
     (''thread_id'', jstr (map_option uuid_str (msg_thread_id m))),
     (''lead_id'', jstr (map_option uuid_str (msg_lead_id m))),
     (''business_name'', jstr (map_option lead_business_name l)),
     (''classification_label'', jstr (msg_classification_label m)), (''role'', JStr ''reviewer''),
     (''model'', jstr (rx_model w)), (''verdict'', JStr (iv_verdict v)),
     (''confidence'', JStr (iv_confidence v)), (''reasoning'', JStr (iv_reasoning v)),
     (''recommended_action'', JStr (iv_recommended_action v)),
     (''suggested_response_angle'', jstr (iv_suggested_response_angle v)),
     (''watchouts'', texts (iv_watchouts v))]"

definition review_inbound_message_with_reviewer ::
    "reviewer \<Rightarrow> uuid \<Rightarrow> store \<Rightarrow> (string + (string \<times> json) list option) \<times> store" where
  "review_inbound_message_with_reviewer w k s =
     (let (st, s) = get_cached_settings s in
      if \<not> ops_reviewer_enabled st then (Inr None, s)
      else (case get_message s k of
        None \<Rightarrow> (Inr None, s)
      | Some m \<Rightarrow>
          let l = Option.bind (msg_lead_id m) (get_lead s);
              d = Option.bind (msg_delivery_id m) (get_delivery s)
          in (case rx_inbound w m l d of
              Inl e \<Rightarrow> (Inl e, s)
            | Inr v \<Rightarrow> (Inr (Some (reviewed_inbound_payload w m l v)), s))))"

section \<open>Tasks\<close>

text \<open>
  A review task is tracked under the lead it concerns, if there is one; any exception is tracked
  in a session of its own and answered with a retry.
\<close>

definition review_meta :: "task_kind \<Rightarrow> request \<Rightarrow> uuid option \<Rightarrow> task_meta" where
  "review_meta kind rq lead = \<lparr>tm_task_name = tk_name kind,
     tm_queue = Some (queue_name rq (tk_queue kind)), tm_lead_id = lead, tm_pipeline_run_id = None,
     tm_correlation_id = None, tm_scope_key = None, tm_current_step = Some (tk_step kind)\<rparr>"

definition review_failure :: "task_kind \<Rightarrow> request \<Rightarrow> uuid option \<Rightarrow> string \<Rightarrow> failure" where
  "review_failure kind rq lead err = \<lparr>fl_task_name = tk_name kind, fl_task_id = rq_task_id rq,
     fl_lead_id = lead, fl_pipeline_run_id = None, fl_correlation_id = None,
     fl_current_step = tk_step kind, fl_queue = queue_name rq (tk_queue kind), fl_error = err,
     fl_retries = rq_retries rq, fl_max_retries = tk_max_retries kind\<rparr>"

definition review_failed ::
    "task_kind \<Rightarrow> request \<Rightarrow> uuid \<Rightarrow> uuid option \<Rightarrow> string \<Rightarrow> store \<Rightarrow> task_end \<times> store" where
  "review_failed kind rq k lead err db = (case track_failure db (review_failure kind rq lead err) db of
     Inl e \<Rightarrow> (Raised ''IntegrityError'', db)
   | Inr db' \<Rightarrow>
       if rq_retries rq < tk_max_retries kind
       then (Retrying err, dispatch (task_call (tk_celery kind) k None None) db')
       else (Raised err, db'))"

definition run_review_task ::
    "task_kind \<Rightarrow> request \<Rightarrow> uuid \<Rightarrow> uuid option \<Rightarrow> (string \<Rightarrow> store \<Rightarrow> store) \<Rightarrow> task_body \<Rightarrow> store \<Rightarrow>
     task_end \<times> store" where
  "run_review_task kind rq k lead on_error body db =
     (let failed = (\<lambda>err d. review_failed kind rq k lead err (on_error err d)) in
      case mark_task_running db (rq_task_id rq) (review_meta kind rq lead) db of
        Inl e \<Rightarrow> failed ''IntegrityError'' db
      | Inr s \<Rightarrow>
          (case body \<lparr>sh_task_id = rq_task_id rq, sh_current_step = tk_step kind,
                   sh_pipeline_run_id = None\<rparr> db s of
             (BReturn j, b, s') \<Rightarrow> (Returned j, s')
           | (BRaise err, b, s') \<Rightarrow> failed err (rollback_to b s')
           | (BWait, b, s') \<Rightarrow> (Waiting, rollback_to b s')))"

text \<open>\<open>{"status": ..., key: id, **payload}\<close>: a key of the payload takes the place of an earlier one.\<close>

definition opinion_result :: "string \<Rightarrow> string \<Rightarrow> uuid \<Rightarrow> (string \<times> json) list \<Rightarrow> json" where
  "opinion_result st key k payload = JObj (fold (\<lambda>(f, v). assoc_set f v) payload
     [(''status'', JStr st), (key, JStr (uuid_str k))])"

definition opinion_skipped :: "string \<Rightarrow> uuid \<Rightarrow> json" where
  "opinion_skipped key k = JObj [(''status'', JStr ''skipped''), (''reason'', JStr ''reviewer_disabled''),
     (key, JStr (uuid_str k))]"

definition not_there :: "string \<Rightarrow> string \<Rightarrow> uuid \<Rightarrow> step_handle \<Rightarrow> store \<Rightarrow> store \<Rightarrow> body_end \<times> store \<times> store" where
  "not_there err key k h b s = (BReturn (opinion_result ''not_found'' key k []), b, handle_fail h err None s)"

definition opinion_body ::
    "string \<Rightarrow> string \<Rightarrow> uuid \<Rightarrow> (store \<Rightarrow> (string + (string \<times> json) list option) \<times> store) \<Rightarrow>
     (store \<Rightarrow> store) \<Rightarrow> task_body" where
  "opinion_body err key k review missing h b s =
     (let (st, s) = get_cached_settings s in
      if \<not> ops_reviewer_enabled st
      then (BReturn (opinion_skipped key k), b, handle_succeed h (Some (opinion_skipped key k)) None None s)
      else (case review s of
        (Inl e, s') \<Rightarrow> (BRaise e, b, s')
      | (Inr None, s') \<Rightarrow> not_there err key k h b (missing s')
      | (Inr (Some payload), s') \<Rightarrow>
          let res = opinion_result ''ok'' key k payload
          in (BReturn res, b, handle_succeed h (Some res) None None s')))"

definition review_task_kind :: "string \<Rightarrow> string \<Rightarrow> task_kind" where
  "review_task_kind name step = \<lparr>tk_name = name, tk_celery = ''app.workers.tasks.'' @ name,
     tk_queue = ''reviewer'', tk_step = step, tk_max_retries = 1, tk_retries = True,
     tk_time_limited = False\<rparr>"

definition task_review_lead :: "reviewer \<Rightarrow> request \<Rightarrow> uuid \<Rightarrow> store \<Rightarrow> task_end \<times> store" where
  "task_review_lead w rq k db =
     run_review_task (review_task_kind ''task_review_lead'' ''lead_review'') rq k (Some k) (\<lambda>err d. d)
       (opinion_body ''Lead not found'' ''lead_id'' k (review_lead_with_reviewer w k) id) db"

definition task_review_draft :: "reviewer \<Rightarrow> request \<Rightarrow> uuid \<Rightarrow> store \<Rightarrow> task_end \<times> store" where
  "task_review_draft w rq k db =
     run_review_task (review_task_kind ''task_review_draft'' ''draft_review'') rq k
       (map_option draft_lead_id (get_draft db k)) (\<lambda>err d. d)
       (if get_draft db k = None then not_there ''Draft not found'' ''draft_id'' k
        else opinion_body ''Draft not found'' ''draft_id'' k (review_draft_with_reviewer w k) id) db"

definition task_review_inbound_message :: "reviewer \<Rightarrow> request \<Rightarrow> uuid \<Rightarrow> store \<Rightarrow> task_end \<times> store" where
  "task_review_inbound_message w rq k db = (case get_message db k of
     None \<Rightarrow> (Returned (opinion_result ''not_found'' ''inbound_message_id'' k []), db)
   | Some m \<Rightarrow>
       run_review_task (review_task_kind ''task_review_inbound_message'' ''inbound_reply_review'') rq k
         (msg_lead_id m) (\<lambda>err d. d)
         (opinion_body ''Inbound message not found'' ''inbound_message_id'' k
            (review_inbound_message_with_reviewer w k) id) db)"

definition review_status_value :: "ReplyAssistantReviewStatus \<Rightarrow> string" where
  "review_status_value st = (case st of RV_PENDING \<Rightarrow> ''pending'' | RV_REVIEWED \<Rightarrow> ''reviewed''
     | RV_FAILED \<Rightarrow> ''failed'')"

definition reviewed_reply_payload :: "reviewer \<Rightarrow> inbound_message \<Rightarrow> reply_review \<Rightarrow> (string \<times> json) list" where
  "reviewed_reply_payload w m r = [(''review_id'', JStr (uuid_str (rv_id r))),
     (''reply_assistant_draft_id'', JStr (uuid_str (rv_reply_assistant_draft_id r))),
     (''inbound_message_id'', JStr (uuid_str (msg_id m))),
     (''lead_id'', jstr (map_option uuid_str (msg_lead_id m))),
     (''thread_id'', jstr (map_option uuid_str (msg_thread_id m))), (''role'', JStr ''reviewer''),
     (''model'', jstr (rk_model (rx_reply w))), (''status'', JStr (review_status_value (rv_status r))),
     (''summary'', jstr (rv_summary r)), (''feedback'', jstr (rv_feedback r)),
     (''suggested_edits'', texts (case rv_suggested_edits r of None \<Rightarrow> [] | Some ts \<Rightarrow> ts)),
     (''recommended_action'', jstr (rv_recommended_action r)),
     (''should_use_as_is'', JBool (rv_should_use_as_is r)), (''should_edit'', JBool (rv_should_edit r)),
     (''should_escalate'', JBool (rv_should_escalate r)), (''reviewed_at'', iso_opt (rv_reviewed_at r))]"

definition review_reply_payload ::
    "reviewer \<Rightarrow> uuid \<Rightarrow> store \<Rightarrow> (string + (string \<times> json) list option) \<times> store" where
  "review_reply_payload w k s = (case review_reply_assistant_draft_with_reviewer (rx_reply w) k s of
     Inl e \<Rightarrow> (Inl e, s)
   | Inr (r, s') \<Rightarrow> (Inr (case (r, get_message s' k) of
       (Some rv, Some m) \<Rightarrow> Some (reviewed_reply_payload w m rv) | _ \<Rightarrow> None), s'))"

text \<open>
  The failure of the review of a reply is also noted on the review, but in a session that is closed
  without a commit.
\<close>

definition task_review_reply_assistant_draft ::
    "reviewer \<Rightarrow> request \<Rightarrow> uuid \<Rightarrow> store \<Rightarrow> task_end \<times> store" where
  "task_review_reply_assistant_draft w rq k db =
     (let missing = (\<lambda>s. snd (mark_reply_assistant_review_failed k ''Reply assistant draft not found''
            (Some (rq_task_id rq)) s));
          noted = (\<lambda>err d. rollback_to d (snd (mark_reply_assistant_review_failed k err
            (Some (rq_task_id rq)) d)))
      in run_review_task (review_task_kind ''task_review_reply_assistant_draft'' ''reply_draft_review'') rq k
           (Option.bind (get_message db k) msg_lead_id) noted
           (if get_message db k = None
            then not_there ''Inbound message not found'' ''inbound_message_id'' k
            else opinion_body ''Reply assistant draft not found'' ''inbound_message_id'' k
              (review_reply_payload w k) missing) db)"

section \<open>Endpoints\<close>

text \<open>A review in the request: the answer with what is committed, or the status code.\<close>

definition review_now ::
    "(store \<Rightarrow> (string + (string \<times> json) list option) \<times> store) \<Rightarrow> store \<Rightarrow> (nat + json) \<times> store" where
  "review_now review db = (case review db of
     (Inl e, s) \<Rightarrow> (Inl 500, rollback_to db s)
   | (Inr None, s) \<Rightarrow> (Inl 404, rollback_to db s)
   | (Inr (Some payload), s) \<Rightarrow> (Inr (JObj payload), s))"

definition review_lead_endpoint :: "reviewer \<Rightarrow> uuid \<Rightarrow> store \<Rightarrow> (nat + json) \<times> store" where
  "review_lead_endpoint w k db = review_now (review_lead_with_reviewer w k) db"

definition review_draft_endpoint :: "reviewer \<Rightarrow> uuid \<Rightarrow> store \<Rightarrow> (nat + json) \<times> store" where
  "review_draft_endpoint w k db = review_now (review_draft_with_reviewer w k) db"

definition review_inbound_endpoint :: "reviewer \<Rightarrow> uuid \<Rightarrow> store \<Rightarrow> (nat + json) \<times> store" where
  "review_inbound_endpoint w k db = review_now (review_inbound_message_with_reviewer w k) db"

text \<open>
  The asynchronous ones: the message is sent before the task is recorded as queued; \<open>base\<close> is
  what other sessions have committed by then.
\<close>

definition review_later ::
    "task_kind \<Rightarrow> uuid \<Rightarrow> uuid option option \<Rightarrow> string \<Rightarrow> store \<Rightarrow> store \<Rightarrow> (nat + json) \<times> store" where
  "review_later kind k lead tid base db = (case lead of
     None \<Rightarrow> (Inl 404, db)
   | Some l \<Rightarrow>
       let s = dispatch (task_call (tk_celery kind) k None None) db
       in (case queue_task_run base tid (review_meta kind
              \<lparr>rq_task_id = tid, rq_queue = None, rq_retries = 0\<rparr> l) s of
            Inl e \<Rightarrow> (Inl 500, rollback_to base s)
          | Inr s' \<Rightarrow> (Inr (JObj [(''task_id'', JStr tid), (''status'', JStr ''queued''),
              (''queue'', JStr ''reviewer''), (''lead_id'', jstr (map_option uuid_str l)),
              (''current_step'', JStr (tk_step kind))]), s')))"

definition review_lead_async :: "uuid \<Rightarrow> string \<Rightarrow> store \<Rightarrow> store \<Rightarrow> (nat + json) \<times> store" where
  "review_lead_async k tid base db = review_later (review_task_kind ''task_review_lead'' ''lead_review'') k
     (map_option (\<lambda>l. Some k) (get_lead db k)) tid base db"

definition review_draft_async :: "uuid \<Rightarrow> string \<Rightarrow> store \<Rightarrow> store \<Rightarrow> (nat + json) \<times> store" where
  "review_draft_async k tid base db = review_later (review_task_kind ''task_review_draft'' ''draft_review'') k
     (map_option (\<lambda>d. Some (draft_lead_id d)) (get_draft db k)) tid base db"

definition review_inbound_async :: "uuid \<Rightarrow> string \<Rightarrow> store \<Rightarrow> store \<Rightarrow> (nat + json) \<times> store" where
  "review_inbound_async k tid base db =
     review_later (review_task_kind ''task_review_inbound_message'' ''inbound_reply_review'') k
       (map_option msg_lead_id (get_message db k)) tid base db"

section \<open>What a second opinion changes\<close>

lemma persisted_corrections:
  "\<exists>u rs. persist_corrections k rid t cs m s = s\<lparr>next_uuid := u, corrections := corrections s @ rs\<rparr>
     \<and> length rs = length cs"
proof (induction cs arbitrary: s)
  case Nil
  show ?case by (rule exI [of _ "next_uuid s"], rule exI [of _ "[]"]) (simp add: persist_corrections_def)
next
  case (Cons c cs)
  from Cons.IH [of "add_correction k rid t m c s"] obtain u rs where
    "persist_corrections k rid t cs m (add_correction k rid t m c s)
      = (add_correction k rid t m c s)\<lparr>next_uuid := u,
           corrections := corrections (add_correction k rid t m c s) @ rs\<rparr>" "length rs = length cs" by blast
  then show ?case
    by (intro exI [of _ u] exI [of _ "new_correction k rid t m c s # rs"])
      (simp add: persist_corrections_def add_correction_def tick_uuid_def)
qed

lemma revised_draft_fields [simp]:
  "draft_id (revised_draft v d) = draft_id d" "draft_status (revised_draft v d) = draft_status d"
  "draft_lead_id (revised_draft v d) = draft_lead_id d"
  "draft_reviewed_at (revised_draft v d) = draft_reviewed_at d"
  by (simp_all add: revised_draft_def)

text \<open>
  C31: A second opinion on a draft takes over the reviewer's text whatever the status of the draft
  is: when the verdict is to revise and there is a revised body, body and subject are replaced,
  committed, and the status, the date of the review, the log and the lead stay as they were, so a
  draft an operator has approved is approved with a text the operator has not seen, and a sent one
  no longer shows what was sent.  With any other verdict the draft is untouched.  One correction is
  stored for each the reviewer made, and no other draft changes.
\<close>

theorem draft_review_rewrites:
  assumes "ops_reviewer_enabled (fst (get_cached_settings db))"
    and "get_draft db k = Some d" "get_lead db (draft_lead_id d) = Some l"
    and "rx_draft w l (signals_of db (lead_id l)) d = Inr v"
  shows "\<exists>j db'. review_draft_endpoint w k db = (Inr j, db')
    \<and> get_draft db' k = Some (revised_draft v d)
    \<and> (if dv_verdict v = ''revise'' \<and> truthy (dv_revised_body v)
       then draft_body (revised_draft v d) = text_or_empty (dv_revised_body v)
       else revised_draft v d = d)
    \<and> draft_status (revised_draft v d) = draft_status d
    \<and> leads db' = leads db \<and> ologs db' = ologs db \<and> deliveries db' = deliveries db
    \<and> length (corrections db') = length (corrections db) + length (dv_corrections v)
    \<and> (\<forall>k'. k' \<noteq> k \<longrightarrow> get_draft db' k' = get_draft db k')"
proof -
  obtain st s where s: "get_cached_settings db = (st, s)" "s = db\<lparr>ops := Some st\<rparr>"
    using get_or_create_frame [of db] by (cases "get_cached_settings db") (simp add: get_cached_settings_def)
  define p where "p = persist_corrections (lead_id l) None ''draft_review'' (dv_corrections v) (rx_model w) s"
  obtain u rs where pc: "p = s\<lparr>next_uuid := u, corrections := corrections s @ rs\<rparr>"
    "length rs = length (dv_corrections v)" using persisted_corrections unfolding p_def by blast
  have p: "drafts p = drafts db" "leads p = leads db" "ologs p = ologs db" "deliveries p = deliveries db"
    "length (corrections p) = length (corrections db) + length (dv_corrections v)"
    using pc by (simp_all add: s(2))
  have get: "get_draft (upd_draft k (revised_draft v) p) k' =
      (if k' = k then map_option (revised_draft v) (get_draft db k) else get_draft db k')" for k'
    by (simp add: get_draft_def upd_draft_def table_simps p)
  have "review_draft_endpoint w k db = (Inr (JObj (reviewed_draft_payload w l d v)), upd_draft k (revised_draft v) p)"
    using assms s by (simp add: review_draft_endpoint_def review_now_def review_draft_with_reviewer_def
        get_draft_def get_lead_def signals_of_def p_def)
  moreover have "leads (upd_draft k (revised_draft v) p) = leads db"
    "ologs (upd_draft k (revised_draft v) p) = ologs db"
    "deliveries (upd_draft k (revised_draft v) p) = deliveries db"
    "length (corrections (upd_draft k (revised_draft v) p))
       = length (corrections db) + length (dv_corrections v)"
    by (simp_all add: upd_draft_def p)
  moreover have "if dv_verdict v = ''revise'' \<and> truthy (dv_revised_body v)
       then draft_body (revised_draft v d) = text_or_empty (dv_revised_body v)
       else revised_draft v d = d"
    by (simp add: revised_draft_def)
  ultimately show ?thesis
    using get assms(2) by (intro exI [of _ "JObj (reviewed_draft_payload w l d v)"]
        exI [of _ "upd_draft k (revised_draft v) p"]) (simp del: split_paired_All)
qed

definition demo_revision :: draft_verdict where
  "demo_revision = \<lparr>dv_verdict = ''revise'', dv_confidence = ''high'', dv_reasoning = ''too long'',
     dv_strengths = [], dv_concerns = [], dv_suggested_changes = [],
     dv_corrections = [\<lparr>ci_category = ''length'', ci_severity = ''important'', ci_issue = ''too long'',
       ci_suggestion = None\<rparr>], dv_revised_subject = None, dv_revised_body = Some ''Buen dia''\<rparr>"

definition demo_reviewer :: reviewer where
  "demo_reviewer = \<lparr>rx_model = Some ''m'', rx_lead = (\<lambda>l ss. Inl ''off''),
     rx_draft = (\<lambda>l ss d. Inr demo_revision), rx_inbound = (\<lambda>m l d. Inl ''off''), rx_reply = \<lparr>rk_model = None, rk_answer = (\<lambda>s m d x. Inl ''off'')\<rparr>\<rparr>"

definition demo_review_store :: store where
  "demo_review_store = add_draft \<lparr>draft_id = 6, draft_lead_id = 1, draft_subject = None,
       draft_body = ''Hola'', draft_channel = ''email'', draft_status = D_APPROVED,
       draft_generation_metadata_json = None, draft_generated_at = 0, draft_reviewed_at = Some 0,
       draft_sent_at = None\<rparr>
     (add_lead (blank_lead 1 ''Bar'' 0)
       ((empty_store 0)\<lparr>next_uuid := 9,
          ops := Some ((default_settings 0)\<lparr>ops_reviewer_enabled := True\<rparr>)\<rparr>))"

text \<open>An approved draft is still approved, with the text of the reviewer.\<close>

theorem draft_review_rewrites_witness:
  "\<exists>j db' d. review_draft_endpoint demo_reviewer 6 demo_review_store = (Inr j, db')
     \<and> get_draft db' 6 = Some d \<and> draft_status d = D_APPROVED \<and> draft_body d = ''Buen dia''"
proof -
  let ?db = demo_review_store
  have s: "ops_reviewer_enabled (fst (get_cached_settings ?db))"
    "get_draft ?db 6 = Some (hd (drafts ?db))" "get_lead ?db (draft_lead_id (hd (drafts ?db))) = Some (hd (leads ?db))"
    "rx_draft demo_reviewer (hd (leads ?db)) (signals_of ?db (lead_id (hd (leads ?db)))) (hd (drafts ?db))
      = Inr demo_revision"
    and d: "draft_status (hd (drafts ?db)) = D_APPROVED"
    by (simp_all add: demo_review_store_def get_draft_def get_lead_def add_draft_def add_lead_def empty_store_def
        get_cached_settings_def get_or_create_def demo_reviewer_def blank_lead_def)
  from draft_review_rewrites [OF s] d show ?thesis
    by (fastforce simp: demo_revision_def truthy_def text_or_empty_def)
qed

end
