(* ===== verification/Agent_Tools.thy ===== *)
theory Agent_Tools
  imports Agent_Core Reviews Territory_Crawl
begin

text \<open>
  The tools of the agent (\<open>app/agent/tools\<close>): all 58 registrations with their parameters, the flag
  that asks for confirmation and the signatures of their handlers, in the order of the imports, and
  the bodies of the handlers that need no confirmation and change something.  The handlers that
  only read are functions of the store; those that need confirmation are left open, since no turn
  runs them.
\<close>

section \<open>Registrations\<close>

text \<open>Descriptions of tools and parameters, and what a handler does, by the name of the tool.\<close>

type_synonym tool_texts = "string \<Rightarrow> string"
type_synonym tool_bodies = "string \<Rightarrow> tool_args \<Rightarrow> store \<times> store \<Rightarrow> (string + json) \<times> (store \<times> store)"

definition handler_of :: "tool_bodies \<Rightarrow> string \<Rightarrow> string \<Rightarrow> bool \<Rightarrow> (string \<times> bool) list \<Rightarrow> tool_handler" where
  "handler_of b n f db kws = \<lparr>th_name = f, th_db = db, th_keywords = kws, th_run = b n\<rparr>"

definition tool_of ::
    "tool_texts \<Rightarrow> string \<Rightarrow> string \<Rightarrow> bool \<Rightarrow> (string \<times> string \<times> bool \<times> string list option) list
       \<Rightarrow> tool_handler \<Rightarrow> tool_definition" where
  "tool_of d n c confirm ps h = \<lparr>td_name = n, td_description = d n,
     td_parameters = map (\<lambda>(p, ty, req, es). \<lparr>tp_name = p, tp_type = ty, tp_description = d (n @ ''.'' @ p),
       tp_required = req, tp_enum = es\<rparr>) ps,
     td_category = c, td_requires_confirmation = confirm, td_handler = Some h, td_takes_db = False\<rparr>"

definition all_lead_statuses :: "string list" where
  "all_lead_statuses = map lead_status_value [NEW, ENRICHED, SCORED, QUALIFIED, DRAFT_READY, APPROVED,
     CONTACTED, OPENED, REPLIED, MEETING, WON, LOST, SUPPRESSED]"

definition safe_settings :: "string list" where
  "safe_settings = [''auto_classify_enabled'', ''default_closing_line'', ''default_outreach_tone'',
     ''default_reply_tone'', ''mail_enabled'', ''reply_assistant_enabled'', ''reviewer_enabled'',
     ''telegram_agent_enabled'', ''whatsapp_agent_enabled'', ''whatsapp_outreach_enabled'']"

definition tool_start_territory_crawl :: "tool_texts \<Rightarrow> tool_bodies \<Rightarrow> tool_definition" where
  "tool_start_territory_crawl d b = tool_of d ''start_territory_crawl'' ''crawl'' True
     [(''territory_id'', ''string'', True, None),
        (''max_results'', ''integer'', False, None)]
     (handler_of b ''start_territory_crawl'' ''start_territory_crawl'' True [(''territory_id'', True), (''max_results'', False)])"

definition tool_get_crawl_status :: "tool_texts \<Rightarrow> tool_bodies \<Rightarrow> tool_definition" where
  "tool_get_crawl_status d b = tool_of d ''get_crawl_status'' ''crawl'' False
     [(''territory_id'', ''string'', True, None)]
     (handler_of b ''get_crawl_status'' ''get_crawl_status'' True [(''territory_id'', True)])"

definition tool_get_system_overview :: "tool_texts \<Rightarrow> tool_bodies \<Rightarrow> tool_definition" where
  "tool_get_system_overview d b = tool_of d ''get_system_overview'' ''stats'' False
     []
     (handler_of b ''get_system_overview'' ''get_system_overview'' True [])"

definition tool_list_top_leads :: "tool_texts \<Rightarrow> tool_bodies \<Rightarrow> tool_definition" where
  "tool_list_top_leads d b = tool_of d ''list_top_leads'' ''leads'' False
     [(''limit'', ''integer'', False, None)]
     (handler_of b ''list_top_leads'' ''list_top_leads'' True [(''limit'', False)])"

definition tool_get_reply_summary :: "tool_texts \<Rightarrow> tool_bodies \<Rightarrow> tool_definition" where
  "tool_get_reply_summary d b = tool_of d ''get_reply_summary'' ''stats'' False
     [(''hours'', ''integer'', False, None)]
     (handler_of b ''get_reply_summary'' ''get_reply_summary'' True [(''hours'', False)])"

definition tool_list_recent_activity :: "tool_texts \<Rightarrow> tool_bodies \<Rightarrow> tool_definition" where
  "tool_list_recent_activity d b = tool_of d ''list_recent_activity'' ''stats'' False
     [(''limit'', ''integer'', False, None)]
     (handler_of b ''list_recent_activity'' ''list_recent_activity'' True [(''limit'', False)])"

definition tool_search_leads :: "tool_texts \<Rightarrow> tool_bodies \<Rightarrow> tool_definition" where
  "tool_search_leads d b = tool_of d ''search_leads'' ''leads'' False
     [(''query'', ''string'', False, None),
        (''status'', ''string'', False, (Some all_lead_statuses)),
        (''city'', ''string'', False, None),
        (''industry'', ''string'', False, None),
        (''min_score'', ''number'', False, None),
        (''limit'', ''integer'', False, None)]
     (handler_of b ''search_leads'' ''search_leads'' True [(''query'', False), (''status'', False), (''city'', False), (''industry'', False), (''min_score'', False), (''limit'', False)])"

definition tool_get_lead_detail :: "tool_texts \<Rightarrow> tool_bodies \<Rightarrow> tool_definition" where
  "tool_get_lead_detail d b = tool_of d ''get_lead_detail'' ''leads'' False
     [(''lead_id'', ''string'', False, None),
        (''business_name'', ''string'', False, None)]
     (handler_of b ''get_lead_detail'' ''get_lead_detail'' True [(''lead_id'', False), (''business_name'', False)])"

definition tool_count_leads_by_status :: "tool_texts \<Rightarrow> tool_bodies \<Rightarrow> tool_definition" where
  "tool_count_leads_by_status d b = tool_of d ''count_leads_by_status'' ''leads'' False
     []
     (handler_of b ''count_leads_by_status'' ''count_leads_by_status'' True [])"

definition tool_get_lead_journey :: "tool_texts \<Rightarrow> tool_bodies \<Rightarrow> tool_definition" where
  "tool_get_lead_journey d b = tool_of d ''get_lead_journey'' ''leads'' False
     [(''lead_id'', ''string'', True, None)]
     (handler_of b ''get_lead_journey'' ''get_lead_journey'' True [(''lead_id'', True)])"

definition tool_create_lead :: "tool_texts \<Rightarrow> tool_bodies \<Rightarrow> tool_definition" where
  "tool_create_lead d b = tool_of d ''create_lead'' ''leads'' True
     [(''business_name'', ''string'', True, None),
        (''industry'', ''string'', False, None),
        (''city'', ''string'', False, None),
        (''email'', ''string'', False, None),
        (''website_url'', ''string'', False, None),
        (''instagram_url'', ''string'', False, None),
        (''phone'', ''string'', False, None)]
     (handler_of b ''create_lead'' ''create_lead'' True [(''business_name'', True), (''industry'', False), (''city'', False), (''email'', False), (''website_url'', False), (''instagram_url'', False), (''phone'', False)])"

definition tool_update_lead_status :: "tool_texts \<Rightarrow> tool_bodies \<Rightarrow> tool_definition" where
  "tool_update_lead_status d b = tool_of d ''update_lead_status'' ''leads'' True
     [(''lead_id'', ''string'', True, None),
        (''status'', ''string'', True, (Some all_lead_statuses))]
     (handler_of b ''update_lead_status'' ''update_lead_status'' True [(''lead_id'', True), (''status'', True)])"

definition tool_sync_inbound_mail :: "tool_texts \<Rightarrow> tool_bodies \<Rightarrow> tool_definition" where
  "tool_sync_inbound_mail d b = tool_of d ''sync_inbound_mail'' ''mail'' True
     [(''limit'', ''integer'', False, None)]
     (handler_of b ''sync_inbound_mail'' ''sync_inbound_mail'' True [(''limit'', False)])"

definition tool_list_inbound_messages :: "tool_texts \<Rightarrow> tool_bodies \<Rightarrow> tool_definition" where
  "tool_list_inbound_messages d b = tool_of d ''list_inbound_messages'' ''mail'' False
     [(''lead_id'', ''string'', False, None),
        (''classification_status'', ''string'', False, (Some [''pending'', ''classified'', ''failed''])),
        (''limit'', ''integer'', False, None)]
     (handler_of b ''list_inbound_messages'' ''list_inbound'' True [(''lead_id'', False), (''classification_status'', False), (''limit'', False)])"

definition tool_classify_inbound_message :: "tool_texts \<Rightarrow> tool_bodies \<Rightarrow> tool_definition" where
  "tool_classify_inbound_message d b = tool_of d ''classify_inbound_message'' ''mail'' False
     [(''message_id'', ''string'', True, None)]
     (handler_of b ''classify_inbound_message'' ''classify_inbound_message'' True [(''message_id'', True)])"

definition tool_list_notifications :: "tool_texts \<Rightarrow> tool_bodies \<Rightarrow> tool_definition" where
  "tool_list_notifications d b = tool_of d ''list_notifications'' ''notifications'' False
     [(''status'', ''string'', False, (Some [''unread'', ''read'', ''acknowledged'', ''resolved''])),
        (''category'', ''string'', False, (Some [''business'', ''system'', ''security''])),
        (''limit'', ''integer'', False, None)]
     (handler_of b ''list_notifications'' ''list_notifications'' True [(''status'', False), (''category'', False), (''limit'', False)])"

definition tool_mark_notification_read :: "tool_texts \<Rightarrow> tool_bodies \<Rightarrow> tool_definition" where
  "tool_mark_notification_read d b = tool_of d ''mark_notification_read'' ''notifications'' False
     [(''notification_id'', ''string'', True, None)]
     (handler_of b ''mark_notification_read'' ''mark_notification_read'' True [(''notification_id'', True)])"

definition tool_get_notification_counts :: "tool_texts \<Rightarrow> tool_bodies \<Rightarrow> tool_definition" where
  "tool_get_notification_counts d b = tool_of d ''get_notification_counts'' ''notifications'' False
     []
     (handler_of b ''get_notification_counts'' ''get_notification_counts'' True [])"

definition tool_list_drafts :: "tool_texts \<Rightarrow> tool_bodies \<Rightarrow> tool_definition" where
  "tool_list_drafts d b = tool_of d ''list_drafts'' ''outreach'' False
     [(''status'', ''string'', False, (Some [''pending_review'', ''approved'', ''rejected'', ''sent''])),
        (''limit'', ''integer'', False, None)]
     (handler_of b ''list_drafts'' ''list_drafts'' True [(''status'', False), (''limit'', False)])"

definition tool_generate_draft :: "tool_texts \<Rightarrow> tool_bodies \<Rightarrow> tool_definition" where
  "tool_generate_draft d b = tool_of d ''generate_draft'' ''outreach'' True
     [(''lead_id'', ''string'', True, None)]
     (handler_of b ''generate_draft'' ''generate_draft'' True [(''lead_id'', True)])"

definition tool_approve_draft :: "tool_texts \<Rightarrow> tool_bodies \<Rightarrow> tool_definition" where
  "tool_approve_draft d b = tool_of d ''approve_draft'' ''outreach'' True
     [(''draft_id'', ''string'', True, None)]
     (handler_of b ''approve_draft'' ''approve_draft'' True [(''draft_id'', True)])"

definition tool_reject_draft :: "tool_texts \<Rightarrow> tool_bodies \<Rightarrow> tool_definition" where
  "tool_reject_draft d b = tool_of d ''reject_draft'' ''outreach'' True
     [(''draft_id'', ''string'', True, None),
        (''reason'', ''string'', False, None)]
     (handler_of b ''reject_draft'' ''reject_draft'' True [(''draft_id'', True), (''reason'', False)])"

definition tool_send_draft :: "tool_texts \<Rightarrow> tool_bodies \<Rightarrow> tool_definition" where
  "tool_send_draft d b = tool_of d ''send_draft'' ''outreach'' True
     [(''draft_id'', ''string'', True, None)]
     (handler_of b ''send_draft'' ''send_draft'' True [(''draft_id'', True)])"

definition tool_update_draft_content :: "tool_texts \<Rightarrow> tool_bodies \<Rightarrow> tool_definition" where
  "tool_update_draft_content d b = tool_of d ''update_draft_content'' ''outreach'' False
     [(''draft_id'', ''string'', True, None),
        (''subject'', ''string'', False, None),
        (''body'', ''string'', False, None)]
     (handler_of b ''update_draft_content'' ''update_draft_content'' True [(''draft_id'', True), (''subject'', False), (''body'', False)])"

definition tool_list_outreach_logs :: "tool_texts \<Rightarrow> tool_bodies \<Rightarrow> tool_definition" where
  "tool_list_outreach_logs d b = tool_of d ''list_outreach_logs'' ''outreach'' False
     [(''lead_id'', ''string'', False, None),
        (''limit'', ''integer'', False, None)]
     (handler_of b ''list_outreach_logs'' ''list_outreach_logs'' True [(''lead_id'', False), (''limit'', False)])"

definition tool_generate_whatsapp_draft :: "tool_texts \<Rightarrow> tool_bodies \<Rightarrow> tool_definition" where
  "tool_generate_whatsapp_draft d b = tool_of d ''generate_whatsapp_draft'' ''outreach'' True
     [(''lead_id'', ''string'', True, None)]
     (handler_of b ''generate_whatsapp_draft'' ''generate_whatsapp_draft'' True [(''lead_id'', True)])"

definition tool_send_whatsapp_draft :: "tool_texts \<Rightarrow> tool_bodies \<Rightarrow> tool_definition" where
  "tool_send_whatsapp_draft d b = tool_of d ''send_whatsapp_draft'' ''outreach'' True
     [(''draft_id'', ''string'', True, None)]
     (handler_of b ''send_whatsapp_draft'' ''send_whatsapp_draft'' True [(''draft_id'', True)])"

definition tool_run_full_pipeline :: "tool_texts \<Rightarrow> tool_bodies \<Rightarrow> tool_definition" where
  "tool_run_full_pipeline d b = tool_of d ''run_full_pipeline'' ''pipeline'' True
     [(''lead_id'', ''string'', True, None)]
     (handler_of b ''run_full_pipeline'' ''run_full_pipeline'' True [(''lead_id'', True)])"

definition tool_run_batch_pipeline :: "tool_texts \<Rightarrow> tool_bodies \<Rightarrow> tool_definition" where
  "tool_run_batch_pipeline d b = tool_of d ''run_batch_pipeline'' ''pipeline'' True
     []
     (handler_of b ''run_batch_pipeline'' ''run_batch_pipeline'' True [])"

definition tool_get_pipeline_status :: "tool_texts \<Rightarrow> tool_bodies \<Rightarrow> tool_definition" where
  "tool_get_pipeline_status d b = tool_of d ''get_pipeline_status'' ''pipeline'' False
     [(''pipeline_run_id'', ''string'', False, None),
        (''limit'', ''integer'', False, None)]
     (handler_of b ''get_pipeline_status'' ''get_pipeline_status'' True [(''pipeline_run_id'', False), (''limit'', False)])"

definition tool_generate_reply_draft :: "tool_texts \<Rightarrow> tool_bodies \<Rightarrow> tool_definition" where
  "tool_generate_reply_draft d b = tool_of d ''generate_reply_draft'' ''replies'' True
     [(''message_id'', ''string'', True, None)]
     (handler_of b ''generate_reply_draft'' ''generate_reply_draft'' True [(''message_id'', True)])"

definition tool_send_reply_draft :: "tool_texts \<Rightarrow> tool_bodies \<Rightarrow> tool_definition" where
  "tool_send_reply_draft d b = tool_of d ''send_reply_draft'' ''replies'' True
     [(''message_id'', ''string'', True, None)]
     (handler_of b ''send_reply_draft'' ''send_reply_draft'' True [(''message_id'', True)])"

definition tool_get_lead_dossier :: "tool_texts \<Rightarrow> tool_bodies \<Rightarrow> tool_definition" where
  "tool_get_lead_dossier d b = tool_of d ''get_lead_dossier'' ''general'' False
     [(''lead_id'', ''string'', True, None)]
     (handler_of b ''get_lead_dossier'' ''get_lead_dossier'' True [(''lead_id'', True)])"

definition tool_run_lead_research :: "tool_texts \<Rightarrow> tool_bodies \<Rightarrow> tool_definition" where
  "tool_run_lead_research d b = tool_of d ''run_lead_research'' ''general'' True
     [(''lead_id'', ''string'', True, None)]
     (handler_of b ''run_lead_research'' ''run_lead_research'' True [(''lead_id'', True)])"

definition tool_get_commercial_brief :: "tool_texts \<Rightarrow> tool_bodies \<Rightarrow> tool_definition" where
  "tool_get_commercial_brief d b = tool_of d ''get_commercial_brief'' ''general'' False
     [(''lead_id'', ''string'', True, None)]
     (handler_of b ''get_commercial_brief'' ''get_commercial_brief'' True [(''lead_id'', True)])"

definition tool_generate_commercial_brief :: "tool_texts \<Rightarrow> tool_bodies \<Rightarrow> tool_definition" where
  "tool_generate_commercial_brief d b = tool_of d ''generate_commercial_brief'' ''general'' True
     [(''lead_id'', ''string'', True, None)]
     (handler_of b ''generate_commercial_brief'' ''generate_lead_brief'' True [(''lead_id'', True)])"

definition tool_export_leads :: "tool_texts \<Rightarrow> tool_bodies \<Rightarrow> tool_definition" where
  "tool_export_leads d b = tool_of d ''export_leads'' ''general'' False
     [(''format'', ''string'', False, (Some [''csv'', ''json'', ''xlsx'']))]
     (handler_of b ''export_leads'' ''export_leads_data'' True [(''format'', False)])"

definition tool_get_investigation_thread :: "tool_texts \<Rightarrow> tool_bodies \<Rightarrow> tool_definition" where
  "tool_get_investigation_thread d b = tool_of d ''get_investigation_thread'' ''research'' False
     [(''lead_id'', ''string'', True, None)]
     (handler_of b ''get_investigation_thread'' ''get_investigation_thread'' True [(''lead_id'', True)])"

definition tool_trigger_scout_investigation :: "tool_texts \<Rightarrow> tool_bodies \<Rightarrow> tool_definition" where
  "tool_trigger_scout_investigation d b = tool_of d ''trigger_scout_investigation'' ''research'' True
     [(''lead_id'', ''string'', True, None)]
     (handler_of b ''trigger_scout_investigation'' ''trigger_scout_investigation'' True [(''lead_id'', True)])"

definition tool_review_lead :: "tool_texts \<Rightarrow> tool_bodies \<Rightarrow> tool_definition" where
  "tool_review_lead d b = tool_of d ''review_lead'' ''reviews'' False
     [(''lead_id'', ''string'', True, None)]
     (handler_of b ''review_lead'' ''review_lead'' True [(''lead_id'', True)])"

definition tool_review_draft :: "tool_texts \<Rightarrow> tool_bodies \<Rightarrow> tool_definition" where
  "tool_review_draft d b = tool_of d ''review_draft'' ''reviews'' False
     [(''draft_id'', ''string'', True, None)]
     (handler_of b ''review_draft'' ''review_draft'' True [(''draft_id'', True)])"

definition tool_get_operational_settings :: "tool_texts \<Rightarrow> tool_bodies \<Rightarrow> tool_definition" where
  "tool_get_operational_settings d b = tool_of d ''get_operational_settings'' ''settings'' False
     []
     (handler_of b ''get_operational_settings'' ''get_operational_settings'' True [])"

definition tool_update_setting :: "tool_texts \<Rightarrow> tool_bodies \<Rightarrow> tool_definition" where
  "tool_update_setting d b = tool_of d ''update_setting'' ''settings'' True
     [(''key'', ''string'', True, (Some safe_settings)),
        (''value'', ''string'', True, None)]
     (handler_of b ''update_setting'' ''update_setting'' True [(''key'', True), (''value'', True)])"

definition tool_get_dashboard_stats :: "tool_texts \<Rightarrow> tool_bodies \<Rightarrow> tool_definition" where
  "tool_get_dashboard_stats d b = tool_of d ''get_dashboard_stats'' ''stats'' False
     []
     (handler_of b ''get_dashboard_stats'' ''get_dashboard_stats'' True [])"

definition tool_get_pipeline_breakdown :: "tool_texts \<Rightarrow> tool_bodies \<Rightarrow> tool_definition" where
  "tool_get_pipeline_breakdown d b = tool_of d ''get_pipeline_breakdown'' ''stats'' False
     []
     (handler_of b ''get_pipeline_breakdown'' ''get_pipeline_breakdown'' True [])"

definition tool_get_industry_breakdown :: "tool_texts \<Rightarrow> tool_bodies \<Rightarrow> tool_definition" where
  "tool_get_industry_breakdown d b = tool_of d ''get_industry_breakdown'' ''stats'' False
     []
     (handler_of b ''get_industry_breakdown'' ''get_industry_breakdown'' True [])"

definition tool_get_city_breakdown :: "tool_texts \<Rightarrow> tool_bodies \<Rightarrow> tool_definition" where
  "tool_get_city_breakdown d b = tool_of d ''get_city_breakdown'' ''stats'' False
     []
     (handler_of b ''get_city_breakdown'' ''get_city_breakdown'' True [])"

definition tool_get_source_performance :: "tool_texts \<Rightarrow> tool_bodies \<Rightarrow> tool_definition" where
  "tool_get_source_performance d b = tool_of d ''get_source_performance'' ''stats'' False
     []
     (handler_of b ''get_source_performance'' ''get_source_performance'' True [])"

definition tool_get_time_series :: "tool_texts \<Rightarrow> tool_bodies \<Rightarrow> tool_definition" where
  "tool_get_time_series d b = tool_of d ''get_time_series'' ''stats'' False
     [(''days'', ''integer'', False, None)]
     (handler_of b ''get_time_series'' ''get_time_series'' True [(''days'', False)])"

definition tool_list_suppression :: "tool_texts \<Rightarrow> tool_bodies \<Rightarrow> tool_definition" where
  "tool_list_suppression d b = tool_of d ''list_suppression'' ''suppression'' False
     [(''limit'', ''integer'', False, None)]
     (handler_of b ''list_suppression'' ''list_suppression'' True [(''limit'', False)])"

definition tool_add_to_suppression :: "tool_texts \<Rightarrow> tool_bodies \<Rightarrow> tool_definition" where
  "tool_add_to_suppression d b = tool_of d ''add_to_suppression'' ''suppression'' True
     [(''email'', ''string'', False, None),
        (''domain'', ''string'', False, None),
        (''reason'', ''string'', False, None)]
     (handler_of b ''add_to_suppression'' ''add_to_suppression'' True [(''email'', False), (''domain'', False), (''reason'', False)])"

definition tool_remove_from_suppression :: "tool_texts \<Rightarrow> tool_bodies \<Rightarrow> tool_definition" where
  "tool_remove_from_suppression d b = tool_of d ''remove_from_suppression'' ''suppression'' True
     [(''entry_id'', ''string'', True, None)]
     (handler_of b ''remove_from_suppression'' ''remove_from_suppression'' True [(''entry_id'', True)])"

definition tool_health_check :: "tool_texts \<Rightarrow> tool_bodies \<Rightarrow> tool_definition" where
  "tool_health_check d b = tool_of d ''health_check'' ''system'' False
     []
     (handler_of b ''health_check'' ''health_check'' True [])"

definition tool_get_current_time :: "tool_texts \<Rightarrow> tool_bodies \<Rightarrow> tool_definition" where
  "tool_get_current_time d b = tool_of d ''get_current_time'' ''system'' False
     []
     (handler_of b ''get_current_time'' ''get_current_time'' False [])"

definition tool_list_territories :: "tool_texts \<Rightarrow> tool_bodies \<Rightarrow> tool_definition" where
  "tool_list_territories d b = tool_of d ''list_territories'' ''territories'' False
     []
     (handler_of b ''list_territories'' ''list_territories'' True [])"

definition tool_create_territory :: "tool_texts \<Rightarrow> tool_bodies \<Rightarrow> tool_definition" where
  "tool_create_territory d b = tool_of d ''create_territory'' ''territories'' True
     [(''name'', ''string'', True, None),
        (''cities'', ''string'', True, None),
        (''description'', ''string'', False, None),
        (''color'', ''string'', False, None)]
     (handler_of b ''create_territory'' ''create_territory'' True [(''name'', True), (''cities'', True), (''description'', False), (''color'', False)])"

definition tool_update_territory :: "tool_texts \<Rightarrow> tool_bodies \<Rightarrow> tool_definition" where
  "tool_update_territory d b = tool_of d ''update_territory'' ''territories'' True
     [(''territory_id'', ''string'', True, None),
        (''name'', ''string'', False, None),
        (''cities'', ''string'', False, None),
        (''description'', ''string'', False, None),
        (''color'', ''string'', False, None),
        (''is_active'', ''string'', False, None)]
     (handler_of b ''update_territory'' ''update_territory'' True [(''territory_id'', True), (''name'', False), (''cities'', False), (''description'', False), (''color'', False), (''is_active'', False)])"

definition tool_delete_territory :: "tool_texts \<Rightarrow> tool_bodies \<Rightarrow> tool_definition" where
  "tool_delete_territory d b = tool_of d ''delete_territory'' ''territories'' True
     [(''territory_id'', ''string'', True, None)]
     (handler_of b ''delete_territory'' ''delete_territory'' True [(''territory_id'', True)])"

text \<open>The registry after all modules are imported.\<close>

definition agent_tools :: "tool_texts \<Rightarrow> tool_bodies \<Rightarrow> tool_definition list" where
  "agent_tools d b =
     [tool_start_territory_crawl d b, tool_get_crawl_status d b, tool_get_system_overview d b,
      tool_list_top_leads d b, tool_get_reply_summary d b, tool_list_recent_activity d b,
      tool_search_leads d b, tool_get_lead_detail d b, tool_count_leads_by_status d b,
      tool_get_lead_journey d b, tool_create_lead d b, tool_update_lead_status d b,
      tool_sync_inbound_mail d b, tool_list_inbound_messages d b, tool_classify_inbound_message d b,
      tool_list_notifications d b, tool_mark_notification_read d b, tool_get_notification_counts d b,
      tool_list_drafts d b, tool_generate_draft d b, tool_approve_draft d b, tool_reject_draft d b,
      tool_send_draft d b, tool_update_draft_content d b, tool_list_outreach_logs d b,
      tool_generate_whatsapp_draft d b, tool_send_whatsapp_draft d b, tool_run_full_pipeline d b,
      tool_run_batch_pipeline d b, tool_get_pipeline_status d b, tool_generate_reply_draft d b,
      tool_send_reply_draft d b, tool_get_lead_dossier d b, tool_run_lead_research d b,
      tool_get_commercial_brief d b, tool_generate_commercial_brief d b, tool_export_leads d b,
      tool_get_investigation_thread d b, tool_trigger_scout_investigation d b, tool_review_lead d b,
      tool_review_draft d b, tool_get_operational_settings d b, tool_update_setting d b,
      tool_get_dashboard_stats d b, tool_get_pipeline_breakdown d b, tool_get_industry_breakdown d b,
      tool_get_city_breakdown d b, tool_get_source_performance d b, tool_get_time_series d b,
      tool_list_suppression d b, tool_add_to_suppression d b, tool_remove_from_suppression d b,
      tool_health_check d b, tool_get_current_time d b, tool_list_territories d b,
      tool_create_territory d b, tool_update_territory d b, tool_delete_territory d b]"

definition agent_registry :: "tool_texts \<Rightarrow> tool_bodies \<Rightarrow> tool_registry" where
  "agent_registry d b = fold register (agent_tools d b) []"

section \<open>Handlers\<close>

definition arg_text :: "string \<Rightarrow> tool_args \<Rightarrow> string option" where
  "arg_text k args = (case map_of args k of Some (JStr t) \<Rightarrow> Some t | _ \<Rightarrow> None)"

definition error_result :: "string \<Rightarrow> json" where
  "error_result e = JObj [(''error'', JStr e)]"

definition not_valid :: "string \<Rightarrow> string" where
  "not_valid what = what @ '' inv'' @ [CHR 0xE1] @ ''lido''"

definition handle_update_draft_content ::
    "tool_args \<Rightarrow> store \<times> store \<Rightarrow> (string + json) \<times> (store \<times> store)" where
  "handle_update_draft_content args st = (case st of (b, s) \<Rightarrow>
     (case py_uuid (text_or_empty (arg_text ''draft_id'' args)) of
        None \<Rightarrow> (Inr (error_result (not_valid ''ID de borrador'')), st)
      | Some k \<Rightarrow> (case update_draft k \<lparr>dc_subject = arg_text ''subject'' args, dc_body = arg_text ''body'' args,
            dc_status = None, dc_feedback = None, dc_actor = ''user''\<rparr> s of
          (None, s') \<Rightarrow> (Inr (error_result ''Borrador no encontrado''), (b, s'))
        | (Some d, s') \<Rightarrow> (Inr (JObj [(''id'', JStr (uuid_str (draft_id d))),
            (''subject'', jstr (draft_subject d)), (''body'', JStr (draft_body d)),
            (''status'', JStr (draft_status_value (draft_status d)))]), (b, s')))))"

definition picked :: "string list \<Rightarrow> (string \<times> json) list \<Rightarrow> json" where
  "picked ks payload = JObj (map (\<lambda>k. (k, get_or k JNull (JObj payload))) ks)"

text \<open>A review: a reviewer that fails raises, and what it left in the session stays.\<close>

definition handle_review ::
    "(uuid \<Rightarrow> store \<Rightarrow> (string + (string \<times> json) list option) \<times> store) \<Rightarrow> string \<Rightarrow> string \<Rightarrow> string list
       \<Rightarrow> tool_args \<Rightarrow> store \<times> store \<Rightarrow> (string + json) \<times> (store \<times> store)" where
  "handle_review review key what ks args st = (case st of (b, s) \<Rightarrow>
     (case py_uuid (text_or_empty (arg_text key args)) of
        None \<Rightarrow> (Inr (error_result (not_valid key @ '': '' @ text_or_empty (arg_text key args))), st)
      | Some k \<Rightarrow> (case review k s of
          (Inl e, s') \<Rightarrow> (Inl e, (b, s'))
        | (Inr None, s') \<Rightarrow> (Inr (error_result (''No se pudo revisar el '' @ what
            @ '' (reviewer desactivado o '' @ what @ '' no encontrado)'')), (b, s'))
        | (Inr (Some payload), s') \<Rightarrow> (Inr (picked ks payload), (b, s')))))"

definition handle_review_lead ::
    "reviewer \<Rightarrow> tool_args \<Rightarrow> store \<times> store \<Rightarrow> (string + json) \<times> (store \<times> store)" where
  "handle_review_lead w = handle_review (review_lead_with_reviewer w) ''lead_id'' ''lead''
     [''verdict'', ''confidence'', ''reasoning'', ''recommended_action'']"

definition handle_review_draft ::
    "reviewer \<Rightarrow> tool_args \<Rightarrow> store \<times> store \<Rightarrow> (string + json) \<times> (store \<times> store)" where
  "handle_review_draft w = handle_review (review_draft_with_reviewer w) ''draft_id'' ''draft''
     [''verdict'', ''confidence'', ''reasoning'', ''suggested_changes'']"

definition handle_classify ::
    "classifier \<Rightarrow> tool_args \<Rightarrow> store \<times> store \<Rightarrow> (string + json) \<times> (store \<times> store)" where
  "handle_classify cf args st = (case st of (b, s) \<Rightarrow>
     (case py_uuid (text_or_empty (arg_text ''message_id'' args)) of
        None \<Rightarrow> (Inr (error_result (not_valid ''ID de mensaje'' @ '' (debe ser UUID)'')), st)
      | Some k \<Rightarrow> (case classify_inbound_message cf b k s of
          (None, s') \<Rightarrow> (Inr (error_result ''Mensaje no encontrado''), (b, s'))
        | (Some m, s') \<Rightarrow> (Inr (JObj [(''id'', JStr (uuid_str (msg_id m))),
            (''classification_label'', jstr (msg_classification_label m)),
            (''confidence'', jfloat (msg_confidence m)), (''summary'', jstr (msg_summary m))]), (b, s')))))"

definition handle_mark_read :: "tool_args \<Rightarrow> store \<times> store \<Rightarrow> (string + json) \<times> (store \<times> store)" where
  "handle_mark_read args st = (case st of (b, s) \<Rightarrow>
     (case py_uuid (text_or_empty (arg_text ''notification_id'' args)) of
        None \<Rightarrow> (Inl ''badly formed hexadecimal UUID string'', st)
      | Some k \<Rightarrow> (case update_notification_status k ''read'' s of
          Inl e \<Rightarrow> (Inl e, st)
        | Inr (None, s') \<Rightarrow> (Inr (error_result (''Notificaci'' @ [CHR 0xF3] @ ''n no encontrada'')), (b, s'))
        | Inr (Some n, s') \<Rightarrow>
            (Inr (JObj [(''id'', JStr (uuid_str (notif_id n))), (''status'', JStr ''read'')]), (b, s')))))"

text \<open>The settings row has neither \<open>to_dict\<close> nor \<open>settings_json\<close>; reading it may create it.\<close>

definition handle_get_settings :: "tool_args \<Rightarrow> store \<times> store \<Rightarrow> (string + json) \<times> (store \<times> store)" where
  "handle_get_settings args st = (case st of (b, s) \<Rightarrow>
     (Inr (JObj [(''id'', JStr ''1''), (''settings'', JObj [])]), (b, snd (get_cached_settings s))))"

record tool_world =
  tw_reviewer :: reviewer
  tw_classifier :: classifier
  tw_reads :: "string \<Rightarrow> tool_args \<Rightarrow> store \<Rightarrow> string + json"
  tw_guarded :: tool_bodies

definition guarded_tools :: "string list" where
  "guarded_tools = [''start_territory_crawl'', ''create_lead'', ''update_lead_status'', ''sync_inbound_mail'',
     ''generate_draft'', ''approve_draft'', ''reject_draft'', ''send_draft'',
     ''generate_whatsapp_draft'', ''send_whatsapp_draft'', ''run_full_pipeline'',
     ''run_batch_pipeline'', ''generate_reply_draft'', ''send_reply_draft'', ''run_lead_research'',
     ''generate_commercial_brief'', ''trigger_scout_investigation'', ''update_setting'',
     ''add_to_suppression'', ''remove_from_suppression'', ''create_territory'',
     ''update_territory'', ''delete_territory'']"

definition bodies_of :: "tool_world \<Rightarrow> tool_bodies" where
  "bodies_of w n args st =
     (if n = ''update_draft_content'' then handle_update_draft_content args st
      else if n = ''review_lead'' then handle_review_lead (tw_reviewer w) args st
      else if n = ''review_draft'' then handle_review_draft (tw_reviewer w) args st
      else if n = ''classify_inbound_message'' then handle_classify (tw_classifier w) args st
      else if n = ''mark_notification_read'' then handle_mark_read args st
      else if n = ''get_operational_settings'' then handle_get_settings args st
      else if n \<in> set guarded_tools then tw_guarded w n args st
      else (tw_reads w n args (snd st), st))"

section \<open>What a turn can change\<close>

text \<open>
  The store without what the handlers above touch, and the drafts without subject and body.
\<close>

definition outside :: "store \<Rightarrow> store" where
  "outside s = s\<lparr>drafts := [], messages := [], corrections := [], notifs := [], ops := None,
     chat_messages := [], tool_calls := [], next_uuid := 0, now := 0\<rparr>"

definition draft_heads :: "store \<Rightarrow> outreach_draft list" where
  "draft_heads s = map (\<lambda>d. d\<lparr>draft_subject := None, draft_body := []\<rparr>) (drafts s)"

definition scope :: "store \<Rightarrow> store \<times> outreach_draft list" where
  "scope s = (outside s, draft_heads s)"

lemma scope_simps [simp]:
  "scope (s\<lparr>messages := ms\<rparr>) = scope s" "scope (s\<lparr>corrections := cs\<rparr>) = scope s"
  "scope (s\<lparr>notifs := ns\<rparr>) = scope s" "scope (s\<lparr>ops := o'\<rparr>) = scope s"
  "scope (s\<lparr>chat_messages := hs\<rparr>) = scope s" "scope (s\<lparr>tool_calls := ts\<rparr>) = scope s"
  "scope (s\<lparr>next_uuid := u\<rparr>) = scope s" "scope (s\<lparr>now := t\<rparr>) = scope s"
  by (simp_all add: scope_def outside_def draft_heads_def)

lemma scope_upd_draft:
  assumes "\<And>d. (f d)\<lparr>draft_subject := None, draft_body := []\<rparr> = d\<lparr>draft_subject := None, draft_body := []\<rparr>"
  shows "scope (upd_draft k f s) = scope s"
proof -
  have "map (\<lambda>d. d\<lparr>draft_subject := None, draft_body := []\<rparr>) (tbl_update draft_id k f ds)
      = map (\<lambda>d. d\<lparr>draft_subject := None, draft_body := []\<rparr>) ds" for ds
    by (induction ds) (simp_all add: assms)
  then show ?thesis by (simp add: scope_def outside_def draft_heads_def upd_draft_def)
qed

lemma scope_rows [simp]:
  "scope (tick_uuid s) = scope s" "scope (upd_message k g s) = scope s"
  "scope (upd_notif k h s) = scope s" "scope (snd (get_cached_settings s)) = scope s"
  "scope (save_message c r x m s) = scope s" "scope (save_tool_call i n a j e st ms s) = scope s"
  by (simp_all add: tick_uuid_def upd_message_def upd_notif_def get_cached_settings_def get_or_create_frame [of s]
      save_message_def save_tool_call_def)

lemma scope_rollback:
  assumes "scope base = scope s"
  shows "scope (rollback_to base s) = scope s"
proof -
  have "dispatched (outside base) = dispatched (outside s)" using assms by (simp add: scope_def)
  then have "dispatched s = dispatched base" by (simp add: outside_def)
  then have "rollback_to base s = base\<lparr>next_uuid := next_uuid s, now := now s\<rparr>"
    by (simp add: rollback_to_def)
  with assms show ?thesis by simp
qed

lemma scope_notif_frame: "notif_frame s s' \<Longrightarrow> scope s' = scope s"
  by (auto simp: notif_frame_def)

lemma scope_emit: "scope base = scope s \<Longrightarrow> scope (emit base a s) = scope s"
proof (cases "lost_race base a (snd (get_or_create s))")
  case True
  moreover assume "scope base = scope s"
  moreover have "scope (snd (get_or_create s)) = scope s" by (simp add: get_or_create_frame [of s])
  ultimately show ?thesis
    using scope_rollback [of base "snd (get_or_create s)"]
    by (simp add: emit_def get_cached_settings_def split_beta Let_def create_notification_def lost_race_def)
next
  case False
  then have "notif_frame s (emit base a s)" by (intro emit_notif_frame) simp
  then show ?thesis by (rule scope_notif_frame)
qed

lemma scope_persist: "scope (persist_corrections k rid t cs m s) = scope s"
proof -
  obtain u rs where "persist_corrections k rid t cs m s = s\<lparr>next_uuid := u, corrections := corrections s @ rs\<rparr>"
    using persisted_corrections by blast
  then show ?thesis by simp
qed

text \<open>Both stores keep their scope.\<close>

definition kept :: "store \<times> store \<Rightarrow> store \<times> store \<Rightarrow> bool" where
  "kept st st' \<longleftrightarrow> fst st' = fst st \<and> scope (snd st') = scope (snd st)"

lemma update_draft_kept: "dc_status c = None \<Longrightarrow> scope (snd (update_draft k c s)) = scope s"
  by (simp add: update_draft_def set_draft_text_def scope_upd_draft split: option.split)

lemma review_lead_kept: "scope (snd (review_lead_with_reviewer w k s)) = scope s"
  using scope_rows(4) [of s]
  by (auto simp: review_lead_with_reviewer_def split_beta Let_def scope_persist split: option.split sum.split)

lemma review_draft_kept: "scope (snd (review_draft_with_reviewer w k s)) = scope s"
  using scope_rows(4) [of s]
  by (auto simp: review_draft_with_reviewer_def split_beta Let_def scope_persist scope_upd_draft revised_draft_def
      split: option.split sum.split)

lemma classify_kept:
  "scope base = scope s \<Longrightarrow> scope (snd (classify_inbound_message cf base k s)) = scope s"
  by (auto simp: classify_inbound_message_def split_beta Let_def on_reply_classified_def scope_emit
      split: option.split sum.split prod.split)

lemma bodies_kept:
  assumes "scope (fst st) = scope (snd st)" "n \<notin> set guarded_tools"
  shows "kept st (snd (bodies_of w n args st))"
proof -
  obtain b s where st: "st = (b, s)" by (cases st)
  note rules = update_draft_kept review_lead_kept review_draft_kept classify_kept
  have upd: "scope s' = scope s" if "update_draft k c s = (r, s')" "dc_status c = None" for k c r s'
    using update_draft_kept [OF that(2), of k s] that(1) by simp
  have rl: "scope s' = scope s" if "review_lead_with_reviewer w k s = (r, s')" for w k r s'
    using review_lead_kept [of w k s] that by simp
  have rd: "scope s' = scope s" if "review_draft_with_reviewer w k s = (r, s')" for w k r s'
    using review_draft_kept [of w k s] that by simp
  have cl: "scope s' = scope s" if "classify_inbound_message cf b k s = (r, s')" for cf k r s'
    using classify_kept [of b s cf k] assms(1) that by (simp add: st)
  have "kept st (snd (handle_update_draft_content args st))"
    by (auto simp: kept_def st handle_update_draft_content_def upd split: option.split prod.split)
  moreover have "kept st (snd (handle_review_lead w' args st))" for w'
    by (auto simp: kept_def st handle_review_lead_def handle_review_def rl
        split: option.split sum.split prod.split)
  moreover have "kept st (snd (handle_review_draft w' args st))" for w'
    by (auto simp: kept_def st handle_review_draft_def handle_review_def rd
        split: option.split sum.split prod.split)
  moreover have "kept st (snd (handle_classify cf args st))" for cf
    by (auto simp: kept_def st handle_classify_def cl split: option.split prod.split)
  moreover have "kept st (snd (handle_mark_read args st))"
    by (auto simp: kept_def st handle_mark_read_def update_notification_status_def Let_def
        split: option.splits sum.splits)
  moreover have "kept st (snd (handle_get_settings args st))"
    by (simp add: kept_def st handle_get_settings_def)
  ultimately show ?thesis
    using assms(2) by (simp add: bodies_of_def kept_def)
qed

text \<open>Every registration runs the body of its name, and asks for confirmation as listed.\<close>

definition as_listed :: "tool_bodies \<Rightarrow> string \<Rightarrow> tool_definition \<Rightarrow> bool" where
  "as_listed b n t \<longleftrightarrow> (\<forall>h. td_handler t = Some h \<longrightarrow> th_run h = b n)
     \<and> td_requires_confirmation t = (n \<in> set guarded_tools)"

lemma as_listed_tool_of:
  "as_listed b n' (tool_of d n c confirm ps (handler_of b n' f db kws))
     \<longleftrightarrow> confirm = (n' \<in> set guarded_tools)"
  by (auto simp: as_listed_def tool_of_def handler_of_def)

lemma td_name_tool_of: "td_name (tool_of d n c confirm ps h) = n"
  by (simp add: tool_of_def)

lemmas tool_defs =
  tool_start_territory_crawl_def tool_get_crawl_status_def tool_get_system_overview_def
  tool_list_top_leads_def tool_get_reply_summary_def tool_list_recent_activity_def
  tool_search_leads_def tool_get_lead_detail_def tool_count_leads_by_status_def
  tool_get_lead_journey_def tool_create_lead_def tool_update_lead_status_def
  tool_sync_inbound_mail_def tool_list_inbound_messages_def tool_classify_inbound_message_def
  tool_list_notifications_def tool_mark_notification_read_def tool_get_notification_counts_def
  tool_list_drafts_def tool_generate_draft_def tool_approve_draft_def tool_reject_draft_def
  tool_send_draft_def tool_update_draft_content_def tool_list_outreach_logs_def
  tool_generate_whatsapp_draft_def tool_send_whatsapp_draft_def tool_run_full_pipeline_def
  tool_run_batch_pipeline_def tool_get_pipeline_status_def tool_generate_reply_draft_def
  tool_send_reply_draft_def tool_get_lead_dossier_def tool_run_lead_research_def
  tool_get_commercial_brief_def tool_generate_commercial_brief_def tool_export_leads_def
  tool_get_investigation_thread_def tool_trigger_scout_investigation_def tool_review_lead_def
  tool_review_draft_def tool_get_operational_settings_def tool_update_setting_def
  tool_get_dashboard_stats_def tool_get_pipeline_breakdown_def tool_get_industry_breakdown_def
  tool_get_city_breakdown_def tool_get_source_performance_def tool_get_time_series_def
  tool_list_suppression_def tool_add_to_suppression_def tool_remove_from_suppression_def
  tool_health_check_def tool_get_current_time_def tool_list_territories_def
  tool_create_territory_def tool_update_territory_def tool_delete_territory_def

lemma agent_tools_listed: "t \<in> set (agent_tools d b) \<Longrightarrow> as_listed b (td_name t) t"
proof -
  have "list_all (\<lambda>t. as_listed b (td_name t) t) (agent_tools d b)"
    unfolding agent_tools_def tool_defs list.pred_inject
    by (simp only: td_name_tool_of as_listed_tool_of) (simp add: guarded_tools_def)
  then show "t \<in> set (agent_tools d b) \<Longrightarrow> as_listed b (td_name t) t" by (simp add: list_all_iff)
qed

lemma set_assoc_set: "p \<in> set (assoc_set k v kvs) \<Longrightarrow> p = (k, v) \<or> p \<in> set kvs"
  by (induction kvs) (auto split: if_splits)

lemma registered:
  "(n, t) \<in> set (fold register ts reg) \<Longrightarrow> (n, t) \<in> set reg
     \<or> (\<exists>u \<in> set ts. n = td_name u \<and> (t = u \<or> t = u\<lparr>td_takes_db := True\<rparr>))"
proof (induction ts arbitrary: reg)
  case (Cons u ts)
  from Cons.IH [of "register u reg"] Cons.prems show ?case
    by (auto simp: register_def Let_def dest!: set_assoc_set split: option.splits if_splits)
qed simp

lemma agent_registry_listed:
  "registry_get (agent_registry d b) n = Some t \<Longrightarrow> as_listed b n t"
proof -
  assume "registry_get (agent_registry d b) n = Some t"
  then have "(n, t) \<in> set (fold register (agent_tools d b) [])"
    by (simp add: registry_get_def agent_registry_def map_of_SomeD)
  then obtain u where "u \<in> set (agent_tools d b)" "n = td_name u" "t = u \<or> t = u\<lparr>td_takes_db := True\<rparr>"
    by (auto dest: registered)
  with agent_tools_listed [of u d b] show ?thesis by (auto simp: as_listed_def)
qed

lemma execute_tool_kept:
  assumes "scope (fst st) = scope (snd st)" "\<not> needs_confirmation (agent_registry d (bodies_of w)) n"
  shows "kept st (snd (execute_tool py (agent_registry d (bodies_of w)) n args st))"
proof (cases "registry_get (agent_registry d (bodies_of w)) n")
  case (Some t)
  note l = agent_registry_listed [OF Some]
  then have g: "n \<notin> set guarded_tools" using assms(2) Some by (simp add: needs_confirmation_def as_listed_def)
  show ?thesis
  proof (cases "td_handler t")
    case h: (Some h)
    then have "th_run h = bodies_of w n" using l by (simp add: as_listed_def)
    then have "kept st st'" if "th_run h args' st = (r, st')" for args' r st'
      using bodies_kept [OF assms(1) g, of w args'] that by simp
    with Some h show ?thesis
      by (auto simp: execute_tool_def Let_def kept_def split: sum.split option.split prod.split)
  qed (use Some in \<open>simp add: execute_tool_def kept_def\<close>)
qed (simp add: execute_tool_def kept_def)

definition scoped :: "store \<times> outreach_draft list \<Rightarrow> turn \<Rightarrow> bool" where
  "scoped f t \<longleftrightarrow> scope (tn_base t) = f \<and> scope (tn_session t) = f"

lemma scoped_simps [simp]:
  "scoped f (yield_event e t) = scoped f t" "scoped f (t\<lparr>tn_raised := x\<rparr>) = scoped f t"
  "scoped f t \<Longrightarrow> scoped f (commit_turn env t)"
  "scoped f t \<Longrightarrow> scoped f (in_session (save_message c r y m) t)"
  "scoped f t \<Longrightarrow> scoped f (in_session (save_tool_call i n a j e' st ms) t)"
  "scoped f t \<Longrightarrow> scoped f (in_session tick_uuid t)"
  by (auto simp: scoped_def yield_event_def commit_turn_def in_session_def Let_def)

lemma run_tool_call_scoped:
  assumes "scoped f t"
  shows "scoped f (snd (run_tool_call env (agent_registry d (bodies_of w)) m q t))"
proof (cases "needs_confirmation (agent_registry d (bodies_of w)) (tcr_name q)")
  case True
  with assms show ?thesis by (simp add: run_tool_call_def Let_def)
next
  case False
  define t2 where "t2 = yield_event (ToolStart (tcr_name q) (next_uuid (tn_session t)) (tcr_arguments q))
      (in_session tick_uuid t)"
  have t2: "scoped f t2" using assms by (simp add: t2_def)
  obtain r e b s where x: "execute_tool (ag_py env) (agent_registry d (bodies_of w)) (tcr_name q)
      (tcr_arguments q) (tn_base t2, tn_session t2) = ((r, e), (b, s))" by (metis prod.collapse)
  have "kept (tn_base t2, tn_session t2) (b, s)"
    using execute_tool_kept [of "(tn_base t2, tn_session t2)" d w "tcr_name q" "ag_py env" "tcr_arguments q"]
      t2 False x by (simp add: scoped_def)
  then have "scoped f (t2\<lparr>tn_base := b, tn_session := s\<rparr>)"
    using t2 by (simp add: scoped_def kept_def)
  with False x show ?thesis
    by (simp add: run_tool_call_def Let_def t2_def [symmetric])
qed

lemma run_tool_calls_scoped:
  "scoped f t \<Longrightarrow> scoped f (snd (run_tool_calls env (agent_registry d (bodies_of w)) m qs t))"
  by (induction qs arbitrary: t) (simp_all add: case_prod_unfold Let_def run_tool_call_scoped)

lemma deltas_scoped: "scoped f (fold (\<lambda>x. yield_event (TextDelta x)) xs t) = scoped f t"
  by (induction xs arbitrary: t) simp_all

lemma agent_loop_scoped:
  "scoped f t \<Longrightarrow> scoped f (agent_loop env (agent_registry d (bodies_of w)) c n asked t)"
proof (induction n arbitrary: asked t)
  case (Suc n)
  show ?case
    unfolding agent_loop.simps case_prod_unfold Let_def
    using Suc.prems
    by (auto split: stream_end.split intro!: Suc.IH run_tool_calls_scoped scoped_simps(3,4)
        simp: deltas_scoped save_answer_def)
qed simp



lemma demo_draft_text: "py_uuid ''00000000-0000-0000-0000-000000000006'' = Some 6"
  by code_simp


end
