(* ===== verification/Agent_Chat.thy ===== *)
theory Agent_Chat
  imports Agent_Core
begin

text \<open>
  The conversations around the agent's turns: the chat service
  (\<open>app/services/chat/chat_service.py\<close>), the web endpoints with their event stream
  (\<open>app/api/v1/chat.py\<close>) and the router for Telegram and WhatsApp
  (\<open>app/agent/channel_router.py\<close>).
\<close>

section \<open>Conversations\<close>

definition get_conversation :: "store \<Rightarrow> uuid \<Rightarrow> conversation option" where
  "get_conversation s k = tbl_get conv_id (conversations s) k"

definition stamp_conversation :: "store \<Rightarrow> (conversation \<Rightarrow> conversation) \<Rightarrow> conversation \<Rightarrow> conversation" where
  "stamp_conversation s f r = (if f r = r then r else (f r)\<lparr>conv_updated_at := now s\<rparr>)"

definition upd_conversation :: "uuid \<Rightarrow> (conversation \<Rightarrow> conversation) \<Rightarrow> store \<Rightarrow> store" where
  "upd_conversation k f s =
     s\<lparr>conversations := tbl_update conv_id k (stamp_conversation s f) (conversations s)\<rparr>"

definition new_conversation :: "string \<Rightarrow> string option \<Rightarrow> store \<Rightarrow> conversation" where
  "new_conversation channel channel_id s = \<lparr>conv_id = next_uuid s, conv_channel = channel,
     conv_channel_id = channel_id, conv_title = None, conv_is_active = True, conv_created_at = now s,
     conv_updated_at = now s\<rparr>"

definition create_conversation :: "string \<Rightarrow> string option \<Rightarrow> store \<Rightarrow> conversation \<times> store" where
  "create_conversation channel channel_id s = (let r = new_conversation channel channel_id s in
     (r, tick_uuid (s\<lparr>conversations := conversations s @ [r]\<rparr>)))"

definition messages_of :: "store \<Rightarrow> uuid \<Rightarrow> chat_message list" where
  "messages_of s k = filter (\<lambda>m. cmsg_conversation_id m = k) (chat_messages s)"

text \<open>One row of the list: conversation, number of messages, time of the last one.\<close>

record conversation_summary =
  cs_id :: uuid
  cs_title :: "string option"
  cs_message_count :: nat
  cs_last_message_at :: "datetime option"
  cs_created_at :: datetime

definition conversation_row :: "store \<Rightarrow> conversation \<Rightarrow> conversation_summary" where
  "conversation_row s r = (let ts = map cmsg_created_at (messages_of s (conv_id r)) in
     \<lparr>cs_id = conv_id r, cs_title = conv_title r, cs_message_count = length ts,
      cs_last_message_at = (case ts of [] \<Rightarrow> None | t # us \<Rightarrow> Some (fold max us t)),
      cs_created_at = conv_created_at r\<rparr>)"

definition list_conversations :: "string option \<Rightarrow> nat \<Rightarrow> store \<Rightarrow> conversation_summary list" where
  "list_conversations channel limit s = map (conversation_row s)
     (take limit (sort_key (\<lambda>r. - conv_updated_at r)
       (filter (\<lambda>r. conv_is_active r \<and> (truthy channel \<longrightarrow> Some (conv_channel r) = channel))
         (conversations s))))"

definition delete_conversation :: "uuid \<Rightarrow> store \<Rightarrow> bool \<times> store" where
  "delete_conversation k s = (case get_conversation s k of
     None \<Rightarrow> (False, s)
   | Some r \<Rightarrow> (True, upd_conversation k (\<lambda>r. r\<lparr>conv_is_active := False\<rparr>) s))"

definition get_messages :: "store \<Rightarrow> uuid \<Rightarrow> nat \<Rightarrow> chat_message list" where
  "get_messages s k limit = take limit (sort_key cmsg_created_at (messages_of s k))"

definition generate_title :: "string \<Rightarrow> string" where
  "generate_title first = (let clean = strip first in
     if length clean \<le> 40 then clean else take 37 clean @ ''...'')"

definition update_conversation_title :: "uuid \<Rightarrow> string \<Rightarrow> store \<Rightarrow> store" where
  "update_conversation_title k title s = (case get_conversation s k of
     None \<Rightarrow> s
   | Some r \<Rightarrow> if truthy (conv_title r) then s
       else upd_conversation k (\<lambda>r. r\<lparr>conv_title := Some title\<rparr>) s)"

section \<open>Web endpoints\<close>

text \<open>An answer: status code or result, and what is committed.\<close>

definition create_endpoint :: "store \<Rightarrow> conversation \<times> store" where
  "create_endpoint s = create_conversation ''web'' None s"

definition delete_endpoint :: "uuid \<Rightarrow> store \<Rightarrow> (nat + unit) \<times> store" where
  "delete_endpoint k s = (case delete_conversation k s of
     (False, s') \<Rightarrow> (Inl 404, s) | (True, s') \<Rightarrow> (Inr (), s'))"

definition get_detail ::
    "uuid \<Rightarrow> store \<Rightarrow> nat + conversation \<times> (chat_message \<times> tool_call_row list) list" where
  "get_detail k s = (case get_conversation s k of
     None \<Rightarrow> Inl 404
   | Some r \<Rightarrow> Inr (r, map (\<lambda>m. (m, filter (\<lambda>t. tc_message_id t = cmsg_id m) (tool_calls s)))
       (get_messages s k 100)))"

text \<open>The frames of the event stream; \<open>ensure_ascii\<close> is off except for the identifiers.\<close>

definition sse :: "string \<Rightarrow> string \<Rightarrow> string" where
  "sse event data = ''event: '' @ event @ [CHR 10] @ ''data: '' @ data @ [CHR 10, CHR 10]"

definition event_frame :: "(pyfloat \<Rightarrow> string) \<Rightarrow> agent_event \<Rightarrow> string" where
  "event_frame fr e = (case e of
     TextDelta x \<Rightarrow> sse ''text_delta'' (json_raw fr (JObj [(''content'', JStr x)]))
   | ToolStart n i args \<Rightarrow> sse ''tool_start'' (json_raw fr (JObj [(''tool_name'', JStr n),
       (''tool_call_id'', JStr (uuid_str i)), (''arguments'', JObj args)]))
   | ToolResult i n r err \<Rightarrow> sse ''tool_result'' (json_raw fr (JObj [(''tool_call_id'', JStr (uuid_str i)),
       (''tool_name'', JStr n), (''result'', r), (''error'', jstr err)]))
   | ConfirmationRequired n i args d \<Rightarrow> sse ''confirmation_required'' (json_raw fr (JObj [
       (''tool_name'', JStr n), (''tool_call_id'', JStr (uuid_str i)), (''arguments'', JObj args),
       (''description'', JStr d)]))
   | TurnComplete m \<Rightarrow> sse ''turn_complete'' (json_dumps fr (JObj [(''message_id'', JStr (uuid_str m))]))
   | AgentError x \<Rightarrow> sse ''error'' (json_raw fr (JObj [(''error'', JStr x)])))"

text \<open>
  Sending a message: the stream, and what is committed when it has been read to the end; what a
  turn that raised left in the session is dropped.
\<close>

definition send_message ::
    "agent_env \<Rightarrow> tool_registry \<Rightarrow> uuid \<Rightarrow> string \<Rightarrow> store \<Rightarrow> (nat + string list) \<times> store" where
  "send_message env reg k content s = (case get_conversation s k of
     None \<Rightarrow> (Inl 404, s)
   | Some r \<Rightarrow>
       let s1 = (if truthy (conv_title r) then s
            else update_conversation_title k (generate_title content) s);
           t = run_agent_turn env reg k content s1;
           frames = map (event_frame (pt_float (ag_py env)) \<circ> fst) (tn_events t)
       in (Inr (frames @ (case tn_raised t of None \<Rightarrow> []
             | Some e \<Rightarrow> [sse ''error'' (json_dumps (pt_float (ag_py env)) (JObj [(''error'', JStr e)]))])),
           rollback_to (tn_base t) (tn_session t)))"

section \<open>Other channels\<close>

definition max_response_length :: "string \<Rightarrow> nat" where
  "max_response_length channel = (if channel = ''telegram'' then 4096 else if channel = ''whatsapp'' then 1024
     else if channel = ''web'' then 10000 else 4096)"

text \<open>On Telegram and WhatsApp the newest active conversation of any channel is joined.\<close>

definition find_or_create_conversation :: "string \<Rightarrow> string \<Rightarrow> store \<Rightarrow> conversation \<times> store" where
  "find_or_create_conversation channel channel_id s =
     (case sort_key (\<lambda>r. - conv_updated_at r) (filter (\<lambda>r. conv_is_active r
         \<and> (channel = ''web'' \<longrightarrow> conv_channel r = ''web'' \<and> conv_channel_id r = Some channel_id))
         (conversations s)) of
        r # rs \<Rightarrow> (r, s)
      | [] \<Rightarrow> create_conversation channel (Some channel_id) s)"

definition text_parts :: "agent_event list \<Rightarrow> string list" where
  "text_parts es = concat (map (\<lambda>e. case e of TextDelta x \<Rightarrow> [x]
     | AgentError x \<Rightarrow> [[CHR 10] @ ''X Error: '' @ x] | _ \<Rightarrow> []) es)"

definition confirmation_parts :: "agent_event list \<Rightarrow> string list" where
  "confirmation_parts es = concat (map (\<lambda>e. case e of
       ConfirmationRequired n i args d \<Rightarrow> [''! '' @ d @ [CHR 10] @ ''Respond'' @ [CHR 0xE9]
         @ '' SI para confirmar o NO para cancelar.'']
     | _ \<Rightarrow> []) es)"

definition channel_response :: "string \<Rightarrow> agent_event list \<Rightarrow> string" where
  "channel_response channel es =
     (let confirmations = confirmation_parts es;
          r = (if confirmations \<noteq> [] then join [CHR 10, CHR 10] confirmations
               else strip (concat (text_parts es)));
          r = (if r = [] then ''No pude procesar tu mensaje. Intent'' @ [CHR 0xE1] @ '' de nuevo.'' else r);
          limit = max_response_length channel
      in if limit < length r then take (limit - 3) r @ ''...'' else r)"

text \<open>
  A turn that raises a \<open>RuntimeError\<close> is run again, any other exception goes to the caller; here an
  exception ends the call with its text.
\<close>

definition handle_channel_message ::
    "agent_env \<Rightarrow> tool_registry \<Rightarrow> string \<Rightarrow> string \<Rightarrow> string \<Rightarrow> store \<Rightarrow> (string + string) \<times> store" where
  "handle_channel_message env reg channel channel_id text s =
     (let (r, s1) = find_or_create_conversation channel channel_id s;
          t = run_agent_turn env reg (conv_id r) text s1;
          s2 = rollback_to (tn_base t) (tn_session t)
      in case tn_raised t of
        Some e \<Rightarrow> (Inl e, s2)
      | None \<Rightarrow> (Inr (channel_response channel (map fst (tn_events t))), s2))"

section \<open>Properties\<close>

text \<open>
  What is sent to a channel is never empty and never longer than the channel allows; when the
  model wants anything confirmed, the answer consists of these requests only, and the text and the
  errors of the turn are not shown.
\<close>

theorem channel_response_fits:
  "channel_response channel es \<noteq> []
   \<and> length (channel_response channel es) \<le> max_response_length channel
   \<and> (confirmation_parts es \<noteq> [] \<longrightarrow>
        channel_response channel es = channel_response channel
          (filter (\<lambda>e. case e of ConfirmationRequired n i args d \<Rightarrow> True | _ \<Rightarrow> False) es))"
proof -
  have f: "confirmation_parts (filter (\<lambda>e. case e of ConfirmationRequired n i args d \<Rightarrow> True | _ \<Rightarrow> False) es)
      = confirmation_parts es"
    by (induction es) (auto simp: confirmation_parts_def split: agent_event.splits)
  have l: "1024 \<le> max_response_length channel" by (simp add: max_response_length_def)
  have "channel_response channel es \<noteq> []" by (auto simp: channel_response_def Let_def)
  moreover have "length (channel_response channel es) \<le> max_response_length channel"
    using l by (auto simp: channel_response_def Let_def)
  moreover have "confirmation_parts es \<noteq> [] \<Longrightarrow> channel_response channel es = channel_response channel
      (filter (\<lambda>e. case e of ConfirmationRequired n i args d \<Rightarrow> True | _ \<Rightarrow> False) es)"
    using f by (simp add: channel_response_def)
  ultimately show ?thesis by blast
qed

lemma generate_title_fits: "length (generate_title t) \<le> 40"
  by (simp add: generate_title_def Let_def)

text \<open>A message does not refresh its conversation, so the newest one is the one last created or titled.\<close>

lemma message_keeps_conversations: "conversations (save_message c role content m s) = conversations s"
  by (simp add: save_message_def tick_uuid_def)

end
